(* ===== verification/Bake_Prelude.thy ===== *)
theory Bake_Prelude
  imports Main "HOL-Library.Word"
begin

text \<open>
  Shared vocabulary of the development: machine integer types, the return codes of
  \<^verbatim>\<open>include/bake.h\<close>, the collections of simplification rules, and generic lemmas on lists,
  bytes and words that the component theories use.
\<close>

unbundle bit_operations_syntax

named_theorems bake_err_defs \<comment> \<open>the numeric values of the return codes\<close>
named_theorems align_simps \<comment> \<open>rounding to block boundaries, read as natural numbers\<close>
named_theorems slice_simps \<comment> \<open>reading an extent back from an updated byte store\<close>

type_synonym byte = "8 word"
type_synonym u16 = "16 word"
type_synonym u32 = "32 word"
type_synonym u64 = "64 word"

text \<open>
  A C string is the list of its bytes before the terminating NUL. Literals are written as
  Isabelle strings and converted by \<open>bytes_of_string\<close>.
\<close>

type_synonym cstring = "byte list"

definition bytes_of_string :: "string \<Rightarrow> cstring" where
  "bytes_of_string s = map (\<lambda>c. of_nat (of_char c)) s"

section \<open>Return codes (include/bake.h)\<close>

definition BAKE_SUCCESS :: int where [bake_err_defs]: "BAKE_SUCCESS = 0"
definition BAKE_ERR_ALLOCATION :: int where [bake_err_defs]: "BAKE_ERR_ALLOCATION = -1"
definition BAKE_ERR_INVALID_ARG :: int where [bake_err_defs]: "BAKE_ERR_INVALID_ARG = -2"
definition BAKE_ERR_MERCURY :: int where [bake_err_defs]: "BAKE_ERR_MERCURY = -3"
definition BAKE_ERR_ARGOBOTS :: int where [bake_err_defs]: "BAKE_ERR_ARGOBOTS = -4"
definition BAKE_ERR_PMEM :: int where [bake_err_defs]: "BAKE_ERR_PMEM = -5"
definition BAKE_ERR_UNKNOWN_TARGET :: int where [bake_err_defs]: "BAKE_ERR_UNKNOWN_TARGET = -6"
definition BAKE_ERR_UNKNOWN_PROVIDER :: int where [bake_err_defs]: "BAKE_ERR_UNKNOWN_PROVIDER = -7"
definition BAKE_ERR_UNKNOWN_REGION :: int where [bake_err_defs]: "BAKE_ERR_UNKNOWN_REGION = -8"
definition BAKE_ERR_OUT_OF_BOUNDS :: int where [bake_err_defs]: "BAKE_ERR_OUT_OF_BOUNDS = -9"
definition BAKE_ERR_REMI :: int where [bake_err_defs]: "BAKE_ERR_REMI = -10"
definition BAKE_ERR_OP_UNSUPPORTED :: int where [bake_err_defs]: "BAKE_ERR_OP_UNSUPPORTED = -11"
definition BAKE_ERR_FORBIDDEN :: int where [bake_err_defs]: "BAKE_ERR_FORBIDDEN = -12"
definition BAKE_ERR_BACKEND_TYPE :: int where [bake_err_defs]: "BAKE_ERR_BACKEND_TYPE = -13"
definition BAKE_ERR_IO :: int where [bake_err_defs]: "BAKE_ERR_IO = -14"
definition BAKE_ERR_NOENT :: int where [bake_err_defs]: "BAKE_ERR_NOENT = -15"
definition BAKE_ERR_EXIST :: int where [bake_err_defs]: "BAKE_ERR_EXIST = -16"
definition BAKE_ERR_NOMEM :: int where [bake_err_defs]: "BAKE_ERR_NOMEM = -17"
definition BAKE_ERR_END :: int where [bake_err_defs]: "BAKE_ERR_END = -18"

section \<open>Identifiers (include/bake.h)\<close>

text \<open>
  A target id is a 16 byte uuid. A region id is a 32 bit type and 16 opaque bytes whose
  meaning belongs to the backend; \<open>sizeof (bake_region_id_t)\<close> is 20.
\<close>

type_synonym bake_target_id = "byte list"

definition BAKE_REGION_ID_DATA_SIZE :: nat where
  "BAKE_REGION_ID_DATA_SIZE = 16"

record bake_region_id =
  rid_type :: u32
  rid_data :: "byte list"

definition wf_rid :: "bake_region_id \<Rightarrow> bool" where
  "wf_rid r \<longleftrightarrow> length (rid_data r) = BAKE_REGION_ID_DATA_SIZE"

section \<open>Memory images of integers (little endian)\<close>

definition le_bytes :: "nat \<Rightarrow> 'a::len word \<Rightarrow> byte list" where
  "le_bytes n w = map (\<lambda>i. ucast (drop_bit (8 * i) w)) [0..<n]"

fun of_le_bytes :: "byte list \<Rightarrow> 'a::len word" where
  "of_le_bytes [] = 0"
| "of_le_bytes (b # bs) = ucast b OR push_bit 8 (of_le_bytes bs)"

lemma length_le_bytes [simp]: "length (le_bytes n w) = n"
  by (simp add: le_bytes_def)

lemma le_bytes_0 [simp]: "le_bytes 0 w = []"
  by (simp add: le_bytes_def)

lemma le_bytes_Suc: "le_bytes (Suc n) w = ucast w # le_bytes n (drop_bit 8 w)"
proof -
  have "[0..<Suc n] = 0 # map Suc [0..<n]"
    by (simp add: map_Suc_upt upt_conv_Cons)
  then show ?thesis
    by (simp add: le_bytes_def add.commute)
qed

lemma of_le_bytes_le_bytes:
  "of_le_bytes (le_bytes n (w :: 'a::len word)) = take_bit (8 * n) w"
proof (induction n arbitrary: w)
  case 0
  then show ?case by simp
next
  case (Suc n)
  have "ucast (ucast w :: byte) OR push_bit 8 (take_bit (8 * n) (drop_bit 8 w))
      = take_bit (8 * Suc n) w"
    by (rule bit_word_eqI) (auto simp: bit_simps)
  with Suc show ?case by (simp add: le_bytes_Suc)
qed

lemma of_le_bytes_inverse:
  "LENGTH('a) \<le> 8 * n \<Longrightarrow> of_le_bytes (le_bytes n (w :: 'a::len word)) = w"
  by (simp add: of_le_bytes_le_bytes take_bit_word_eq_self)

lemma of_le_bytes_inverse_u32 [simp]: "of_le_bytes (le_bytes 4 (w :: u32)) = w"
  by (rule of_le_bytes_inverse) simp

lemma of_le_bytes_inverse_u64 [simp]: "of_le_bytes (le_bytes 8 (w :: u64)) = w"
  by (rule of_le_bytes_inverse) simp

text \<open>Equality of bytes by their eight bits; masks given as numerals then evaluate.\<close>

lemma less_8_cases:
  "n < (8::nat) \<Longrightarrow> n = 0 \<or> n = 1 \<or> n = 2 \<or> n = 3 \<or> n = 4 \<or> n = 5 \<or> n = 6 \<or> n = 7"
  by arith

lemma byte_eqI:
  fixes a b :: byte
  assumes "bit a 0 = bit b 0" "bit a 1 = bit b 1" "bit a 2 = bit b 2" "bit a 3 = bit b 3"
    "bit a 4 = bit b 4" "bit a 5 = bit b 5" "bit a 6 = bit b 6" "bit a 7 = bit b 7"
  shows "a = b"
  using assms by (intro bit_word_eqI) (auto dest!: less_8_cases)

lemma byte_disjunctive_add:
  fixes a b :: byte
  assumes "\<not> (bit a 0 \<and> bit b 0)" "\<not> (bit a 1 \<and> bit b 1)" "\<not> (bit a 2 \<and> bit b 2)"
    "\<not> (bit a 3 \<and> bit b 3)" "\<not> (bit a 4 \<and> bit b 4)" "\<not> (bit a 5 \<and> bit b 5)"
    "\<not> (bit a 6 \<and> bit b 6)" "\<not> (bit a 7 \<and> bit b 7)"
  shows "a + b = a OR b"
proof (rule disjunctive_add)
  fix n
  show "\<not> bit a n \<or> \<not> bit b n"
  proof (cases "n < 8")
    case True
    with assms show ?thesis by (auto dest!: less_8_cases)
  next
    case False
    then show ?thesis by (simp add: bit_word.rep_eq)
  qed
qed

section \<open>Extents of byte lists\<close>

definition extent :: "nat \<Rightarrow> nat \<Rightarrow> (nat \<Rightarrow> byte) \<Rightarrow> byte list" where
  "extent off n f = map (\<lambda>i. f (off + i)) [0..<n]"

lemma length_extent [simp]: "length (extent off n f) = n"
  by (simp add: extent_def)

lemma nth_extent [simp]: "i < n \<Longrightarrow> extent off n f ! i = f (off + i)"
  by (simp add: extent_def)

lemma extent_0 [simp]: "extent off 0 f = []"
  by (simp add: extent_def)

lemma extent_cong:
  "(\<And>i. i < n \<Longrightarrow> f (off + i) = g (off' + i)) \<Longrightarrow> extent off n f = extent off' n g"
  by (simp add: extent_def)

lemma extent_eq_iff: "extent off n f = xs \<longleftrightarrow> length xs = n \<and> (\<forall>i<n. f (off + i) = xs ! i)"
  by (auto simp: list_eq_iff_nth_eq)

lemma extent_append: "extent off m f @ extent (off + m) n f = extent off (m + n) f"
  by (rule nth_equalityI) (auto simp: nth_append)

lemma take_extent: "take k (extent off n f) = extent off (min k n) f"
  by (rule nth_equalityI) auto

lemma drop_extent: "drop k (extent off n f) = extent (off + k) (n - k) f"
  by (rule nth_equalityI) (auto simp: add.assoc)

text \<open>The byte store \<open>f\<close> with \<open>d\<close> written at \<open>off\<close>.\<close>

definition overlay :: "nat \<Rightarrow> byte list \<Rightarrow> (nat \<Rightarrow> byte) \<Rightarrow> nat \<Rightarrow> byte" where
  "overlay off d f p = (if off \<le> p \<and> p < off + length d then d ! (p - off) else f p)"

lemma overlay_outside [slice_simps]: "p < off \<or> off + length d \<le> p \<Longrightarrow> overlay off d f p = f p"
  by (auto simp: overlay_def)

lemma overlay_Nil [simp]: "overlay off [] f = f"
  by (rule ext) (auto simp: overlay_def)

lemma overlay_inside [slice_simps]: "i < length d \<Longrightarrow> overlay off d f (off + i) = d ! i"
  by (simp add: overlay_def)

lemma extent_overlay_disjoint [slice_simps]:
  "o1 + n \<le> off \<or> off + length d \<le> o1 \<Longrightarrow> extent o1 n (overlay off d f) = extent o1 n f"
  by (rule extent_cong) (auto simp: overlay_def)

lemma extent_overlay_prefix [slice_simps]:
  "n \<le> length d \<Longrightarrow> extent off n (overlay off d f) = take n d"
  by (rule nth_equalityI) (auto simp: overlay_def)

lemma overlay_append:
  "overlay off (d @ e) f = overlay (off + length d) e (overlay off d f)"
  by (rule ext) (auto simp: overlay_def nth_append)

section \<open>The interface of a codec\<close>

locale byte_codec =
  fixes enc :: "'a \<Rightarrow> byte list" and dec :: "byte list \<Rightarrow> 'a option" and valid :: "'a \<Rightarrow> bool"
  assumes dec_enc: "valid x \<Longrightarrow> dec (enc x) = Some x"
begin

lemma enc_injective: "valid x \<Longrightarrow> valid y \<Longrightarrow> enc x = enc y \<Longrightarrow> x = y"
  by (metis dec_enc option.inject)

lemma decoded_iff: "valid x \<Longrightarrow> bs = enc x \<Longrightarrow> dec bs = Some y \<longleftrightarrow> x = y"
  by (simp add: dec_enc)

end

end
