(* ===== verification/Base64.thy ===== *)
theory Base64
  imports Bake_Prelude
begin

text \<open>
  The base64 codec of \<^verbatim>\<open>src/base64/encode.c\<close> and \<^verbatim>\<open>src/base64/decode.c\<close>. The loops keep the
  code's state: the input still to be read, the group \<open>tmp\<close> collected so far and the output
  written so far. All buffers are lists of bytes; the \<open>unsigned char\<close> stores wrap at 8 bits.
  The argument \<open>mem\<close> says whether the allocations succeed.
\<close>

section \<open>Encoder\<close>

definition b64_table :: "byte list" where
  "b64_table = bytes_of_string
     ''ABCDEFGHIJKLMNOPQRSTUVWXYZabcdefghijklmnopqrstuvwxyz0123456789+/''"

text \<open>The four indices \<open>buf[0..3]\<close> made from the three bytes of \<open>tmp\<close>.\<close>

definition b64_split :: "byte \<Rightarrow> byte \<Rightarrow> byte \<Rightarrow> byte list" where
  "b64_split t0 t1 t2 =
    [drop_bit 2 (t0 AND 0xfc),
     push_bit 4 (t0 AND 0x03) + drop_bit 4 (t1 AND 0xf0),
     push_bit 2 (t1 AND 0x0f) + drop_bit 6 (t2 AND 0xc0),
     t2 AND 0x3f]"

definition b64_lookup :: "byte \<Rightarrow> byte" where
  "b64_lookup b = b64_table ! unat b"

fun b64_encode_loop :: "byte list \<Rightarrow> byte list \<Rightarrow> byte list \<Rightarrow> byte list \<times> byte list" where
  "b64_encode_loop [] tmp enc = (tmp, enc)"
| "b64_encode_loop (s # src) tmp enc =
    (let tmp = tmp @ [s]
     in if length tmp = 3
        then b64_encode_loop src []
               (enc @ map b64_lookup (b64_split (tmp ! 0) (tmp ! 1) (tmp ! 2)))
        else b64_encode_loop src tmp enc)"

definition b64_encode_rest :: "byte list \<Rightarrow> byte list" where
  "b64_encode_rest tmp =
    (if length tmp > 0
     then let i = length tmp;
              t = tmp @ replicate (3 - i) 0;
              buf = b64_split (t ! 0) (t ! 1) (t ! 2)
          in map b64_lookup (take (i + 1) buf) @ replicate (3 - i) 61
     else [])"

definition bake_b64_encode :: "bool \<Rightarrow> byte list \<Rightarrow> cstring option" where
  "bake_b64_encode mem src =
    (if \<not> mem then None
     else let (tmp, enc) = b64_encode_loop src [] [] in Some (enc @ b64_encode_rest tmp))"

section \<open>Decoder\<close>

definition isalnum :: "byte \<Rightarrow> bool" where
  "isalnum c \<longleftrightarrow> 48 \<le> c \<and> c \<le> 57 \<or> 65 \<le> c \<and> c \<le> 90 \<or> 97 \<le> c \<and> c \<le> 122"

definition b64_char :: "byte \<Rightarrow> bool" where
  "b64_char c \<longleftrightarrow> isalnum c \<or> c = 43 \<or> c = 47"

text \<open>The translation loop: the first index of the table that holds the byte, if any.\<close>

fun b64_find :: "byte list \<Rightarrow> byte \<Rightarrow> byte \<Rightarrow> byte" where
  "b64_find [] l t = t"
| "b64_find (x # xs) l t = (if t = x then l else b64_find xs (l + 1) t)"

definition b64_translate :: "byte \<Rightarrow> byte" where
  "b64_translate t = b64_find b64_table 0 t"

definition b64_join :: "byte list \<Rightarrow> byte list" where
  "b64_join tmp =
    [push_bit 2 (tmp ! 0) + drop_bit 4 (tmp ! 1 AND 0x30),
     push_bit 4 (tmp ! 1 AND 0xf) + drop_bit 2 (tmp ! 2 AND 0x3c),
     push_bit 6 (tmp ! 2 AND 0x3) + tmp ! 3]"

fun b64_decode_loop :: "byte list \<Rightarrow> byte list \<Rightarrow> byte list \<Rightarrow> byte list \<times> byte list" where
  "b64_decode_loop [] tmp dec = (tmp, dec)"
| "b64_decode_loop (c # src) tmp dec =
    (if c = 61 then (tmp, dec)
     else if \<not> b64_char c then (tmp, dec)
     else let tmp = tmp @ [c]
          in if length tmp = 4
             then b64_decode_loop src [] (dec @ b64_join (map b64_translate tmp))
             else b64_decode_loop src tmp dec)"

definition b64_decode_rest :: "byte list \<Rightarrow> byte list" where
  "b64_decode_rest tmp =
    (if length tmp > 0
     then let i = length tmp;
              t = tmp @ replicate (4 - i) 0
          in take (i - 1) (b64_join (map b64_translate t))
     else [])"

text \<open>The decoded buffer, without the NUL the code appends; its length is \<open>*decsize\<close>.\<close>

definition b64_decode_ex :: "bool \<Rightarrow> cstring \<Rightarrow> byte list option" where
  "b64_decode_ex mem src =
    (if \<not> mem then None
     else let (tmp, dec) = b64_decode_loop src [] [] in Some (dec @ b64_decode_rest tmp))"

definition bake_b64_decode :: "bool \<Rightarrow> cstring \<Rightarrow> byte list option" where
  "bake_b64_decode mem src = b64_decode_ex mem src"

section \<open>The table\<close>

lemma length_b64_table [simp]: "length b64_table = 64"
  by (simp add: b64_table_def bytes_of_string_def)

lemma distinct_b64_table: "distinct b64_table"
  by (simp add: b64_table_def bytes_of_string_def)

lemma b64_table_chars:
  "c \<in> set b64_table \<Longrightarrow> c \<noteq> 61 \<and> b64_char c"
  by (auto simp: b64_table_def bytes_of_string_def isalnum_def b64_char_def)

lemma b64_find_nth:
  "distinct xs \<Longrightarrow> i < length xs \<Longrightarrow> b64_find xs l (xs ! i) = l + of_nat i"
proof (induction xs arbitrary: i l)
  case Nil
  then show ?case by simp
next
  case (Cons x xs)
  then show ?case by (cases i) (auto simp: algebra_simps)
qed

lemma b64_lookup_char:
  assumes "unat b < 64"
  shows "b64_lookup b \<noteq> 61 \<and> b64_char (b64_lookup b)"
  using assms by (intro b64_table_chars) (simp add: b64_lookup_def)

lemma b64_translate_lookup:
  "unat b < 64 \<Longrightarrow> b64_translate (b64_lookup b) = b"
  by (simp add: b64_translate_def b64_lookup_def b64_find_nth distinct_b64_table)

lemma b64_translate_0 [simp]: "b64_translate 0 = 0"
  by (simp add: b64_translate_def b64_table_def bytes_of_string_def)

section \<open>One group\<close>

lemma length_b64_split [simp]: "length (b64_split a b c) = 4"
  by (simp add: b64_split_def)

lemma b64_split_or:
  "b64_split t0 t1 t2 =
    [drop_bit 2 (t0 AND 0xfc),
     push_bit 4 (t0 AND 0x03) OR drop_bit 4 (t1 AND 0xf0),
     push_bit 2 (t1 AND 0x0f) OR drop_bit 6 (t2 AND 0xc0),
     t2 AND 0x3f]"
  unfolding b64_split_def
  by (simp add: byte_disjunctive_add bit_simps)

lemma small_byte: "unat (b :: byte) < 64 \<longleftrightarrow> \<not> bit b 6 \<and> \<not> bit b 7"
proof -
  have "unat b < 64 \<longleftrightarrow> take_bit 6 (unat b) = unat b"
    using take_bit_nat_eq_self_iff [of 6 "unat b"] by simp
  also have "\<dots> \<longleftrightarrow> take_bit 6 b = b"
    by (metis unsigned_take_bit_eq word_unat_eq_iff)
  also have "\<dots> \<longleftrightarrow> \<not> bit b 6 \<and> \<not> bit b 7"
  proof
    assume eq: "take_bit 6 b = b"
    have "\<not> bit (take_bit 6 b) 6" and "\<not> bit (take_bit 6 b) 7"
      by (simp_all add: bit_simps)
    then show "\<not> bit b 6 \<and> \<not> bit b 7" by (simp add: eq)
  next
    assume "\<not> bit b 6 \<and> \<not> bit b 7"
    then show "take_bit 6 b = b" by (intro byte_eqI) (auto simp: bit_simps)
  qed
  finally show ?thesis .
qed

lemma b64_split_small: "b \<in> set (b64_split t0 t1 t2) \<Longrightarrow> unat b < 64"
  by (auto simp: b64_split_or bit_simps small_byte)

lemma b64_join_or:
  assumes "unat (tmp ! 3) < 64"
  shows "b64_join tmp =
    [push_bit 2 (tmp ! 0) OR drop_bit 4 (tmp ! 1 AND 0x30),
     push_bit 4 (tmp ! 1 AND 0xf) OR drop_bit 2 (tmp ! 2 AND 0x3c),
     push_bit 6 (tmp ! 2 AND 0x3) OR tmp ! 3]"
  using assms unfolding b64_join_def small_byte
  by (simp add: byte_disjunctive_add bit_simps)

lemma b64_join_split: "b64_join (b64_split t0 t1 t2) = [t0, t1, t2]"
proof -
  have "unat (b64_split t0 t1 t2 ! 3) < 64"
    by (rule b64_split_small [OF nth_mem]) simp
  note join = b64_join_or [OF this]
  show ?thesis
    unfolding join unfolding b64_split_or
    by (auto intro!: byte_eqI simp: bit_simps)
qed

lemma b64_translate_split:
  "map b64_translate (map b64_lookup (b64_split t0 t1 t2)) = b64_split t0 t1 t2"
  by (simp add: map_idI b64_translate_lookup b64_split_small)

section \<open>Whole strings\<close>

text \<open>The loops restated by groups of three bytes and four characters.\<close>

fun b64_enc_spec :: "byte list \<Rightarrow> byte list" where
  "b64_enc_spec (a # b # c # src) = map b64_lookup (b64_split a b c) @ b64_enc_spec src"
| "b64_enc_spec tmp = b64_encode_rest tmp"

lemma b64_encode_loop_spec:
  "b64_encode_loop src [] enc = (tmp, enc') \<Longrightarrow> enc' @ b64_encode_rest tmp = enc @ b64_enc_spec src"
  by (induction src arbitrary: enc rule: b64_enc_spec.induct) (auto simp: Let_def)

lemma bake_b64_encode_eq: "bake_b64_encode True src = Some (b64_enc_spec src)"
  by (auto simp: bake_b64_encode_def dest: b64_encode_loop_spec split: prod.splits)

lemma b64_decode_loop_group:
  assumes "\<And>c. c \<in> {c0, c1, c2, c3} \<Longrightarrow> c \<noteq> 61 \<and> b64_char c"
  shows "b64_decode_loop (c0 # c1 # c2 # c3 # src) [] dec =
         b64_decode_loop src [] (dec @ b64_join [b64_translate c0, b64_translate c1, b64_translate c2, b64_translate c3])"
  using assms by (auto simp: Let_def)

lemma b64_decode_loop_split:
  "b64_decode_loop (map b64_lookup (b64_split a b c) @ src) [] dec =
   b64_decode_loop src [] (dec @ [a, b, c])"
proof -
  obtain x0 x1 x2 x3 where x: "b64_split a b c = [x0, x1, x2, x3]"
    by (simp add: b64_split_def)
  have small: "unat x < 64" if "x \<in> {x0, x1, x2, x3}" for x
    using that b64_split_small [of x a b c] by (auto simp: x)
  have "b64_decode_loop (map b64_lookup (b64_split a b c) @ src) [] dec =
      b64_decode_loop src [] (dec @ b64_join (map b64_translate (map b64_lookup (b64_split a b c))))"
    unfolding x list.map append.simps
    by (rule b64_decode_loop_group) (auto simp: b64_lookup_char small)
  then show ?thesis by (simp only: b64_translate_split b64_join_split)
qed

lemma b64_decode_short:
  assumes "length cs < 4" and "length tmp + length cs < 4"
    and "\<And>c. c \<in> set cs \<Longrightarrow> c \<noteq> 61 \<and> b64_char c"
  shows "b64_decode_loop (cs @ replicate (4 - length cs) 61) tmp dec = (tmp @ cs, dec)"
proof -
  have loop: "b64_decode_loop (cs @ 61 # ps) tmp dec = (tmp @ cs, dec)" for ps
    using assms(2,3) by (induction cs arbitrary: tmp) auto
  obtain k where "4 - length cs = Suc k" using assms(1) by (cases "4 - length cs") auto
  then show ?thesis using loop by simp
qed

lemma b64_split_zeros:
  "b64_split a 0 0 ! 2 = 0" "b64_split a 0 0 ! 3 = 0" "b64_split a b 0 ! 3 = 0"
  by (simp_all add: b64_split_def)

lemma b64_decode_rest_split:
  assumes "0 < length tmp" and "length tmp < 3"
    and "b64_split (t ! 0) (t ! 1) (t ! 2) = buf" and "t = tmp @ replicate (3 - length tmp) 0"
  shows "b64_decode_rest (map b64_lookup (take (length tmp + 1) buf)) = tmp"
proof -
  let ?i = "length tmp + 1"
  have len: "length buf = 4" and lt: "length t = 3"
    using assms by auto
  have pad: "drop ?i buf = replicate (4 - ?i) 0"
  proof -
    consider a where "tmp = [a]" | a b where "tmp = [a, b]"
      using assms(1,2) by (cases tmp; cases "tl tmp"; auto)
    then show ?thesis
      by cases (use assms(3,4) in \<open>auto simp: b64_split_def numeral_2_eq_2\<close>)
  qed
  have "map b64_translate (map b64_lookup (take ?i buf) @ replicate (4 - ?i) 0)
      = take ?i buf @ replicate (4 - ?i) 0"
    using assms(3) b64_split_small
    by (auto intro!: map_idI b64_translate_lookup dest!: in_set_takeD)
  also have "\<dots> = buf" by (metis append_take_drop_id pad)
  finally have tr: "map b64_translate (map b64_lookup (take ?i buf) @ replicate (4 - ?i) 0) = buf" .
  have "b64_join buf = t"
    unfolding assms(3) [symmetric] b64_join_split using lt
    by (auto simp: list_eq_iff_nth_eq less_Suc_eq numeral_3_eq_3 numeral_2_eq_2 nth_Cons')
  then show ?thesis
    using tr len assms(1,2,4) by (simp add: b64_decode_rest_def Let_def)
qed

lemma b64_decode_tail:
  assumes "length src < 3"
  shows "b64_decode_loop (b64_encode_rest src) [] dec = (tmp, dec') \<Longrightarrow>
         dec' @ b64_decode_rest tmp = dec @ src"
proof (cases "src = []")
  case True
  then show "b64_decode_loop (b64_encode_rest src) [] dec = (tmp, dec') \<Longrightarrow> ?thesis"
    by (auto simp: b64_encode_rest_def b64_decode_rest_def)
next
  case False
  define t where "t = src @ replicate (3 - length src) 0"
  define buf where "buf = b64_split (t ! 0) (t ! 1) (t ! 2)"
  define cs where "cs = map b64_lookup (take (length src + 1) buf)"
  have len: "length cs = length src + 1"
    using assms by (simp add: cs_def buf_def)
  have enc: "b64_encode_rest src = cs @ replicate (4 - length cs) 61"
    using False assms len by (simp add: b64_encode_rest_def Let_def cs_def buf_def t_def)
  have "b64_decode_loop (b64_encode_rest src) [] dec = ([] @ cs, dec)"
    unfolding enc
  proof (rule b64_decode_short)
    fix c assume "c \<in> set cs"
    then obtain b where "b \<in> set buf" and "c = b64_lookup b"
      unfolding cs_def by (auto dest: in_set_takeD)
    then show "c \<noteq> 61 \<and> b64_char c"
      by (simp add: b64_lookup_char b64_split_small buf_def)
  qed (use assms len in auto)
  moreover have "b64_decode_rest cs = src"
    unfolding cs_def
    by (rule b64_decode_rest_split [OF _ assms buf_def [symmetric] t_def]) (use False in simp)
  ultimately show "b64_decode_loop (b64_encode_rest src) [] dec = (tmp, dec') \<Longrightarrow> ?thesis"
    by auto
qed

lemma b64_decode_enc_spec:
  "b64_decode_loop (b64_enc_spec src) [] dec = (tmp, dec') \<Longrightarrow>
   dec' @ b64_decode_rest tmp = dec @ src"
proof (induction src arbitrary: dec rule: b64_enc_spec.induct)
  case (1 a b c src)
  then show ?case by (simp add: b64_decode_loop_split)
qed (use b64_decode_tail [of "[]"] in \<open>auto intro: b64_decode_tail simp del: b64_decode_loop.simps\<close>)

lemma bake_b64_decode_spec: "bake_b64_decode True (b64_enc_spec src) = Some src"
  by (auto simp: bake_b64_decode_def b64_decode_ex_def dest: b64_decode_enc_spec split: prod.splits)

lemma length_b64_enc_spec: "length (b64_enc_spec src) = 4 * ((length src + 2) div 3)"
proof (induction src rule: b64_enc_spec.induct)
  case (1 a b c src)
  have "(n + 3 + 2) div 3 = Suc ((n + 2) div 3)" for n :: nat
    by presburger
  with 1 show ?case by (simp add: add.commute)
qed (auto simp: b64_encode_rest_def Let_def)

lemma b64_lookup_split_char: "x \<in> set (b64_split a b c) \<Longrightarrow> b64_char (b64_lookup x)"
  using b64_lookup_char b64_split_small by blast

lemma b64_enc_spec_chars: "c \<in> set (b64_enc_spec src) \<Longrightarrow> c = 61 \<or> b64_char c"
proof (induction src rule: b64_enc_spec.induct)
  case (1 a b d src)
  then show ?case using b64_lookup_split_char by auto
qed (auto simp: b64_encode_rest_def Let_def split: if_splits
       dest!: in_set_takeD intro: b64_lookup_split_char)

end
