(* ===== verification/Bake_Util.thy ===== *)
theory Bake_Util
  imports Base64
begin

text \<open>
  \<^verbatim>\<open>src/util.c\<close>: error strings, \<open>bake_perror\<close>, and the conversions of target and region ids
  to and from text. The uuid library's \<open>uuid_unparse\<close> and \<open>uuid_parse\<close> are arguments. Reads and
  writes outside a buffer are values of the type \<open>mem_fault\<close>, so that a result \<open>Inr\<close> says the
  call stays inside its buffers.
\<close>

datatype mem_fault =
    OutOfBoundsWrite nat \<comment> \<open>offset of the first byte written\<close>
  | OutOfBoundsRead nat \<comment> \<open>number of readable bytes\<close>
  | NullDereference

section \<open>Error messages\<close>

definition bake_err_str :: "int \<Rightarrow> string" where
  "bake_err_str ret =
    (if ret = BAKE_SUCCESS then ''Success''
     else if ret = BAKE_ERR_ALLOCATION then ''Error allocating something''
     else if ret = BAKE_ERR_INVALID_ARG then ''An argument is invalid''
     else if ret = BAKE_ERR_MERCURY then ''An error happened calling a Mercury function''
     else if ret = BAKE_ERR_ARGOBOTS then ''An error happened calling an Argobots function''
     else if ret = BAKE_ERR_PMEM then ''An error happened calling a PMDK function''
     else if ret = BAKE_ERR_UNKNOWN_TARGET then ''Target refered to by id is not know to provider''
     else if ret = BAKE_ERR_UNKNOWN_PROVIDER then ''Provider id could not be matched with a provider''
     else if ret = BAKE_ERR_UNKNOWN_REGION then ''Region id could not be found''
     else if ret = BAKE_ERR_OUT_OF_BOUNDS then ''Attempting an out of bound access''
     else if ret = BAKE_ERR_REMI then ''Error related to REMI''
     else if ret = BAKE_ERR_OP_UNSUPPORTED then ''Operation not supported''
     else if ret = BAKE_ERR_NOENT then ''Entry does not exist''
     else if ret = BAKE_ERR_EXIST then ''Entry already exists''
     else if ret = BAKE_ERR_NOMEM then ''Out of memory''
     else ''Unknown error'')"

text \<open>The conversions \<open>%u\<close> and \<open>%d\<close> of \<open>printf\<close>.\<close>

fun dec_digits :: "nat \<Rightarrow> string" where
  "dec_digits n =
    (if n < 10 then [char_of (48 + n)] else dec_digits (n div 10) @ [char_of (48 + n mod 10)])"

declare dec_digits.simps [simp del]

definition dec_int :: "int \<Rightarrow> string" where
  "dec_int i = (if i < 0 then ''-'' @ dec_digits (nat (- i)) else dec_digits (nat i))"

text \<open>
  \<open>snprintf (p, n, ...)\<close> writes at most \<open>n - 1\<close> characters and a NUL and returns the length
  of the whole text. In \<open>bake_perror\<close> the second call is given the pointer
  \<open>error_string + ret\<close> and the size \<open>256 - ret\<close>, an \<open>int\<close> that becomes a \<open>size_t\<close>: the
  first case below is a size that fits the buffer, the second a size of zero, which writes
  nothing, the third a negative value that became a huge size.
\<close>

definition bake_perror :: "string \<Rightarrow> int \<Rightarrow> mem_fault + string" where
  "bake_perror s err =
    (let ret = length s;
         text = '' ('' @ dec_int err @ '') '' @ bake_err_str err
     in if ret < 256 then Inr (take 255 (s @ take (256 - ret - 1) text))
        else if ret = 256 then Inr (take 255 s)
        else Inl (OutOfBoundsWrite ret))"

section \<open>Identifiers as text\<close>

definition bake_print_dbg_region_id_t :: "nat \<Rightarrow> bake_region_id \<Rightarrow> string" where
  "bake_print_dbg_region_id_t sz rid =
    (let pool_uuid_lo = of_le_bytes (take 8 (rid_data rid)) :: u64;
         off = of_le_bytes (take 8 (drop 8 (rid_data rid))) :: u64
     in take (sz - 1)
         (dec_digits (unat (rid_type rid)) @ '':'' @ dec_digits (unat pool_uuid_lo) @ '':'' @
          dec_digits (unat off)))"

definition bake_target_id_to_string ::
  "(bake_target_id \<Rightarrow> cstring) \<Rightarrow> bake_target_id \<Rightarrow> nat \<Rightarrow> int \<times> cstring option" where
  "bake_target_id_to_string uuid_unparse tid sz =
    (if sz < 37 then (BAKE_ERR_INVALID_ARG, None)
     else (BAKE_SUCCESS, Some (uuid_unparse tid)))"

definition bake_target_id_from_string ::
  "(cstring \<Rightarrow> bake_target_id option) \<Rightarrow> cstring \<Rightarrow> int \<times> bake_target_id option" where
  "bake_target_id_from_string uuid_parse str =
    (case uuid_parse str of
       None \<Rightarrow> (BAKE_ERR_INVALID_ARG, None)
     | Some tid \<Rightarrow> (BAKE_SUCCESS, Some tid))"

text \<open>The memory image of a \<open>bake_region_id_t\<close>, \<open>sizeof (rid)\<close> bytes.\<close>

definition rid_image :: "bake_region_id \<Rightarrow> byte list" where
  "rid_image rid = le_bytes 4 (rid_type rid) @ rid_data rid"

definition rid_of_image :: "byte list \<Rightarrow> bake_region_id" where
  "rid_of_image bs = \<lparr>rid_type = of_le_bytes (take 4 bs), rid_data = take 16 (drop 4 bs)\<rparr>"

definition bake_region_id_to_string ::
  "bool \<Rightarrow> bake_region_id \<Rightarrow> nat \<Rightarrow> mem_fault + int \<times> cstring option" where
  "bake_region_id_to_string mem rid sz =
    (case bake_b64_encode mem (rid_image rid) of
       None \<Rightarrow> Inl NullDereference
     | Some s \<Rightarrow>
         if sz < length s + 1 then Inr (BAKE_ERR_INVALID_ARG, None)
         else Inr (BAKE_SUCCESS, Some s))"

text \<open>The decoded buffer holds the decoded bytes and a NUL; \<open>memcpy\<close> takes 20 bytes of it.\<close>

definition bake_region_id_from_string ::
  "bool \<Rightarrow> cstring \<Rightarrow> mem_fault + int \<times> bake_region_id" where
  "bake_region_id_from_string mem str =
    (case bake_b64_decode mem str of
       None \<Rightarrow> Inl NullDereference
     | Some data \<Rightarrow>
         if length (data @ [0]) < 20 then Inl (OutOfBoundsRead (length (data @ [0])))
         else Inr (BAKE_SUCCESS, rid_of_image (take 20 (data @ [0]))))"

section \<open>Properties\<close>

lemma length_rid_image: "wf_rid r \<Longrightarrow> length (rid_image r) = 20"
  by (simp add: rid_image_def wf_rid_def BAKE_REGION_ID_DATA_SIZE_def)

lemma rid_of_image_inverse: "wf_rid r \<Longrightarrow> rid_of_image (rid_image r) = r"
  by (simp add: rid_of_image_def rid_image_def wf_rid_def BAKE_REGION_ID_DATA_SIZE_def)

text \<open>The interface of a text or wire format: what is encoded can be decoded again.\<close>

interpretation b64: byte_codec b64_enc_spec "bake_b64_decode True" "\<lambda>_. True"
  by unfold_locales (rule bake_b64_decode_spec)

interpretation ridc: byte_codec rid_image "\<lambda>bs. Some (rid_of_image bs)" wf_rid
  by unfold_locales (simp add: rid_of_image_inverse)

lemma to_string_eq:
  assumes "wf_rid r"
  shows "bake_region_id_to_string True r sz =
    (if sz < 29 then Inr (BAKE_ERR_INVALID_ARG, None)
     else Inr (BAKE_SUCCESS, Some (b64_enc_spec (rid_image r))))"
  using assms
  by (simp add: bake_region_id_to_string_def bake_b64_encode_eq length_b64_enc_spec length_rid_image)

text \<open>C35: base64 round trip. Encoding any byte string and decoding the text gives the byte
  string back, for every length, whatever the last group holds.\<close>

theorem b64_roundtrip:
  "\<exists>s. bake_b64_encode True src = Some s \<and> bake_b64_decode True s = Some src"
  by (simp add: bake_b64_encode_eq bake_b64_decode_spec)

text \<open>The encoded text has four characters for every started group of three bytes, and
  every character is in the base64 alphabet or is the padding character.\<close>

theorem b64_encode_format:
  "\<exists>s. bake_b64_encode True src = Some s \<and> length s = 4 * ((length src + 2) div 3) \<and>
     list_all (\<lambda>c. c = 61 \<or> b64_char c) s"
  by (auto simp: bake_b64_encode_eq length_b64_enc_spec list_all_iff dest: b64_enc_spec_chars)

text \<open>C31: region id round trip. With a buffer of at least 29 bytes the text form of a region id
  is produced, and reading the text back gives the same region id and stays inside the decoded
  buffer.\<close>

theorem region_id_string_roundtrip:
  assumes "wf_rid r" and "29 \<le> sz"
  shows "\<exists>s. bake_region_id_to_string True r sz = Inr (BAKE_SUCCESS, Some s) \<and>
    length s < sz \<and> bake_region_id_from_string True s = Inr (BAKE_SUCCESS, r)"
  using assms
  by (simp add: to_string_eq length_b64_enc_spec length_rid_image bake_region_id_from_string_def
      bake_b64_decode_spec rid_of_image_inverse)

definition example_rid :: bake_region_id where
  "example_rid = \<lparr>rid_type = 7, rid_data = map of_nat [1..<17]\<rparr>"

theorem region_id_string_roundtrip_witness:
  "\<exists>s. bake_region_id_to_string True example_rid 128 = Inr (BAKE_SUCCESS, Some s) \<and>
    length s < 128 \<and> bake_region_id_from_string True s = Inr (BAKE_SUCCESS, example_rid)"
  by (rule region_id_string_roundtrip)
    (simp_all add: wf_rid_def example_rid_def BAKE_REGION_ID_DATA_SIZE_def)

text \<open>The text form needs 29 bytes: any smaller buffer is refused with an argument error,
  whatever the region id.\<close>

theorem region_id_to_string_needs_29:
  assumes "wf_rid r"
  shows "bake_region_id_to_string True r sz = Inr (BAKE_ERR_INVALID_ARG, None) \<longleftrightarrow> sz < 29"
  using assms by (simp add: to_string_eq bake_err_defs)

theorem region_id_to_string_needs_29_witness:
  "bake_region_id_to_string True example_rid 28 = Inr (BAKE_ERR_INVALID_ARG, None) \<longleftrightarrow> (28::nat) < 29"
  by (rule region_id_to_string_needs_29)
    (simp add: wf_rid_def example_rid_def BAKE_REGION_ID_DATA_SIZE_def)

text \<open>Different region ids have different text forms, so a text form identifies the
  region.\<close>

theorem region_id_string_injective:
  assumes "wf_rid r" and "wf_rid r'" and "r \<noteq> r'"
  shows "bake_region_id_to_string True r 128 \<noteq> bake_region_id_to_string True r' 128"
proof
  assume "bake_region_id_to_string True r 128 = bake_region_id_to_string True r' 128"
  then have "b64_enc_spec (rid_image r) = b64_enc_spec (rid_image r')"
    using assms by (simp add: to_string_eq)
  then have "rid_image r = rid_image r'"
    by (rule b64.enc_injective [rotated 2]) simp_all
  with assms show False by (metis ridc.enc_injective)
qed

theorem region_id_string_injective_witness:
  "bake_region_id_to_string True example_rid 128 \<noteq>
   bake_region_id_to_string True (example_rid\<lparr>rid_type := 8\<rparr>) 128"
  by (rule region_id_string_injective)
    (simp_all add: wf_rid_def example_rid_def BAKE_REGION_ID_DATA_SIZE_def)

text \<open>\<open>bake_perror\<close> stays inside its 256 byte buffer exactly for prefixes of at most 256
  characters; a longer prefix makes the second \<open>snprintf\<close> write behind the buffer.\<close>

theorem bake_perror_in_bounds: "(\<exists>out. bake_perror s err = Inr out) \<longleftrightarrow> length s \<le> 256"
  by (simp add: bake_perror_def Let_def)

text \<open>The codes \<open>bake_err_str\<close> can name are the ones below; the codes for a forbidden
  operation, an unknown backend type and a backend I/O error print as an unknown error.\<close>

theorem bake_err_str_unknown:
  "bake_err_str ret = ''Unknown error'' \<longleftrightarrow>
    ret > 0 \<or> ret < BAKE_ERR_NOMEM \<or>
    ret \<in> {BAKE_ERR_FORBIDDEN, BAKE_ERR_BACKEND_TYPE, BAKE_ERR_IO}"
  by (auto simp: bake_err_str_def bake_err_defs) presburger

end
