(* ===== verification/Align.thy ===== *)
theory Align
  imports Bake_Prelude
begin

text \<open>
  Rounding to block boundaries: the macros \<open>BAKE_ALIGN_UP\<close> and \<open>BAKE_ALIGN_DOWN\<close> of
  \<^verbatim>\<open>src/bake-file-backend.c\<close>. The alignment is a C \<open>int\<close>; it is converted to
  \<open>unsigned long\<close> by sign extension, which \<open>of_int\<close> computes. The lemmas read the macros as
  natural numbers for an alignment \<open>2 ^ k\<close>.
\<close>

definition BAKE_ALIGN_UP :: "u64 \<Rightarrow> int \<Rightarrow> u64" where
  "BAKE_ALIGN_UP x al = (x + of_int (al - 1)) AND of_int (NOT (al - 1))"

definition BAKE_ALIGN_DOWN :: "u64 \<Rightarrow> int \<Rightarrow> u64" where
  "BAKE_ALIGN_DOWN x al = x AND of_int (NOT (al - 1))"

lemma of_int_power_pred: "of_int (2 ^ k - 1) = (mask k :: 'a::len word)"
  by (simp add: mask_eq_exp_minus_1)

lemma of_int_not_power_pred: "of_int (NOT (2 ^ k - 1)) = (NOT (mask k) :: 'a::len word)"
proof -
  have "of_int (NOT (2 ^ k - 1 :: int)) = (NOT (of_int (2 ^ k - 1)) :: 'a word)"
    by (simp add: not_int_def algebra_simps not_eq_complement)
  then show ?thesis by (simp only: of_int_power_pred)
qed

lemma unat_and_not_mask: "unat (x AND NOT (mask k) :: 'a::len word) = unat x div 2 ^ k * 2 ^ k"
proof -
  have "(x AND NOT (mask k)) + take_bit k x = x"
  proof -
    have "(x AND NOT (mask k)) + take_bit k x = (x AND NOT (mask k)) OR take_bit k x"
      by (rule disjunctive_add) (auto simp: bit_simps)
    also have "\<dots> = x" by (rule bit_word_eqI) (auto simp: bit_simps)
    finally show ?thesis .
  qed
  then have eq: "x AND NOT (mask k) = x - take_bit k x" by (simp add: eq_diff_eq)
  have tb: "unat (take_bit k x) = unat x mod 2 ^ k"
    by (subst unsigned_take_bit_eq) (simp add: take_bit_eq_mod)
  have "take_bit k x \<le> x" by (simp add: word_le_nat_alt tb)
  then have "unat (x AND NOT (mask k)) = unat x - unat x mod 2 ^ k"
    by (simp add: eq unat_sub tb)
  then show ?thesis by (simp add: minus_mod_eq_div_mult)
qed

lemma unat_ALIGN_DOWN [align_simps]: "unat (BAKE_ALIGN_DOWN x (2 ^ k)) = unat x div 2 ^ k * 2 ^ k"
  by (simp add: BAKE_ALIGN_DOWN_def of_int_not_power_pred unat_and_not_mask)

lemma unat_mask_u64: "k \<le> 63 \<Longrightarrow> unat (mask k :: u64) = 2 ^ k - 1"
proof -
  assume k: "k \<le> 63"
  have "mask k = (2 ^ k - 1 :: u64)" by (rule mask_eq_exp_minus_1)
  also have "\<dots> = of_nat (2 ^ k - 1)" by (simp add: of_nat_diff)
  finally have "unat (mask k :: u64) = unat (of_nat (2 ^ k - 1) :: u64)" by (rule arg_cong)
  then have "unat (mask k :: u64) = (2 ^ k - 1) mod 2 ^ 64" by (simp only: unat_of_nat) simp
  moreover have "(2::nat) ^ k \<le> 2 ^ 63" using k by (intro power_increasing) simp_all
  ultimately show ?thesis by simp
qed

lemma unat_ALIGN_UP [align_simps]:
  assumes "k \<le> 63" and "unat x + (2 ^ k - 1) < 2 ^ 64"
  shows "unat (BAKE_ALIGN_UP x (2 ^ k)) = (unat x + (2 ^ k - 1)) div 2 ^ k * 2 ^ k"
proof -
  have "unat (x + mask k) = unat x + (2 ^ k - 1)"
    using assms by (subst unat_add_lem [THEN iffD1]) (simp_all add: unat_mask_u64)
  then show ?thesis
    by (simp only: BAKE_ALIGN_UP_def of_int_power_pred of_int_not_power_pred unat_and_not_mask)
qed

lemma round_up_bounds:
  fixes n k :: nat
  shows "n \<le> (n + (2 ^ k - 1)) div 2 ^ k * 2 ^ k" and "(n + (2 ^ k - 1)) div 2 ^ k * 2 ^ k < n + 2 ^ k"
proof -
  let ?q = "(n + (2 ^ k - 1)) div 2 ^ k" and ?r = "(n + (2 ^ k - 1)) mod 2 ^ k"
  have eq: "?q * 2 ^ k + ?r = n + (2 ^ k - 1)" by (rule div_mult_mod_eq)
  have "?r < 2 ^ k" by simp
  with eq show "n \<le> ?q * 2 ^ k" by linarith
  have "(0::nat) < 2 ^ k" by simp
  with eq show "?q * 2 ^ k < n + 2 ^ k" by linarith
qed

lemma round_up_pos: "0 < n \<Longrightarrow> 2 ^ k \<le> (n + (2 ^ k - 1)) div 2 ^ k * 2 ^ k" for n k :: nat
  by (simp add: div_greater_zero_iff Suc_le_eq)

lemma round_up_dvd: "2 ^ k dvd n \<Longrightarrow> (n + (2 ^ k - 1)) div 2 ^ k * 2 ^ k = n" for n k :: nat
proof (elim dvdE)
  fix q assume n: "n = 2 ^ k * q"
  have "(2 ^ k - 1 + 2 ^ k * q) div 2 ^ k = q" by (subst div_mult_self2) simp_all
  then show ?thesis by (simp add: n add.commute)
qed

lemma two_power_pos: "(0::nat) < 2 ^ k"
  by simp

lemma round_down_less: "n < n div 2 ^ k * 2 ^ k + 2 ^ k" for n k :: nat
proof -
  have "n mod 2 ^ k < 2 ^ k" by simp
  with div_mult_mod_eq [of n "2 ^ k"] show ?thesis by linarith
qed

lemma round_down_dvd: "2 ^ k dvd n \<Longrightarrow> n div 2 ^ k * 2 ^ k = n" for n k :: nat
  by (rule dvd_div_mult_self)

lemma round_up_small: "0 < n \<Longrightarrow> n \<le> 2 ^ k \<Longrightarrow> (n + (2 ^ k - 1)) div 2 ^ k * 2 ^ k = 2 ^ k" for n k :: nat
proof -
  assume "0 < n" and "n \<le> 2 ^ k"
  then have "(n + (2 ^ k - 1)) div 2 ^ k = 1" by (intro div_nat_eqI) simp_all
  then show ?thesis by simp
qed

lemma round_up_in_block:
  fixes m q k :: nat
  assumes "q * 2 ^ k < m" and "m \<le> q * 2 ^ k + 2 ^ k"
  shows "(m + (2 ^ k - 1)) div 2 ^ k * 2 ^ k = q * 2 ^ k + 2 ^ k"
proof -
  have "(m + (2 ^ k - 1)) div 2 ^ k = q + 1"
    using assms two_power_pos [of k] by (intro div_nat_eqI) (auto simp: algebra_simps)
  then show ?thesis by simp
qed

text \<open>For an alignment that is a power of two, rounding up gives the least multiple of
  the alignment that is at least the argument, and rounding down the greatest one that is at
  most the argument, as long as the sum does not leave 64 bits.\<close>

theorem align_up_down_spec:
  assumes "k \<le> 30" and "unat x + 2 ^ k \<le> 2 ^ 64"
  shows "2 ^ k dvd unat (BAKE_ALIGN_UP x (2 ^ k)) \<and> unat x \<le> unat (BAKE_ALIGN_UP x (2 ^ k)) \<and>
    unat (BAKE_ALIGN_UP x (2 ^ k)) < unat x + 2 ^ k \<and>
    2 ^ k dvd unat (BAKE_ALIGN_DOWN x (2 ^ k)) \<and> unat (BAKE_ALIGN_DOWN x (2 ^ k)) \<le> unat x \<and>
    unat x < unat (BAKE_ALIGN_DOWN x (2 ^ k)) + 2 ^ k"
proof -
  have "unat x < unat x div 2 ^ k * 2 ^ k + 2 ^ k"
    by (rule round_down_less)
  moreover have "unat x + (2 ^ k - 1) < 2 ^ 64"
    using assms(2) two_power_pos [of k] by linarith
  ultimately show ?thesis
    using assms(1) round_up_bounds [of "unat x" k] by (simp add: align_simps)
qed

theorem align_up_down_spec_witness:
  "(4096::nat) dvd unat (BAKE_ALIGN_UP 5000 (2 ^ 12)) \<and> unat (BAKE_ALIGN_UP 5000 (2 ^ 12)) = 8192 \<and>
   unat (BAKE_ALIGN_DOWN 5000 (2 ^ 12)) = 4096"
  using align_up_down_spec [of 12 5000] unat_ALIGN_UP [of 12 5000] unat_ALIGN_DOWN [of 5000 12]
  by simp

end
