(* ===== verification/Bake_Env.thy ===== *)
theory Bake_Env
  imports Bake_Prelude
begin

text \<open>
  The libraries Bake calls and does not contain: abt-io, margo and mercury, libpmemobj, the uuid
  library and the allocator. They are fields of one record of functions over an opaque world
  \<open>'w\<close> (files, pools, the network, the heap), and every operation of the model takes that
  record as an argument. A call takes the world and returns its result and the next world.
  Nothing is assumed about them here; what a theorem relies on is one of the named predicates
  over the record, stated where it is used.
\<close>

type_synonym hg_addr = nat
type_synonym hg_bulk = nat
type_synonym pmem_oid = "byte list"
type_synonym pmem_pool = nat

definition HG_SUCCESS :: int where "HG_SUCCESS = 0"

definition HG_BULK_NULL :: hg_bulk where "HG_BULK_NULL = 0"

text \<open>
  \<^item> \<open>posix_memalign al n\<close>: return code, address and initial contents of the buffer.
  \<^item> \<open>abt_io_pwrite fd data off\<close> and \<open>abt_io_pread fd n off\<close>: the \<open>ssize_t\<close> result (negative for
    an error), for a read with the bytes that arrived.
  \<^item> \<open>poolset_get n\<close>: return code and the handle of a buffer of at least \<open>n\<close> bytes.
  \<^item> \<open>bulk_access h n\<close>: return code, address and current contents of the first \<open>n\<close> bytes of a
    local buffer; it does not change the world.
  \<^item> \<open>bulk_pull addr bulk off n\<close>: \<open>margo_bulk_transfer\<close> with \<open>HG_BULK_PULL\<close>, with the bytes that
    arrived; \<open>bulk_push addr bulk off data\<close> is the transfer with \<open>HG_BULK_PUSH\<close>.
  \<^item> \<open>bulk_create ptr n\<close>: \<open>margo_bulk_create\<close> for one local segment; \<open>bulk_free\<close> releases
    a handle and accepts \<open>HG_BULK_NULL\<close>.
  \<^item> \<open>pmemobj_direct oid\<close>: the address of an object, 0 if there is none.
  \<^item> \<open>pmemobj_persist ptr data\<close>: makes the bytes \<open>data\<close> that the program has in memory at \<open>ptr\<close>
    durable.
\<close>

record 'w env =
  posix_memalign :: "u64 \<Rightarrow> u64 \<Rightarrow> 'w \<Rightarrow> (int \<times> u64 \<times> byte list) \<times> 'w"
  abt_io_pwrite :: "int \<Rightarrow> byte list \<Rightarrow> u64 \<Rightarrow> 'w \<Rightarrow> int \<times> 'w"
  abt_io_pread :: "int \<Rightarrow> u64 \<Rightarrow> u64 \<Rightarrow> 'w \<Rightarrow> (int \<times> byte list) \<times> 'w"
  abt_io_fdatasync :: "int \<Rightarrow> 'w \<Rightarrow> int \<times> 'w"
  abt_io_punch_hole :: "int \<Rightarrow> u64 \<Rightarrow> u64 \<Rightarrow> 'w \<Rightarrow> int \<times> 'w"
  open_excl :: "cstring \<Rightarrow> 'w \<Rightarrow> int \<times> 'w"
  write_fd :: "int \<Rightarrow> byte list \<Rightarrow> 'w \<Rightarrow> int \<times> 'w"
  close_fd :: "int \<Rightarrow> 'w \<Rightarrow> 'w"
  uuid_generate :: "'w \<Rightarrow> bake_target_id \<times> 'w"
  poolset_get_max :: "'w \<Rightarrow> u64"
  poolset_get :: "u64 \<Rightarrow> 'w \<Rightarrow> (int \<times> hg_bulk) \<times> 'w"
  poolset_release :: "hg_bulk \<Rightarrow> 'w \<Rightarrow> 'w"
  bulk_access :: "hg_bulk \<Rightarrow> u64 \<Rightarrow> 'w \<Rightarrow> int \<times> u64 \<times> byte list"
  bulk_pull :: "hg_addr \<Rightarrow> hg_bulk \<Rightarrow> u64 \<Rightarrow> u64 \<Rightarrow> 'w \<Rightarrow> (int \<times> byte list) \<times> 'w"
  bulk_push :: "hg_addr \<Rightarrow> hg_bulk \<Rightarrow> u64 \<Rightarrow> byte list \<Rightarrow> 'w \<Rightarrow> int \<times> 'w"
  bulk_create :: "u64 \<Rightarrow> u64 \<Rightarrow> 'w \<Rightarrow> (int \<times> hg_bulk) \<times> 'w"
  bulk_free :: "hg_bulk \<Rightarrow> 'w \<Rightarrow> 'w"
  pmemobj_create :: "cstring \<Rightarrow> u64 \<Rightarrow> 'w \<Rightarrow> pmem_pool option \<times> 'w"
  pmemobj_open :: "cstring \<Rightarrow> 'w \<Rightarrow> pmem_pool option \<times> 'w"
  pmemobj_close :: "pmem_pool \<Rightarrow> 'w \<Rightarrow> 'w"
  pmemobj_root :: "pmem_pool \<Rightarrow> u64 \<Rightarrow> 'w \<Rightarrow> pmem_oid \<times> 'w"
  pmemobj_direct :: "pmem_oid \<Rightarrow> 'w \<Rightarrow> u64"
  pmemobj_alloc :: "pmem_pool \<Rightarrow> u64 \<Rightarrow> 'w \<Rightarrow> (int \<times> pmem_oid) \<times> 'w"
  pmemobj_free :: "pmem_oid \<Rightarrow> 'w \<Rightarrow> 'w"
  pmemobj_persist :: "u64 \<Rightarrow> byte list \<Rightarrow> 'w \<Rightarrow> 'w"

text \<open>A value assigned to a C \<open>int\<close> keeps its low 32 bits, read as a signed number.\<close>

definition to_c_int :: "int \<Rightarrow> int" where
  "to_c_int i = signed_take_bit 31 i"

lemma to_c_int_id: "- (2 ^ 31) \<le> i \<Longrightarrow> i < 2 ^ 31 \<Longrightarrow> to_c_int i = i"
  by (simp add: to_c_int_def signed_take_bit_int_eq_self)

lemma to_c_int_nat: "n < 2 ^ 31 \<Longrightarrow> to_c_int (int n) = int n"
  by (rule to_c_int_id) simp_all

text \<open>A call of \<open>assert\<close> that fails ends the process.\<close>

datatype 'a outcome = Returns 'a | Aborts

section \<open>What the file operations rely on\<close>

text \<open>
  \<open>fbyte w p\<close> is the byte at offset \<open>p\<close> of the log file and \<open>flen w\<close> its length. The predicates
  state the documented behaviour of the calls: POSIX \<open>pwrite\<close>, \<open>pread\<close>, \<open>fdatasync\<close>,
  \<open>fallocate\<close> with \<open>FALLOC_FL_PUNCH_HOLE | FALLOC_FL_KEEP_SIZE\<close> and \<open>posix_memalign\<close>. Any of them
  may fail; a failed or partial write leaves the bytes outside its range alone.
\<close>

definition pwrite_ok :: "'w env \<Rightarrow> int \<Rightarrow> ('w \<Rightarrow> nat \<Rightarrow> byte) \<Rightarrow> ('w \<Rightarrow> nat) \<Rightarrow> bool" where
  "pwrite_ok env fd fbyte flen \<longleftrightarrow>
    (\<forall>d off w r w'. abt_io_pwrite env fd d off w = (r, w') \<longrightarrow>
       (\<forall>p. p < unat off \<or> unat off + length d \<le> p \<longrightarrow> fbyte w' p = fbyte w p) \<and>
       flen w \<le> flen w' \<and> - (2 ^ 31) \<le> r \<and> r \<le> int (length d) \<and>
       (r = int (length d) \<longrightarrow> fbyte w' = overlay (unat off) d (fbyte w) \<and>
          (d \<noteq> [] \<longrightarrow> unat off + length d \<le> flen w')))"

definition pread_ok :: "'w env \<Rightarrow> int \<Rightarrow> ('w \<Rightarrow> nat \<Rightarrow> byte) \<Rightarrow> ('w \<Rightarrow> nat) \<Rightarrow> bool" where
  "pread_ok env fd fbyte flen \<longleftrightarrow>
    (\<forall>n off w r bs w'. abt_io_pread env fd n off w = ((r, bs), w') \<longrightarrow>
       fbyte w' = fbyte w \<and> flen w' = flen w \<and> - (2 ^ 31) \<le> r \<and> r \<le> int (unat n) \<and>
       (0 \<le> r \<longrightarrow> bs = extent (unat off) (nat r) (fbyte w)))"

definition sync_ok :: "'w env \<Rightarrow> int \<Rightarrow> ('w \<Rightarrow> nat \<Rightarrow> byte) \<Rightarrow> ('w \<Rightarrow> nat) \<Rightarrow> bool" where
  "sync_ok env fd fbyte flen \<longleftrightarrow>
    (\<forall>w r w'. abt_io_fdatasync env fd w = (r, w') \<longrightarrow> fbyte w' = fbyte w \<and> flen w' = flen w)"

definition punch_ok :: "'w env \<Rightarrow> int \<Rightarrow> ('w \<Rightarrow> nat \<Rightarrow> byte) \<Rightarrow> ('w \<Rightarrow> nat) \<Rightarrow> bool" where
  "punch_ok env fd fbyte flen \<longleftrightarrow>
    (\<forall>off n w r w'. abt_io_punch_hole env fd off n w = (r, w') \<longrightarrow>
       (\<forall>p. p < unat off \<or> unat off + unat n \<le> p \<longrightarrow> fbyte w' p = fbyte w p) \<and>
       flen w' = flen w \<and>
       (r = 0 \<longrightarrow> fbyte w' = overlay (unat off) (replicate (unat n) 0) (fbyte w)))"

definition memalign_ok :: "'w env \<Rightarrow> ('w \<Rightarrow> nat \<Rightarrow> byte) \<Rightarrow> ('w \<Rightarrow> nat) \<Rightarrow> bool" where
  "memalign_ok env fbyte flen \<longleftrightarrow>
    (\<forall>al n w r p bs w'. posix_memalign env al n w = ((r, p, bs), w') \<longrightarrow>
       fbyte w' = fbyte w \<and> flen w' = flen w \<and>
       (r = 0 \<longrightarrow> length bs = unat n \<and> unat al dvd unat p \<and> unat p + unat n < 2 ^ 64))"

definition log_file_ok :: "'w env \<Rightarrow> int \<Rightarrow> ('w \<Rightarrow> nat \<Rightarrow> byte) \<Rightarrow> ('w \<Rightarrow> nat) \<Rightarrow> bool" where
  "log_file_ok env fd fbyte flen \<longleftrightarrow>
    pwrite_ok env fd fbyte flen \<and> pread_ok env fd fbyte flen \<and> sync_ok env fd fbyte flen \<and>
    punch_ok env fd fbyte flen \<and> memalign_ok env fbyte flen"

lemma log_file_okD:
  assumes "log_file_ok env fd fbyte flen"
  shows "pwrite_ok env fd fbyte flen" "pread_ok env fd fbyte flen" "sync_ok env fd fbyte flen"
    "punch_ok env fd fbyte flen" "memalign_ok env fbyte flen"
  using assms by (simp_all add: log_file_ok_def)

lemma pwrite_okD:
  assumes "pwrite_ok env fd fbyte flen" and "abt_io_pwrite env fd d off w = (r, w')"
  shows "p < unat off \<or> unat off + length d \<le> p \<Longrightarrow> fbyte w' p = fbyte w p"
    and "flen w \<le> flen w'" and "- (2 ^ 31) \<le> r" and "r \<le> int (length d)"
    and "r = int (length d) \<Longrightarrow> fbyte w' = overlay (unat off) d (fbyte w)"
    and "r = int (length d) \<Longrightarrow> d \<noteq> [] \<Longrightarrow> unat off + length d \<le> flen w'"
  using assms unfolding pwrite_ok_def by blast+

lemma pread_okD:
  assumes "pread_ok env fd fbyte flen" and "abt_io_pread env fd n off w = ((r, bs), w')"
  shows "fbyte w' = fbyte w" and "flen w' = flen w" and "- (2 ^ 31) \<le> r" and "r \<le> int (unat n)"
    and "0 \<le> r \<Longrightarrow> bs = extent (unat off) (nat r) (fbyte w)"
  using assms unfolding pread_ok_def by blast+

lemma sync_okD:
  assumes "sync_ok env fd fbyte flen" and "abt_io_fdatasync env fd w = (r, w')"
  shows "fbyte w' = fbyte w" and "flen w' = flen w"
  using assms unfolding sync_ok_def by blast+

lemma punch_okD:
  assumes "punch_ok env fd fbyte flen" and "abt_io_punch_hole env fd off n w = (r, w')"
  shows "p < unat off \<or> unat off + unat n \<le> p \<Longrightarrow> fbyte w' p = fbyte w p"
    and "flen w' = flen w"
    and "r = 0 \<Longrightarrow> fbyte w' = overlay (unat off) (replicate (unat n) 0) (fbyte w)"
  using assms unfolding punch_ok_def by blast+

lemma memalign_okD:
  assumes "memalign_ok env fbyte flen" and "posix_memalign env al n w = ((r, p, bs), w')"
  shows "fbyte w' = fbyte w" and "flen w' = flen w"
    and "r = 0 \<Longrightarrow> length bs = unat n" and "r = 0 \<Longrightarrow> unat al dvd unat p"
    and "r = 0 \<Longrightarrow> unat p + unat n < 2 ^ 64"
  using assms unfolding memalign_ok_def by blast+

text \<open>
  Calls that do not fail: the allocator has memory, writes and reads inside the file are complete.
  Only the theorems that state a success use it.
\<close>

definition io_reliable :: "'w env \<Rightarrow> int \<Rightarrow> ('w \<Rightarrow> nat) \<Rightarrow> bool" where
  "io_reliable env fd flen \<longleftrightarrow>
    (\<forall>al n w. unat al + unat n < 2 ^ 62 \<longrightarrow> fst (fst (posix_memalign env al n w)) = 0) \<and>
    (\<forall>d off w. fst (abt_io_pwrite env fd d off w) = int (length d)) \<and>
    (\<forall>n off w. unat off + unat n \<le> flen w \<longrightarrow> fst (fst (abt_io_pread env fd n off w)) = int (unat n)) \<and>
    (\<forall>w. fst (abt_io_fdatasync env fd w) = 0)"

lemma io_reliableD:
  assumes "io_reliable env fd flen"
  shows "posix_memalign env al n w = ((r, p, bs), w') \<Longrightarrow> unat al + unat n < 2 ^ 62 \<Longrightarrow> r = 0"
    and "abt_io_pwrite env fd d off w = (r2, w2) \<Longrightarrow> r2 = int (length d)"
    and "abt_io_pread env fd n off w = ((r3, bs), w3) \<Longrightarrow> unat off + unat n \<le> flen w \<Longrightarrow>
           r3 = int (unat n)"
    and "abt_io_fdatasync env fd w = (r4, w4) \<Longrightarrow> r4 = 0"
  using assms unfolding io_reliable_def by (metis fst_conv)+

section \<open>What the bulk transfers rely on\<close>

text \<open>
  \<open>rbyte w p\<close> is the byte at offset \<open>p\<close> of the client's registered memory. It is changed by
  pushes only, and a failed push stays inside its range; the client leaves its buffer alone
  while the transfer runs, as remote memory access requires. The buffers of the pool are page
  aligned and their access does not fail.
\<close>

definition pull_ok ::
  "'w env \<Rightarrow> hg_addr \<Rightarrow> hg_bulk \<Rightarrow> ('w \<Rightarrow> nat \<Rightarrow> byte) \<Rightarrow> ('w \<Rightarrow> nat) \<Rightarrow> ('w \<Rightarrow> nat \<Rightarrow> byte) \<Rightarrow> bool" where
  "pull_ok env addr bulk fbyte flen rbyte \<longleftrightarrow>
    (\<forall>off n w r bs w'. bulk_pull env addr bulk off n w = ((r, bs), w') \<longrightarrow>
       fbyte w' = fbyte w \<and> flen w' = flen w \<and> rbyte w' = rbyte w \<and>
       (r = 0 \<longrightarrow> bs = extent (unat off) (unat n) (rbyte w)))"

definition push_ok ::
  "'w env \<Rightarrow> hg_addr \<Rightarrow> hg_bulk \<Rightarrow> ('w \<Rightarrow> nat \<Rightarrow> byte) \<Rightarrow> ('w \<Rightarrow> nat) \<Rightarrow> ('w \<Rightarrow> nat \<Rightarrow> byte) \<Rightarrow> bool" where
  "push_ok env addr bulk fbyte flen rbyte \<longleftrightarrow>
    (\<forall>off d w r w'. bulk_push env addr bulk off d w = (r, w') \<longrightarrow>
       fbyte w' = fbyte w \<and> flen w' = flen w \<and>
       (\<forall>p. p < unat off \<or> unat off + length d \<le> p \<longrightarrow> rbyte w' p = rbyte w p) \<and>
       (r = 0 \<longrightarrow> rbyte w' = overlay (unat off) d (rbyte w)))"

definition poolset_ok ::
  "'w env \<Rightarrow> ('w \<Rightarrow> nat \<Rightarrow> byte) \<Rightarrow> ('w \<Rightarrow> nat) \<Rightarrow> ('w \<Rightarrow> nat \<Rightarrow> byte) \<Rightarrow> bool" where
  "poolset_ok env fbyte flen rbyte \<longleftrightarrow>
    (\<forall>n w r h w'. poolset_get env n w = ((r, h), w') \<longrightarrow>
       fbyte w' = fbyte w \<and> flen w' = flen w \<and> rbyte w' = rbyte w) \<and>
    (\<forall>h w. fbyte (poolset_release env h w) = fbyte w \<and> flen (poolset_release env h w) = flen w \<and>
       rbyte (poolset_release env h w) = rbyte w) \<and>
    (\<forall>h n w p bs. bulk_access env h n w = (0, p, bs) \<longrightarrow> length bs = unat n)"

definition bulk_ok ::
  "'w env \<Rightarrow> hg_addr \<Rightarrow> hg_bulk \<Rightarrow> ('w \<Rightarrow> nat \<Rightarrow> byte) \<Rightarrow> ('w \<Rightarrow> nat) \<Rightarrow> ('w \<Rightarrow> nat \<Rightarrow> byte) \<Rightarrow> bool" where
  "bulk_ok env addr bulk fbyte flen rbyte \<longleftrightarrow> pull_ok env addr bulk fbyte flen rbyte \<and>
     push_ok env addr bulk fbyte flen rbyte \<and> poolset_ok env fbyte flen rbyte"

text \<open>The file calls do not touch the client's memory and make progress.\<close>

definition file_remote_ok ::
  "'w env \<Rightarrow> int \<Rightarrow> ('w \<Rightarrow> nat) \<Rightarrow> ('w \<Rightarrow> nat \<Rightarrow> byte) \<Rightarrow> bool" where
  "file_remote_ok env fd flen rbyte \<longleftrightarrow>
    (\<forall>d off w r w'. abt_io_pwrite env fd d off w = (r, w') \<longrightarrow> rbyte w' = rbyte w \<and> (d \<noteq> [] \<longrightarrow> r \<noteq> 0)) \<and>
    (\<forall>n off w r bs w'. abt_io_pread env fd n off w = ((r, bs), w') \<longrightarrow>
       rbyte w' = rbyte w \<and> (0 < n \<and> unat off < flen w \<longrightarrow> r \<noteq> 0))"

text \<open>No call of a transfer fails.\<close>

definition bulk_reliable :: "'w env \<Rightarrow> bool" where
  "bulk_reliable env \<longleftrightarrow>
    (\<forall>addr bulk off n w. fst (fst (bulk_pull env addr bulk off n w)) = 0) \<and>
    (\<forall>addr bulk off d w. fst (bulk_push env addr bulk off d w) = 0) \<and>
    (\<forall>n w. fst (fst (poolset_get env n w)) = 0)"

definition pool_buffers_ok :: "'w env \<Rightarrow> bool" where
  "pool_buffers_ok env \<longleftrightarrow>
    (\<forall>h n w. fst (bulk_access env h n w) = 0 \<and> 4096 dvd unat (fst (snd (bulk_access env h n w))))"

lemma bulk_okD:
  assumes "bulk_ok env addr bulk fbyte flen rbyte"
  shows "pull_ok env addr bulk fbyte flen rbyte" "push_ok env addr bulk fbyte flen rbyte"
    "poolset_ok env fbyte flen rbyte"
  using assms by (simp_all add: bulk_ok_def)

lemma pull_okD:
  assumes "pull_ok env addr bulk fbyte flen rbyte"
    and "bulk_pull env addr bulk off n w = ((r, bs), w')"
  shows "fbyte w' = fbyte w" and "flen w' = flen w" and "rbyte w' = rbyte w"
    and "r = 0 \<Longrightarrow> bs = extent (unat off) (unat n) (rbyte w)"
  using assms unfolding pull_ok_def by blast+

lemma push_okD:
  assumes "push_ok env addr bulk fbyte flen rbyte" and "bulk_push env addr bulk off d w = (r, w')"
  shows "fbyte w' = fbyte w" and "flen w' = flen w"
    and "p < unat off \<or> unat off + length d \<le> p \<Longrightarrow> rbyte w' p = rbyte w p"
    and "r = 0 \<Longrightarrow> rbyte w' = overlay (unat off) d (rbyte w)"
  using assms unfolding push_ok_def by blast+

lemma poolset_okD:
  assumes "poolset_ok env fbyte flen rbyte"
  shows "poolset_get env n w = ((r, h), w') \<Longrightarrow> fbyte w' = fbyte w"
    and "poolset_get env n w = ((r, h), w') \<Longrightarrow> flen w' = flen w"
    and "poolset_get env n w = ((r, h), w') \<Longrightarrow> rbyte w' = rbyte w"
    and "fbyte (poolset_release env h w) = fbyte w" and "flen (poolset_release env h w) = flen w"
    and "rbyte (poolset_release env h w) = rbyte w"
    and "bulk_access env h n w = (0, q, bs) \<Longrightarrow> length bs = unat n"
  using assms unfolding poolset_ok_def by blast+

lemma file_remote_okD:
  assumes "file_remote_ok env fd flen rbyte"
  shows "abt_io_pwrite env fd d off w = (r, w') \<Longrightarrow> rbyte w' = rbyte w"
    and "abt_io_pwrite env fd d off w = (r, w') \<Longrightarrow> d \<noteq> [] \<Longrightarrow> r \<noteq> 0"
    and "abt_io_pread env fd n off w = ((r, bs), w') \<Longrightarrow> rbyte w' = rbyte w"
    and "abt_io_pread env fd n off w = ((r, bs), w') \<Longrightarrow> 0 < n \<Longrightarrow> unat off < flen w \<Longrightarrow> r \<noteq> 0"
  using assms unfolding file_remote_ok_def by blast+

section \<open>What the persistent memory operations rely on\<close>

text \<open>
  The same facts about the network without a log file. A pull that fails delivers at most the
  bytes it was asked for.
\<close>

definition pull_remote_ok :: "'w env \<Rightarrow> hg_addr \<Rightarrow> hg_bulk \<Rightarrow> ('w \<Rightarrow> nat \<Rightarrow> byte) \<Rightarrow> bool" where
  "pull_remote_ok env addr bulk rbyte \<longleftrightarrow>
    (\<forall>off n w r bs w'. bulk_pull env addr bulk off n w = ((r, bs), w') \<longrightarrow>
       rbyte w' = rbyte w \<and> length bs \<le> unat n \<and>
       (r = 0 \<longrightarrow> bs = extent (unat off) (unat n) (rbyte w)))"

definition push_remote_ok :: "'w env \<Rightarrow> hg_addr \<Rightarrow> hg_bulk \<Rightarrow> ('w \<Rightarrow> nat \<Rightarrow> byte) \<Rightarrow> bool" where
  "push_remote_ok env addr bulk rbyte \<longleftrightarrow>
    (\<forall>off d w r w'. bulk_push env addr bulk off d w = (r, w') \<longrightarrow>
       (\<forall>p. p < unat off \<or> unat off + length d \<le> p \<longrightarrow> rbyte w' p = rbyte w p) \<and>
       (r = 0 \<longrightarrow> rbyte w' = overlay (unat off) d (rbyte w)))"

definition local_bulk_ok :: "'w env \<Rightarrow> ('w \<Rightarrow> nat \<Rightarrow> byte) \<Rightarrow> bool" where
  "local_bulk_ok env rbyte \<longleftrightarrow>
    (\<forall>n w r h w'. poolset_get env n w = ((r, h), w') \<longrightarrow> rbyte w' = rbyte w) \<and>
    (\<forall>h w. rbyte (poolset_release env h w) = rbyte w) \<and>
    (\<forall>h n w p bs. bulk_access env h n w = (0, p, bs) \<longrightarrow> length bs = unat n) \<and>
    (\<forall>p n w r h w'. bulk_create env p n w = ((r, h), w') \<longrightarrow> rbyte w' = rbyte w) \<and>
    (\<forall>h w. rbyte (bulk_free env h w) = rbyte w)"

lemma pull_remote_okD:
  assumes "pull_remote_ok env addr bulk rbyte" and "bulk_pull env addr bulk off n w = ((r, bs), w')"
  shows "rbyte w' = rbyte w" and "length bs \<le> unat n"
    and "r = 0 \<Longrightarrow> bs = extent (unat off) (unat n) (rbyte w)"
  using assms unfolding pull_remote_ok_def by blast+

lemma push_remote_okD:
  assumes "push_remote_ok env addr bulk rbyte" and "bulk_push env addr bulk off d w = (r, w')"
  shows "p < unat off \<or> unat off + length d \<le> p \<Longrightarrow> rbyte w' p = rbyte w p"
    and "r = 0 \<Longrightarrow> rbyte w' = overlay (unat off) d (rbyte w)"
  using assms unfolding push_remote_ok_def by blast+

lemma local_bulk_okD:
  assumes "local_bulk_ok env rbyte"
  shows "poolset_get env n w = ((r, h), w') \<Longrightarrow> rbyte w' = rbyte w"
    and "rbyte (poolset_release env h w) = rbyte w"
    and "bulk_access env h n w = (0, q, bs) \<Longrightarrow> length bs = unat n"
    and "bulk_create env q n w = ((r, h), w') \<Longrightarrow> rbyte w' = rbyte w"
    and "rbyte (bulk_free env h w) = rbyte w"
  using assms unfolding local_bulk_ok_def by blast+

end
