(* ===== verification/Bake_Sim.thy ===== *)
theory Bake_Sim
  imports Bake_Env
begin

text \<open>
  One concrete environment: a log file that is a byte store with a length, remote memory behind
  bulk handles, an allocator whose buffers hold arbitrary old bytes, and a persistent heap that
  hands out increasing addresses. It satisfies the
  predicates of \<open>Bake_Env\<close>, which shows that they can hold together, and the concrete instances
  of the theorems run in it.
\<close>

record sim =
  sim_file :: "nat \<Rightarrow> byte"
  sim_len :: nat
  sim_remote :: "hg_bulk \<Rightarrow> nat \<Rightarrow> byte"
  sim_next :: nat
  sim_durable :: "nat \<Rightarrow> byte"

definition sim_pwrite :: "byte list \<Rightarrow> u64 \<Rightarrow> sim \<Rightarrow> int \<times> sim" where
  "sim_pwrite d off w =
    (int (length d), w\<lparr>sim_file := overlay (unat off) d (sim_file w),
                       sim_len := (if d = [] then sim_len w else max (sim_len w) (unat off + length d))\<rparr>)"

definition sim_pread :: "u64 \<Rightarrow> u64 \<Rightarrow> sim \<Rightarrow> (int \<times> byte list) \<times> sim" where
  "sim_pread n off w =
    (let m = min (unat n) (sim_len w - unat off)
     in ((int m, extent (unat off) m (sim_file w)), w))"

definition sim_memalign :: "u64 \<Rightarrow> u64 \<Rightarrow> sim \<Rightarrow> (int \<times> u64 \<times> byte list) \<times> sim" where
  "sim_memalign al n w =
    (if unat al + unat n < 2 ^ 64 then ((0, al, replicate (unat n) 0xAA), w) else ((12, 0, []), w))"

definition sim_env :: "sim env" where
  "sim_env =
    \<lparr>posix_memalign = sim_memalign,
     abt_io_pwrite = (\<lambda>fd. sim_pwrite),
     abt_io_pread = (\<lambda>fd. sim_pread),
     abt_io_fdatasync = (\<lambda>fd w. (0, w)),
     abt_io_punch_hole = (\<lambda>fd off n w.
       (0, w\<lparr>sim_file := overlay (unat off) (replicate (unat n) 0) (sim_file w)\<rparr>)),
     open_excl = (\<lambda>name w. (3, w\<lparr>sim_len := 0\<rparr>)),
     write_fd = (\<lambda>fd d w. sim_pwrite d (of_nat (sim_len w)) w),
     close_fd = (\<lambda>fd w. w),
     uuid_generate = (\<lambda>w. (map of_nat [1..<17], w)),
     poolset_get_max = (\<lambda>w. 8192),
     poolset_get = (\<lambda>n w. ((0, 1), w)),
     poolset_release = (\<lambda>b w. w),
     bulk_access = (\<lambda>h n w. (0, 8192, replicate (unat n) 0xAA)),
     bulk_pull = (\<lambda>addr bulk off n w. ((0, extent (unat off) (unat n) (sim_remote w bulk)), w)),
     bulk_push = (\<lambda>addr bulk off d w.
       (0, w\<lparr>sim_remote := (sim_remote w)(bulk := overlay (unat off) d (sim_remote w bulk))\<rparr>)),
     bulk_create = (\<lambda>p n w. ((0, 2), w)),
     bulk_free = (\<lambda>h w. w),
     pmemobj_create = (\<lambda>name n w. (Some 1, w)),
     pmemobj_open = (\<lambda>name w. (Some 1, w)),
     pmemobj_close = (\<lambda>pool w. w),
     pmemobj_root = (\<lambda>pool n w. (le_bytes 8 (1 :: u64) @ le_bytes 8 (64 :: u64), w)),
     pmemobj_direct = (\<lambda>oid w. of_le_bytes (take 8 (drop 8 oid))),
     pmemobj_alloc = (\<lambda>pool n w.
       (if 0 < sim_next w \<and> sim_next w + unat n < 2 ^ 63
        then ((0, le_bytes 8 (1 :: u64) @ le_bytes 8 (of_nat (sim_next w) :: u64)),
              w\<lparr>sim_next := sim_next w + unat n\<rparr>)
        else ((-1, replicate 16 0), w))),
     pmemobj_free = (\<lambda>oid w. w),
     pmemobj_persist = (\<lambda>p d w. w\<lparr>sim_durable := overlay (unat p) d (sim_durable w)\<rparr>)\<rparr>"

definition sim0 :: sim where
  "sim0 = \<lparr>sim_file = (\<lambda>p. 0), sim_len = 4096, sim_remote = (\<lambda>b p. of_nat p), sim_next = 4096,
     sim_durable = (\<lambda>p. 0)\<rparr>"

lemma sim_log_file_ok: "log_file_ok sim_env fd sim_file sim_len"
proof -
  have "pwrite_ok sim_env fd sim_file sim_len"
    by (auto simp: pwrite_ok_def sim_env_def sim_pwrite_def overlay_outside)
  moreover have le: "int (min (unat n) m) \<le> uint n" for n :: u64 and m
    unfolding uint_nat of_nat_le_iff by (rule min.cobounded1)
  moreover have "pread_ok sim_env fd sim_file sim_len"
    by (auto simp: pread_ok_def sim_env_def sim_pread_def Let_def le)
  moreover have "sync_ok sim_env fd sim_file sim_len"
    by (auto simp: sync_ok_def sim_env_def)
  moreover have "punch_ok sim_env fd sim_file sim_len"
    by (auto simp: punch_ok_def sim_env_def overlay_outside)
  moreover have "memalign_ok sim_env sim_file sim_len"
    by (auto simp: memalign_ok_def sim_env_def sim_memalign_def split: if_splits)
  ultimately show ?thesis by (simp add: log_file_ok_def)
qed

lemma sim_io_reliable: "io_reliable sim_env fd sim_len"
  by (auto simp: io_reliable_def sim_env_def sim_memalign_def sim_pwrite_def sim_pread_def Let_def
      min_absorb1)

lemma sim_bulk_ok: "bulk_ok sim_env addr bulk sim_file sim_len (\<lambda>w. sim_remote w bulk)"
  by (auto simp: bulk_ok_def pull_ok_def push_ok_def poolset_ok_def sim_env_def overlay_outside)

lemma sim_file_remote_ok: "file_remote_ok sim_env fd sim_len (\<lambda>w. sim_remote w bulk)"
  by (auto simp: file_remote_ok_def sim_env_def sim_pwrite_def sim_pread_def Let_def min_def
      unat_gt_0 word_greater_zero_iff)

lemma sim_bulk_reliable: "bulk_reliable sim_env"
  by (simp add: bulk_reliable_def sim_env_def)

lemma sim_pool_buffers_ok: "pool_buffers_ok sim_env"
  by (simp add: pool_buffers_ok_def sim_env_def)

lemma sim_remote_ok:
  "pull_remote_ok sim_env addr bulk (\<lambda>w. sim_remote w bulk)"
  "push_remote_ok sim_env addr bulk (\<lambda>w. sim_remote w bulk)"
  "local_bulk_ok sim_env (\<lambda>w. sim_remote w bulk)"
  by (auto simp: pull_remote_ok_def push_remote_ok_def local_bulk_ok_def sim_env_def overlay_outside)

end
