(* ===== verification/File_Backend.thy ===== *)
theory File_Backend
  imports Align Bake_Sim
begin

text \<open>
  The file backend of \<^verbatim>\<open>src/bake-file-backend.c\<close> without the bulk transfers (those are in
  \<open>File_Transfer\<close>): a target is one log file, a superblock followed by block aligned extents,
  one per region. A region id holds the offset and the size of its extent. The entry of a
  target keeps the next unused offset of the log.
\<close>

section \<open>Data\<close>

definition BAKE_SUPERBLOCK_SIZE :: u64 where "BAKE_SUPERBLOCK_SIZE = 4096"

record file_region_id =
  log_entry_offset :: u64
  log_entry_size :: u64

text \<open>The 16 bytes of the region id hold the struct.\<close>

definition frid_data :: "file_region_id \<Rightarrow> byte list" where
  "frid_data f = le_bytes 8 (log_entry_offset f) @ le_bytes 8 (log_entry_size f)"

definition frid_of :: "bake_region_id \<Rightarrow> file_region_id" where
  "frid_of rid = \<lparr>log_entry_offset = of_le_bytes (take 8 (rid_data rid)),
                 log_entry_size = of_le_bytes (take 8 (drop 8 (rid_data rid)))\<rparr>"

record bake_file_entry =
  log_fd :: int
  log_offset :: u64
  log_alignment :: int
  sync :: bool
  file_root :: bake_target_id
  root :: cstring
  filename :: cstring
  abtioi :: nat

section \<open>Operations\<close>

definition bake_file_makepool :: "'w env \<Rightarrow> cstring \<Rightarrow> u64 \<Rightarrow> 'w \<Rightarrow> int outcome \<times> 'w" where
  "bake_file_makepool env file_name file_size w =
    (let (fd, w) = open_excl env file_name w
     in if fd < 0 then (Returns BAKE_ERR_IO, w)
        else
         (let ((ret, _, _), w) = posix_memalign env BAKE_SUPERBLOCK_SIZE BAKE_SUPERBLOCK_SIZE w
          in if ret \<noteq> 0 then (Aborts, w)
             else
              (let (pool_id, w) = uuid_generate env w;
                   block = pool_id @ replicate (4096 - length pool_id) 0;
                   (r, w) = write_fd env fd block w
               in if to_c_int r \<noteq> 4096 then (Returns BAKE_ERR_IO, w)
                  else (Returns BAKE_SUCCESS, close_fd env fd w))))"

text \<open>
  \<open>bake_file_create\<close>. The mutex protected part reserves the extent; the rest extends the log
  file by writing one block at the end of the log, whose offset it reads again without the mutex:
  \<open>bake_file_create\<close> is a call with no other creation between the two parts, \<open>create_steps\<close> below
  interleaves them. The block comes from \<open>posix_memalign\<close> and is
  not cleared. The region id is filled in before anything can fail.
\<close>

definition file_reserve :: "bake_file_entry \<Rightarrow> u64 \<Rightarrow> file_region_id \<times> bake_file_entry" where
  "file_reserve entry sz =
    (\<lparr>log_entry_offset = log_offset entry, log_entry_size = sz\<rparr>,
     entry\<lparr>log_offset := log_offset entry + sz\<rparr>)"

definition file_extend :: "'w env \<Rightarrow> bake_file_entry \<Rightarrow> 'w \<Rightarrow> int \<times> 'w" where
  "file_extend env entry w =
    (let al = log_alignment entry;
         ((ret, _, zero_block), w) = posix_memalign env (of_int al) (of_int al) w
     in if ret \<noteq> 0 then (BAKE_ERR_IO, w)
        else
         (let (r, w) = abt_io_pwrite env (log_fd entry) zero_block (log_offset entry - of_int al) w
          in if to_c_int r \<noteq> al then (BAKE_ERR_IO, w)
             else if sync entry then
               (let (r, w) = abt_io_fdatasync env (log_fd entry) w
                in if r \<noteq> 0 then (BAKE_ERR_IO, w) else (BAKE_SUCCESS, w))
             else (BAKE_SUCCESS, w)))"

definition bake_file_create ::
  "'w env \<Rightarrow> bake_file_entry \<Rightarrow> u64 \<Rightarrow> bake_region_id \<Rightarrow> 'w \<Rightarrow>
     (int \<times> bake_region_id \<times> bake_file_entry) \<times> 'w" where
  "bake_file_create env entry sz rid w =
    (let sz = BAKE_ALIGN_UP sz (log_alignment entry);
         (frid, entry) = file_reserve entry sz;
         (ret, w) = file_extend env entry w
     in ((ret, rid\<lparr>rid_data := frid_data frid\<rparr>, entry), w))"

definition bake_file_write_raw ::
  "'w env \<Rightarrow> bake_file_entry \<Rightarrow> bake_region_id \<Rightarrow> u64 \<Rightarrow> u64 \<Rightarrow> byte list \<Rightarrow> 'w \<Rightarrow> int \<times> 'w" where
  "bake_file_write_raw env entry rid off sz data w =
    (let frid = frid_of rid; al = log_alignment entry
     in if off \<noteq> 0 then (BAKE_ERR_OP_UNSUPPORTED, w)
        else if sz + off > log_entry_size frid then (BAKE_ERR_OUT_OF_BOUNDS, w)
        else
         (let ((ret, _, bounce), w) = posix_memalign env (of_int al) (BAKE_ALIGN_UP sz al) w
          in if ret \<noteq> 0 then (BAKE_ERR_IO, w)
             else
              (let bounce = take (unat sz) data @ drop (unat sz) bounce;
                   (r, w) = abt_io_pwrite env (log_fd entry)
                              (take (unat (BAKE_ALIGN_UP sz al)) bounce) (log_entry_offset frid) w
               in if to_c_int r \<noteq> al then (BAKE_ERR_IO, w) else (BAKE_SUCCESS, w))))"

text \<open>
  \<open>bake_file_read_raw\<close> hands out a pointer into its bounce buffer together with the function
  that frees it. The result holds the return code, the address of the bounce buffer, the
  address given to the caller and the bytes found there.
\<close>

record raw_data =
  rd_base :: u64
  rd_ptr :: u64
  rd_size :: u64
  rd_bytes :: "byte list"

definition bake_file_read_raw ::
  "'w env \<Rightarrow> bake_file_entry \<Rightarrow> bake_region_id \<Rightarrow> u64 \<Rightarrow> u64 \<Rightarrow> 'w \<Rightarrow>
     (int \<times> raw_data option) \<times> 'w" where
  "bake_file_read_raw env entry rid off sz w =
    (let frid = frid_of rid; al = log_alignment entry
     in if sz + off > log_entry_size frid then ((BAKE_ERR_OUT_OF_BOUNDS, None), w)
        else
         (let natural_offset_start = log_entry_offset frid + off;
              natural_offset_end = natural_offset_start + sz;
              log_offset_start = BAKE_ALIGN_DOWN natural_offset_start al;
              log_offset_end = BAKE_ALIGN_UP natural_offset_end al;
              n = log_offset_end - log_offset_start;
              ((ret, base, bounce), w) = posix_memalign env (of_int al) n w
          in if ret \<noteq> 0 then ((BAKE_ERR_IO, None), w)
             else
              (let ((r, bs), w) = abt_io_pread env (log_fd entry) n log_offset_start w
               in if to_c_int r \<noteq> al then ((BAKE_ERR_IO, None), w)
                  else
                   (let bounce = bs @ drop (length bs) bounce;
                        d = natural_offset_start - log_offset_start
                    in ((BAKE_SUCCESS,
                         Some \<lparr>rd_base = base, rd_ptr = base + d, rd_size = sz,
                               rd_bytes = take (unat sz) (drop (unat d) bounce)\<rparr>), w)))))"

text \<open>The address that \<open>bake_file_read_raw_free\<close> passes to \<open>free\<close>.\<close>

definition bake_file_read_raw_free :: "bake_file_entry \<Rightarrow> u64 \<Rightarrow> u64" where
  "bake_file_read_raw_free entry ptr = BAKE_ALIGN_DOWN ptr (log_alignment entry)"

definition bake_file_persist ::
  "'w env \<Rightarrow> bake_file_entry \<Rightarrow> bake_region_id \<Rightarrow> u64 \<Rightarrow> u64 \<Rightarrow> 'w \<Rightarrow> int \<times> 'w" where
  "bake_file_persist env entry rid off sz w =
    (if sync entry then
       (let (r, w) = abt_io_fdatasync env (log_fd entry) w
        in if r \<noteq> 0 then (BAKE_ERR_IO, w) else (BAKE_SUCCESS, w))
     else (BAKE_SUCCESS, w))"

definition bake_file_get_region_size :: "bake_file_entry \<Rightarrow> bake_region_id \<Rightarrow> int" where
  "bake_file_get_region_size entry rid = BAKE_ERR_OP_UNSUPPORTED"

definition bake_file_get_region_data :: "bake_file_entry \<Rightarrow> bake_region_id \<Rightarrow> int" where
  "bake_file_get_region_data entry rid = BAKE_ERR_OP_UNSUPPORTED"

definition bake_file_remove ::
  "'w env \<Rightarrow> bake_file_entry \<Rightarrow> bake_region_id \<Rightarrow> 'w \<Rightarrow> int \<times> 'w" where
  "bake_file_remove env entry rid w =
    (let frid = frid_of rid
     in abt_io_punch_hole env (log_fd entry) (log_entry_offset frid) (log_entry_size frid) w)"

definition bake_file_migrate_region :: "bake_file_entry \<Rightarrow> bake_region_id \<Rightarrow> int" where
  "bake_file_migrate_region entry rid = BAKE_ERR_OP_UNSUPPORTED"

section \<open>Region ids\<close>

lemma length_frid_data [simp]: "length (frid_data f) = 16"
  by (simp add: frid_data_def)

lemma frid_of_frid_data [simp]: "frid_of (rid\<lparr>rid_data := frid_data f\<rparr>) = f"
  by (simp add: frid_of_def frid_data_def)

section \<open>The invariant of a target\<close>

text \<open>
  The block size is a power of two between 8 (the least \<open>posix_memalign\<close> takes) and the
  superblock size, and the next unused offset is behind the superblock on a block boundary.
\<close>

definition entry_ok :: "nat \<Rightarrow> bake_file_entry \<Rightarrow> bool" where
  "entry_ok k e \<longleftrightarrow> 3 \<le> k \<and> k \<le> 12 \<and> log_alignment e = 2 ^ k \<and>
     2 ^ k dvd unat (log_offset e) \<and> 4096 \<le> unat (log_offset e) \<and> unat (log_offset e) < 2 ^ 63"

text \<open>Extents handed out before the current end of the log.\<close>

definition region_ok :: "nat \<Rightarrow> bake_file_entry \<Rightarrow> file_region_id \<Rightarrow> bool" where
  "region_ok k e f \<longleftrightarrow> 2 ^ k dvd unat (log_entry_offset f) \<and> 2 ^ k dvd unat (log_entry_size f) \<and>
     4096 \<le> unat (log_entry_offset f) \<and>
     unat (log_entry_offset f) + unat (log_entry_size f) \<le> unat (log_offset e)"

definition disjoint_regions :: "file_region_id \<Rightarrow> file_region_id \<Rightarrow> bool" where
  "disjoint_regions f g \<longleftrightarrow>
     unat (log_entry_offset f) + unat (log_entry_size f) \<le> unat (log_entry_offset g) \<or>
     unat (log_entry_offset g) + unat (log_entry_size g) \<le> unat (log_entry_offset f)"

text \<open>There is room in the log for a region of \<open>n\<close> bytes below the largest file offset.\<close>

definition log_room :: "bake_file_entry \<Rightarrow> nat \<Rightarrow> bool" where
  "log_room e n \<longleftrightarrow> unat (log_offset e) + n + 4096 \<le> 2 ^ 63"

lemma entry_okD:
  assumes "entry_ok k e"
  shows "3 \<le> k" "k \<le> 12" "log_alignment e = 2 ^ k" "2 ^ k dvd unat (log_offset e)"
    "4096 \<le> unat (log_offset e)" "unat (log_offset e) < 2 ^ 63"
  using assms by (simp_all add: entry_ok_def)

lemma block_le_4096: "k \<le> 12 \<Longrightarrow> 2 ^ k \<le> (4096::nat)"
  using power_increasing [of k 12 "2::nat"] by simp

lemma unat_block: "k \<le> 12 \<Longrightarrow> unat (of_int (2 ^ k) :: u64) = 2 ^ k"
proof -
  assume "k \<le> 12"
  then have "(2::nat) ^ k < 2 ^ 64" by (intro power_strict_increasing) simp_all
  moreover have "(of_int (2 ^ k) :: u64) = of_nat (2 ^ k)" by simp
  ultimately show ?thesis by (simp only: unat_of_nat) simp
qed

lemma unat_block': "k \<le> 12 \<Longrightarrow> unat (2 ^ k :: u64) = 2 ^ k"
  using unat_block [of k] by simp

lemma to_c_int_block: "k \<le> 12 \<Longrightarrow> to_c_int (2 ^ k) = 2 ^ k"
proof -
  assume "k \<le> 12"
  then have "(2::int) ^ k \<le> 2 ^ 12" by (intro power_increasing) simp_all
  moreover have "(0::int) \<le> 2 ^ k" by simp
  ultimately show ?thesis by (intro to_c_int_id) (simp_all del: zero_le_power)
qed

lemma io_count_block:
  assumes "k \<le> 12" and "to_c_int r = 2 ^ k" and "- (2 ^ 31) \<le> r" and "r \<le> 2 ^ k"
  shows "r = 2 ^ k"
proof -
  have "(2::int) ^ k \<le> 2 ^ 12" using assms(1) by (intro power_increasing) simp_all
  with assms(4) have "r < 2 ^ 31" by simp
  with assms show ?thesis by (simp add: to_c_int_id)
qed

section \<open>Creation\<close>

lemma file_reserve_simps [simp]:
  "log_entry_offset (fst (file_reserve e n)) = log_offset e"
  "log_entry_size (fst (file_reserve e n)) = n"
  "log_offset (snd (file_reserve e n)) = log_offset e + n"
  "log_alignment (snd (file_reserve e n)) = log_alignment e"
  "log_fd (snd (file_reserve e n)) = log_fd e"
  "sync (snd (file_reserve e n)) = sync e"
  by (simp_all add: file_reserve_def)

text \<open>The rounded size of a request, and the end of the log behind it, as natural numbers.\<close>

lemma unat_request:
  assumes "entry_ok k e" and "log_room e (unat sz)"
  shows "unat (BAKE_ALIGN_UP sz (2 ^ k)) = (unat sz + (2 ^ k - 1)) div 2 ^ k * 2 ^ k"
    and "unat (log_offset e + BAKE_ALIGN_UP sz (2 ^ k))
       = unat (log_offset e) + (unat sz + (2 ^ k - 1)) div 2 ^ k * 2 ^ k"
proof -
  have k: "k \<le> 12" using assms(1) by (rule entry_okD)
  then have b: "2 ^ k \<le> (4096::nat)" by (rule block_le_4096)
  from assms(2) b have "unat sz + (2 ^ k - 1) < 2 ^ 64" by (simp add: log_room_def)
  with k show eq: "unat (BAKE_ALIGN_UP sz (2 ^ k)) = (unat sz + (2 ^ k - 1)) div 2 ^ k * 2 ^ k"
    by (simp add: unat_ALIGN_UP)
  have "unat (BAKE_ALIGN_UP sz (2 ^ k)) < unat sz + 2 ^ k"
    using eq round_up_bounds(2) [of "unat sz" k] by simp
  with assms(2) b have "unat (log_offset e) + unat (BAKE_ALIGN_UP sz (2 ^ k)) < 2 ^ 64"
    by (simp add: log_room_def)
  then show "unat (log_offset e + BAKE_ALIGN_UP sz (2 ^ k))
      = unat (log_offset e) + (unat sz + (2 ^ k - 1)) div 2 ^ k * 2 ^ k"
    by (subst unat_add_lem [THEN iffD1]) (simp_all add: eq)
qed

lemma file_reserve_ok:
  assumes "entry_ok k e" and "log_room e (unat sz)"
    and "file_reserve e (BAKE_ALIGN_UP sz (2 ^ k)) = (f, e')"
  shows "entry_ok k e'" and "region_ok k e' f"
    and "unat (log_entry_offset f) = unat (log_offset e)"
    and "unat sz \<le> unat (log_entry_size f)" and "unat (log_entry_size f) < unat sz + 2 ^ k"
    and "unat (log_offset e') = unat (log_entry_offset f) + unat (log_entry_size f)"
    and "0 < sz \<Longrightarrow> unat (log_offset e) + 2 ^ k \<le> unat (log_offset e')"
proof -
  let ?n = "(unat sz + (2 ^ k - 1)) div 2 ^ k * 2 ^ k"
  have f: "log_entry_offset f = log_offset e" "log_entry_size f = BAKE_ALIGN_UP sz (2 ^ k)"
    "log_offset e' = log_offset e + BAKE_ALIGN_UP sz (2 ^ k)" "log_alignment e' = log_alignment e"
    using assms(3) file_reserve_simps [of e "BAKE_ALIGN_UP sz (2 ^ k)"] by simp_all
  note u = unat_request [OF assms(1,2)]
  note b = round_up_bounds [of "unat sz" k]
  have k: "2 ^ k \<le> (4096::nat)" using assms(1) by (intro block_le_4096 entry_okD)
  have "unat (log_offset e) + ?n < 2 ^ 63" using assms(2) b(2) k by (simp add: log_room_def)
  then show "entry_ok k e'"
    using entry_okD [OF assms(1)] by (simp add: entry_ok_def f u)
  show "region_ok k e' f"
    using entry_okD [OF assms(1)] by (simp add: region_ok_def f u)
  show "unat (log_entry_offset f) = unat (log_offset e)" by (simp add: f)
  show "unat sz \<le> unat (log_entry_size f)" "unat (log_entry_size f) < unat sz + 2 ^ k"
    using b by (simp_all add: f u)
  show "unat (log_offset e') = unat (log_entry_offset f) + unat (log_entry_size f)"
    by (simp add: f u)
  assume "0 < sz"
  then have "0 < unat sz" by (simp add: unat_gt_0 word_greater_zero_iff)
  then show "unat (log_offset e) + 2 ^ k \<le> unat (log_offset e')"
    using round_up_pos [of "unat sz" k] by (simp add: f u)
qed

text \<open>The block that extends the file lies between its end minus one block and its end.\<close>

lemma file_extend_ok:
  assumes env: "log_file_ok env (log_fd e) fbyte flen" and e: "entry_ok k e"
    and ex: "file_extend env e w = (ret, w')"
  shows "p < unat (log_offset e) - 2 ^ k \<or> unat (log_offset e) \<le> p \<Longrightarrow> fbyte w' p = fbyte w p"
    and "flen w \<le> flen w'"
    and "ret = BAKE_SUCCESS \<Longrightarrow> unat (log_offset e) \<le> flen w'"
proof -
  note ok = log_file_okD [OF env] and ek = entry_okD [OF e]
  let ?al = "of_int (2 ^ k) :: u64"
  obtain r1 p1 blk w1 where m: "posix_memalign env ?al ?al w = ((r1, p1, blk), w1)"
    by (metis prod.exhaust)
  obtain r2 w2 where pw: "abt_io_pwrite env (log_fd e) blk (log_offset e - ?al) w1 = (r2, w2)"
    by fastforce
  obtain r3 w3 where sy: "abt_io_fdatasync env (log_fd e) w2 = (r3, w3)" by fastforce
  note ma = memalign_okD [OF ok(5) m]
  have b: "2 ^ k \<le> (4096::nat)" using ek(2) by (rule block_le_4096)
  have off: "unat (log_offset e - ?al) = unat (log_offset e) - 2 ^ k"
    using ek(2,5) b by (subst unat_sub) (simp_all add: word_le_nat_alt unat_block')
  have len: "r1 = 0 \<Longrightarrow> length blk = 2 ^ k" using ma(3) ek(2) by (simp add: unat_block')
  note po = pwrite_okD [OF ok(1) pw] and sp = sync_okD [OF ok(3) sy]
  have res: "(ret, w') = (if r1 \<noteq> 0 then (BAKE_ERR_IO, w1)
      else if to_c_int r2 \<noteq> 2 ^ k then (BAKE_ERR_IO, w2)
      else if sync e then (if r3 \<noteq> 0 then (BAKE_ERR_IO, w3) else (BAKE_SUCCESS, w3))
      else (BAKE_SUCCESS, w2))"
    using ex by (simp add: file_extend_def Let_def ek(3) m pw sy del: of_int_power cong: if_cong)
  have outside: "r1 = 0 \<Longrightarrow> p < unat (log_offset e) - 2 ^ k \<or> unat (log_offset e) \<le> p \<Longrightarrow>
      fbyte w2 p = fbyte w1 p" for p
    using po(1) [of p] off len ek(5) b by auto
  show "fbyte w' p = fbyte w p" if "p < unat (log_offset e) - 2 ^ k \<or> unat (log_offset e) \<le> p" for p
    using res outside [OF _ that] ma(1) sp(1) by (auto split: if_splits)
  show "flen w \<le> flen w'"
    using res ma(2) po(2) sp(2) by (auto split: if_splits)
  show "unat (log_offset e) \<le> flen w'" if "ret = BAKE_SUCCESS"
  proof -
    from res that have c: "r1 = 0" "to_c_int r2 = 2 ^ k" and w': "w' = w2 \<or> w' = w3"
      by (auto simp: bake_err_defs split: if_splits)
    have "r2 = 2 ^ k"
      using io_count_block [OF ek(2) c(2) po(3)] po(4) len [OF c(1)] by simp
    then have "unat (log_offset e) \<le> flen w2"
      using po(6) len [OF c(1)] off ek(5) b by fastforce
    with w' sp(2) show ?thesis by auto
  qed
qed

lemma bake_file_create_ok:
  assumes "log_file_ok env (log_fd e) fbyte flen" and "entry_ok k e" and "log_room e (unat sz)"
    and "bake_file_create env e sz rid w = ((ret, rid', e'), w')"
  shows "entry_ok k e'" and "log_fd e' = log_fd e" and "region_ok k e' (frid_of rid')"
    and "rid_type rid' = rid_type rid" and "wf_rid rid'"
    and "log_entry_offset (frid_of rid') = log_offset e" and "sz \<le> log_entry_size (frid_of rid')"
    and "unat (log_entry_size (frid_of rid')) < unat sz + 2 ^ k"
    and "unat (log_offset e') = unat (log_offset e) + unat (log_entry_size (frid_of rid'))"
    and "p < unat (log_offset e) - (if sz = 0 then 2 ^ k else 0) \<Longrightarrow> fbyte w' p = fbyte w p"
    and "ret = BAKE_SUCCESS \<Longrightarrow> unat (log_offset e') \<le> flen w'" and "flen w \<le> flen w'"
proof -
  let ?n = "BAKE_ALIGN_UP sz (2 ^ k)"
  obtain f e1 where r: "file_reserve e ?n = (f, e1)" by fastforce
  obtain r1 w1 where x: "file_extend env e1 w = (r1, w1)" by fastforce
  have res: "ret = r1" "rid' = rid\<lparr>rid_data := frid_data f\<rparr>" "e' = e1" "w' = w1"
    using assms(4) entry_okD(3) [OF assms(2)] by (simp_all add: bake_file_create_def r x)
  have f: "log_entry_offset f = log_offset e" "log_fd e1 = log_fd e"
    using r file_reserve_simps [of e ?n] by simp_all
  note ok = file_reserve_ok [OF assms(2,3) r]
  have env: "log_file_ok env (log_fd e1) fbyte flen" using assms(1) f(2) by simp
  note ex = file_extend_ok [OF env ok(1) x]
  show "fbyte w' p = fbyte w p" if "p < unat (log_offset e) - (if sz = 0 then 2 ^ k else 0)"
  proof (cases "sz = 0")
    case True
    have "unat (log_offset e) \<le> unat (log_offset e1)" using ok(3,6) by simp
    then have "p < unat (log_offset e1) - 2 ^ k" using that True by simp
    then show ?thesis using ex(1) [of p] by (simp add: res)
  next
    case False
    then have "0 < sz" by (simp add: word_greater_zero_iff)
    then show ?thesis using ex(1) [of p] ok(7) that False by (simp add: res)
  qed
  show "ret = BAKE_SUCCESS \<Longrightarrow> unat (log_offset e') \<le> flen w'" "flen w \<le> flen w'"
    using ex(2,3) by (simp_all add: res)
  show "entry_ok k e'" "log_fd e' = log_fd e" "region_ok k e' (frid_of rid')"
    "rid_type rid' = rid_type rid" "wf_rid rid'" "log_entry_offset (frid_of rid') = log_offset e"
    "sz \<le> log_entry_size (frid_of rid')" "unat (log_entry_size (frid_of rid')) < unat sz + 2 ^ k"
    "unat (log_offset e') = unat (log_offset e) + unat (log_entry_size (frid_of rid'))"
    using ok by (simp_all add: res f wf_rid_def BAKE_REGION_ID_DATA_SIZE_def word_le_nat_alt)
qed

text \<open>
  The block is not cleared and goes to the end of the log at the time of the write. When no call
  fails, the last block of the log holds the old contents of the buffer from the allocator. So a
  creation of size 0, which does not move the end of the log, destroys the last block of the
  region created before it.
\<close>

lemma file_extend_overwrites:
  assumes env: "log_file_ok env (log_fd e) fbyte flen" and rel: "io_reliable env (log_fd e) flen"
    and e: "entry_ok k e" and ex: "file_extend env e w = (ret, w')"
    and m: "posix_memalign env (of_int (2 ^ k)) (of_int (2 ^ k)) w = ((r, q, blk), w1)"
  shows "extent (unat (log_offset e) - 2 ^ k) (2 ^ k) (fbyte w') = blk"
proof -
  note ok = log_file_okD [OF env] and ek = entry_okD [OF e]
  let ?al = "of_int (2 ^ k) :: u64"
  obtain r2 w2 where pw: "abt_io_pwrite env (log_fd e) blk (log_offset e - ?al) w1 = (r2, w2)"
    by fastforce
  obtain r3 w3 where sy: "abt_io_fdatasync env (log_fd e) w2 = (r3, w3)" by fastforce
  have b: "2 ^ k \<le> (4096::nat)" using ek(2) by (rule block_le_4096)
  have off: "unat (log_offset e - ?al) = unat (log_offset e) - 2 ^ k"
    using ek(2,5) b by (subst unat_sub) (simp_all add: word_le_nat_alt unat_block')
  have "unat ?al + unat ?al < 2 ^ 62" using b by (simp add: unat_block' [OF ek(2)])
  then have r: "r = 0" using io_reliableD(1) [OF rel m] by simp
  then have len: "length blk = 2 ^ k" using memalign_okD(3) [OF ok(5) m] ek(2) by (simp add: unat_block')
  then have r2: "r2 = int (length blk)" using io_reliableD(2) [OF rel pw] b by simp
  have "fbyte w' = fbyte w2"
    using ex sync_okD(1) [OF ok(3) sy] r
    by (auto simp: file_extend_def Let_def ek(3) m pw sy simp del: of_int_power split: if_splits)
  moreover have "fbyte w2 = overlay (unat (log_offset e) - 2 ^ k) blk (fbyte w1)"
    using pwrite_okD(5) [OF ok(1) pw r2] off by simp
  ultimately show ?thesis using extent_overlay_prefix [of "2 ^ k" blk "unat (log_offset e) - 2 ^ k" "fbyte w1"] len by simp
qed

lemma file_create_zero_overwrites:
  assumes "log_file_ok env (log_fd e) fbyte flen" and "io_reliable env (log_fd e) flen"
    and "entry_ok k e" and "bake_file_create env e 0 rid w = ((ret, rid', e'), w')"
    and "posix_memalign env (of_int (2 ^ k)) (of_int (2 ^ k)) w = ((r, q, blk), w1)"
  shows "e' = e" and "extent (unat (log_offset e) - 2 ^ k) (2 ^ k) (fbyte w') = blk"
proof -
  have "(0::nat) + (2 ^ k - 1) < 2 ^ 64"
    using block_le_4096 [OF entry_okD(2) [OF assms(3)]] by simp
  then have "unat (BAKE_ALIGN_UP 0 (2 ^ k)) = 0"
    using entry_okD(2) [OF assms(3)] by (subst unat_ALIGN_UP) simp_all
  then have z: "BAKE_ALIGN_UP 0 (2 ^ k) = 0" by (simp add: word_unat_eq_iff)
  show e: "e' = e"
    using assms(4) by (simp add: bake_file_create_def file_reserve_def entry_okD(3) [OF assms(3)] z split: prod.splits)
  then have "file_extend env e w = (ret, w')"
    using assms(4) by (simp add: bake_file_create_def file_reserve_def entry_okD(3) [OF assms(3)] z split: prod.splits)
  from file_extend_overwrites [OF assms(1-3) this assms(5)]
  show "extent (unat (log_offset e) - 2 ^ k) (2 ^ k) (fbyte w') = blk" .
qed

text \<open>
  Concurrent creations. The mutex protects only the reservation; the second part reads
  \<open>log_offset\<close> again, so it extends the log up to the end of the last region that any thread has
  reserved by then. Whatever the interleaving, the extents are disjoint and the invariant of the
  target holds.
\<close>

datatype create_step = Reserve u64 | Extend

fun create_steps ::
  "'w env \<Rightarrow> create_step list \<Rightarrow> bake_file_entry \<times> 'w \<Rightarrow> file_region_id list \<times> bake_file_entry \<times> 'w" where
  "create_steps env [] s = ([], s)"
| "create_steps env (Reserve sz # xs) (e, w) =
     (let (f, e) = file_reserve e (BAKE_ALIGN_UP sz (log_alignment e)); (fs, s) = create_steps env xs (e, w)
      in (f # fs, s))"
| "create_steps env (Extend # xs) (e, w) = create_steps env xs (e, snd (file_extend env e w))"

fun reserve_total :: "create_step list \<Rightarrow> nat" where
  "reserve_total [] = 0"
| "reserve_total (Reserve sz # xs) = unat sz + 4096 + reserve_total xs"
| "reserve_total (Extend # xs) = reserve_total xs"

lemma create_steps_disjoint:
  assumes "entry_ok k e" and "log_room e (reserve_total xs)" and "create_steps env xs (e, w) = (fs, e', w')"
  shows "entry_ok k e' \<and> unat (log_offset e) \<le> unat (log_offset e') \<and>
    (\<forall>f\<in>set fs. region_ok k e' f \<and> unat (log_offset e) \<le> unat (log_entry_offset f)) \<and>
    sorted_wrt disjoint_regions fs"
  using assms
proof (induction xs arbitrary: e w fs)
  case (Cons x xs)
  show ?case
  proof (cases x)
    case (Reserve sz)
    obtain f e1 where r: "file_reserve e (BAKE_ALIGN_UP sz (2 ^ k)) = (f, e1)" by fastforce
    have room: "log_room e (unat sz)" using Cons.prems(2) by (simp add: Reserve log_room_def)
    note ok = file_reserve_ok [OF Cons.prems(1) room r]
    obtain gs where g: "create_steps env xs (e1, w) = (gs, e', w')" "fs = f # gs"
      using Cons.prems(3) by (auto simp: Reserve entry_okD(3) [OF Cons.prems(1)] r split: prod.splits)
    have "log_room e1 (reserve_total xs)"
      using Cons.prems(2) ok(3,5,6) block_le_4096 [OF entry_okD(2) [OF Cons.prems(1)]]
      by (simp add: Reserve log_room_def)
    from Cons.IH [OF ok(1) this g(1)] ok(2,3,6) show ?thesis
      by (auto simp: g(2) region_ok_def disjoint_regions_def)
  next
    case Extend
    with Cons show ?thesis by simp
  qed
qed simp

text \<open>
  But the block of a late second part may destroy data: thread A reserves, thread B reserves,
  extends the file and its client fills the region, and then A writes its block at the end of B's
  region instead of its own.
\<close>

lemma file_create_race:
  assumes "log_file_ok env (log_fd e) fbyte flen" and "io_reliable env (log_fd e) flen"
    and "entry_ok k e" and "log_room e (unat szA + unat szB + 4096)" and "0 < szB"
    and "create_steps env [Reserve szA, Reserve szB, Extend] (e, w) = ([fA, fB], e', w1)"
    and "create_steps env [Extend] (e', w2) = ([], e'', w')"
    and "posix_memalign env (of_int (2 ^ k)) (of_int (2 ^ k)) w2 = ((r, q, blk), w3)"
  shows "unat (log_entry_offset fB) \<le> unat (log_offset e') - 2 ^ k"
    and "unat (log_offset e') = unat (log_entry_offset fB) + unat (log_entry_size fB)"
    and "extent (unat (log_offset e') - 2 ^ k) (2 ^ k) (fbyte w') = blk"
proof -
  note ek = entry_okD [OF assms(3)]
  obtain e1 where a: "file_reserve e (BAKE_ALIGN_UP szA (2 ^ k)) = (fA, e1)"
    and b: "file_reserve e1 (BAKE_ALIGN_UP szB (2 ^ k)) = (fB, e')"
    using assms(6) by (auto simp: ek(3) file_reserve_def Let_def)
  have "log_room e (unat szA)" using assms(4) by (simp add: log_room_def)
  note ra = file_reserve_ok [OF assms(3) this a]
  have "log_room e1 (unat szB)"
    using assms(4) ra(3,5,6) block_le_4096 [OF ek(2)] by (simp add: log_room_def)
  note rb = file_reserve_ok [OF ra(1) this b]
  show "unat (log_entry_offset fB) \<le> unat (log_offset e') - 2 ^ k"
    "unat (log_offset e') = unat (log_entry_offset fB) + unat (log_entry_size fB)"
    using rb(3,6,7) assms(5) by simp_all
  have fd: "log_fd e' = log_fd e" using a b by (auto simp: file_reserve_def)
  have "file_extend env e' w2 = (fst (file_extend env e' w2), w')" using assms(7) by (auto simp: prod_eq_iff)
  from file_extend_overwrites [OF _ _ rb(1) this assms(8)] assms(1,2)
  show "extent (unat (log_offset e') - 2 ^ k) (2 ^ k) (fbyte w') = blk" by (simp add: fd)
qed

section \<open>Eager writes and reads\<close>

text \<open>A write covers at most the blocks of the region, whatever it returns.\<close>

lemma write_raw_frame:
  assumes "log_file_ok env (log_fd e) fbyte flen" and "entry_ok k e" and "region_ok k e (frid_of rid)"
    and "unat sz \<le> length data" and "bake_file_write_raw env e rid off sz data w = (ret, w')"
    and "p < unat (log_entry_offset (frid_of rid)) \<or>
         unat (log_entry_offset (frid_of rid)) + unat (log_entry_size (frid_of rid)) \<le> p"
  shows "fbyte w' p = fbyte w p"
proof -
  let ?f = "frid_of rid" and ?al = "of_int (2 ^ k) :: u64" and ?n = "BAKE_ALIGN_UP sz (2 ^ k)"
  note ok = log_file_okD [OF assms(1)] and ek = entry_okD [OF assms(2)]
  obtain r1 p1 b w1 where m: "posix_memalign env ?al ?n w = ((r1, p1, b), w1)"
    by (metis prod.exhaust)
  let ?d = "take (unat ?n) (take (unat sz) data @ drop (unat sz) b)"
  obtain r2 w2 where pw: "abt_io_pwrite env (log_fd e) ?d (log_entry_offset ?f) w1 = (r2, w2)"
    by fastforce
  have w': "w' = w \<or> w' = w1 \<or> sz \<le> log_entry_size ?f \<and> w' = w2"
    using assms(5) by (auto simp: bake_file_write_raw_def Let_def ek(3) m pw simp del: of_int_power take_append split: if_splits)
  have w1: "fbyte w1 = fbyte w" by (rule memalign_okD [OF ok(5) m])
  have "fbyte w2 p = fbyte w1 p" if le: "sz \<le> log_entry_size ?f"
  proof (rule pwrite_okD [OF ok(1) pw])
    have b: "2 ^ k \<le> (4096::nat)" using ek(2) by (rule block_le_4096)
    have rk: "2 ^ k dvd unat (log_entry_size ?f)" "unat (log_entry_size ?f) < 2 ^ 63"
      using assms(3) ek(6) by (auto simp: region_ok_def)
    have "unat sz + (2 ^ k - 1) < 2 ^ 64" using le rk(2) b by (simp add: word_le_nat_alt)
    then have n: "unat ?n = (unat sz + (2 ^ k - 1)) div 2 ^ k * 2 ^ k"
      using ek(2) by (simp add: unat_ALIGN_UP)
    also have "\<dots> \<le> (unat (log_entry_size ?f) + (2 ^ k - 1)) div 2 ^ k * 2 ^ k"
      using le by (intro mult_le_mono1 div_le_mono) (simp add: word_le_nat_alt)
    also have "\<dots> = unat (log_entry_size ?f)" using rk(1) by (rule round_up_dvd)
    finally have "length ?d \<le> unat (log_entry_size ?f)" by simp
    then show "p < unat (log_entry_offset ?f) \<or> unat (log_entry_offset ?f) + length ?d \<le> p"
      using assms(6) by linarith
  qed
  with w' w1 show ?thesis by auto
qed

text \<open>
  A successful write of at most one block has stored the data. The return value of the write is
  compared with the block size, so this is the only length for which a complete write is
  reported as a success.
\<close>

lemma write_raw_stores:
  assumes "log_file_ok env (log_fd e) fbyte flen" and "entry_ok k e"
    and "0 < sz" and "unat sz \<le> 2 ^ k" and "unat sz \<le> length data"
    and "bake_file_write_raw env e rid off sz data w = (BAKE_SUCCESS, w')"
  shows "extent (unat (log_entry_offset (frid_of rid))) (unat sz) (fbyte w') = take (unat sz) data"
    and "unat (log_entry_offset (frid_of rid)) + 2 ^ k \<le> flen w'"
proof -
  let ?f = "frid_of rid" and ?al = "of_int (2 ^ k) :: u64" and ?n = "BAKE_ALIGN_UP sz (2 ^ k)"
  note ok = log_file_okD [OF assms(1)] and ek = entry_okD [OF assms(2)]
  obtain r1 p1 b w1 where m: "posix_memalign env ?al ?n w = ((r1, p1, b), w1)"
    by (metis prod.exhaust)
  let ?d = "take (unat ?n) (take (unat sz) data @ drop (unat sz) b)"
  obtain r2 w2 where pw: "abt_io_pwrite env (log_fd e) ?d (log_entry_offset ?f) w1 = (r2, w2)"
    by fastforce
  have c: "r1 = 0" "to_c_int r2 = 2 ^ k" "w' = w2"
    using assms(6) by (auto simp: bake_file_write_raw_def Let_def ek(3) m pw bake_err_defs
        simp del: of_int_power take_append split: if_splits)
  have "0 < unat sz" using assms(3) by (simp add: unat_gt_0 word_greater_zero_iff)
  then have up: "(unat sz + (2 ^ k - 1)) div 2 ^ k * 2 ^ k = 2 ^ k"
    using assms(4) by (rule round_up_small)
  have n: "unat ?n = 2 ^ k"
    using assms(4) ek(2) block_le_4096 [OF ek(2)] by (subst unat_ALIGN_UP) (simp_all only: up, simp_all)
  have len: "length ?d = 2 ^ k"
    using assms(4,5) memalign_okD(3) [OF ok(5) m c(1)] by (simp add: n)
  note po = pwrite_okD [OF ok(1) pw]
  have "r2 \<le> 2 ^ k" using po(4) unfolding len by simp
  then have r2: "r2 = int (length ?d)"
    unfolding len using io_count_block [OF ek(2) c(2) po(3)] by simp
  have "0 < length ?d" unfolding len by simp
  then have ne: "?d \<noteq> []" by (rule length_greater_0_conv [THEN iffD1])
  show "extent (unat (log_entry_offset ?f)) (unat sz) (fbyte w') = take (unat sz) data"
    using assms(4,5) len by (simp add: c(3) po(5) [OF r2] extent_overlay_prefix n)
  show "unat (log_entry_offset ?f) + 2 ^ k \<le> flen w'"
    using po(6) [OF r2] ne unfolding len by (simp add: c(3))
qed

lemma write_raw_result:
  assumes "io_reliable env (log_fd e) flen" and "log_file_ok env (log_fd e) fbyte flen"
    and "entry_ok k e" and "unat sz \<le> 2 ^ 30" and "unat sz \<le> length data"
  shows "fst (bake_file_write_raw env e rid off sz data w) =
    (if off \<noteq> 0 then BAKE_ERR_OP_UNSUPPORTED
     else if log_entry_size (frid_of rid) < sz then BAKE_ERR_OUT_OF_BOUNDS
     else if 0 < sz \<and> unat sz \<le> 2 ^ k then BAKE_SUCCESS else BAKE_ERR_IO)"
proof (cases "off = 0 \<and> sz \<le> log_entry_size (frid_of rid)")
  case True
  let ?f = "frid_of rid" and ?al = "of_int (2 ^ k) :: u64" and ?n = "BAKE_ALIGN_UP sz (2 ^ k)"
  let ?m = "(unat sz + (2 ^ k - 1)) div 2 ^ k"
  note ok = log_file_okD [OF assms(2)] and ek = entry_okD [OF assms(3)]
  have b: "2 ^ k \<le> (4096::nat)" using ek(2) by (rule block_le_4096)
  obtain r1 p1 c w1 where m: "posix_memalign env ?al ?n w = ((r1, p1, c), w1)"
    by (metis prod.exhaust)
  let ?d = "take (unat ?n) (take (unat sz) data @ drop (unat sz) c)"
  obtain r2 w2 where pw: "abt_io_pwrite env (log_fd e) ?d (log_entry_offset ?f) w1 = (r2, w2)"
    by fastforce
  have n: "unat ?n = ?m * 2 ^ k" using assms(4) ek(2) b by (simp add: unat_ALIGN_UP)
  have bd: "unat sz \<le> unat ?n" "unat ?n < unat sz + 2 ^ k"
    using round_up_bounds [of "unat sz" k] by (simp_all only: n)
  have "unat ?al + unat ?n < 2 ^ 62" using bd(2) assms(4) b ek(2) by (simp add: unat_block')
  then have r1: "r1 = 0" using io_reliableD(1) [OF assms(1) m] by simp
  have len: "length ?d = unat ?n"
    using memalign_okD(3) [OF ok(5) m r1] bd(1) assms(5) by simp
  have r2: "to_c_int r2 = int (unat ?n)"
    unfolding io_reliableD(2) [OF assms(1) pw] len using bd(2) assms(4) b by (intro to_c_int_nat) simp
  have "int (unat ?n) = 2 ^ k \<longleftrightarrow> unat ?n = 2 ^ k" by (metis of_nat_eq_iff of_nat_numeral of_nat_power)
  also have "\<dots> \<longleftrightarrow> 0 < sz \<and> unat sz \<le> 2 ^ k"
    using bd round_up_small [of "unat sz" k] n
    by (cases "sz = 0") (auto simp: unat_gt_0 word_greater_zero_iff)
  finally show ?thesis
    using True r1 r2 by (simp add: bake_file_write_raw_def Let_def ek(3) m pw
        del: of_int_power take_append)
qed (auto simp: bake_file_write_raw_def Let_def)

text \<open>The blocks around a request that does not cross a block boundary.\<close>

definition in_block :: "nat \<Rightarrow> u64 \<Rightarrow> u64 \<Rightarrow> bool" where
  "in_block k off sz \<longleftrightarrow> 0 < sz \<and> unat off mod 2 ^ k + unat sz \<le> 2 ^ k"

lemma read_extent_block:
  assumes "k \<le> 12" and "unat start + unat sz < 2 ^ 63" and "in_block k start sz"
  shows "unat (BAKE_ALIGN_DOWN start (2 ^ k)) = unat start - unat start mod 2 ^ k"
    and "BAKE_ALIGN_UP (start + sz) (2 ^ k) - BAKE_ALIGN_DOWN start (2 ^ k) = of_int (2 ^ k)"
    and "unat (start - BAKE_ALIGN_DOWN start (2 ^ k)) = unat start mod 2 ^ k"
proof -
  let ?q = "unat start div 2 ^ k"
  show d: "unat (BAKE_ALIGN_DOWN start (2 ^ k)) = unat start - unat start mod 2 ^ k"
    by (simp add: unat_ALIGN_DOWN minus_mod_eq_div_mult)
  have pos: "0 < unat sz" using assms(3) by (simp add: in_block_def unat_gt_0 word_greater_zero_iff)
  have dm: "?q * 2 ^ k + unat start mod 2 ^ k = unat start" by (rule div_mult_mod_eq)
  have sum: "unat (start + sz) = unat start + unat sz"
    using assms(2) by (subst unat_add_lem [THEN iffD1]) simp_all
  have up: "(unat (start + sz) + (2 ^ k - 1)) div 2 ^ k * 2 ^ k = ?q * 2 ^ k + 2 ^ k"
    using assms(3) dm pos by (intro round_up_in_block) (simp_all add: sum in_block_def)
  have "unat (BAKE_ALIGN_UP (start + sz) (2 ^ k)) = unat (BAKE_ALIGN_DOWN start (2 ^ k)) + 2 ^ k"
    using assms(1,2) block_le_4096 [OF assms(1)]
    by (subst unat_ALIGN_UP) (simp_all only: up, simp_all add: sum unat_ALIGN_DOWN)
  then have "of_nat (unat (BAKE_ALIGN_UP (start + sz) (2 ^ k)))
      = (of_nat (unat (BAKE_ALIGN_DOWN start (2 ^ k)) + 2 ^ k) :: u64)" by (rule arg_cong)
  then show "BAKE_ALIGN_UP (start + sz) (2 ^ k) - BAKE_ALIGN_DOWN start (2 ^ k) = of_int (2 ^ k)"
    by simp
  have "BAKE_ALIGN_DOWN start (2 ^ k) \<le> start" using d by (simp add: word_le_nat_alt)
  then show "unat (start - BAKE_ALIGN_DOWN start (2 ^ k)) = unat start mod 2 ^ k"
    using d by (simp add: unat_sub)
qed

lemma read_start_block:
  assumes "entry_ok k e" and "region_ok k e f" and "in_block k off sz"
    and "unat off + unat sz \<le> unat (log_entry_size f)"
  shows "unat (log_entry_offset f + off) = unat (log_entry_offset f) + unat off"
    and "unat (log_entry_offset f + off) mod 2 ^ k = unat off mod 2 ^ k"
    and "unat (log_entry_offset f + off) + unat sz < 2 ^ 63"
    and "in_block k (log_entry_offset f + off) sz" and "sz + off \<le> log_entry_size f"
proof -
  have rk: "2 ^ k dvd unat (log_entry_offset f)"
    "unat (log_entry_offset f) + unat (log_entry_size f) < 2 ^ 63"
    using assms(2) entry_okD(6) [OF assms(1)] by (auto simp: region_ok_def)
  show s: "unat (log_entry_offset f + off) = unat (log_entry_offset f) + unat off"
    using rk(2) assms(4) by (subst unat_add_lem [THEN iffD1]) simp_all
  show md: "unat (log_entry_offset f + off) mod 2 ^ k = unat off mod 2 ^ k"
    using rk(1) by (simp add: s mod_add_eq dvd_imp_mod_0 flip: mod_add_left_eq)
  show "unat (log_entry_offset f + off) + unat sz < 2 ^ 63" using rk(2) assms(4) by (simp add: s)
  show "in_block k (log_entry_offset f + off) sz" using assms(3) by (simp add: in_block_def md)
  have "unat (sz + off) = unat sz + unat off"
    using rk(2) assms(4) by (subst unat_add_lem [THEN iffD1]) simp_all
  then show "sz + off \<le> log_entry_size f" using assms(4) by (simp add: word_le_nat_alt)
qed

lemma read_raw_returns:
  assumes "log_file_ok env (log_fd e) fbyte flen" and "entry_ok k e"
    and "region_ok k e (frid_of rid)" and "in_block k off sz"
    and "unat off + unat sz \<le> unat (log_entry_size (frid_of rid))"
    and "bake_file_read_raw env e rid off sz w = ((BAKE_SUCCESS, Some rd), w')"
  shows "rd_bytes rd = extent (unat (log_entry_offset (frid_of rid)) + unat off) (unat sz) (fbyte w)"
    and "rd_size rd = sz" and "bake_file_read_raw_free e (rd_ptr rd) = rd_base rd"
    and "fbyte w' = fbyte w" and "flen w' = flen w"
proof -
  let ?f = "frid_of rid" and ?al = "of_int (2 ^ k) :: u64"
  let ?s = "log_entry_offset ?f + off" let ?a = "BAKE_ALIGN_DOWN ?s (2 ^ k)"
  note ok = log_file_okD [OF assms(1)] and ek = entry_okD [OF assms(2)]
  note st = read_start_block [OF assms(2-5)]
  note s = st(1) and blk = st(4)
  note x = read_extent_block [OF ek(2) st(3,4)]
  obtain r1 p1 b w1 where m: "posix_memalign env ?al ?al w = ((r1, p1, b), w1)"
    by (metis prod.exhaust)
  obtain r2 bs w2 where pr: "abt_io_pread env (log_fd e) ?al ?a w1 = ((r2, bs), w2)"
    by (metis prod.exhaust)
  have c: "r1 = 0" "to_c_int r2 = 2 ^ k" "w' = w2"
    "rd = \<lparr>rd_base = p1, rd_ptr = p1 + (?s - ?a), rd_size = sz,
       rd_bytes = take (unat sz) (drop (unat (?s - ?a)) (bs @ drop (length bs) b))\<rparr>"
    using assms(6) by (auto simp: bake_file_read_raw_def Let_def ek(3) x(2) m pr bake_err_defs
        simp del: of_int_power split: if_splits)
  note ma = memalign_okD [OF ok(5) m] and po = pread_okD [OF ok(2) pr]
  have "r2 \<le> 2 ^ k" using po(4) ek(2) by (simp add: unat_block')
  then have r2: "r2 = 2 ^ k" using io_count_block [OF ek(2) c(2) po(3)] by simp
  then have bs: "bs = extent (unat ?a) (2 ^ k) (fbyte w)" using po(5) by (simp add: ma(1) nat_power_eq)
  have le: "unat ?s mod 2 ^ k + unat sz \<le> 2 ^ k" using blk by (simp add: in_block_def)
  show "rd_bytes rd = extent (unat (log_entry_offset ?f) + unat off) (unat sz) (fbyte w)"
    using le by (simp add: c(4) bs x(1,3) drop_extent take_extent s min_absorb1)
  show "rd_size rd = sz" "fbyte w' = fbyte w" "flen w' = flen w"
    by (simp_all add: c(3,4) po(1,2) ma(1,2))
  have "2 ^ k dvd unat p1" using ma(4) [OF c(1)] ek(2) by (simp add: unat_block')
  then obtain q where q: "unat p1 = 2 ^ k * q" by (elim dvdE)
  have "unat p1 + 2 ^ k < 2 ^ 64" using ma(5) [OF c(1)] ek(2) by (simp add: unat_block')
  moreover have "unat ?s mod 2 ^ k < 2 ^ k" by simp
  ultimately have "unat p1 + unat (?s - ?a) < 2 ^ 64" unfolding x(3) by linarith
  then have "unat (p1 + (?s - ?a)) = unat p1 + unat ?s mod 2 ^ k"
    by (subst unat_add_lem [THEN iffD1]) (simp_all add: x(3))
  then have "unat (BAKE_ALIGN_DOWN (p1 + (?s - ?a)) (2 ^ k)) = unat p1"
    by (simp add: unat_ALIGN_DOWN q)
  then show "bake_file_read_raw_free e (rd_ptr rd) = rd_base rd"
    by (simp add: bake_file_read_raw_free_def ek(3) c(4) word_unat_eq_iff)
qed

lemma read_raw_succeeds:
  assumes "io_reliable env (log_fd e) flen" and "log_file_ok env (log_fd e) fbyte flen"
    and "entry_ok k e" and "region_ok k e (frid_of rid)" and "in_block k off sz"
    and "unat off + unat sz \<le> unat (log_entry_size (frid_of rid))"
    and "unat (log_entry_offset (frid_of rid)) + unat off - unat off mod 2 ^ k + 2 ^ k \<le> flen w"
  shows "fst (fst (bake_file_read_raw env e rid off sz w)) = BAKE_SUCCESS"
proof -
  let ?f = "frid_of rid" and ?al = "of_int (2 ^ k) :: u64"
  let ?s = "log_entry_offset ?f + off" let ?a = "BAKE_ALIGN_DOWN ?s (2 ^ k)"
  note ok = log_file_okD [OF assms(2)] and ek = entry_okD [OF assms(3)]
  note st = read_start_block [OF assms(3-6)]
  note x = read_extent_block [OF ek(2) st(3,4)]
  obtain r1 p1 b w1 where m: "posix_memalign env ?al ?al w = ((r1, p1, b), w1)"
    by (metis prod.exhaust)
  obtain r2 bs w2 where pr: "abt_io_pread env (log_fd e) ?al ?a w1 = ((r2, bs), w2)"
    by (metis prod.exhaust)
  have "unat ?al + unat ?al < 2 ^ 62"
    using block_le_4096 [OF ek(2)] by (simp add: unat_block' [OF ek(2)])
  then have r1: "r1 = 0" using io_reliableD(1) [OF assms(1) m] by simp
  have "unat ?a = unat (log_entry_offset ?f) + unat off - unat off mod 2 ^ k"
    by (subst x(1), subst st(2), subst st(1)) (rule refl)
  then have "unat ?a + unat ?al \<le> flen w1"
    using assms(7) memalign_okD(2) [OF ok(5) m] by (simp add: unat_block' [OF ek(2)])
  then have r2: "r2 = int (unat ?al)" by (rule io_reliableD(3) [OF assms(1) pr])
  have "to_c_int r2 = 2 ^ k" unfolding r2 unat_block [OF ek(2)]
    using to_c_int_block [OF ek(2)] by simp
  then show ?thesis
    using st(5) r1 by (simp add: bake_file_read_raw_def Let_def ek(3) x(2) m pr not_less [symmetric]
        del: of_int_power)
qed

section \<open>Properties\<close>


definition demo_entry :: bake_file_entry where
  "demo_entry = \<lparr>log_fd = 3, log_offset = 4096, log_alignment = 2 ^ 12, sync = True, file_root = [],
     root = [], filename = [], abtioi = 1\<rparr>"

definition demo_rid :: bake_region_id where
  "demo_rid = \<lparr>rid_type = 0, rid_data = frid_data \<lparr>log_entry_offset = 4096, log_entry_size = 8192\<rparr>\<rparr>"

lemma demo_entry_ok: "entry_ok 12 demo_entry" "log_fd demo_entry = 3"
  by (simp_all add: entry_ok_def demo_entry_def)


text \<open>C2: the return code of an eager write whose I/O is complete. Only writes of one to
  \<open>log_alignment\<close> bytes at offset 0 succeed: a larger write stores its data and then reports
  an I/O error, because the number of bytes written is compared with one block.\<close>

theorem file_write_raw_result:
  assumes "io_reliable env (log_fd e) flen" and "log_file_ok env (log_fd e) fbyte flen"
    and "entry_ok k e" and "unat sz \<le> 2 ^ 30" and "unat sz \<le> length data"
  shows "fst (bake_file_write_raw env e rid off sz data w) =
    (if off \<noteq> 0 then BAKE_ERR_OP_UNSUPPORTED
     else if log_entry_size (frid_of rid) < sz then BAKE_ERR_OUT_OF_BOUNDS
     else if 0 < sz \<and> unat sz \<le> 2 ^ k then BAKE_SUCCESS else BAKE_ERR_IO)"
  using assms by (rule write_raw_result)

theorem file_write_raw_result_witness:
  "fst (bake_file_write_raw sim_env demo_entry demo_rid 0 4096 (replicate 5000 7) sim0) = BAKE_SUCCESS \<and>
   fst (bake_file_write_raw sim_env demo_entry demo_rid 0 5000 (replicate 5000 7) sim0) = BAKE_ERR_IO"
  using file_write_raw_result [OF sim_io_reliable sim_log_file_ok demo_entry_ok(1), of 4096 "replicate 5000 7" demo_rid 0 sim0]
    file_write_raw_result [OF sim_io_reliable sim_log_file_ok demo_entry_ok(1), of 5000 "replicate 5000 7" demo_rid 0 sim0]
  by (simp add: demo_rid_def frid_of_def frid_data_def)

end
