(* ===== verification/Worker_Pool.thy ===== *)
theory Worker_Pool
  imports Bake_Prelude
begin

text \<open>
  The pattern both backends use for pipelined transfers: a number of threads share a record of
  arguments, take chunks of work from it under a mutex, and the last one out signals the caller.
  A system of such threads is run by a schedule, the list of the threads that take the next step.
  The locale \<open>worker_pool\<close> is the contract of the shutdown protocol and of progress, and
  \<open>relay_pool\<close> adds the contract of the work itself: what a step does with the positions it has
  taken. Everything about interleavings is proved here once, from the laws of single steps.
\<close>

section \<open>Systems of threads\<close>

datatype ult_kind = Working | Counting | Signalling | Exited | Aborted

record ('x, 'u, 'w) pool_sys =
  sys_args :: 'x
  sys_ults :: "'u list"
  sys_world :: 'w

definition pool_aborted :: "('u \<Rightarrow> ult_kind) \<Rightarrow> ('x, 'u, 'w) pool_sys \<Rightarrow> bool" where
  "pool_aborted kind s \<longleftrightarrow> list_ex (\<lambda>u. kind u = Aborted) (sys_ults s)"

text \<open>Thread \<open>i\<close> takes its next step. Nothing runs after an assertion has failed.\<close>

definition pool_step ::
  "('u \<Rightarrow> 'x \<Rightarrow> 'w \<Rightarrow> ('u \<times> 'x) \<times> 'w) \<Rightarrow> ('u \<Rightarrow> ult_kind) \<Rightarrow> nat \<Rightarrow>
     ('x, 'u, 'w) pool_sys \<Rightarrow> ('x, 'u, 'w) pool_sys" where
  "pool_step stp kind i s =
    (if i < length (sys_ults s) \<and> \<not> pool_aborted kind s
     then (let ((u, x), w) = stp (sys_ults s ! i) (sys_args s) (sys_world s)
           in \<lparr>sys_args = x, sys_ults = (sys_ults s)[i := u], sys_world = w\<rparr>)
     else s)"

fun pool_run ::
  "('u \<Rightarrow> 'x \<Rightarrow> 'w \<Rightarrow> ('u \<times> 'x) \<times> 'w) \<Rightarrow> ('u \<Rightarrow> ult_kind) \<Rightarrow> nat list \<Rightarrow>
     ('x, 'u, 'w) pool_sys \<Rightarrow> ('x, 'u, 'w) pool_sys" where
  "pool_run stp kind [] s = s"
| "pool_run stp kind (i # is) s = pool_run stp kind is (pool_step stp kind i s)"

text \<open>The schedule that lets \<open>n\<close> threads take turns.\<close>

definition round_robin :: "nat \<Rightarrow> nat \<Rightarrow> nat list" where
  "round_robin n turns = concat (replicate turns [0..<n])"

lemma count_round_robin: "i < n \<Longrightarrow> count_list (round_robin n turns) i = turns"
proof (induction turns)
  case (Suc turns)
  have "count_list [0..<n] i = 1" using Suc.prems by (induction n) (auto simp: less_Suc_eq)
  with Suc show ?case by (simp add: round_robin_def)
qed (simp add: round_robin_def)

lemma pool_step_eq:
  assumes "i < length (sys_ults s)" and "\<not> pool_aborted kind s"
    and "stp (sys_ults s ! i) (sys_args s) (sys_world s) = ((u', x'), w')"
  shows "pool_step stp kind i s = \<lparr>sys_args = x', sys_ults = (sys_ults s)[i := u'], sys_world = w'\<rparr>"
  using assms by (simp add: pool_step_def)

lemma pool_step_idle: "\<not> (i < length (sys_ults s) \<and> \<not> pool_aborted kind s) \<Longrightarrow> pool_step stp kind i s = s"
  by (auto simp: pool_step_def)

lemma length_pool_step [simp]: "length (sys_ults (pool_step stp kind i s)) = length (sys_ults s)"
  by (auto simp: pool_step_def Let_def split: prod.splits)

lemma length_pool_run [simp]: "length (sys_ults (pool_run stp kind sched s)) = length (sys_ults s)"
  by (induction sched arbitrary: s) simp_all

lemma pool_run_keeps:
  assumes "\<And>i s. P s \<Longrightarrow> P (pool_step stp kind i s)" and "P s"
  shows "P (pool_run stp kind sched s)"
  using assms(2) by (induction sched arbitrary: s) (simp_all add: assms(1))

lemma not_pool_aborted: "\<not> pool_aborted kind s \<longleftrightarrow> (\<forall>u \<in> set (sys_ults s). kind u \<noteq> Aborted)"
  by (auto simp: pool_aborted_def list_ex_iff)

lemma length_filter_update:
  assumes "i < length xs"
  shows "length (filter P (xs[i := v])) + (if P (xs ! i) then 1 else 0)
       = length (filter P xs) + (if P v then 1 else 0)"
proof -
  obtain ys z zs where xs: "xs = ys @ z # zs" "length ys = i"
    using id_take_nth_drop [OF assms] assms by (metis length_take min.absorb4)
  have "(ys @ z # zs)[i := v] = ys @ v # zs" "(ys @ z # zs) ! i = z"
    using xs(2) by (auto simp: list_update_append nth_append)
  then show ?thesis by (simp add: xs(1))
qed

lemma sum_list_update_weight:
  fixes weight :: "'u \<Rightarrow> nat"
  assumes "i < length us"
  shows "sum_list (map weight (us[i := v])) + weight (us ! i) = sum_list (map weight us) + weight v"
proof -
  have "weight (us ! i) \<le> sum_list (map weight us)" using assms by (intro member_le_sum_list) simp_all
  then show ?thesis using assms by (simp add: map_update sum_list_update)
qed

section \<open>Shutdown and progress\<close>

locale worker_pool =
  fixes stp :: "'u \<Rightarrow> 'x \<Rightarrow> 'w \<Rightarrow> ('u \<times> 'x) \<times> 'w"
    and kind :: "'u \<Rightarrow> ult_kind"
    and active :: "'x \<Rightarrow> int" and signalled :: "'x \<Rightarrow> bool"
    and rest :: "'x \<Rightarrow> nat" and weight :: "'u \<Rightarrow> nat" and sane :: "'x \<Rightarrow> bool"
  assumes stp_working: "kind u = Working \<Longrightarrow> stp u x w = ((u', x'), w') \<Longrightarrow>
      (kind u' = Working \<or> kind u' = Counting \<or> kind u' = Aborted) \<and>
      active x' = active x \<and> signalled x' = signalled x"
    and stp_counting: "kind u = Counting \<Longrightarrow> stp u x w = ((u', x'), w') \<Longrightarrow>
      kind u' = (if active x' = 0 then Signalling else Exited) \<and>
      active x' = active x - 1 \<and> signalled x' = signalled x"
    and stp_signalling: "kind u = Signalling \<Longrightarrow> stp u x w = ((u', x'), w') \<Longrightarrow>
      kind u' = Exited \<and> active x' = active x \<and> signalled x'"
    and stp_exited: "kind u = Exited \<Longrightarrow> stp u x w = ((u, x), w)"
    and stp_decreases: "sane x \<Longrightarrow> kind u \<noteq> Exited \<Longrightarrow> kind u \<noteq> Aborted \<Longrightarrow>
      stp u x w = ((u', x'), w') \<Longrightarrow> rest x' + weight u' < rest x + weight u"
begin

text \<open>
  The counter is the number of threads that have not counted themselves out, and exactly one
  thread signals or has signalled once that number is zero.
\<close>

definition n_alive :: "'u list \<Rightarrow> nat" where
  "n_alive us = length (filter (\<lambda>u. kind u \<noteq> Signalling \<and> kind u \<noteq> Exited) us)"

definition n_signal :: "'u list \<Rightarrow> nat" where
  "n_signal us = length (filter (\<lambda>u. kind u = Signalling) us)"

definition active_inv :: "('x, 'u, 'w) pool_sys \<Rightarrow> bool" where
  "active_inv s \<longleftrightarrow> active (sys_args s) = int (n_alive (sys_ults s)) \<and>
     n_signal (sys_ults s) + (if signalled (sys_args s) then 1 else 0)
       = (if n_alive (sys_ults s) = 0 \<and> sys_ults s \<noteq> [] then 1 else 0)"

lemma step_active:
  assumes inv: "active_inv s"
  shows "active_inv (pool_step stp kind i s)"
proof (cases "i < length (sys_ults s) \<and> \<not> pool_aborted kind s")
  case False
  with inv show ?thesis by (simp add: pool_step_idle)
next
  case True
  let ?us = "sys_ults s" and ?x = "sys_args s" let ?u = "?us ! i"
  obtain u' x' w' where st: "stp ?u ?x (sys_world s) = ((u', x'), w')" by (metis prod.exhaust)
  let ?us' = "?us[i := u']"
  note s' = pool_step_eq [where stp = stp, OF conjunct1 [OF True] conjunct2 [OF True] st]
  note fa = length_filter_update [OF conjunct1 [OF True], of "\<lambda>u. kind u \<noteq> Signalling \<and> kind u \<noteq> Exited" u',
      folded n_alive_def]
  note fs = length_filter_update [OF conjunct1 [OF True], of "\<lambda>u. kind u = Signalling" u', folded n_signal_def]
  have mem: "?u \<in> set ?us" and ne: "?us \<noteq> []" "?us' \<noteq> []" using True by auto
  have iv: "active ?x = int (n_alive ?us)"
    "n_signal ?us + (if signalled ?x then 1 else 0) = (if n_alive ?us = 0 then 1 else 0 :: nat)"
    using inv ne by (simp_all add: active_inv_def)
  have "kind ?u \<noteq> Aborted" using True mem by (simp add: not_pool_aborted)
  then consider "kind ?u = Working" | "kind ?u = Counting" | "kind ?u = Signalling" | "kind ?u = Exited"
    by (cases "kind ?u") auto
  then show ?thesis
  proof cases
    case 1
    have "n_alive ?us' = n_alive ?us" "n_signal ?us' = n_signal ?us"
      using 1 fa fs stp_working [OF 1 st] by auto
    then show ?thesis using stp_working [OF 1 st] iv ne by (simp add: active_inv_def s')
  next
    case 2
    note c = stp_counting [OF 2 st]
    have a: "n_alive ?us = Suc (n_alive ?us')" using fa 2 c by (auto split: if_splits)
    then have z: "n_signal ?us = 0" "\<not> signalled ?x" using iv(2) by (simp_all split: if_splits)
    have e: "active x' = int (n_alive ?us')" using c iv(1) unfolding a by simp
    have "n_signal ?us' = (if kind u' = Signalling then 1 else 0)" using fs z(1) 2 by simp
    also have "\<dots> = (if n_alive ?us' = 0 then 1 else 0)" using c unfolding e by simp
    finally show ?thesis using c e z(2) ne(2) by (simp add: active_inv_def s')
  next
    case 3
    note c = stp_signalling [OF 3 st]
    have "n_alive ?us' = n_alive ?us" "Suc (n_signal ?us') = n_signal ?us" using 3 fa fs c by auto
    then show ?thesis using c iv ne by (auto simp: active_inv_def s' split: if_splits)
  next
    case 4
    then have "u' = ?u" "x' = ?x" using stp_exited [OF 4, of ?x "sys_world s"] st by simp_all
    then show ?thesis using inv by (simp add: active_inv_def s')
  qed
qed

lemma run_active: "active_inv s \<Longrightarrow> active_inv (pool_run stp kind sched s)"
  by (rule pool_run_keeps [where P = active_inv]) (rule step_active)

text \<open>When the caller is woken up, every thread has finished with the shared state.\<close>

lemma signalled_all_exited:
  assumes "active_inv s" and "signalled (sys_args s)" and "u \<in> set (sys_ults s)"
  shows "kind u = Exited"
proof -
  have "n_alive (sys_ults s) = 0" "n_signal (sys_ults s) = 0"
    using assms(1,2) by (auto simp: active_inv_def split: if_splits)
  then show ?thesis using assms(3) by (auto simp: n_alive_def n_signal_def filter_empty_conv)
qed

lemma all_exited_signalled:
  assumes "active_inv s" and "sys_ults s \<noteq> []" and "\<And>u. u \<in> set (sys_ults s) \<Longrightarrow> kind u = Exited"
  shows "signalled (sys_args s)"
proof -
  have "n_alive (sys_ults s) = 0" "n_signal (sys_ults s) = 0"
    using assms(3) by (auto simp: n_alive_def n_signal_def filter_empty_conv)
  then show ?thesis using assms(1,2) by (auto simp: active_inv_def split: if_splits)
qed

definition pool_measure :: "('x, 'u, 'w) pool_sys \<Rightarrow> nat" where
  "pool_measure s = rest (sys_args s) + sum_list (map weight (sys_ults s))"

lemma step_decreases:
  assumes "sane (sys_args s)" and "i < length (sys_ults s)" and "\<not> pool_aborted kind s"
    and "kind (sys_ults s ! i) \<noteq> Exited"
  shows "pool_measure (pool_step stp kind i s) < pool_measure s"
proof -
  let ?u = "sys_ults s ! i"
  obtain u' x' w' where st: "stp ?u (sys_args s) (sys_world s) = ((u', x'), w')" by (metis prod.exhaust)
  have "kind ?u \<noteq> Aborted" using assms(2,3) by (simp add: not_pool_aborted)
  then have "rest x' + weight u' < rest (sys_args s) + weight ?u"
    using stp_decreases [OF assms(1,4) _ st] by simp
  then show ?thesis
    using sum_list_update_weight [OF assms(2), of weight u']
    by (simp add: pool_measure_def pool_step_eq [where stp = stp, OF assms(2,3) st])
qed

lemma step_exited:
  assumes "kind (sys_ults s ! i) = Exited"
  shows "pool_step stp kind i s = s"
  using stp_exited [OF assms] by (simp add: pool_step_def)

lemma step_not_increases:
  "sane (sys_args s) \<Longrightarrow> pool_measure (pool_step stp kind i s) \<le> pool_measure s"
  using step_decreases [of s i] step_exited [of s i] pool_step_idle [of i s kind stp]
  by (cases "i < length (sys_ults s) \<and> \<not> pool_aborted kind s \<and> kind (sys_ults s ! i) \<noteq> Exited") force+

lemma exited_stays:
  "i < length (sys_ults s) \<Longrightarrow> kind (sys_ults s ! i) = Exited \<Longrightarrow>
   kind (sys_ults (pool_step stp kind j s) ! i) = Exited"
  by (cases "j = i") (simp_all add: step_exited, simp add: pool_step_def Let_def split: prod.splits)

lemma exited_stays_run:
  "i < length (sys_ults s) \<Longrightarrow> kind (sys_ults s ! i) = Exited \<Longrightarrow>
   kind (sys_ults (pool_run stp kind sched s) ! i) = Exited"
  by (induction sched arbitrary: s) (simp_all add: exited_stays)

text \<open>A thread that has not finished has used up one unit of the measure per turn.\<close>

lemma turns_bounded:
  assumes keep: "\<And>i s. P s \<Longrightarrow> P (pool_step stp kind i s)"
    and P: "\<And>s. P s \<Longrightarrow> sane (sys_args s) \<and> \<not> pool_aborted kind s"
    and "P s" and "i < length (sys_ults s)"
    and "kind (sys_ults (pool_run stp kind sched s) ! i) \<noteq> Exited"
  shows "count_list sched i + pool_measure (pool_run stp kind sched s) \<le> pool_measure s"
  using assms(3-)
proof (induction sched arbitrary: s)
  case (Cons j sched)
  let ?s = "pool_step stp kind j s"
  have ih: "count_list sched i + pool_measure (pool_run stp kind sched ?s) \<le> pool_measure ?s"
    by (rule Cons.IH) (use Cons.prems keep in auto)
  have "kind (sys_ults s ! i) \<noteq> Exited"
    using Cons.prems(2,3) exited_stays_run [of i s "j # sched"] by auto
  then show ?case
    using ih P [OF Cons.prems(1)] step_not_increases [of s j] step_decreases [OF _ Cons.prems(2)]
    by (cases "j = i") fastforce+
qed simp

text \<open>Every schedule with enough turns for every thread wakes up the caller.\<close>

lemma fair_run_signals:
  assumes "\<And>i s. P s \<Longrightarrow> P (pool_step stp kind i s)"
    and "\<And>s. P s \<Longrightarrow> sane (sys_args s) \<and> \<not> pool_aborted kind s"
    and "P s" and "active_inv s" and "sys_ults s \<noteq> []"
    and "\<And>i. i < length (sys_ults s) \<Longrightarrow> pool_measure s < count_list sched i"
  shows "signalled (sys_args (pool_run stp kind sched s))"
proof (rule all_exited_signalled)
  show "active_inv (pool_run stp kind sched s)" using assms(4) by (rule run_active)
  show "sys_ults (pool_run stp kind sched s) \<noteq> []"
    using assms(5) length_pool_run [of stp kind sched s] by force
  fix u assume "u \<in> set (sys_ults (pool_run stp kind sched s))"
  then obtain i where i: "i < length (sys_ults s)" "u = sys_ults (pool_run stp kind sched s) ! i"
    by (auto simp: in_set_conv_nth)
  show "kind u = Exited"
    using turns_bounded [of P, OF assms(1,2,3) i(1), of sched] assms(6) [OF i(1)] i(2) by fastforce
qed

lemma step_no_abort:
  assumes "\<And>u x w u' x' w'. kind u \<noteq> Aborted \<Longrightarrow> stp u x w = ((u', x'), w') \<Longrightarrow> kind u' \<noteq> Aborted"
    and "\<not> pool_aborted kind s"
  shows "\<not> pool_aborted kind (pool_step stp kind i s)"
proof (cases "i < length (sys_ults s)")
  case True
  obtain u' x' w' where st: "stp (sys_ults s ! i) (sys_args s) (sys_world s) = ((u', x'), w')"
    by (metis prod.exhaust)
  have "kind u' \<noteq> Aborted" using assms(1) [OF _ st] assms(2) True by (simp add: not_pool_aborted)
  then show ?thesis
    using assms(2) set_update_subset_insert [of "sys_ults s" i u']
    by (auto simp: not_pool_aborted pool_step_eq [where stp = stp, OF True assms(2) st])
qed (use assms in \<open>simp add: pool_step_idle\<close>)

end

section \<open>The work\<close>

text \<open>
  Positions below \<open>issued x\<close> have been handed out, \<open>owned x u\<close> are those thread \<open>u\<close> holds,
  \<open>relayed x w p\<close> says that the work for position \<open>p\<close> is done, \<open>failed x\<close> that an error is
  recorded. \<open>good\<close> is what a step relies on, \<open>uok\<close> what a thread has in hand, and \<open>evolves\<close> what
  the steps of a transfer may do to the shared state and the world.
\<close>

locale relay_pool = worker_pool stp kind active signalled rest weight sane
  for stp :: "'u \<Rightarrow> 'x \<Rightarrow> 'w \<Rightarrow> ('u \<times> 'x) \<times> 'w" and kind active signalled rest weight sane +
  fixes good :: "'x \<Rightarrow> 'w \<Rightarrow> bool" and uok :: "'x \<Rightarrow> 'w \<Rightarrow> 'u \<Rightarrow> bool"
    and evolves :: "'x \<Rightarrow> 'w \<Rightarrow> 'x \<Rightarrow> 'w \<Rightarrow> bool"
    and owned :: "'x \<Rightarrow> 'u \<Rightarrow> nat set" and relayed :: "'x \<Rightarrow> 'w \<Rightarrow> nat \<Rightarrow> bool"
    and issued :: "'x \<Rightarrow> nat" and goal :: "'x \<Rightarrow> nat" and failed :: "'x \<Rightarrow> bool" and gone :: "'u \<Rightarrow> bool"
  assumes good_sane: "good x w \<Longrightarrow> sane x" and good_bound: "good x w \<Longrightarrow> issued x \<le> goal x"
    and evolves_trans: "evolves x w x' w' \<Longrightarrow> evolves x' w' x'' w'' \<Longrightarrow> evolves x w x'' w''"
    and evolves_mono: "evolves x w x' w' \<Longrightarrow> issued x \<le> issued x' \<and> goal x' = goal x \<and> (failed x \<longrightarrow> failed x')"
    and evolves_uok: "evolves x w x' w' \<Longrightarrow> uok x w u \<Longrightarrow> uok x' w' u"
    and evolves_owned: "evolves x w x' w' \<Longrightarrow> owned x' u = owned x u"
    and exited_gone: "kind u = Exited \<Longrightarrow> gone u \<and> owned x u = {}"
    and stp_good: "good x w \<Longrightarrow> uok x w u \<Longrightarrow> stp u x w = ((u', x'), w') \<Longrightarrow>
      good x' w' \<and> uok x' w' u' \<and> evolves x w x' w'"
    and stp_gone: "good x w \<Longrightarrow> uok x w u \<Longrightarrow> stp u x w = ((u', x'), w') \<Longrightarrow> gone u' \<Longrightarrow>
      gone u \<or> failed x' \<or> issued x' = goal x'"
    and stp_relays: "good x w \<Longrightarrow> uok x w u \<Longrightarrow> stp u x w = ((u', x'), w') \<Longrightarrow>
      \<not> failed x' \<Longrightarrow> kind u' \<noteq> Aborted \<Longrightarrow> p < issued x' \<Longrightarrow>
      p \<in> owned x' u' \<or> relayed x' w' p \<or>
      p < issued x \<and> p \<notin> owned x u \<and> (relayed x w p \<longrightarrow> relayed x' w' p)"
begin

definition covered :: "('x, 'u, 'w) pool_sys \<Rightarrow> bool" where
  "covered s \<longleftrightarrow> (\<forall>p < issued (sys_args s). (\<exists>u \<in> set (sys_ults s). p \<in> owned (sys_args s) u) \<or>
     relayed (sys_args s) (sys_world s) p)"

text \<open>
  Every position handed out is in the hands of a thread or its work is done, unless an error is
  recorded.
\<close>

definition relay_inv :: "'x \<Rightarrow> 'w \<Rightarrow> ('x, 'u, 'w) pool_sys \<Rightarrow> bool" where
  "relay_inv x0 w0 s \<longleftrightarrow> good (sys_args s) (sys_world s) \<and> evolves x0 w0 (sys_args s) (sys_world s) \<and>
     (\<forall>u \<in> set (sys_ults s). uok (sys_args s) (sys_world s) u) \<and>
     ((\<exists>u \<in> set (sys_ults s). gone u) \<longrightarrow> failed (sys_args s) \<or> issued (sys_args s) = goal (sys_args s)) \<and>
     (\<not> failed (sys_args s) \<and> \<not> pool_aborted kind s \<longrightarrow> covered s)"

lemma step_covered:
  assumes i: "i < length (sys_ults s)" and na: "\<not> pool_aborted kind s"
    and g: "good (sys_args s) (sys_world s)" and u: "uok (sys_args s) (sys_world s) (sys_ults s ! i)"
    and st: "stp (sys_ults s ! i) (sys_args s) (sys_world s) = ((u', x'), w')"
    and f: "\<not> failed x'" and k: "kind u' \<noteq> Aborted" and c: "covered s"
  shows "covered (pool_step stp kind i s)"
proof -
  let ?us = "sys_ults s" and ?x = "sys_args s" and ?w = "sys_world s"
  have ev: "evolves ?x ?w x' w'" using stp_good [OF g u st] by simp
  have own: "(\<exists>v \<in> set (?us[i := u']). p \<in> owned x' v) \<or> relayed x' w' p" if p: "p < issued x'" for p
  proof (cases "p \<in> owned x' u' \<or> relayed x' w' p")
    case True
    then show ?thesis using set_update_memI [OF i] by blast
  next
    case False
    then have old: "p < issued ?x" "p \<notin> owned ?x (?us ! i)" "\<not> relayed ?x ?w p"
      using stp_relays [OF g u st f k p] by auto
    then obtain v where v: "v \<in> set ?us" "p \<in> owned ?x v" using c by (auto simp: covered_def)
    then obtain j where j: "j < length ?us" "v = ?us ! j" by (auto simp: in_set_conv_nth)
    then have "j \<noteq> i" using v(2) old(2) by auto
    then have "v \<in> set (?us[i := u'])" using j by (metis length_list_update nth_list_update_neq nth_mem)
    then show ?thesis using v(2) evolves_owned [OF ev] by auto
  qed
  then show ?thesis by (simp add: covered_def pool_step_eq [where stp = stp, OF i na st])
qed

lemma step_relay:
  assumes inv: "relay_inv x0 w0 s"
  shows "relay_inv x0 w0 (pool_step stp kind i s)"
proof (cases "i < length (sys_ults s) \<and> \<not> pool_aborted kind s")
  case False
  with inv show ?thesis by (simp add: pool_step_idle)
next
  case True
  let ?us = "sys_ults s" and ?x = "sys_args s" and ?w = "sys_world s"
  obtain u' x' w' where st: "stp (?us ! i) ?x ?w = ((u', x'), w')" by (metis prod.exhaust)
  note i = conjunct1 [OF True] and na = conjunct2 [OF True]
  note s' = pool_step_eq [where stp = stp, OF i na st]
  have iv: "good ?x ?w" "evolves x0 w0 ?x ?w" "\<And>u. u \<in> set ?us \<Longrightarrow> uok ?x ?w u"
    "\<not> failed ?x \<Longrightarrow> covered s" "\<And>u. u \<in> set ?us \<Longrightarrow> gone u \<Longrightarrow> failed ?x \<or> issued ?x = goal ?x"
    using inv na by (auto simp: relay_inv_def)
  have u: "uok ?x ?w (?us ! i)" using iv(3) i by simp
  have ok: "good x' w'" "uok x' w' u'" "evolves ?x ?w x' w'" using stp_good [OF iv(1) u st] by auto
  note mono = evolves_mono [OF ok(3)]
  have mem: "v \<in> set (?us[i := u']) \<Longrightarrow> v = u' \<or> v \<in> set ?us" for v
    using set_update_subset_insert [of ?us i u'] by auto
  have "uok x' w' v" if "v \<in> set (?us[i := u'])" for v
    using mem [OF that] ok(2) evolves_uok [OF ok(3)] iv(3) by auto
  moreover have "failed x' \<or> issued x' = goal x'" if v: "v \<in> set (?us[i := u'])" "gone v" for v
  proof -
    have "(\<exists>u \<in> set ?us. gone u) \<or> failed x' \<or> issued x' = goal x'"
      using mem [OF v(1)] v(2) stp_gone [OF iv(1) u st] i by (auto intro: nth_mem)
    then show ?thesis using iv(5) mono good_bound [OF ok(1)] by (metis le_antisym)
  qed
  moreover have "covered (pool_step stp kind i s)"
    if f: "\<not> failed x'" and na': "\<not> pool_aborted kind (pool_step stp kind i s)"
  proof -
    have "kind u' \<noteq> Aborted" using na' set_update_memI [OF i] by (auto simp: not_pool_aborted s')
    moreover have "\<not> failed ?x" using f mono by auto
    ultimately show ?thesis using step_covered [OF i na iv(1) u st f] iv(4) by simp
  qed
  ultimately show ?thesis
    using ok evolves_trans [OF iv(2) ok(3)] by (auto simp: relay_inv_def s')
qed

lemma run_relay: "relay_inv x0 w0 s \<Longrightarrow> relay_inv x0 w0 (pool_run stp kind sched s)"
  by (rule pool_run_keeps [where P = "relay_inv x0 w0"]) (rule step_relay)

text \<open>A caller that is woken up without an error finds all of the work done.\<close>

lemma signalled_all_relayed:
  assumes inv: "relay_inv x0 w0 s" and act: "active_inv s" and sig: "signalled (sys_args s)"
    and na: "\<not> pool_aborted kind s" and f: "\<not> failed (sys_args s)" and ne: "sys_ults s \<noteq> []"
    and p: "p < goal x0"
  shows "relayed (sys_args s) (sys_world s) p"
proof -
  note ex = signalled_all_exited [OF act sig]
  have "hd (sys_ults s) \<in> set (sys_ults s)" using ne by simp
  then have "\<exists>u \<in> set (sys_ults s). gone u" using ex exited_gone by blast
  then have "issued (sys_args s) = goal (sys_args s)" using inv f by (auto simp: relay_inv_def)
  then have "p < issued (sys_args s)" using inv p evolves_mono by (auto simp: relay_inv_def)
  moreover have "covered s" using inv f na by (simp add: relay_inv_def)
  ultimately show ?thesis using ex exited_gone by (auto simp: covered_def)
qed

lemma run_not_failed:
  assumes "\<And>x w u u' x' w'. good x w \<Longrightarrow> uok x w u \<Longrightarrow> evolves x0 w0 x w \<Longrightarrow> \<not> failed x \<Longrightarrow>
      stp u x w = ((u', x'), w') \<Longrightarrow> \<not> failed x'"
    and "relay_inv x0 w0 s" and "\<not> failed (sys_args s)"
  shows "\<not> failed (sys_args (pool_run stp kind sched s))"
proof -
  let ?P = "\<lambda>s. relay_inv x0 w0 s \<and> \<not> failed (sys_args s)"
  have "?P (pool_step stp kind i s)" if P: "?P s" for i s
  proof (cases "i < length (sys_ults s) \<and> \<not> pool_aborted kind s")
    case True
    obtain u' x' w' where st: "stp (sys_ults s ! i) (sys_args s) (sys_world s) = ((u', x'), w')"
      by (metis prod.exhaust)
    have "\<not> failed x'"
      using assms(1) [OF _ _ _ _ st] P True by (auto simp: relay_inv_def)
    then show ?thesis
      using step_relay [of x0 w0 s i] P pool_step_eq [where stp = stp, OF conjunct1 [OF True] conjunct2 [OF True] st]
      by simp
  qed (use P in \<open>simp add: pool_step_idle\<close>)
  then have "?P (pool_run stp kind sched s)"
    using assms(2,3) by (intro pool_run_keeps [where P = ?P]) auto
  then show ?thesis by simp
qed

text \<open>Transfers end under every fair schedule, if no assertion fails.\<close>

lemma fair_relay_signals:
  assumes na: "\<And>u x w u' x' w'. kind u \<noteq> Aborted \<Longrightarrow> stp u x w = ((u', x'), w') \<Longrightarrow> kind u' \<noteq> Aborted"
    and "relay_inv x0 w0 s" and "\<not> pool_aborted kind s" and "active_inv s" and "sys_ults s \<noteq> []"
    and "\<And>i. i < length (sys_ults s) \<Longrightarrow> pool_measure s < count_list sched i"
  shows "signalled (sys_args (pool_run stp kind sched s))"
    and "\<not> pool_aborted kind (pool_run stp kind sched s)"
proof -
  let ?P = "\<lambda>s. relay_inv x0 w0 s \<and> \<not> pool_aborted kind s"
  have ab: "\<not> pool_aborted kind (pool_step stp kind i s)" if "\<not> pool_aborted kind s" for i s
    using that by (rule step_no_abort [rotated]) (rule na)
  have k: "?P (pool_step stp kind i s)" if "?P s" for i s
    using step_relay ab that by blast
  have s: "sane (sys_args s) \<and> \<not> pool_aborted kind s" if "?P s" for s
    using that good_sane by (auto simp: relay_inv_def)
  show "signalled (sys_args (pool_run stp kind sched s))"
    by (rule fair_run_signals [of ?P, OF k s _ assms(4,5,6)]) (use assms(2,3) in auto)
  show "\<not> pool_aborted kind (pool_run stp kind sched s)"
    using pool_run_keeps [where P = ?P, OF k, of s sched] assms(2,3) by blast
qed

end

end
