(* ===== verification/File_Transfer.thy ===== *)
theory File_Transfer
  imports File_Backend Worker_Pool
begin

text \<open>
  The bulk transfers of \<^verbatim>\<open>src/bake-file-backend.c\<close>: \<open>transfer_data\<close> starts user level threads that
  share one \<open>xfer_args\<close>; each repeats taking the next chunk of the log extent under the mutex,
  relaying it between the log and the client's memory, and retiring it; the last one out signals
  the caller. A thread is a program counter with its local variables, and a step runs one critical
  section or one library call; \<open>Worker_Pool\<close> runs the threads with a schedule. The lemmas describe
  one step; the interpretation of \<open>relay_pool\<close> at the end turns them into facts about all
  interleavings.
\<close>

section \<open>Shared state of a transfer\<close>

datatype xfer_op = TRANSFER_DATA_READ | TRANSFER_DATA_WRITE

record xfer_args =
  xa_fd :: int
  xa_remote_addr :: hg_addr
  xa_remote_bulk :: hg_bulk
  xa_remote_offset :: u64
  xa_log_entry_offset :: u64
  xa_log_entry_size :: u64
  xa_log_issued :: u64
  xa_log_retired :: u64
  xa_transmit_size :: u64
  xa_transmit_offset_in_log :: u64
  xa_transmit_issued :: u64
  xa_poolset_max_size :: u64
  xa_ret :: int
  xa_ults_active :: int
  xa_op_flag :: xfer_op
  xa_mutex_freed :: bool
  xa_eventual :: bool

section \<open>The worker thread\<close>

record xfer_chunk =
  this_log_size :: u64
  this_transmit_size :: u64
  this_log_offset :: u64
  this_transmit_offset_in_log :: u64
  this_remote_offset :: u64

text \<open>The extent a thread takes inside the critical section at the head of its loop.\<close>

definition xfer_claim :: "xfer_args \<Rightarrow> xfer_chunk \<times> xfer_args" where
  "xfer_claim x =
    (let log_sz = (if xa_log_entry_size x - xa_log_issued x > xa_poolset_max_size x
                   then xa_poolset_max_size x else xa_log_entry_size x - xa_log_issued x);
         log_off = xa_log_entry_offset x + xa_log_issued x;
         rem_off = xa_remote_offset x + xa_transmit_issued x;
         (tx_sz, tx_off) = (if xa_transmit_issued x = 0
                            then (log_sz - xa_transmit_offset_in_log x, xa_transmit_offset_in_log x)
                            else (log_sz, 0));
         tx_sz = (if tx_sz + xa_transmit_issued x > xa_transmit_size x
                  then xa_transmit_size x - xa_transmit_issued x else tx_sz)
     in (\<lparr>this_log_size = log_sz, this_transmit_size = tx_sz, this_log_offset = log_off,
          this_transmit_offset_in_log = tx_off, this_remote_offset = rem_off\<rparr>,
         x\<lparr>xa_log_issued := xa_log_issued x + log_sz,
           xa_transmit_issued := xa_transmit_issued x + tx_sz\<rparr>))"

text \<open>
  Program counters. \<open>ULoop\<close> is the head of the loop, with the chunk that is retired on the way
  there; the others are named after the call that comes next. \<open>UAbort\<close> is a failed assertion.
\<close>

datatype ult =
    ULoop "xfer_chunk option"
  | UGetBuf xfer_chunk
  | UAccess xfer_chunk hg_bulk
  | UData1 xfer_chunk hg_bulk "byte list"
  | UData2 xfer_chunk hg_bulk "byte list"
  | URelease xfer_chunk hg_bulk
  | UFinish hg_bulk
  | UCount
  | USignal
  | UExit
  | UAbort

definition xfer_loop :: "xfer_args \<Rightarrow> ult \<times> xfer_args" where
  "xfer_loop x =
    (if xa_log_issued x < xa_log_entry_size x \<and> xa_ret x = 0
     then (let (c, x) = xfer_claim x in (UGetBuf c, x))
     else (UFinish HG_BULK_NULL, x))"

text \<open>
  What follows a library call: an error that is the first one ends the loop of this thread; after
  an error of another thread it goes on.
\<close>

definition xfer_check :: "bool \<Rightarrow> int \<Rightarrow> hg_bulk \<Rightarrow> ult \<Rightarrow> xfer_args \<Rightarrow> ult \<times> xfer_args" where
  "xfer_check failed ret h next x =
    (if failed \<and> xa_ret x = 0 then (UFinish h, x\<lparr>xa_ret := ret\<rparr>) else (next, x))"

fun xfer_ult :: "'w env \<Rightarrow> ult \<Rightarrow> xfer_args \<Rightarrow> 'w \<Rightarrow> (ult \<times> xfer_args) \<times> 'w" where
  "xfer_ult env (ULoop None) x w = (xfer_loop x, w)"
| "xfer_ult env (ULoop (Some c)) x w =
    (xfer_loop (x\<lparr>xa_log_retired := xa_log_retired x + this_log_size c\<rparr>), w)"
| "xfer_ult env (UGetBuf c) x w =
    (let ((ret, h), w) = poolset_get env (this_log_size c) w
     in (xfer_check (ret \<noteq> 0) ret h (UAccess c h) x, w))"
| "xfer_ult env (UAccess c h) x w =
    (let (ret, ptr, buf) = bulk_access env h (this_log_size c) w
     in if ret \<noteq> 0 \<or> unat ptr mod 4096 \<noteq> 0 then ((UAbort, x), w) else ((UData1 c h buf, x), w))"
| "xfer_ult env (UData1 c h buf) x w =
    (case xa_op_flag x of
       TRANSFER_DATA_WRITE \<Rightarrow>
         (let ((ret, bs), w) = bulk_pull env (xa_remote_addr x) (xa_remote_bulk x)
                                 (this_remote_offset c) (this_transmit_size c) w
          in (xfer_check (ret \<noteq> 0) ret h (UData2 c h (bs @ drop (length bs) buf)) x, w))
     | TRANSFER_DATA_READ \<Rightarrow>
         (let ((r, bs), w) = abt_io_pread env (xa_fd x) (this_log_size c) (this_log_offset c) w;
              ret = to_c_int r
          in (xfer_check (of_int ret \<noteq> this_log_size c) ret h
                (UData2 c h (bs @ drop (length bs) buf)) x, w)))"
| "xfer_ult env (UData2 c h buf) x w =
    (case xa_op_flag x of
       TRANSFER_DATA_WRITE \<Rightarrow>
         (let (r, w) = abt_io_pwrite env (xa_fd x) (take (unat (this_log_size c)) buf)
                         (this_log_offset c) w;
              ret = to_c_int r
          in (xfer_check (of_int ret \<noteq> this_log_size c) ret h (URelease c h) x, w))
     | TRANSFER_DATA_READ \<Rightarrow>
         (let (ret, w) = bulk_push env (xa_remote_addr x) (xa_remote_bulk x) (this_remote_offset c)
                           (take (unat (this_transmit_size c))
                             (drop (unat (this_transmit_offset_in_log c)) buf)) w
          in (xfer_check (ret \<noteq> 0) ret h (URelease c h) x, w)))"
| "xfer_ult env (URelease c h) x w = ((ULoop (Some c), x), poolset_release env h w)"
| "xfer_ult env (UFinish h) x w =
    ((UCount, x), if h \<noteq> HG_BULK_NULL then poolset_release env h w else w)"
| "xfer_ult env UCount x w =
    (let x = x\<lparr>xa_ults_active := xa_ults_active x - 1\<rparr>
     in ((if xa_ults_active x = 0 then USignal else UExit, x), w))"
| "xfer_ult env USignal x w = ((UExit, x\<lparr>xa_mutex_freed := True, xa_eventual := True\<rparr>), w)"
| "xfer_ult env UExit x w = ((UExit, x), w)"
| "xfer_ult env UAbort x w = ((UAbort, x), w)"

text \<open>The program counters as seen by the shutdown protocol.\<close>

fun ukind :: "ult \<Rightarrow> ult_kind" where
  "ukind UCount = Counting"
| "ukind USignal = Signalling"
| "ukind UExit = Exited"
| "ukind UAbort = Aborted"
| "ukind _ = Working"

section \<open>Starting a transfer\<close>

text \<open>
  The loop that counts the threads. Its counter is a C \<open>int\<close> that is compared with and
  incremented by values of type \<open>size_t\<close>. \<open>None\<close> is a loop that does not end.
\<close>

partial_function (option) count_ults :: "u64 \<Rightarrow> u64 \<Rightarrow> int \<Rightarrow> nat \<Rightarrow> nat option" where
  "count_ults sz mx i n =
    (if (of_int i :: u64) < sz then count_ults sz mx (to_c_int (uint (of_int i + mx))) (Suc n)
     else Some n)"

definition xfer_setup ::
  "'w env \<Rightarrow> bake_file_entry \<Rightarrow> u64 \<Rightarrow> u64 \<Rightarrow> hg_bulk \<Rightarrow> u64 \<Rightarrow> u64 \<Rightarrow> hg_addr \<Rightarrow> xfer_op \<Rightarrow> 'w \<Rightarrow> xfer_args" where
  "xfer_setup env entry entry_offset region_offset remote_bulk remote_bulk_offset bulk_size src_addr op w =
    (let al = log_alignment entry;
         log_end_offset = BAKE_ALIGN_UP (entry_offset + region_offset + bulk_size - remote_bulk_offset) al;
         start = BAKE_ALIGN_DOWN (entry_offset + region_offset) al
     in \<lparr>xa_fd = log_fd entry, xa_remote_addr = src_addr, xa_remote_bulk = remote_bulk,
         xa_remote_offset = remote_bulk_offset, xa_log_entry_offset = start,
         xa_log_entry_size = log_end_offset - start, xa_log_issued = 0, xa_log_retired = 0,
         xa_transmit_size = bulk_size - remote_bulk_offset,
         xa_transmit_offset_in_log = entry_offset + region_offset - start,
         xa_transmit_issued = 0, xa_poolset_max_size = poolset_get_max env w,
         xa_ret = 0, xa_ults_active = 0, xa_op_flag = op,
         xa_mutex_freed = False, xa_eventual = False\<rparr>)"

text \<open>
  \<open>transfer_data\<close> run with a schedule for its threads. The result is the return code, or \<open>None\<close>
  while the caller still waits for the eventual (or the process has aborted).
\<close>

definition transfer_data ::
  "'w env \<Rightarrow> bake_file_entry \<Rightarrow> u64 \<Rightarrow> u64 \<Rightarrow> u64 \<Rightarrow> hg_bulk \<Rightarrow> u64 \<Rightarrow> u64 \<Rightarrow> hg_addr \<Rightarrow> xfer_op \<Rightarrow>
     nat list \<Rightarrow> 'w \<Rightarrow> int option \<times> 'w" where
  "transfer_data env entry entry_offset entry_size region_offset remote_bulk remote_bulk_offset
      bulk_size src_addr op sched w =
    (if bulk_size + region_offset > entry_size then (Some BAKE_ERR_OUT_OF_BOUNDS, w)
     else
      (let x = xfer_setup env entry entry_offset region_offset remote_bulk remote_bulk_offset
                 bulk_size src_addr op w
       in case count_ults (xa_log_entry_size x) (xa_poolset_max_size x) 0 0 of
            None \<Rightarrow> (None, w)
          | Some n \<Rightarrow>
             (let s = pool_run (xfer_ult env) ukind sched
                        \<lparr>sys_args = x\<lparr>xa_ults_active := int n\<rparr>,
                         sys_ults = replicate n (ULoop None), sys_world = w\<rparr>
              in (if xa_eventual (sys_args s) \<and> \<not> pool_aborted ukind s then Some (xa_ret (sys_args s)) else None,
                  sys_world s))))"

definition bake_file_write_bulk ::
  "'w env \<Rightarrow> bake_file_entry \<Rightarrow> bake_region_id \<Rightarrow> u64 \<Rightarrow> u64 \<Rightarrow> hg_bulk \<Rightarrow> hg_addr \<Rightarrow> u64 \<Rightarrow>
     nat list \<Rightarrow> 'w \<Rightarrow> int option \<times> 'w" where
  "bake_file_write_bulk env entry rid region_offset sz bulk source bulk_offset sched w =
    (if region_offset \<noteq> 0 then (Some BAKE_ERR_OP_UNSUPPORTED, w)
     else transfer_data env entry (log_entry_offset (frid_of rid)) (log_entry_size (frid_of rid))
            region_offset bulk bulk_offset sz source TRANSFER_DATA_WRITE sched w)"

definition bake_file_read_bulk ::
  "'w env \<Rightarrow> bake_file_entry \<Rightarrow> bake_region_id \<Rightarrow> u64 \<Rightarrow> u64 \<Rightarrow> hg_bulk \<Rightarrow> hg_addr \<Rightarrow> u64 \<Rightarrow>
     nat list \<Rightarrow> 'w \<Rightarrow> (int \<times> u64) option \<times> 'w" where
  "bake_file_read_bulk env entry rid region_offset sz bulk source bulk_offset sched w =
    (case transfer_data env entry (log_entry_offset (frid_of rid)) (log_entry_size (frid_of rid))
            region_offset bulk bulk_offset sz source TRANSFER_DATA_READ sched w of
       (None, w) \<Rightarrow> (None, w)
     | (Some ret, w) \<Rightarrow> (Some (ret, if ret = BAKE_SUCCESS then sz else 0), w))"

section \<open>The chunks of a transfer\<close>

text \<open>
  The quantities of a transfer as natural numbers: start and length of the log extent, start of
  the client's range and number of bytes transmitted, and the bytes of the first block that are
  skipped. \<open>tx x p\<close> is the number of transmitted bytes that belong to the first \<open>p\<close> bytes of the
  extent.
\<close>

abbreviation lo :: "xfer_args \<Rightarrow> nat" where "lo x \<equiv> unat (xa_log_entry_offset x)"
abbreviation xlen :: "xfer_args \<Rightarrow> nat" where "xlen x \<equiv> unat (xa_log_entry_size x)"
abbreviation issued :: "xfer_args \<Rightarrow> nat" where "issued x \<equiv> unat (xa_log_issued x)"
abbreviation ro :: "xfer_args \<Rightarrow> nat" where "ro x \<equiv> unat (xa_remote_offset x)"
abbreviation sent :: "xfer_args \<Rightarrow> nat" where "sent x \<equiv> unat (xa_transmit_size x)"
abbreviation skip :: "xfer_args \<Rightarrow> nat" where "skip x \<equiv> unat (xa_transmit_offset_in_log x)"
abbreviation mx :: "xfer_args \<Rightarrow> nat" where "mx x \<equiv> unat (xa_poolset_max_size x)"

definition tx :: "xfer_args \<Rightarrow> nat \<Rightarrow> nat" where
  "tx x p = min (sent x) (p - skip x)"

definition xfer_ok :: "xfer_args \<Rightarrow> bool" where
  "xfer_ok x \<longleftrightarrow> 0 < mx x \<and> skip x < mx x \<and> mx x < 2 ^ 31 \<and> 0 < sent x \<and>
     skip x + sent x \<le> xlen x \<and> lo x + xlen x < 2 ^ 63 \<and> ro x + sent x < 2 ^ 64 \<and>
     issued x \<le> xlen x \<and> (issued x = 0 \<or> skip x < issued x) \<and>
     unat (xa_transmit_issued x) = tx x (issued x)"

text \<open>The fields no thread changes.\<close>

definition same_xfer :: "xfer_args \<Rightarrow> xfer_args \<Rightarrow> bool" where
  "same_xfer x y \<longleftrightarrow> xa_fd x = xa_fd y \<and> xa_remote_addr x = xa_remote_addr y \<and>
     xa_remote_bulk x = xa_remote_bulk y \<and> xa_remote_offset x = xa_remote_offset y \<and>
     xa_log_entry_offset x = xa_log_entry_offset y \<and> xa_log_entry_size x = xa_log_entry_size y \<and>
     xa_transmit_size x = xa_transmit_size y \<and>
     xa_transmit_offset_in_log x = xa_transmit_offset_in_log y \<and>
     xa_poolset_max_size x = xa_poolset_max_size y \<and> xa_op_flag x = xa_op_flag y"

lemma same_xfer_refl [simp]: "same_xfer x x"
  by (simp add: same_xfer_def)

lemma same_xfer_trans: "same_xfer x y \<Longrightarrow> same_xfer y z \<Longrightarrow> same_xfer x z"
  by (simp add: same_xfer_def)

lemma same_xfer_tx: "same_xfer x y \<Longrightarrow> tx x = tx y"
  by (rule ext) (simp add: same_xfer_def tx_def)

text \<open>Where a chunk lies in the log extent, and what makes it a chunk of the transfer.\<close>

definition cpos :: "xfer_args \<Rightarrow> xfer_chunk \<Rightarrow> nat" where
  "cpos x c = unat (this_log_offset c) - lo x"

definition chunk_ok :: "xfer_args \<Rightarrow> xfer_chunk \<Rightarrow> bool" where
  "chunk_ok x c \<longleftrightarrow>
     unat (this_log_offset c) = lo x + cpos x c \<and> 0 < unat (this_log_size c) \<and>
     unat (this_log_size c) \<le> mx x \<and> cpos x c + unat (this_log_size c) \<le> issued x \<and>
     unat (this_remote_offset c) = ro x + tx x (cpos x c) \<and>
     unat (this_transmit_size c) = tx x (cpos x c + unat (this_log_size c)) - tx x (cpos x c) \<and>
     unat (this_transmit_offset_in_log c) = (if cpos x c = 0 then skip x else 0) \<and>
     (cpos x c = 0 \<or> skip x < cpos x c) \<and> skip x < cpos x c + unat (this_log_size c)"

lemma chunk_ok_mono:
  assumes "chunk_ok x c" and "same_xfer x y" and "issued x \<le> issued y"
  shows "chunk_ok y c" and "cpos y c = cpos x c"
proof -
  show c: "cpos y c = cpos x c" using assms(2) by (simp add: cpos_def same_xfer_def)
  show "chunk_ok y c"
    using assms same_xfer_tx [OF assms(2)] c by (simp add: chunk_ok_def same_xfer_def)
qed

lemma xfer_claim_ok:
  assumes x: "xfer_ok x" and more: "xa_log_issued x < xa_log_entry_size x"
    and claim: "xfer_claim x = (c, y)"
  shows "xfer_ok y" and "same_xfer x y" and "chunk_ok y c" and "cpos y c = issued x"
    and "unat (this_log_size c) = min (mx x) (xlen x - issued x)"
    and "issued y = issued x + unat (this_log_size c)" and "xa_ret y = xa_ret x"
    and "xa_ults_active y = xa_ults_active x" and "xa_eventual y = xa_eventual x"
proof -
  have ok: "0 < mx x" "skip x < mx x" "mx x < 2 ^ 31" "0 < sent x" "skip x + sent x \<le> xlen x"
    "lo x + xlen x < 2 ^ 63" "ro x + sent x < 2 ^ 64" "issued x \<le> xlen x"
    "issued x = 0 \<or> skip x < issued x" "unat (xa_transmit_issued x) = tx x (issued x)"
    using x by (simp_all add: xfer_ok_def)
  have lt: "issued x < xlen x" using more by (simp add: word_less_nat_alt)
  have left: "unat (xa_log_entry_size x - xa_log_issued x) = xlen x - issued x"
    using more by (simp add: unat_sub order.strict_implies_order)
  define n where "n = (if xa_log_entry_size x - xa_log_issued x > xa_poolset_max_size x
    then xa_poolset_max_size x else xa_log_entry_size x - xa_log_issued x)"
  have n: "unat n = min (mx x) (xlen x - issued x)"
    by (auto simp: n_def word_less_nat_alt left min_def)
  have zero: "xa_transmit_issued x = 0 \<longleftrightarrow> issued x = 0"
    using ok(4,9,10) by (auto simp: tx_def unat_eq_0 [symmetric])
  define t1 where "t1 = (if xa_transmit_issued x = 0 then n - xa_transmit_offset_in_log x else n)"
  have sn: "issued x = 0 \<Longrightarrow> skip x < unat n" using ok(2,4,5) by (simp add: n)
  have t1: "unat t1 = unat n - (if issued x = 0 then skip x else 0)"
    using sn by (auto simp: t1_def zero unat_sub word_le_nat_alt)
  have t1b: "unat t1 < 2 ^ 31" using n ok(3) by (simp add: t1)
  have "unat (xa_transmit_issued x) < 2 ^ 63" using ok(5,6,10) by (simp add: tx_def)
  then have sum: "unat (t1 + xa_transmit_issued x) = unat t1 + tx x (issued x)"
    using t1b ok(10) by (subst unat_add_lem [THEN iffD1]) simp_all
  define t where "t = (if t1 + xa_transmit_issued x > xa_transmit_size x
    then xa_transmit_size x - xa_transmit_issued x else t1)"
  have le: "xa_transmit_issued x \<le> xa_transmit_size x" using ok(10) by (simp add: word_le_nat_alt tx_def)
  have "unat t = (if unat t1 + tx x (issued x) > sent x then sent x - tx x (issued x) else unat t1)"
    using le sum ok(10) by (simp add: t_def word_less_nat_alt unat_sub)
  then have t: "unat t = tx x (issued x + unat n) - tx x (issued x)"
    using t1 sn ok(9) by (auto simp: tx_def min_def)
  have mono: "tx x (issued x) \<le> tx x (issued x + unat n)" by (auto simp: tx_def)
  have c: "c = \<lparr>this_log_size = n, this_transmit_size = t,
      this_log_offset = xa_log_entry_offset x + xa_log_issued x,
      this_transmit_offset_in_log = (if xa_transmit_issued x = 0 then xa_transmit_offset_in_log x else 0),
      this_remote_offset = xa_remote_offset x + xa_transmit_issued x\<rparr>"
    and y: "y = x\<lparr>xa_log_issued := xa_log_issued x + n, xa_transmit_issued := xa_transmit_issued x + t\<rparr>"
    using claim by (auto simp: xfer_claim_def Let_def n_def t_def t1_def split: if_splits)
  show "same_xfer x y" "xa_ret y = xa_ret x" "xa_ults_active y = xa_ults_active x"
    "xa_eventual y = xa_eventual x" by (simp_all add: y same_xfer_def)
  have tx: "tx y = tx x" by (rule ext) (simp add: tx_def y)
  show ci: "unat (this_log_size c) = min (mx x) (xlen x - issued x)" by (simp add: c n)
  have sumi: "unat (xa_log_issued x + n) = issued x + unat n"
    using n lt ok(6) by (subst unat_add_lem [THEN iffD1]) (simp_all add: n)
  then show "issued y = issued x + unat (this_log_size c)" by (simp add: y c)
  have "tx x (issued x + unat n) \<le> sent x" by (simp add: tx_def)
  then have sumt: "unat (xa_transmit_issued x + t) = tx x (issued x + unat n)"
    using t mono ok(7,10) by (subst unat_add_lem [THEN iffD1]) simp_all
  show "xfer_ok y"
    unfolding xfer_ok_def tx using ok n lt sn by (auto simp: sumi sumt y)
  have lo: "unat (xa_log_entry_offset x + xa_log_issued x) = lo x + issued x"
    using ok(6,8) by (subst unat_add_lem [THEN iffD1]) simp_all
  have ro: "unat (xa_remote_offset x + xa_transmit_issued x) = ro x + tx x (issued x)"
    using ok(7,10) by (subst unat_add_lem [THEN iffD1]) (simp_all add: tx_def)
  show cp: "cpos y c = issued x" by (simp add: cpos_def c y lo)
  show "chunk_ok y c"
    using n lt ok sn by (auto simp: chunk_ok_def cp tx) (auto simp: c y lo ro t sumi zero)
qed

section \<open>One step of a thread\<close>

fun pending :: "ult \<Rightarrow> xfer_chunk option" where
  "pending (UGetBuf c) = Some c"
| "pending (UAccess c h) = Some c"
| "pending (UData1 c h buf) = Some c"
| "pending (UData2 c h buf) = Some c"
| "pending _ = None"

text \<open>The positions of the extent a thread has taken and not relayed yet.\<close>

definition owned :: "xfer_args \<Rightarrow> ult \<Rightarrow> nat set" where
  "owned x u = (case pending u of None \<Rightarrow> {}
     | Some c \<Rightarrow> {cpos x c ..< cpos x c + unat (this_log_size c)})"

definition relayed ::
  "('w \<Rightarrow> nat \<Rightarrow> byte) \<Rightarrow> ('w \<Rightarrow> nat \<Rightarrow> byte) \<Rightarrow> xfer_args \<Rightarrow> 'w \<Rightarrow> nat \<Rightarrow> bool" where
  "relayed fbyte rbyte x w p \<longleftrightarrow>
     (skip x \<le> p \<and> p < skip x + sent x \<longrightarrow> fbyte w (lo x + p) = rbyte w (ro x + (p - skip x)))"

fun ult_ok :: "('w \<Rightarrow> nat \<Rightarrow> byte) \<Rightarrow> ('w \<Rightarrow> nat \<Rightarrow> byte) \<Rightarrow> xfer_args \<Rightarrow> 'w \<Rightarrow> ult \<Rightarrow> bool" where
  "ult_ok fbyte rbyte x w (UGetBuf c) = chunk_ok x c"
| "ult_ok fbyte rbyte x w (UAccess c h) = chunk_ok x c"
| "ult_ok fbyte rbyte x w (UData1 c h buf) = (chunk_ok x c \<and> length buf = unat (this_log_size c))"
| "ult_ok fbyte rbyte x w (UData2 c h buf) =
    (chunk_ok x c \<and> (xa_ret x = 0 \<longrightarrow> length buf = unat (this_log_size c) \<and>
      (case xa_op_flag x of
         TRANSFER_DATA_WRITE \<Rightarrow> take (unat (this_transmit_size c)) buf
           = extent (unat (this_remote_offset c)) (unat (this_transmit_size c)) (rbyte w)
       | TRANSFER_DATA_READ \<Rightarrow> buf
           = extent (unat (this_log_offset c)) (unat (this_log_size c)) (fbyte w))))"
| "ult_ok fbyte rbyte x w u = True"

text \<open>What a transfer may change: the extent in the log, or the client's range.\<close>

definition xfer_frame ::
  "('w \<Rightarrow> nat \<Rightarrow> byte) \<Rightarrow> ('w \<Rightarrow> nat) \<Rightarrow> ('w \<Rightarrow> nat \<Rightarrow> byte) \<Rightarrow> xfer_args \<Rightarrow> 'w \<Rightarrow> 'w \<Rightarrow> bool" where
  "xfer_frame fbyte flen rbyte x w w' \<longleftrightarrow> flen w \<le> flen w' \<and>
    (case xa_op_flag x of
       TRANSFER_DATA_WRITE \<Rightarrow> rbyte w' = rbyte w \<and>
         (\<forall>q. q < lo x \<or> lo x + xlen x \<le> q \<longrightarrow> fbyte w' q = fbyte w q)
     | TRANSFER_DATA_READ \<Rightarrow> fbyte w' = fbyte w \<and>
         (\<forall>q. q < ro x \<or> ro x + sent x \<le> q \<longrightarrow> rbyte w' q = rbyte w q))"

text \<open>Threads that have left their loop.\<close>

fun left :: "ult \<Rightarrow> bool" where
  "left (UFinish h) = True"
| "left UCount = True"
| "left USignal = True"
| "left UExit = True"
| "left _ = False"

definition step_ok ::
  "('w \<Rightarrow> nat \<Rightarrow> byte) \<Rightarrow> ('w \<Rightarrow> nat) \<Rightarrow> ('w \<Rightarrow> nat \<Rightarrow> byte) \<Rightarrow> ult \<Rightarrow> xfer_args \<Rightarrow> 'w \<Rightarrow>
     ult \<Rightarrow> xfer_args \<Rightarrow> 'w \<Rightarrow> bool" where
  "step_ok fbyte flen rbyte u x w u' x' w' \<longleftrightarrow>
     xfer_ok x' \<and> same_xfer x x' \<and> issued x \<le> issued x' \<and> (xa_ret x \<noteq> 0 \<longrightarrow> xa_ret x' \<noteq> 0) \<and>
     ult_ok fbyte rbyte x' w' u' \<and> xfer_frame fbyte flen rbyte x w w' \<and>
     (left u' \<longrightarrow> left u \<or> xa_ret x' \<noteq> 0 \<or> issued x' = xlen x') \<and>
     (xa_ret x' = 0 \<and> u' \<noteq> UAbort \<longrightarrow> (\<forall>p < issued x'. p \<in> owned x' u' \<or> relayed fbyte rbyte x w' p \<or>
        p < issued x \<and> p \<notin> owned x u \<and> (relayed fbyte rbyte x w p \<longrightarrow> relayed fbyte rbyte x w' p)))"

lemma xfer_frame_quiet:
  "fbyte w' = fbyte w \<Longrightarrow> flen w' = flen w \<Longrightarrow> rbyte w' = rbyte w \<Longrightarrow> xfer_frame fbyte flen rbyte x w w'"
  by (simp add: xfer_frame_def split: xfer_op.split)

text \<open>Steps that move no data.\<close>

lemma step_quiet:
  assumes "fbyte w' = fbyte w" "flen w' = flen w" "rbyte w' = rbyte w"
    and "xfer_ok x" "same_xfer x x'" "xa_log_issued x' = xa_log_issued x"
    "xa_transmit_issued x' = xa_transmit_issued x"
    and "xa_ret x \<noteq> 0 \<Longrightarrow> xa_ret x' \<noteq> 0" and "ult_ok fbyte rbyte x' w' u'"
    and "xa_ret x' = 0 \<Longrightarrow> u' \<noteq> UAbort \<Longrightarrow> owned x u \<subseteq> owned x' u'"
    and "left u' \<Longrightarrow> left u \<or> xa_ret x' \<noteq> 0 \<or> issued x' = xlen x'"
  shows "step_ok fbyte flen rbyte u x w u' x' w'"
proof -
  have "xfer_ok x'"
    using assms(4-7) same_xfer_tx [OF assms(5)] by (simp add: xfer_ok_def same_xfer_def)
  moreover have "relayed fbyte rbyte x w' p = relayed fbyte rbyte x w p" for p
    using assms(1,3) by (simp add: relayed_def)
  ultimately show ?thesis
    using assms by (auto simp: step_ok_def xfer_frame_quiet)
qed

lemma xfer_check_cases:
  assumes "xfer_check failed ret h nx x = (u', x')"
  shows "failed \<and> xa_ret x = 0 \<and> u' = UFinish h \<and> x' = x\<lparr>xa_ret := ret\<rparr> \<or>
    (failed \<longrightarrow> xa_ret x \<noteq> 0) \<and> u' = nx \<and> x' = x"
  using assms unfolding xfer_check_def by (cases "failed \<and> xa_ret x = 0") simp_all

lemma same_xfer_update [simp]:
  "same_xfer x (x\<lparr>xa_ret := r\<rparr>)" "same_xfer x (x\<lparr>xa_log_retired := v\<rparr>)"
  "same_xfer x (x\<lparr>xa_ults_active := n\<rparr>)" "same_xfer x (x\<lparr>xa_mutex_freed := b, xa_eventual := b'\<rparr>)"
  by (simp_all add: same_xfer_def)

lemma owned_simps [simp]:
  "owned x (ULoop c') = {}" "owned x (URelease c h) = {}" "owned x (UFinish h) = {}"
  "owned x UCount = {}" "owned x USignal = {}" "owned x UExit = {}" "owned x UAbort = {}"
  by (simp_all add: owned_def)

text \<open>A checked call that moves no data of the transfer.\<close>

lemma step_check_quiet:
  assumes "xfer_check failed ret h nx x = (u', x')" and "failed \<Longrightarrow> xa_ret x = 0 \<Longrightarrow> ret \<noteq> 0"
    and "fbyte w' = fbyte w" "flen w' = flen w" "rbyte w' = rbyte w" and "xfer_ok x"
    and "(failed \<Longrightarrow> xa_ret x \<noteq> 0) \<Longrightarrow> ult_ok fbyte rbyte x w' nx"
    and "owned x u \<subseteq> owned x nx" and "\<not> left nx"
  shows "step_ok fbyte flen rbyte u x w u' x' w'"
  using xfer_check_cases [OF assms(1)]
proof (elim disjE conjE)
  assume "failed" "xa_ret x = 0" "u' = UFinish h" "x' = x\<lparr>xa_ret := ret\<rparr>"
  with assms(2-6) show ?thesis by (intro step_quiet) simp_all
next
  assume "failed \<longrightarrow> xa_ret x \<noteq> 0" "u' = nx" "x' = x"
  with assms(3-9) show ?thesis by (intro step_quiet) simp_all
qed

lemma io_count_iff:
  assumes "- (2 ^ 31) \<le> r" and "r \<le> int (unat n)" and "unat n < 2 ^ 31"
  shows "(of_int (to_c_int r) :: u64) = n \<longleftrightarrow> r = int (unat n)" and "to_c_int r = r"
proof -
  have "int (unat n) < int (2 ^ 31)" using assms(3) by (simp only: of_nat_less_iff)
  then have "int (unat n) < 2 ^ 31" by (simp only: of_nat_power of_nat_numeral)
  then show i: "to_c_int r = r" using assms(1,2) by (intro to_c_int_id) linarith+
  show "(of_int (to_c_int r) :: u64) = n \<longleftrightarrow> r = int (unat n)"
  proof
    assume eq: "(of_int (to_c_int r) :: u64) = n"
    then have "uint n = r mod 2 ^ 64" by (simp add: i uint_word_of_int flip: eq)
    then have m: "int (unat n) = r mod 2 ^ 64" by simp
    have p: "(2::int) ^ 31 + 2 ^ 31 < 2 ^ 64" "(0::int) < 2 ^ 31" by simp_all
    show "r = int (unat n)"
    proof (cases "0 \<le> r")
      case True
      moreover have "r < 2 ^ 64" using assms(2) \<open>int (unat n) < 2 ^ 31\<close> p by linarith
      ultimately have "r mod 2 ^ 64 = r" by (rule mod_pos_pos_trivial)
      then show ?thesis using m by linarith
    next
      case False
      have "r mod 2 ^ 64 = (r + 2 ^ 64) mod 2 ^ 64" by simp
      also have "\<dots> = r + 2 ^ 64" using False assms(1) by (intro mod_pos_pos_trivial) simp_all
      finally show ?thesis using m assms(1) \<open>int (unat n) < 2 ^ 31\<close> p by linarith
    qed
  next
    assume "r = int (unat n)"
    then have "(of_int r :: u64) = n" by simp
    then show "(of_int (to_c_int r) :: u64) = n" by (simp only: i)
  qed
qed

lemma chunk_okD:
  assumes "chunk_ok x c" and "xfer_ok x"
  shows "unat (this_log_offset c) = lo x + cpos x c" and "0 < unat (this_log_size c)"
    and "unat (this_log_size c) < 2 ^ 31" and "cpos x c + unat (this_log_size c) \<le> xlen x"
    and "unat (this_remote_offset c) = ro x + tx x (cpos x c)"
    and "unat (this_transmit_size c) = tx x (cpos x c + unat (this_log_size c)) - tx x (cpos x c)"
    and "unat (this_transmit_offset_in_log c) = (if cpos x c = 0 then skip x else 0)"
    and "cpos x c = 0 \<or> skip x < cpos x c"
  using assms by (auto simp: chunk_ok_def xfer_ok_def)

lemma owned_UData2: "owned x (UData2 c h buf) = {cpos x c ..< cpos x c + unat (this_log_size c)}"
  by (simp add: owned_def)

lemma step_pwrite:
  assumes fo: "pwrite_ok env (xa_fd x) fbyte flen" and re: "file_remote_ok env (xa_fd x) flen rbyte"
    and x: "xfer_ok x" and op: "xa_op_flag x = TRANSFER_DATA_WRITE" and sk: "skip x = 0"
    and u: "ult_ok fbyte rbyte x w (UData2 c h buf)"
    and pw: "abt_io_pwrite env (xa_fd x) (take (unat (this_log_size c)) buf) (this_log_offset c) w = (r, w')"
    and ck: "xfer_check (of_int (to_c_int r) \<noteq> this_log_size c) (to_c_int r) h (URelease c h) x = (u', x')"
  shows "step_ok fbyte flen rbyte (UData2 c h buf) x w u' x' w'"
proof -
  let ?d = "take (unat (this_log_size c)) buf" and ?n = "unat (this_log_size c)"
  have c: "chunk_ok x c" using u by simp
  note cd = chunk_okD [OF c x] and po = pwrite_okD [OF fo pw] and ro = file_remote_okD [OF re]
  have same: "x' = x \<or> x' = x\<lparr>xa_ret := to_c_int r\<rparr>" and ult: "ult_ok fbyte rbyte x' w' u'"
    and mono: "xa_ret x \<noteq> 0 \<longrightarrow> xa_ret x' \<noteq> 0"
    using xfer_check_cases [OF ck] by auto
  have xok: "xfer_ok x'" "same_xfer x x'" "issued x' = issued x"
    using same x by (auto simp: xfer_ok_def tx_def)
  have frame: "xfer_frame fbyte flen rbyte x w w'"
    using po(1,2) ro(1) [OF pw] cd(1,4) by (auto simp: xfer_frame_def op)
  have io: "r \<noteq> 0" "to_c_int r = r" "(of_int (to_c_int r) :: u64) = this_log_size c \<longleftrightarrow> r = int ?n"
    if "xa_ret x = 0"
  proof -
    have len: "length ?d = ?n" using u op that by simp
    then have rb: "r \<le> int ?n" using po(4) by simp
    show "r \<noteq> 0" using ro(2) [OF pw] len cd(2) by force
    show "to_c_int r = r" "(of_int (to_c_int r) :: u64) = this_log_size c \<longleftrightarrow> r = int ?n"
      using io_count_iff [OF po(3) rb cd(3)] by simp_all
  qed
  have lft: "left u' \<longrightarrow> xa_ret x' \<noteq> 0" using xfer_check_cases [OF ck] io(1,2) by auto
  have cover: "p \<in> owned x' u' \<or> relayed fbyte rbyte x w' p \<or> p < issued x \<and>
      p \<notin> owned x (UData2 c h buf) \<and> (relayed fbyte rbyte x w p \<longrightarrow> relayed fbyte rbyte x w' p)"
    if ret: "xa_ret x' = 0" and p: "p < issued x'" for p
  proof -
    have r0: "xa_ret x = 0" using ret mono by auto
    then have len: "length ?d = ?n" and buf: "take (unat (this_transmit_size c)) buf
        = extent (unat (this_remote_offset c)) (unat (this_transmit_size c)) (rbyte w)"
      using u op by simp_all
    have "r = int (length ?d)" using xfer_check_cases [OF ck] ret io [OF r0] len by auto
    then have fb: "fbyte w' = overlay (unat (this_log_offset c)) ?d (fbyte w)" by (rule po(5))
    show ?thesis
    proof (cases "p \<in> owned x (UData2 c h buf)")
      case True
      then obtain j where j: "p = cpos x c + j" "j < ?n" by (auto simp: owned_UData2 le_iff_add)
      have "fbyte w' (lo x + p) = rbyte w' (ro x + p)" if "p < sent x"
      proof -
        have t: "j < unat (this_transmit_size c)" "tx x (cpos x c) = cpos x c"
          using that j cd(6) by (auto simp: tx_def sk)
        have "fbyte w' (lo x + p) = ?d ! j"
          using overlay_inside [of j ?d "unat (this_log_offset c)" "fbyte w"] j len
          by (simp add: fb cd(1) add.assoc)
        also have "\<dots> = take (unat (this_transmit_size c)) buf ! j" using j t(1) by simp
        also have "\<dots> = rbyte w (ro x + p)" using t by (simp add: buf cd(5) j add.assoc)
        finally show ?thesis using ro(1) [OF pw] by simp
      qed
      then show ?thesis by (simp add: relayed_def sk)
    next
      case False
      then have "fbyte w' (lo x + p) = fbyte w (lo x + p)"
        using len by (auto simp: owned_UData2 fb cd(1) intro!: overlay_outside)
      then show ?thesis using False p xok(3) ro(1) [OF pw] by (simp add: relayed_def)
    qed
  qed
  show ?thesis using xok ult mono frame cover lft by (simp add: step_ok_def)
qed

lemma tx_mono: "p \<le> q \<Longrightarrow> tx x p \<le> tx x q"
  by (auto simp: tx_def)

lemma step_push:
  assumes pu: "push_ok env (xa_remote_addr x) (xa_remote_bulk x) fbyte flen rbyte"
    and x: "xfer_ok x" and op: "xa_op_flag x = TRANSFER_DATA_READ"
    and u: "ult_ok fbyte rbyte x w (UData2 c h buf)"
    and ps: "bulk_push env (xa_remote_addr x) (xa_remote_bulk x) (this_remote_offset c)
      (take (unat (this_transmit_size c)) (drop (unat (this_transmit_offset_in_log c)) buf)) w = (r, w')"
    and ck: "xfer_check (r \<noteq> 0) r h (URelease c h) x = (u', x')"
  shows "step_ok fbyte flen rbyte (UData2 c h buf) x w u' x' w'"
proof -
  let ?n = "unat (this_log_size c)" and ?t = "unat (this_transmit_size c)"
  let ?k = "unat (this_transmit_offset_in_log c)" let ?d = "take ?t (drop ?k buf)"
  have c: "chunk_ok x c" using u by simp
  note cd = chunk_okD [OF c x] and po = push_okD [OF pu ps]
  have same: "x' = x \<or> x' = x\<lparr>xa_ret := r\<rparr>" and ult: "ult_ok fbyte rbyte x' w' u'"
    and mono: "xa_ret x \<noteq> 0 \<longrightarrow> xa_ret x' \<noteq> 0"
    using xfer_check_cases [OF ck] by auto
  have xok: "xfer_ok x'" "same_xfer x x'" "issued x' = issued x"
    using same x by (auto simp: xfer_ok_def tx_def)
  have tm: "tx x (cpos x c) + ?t = tx x (cpos x c + ?n)"
    using tx_mono [of "cpos x c" "cpos x c + ?n" x] by (simp add: cd(6))
  then have le: "tx x (cpos x c) + ?t \<le> sent x" by (simp add: tx_def)
  have "rbyte w' q = rbyte w q" if "q < ro x \<or> ro x + sent x \<le> q" for q
    by (rule po(3)) (use that le in \<open>auto simp: cd(5)\<close>)
  then have frame: "xfer_frame fbyte flen rbyte x w w'"
    using po(1,2) by (simp add: xfer_frame_def op)
  have cover: "p \<in> owned x' u' \<or> relayed fbyte rbyte x w' p \<or> p < issued x \<and>
      p \<notin> owned x (UData2 c h buf) \<and> (relayed fbyte rbyte x w p \<longrightarrow> relayed fbyte rbyte x w' p)"
    if ret: "xa_ret x' = 0" and p: "p < issued x'" for p
  proof -
    have r0: "xa_ret x = 0" "r = 0" using ret xfer_check_cases [OF ck] by auto
    then have buf: "buf = extent (unat (this_log_offset c)) ?n (fbyte w)" using u op by simp
    note rb = po(4) [OF r0(2)]
    have klen: "length ?d = ?t" if "0 < ?t"
      using that tm cd(7,8) by (auto simp: buf tx_def split: if_splits)
    have "rbyte w' (ro x + (p - skip x)) = fbyte w (lo x + p)"
      if own: "cpos x c \<le> p" "p < cpos x c + ?n" and tr: "skip x \<le> p" "p < skip x + sent x"
    proof -
      have i: "tx x (cpos x c) + (p - skip x - tx x (cpos x c)) = p - skip x"
        "p - skip x - tx x (cpos x c) < ?t"
        "cpos x c + (?k + (p - skip x - tx x (cpos x c))) = p"
        using own tr tm cd(7,8) by (auto simp: tx_def min_def split: if_splits)
      have "?k + (p - skip x - tx x (cpos x c)) < ?n" using i(3) own by linarith
      then have "?d ! (p - skip x - tx x (cpos x c)) = fbyte w (lo x + p)"
        using i(2,3) by (simp add: buf cd(1) add.assoc)
      moreover have "rbyte w' (ro x + (p - skip x)) = ?d ! (p - skip x - tx x (cpos x c))"
        using overlay_inside [of "p - skip x - tx x (cpos x c)" ?d "unat (this_remote_offset c)" "rbyte w"]
          klen i(1,2) by (simp add: rb cd(5) add.assoc)
      ultimately show ?thesis by simp
    qed
    moreover have "rbyte w' (ro x + (p - skip x)) = rbyte w (ro x + (p - skip x))"
      if own: "\<not> (cpos x c \<le> p \<and> p < cpos x c + ?n)" and tr: "skip x \<le> p" "p < skip x + sent x"
    proof (rule po(3))
      have "length ?d \<le> ?t" by simp
      moreover have "p - skip x < tx x (cpos x c) \<or> tx x (cpos x c) + ?t \<le> p - skip x"
        unfolding tm using own tr by (auto simp: tx_def)
      ultimately show "ro x + (p - skip x) < unat (this_remote_offset c) \<or>
          unat (this_remote_offset c) + length ?d \<le> ro x + (p - skip x)"
        unfolding cd(5) by linarith
    qed
    ultimately show ?thesis
      using p xok(3) po(1) by (cases "p \<in> owned x (UData2 c h buf)") (auto simp: relayed_def owned_UData2)
  qed
  have "left u' \<longrightarrow> xa_ret x' \<noteq> 0" using xfer_check_cases [OF ck] by auto
  then show ?thesis using xok ult mono frame cover by (simp add: step_ok_def)
qed

text \<open>Everything the transfer relies on, for the handles of the shared state.\<close>

definition xfer_env_ok ::
  "'w env \<Rightarrow> ('w \<Rightarrow> nat \<Rightarrow> byte) \<Rightarrow> ('w \<Rightarrow> nat) \<Rightarrow> ('w \<Rightarrow> nat \<Rightarrow> byte) \<Rightarrow> xfer_args \<Rightarrow> bool" where
  "xfer_env_ok env fbyte flen rbyte x \<longleftrightarrow> log_file_ok env (xa_fd x) fbyte flen \<and>
     file_remote_ok env (xa_fd x) flen rbyte \<and>
     bulk_ok env (xa_remote_addr x) (xa_remote_bulk x) fbyte flen rbyte"

text \<open>Writes start at the beginning of a block; reads stay inside the file.\<close>

definition xfer_dir_ok :: "('w \<Rightarrow> nat) \<Rightarrow> xfer_args \<Rightarrow> 'w \<Rightarrow> bool" where
  "xfer_dir_ok flen x w \<longleftrightarrow> (case xa_op_flag x of
     TRANSFER_DATA_WRITE \<Rightarrow> skip x = 0 | TRANSFER_DATA_READ \<Rightarrow> lo x + xlen x \<le> flen w)"

lemma retired_irrelevant:
  "relayed fbyte rbyte (x\<lparr>xa_log_retired := v\<rparr>) = relayed fbyte rbyte x"
  "xfer_frame fbyte flen rbyte (x\<lparr>xa_log_retired := v\<rparr>) = xfer_frame fbyte flen rbyte x"
  "same_xfer (x\<lparr>xa_log_retired := v\<rparr>) y = same_xfer x y"
  by (intro ext, simp add: relayed_def) (intro ext, simp add: xfer_frame_def split: xfer_op.split,
      simp add: same_xfer_def)

lemma step_loop:
  assumes x: "xfer_ok x" and l: "xfer_loop x = (u', x')" and u: "owned x u = {}"
  shows "step_ok fbyte flen rbyte u x w u' x' w"
proof (cases "xa_log_issued x < xa_log_entry_size x \<and> xa_ret x = 0")
  case True
  obtain c y where cl: "xfer_claim x = (c, y)" by fastforce
  have r: "u' = UGetBuf c" "x' = y" using l True by (simp_all add: xfer_loop_def cl)
  note cy = xfer_claim_ok [OF x conjunct1 [OF True] cl]
  have "owned y (UGetBuf c) = {issued x ..< issued y}" using cy(4,6) by (simp add: owned_def)
  then show ?thesis
    using cy u by (auto simp: r step_ok_def xfer_frame_quiet)
next
  case False
  then have r: "u' = UFinish HG_BULK_NULL" "x' = x" using l by (auto simp: xfer_loop_def)
  have "xa_ret x \<noteq> 0 \<or> issued x = xlen x"
    using False x by (auto simp: xfer_ok_def word_less_nat_alt)
  then show ?thesis using x u r by (intro step_quiet) auto
qed

lemma step_data1_read:
  assumes e: "xfer_env_ok env fbyte flen rbyte x" and x: "xfer_ok x"
    and op: "xa_op_flag x = TRANSFER_DATA_READ" and dir: "xfer_dir_ok flen x w"
    and u: "ult_ok fbyte rbyte x w (UData1 c h buf)"
    and st: "xfer_ult env (UData1 c h buf) x w = ((u', x'), w')"
  shows "step_ok fbyte flen rbyte (UData1 c h buf) x w u' x' w'"
proof -
  obtain r bs w1 where pr: "abt_io_pread env (xa_fd x) (this_log_size c) (this_log_offset c) w = ((r, bs), w1)"
    by (metis prod.exhaust)
  have po: "fbyte w1 = fbyte w" "flen w1 = flen w" "- (2 ^ 31) \<le> r" "r \<le> int (unat (this_log_size c))"
    "0 \<le> r \<Longrightarrow> bs = extent (unat (this_log_offset c)) (nat r) (fbyte w)" "rbyte w1 = rbyte w"
    using e pread_okD [OF log_file_okD(2) pr] file_remote_okD(3) [OF _ pr]
    by (auto simp: xfer_env_ok_def)
  note cd = chunk_okD [OF _ x, of c]
  have c: "chunk_ok x c" "length buf = unat (this_log_size c)" using u by simp_all
  have "0 < this_log_size c" using cd(2) [OF c(1)] by (simp add: word_less_nat_alt)
  moreover have "unat (this_log_offset c) < flen w"
    using cd(1,2,4) [OF c(1)] dir by (simp add: xfer_dir_ok_def op)
  ultimately have nz: "r \<noteq> 0"
    using e file_remote_okD(4) [OF _ pr] by (auto simp: xfer_env_ok_def)
  note io = io_count_iff [OF po(3,4) cd(3) [OF c(1)]]
  have ck: "xfer_check (of_int (to_c_int r) \<noteq> this_log_size c) (to_c_int r) h
      (UData2 c h (bs @ drop (length bs) buf)) x = (u', x')" and w': "w' = w1"
    using st by (simp_all add: op pr Let_def)
  show ?thesis
    by (rule step_check_quiet [OF ck]) (use nz io po c op x w' in \<open>auto simp: owned_def\<close>)
qed

lemma step_data1_write:
  assumes e: "xfer_env_ok env fbyte flen rbyte x" and x: "xfer_ok x"
    and op: "xa_op_flag x = TRANSFER_DATA_WRITE" and sk: "skip x = 0"
    and u: "ult_ok fbyte rbyte x w (UData1 c h buf)"
    and st: "xfer_ult env (UData1 c h buf) x w = ((u', x'), w')"
  shows "step_ok fbyte flen rbyte (UData1 c h buf) x w u' x' w'"
proof -
  obtain r bs w1 where pl: "bulk_pull env (xa_remote_addr x) (xa_remote_bulk x)
      (this_remote_offset c) (this_transmit_size c) w = ((r, bs), w1)"
    by (metis prod.exhaust)
  have po: "fbyte w1 = fbyte w" "flen w1 = flen w" "rbyte w1 = rbyte w"
    "r = 0 \<Longrightarrow> bs = extent (unat (this_remote_offset c)) (unat (this_transmit_size c)) (rbyte w)"
    using e pull_okD [OF bulk_okD(1) pl] by (auto simp: xfer_env_ok_def)
  have c: "chunk_ok x c" "length buf = unat (this_log_size c)" using u by simp_all
  have "unat (this_transmit_size c) \<le> unat (this_log_size c)"
    using chunk_okD(6) [OF c(1) x] by (auto simp: tx_def sk)
  with po(4) c(2) have buf: "r = 0 \<Longrightarrow> length (bs @ drop (length bs) buf) = unat (this_log_size c) \<and>
      take (unat (this_transmit_size c)) (bs @ drop (length bs) buf)
        = extent (unat (this_remote_offset c)) (unat (this_transmit_size c)) (rbyte w)"
    by simp
  have ck: "xfer_check (r \<noteq> 0) r h (UData2 c h (bs @ drop (length bs) buf)) x = (u', x')"
    and w': "w' = w1"
    using st by (simp_all add: op pl Let_def)
  show ?thesis
  proof (rule step_check_quiet [OF ck])
    assume "r \<noteq> 0 \<Longrightarrow> xa_ret x \<noteq> 0"
    then show "ult_ok fbyte rbyte x w' (UData2 c h (bs @ drop (length bs) buf))"
      using buf c(1) po(3) op w' by auto
  qed (use po x w' in \<open>auto simp: owned_def\<close>)
qed

lemma xfer_ult_step_ok:
  assumes e: "xfer_env_ok env fbyte flen rbyte x" and x: "xfer_ok x" and dir: "xfer_dir_ok flen x w"
    and u: "ult_ok fbyte rbyte x w u" and st: "xfer_ult env u x w = ((u', x'), w')"
  shows "step_ok fbyte flen rbyte u x w u' x' w'"
proof (cases u)
  case (ULoop co)
  show ?thesis
  proof (cases co)
    case None
    then show ?thesis using x st ULoop by (auto intro: step_loop)
  next
    case (Some c)
    let ?x = "x\<lparr>xa_log_retired := xa_log_retired x + this_log_size c\<rparr>"
    have "xfer_ok ?x" using x by (simp add: xfer_ok_def tx_def)
    moreover have "xfer_loop ?x = (u', x')" "w' = w" using st ULoop Some by simp_all
    ultimately have "step_ok fbyte flen rbyte u ?x w u' x' w'"
      using ULoop by (auto intro: step_loop)
    then show ?thesis
      by (auto simp: step_ok_def ULoop retired_irrelevant)
  qed
next
  case (UGetBuf c)
  obtain r h w1 where g: "poolset_get env (this_log_size c) w = ((r, h), w1)" by (metis prod.exhaust)
  have po: "fbyte w1 = fbyte w" "flen w1 = flen w" "rbyte w1 = rbyte w"
    using e poolset_okD [OF bulk_okD(3)] g by (auto simp: xfer_env_ok_def)
  have ck: "xfer_check (r \<noteq> 0) r h (UAccess c h) x = (u', x')" "w' = w1"
    using st by (simp_all add: UGetBuf g)
  show ?thesis unfolding UGetBuf
    by (rule step_check_quiet [OF ck(1)]) (use po ck(2) x u UGetBuf in \<open>auto simp: owned_def\<close>)
next
  case (UAccess c h)
  obtain r q buf where a: "bulk_access env h (this_log_size c) w = (r, q, buf)" by (metis prod.exhaust)
  show ?thesis
  proof (cases "r \<noteq> 0 \<or> unat q mod 4096 \<noteq> 0")
    case True
    then have "u' = UAbort" "x' = x" "w' = w" using st by (simp_all add: UAccess a)
    then show ?thesis using x by (intro step_quiet) simp_all
  next
    case False
    then have "u' = UData1 c h buf" "x' = x" "w' = w" using st by (simp_all add: UAccess a)
    moreover have "length buf = unat (this_log_size c)"
      using False e poolset_okD(7) [OF bulk_okD(3)] a by (auto simp: xfer_env_ok_def)
    ultimately show ?thesis using x u UAccess by (intro step_quiet) (auto simp: owned_def)
  qed
next
  case (UData1 c h buf)
  then show ?thesis
    using assms step_data1_read [OF e x] step_data1_write [OF e x]
    by (cases "xa_op_flag x") (auto simp: xfer_dir_ok_def)
next
  case (UData2 c h buf)
  note uo = u [unfolded UData2]
  have env: "pwrite_ok env (xa_fd x) fbyte flen" "file_remote_ok env (xa_fd x) flen rbyte"
    "push_ok env (xa_remote_addr x) (xa_remote_bulk x) fbyte flen rbyte"
    using e log_file_okD(1) bulk_okD(2) by (auto simp: xfer_env_ok_def)
  show ?thesis
  proof (cases "xa_op_flag x")
    case TRANSFER_DATA_READ
    then show ?thesis
      using step_push [OF env(3) x _ uo] st by (auto simp: UData2 Let_def split: prod.splits)
  next
    case TRANSFER_DATA_WRITE
    then show ?thesis
      using step_pwrite [OF env(1,2) x _ _ uo] st dir
      by (auto simp: UData2 Let_def xfer_dir_ok_def split: prod.splits)
  qed
next
  case (URelease c h)
  then show ?thesis
    using st x e poolset_okD [OF bulk_okD(3)] by (intro step_quiet) (auto simp: xfer_env_ok_def)
next
  case (UFinish h)
  then show ?thesis
    using st x e poolset_okD [OF bulk_okD(3)] by (intro step_quiet) (auto simp: xfer_env_ok_def)
next
  case UCount
  then show ?thesis using st x by (intro step_quiet) (auto simp: Let_def)
next
  case USignal
  then show ?thesis using st x by (intro step_quiet) auto
next
  case UExit
  then show ?thesis using st x by (intro step_quiet) auto
next
  case UAbort
  then show ?thesis using st x by (intro step_quiet) auto
qed

section \<open>All interleavings\<close>

fun weight :: "ult \<Rightarrow> nat" where
  "weight (UGetBuf c) = 9"
| "weight (UAccess c h) = 8"
| "weight (UData1 c h buf) = 7"
| "weight (UData2 c h buf) = 6"
| "weight (URelease c h) = 5"
| "weight (ULoop co) = 4"
| "weight (UFinish h) = 3"
| "weight UCount = 2"
| "weight USignal = 1"
| "weight UExit = 0"
| "weight UAbort = 0"

text \<open>A thread that takes a chunk moves back in its loop and forward in the extent.\<close>

abbreviation rest_work :: "xfer_args \<Rightarrow> nat" where "rest_work x \<equiv> 6 * (xlen x - issued x)"

lemma weight_decreases:
  assumes "xfer_ok x" and "ukind u \<noteq> Exited" and "ukind u \<noteq> Aborted" and "xfer_ult env u x w = ((u', x'), w')"
  shows "rest_work x' + weight u' < rest_work x + weight u"
proof -
  have loop: "rest_work x' + weight u' < rest_work y + 4"
    if y: "xfer_ok y" and l: "xfer_loop y = (u', x')" for y
  proof (cases "xa_log_issued y < xa_log_entry_size y \<and> xa_ret y = 0")
    case True
    obtain c z where cl: "xfer_claim y = (c, z)" by fastforce
    note cy = xfer_claim_ok [OF y conjunct1 [OF True] cl]
    have r: "u' = UGetBuf c" "x' = z" using l True by (simp_all add: xfer_loop_def cl)
    have "xlen z = xlen y" "0 < unat (this_log_size c)" "issued z \<le> xlen z"
      using cy(1,2,3) by (simp_all add: same_xfer_def chunk_ok_def xfer_ok_def)
    then show ?thesis using cy(6) by (simp add: r)
  next
    case False
    then show ?thesis using l by (auto simp: xfer_loop_def)
  qed
  show ?thesis
  proof (cases u)
    case (ULoop co)
    have "xfer_ok (x\<lparr>xa_log_retired := v\<rparr>)" for v using assms(1) by (simp add: xfer_ok_def tx_def)
    then show ?thesis
      using assms(1,4) loop [of x] loop [of "x\<lparr>xa_log_retired := v\<rparr>" for v]
      by (cases co) (auto simp: ULoop)
  qed (use assms(2-4) in \<open>auto simp: xfer_check_def Let_def split: if_splits prod.splits xfer_op.splits\<close>)
qed

lemma same_xfer_frame: "same_xfer x y \<Longrightarrow> xfer_frame fbyte flen rbyte y = xfer_frame fbyte flen rbyte x"
  by (intro ext) (simp add: xfer_frame_def same_xfer_def split: xfer_op.split)

lemma same_xfer_relayed: "same_xfer x y \<Longrightarrow> relayed fbyte rbyte y = relayed fbyte rbyte x"
  by (intro ext) (simp add: relayed_def same_xfer_def)

lemma same_xfer_owned: "same_xfer x y \<Longrightarrow> owned y u = owned x u"
  by (simp add: owned_def same_xfer_def cpos_def split: option.split)

lemma xfer_frame_trans:
  "xfer_frame fbyte flen rbyte x w w' \<Longrightarrow> xfer_frame fbyte flen rbyte x w' w'' \<Longrightarrow>
   xfer_frame fbyte flen rbyte x w w''"
  by (cases "xa_op_flag x") (auto simp: xfer_frame_def)

definition xfer_good ::
  "'w env \<Rightarrow> ('w \<Rightarrow> nat \<Rightarrow> byte) \<Rightarrow> ('w \<Rightarrow> nat) \<Rightarrow> ('w \<Rightarrow> nat \<Rightarrow> byte) \<Rightarrow> xfer_args \<Rightarrow> 'w \<Rightarrow> bool" where
  "xfer_good env fbyte flen rbyte x w \<longleftrightarrow>
     xfer_env_ok env fbyte flen rbyte x \<and> xfer_ok x \<and> xfer_dir_ok flen x w"

definition xfer_evolves ::
  "('w \<Rightarrow> nat \<Rightarrow> byte) \<Rightarrow> ('w \<Rightarrow> nat) \<Rightarrow> ('w \<Rightarrow> nat \<Rightarrow> byte) \<Rightarrow> xfer_args \<Rightarrow> 'w \<Rightarrow> xfer_args \<Rightarrow> 'w \<Rightarrow> bool" where
  "xfer_evolves fbyte flen rbyte x w x' w' \<longleftrightarrow> same_xfer x x' \<and> issued x \<le> issued x' \<and>
     (xa_ret x \<noteq> 0 \<longrightarrow> xa_ret x' \<noteq> 0) \<and> xfer_frame fbyte flen rbyte x w w'"

text \<open>A step of another thread does not disturb what a thread holds.\<close>

lemma ult_ok_other:
  assumes "xfer_evolves fbyte flen rbyte x w y w'" and "ult_ok fbyte rbyte x w u"
  shows "ult_ok fbyte rbyte y w' u"
proof -
  have e: "same_xfer x y" "issued x \<le> issued y" "xa_ret x \<noteq> 0 \<longrightarrow> xa_ret y \<noteq> 0"
    "xfer_frame fbyte flen rbyte x w w'" using assms(1) by (simp_all add: xfer_evolves_def)
  note mono = chunk_ok_mono(1) [OF _ e(1,2)]
  have op: "xa_op_flag y = xa_op_flag x" using e(1) by (simp add: same_xfer_def)
  show ?thesis
  proof (cases u)
    case (UData2 c h buf)
    show ?thesis
      using assms(2) e(3,4) mono by (cases "xa_op_flag x") (auto simp: UData2 op xfer_frame_def)
  qed (use assms(2) mono in auto)
qed

lemma xfer_good_step:
  assumes g: "xfer_good env fbyte flen rbyte x w" and u: "ult_ok fbyte rbyte x w u"
    and st: "xfer_ult env u x w = ((u', x'), w')"
  shows "step_ok fbyte flen rbyte u x w u' x' w'" and "xfer_good env fbyte flen rbyte x' w'"
    and "ult_ok fbyte rbyte x' w' u'" and "xfer_evolves fbyte flen rbyte x w x' w'"
proof -
  have g': "xfer_env_ok env fbyte flen rbyte x" "xfer_ok x" "xfer_dir_ok flen x w"
    using g by (simp_all add: xfer_good_def)
  show ok: "step_ok fbyte flen rbyte u x w u' x' w'" by (rule xfer_ult_step_ok [OF g' u st])
  then have s: "same_xfer x x'" "xfer_frame fbyte flen rbyte x w w'" "xfer_ok x'" by (simp_all add: step_ok_def)
  show "ult_ok fbyte rbyte x' w' u'" "xfer_evolves fbyte flen rbyte x w x' w'"
    using ok by (simp_all add: step_ok_def xfer_evolves_def)
  have "xfer_dir_ok flen x' w'"
    using g'(3) s(1,2) by (cases "xa_op_flag x") (auto simp: xfer_dir_ok_def same_xfer_def xfer_frame_def)
  then show "xfer_good env fbyte flen rbyte x' w'"
    using g'(1) s(1,3) by (simp add: xfer_good_def xfer_env_ok_def same_xfer_def)
qed

interpretation file_pool: relay_pool "xfer_ult env" ukind xa_ults_active xa_eventual rest_work weight xfer_ok
  "xfer_good env fbyte flen rbyte" "ult_ok fbyte rbyte" "xfer_evolves fbyte flen rbyte"
  owned "relayed fbyte rbyte" issued xlen "\<lambda>x. xa_ret x \<noteq> 0" left
  for env :: "'w env" and fbyte flen rbyte
proof
  fix u u' :: ult and x x' x'' and w w' w'' :: 'w and p
  show "(ukind u' = Working \<or> ukind u' = Counting \<or> ukind u' = Aborted) \<and>
      xa_ults_active x' = xa_ults_active x \<and> xa_eventual x' = xa_eventual x"
    if "ukind u = Working" "xfer_ult env u x w = ((u', x'), w')"
    using that by (cases "(env, u, x, w)" rule: xfer_ult.cases)
      (auto simp: xfer_loop_def xfer_claim_def xfer_check_def Let_def
        split: if_splits prod.splits xfer_op.splits)
  show "ukind u' = (if xa_ults_active x' = 0 then Signalling else Exited) \<and>
      xa_ults_active x' = xa_ults_active x - 1 \<and> xa_eventual x' = xa_eventual x"
    if "ukind u = Counting" "xfer_ult env u x w = ((u', x'), w')"
    using that by (cases u) (auto simp: Let_def)
  show "ukind u' = Exited \<and> xa_ults_active x' = xa_ults_active x \<and> xa_eventual x'"
    if "ukind u = Signalling" "xfer_ult env u x w = ((u', x'), w')"
    using that by (cases u) auto
  show "xfer_ult env u x w = ((u, x), w)" if "ukind u = Exited"
    using that by (cases u) auto
  show "rest_work x' + weight u' < rest_work x + weight u"
    if "xfer_ok x" "ukind u \<noteq> Exited" "ukind u \<noteq> Aborted" "xfer_ult env u x w = ((u', x'), w')"
    using that by (rule weight_decreases)
  show "xfer_ok x" "issued x \<le> xlen x" if "xfer_good env fbyte flen rbyte x w"
    using that by (simp_all add: xfer_good_def xfer_ok_def)
  show "xfer_evolves fbyte flen rbyte x w x'' w''"
    if "xfer_evolves fbyte flen rbyte x w x' w'" "xfer_evolves fbyte flen rbyte x' w' x'' w''"
    using that same_xfer_frame [of x x' fbyte flen rbyte]
    by (auto simp: xfer_evolves_def elim: same_xfer_trans xfer_frame_trans)
  show "issued x \<le> issued x' \<and> xlen x' = xlen x \<and> (xa_ret x \<noteq> 0 \<longrightarrow> xa_ret x' \<noteq> 0)"
    if "xfer_evolves fbyte flen rbyte x w x' w'"
    using that by (simp add: xfer_evolves_def same_xfer_def)
  show "ult_ok fbyte rbyte x' w' u" if "xfer_evolves fbyte flen rbyte x w x' w'" "ult_ok fbyte rbyte x w u"
    using that by (rule ult_ok_other)
  show "owned x' u = owned x u" if "xfer_evolves fbyte flen rbyte x w x' w'"
    using that by (intro same_xfer_owned) (simp add: xfer_evolves_def)
  show "left u \<and> owned x u = {}" if "ukind u = Exited"
    using that by (cases u) auto
  show "xfer_good env fbyte flen rbyte x' w' \<and> ult_ok fbyte rbyte x' w' u' \<and>
      xfer_evolves fbyte flen rbyte x w x' w'"
    if "xfer_good env fbyte flen rbyte x w" "ult_ok fbyte rbyte x w u" "xfer_ult env u x w = ((u', x'), w')"
    using xfer_good_step [OF that] by simp
  show "left u \<or> xa_ret x' \<noteq> 0 \<or> issued x' = xlen x'"
    if "xfer_good env fbyte flen rbyte x w" "ult_ok fbyte rbyte x w u" "xfer_ult env u x w = ((u', x'), w')"
      "left u'"
    using xfer_good_step(1) [OF that(1-3)] that(4) by (simp add: step_ok_def)
  show "p \<in> owned x' u' \<or> relayed fbyte rbyte x' w' p \<or>
      p < issued x \<and> p \<notin> owned x u \<and> (relayed fbyte rbyte x w p \<longrightarrow> relayed fbyte rbyte x' w' p)"
    if "xfer_good env fbyte flen rbyte x w" "ult_ok fbyte rbyte x w u" "xfer_ult env u x w = ((u', x'), w')"
      "\<not> xa_ret x' \<noteq> 0" "ukind u' \<noteq> Aborted" "p < issued x'"
    using xfer_good_step(1) [OF that(1-3)] that(4-6) same_xfer_relayed [of x x' fbyte rbyte]
    by (auto simp: step_ok_def)
qed

end
