(* ===== verification/File_Sched.thy ===== *)
theory File_Sched
  imports File_Transfer
begin

text \<open>
  The life of the threads of a file transfer: the last one out signals the caller exactly once,
  every schedule that lets each thread run long enough ends the transfer, and a transfer that
  returns 0 has moved the data. The theorems are about the whole of \<open>bake_file_write_bulk\<close> and
  \<open>bake_file_read_bulk\<close>.
\<close>

section \<open>Assertions\<close>

text \<open>Buffers of the pool never fail the assertions.\<close>

lemma xfer_ult_no_abort:
  assumes "pool_buffers_ok env" and "ukind u \<noteq> Aborted" and "xfer_ult env u x w = ((u', x'), w')"
  shows "ukind u' \<noteq> Aborted"
proof (cases u)
  case (UAccess c h)
  obtain r q buf where a: "bulk_access env h (this_log_size c) w = (r, q, buf)" by (metis prod.exhaust)
  then have "r = 0" "4096 dvd unat q"
    using assms(1) unfolding pool_buffers_ok_def by (metis fst_conv snd_conv)+
  then show ?thesis using assms(3) by (auto simp: UAccess a)
next
  case (ULoop co)
  then show ?thesis using assms(3) by (cases co) (auto simp: xfer_loop_def Let_def split: if_splits prod.splits)
qed (use assms in \<open>auto simp: xfer_check_def Let_def split: if_splits prod.splits xfer_op.splits\<close>)

section \<open>Without failing calls\<close>

lemma xfer_ult_reliable:
  assumes "bulk_reliable env" and "io_reliable env (xa_fd x) flen" and "xfer_ok x"
    and "ult_ok fbyte rbyte x w u" and "xfer_dir_ok flen x w" and "xa_ret x = 0"
    and st: "xfer_ult env u x w = ((u', x'), w')"
  shows "xa_ret x' = 0"
proof -
  have rel: "\<And>addr bulk off n w r bs w'. bulk_pull env addr bulk off n w = ((r, bs), w') \<Longrightarrow> r = 0"
    "\<And>addr bulk off d w r w'. bulk_push env addr bulk off d w = (r, w') \<Longrightarrow> r = 0"
    "\<And>n w r h w'. poolset_get env n w = ((r, h), w') \<Longrightarrow> r = 0"
    using assms(1) unfolding bulk_reliable_def by (metis fst_conv)+
  have loop: "xa_ret y = 0 \<Longrightarrow> xa_ret (snd (xfer_loop y)) = 0" for y
    by (simp add: xfer_loop_def xfer_claim_def Let_def case_prod_unfold)
  have full: "(of_int (to_c_int (int (unat (this_log_size c)))) :: u64) = this_log_size c"
    if "chunk_ok x c" for c
    unfolding to_c_int_nat [OF chunk_okD(3) [OF that assms(3)]] by simp
  show ?thesis
  proof (cases u)
    case (ULoop co)
    then obtain y where "xfer_loop y = (u', x')" "xa_ret y = 0"
      using st assms(6) by (cases co) auto
    then show ?thesis using loop [of y] by simp
  next
    case (UData1 c h buf)
    show ?thesis
    proof (cases "xa_op_flag x")
      case TRANSFER_DATA_READ
      obtain r bs w1 where pr: "abt_io_pread env (xa_fd x) (this_log_size c) (this_log_offset c) w = ((r, bs), w1)"
        by (metis prod.exhaust)
      have c: "chunk_ok x c" using assms(4) UData1 by simp
      have "unat (this_log_offset c) + unat (this_log_size c) \<le> flen w"
        using chunk_okD(1,4) [OF c assms(3)] assms(5) by (simp add: xfer_dir_ok_def TRANSFER_DATA_READ)
      then have "r = int (unat (this_log_size c))" by (rule io_reliableD(3) [OF assms(2) pr])
      then show ?thesis
        using st full [OF c] assms(6) by (simp add: UData1 TRANSFER_DATA_READ pr xfer_check_def Let_def)
    next
      case TRANSFER_DATA_WRITE
      then show ?thesis
        using st rel(1) assms(6) by (auto simp: UData1 xfer_check_def Let_def split: prod.splits if_splits)
    qed
  next
    case (UData2 c h buf)
    show ?thesis
    proof (cases "xa_op_flag x")
      case TRANSFER_DATA_READ
      then show ?thesis
        using st rel(2) assms(6) by (auto simp: UData2 xfer_check_def Let_def split: prod.splits if_splits)
    next
      case TRANSFER_DATA_WRITE
      let ?d = "take (unat (this_log_size c)) buf"
      obtain r w1 where pw: "abt_io_pwrite env (xa_fd x) ?d (this_log_offset c) w = (r, w1)" by fastforce
      have c: "chunk_ok x c" "length ?d = unat (this_log_size c)" using assms(4,6) UData2 by simp_all
      have "r = int (unat (this_log_size c))" using io_reliableD(2) [OF assms(2) pw] c(2) by simp
      then show ?thesis
        using st full [OF c(1)] assms(6) by (simp add: UData2 TRANSFER_DATA_WRITE pw xfer_check_def Let_def)
    qed
  qed (use st rel assms(6) in \<open>auto simp: xfer_check_def Let_def split: prod.splits if_splits\<close>)
qed

section \<open>The number of threads\<close>

lemma to_c_int_over:
  assumes "2 ^ 31 \<le> i" and "i < 2 ^ 32"
  shows "to_c_int i = i - 2 ^ 32"
proof -
  have "(i + 2 ^ 31) mod 2 ^ 32 = (i + 2 ^ 31 - 2 ^ 32) mod 2 ^ 32"
    by (rule minus_mod_self2 [symmetric])
  also have "\<dots> = i + 2 ^ 31 - 2 ^ 32" using assms by (intro mod_pos_pos_trivial) simp_all
  finally show ?thesis
    by (simp add: to_c_int_def signed_take_bit_eq_take_bit_shift take_bit_eq_mod)
qed

lemma count_ults_ends:
  assumes "0 < unat ps" and "unat ps < 2 ^ 31" and "unat sz < 2 ^ 63" and "0 \<le> i" and "i < 2 ^ 31"
  shows "\<exists>m. count_ults sz ps i n = Some m \<and> n \<le> m \<and> ((of_int i :: u64) < sz \<longrightarrow> n < m)"
  using assms(4,5)
proof (induction "nat (2 ^ 31 - i)" arbitrary: i n rule: less_induct)
  case less
  let ?j = "to_c_int (uint (of_int i + ps))"
  have ui: "uint (of_int i :: u64) = i" using less.prems by (simp add: uint_word_of_int)
  have "int (unat ps) < int (2 ^ 31)" "0 < int (unat ps)"
    using assms(1,2) by (simp_all only: of_nat_less_iff of_nat_0_less_iff)
  then have ps: "0 < uint ps" "uint ps < 2 ^ 31" by simp_all
  have sum: "uint (of_int i + ps) = i + uint ps"
    using less.prems ps by (simp add: uint_word_ariths(1) ui)
  show ?case
  proof (cases "(of_int i :: u64) < sz")
    case False
    then show ?thesis by (subst count_ults.simps) simp
  next
    case True
    have "\<exists>m. count_ults sz ps ?j (Suc n) = Some m \<and> Suc n \<le> m"
    proof (cases "i + uint ps < 2 ^ 31")
      case True
      then have "?j = i + uint ps" unfolding sum using less.prems ps by (intro to_c_int_id) linarith+
      then show ?thesis using less.hyps [of ?j "Suc n"] less.prems ps True by auto
    next
      case False
      then have j: "?j = i + uint ps - 2 ^ 32"
        unfolding sum using less.prems ps by (intro to_c_int_over) simp_all
      have "int (unat sz) < int (2 ^ 63)" using assms(3) by (simp only: of_nat_less_iff)
      moreover have "uint (of_int ?j :: u64) = ?j + 2 ^ 64"
      proof -
        have "?j mod 2 ^ 64 = (?j + 2 ^ 64) mod 2 ^ 64" by simp
        also have "\<dots> = ?j + 2 ^ 64"
          unfolding j using less.prems ps False by (intro mod_pos_pos_trivial) simp_all
        finally show ?thesis by (simp add: uint_word_of_int)
      qed
      ultimately have "sz < of_int ?j"
        unfolding word_less_def using j False by simp
      then show ?thesis by (subst count_ults.simps) auto
    qed
    then show ?thesis using True by (subst count_ults.simps) auto
  qed
qed


section \<open>Starting the transfer\<close>

text \<open>
  A request that transmits at least one byte: offset and size in the region are inside its
  extent as natural numbers, and the offset in the client's memory is smaller than the size. The
  check of the code, \<open>bulk_size + region_offset > log_entry_size\<close>, is done in 64 bits and also lets
  requests pass whose sum wraps; they are not covered by the properties below. The buffers of the
  pool hold at least one block and less than 2 GiB.
\<close>

definition bulk_req ::
  "nat \<Rightarrow> 'w env \<Rightarrow> bake_file_entry \<Rightarrow> file_region_id \<Rightarrow> u64 \<Rightarrow> u64 \<Rightarrow> u64 \<Rightarrow> 'w \<Rightarrow> bool" where
  "bulk_req k env e f roff sz boff w \<longleftrightarrow> entry_ok k e \<and> region_ok k e f \<and>
     unat roff + unat sz \<le> unat (log_entry_size f) \<and> unat boff < unat sz \<and>
     2 ^ k \<le> unat (poolset_get_max env w) \<and> unat (poolset_get_max env w) < 2 ^ 31"

lemma xfer_setup_ok:
  assumes req: "bulk_req k env e f roff sz boff w"
    and x: "x = xfer_setup env e (log_entry_offset f) roff bulk boff sz addr op w"
  shows "lo x = unat (log_entry_offset f) + unat roff - unat roff mod 2 ^ k"
    and "skip x = unat roff mod 2 ^ k" and "sent x = unat sz - unat boff" and "ro x = unat boff"
    and "unat (log_entry_offset f) \<le> lo x"
    and "lo x + xlen x \<le> unat (log_entry_offset f) + unat (log_entry_size f)"
    and "0 < xlen x" and "xfer_ok (x\<lparr>xa_ults_active := n\<rparr>)"
proof -
  have q: "entry_ok k e" "region_ok k e f" "unat roff + unat sz \<le> unat (log_entry_size f)"
    "unat boff < unat sz" "2 ^ k \<le> unat (poolset_get_max env w)" "unat (poolset_get_max env w) < 2 ^ 31"
    using req by (simp_all add: bulk_req_def)
  note ek = entry_okD [OF q(1)]
  let ?eo = "log_entry_offset f" let ?s = "?eo + roff" and ?T = "unat sz - unat boff"
  have rk: "2 ^ k dvd unat ?eo" "2 ^ k dvd unat (log_entry_size f)"
    "unat ?eo + unat (log_entry_size f) < 2 ^ 63"
    using q(2) ek(6) by (auto simp: region_ok_def)
  have u: "unat ?s = unat ?eo + unat roff"
    using rk(3) q(3) by (subst unat_add_lem [THEN iffD1]) simp_all
  have u2: "unat (?s + sz) = unat ?eo + unat roff + unat sz"
    using rk(3) q(3) u by (subst unat_add_lem [THEN iffD1]) simp_all
  have u3: "unat (?s + sz - boff) = unat ?eo + unat roff + ?T"
    using u2 q(4) by (subst unat_sub) (simp_all add: word_le_nat_alt)
  let ?a = "BAKE_ALIGN_DOWN ?s (2 ^ k)" and ?b = "BAKE_ALIGN_UP (?s + sz - boff) (2 ^ k)"
  have md: "unat ?s mod 2 ^ k = unat roff mod 2 ^ k"
    using rk(1) by (simp add: u mod_add_eq dvd_imp_mod_0 flip: mod_add_left_eq)
  have a: "unat ?a = unat ?eo + unat roff - unat roff mod 2 ^ k"
    using unat_ALIGN_DOWN [of ?s k] by (simp only: minus_mod_eq_div_mult [symmetric] md) (simp only: u)
  have bl: "2 ^ k \<le> (4096::nat)" using ek(2) by (rule block_le_4096)
  have b: "unat ?b = (unat ?eo + unat roff + ?T + (2 ^ k - 1)) div 2 ^ k * 2 ^ k"
    using rk(3) q(3) bl ek(2) by (subst unat_ALIGN_UP) (simp_all add: u3)
  have bhi: "unat ?b \<le> unat ?eo + unat (log_entry_size f)"
  proof -
    have "unat ?b \<le> (unat ?eo + unat (log_entry_size f) + (2 ^ k - 1)) div 2 ^ k * 2 ^ k"
      unfolding b using q(3) by (intro mult_le_mono1 div_le_mono) simp
    also have "\<dots> = unat ?eo + unat (log_entry_size f)" using rk by (intro round_up_dvd) simp
    finally show ?thesis .
  qed
  have blo: "unat ?eo + unat roff + ?T \<le> unat ?b" unfolding b by (rule round_up_bounds)
  have rm: "unat roff mod 2 ^ k \<le> unat roff" "unat roff mod 2 ^ k < 2 ^ k" by simp_all
  have ab: "?a \<le> ?b" using a blo by (simp add: word_le_nat_alt)
  have ba: "unat (?b - ?a) = unat ?b - unat ?a" using ab by (rule unat_sub)
  have "?a \<le> ?s" by (simp add: word_le_nat_alt a u)
  then have "unat (?s - ?a) = unat ?s - unat ?a" by (rule unat_sub)
  then have sa: "unat (?s - ?a) = unat roff mod 2 ^ k" using a u rm(1) by linarith
  have tb: "unat (sz - boff) = ?T" using q(4) by (subst unat_sub) (simp_all add: word_le_nat_alt)
  have f: "xa_log_entry_offset x = ?a" "xa_log_entry_size x = ?b - ?a" "xa_log_issued x = 0"
    "xa_transmit_size x = sz - boff" "xa_transmit_offset_in_log x = ?s - ?a" "xa_transmit_issued x = 0"
    "xa_poolset_max_size x = poolset_get_max env w" "xa_remote_offset x = boff"
    by (simp_all add: x xfer_setup_def Let_def ek(3))
  show lo: "lo x = unat ?eo + unat roff - unat roff mod 2 ^ k" by (simp add: f a)
  show sk: "skip x = unat roff mod 2 ^ k" "sent x = ?T" "ro x = unat boff" by (simp_all add: f sa tb)
  show "unat ?eo \<le> lo x" using lo rm(1) by linarith
  have len: "xlen x = unat ?b - unat ?a" by (simp add: f ba)
  show hi: "lo x + xlen x \<le> unat ?eo + unat (log_entry_size f)"
    using bhi ab unfolding len f(1) word_le_nat_alt by linarith
  have sl: "skip x + sent x \<le> xlen x" using blo a rm(1) unfolding sk len by linarith
  then show "0 < xlen x" using q(4) by (simp add: sk)
  have "ro x + sent x < 2 ^ 64" using q(4) unsigned_less [of sz, where 'a = nat] by (simp add: sk)
  moreover have "unat roff mod 2 ^ k < unat (poolset_get_max env w)" using q(5) rm(2) by linarith
  moreover have "0 < unat (poolset_get_max env w)" using q(5) two_power_pos [of k] by linarith
  ultimately show "xfer_ok (x\<lparr>xa_ults_active := n\<rparr>)"
    using q(4-6) sl hi rk(3) sk(1,2) by (simp add: xfer_ok_def tx_def f(3,6,7))
qed


text \<open>The system right after the threads were created satisfies the invariants.\<close>

definition sys_start :: "xfer_args \<Rightarrow> nat \<Rightarrow> 'w \<Rightarrow> (xfer_args, ult, 'w) pool_sys" where
  "sys_start x n w = \<lparr>sys_args = x\<lparr>xa_ults_active := int n\<rparr>,
     sys_ults = replicate n (ULoop None), sys_world = w\<rparr>"

lemma sys_start_inv:
  assumes "xfer_good env fbyte flen rbyte (x\<lparr>xa_ults_active := int n\<rparr>) w" and "xa_log_issued x = 0"
    and "xa_eventual x = False" and "0 < n"
  shows "file_pool.relay_inv env fbyte flen rbyte x w (sys_start x n w)"
    and "file_pool.active_inv (sys_start x n w)" and "\<not> pool_aborted ukind (sys_start x n w)"
    and "sys_ults (sys_start x n w) \<noteq> []" and "length (sys_ults (sys_start x n w)) = n"
  using assms
  by (auto simp: sys_start_def file_pool.relay_inv_def file_pool.covered_def file_pool.active_inv_def
      file_pool.n_alive_def file_pool.n_signal_def not_pool_aborted xfer_evolves_def xfer_frame_quiet)

text \<open>What the transfer functions compute for an admissible request.\<close>

lemma transfer_data_start:
  assumes req: "bulk_req k env e f roff sz boff w"
  obtains n where "0 < n"
    "\<And>sched. transfer_data env e (log_entry_offset f) (log_entry_size f) roff bulk boff sz addr op sched w =
      (let s = pool_run (xfer_ult env) ukind sched (sys_start (xfer_setup env e (log_entry_offset f) roff bulk boff sz addr op w) n w)
       in (if xa_eventual (sys_args s) \<and> \<not> pool_aborted ukind s then Some (xa_ret (sys_args s)) else None, sys_world s))"
proof -
  let ?x = "xfer_setup env e (log_entry_offset f) roff bulk boff sz addr op w"
  note so = xfer_setup_ok [OF req, of ?x bulk addr op, OF refl]
  have ok: "xfer_ok (?x\<lparr>xa_ults_active := 0\<rparr>)" by (rule so(8))
  have mx: "0 < mx ?x" "mx ?x < 2 ^ 31" "xlen ?x < 2 ^ 63" using ok by (simp_all add: xfer_ok_def)
  obtain n where n: "count_ults (xa_log_entry_size ?x) (xa_poolset_max_size ?x) 0 0 = Some n"
    "0 < xa_log_entry_size ?x \<longrightarrow> 0 < n"
    using count_ults_ends [OF mx, of 0 0] by auto
  have "0 < n" using n(2) so(7) by (simp add: word_less_nat_alt)
  moreover have "unat (sz + roff) = unat sz + unat roff"
    using req entry_okD(6) [of k e] by (subst unat_add_lem [THEN iffD1]) (auto simp: bulk_req_def region_ok_def)
  then have "\<not> log_entry_size f < sz + roff"
    using req by (simp add: bulk_req_def word_less_nat_alt)
  ultimately show ?thesis
    using that [of n] n(1) by (simp add: transfer_data_def Let_def sys_start_def)
qed

lemma xfer_setup_good:
  assumes "log_file_ok env (log_fd e) fbyte flen" "file_remote_ok env (log_fd e) flen rbyte"
      "bulk_ok env addr bulk fbyte flen rbyte"
    and "bulk_req k env e f roff sz boff w"
    and x: "x = xfer_setup env e (log_entry_offset f) roff bulk boff sz addr op w"
    and "xfer_dir_ok flen x w"
  shows "xfer_good env fbyte flen rbyte (x\<lparr>xa_ults_active := n\<rparr>) w" and "xa_log_issued x = 0"
    and "xa_eventual x = False" and "xa_ret x = 0" and "xa_fd x = log_fd e"
proof -
  show "xa_log_issued x = 0" "xa_eventual x = False" "xa_ret x = 0" and fd: "xa_fd x = log_fd e"
    by (simp_all add: x xfer_setup_def Let_def)
  have "xa_remote_addr x = addr" "xa_remote_bulk x = bulk" by (simp_all add: x xfer_setup_def Let_def)
  then have "xfer_env_ok env fbyte flen rbyte (x\<lparr>xa_ults_active := n\<rparr>)"
    using assms(1-3) fd by (simp add: xfer_env_ok_def)
  moreover have "xfer_dir_ok flen (x\<lparr>xa_ults_active := n\<rparr>) w"
    using assms(6) by (cases "xa_op_flag x") (simp_all add: xfer_dir_ok_def)
  ultimately show "xfer_good env fbyte flen rbyte (x\<lparr>xa_ults_active := n\<rparr>) w"
    using xfer_setup_ok(8) [OF assms(4) x] by (simp add: xfer_good_def)
qed

lemma transfer_data_result:
  assumes env: "log_file_ok env (log_fd e) fbyte flen" "file_remote_ok env (log_fd e) flen rbyte"
      "bulk_ok env addr bulk fbyte flen rbyte"
    and req: "bulk_req k env e f roff sz boff w"
    and x: "x = xfer_setup env e (log_entry_offset f) roff bulk boff sz addr op w"
    and dir: "xfer_dir_ok flen x w"
    and run: "transfer_data env e (log_entry_offset f) (log_entry_size f) roff bulk boff sz addr op sched w = (res, w')"
  shows "xfer_frame fbyte flen rbyte x w w'"
    and "res = Some 0 \<Longrightarrow> p < sent x \<Longrightarrow> fbyte w' (lo x + (skip x + p)) = rbyte w' (ro x + p)"
proof -
  obtain n where n: "0 < n" "\<And>sched. transfer_data env e (log_entry_offset f) (log_entry_size f) roff
      bulk boff sz addr op sched w =
      (let s = pool_run (xfer_ult env) ukind sched (sys_start x n w)
       in (if xa_eventual (sys_args s) \<and> \<not> pool_aborted ukind s then Some (xa_ret (sys_args s)) else None, sys_world s))"
    using transfer_data_start [OF req, of bulk addr op] unfolding x by metis
  define s where "s = pool_run (xfer_ult env) ukind sched (sys_start x n w)"
  have res: "res = (if xa_eventual (sys_args s) \<and> \<not> pool_aborted ukind s then Some (xa_ret (sys_args s)) else None)"
    "w' = sys_world s"
    using n(2) [of sched, folded s_def] unfolding Let_def run prod.inject by blast+
  have g: "xfer_good env fbyte flen rbyte (x\<lparr>xa_ults_active := int n\<rparr>) w" and i: "xa_log_issued x = 0" "xa_eventual x = False"
    using xfer_setup_good [OF env req x dir] by simp_all
  note st = sys_start_inv [OF g i n(1)]
  have inv: "file_pool.relay_inv env fbyte flen rbyte x w s"
    unfolding s_def by (rule file_pool.run_relay [OF st(1)])
  have act: "file_pool.active_inv s" unfolding s_def by (rule file_pool.run_active [OF st(2)])
  have ev: "xfer_evolves fbyte flen rbyte x w (sys_args s) w'" using inv by (simp add: file_pool.relay_inv_def res)
  then show "xfer_frame fbyte flen rbyte x w w'" by (simp add: xfer_evolves_def)
  show "fbyte w' (lo x + (skip x + p)) = rbyte w' (ro x + p)" if r: "res = Some 0" and p: "p < sent x"
  proof -
    have e: "xa_eventual (sys_args s)" "\<not> pool_aborted ukind s" "xa_ret (sys_args s) = 0"
      using r res(1) by (auto split: if_splits)
    have "length (sys_ults s) = n" using st(5) by (simp add: s_def)
    then have "sys_ults s \<noteq> []" using n(1) by auto
    moreover have "skip x + p < xlen x" using p g by (simp add: xfer_good_def xfer_ok_def)
    ultimately have "relayed fbyte rbyte (sys_args s) w' (skip x + p)"
      using file_pool.signalled_all_relayed [OF inv act e(1,2)] e(3) res(2) by simp
    then show ?thesis
      using p ev by (auto simp: relayed_def xfer_evolves_def same_xfer_def)
  qed
qed

lemma transfer_data_completes:
  assumes env: "log_file_ok env (log_fd e) fbyte flen" "file_remote_ok env (log_fd e) flen rbyte"
      "bulk_ok env addr bulk fbyte flen rbyte" "pool_buffers_ok env"
    and req: "bulk_req k env e f roff sz boff w"
    and x: "x = xfer_setup env e (log_entry_offset f) roff bulk boff sz addr op w"
    and dir: "xfer_dir_ok flen x w"
  shows "\<exists>n turns. \<forall>sched. (\<forall>i < n. turns \<le> count_list sched i) \<longrightarrow>
    (\<exists>ret w'. transfer_data env e (log_entry_offset f) (log_entry_size f) roff bulk boff sz addr op sched w
        = (Some ret, w') \<and> (bulk_reliable env \<and> io_reliable env (log_fd e) flen \<longrightarrow> ret = 0))"
proof -
  obtain n where n: "0 < n" "\<And>sched. transfer_data env e (log_entry_offset f) (log_entry_size f) roff
      bulk boff sz addr op sched w =
      (let s = pool_run (xfer_ult env) ukind sched (sys_start x n w)
       in (if xa_eventual (sys_args s) \<and> \<not> pool_aborted ukind s then Some (xa_ret (sys_args s)) else None, sys_world s))"
    using transfer_data_start [OF req, of bulk addr op] unfolding x by metis
  let ?s = "sys_start x n w"
  note sg = xfer_setup_good [OF env(1-3) req x dir]
  note st = sys_start_inv [OF sg(1,2,3) n(1)]
  have "\<exists>ret w'. transfer_data env e (log_entry_offset f) (log_entry_size f) roff bulk boff sz addr op sched w
        = (Some ret, w') \<and> (bulk_reliable env \<and> io_reliable env (log_fd e) flen \<longrightarrow> ret = 0)"
    if turns: "\<forall>i < n. Suc (file_pool.pool_measure ?s) \<le> count_list sched i" for sched
  proof -
    let ?r = "pool_run (xfer_ult env) ukind sched ?s"
    have na: "ukind u' \<noteq> Aborted" if "ukind u \<noteq> Aborted" "xfer_ult env u y v = ((u', y'), v')" for u y v u' y' v'
      using xfer_ult_no_abort [OF env(4) that] .
    have t: "file_pool.pool_measure ?s < count_list sched i" if "i < length (sys_ults ?s)" for i
      using turns that st(5) by auto
    have "xa_eventual (sys_args ?r)" "\<not> pool_aborted ukind ?r"
      by (rule file_pool.fair_relay_signals [OF na st(1,3,2,4) t], assumption+)+
    moreover have "xa_ret (sys_args ?r) = 0" if rel: "bulk_reliable env" "io_reliable env (log_fd e) flen"
    proof -
      have "\<not> xa_ret y' \<noteq> 0" if "xfer_good env fbyte flen rbyte y v" "ult_ok fbyte rbyte y v u"
        "xfer_evolves fbyte flen rbyte x w y v" "\<not> xa_ret y \<noteq> 0" "xfer_ult env u y v = ((u', y'), v')"
        for y v u u' y' v'
      proof -
        have "xa_fd y = log_fd e" using that(3) sg(5) by (simp add: xfer_evolves_def same_xfer_def)
        then show ?thesis
          using xfer_ult_reliable [OF rel(1) _ _ that(2) _ _ that(5)] rel(2) that(1,4)
          by (simp add: xfer_good_def)
      qed
      from file_pool.run_not_failed [OF this st(1)] sg(4) show ?thesis by (simp add: sys_start_def)
    qed
    ultimately show ?thesis by (simp add: n(2) Let_def)
  qed
  then show ?thesis by blast
qed

section \<open>Properties\<close>

text \<open>C1: a bulk write of \<open>sz\<close> bytes from offset \<open>boff\<close> of the client's memory to a region of a file
  target, where the region has room for \<open>sz\<close> bytes and \<open>boff < sz\<close>. Under every interleaving of the
  transfer threads, if the call returns 0 then the start of the region holds \<open>sz - boff\<close> bytes of the
  client's memory from \<open>boff\<close> on: all of the request when the offset is 0, and not its last \<open>boff\<close>
  bytes otherwise, because \<open>transfer_data\<close> subtracts the offset from the size. Whatever the call
  returns, nothing outside the region's extent changes and the client's memory is only read.\<close>

theorem file_write_bulk_correct:
  assumes "log_file_ok env (log_fd e) fbyte flen" and "file_remote_ok env (log_fd e) flen rbyte"
    and "bulk_ok env addr bulk fbyte flen rbyte"
    and "bulk_req k env e (frid_of rid) 0 sz boff w"
    and "bake_file_write_bulk env e rid 0 sz bulk addr boff sched w = (res, w')"
  shows "(res = Some BAKE_SUCCESS \<longrightarrow>
      extent (unat (log_entry_offset (frid_of rid))) (unat sz - unat boff) (fbyte w')
        = extent (unat boff) (unat sz - unat boff) (rbyte w)) \<and>
    (\<forall>p. p < unat (log_entry_offset (frid_of rid)) \<or>
         unat (log_entry_offset (frid_of rid)) + unat (log_entry_size (frid_of rid)) \<le> p \<longrightarrow>
         fbyte w' p = fbyte w p) \<and>
    rbyte w' = rbyte w"
proof -
  let ?f = "frid_of rid"
  let ?x = "xfer_setup env e (log_entry_offset ?f) 0 bulk boff sz addr TRANSFER_DATA_WRITE w"
  note so = xfer_setup_ok [OF assms(4), of ?x bulk addr TRANSFER_DATA_WRITE, OF refl]
  have op: "xa_op_flag ?x = TRANSFER_DATA_WRITE" by (simp add: xfer_setup_def Let_def)
  have dir: "xfer_dir_ok flen ?x w" using so(2) by (simp add: xfer_dir_ok_def op)
  have run: "transfer_data env e (log_entry_offset ?f) (log_entry_size ?f) 0 bulk boff sz addr
      TRANSFER_DATA_WRITE sched w = (res, w')" using assms(5) by (simp add: bake_file_write_bulk_def)
  note tr = transfer_data_result [OF assms(1-4) refl dir run]
  have rb: "rbyte w' = rbyte w" using tr(1) by (simp add: xfer_frame_def op)
  have "fbyte w' p = fbyte w p"
    if "p < unat (log_entry_offset ?f) \<or> unat (log_entry_offset ?f) + unat (log_entry_size ?f) \<le> p" for p
    using tr(1) that so(5,6) unfolding xfer_frame_def op by auto
  moreover have "extent (unat (log_entry_offset ?f)) (unat sz - unat boff) (fbyte w')
        = extent (unat boff) (unat sz - unat boff) (rbyte w)" if "res = Some BAKE_SUCCESS"
    using tr(2) that so(1-4) rb by (intro extent_cong) (simp add: bake_err_defs)
  ultimately show ?thesis using rb by simp
qed

text \<open>C2: a bulk read of \<open>sz\<close> bytes at offset \<open>roff\<close> of a region into the client's memory at offset
  \<open>boff\<close>, for a request inside the region with \<open>boff < sz\<close> on a target whose file reaches to the end
  of its log. Under every interleaving of the transfer threads, if the call returns 0 then it
  reports \<open>sz\<close> bytes, and \<open>sz - boff\<close> bytes of the region from \<open>roff\<close> on are in the client's memory:
  all of the request when \<open>boff\<close> is 0, and a short read that is not reported otherwise. The file is
  only read and nothing outside positions \<open>boff\<close> to \<open>sz\<close> of the client's memory changes.\<close>

theorem file_read_bulk_correct:
  assumes "log_file_ok env (log_fd e) fbyte flen" and "file_remote_ok env (log_fd e) flen rbyte"
    and "bulk_ok env addr bulk fbyte flen rbyte"
    and "bulk_req k env e (frid_of rid) roff sz boff w" and "unat (log_offset e) \<le> flen w"
    and "bake_file_read_bulk env e rid roff sz bulk addr boff sched w = (res, w')"
  shows "(\<forall>bytes_read. res = Some (BAKE_SUCCESS, bytes_read) \<longrightarrow> bytes_read = sz \<and>
      extent (unat boff) (unat sz - unat boff) (rbyte w')
        = extent (unat (log_entry_offset (frid_of rid)) + unat roff) (unat sz - unat boff) (fbyte w)) \<and>
    fbyte w' = fbyte w \<and>
    (\<forall>p. p < unat boff \<or> unat sz \<le> p \<longrightarrow> rbyte w' p = rbyte w p)"
proof -
  let ?f = "frid_of rid"
  let ?x = "xfer_setup env e (log_entry_offset ?f) roff bulk boff sz addr TRANSFER_DATA_READ w"
  note so = xfer_setup_ok [OF assms(4), of ?x bulk addr TRANSFER_DATA_READ, OF refl]
  have op: "xa_op_flag ?x = TRANSFER_DATA_READ" by (simp add: xfer_setup_def Let_def)
  have "unat (log_entry_offset ?f) + unat (log_entry_size ?f) \<le> unat (log_offset e)"
    using assms(4) by (simp add: bulk_req_def region_ok_def)
  then have dir: "xfer_dir_ok flen ?x w" using so(6) assms(5) by (simp add: xfer_dir_ok_def op)
  obtain r where run: "transfer_data env e (log_entry_offset ?f) (log_entry_size ?f) roff bulk boff sz
      addr TRANSFER_DATA_READ sched w = (r, w')"
    and res: "res = map_option (\<lambda>ret. (ret, if ret = BAKE_SUCCESS then sz else 0)) r"
    using assms(6) by (auto simp: bake_file_read_bulk_def split: prod.splits option.splits)
  note tr = transfer_data_result [OF assms(1-4) refl dir run]
  have fb: "fbyte w' = fbyte w" using tr(1) by (simp add: xfer_frame_def op)
  have sz: "unat boff < unat sz" using assms(4) by (simp add: bulk_req_def)
  have "rbyte w' p = rbyte w p" if "p < unat boff \<or> unat sz \<le> p" for p
    using tr(1) that sz unfolding xfer_frame_def op by (auto simp: so(3,4))
  moreover have "extent (unat boff) (unat sz - unat boff) (rbyte w')
        = extent (unat (log_entry_offset ?f) + unat roff) (unat sz - unat boff) (fbyte w)"
    if "r = Some BAKE_SUCCESS"
  proof (rule extent_cong)
    fix i assume i: "i < unat sz - unat boff"
    have "unat roff mod 2 ^ k \<le> unat roff" by simp
    then have pos: "lo ?x + (skip ?x + i) = unat (log_entry_offset ?f) + unat roff + i"
      using so(1,2) by linarith
    show "rbyte w' (unat boff + i) = fbyte w (unat (log_entry_offset ?f) + unat roff + i)"
      using tr(2) [of i] that i unfolding pos so(3,4) fb BAKE_SUCCESS_def by simp
  qed
  ultimately show ?thesis using fb res by (auto simp: bake_err_defs)
qed


text \<open>C3: bulk writes that transmit at least one byte end. For every request inside its region
  with \<open>boff < sz\<close> there are a number of threads and a number of turns such that the call returns
  under every schedule that gives each thread that many turns, in whatever order; and it returns
  0 when no library call fails. For requests of zero bytes see \<open>file_bulk_zero_never_returns\<close>.\<close>

theorem file_write_bulk_completes:
  assumes "log_file_ok env (log_fd e) fbyte flen" and "file_remote_ok env (log_fd e) flen rbyte"
    and "bulk_ok env addr bulk fbyte flen rbyte" and "pool_buffers_ok env"
    and "bulk_req k env e (frid_of rid) 0 sz boff w"
  shows "\<exists>n turns. \<forall>sched. (\<forall>i < n. turns \<le> count_list sched i) \<longrightarrow>
    (\<exists>ret w'. bake_file_write_bulk env e rid 0 sz bulk addr boff sched w = (Some ret, w') \<and>
      (bulk_reliable env \<and> io_reliable env (log_fd e) flen \<longrightarrow> ret = BAKE_SUCCESS))"
proof -
  let ?x = "xfer_setup env e (log_entry_offset (frid_of rid)) 0 bulk boff sz addr TRANSFER_DATA_WRITE w"
  have "skip ?x = 0" using xfer_setup_ok(2) [OF assms(5), of ?x bulk addr TRANSFER_DATA_WRITE, OF refl] by simp
  then have "xfer_dir_ok flen ?x w" by (simp add: xfer_dir_ok_def xfer_setup_def Let_def)
  from transfer_data_completes [OF assms refl this] show ?thesis
    by (simp add: bake_file_write_bulk_def BAKE_SUCCESS_def)
qed

text \<open>C4: bulk reads that transmit at least one byte end, in the same sense, for requests inside
  their region with \<open>boff < sz\<close> on a target whose file reaches to the end of its log.\<close>

theorem file_read_bulk_completes:
  assumes "log_file_ok env (log_fd e) fbyte flen" and "file_remote_ok env (log_fd e) flen rbyte"
    and "bulk_ok env addr bulk fbyte flen rbyte" and "pool_buffers_ok env"
    and "bulk_req k env e (frid_of rid) roff sz boff w" and "unat (log_offset e) \<le> flen w"
  shows "\<exists>n turns. \<forall>sched. (\<forall>i < n. turns \<le> count_list sched i) \<longrightarrow>
    (\<exists>ret m w'. bake_file_read_bulk env e rid roff sz bulk addr boff sched w = (Some (ret, m), w') \<and>
      (bulk_reliable env \<and> io_reliable env (log_fd e) flen \<longrightarrow> ret = BAKE_SUCCESS \<and> m = sz))"
proof -
  let ?x = "xfer_setup env e (log_entry_offset (frid_of rid)) roff bulk boff sz addr TRANSFER_DATA_READ w"
  note so = xfer_setup_ok [OF assms(5), of ?x bulk addr TRANSFER_DATA_READ, OF refl]
  have "unat (log_entry_offset (frid_of rid)) + unat (log_entry_size (frid_of rid)) \<le> unat (log_offset e)"
    using assms(5) by (simp add: bulk_req_def region_ok_def)
  moreover have "xa_op_flag ?x = TRANSFER_DATA_READ" by (simp add: xfer_setup_def Let_def)
  ultimately have dir: "xfer_dir_ok flen ?x w" using so(6) assms(6) by (simp add: xfer_dir_ok_def)
  obtain n turns where *: "\<And>sched. (\<forall>i < n. turns \<le> count_list sched i) \<Longrightarrow>
      \<exists>ret w'. transfer_data env e (log_entry_offset (frid_of rid)) (log_entry_size (frid_of rid)) roff
        bulk boff sz addr TRANSFER_DATA_READ sched w = (Some ret, w') \<and>
        (bulk_reliable env \<and> io_reliable env (log_fd e) flen \<longrightarrow> ret = 0)"
    using transfer_data_completes [OF assms(1-5) refl dir] by blast
  have "\<exists>ret m w'. bake_file_read_bulk env e rid roff sz bulk addr boff sched w = (Some (ret, m), w') \<and>
      (bulk_reliable env \<and> io_reliable env (log_fd e) flen \<longrightarrow> ret = BAKE_SUCCESS \<and> m = sz)"
    if "\<forall>i < n. turns \<le> count_list sched i" for sched
    using * [OF that] by (auto simp: bake_file_read_bulk_def BAKE_SUCCESS_def)
  then show ?thesis by blast
qed

text \<open>C32: a bulk access of zero bytes at a block boundary starts no thread, so nobody signals
  the caller: the call does not return under any schedule.\<close>

theorem file_bulk_zero_never_returns:
  assumes "entry_ok k e" and "region_ok k e (frid_of rid)"
  shows "fst (bake_file_write_bulk env e rid 0 0 bulk addr 0 sched w) = None \<and>
    fst (bake_file_read_bulk env e rid 0 0 bulk addr 0 sched w) = None"
proof -
  let ?o = "log_entry_offset (frid_of rid)"
  note ek = entry_okD [OF assms(1)]
  have o: "2 ^ k dvd unat ?o" "unat ?o < 2 ^ 63" using assms(2) ek(6) by (auto simp: region_ok_def)
  have "unat ?o + (2 ^ k - 1) < 2 ^ 64" using o(2) block_le_4096 [OF ek(2)] by simp
  then have "unat (BAKE_ALIGN_UP ?o (2 ^ k)) = unat ?o"
    using ek(2) round_up_dvd [OF o(1)] by (subst unat_ALIGN_UP) simp_all
  moreover have "unat (BAKE_ALIGN_DOWN ?o (2 ^ k)) = unat ?o"
    using round_down_dvd [OF o(1)] by (subst unat_ALIGN_DOWN) simp
  ultimately have "BAKE_ALIGN_UP ?o (2 ^ k) = BAKE_ALIGN_DOWN ?o (2 ^ k)" by (simp add: word_unat_eq_iff)
  then have len: "xa_log_entry_size (xfer_setup env e ?o 0 bulk 0 0 addr op w) = 0" for op
    by (simp add: xfer_setup_def Let_def ek(3))
  have cnt: "count_ults 0 m 0 0 = Some 0" for m by (subst count_ults.simps) simp
  have "pool_run (xfer_ult env) ukind sched (sys_start x 0 w) = sys_start x 0 w" for x
    by (induction sched) (simp_all add: pool_step_def sys_start_def)
  then have "fst (transfer_data env e ?o (log_entry_size (frid_of rid)) 0 bulk 0 0 addr op sched w) = None" for op
    by (simp add: transfer_data_def Let_def len cnt sys_start_def) (simp add: xfer_setup_def Let_def)
  then show ?thesis
    by (simp add: bake_file_write_bulk_def bake_file_read_bulk_def split: prod.split option.split) (metis fst_conv option.distinct(1))
qed


section \<open>Instances\<close>

text \<open>One region of 8192 bytes at the start of the log of the simulated target.\<close>

definition demo_bulk_entry :: bake_file_entry where
  "demo_bulk_entry = demo_entry\<lparr>log_offset := 12288\<rparr>"

definition demo_world :: sim where
  "demo_world = sim0\<lparr>sim_len := 12288\<rparr>"

lemma demo_bulk_req:
  "bulk_req 12 sim_env demo_bulk_entry (frid_of demo_rid) 0 5000 0 demo_world"
  "bulk_req 12 sim_env demo_bulk_entry (frid_of demo_rid) 100 5000 0 demo_world"
  "entry_ok 12 demo_bulk_entry" "region_ok 12 demo_bulk_entry (frid_of demo_rid)"
  "unat (log_offset demo_bulk_entry) \<le> sim_len demo_world"
  by (simp_all add: bulk_req_def entry_ok_def region_ok_def demo_bulk_entry_def demo_entry_def
      demo_rid_def frid_of_def frid_data_def sim_env_def demo_world_def)

lemmas sim_ok = sim_log_file_ok sim_file_remote_ok [of _ 7] sim_bulk_ok [of _ 7]

theorem file_write_bulk_completes_witness:
  "\<exists>n turns. \<forall>sched. (\<forall>i < n. turns \<le> count_list sched i) \<longrightarrow>
    (\<exists>w'. bake_file_write_bulk sim_env demo_bulk_entry demo_rid 0 5000 7 1 0 sched demo_world
       = (Some BAKE_SUCCESS, w'))"
proof -
  from file_write_bulk_completes [OF sim_ok sim_pool_buffers_ok demo_bulk_req(1)]
  obtain n turns where "\<forall>sched. (\<forall>i < n. turns \<le> count_list sched i) \<longrightarrow>
    (\<exists>ret w'. bake_file_write_bulk sim_env demo_bulk_entry demo_rid 0 5000 7 1 0 sched demo_world = (Some ret, w') \<and>
      (bulk_reliable sim_env \<and> io_reliable sim_env (log_fd demo_bulk_entry) sim_len \<longrightarrow> ret = BAKE_SUCCESS))"
    by blast
  with sim_bulk_reliable sim_io_reliable show ?thesis by blast
qed

theorem file_read_bulk_completes_witness:
  "\<exists>n turns. \<forall>sched. (\<forall>i < n. turns \<le> count_list sched i) \<longrightarrow>
    (\<exists>w'. bake_file_read_bulk sim_env demo_bulk_entry demo_rid 100 5000 7 1 0 sched demo_world
       = (Some (BAKE_SUCCESS, 5000), w'))"
proof -
  from file_read_bulk_completes [OF sim_ok sim_pool_buffers_ok demo_bulk_req(2,5)]
  obtain n turns where "\<forall>sched. (\<forall>i < n. turns \<le> count_list sched i) \<longrightarrow>
    (\<exists>ret m w'. bake_file_read_bulk sim_env demo_bulk_entry demo_rid 100 5000 7 1 0 sched demo_world = (Some (ret, m), w') \<and>
      (bulk_reliable sim_env \<and> io_reliable sim_env (log_fd demo_bulk_entry) sim_len \<longrightarrow> ret = BAKE_SUCCESS \<and> m = 5000))"
    by blast
  with sim_bulk_reliable sim_io_reliable show ?thesis by blast
qed

theorem file_bulk_zero_never_returns_witness:
  "fst (bake_file_write_bulk sim_env demo_bulk_entry demo_rid 0 0 7 1 0 [0, 1, 0, 1] demo_world) = None"
  by (rule file_bulk_zero_never_returns [OF demo_bulk_req(3,4), THEN conjunct1])


lemma demo_write_returns:
  "\<exists>sched w'. bake_file_write_bulk sim_env demo_bulk_entry demo_rid 0 5000 7 1 0 sched demo_world
     = (Some BAKE_SUCCESS, w')"
proof -
  let ?f = "frid_of demo_rid"
  let ?x = "xfer_setup sim_env demo_bulk_entry (log_entry_offset ?f) 0 7 0 5000 1 TRANSFER_DATA_WRITE demo_world"
  have "skip ?x = 0" using xfer_setup_ok(2) [OF demo_bulk_req(1), of ?x 7 1 TRANSFER_DATA_WRITE, OF refl] by simp
  then have "xfer_dir_ok sim_len ?x demo_world" by (simp add: xfer_dir_ok_def xfer_setup_def Let_def)
  from transfer_data_completes [OF sim_ok sim_pool_buffers_ok demo_bulk_req(1) refl this]
  obtain n turns where "\<And>sched. (\<forall>i < n. turns \<le> count_list sched i) \<Longrightarrow>
      \<exists>w'. transfer_data sim_env demo_bulk_entry (log_entry_offset ?f) (log_entry_size ?f) 0 7 0 5000 1
        TRANSFER_DATA_WRITE sched demo_world = (Some 0, w')"
    using sim_bulk_reliable sim_io_reliable by metis
  from this [of "round_robin n turns"] show ?thesis
    by (auto simp: count_round_robin bake_file_write_bulk_def BAKE_SUCCESS_def)
qed

theorem file_write_bulk_correct_witness:
  "\<exists>sched w'. bake_file_write_bulk sim_env demo_bulk_entry demo_rid 0 5000 7 1 0 sched demo_world
       = (Some BAKE_SUCCESS, w') \<and>
     extent 4096 5000 (sim_file w') = extent 0 5000 (sim_remote demo_world 7)"
proof -
  obtain sched w' where r: "bake_file_write_bulk sim_env demo_bulk_entry demo_rid 0 5000 7 1 0 sched demo_world
     = (Some BAKE_SUCCESS, w')" using demo_write_returns by blast
  have "log_entry_offset (frid_of demo_rid) = 4096" by (simp add: demo_rid_def frid_of_def frid_data_def)
  with file_write_bulk_correct [OF sim_ok demo_bulk_req(1) r] r show ?thesis by auto
qed

lemma demo_read_returns:
  "\<exists>sched w'. bake_file_read_bulk sim_env demo_bulk_entry demo_rid 100 5000 7 1 0 sched demo_world
     = (Some (BAKE_SUCCESS, 5000), w')"
proof -
  let ?f = "frid_of demo_rid"
  let ?x = "xfer_setup sim_env demo_bulk_entry (log_entry_offset ?f) 100 7 0 5000 1 TRANSFER_DATA_READ demo_world"
  have "lo ?x + xlen ?x \<le> sim_len demo_world"
    using xfer_setup_ok(6) [OF demo_bulk_req(2), of ?x 7 1 TRANSFER_DATA_READ, OF refl]
    by (simp add: demo_rid_def frid_of_def frid_data_def demo_world_def)
  then have "xfer_dir_ok sim_len ?x demo_world" by (simp add: xfer_dir_ok_def xfer_setup_def Let_def)
  from transfer_data_completes [OF sim_ok sim_pool_buffers_ok demo_bulk_req(2) refl this]
  obtain n turns where "\<And>sched. (\<forall>i < n. turns \<le> count_list sched i) \<Longrightarrow>
      \<exists>w'. transfer_data sim_env demo_bulk_entry (log_entry_offset ?f) (log_entry_size ?f) 100 7 0 5000 1
        TRANSFER_DATA_READ sched demo_world = (Some 0, w')"
    using sim_bulk_reliable sim_io_reliable by metis
  from this [of "round_robin n turns"] obtain w' where
    "transfer_data sim_env demo_bulk_entry (log_entry_offset ?f) (log_entry_size ?f) 100 7 0 5000 1
        TRANSFER_DATA_READ (round_robin n turns) demo_world = (Some 0, w')"
    by (auto simp: count_round_robin)
  then have "bake_file_read_bulk sim_env demo_bulk_entry demo_rid 100 5000 7 1 0 (round_robin n turns) demo_world
     = (Some (BAKE_SUCCESS, 5000), w')" by (simp add: bake_file_read_bulk_def BAKE_SUCCESS_def)
  then show ?thesis by blast
qed

theorem file_read_bulk_correct_witness:
  "\<exists>sched w'. bake_file_read_bulk sim_env demo_bulk_entry demo_rid 100 5000 7 1 0 sched demo_world
       = (Some (BAKE_SUCCESS, 5000), w') \<and>
     extent 0 5000 (sim_remote w' 7) = extent 4196 5000 (sim_file demo_world)"
proof -
  obtain sched w' where r: "bake_file_read_bulk sim_env demo_bulk_entry demo_rid 100 5000 7 1 0 sched demo_world
     = (Some (BAKE_SUCCESS, 5000), w')" using demo_read_returns by blast
  have "log_entry_offset (frid_of demo_rid) = 4096" by (simp add: demo_rid_def frid_of_def frid_data_def)
  with file_read_bulk_correct [OF sim_ok demo_bulk_req(2,5) r] r show ?thesis by auto
qed

end
