(* ===== verification/File_Ops.thy ===== *)
theory File_Ops
  imports File_Sched
begin

text \<open>
  Sequences of operations on one file target, eager and bulk, and what they leave of the data of
  a region that they do not own.
\<close>

section \<open>Sequences of operations on one target\<close>

text \<open>
  The operations a provider runs on one file target, one after the other. A bulk operation comes
  with the schedule of its transfer threads, which need not let it finish.
\<close>

datatype file_op =
    FCreate u64
  | FWriteRaw bake_region_id u64 u64 "byte list"
  | FReadRaw bake_region_id u64 u64
  | FPersist bake_region_id u64 u64
  | FRemove bake_region_id
  | FWriteBulk bake_region_id u64 u64 hg_bulk hg_addr u64 "nat list"
  | FReadBulk bake_region_id u64 u64 hg_bulk hg_addr u64 "nat list"

fun file_op_run :: "'w env \<Rightarrow> file_op \<Rightarrow> bake_file_entry \<times> 'w \<Rightarrow> bake_file_entry \<times> 'w" where
  "file_op_run env (FCreate sz) (e, w) =
     (let ((_, _, e), w) = bake_file_create env e sz \<lparr>rid_type = 0, rid_data = []\<rparr> w in (e, w))"
| "file_op_run env (FWriteRaw rid off sz d) (e, w) = (e, snd (bake_file_write_raw env e rid off sz d w))"
| "file_op_run env (FReadRaw rid off sz) (e, w) = (e, snd (bake_file_read_raw env e rid off sz w))"
| "file_op_run env (FPersist rid off sz) (e, w) = (e, snd (bake_file_persist env e rid off sz w))"
| "file_op_run env (FRemove rid) (e, w) = (e, snd (bake_file_remove env e rid w))"
| "file_op_run env (FWriteBulk rid off sz bulk addr boff sched) (e, w) =
     (e, snd (bake_file_write_bulk env e rid off sz bulk addr boff sched w))"
| "file_op_run env (FReadBulk rid off sz bulk addr boff sched) (e, w) =
     (e, snd (bake_file_read_bulk env e rid off sz bulk addr boff sched w))"

fun file_ops_run :: "'w env \<Rightarrow> file_op list \<Rightarrow> bake_file_entry \<times> 'w \<Rightarrow> bake_file_entry \<times> 'w" where
  "file_ops_run env [] s = s"
| "file_ops_run env (x # xs) s = file_ops_run env xs (file_op_run env x s)"

text \<open>
  The operations leave region \<open>f\<close> to its owner. They create regions of positive size, or of any
  size if \<open>f\<close> does not reach into the last block of the log. They write to and remove regions that
  the target handed out and that are disjoint from \<open>f\<close>. A bulk write is refused (it has an offset or
  exceeds its region) or asks for at least one byte inside its region. Reads and persists are
  arbitrary. The total size of the created regions fits in the log.
\<close>

fun op_apart :: "'w env \<Rightarrow> nat \<Rightarrow> file_region_id \<Rightarrow> bake_file_entry \<times> 'w \<Rightarrow> file_op \<Rightarrow> bool" where
  "op_apart env k f (e, w) (FCreate sz) = (0 < sz \<or>
     unat (log_entry_offset f) + unat (log_entry_size f) + 2 ^ k \<le> unat (log_offset e))"
| "op_apart env k f (e, w) (FWriteRaw rid off sz d) =
     (unat sz \<le> length d \<and> region_ok k e (frid_of rid) \<and> disjoint_regions (frid_of rid) f)"
| "op_apart env k f (e, w) (FReadRaw rid off sz) = True"
| "op_apart env k f (e, w) (FPersist rid off sz) = True"
| "op_apart env k f (e, w) (FRemove rid) = (region_ok k e (frid_of rid) \<and> disjoint_regions (frid_of rid) f)"
| "op_apart env k f (e, w) (FWriteBulk rid off sz bulk addr boff sched) =
     (disjoint_regions (frid_of rid) f \<and>
      (off \<noteq> 0 \<or> log_entry_size (frid_of rid) < sz + off \<or> bulk_req k env e (frid_of rid) off sz boff w))"
| "op_apart env k f (e, w) (FReadBulk rid off sz bulk addr boff sched) = True"

fun ops_apart :: "'w env \<Rightarrow> nat \<Rightarrow> file_region_id \<Rightarrow> file_op list \<Rightarrow> bake_file_entry \<times> 'w \<Rightarrow> bool" where
  "ops_apart env k f [] s = True"
| "ops_apart env k f (x # xs) s = (op_apart env k f s x \<and> ops_apart env k f xs (file_op_run env x s))"

fun create_total :: "file_op list \<Rightarrow> nat" where
  "create_total [] = 0"
| "create_total (FCreate sz # xs) = unat sz + 4096 + create_total xs"
| "create_total (x # xs) = create_total xs"

lemma read_raw_frame:
  assumes "log_file_ok env (log_fd e) fbyte flen"
  shows "fbyte (snd (bake_file_read_raw env e rid off sz w)) = fbyte w"
    and "flen (snd (bake_file_read_raw env e rid off sz w)) = flen w"
  using memalign_okD(1,2) [OF log_file_okD(5) [OF assms]] pread_okD(1,2) [OF log_file_okD(2) [OF assms]]
  by (auto simp: bake_file_read_raw_def Let_def split: prod.splits)

lemma persist_frame:
  assumes "log_file_ok env (log_fd e) fbyte flen"
  shows "fbyte (snd (bake_file_persist env e rid off sz w)) = fbyte w"
    and "flen (snd (bake_file_persist env e rid off sz w)) = flen w"
  using sync_okD [OF log_file_okD(3) [OF assms]]
  by (auto simp: bake_file_persist_def Let_def split: prod.splits)

lemma write_raw_flen:
  assumes "log_file_ok env (log_fd e) fbyte flen"
  shows "flen w \<le> flen (snd (bake_file_write_raw env e rid off sz d w))"
proof -
  note ok = log_file_okD [OF assms]
  have "snd (bake_file_write_raw env e rid off sz d w) = w \<or>
    (\<exists>r p b w1. posix_memalign env (of_int (log_alignment e)) (BAKE_ALIGN_UP sz (log_alignment e)) w = ((r, p, b), w1) \<and>
      (snd (bake_file_write_raw env e rid off sz d w) = w1 \<or>
       (\<exists>x r2. abt_io_pwrite env (log_fd e) x (log_entry_offset (frid_of rid)) w1
          = (r2, snd (bake_file_write_raw env e rid off sz d w)))))"
    by (auto simp: bake_file_write_raw_def Let_def split: prod.splits)
  then show ?thesis
    using memalign_okD(2) [OF ok(5)] pwrite_okD(2) [OF ok(1)] by (metis order_refl)
qed

lemma remove_flen:
  assumes "log_file_ok env (log_fd e) fbyte flen"
  shows "flen (snd (bake_file_remove env e rid w)) = flen w"
  using punch_okD(2) [OF log_file_okD(4) [OF assms] surjective_pairing]
  by (simp add: bake_file_remove_def Let_def)

lemma remove_frame:
  assumes "log_file_ok env (log_fd e) fbyte flen"
    and "p < unat (log_entry_offset (frid_of rid)) \<or>
         unat (log_entry_offset (frid_of rid)) + unat (log_entry_size (frid_of rid)) \<le> p"
  shows "fbyte (snd (bake_file_remove env e rid w)) p = fbyte w p"
  using punch_okD(1) [OF log_file_okD(4) [OF assms(1)] surjective_pairing assms(2)]
  by (simp add: bake_file_remove_def Let_def)

text \<open>A transfer in the direction of the client does not change the file, whatever is asked for.\<close>

lemma xfer_ult_read_quiet:
  assumes "bulk_ok env (xa_remote_addr x) (xa_remote_bulk x) fbyte flen rbyte"
    and "pread_ok env (xa_fd x) fbyte flen" and "xa_op_flag x = TRANSFER_DATA_READ"
    and "xfer_ult env u x w = ((u', x'), w')"
  shows "fbyte w' = fbyte w \<and> flen w' = flen w \<and> xa_op_flag x' = TRANSFER_DATA_READ \<and> xa_fd x' = xa_fd x \<and>
    xa_remote_addr x' = xa_remote_addr x \<and> xa_remote_bulk x' = xa_remote_bulk x"
proof -
  note b = bulk_okD [OF assms(1)]
  have loop: "xa_op_flag y' = xa_op_flag y" "xa_fd y' = xa_fd y" "xa_remote_addr y' = xa_remote_addr y"
    "xa_remote_bulk y' = xa_remote_bulk y" if "xfer_loop y = (v, y')" for y y' v
    using that by (auto simp: xfer_loop_def xfer_claim_def Let_def split: if_splits)
  have check: "xa_op_flag y' = xa_op_flag y \<and> xa_fd y' = xa_fd y \<and> xa_remote_addr y' = xa_remote_addr y \<and>
    xa_remote_bulk y' = xa_remote_bulk y" if "xfer_check c r h v y = (v', y')" for y y' c r h v v'
    using that by (auto simp: xfer_check_def split: if_splits)
  have "fbyte w' = fbyte w \<and> flen w' = flen w"
    using assms(3,4) poolset_okD [OF b(3)] push_okD(1,2) [OF b(2)] pread_okD(1,2) [OF assms(2)]
    by (cases "(env, u, x, w)" rule: xfer_ult.cases) (auto simp: Let_def split: prod.splits if_splits)
  moreover have "xa_op_flag x' = TRANSFER_DATA_READ \<and> xa_fd x' = xa_fd x \<and>
      xa_remote_addr x' = xa_remote_addr x \<and> xa_remote_bulk x' = xa_remote_bulk x"
    using assms(3,4)
    by (cases "(env, u, x, w)" rule: xfer_ult.cases)
      (auto simp: Let_def split: prod.splits if_splits dest: loop check)
  ultimately show ?thesis by simp
qed

lemma read_bulk_frame:
  assumes "log_file_ok env (log_fd e) fbyte flen" and "bulk_ok env addr bulk fbyte flen rbyte"
  shows "fbyte (snd (bake_file_read_bulk env e rid off sz bulk addr boff sched w)) = fbyte w \<and>
    flen (snd (bake_file_read_bulk env e rid off sz bulk addr boff sched w)) = flen w"
proof -
  let ?P = "\<lambda>s. fbyte (sys_world s) = fbyte w \<and> flen (sys_world s) = flen w \<and>
    xa_op_flag (sys_args s) = TRANSFER_DATA_READ \<and> xa_fd (sys_args s) = log_fd e \<and>
    xa_remote_addr (sys_args s) = addr \<and> xa_remote_bulk (sys_args s) = bulk"
  have "?P (pool_step (xfer_ult env) ukind i s)" if s: "?P s" for i s
  proof (cases "i < length (sys_ults s) \<and> \<not> pool_aborted ukind s")
    case True
    obtain u' x' w' where st: "xfer_ult env (sys_ults s ! i) (sys_args s) (sys_world s) = ((u', x'), w')"
      by (metis surj_pair)
    have "bulk_ok env (xa_remote_addr (sys_args s)) (xa_remote_bulk (sys_args s)) fbyte flen rbyte"
      "pread_ok env (xa_fd (sys_args s)) fbyte flen" "xa_op_flag (sys_args s) = TRANSFER_DATA_READ"
      using s assms(2) log_file_okD(2) [OF assms(1)] by simp_all
    from xfer_ult_read_quiet [OF this st] s True show ?thesis by (simp add: pool_step_def st)
  qed (use s in \<open>simp add: pool_step_idle\<close>)
  note run = pool_run_keeps [of ?P, OF this]
  have "fbyte (snd (transfer_data env e a n off bulk boff sz addr TRANSFER_DATA_READ sched w)) = fbyte w \<and>
    flen (snd (transfer_data env e a n off bulk boff sz addr TRANSFER_DATA_READ sched w)) = flen w" for a n
  proof (cases "n < sz + off")
    case False
    let ?x = "xfer_setup env e a off bulk boff sz addr TRANSFER_DATA_READ w"
    have "?P (pool_run (xfer_ult env) ukind sched \<lparr>sys_args = ?x\<lparr>xa_ults_active := int m\<rparr>,
        sys_ults = replicate m (ULoop None), sys_world = w\<rparr>)" for m
      by (rule run) (simp_all add: xfer_setup_def Let_def)
    then show ?thesis using False by (simp add: transfer_data_def Let_def split: option.split)
  qed (simp add: transfer_data_def)
  then show ?thesis
    by (simp add: bake_file_read_bulk_def split: prod.split option.split) (metis snd_conv)
qed

text \<open>A bulk write that is refused or stays inside its region changes nothing outside the region.\<close>

lemma write_bulk_frame:
  assumes "log_file_ok env (log_fd e) fbyte flen" and "file_remote_ok env (log_fd e) flen rbyte"
    and "bulk_ok env addr bulk fbyte flen rbyte"
    and "off \<noteq> 0 \<or> log_entry_size (frid_of rid) < sz + off \<or> bulk_req k env e (frid_of rid) off sz boff w"
    and "bake_file_write_bulk env e rid off sz bulk addr boff sched w = (res, w')"
  shows "flen w \<le> flen w'" and "p < unat (log_entry_offset (frid_of rid)) \<or>
    unat (log_entry_offset (frid_of rid)) + unat (log_entry_size (frid_of rid)) \<le> p \<Longrightarrow>
    fbyte w' p = fbyte w p"
proof -
  let ?f = "frid_of rid"
  have "flen w \<le> flen w' \<and> (\<forall>p. p < unat (log_entry_offset ?f) \<or>
    unat (log_entry_offset ?f) + unat (log_entry_size ?f) \<le> p \<longrightarrow> fbyte w' p = fbyte w p)"
  proof (cases "off \<noteq> 0 \<or> log_entry_size ?f < sz + off")
    case False
    then have req: "bulk_req k env e ?f 0 sz boff w" and off: "off = 0" using assms(4) by auto
    let ?x = "xfer_setup env e (log_entry_offset ?f) 0 bulk boff sz addr TRANSFER_DATA_WRITE w"
    note so = xfer_setup_ok [OF req, of ?x bulk addr TRANSFER_DATA_WRITE, OF refl]
    have op: "xa_op_flag ?x = TRANSFER_DATA_WRITE" by (simp add: xfer_setup_def Let_def)
    have dir: "xfer_dir_ok flen ?x w" using so(2) by (simp add: xfer_dir_ok_def op)
    have run: "transfer_data env e (log_entry_offset ?f) (log_entry_size ?f) 0 bulk boff sz addr
        TRANSFER_DATA_WRITE sched w = (res, w')" using assms(5) by (simp add: bake_file_write_bulk_def off)
    from transfer_data_result(1) [OF assms(1-3) req refl dir run] so(5,6) show ?thesis
      unfolding xfer_frame_def op by auto
  qed (use assms(5) in \<open>auto simp: bake_file_write_bulk_def transfer_data_def split: if_splits\<close>)
  then show "flen w \<le> flen w'" and "p < unat (log_entry_offset ?f) \<or>
    unat (log_entry_offset ?f) + unat (log_entry_size ?f) \<le> p \<Longrightarrow> fbyte w' p = fbyte w p" by blast+
qed

text \<open>What the bulk operations rely on, for every client memory.\<close>

definition clients_ok :: "'w env \<Rightarrow> int \<Rightarrow> ('w \<Rightarrow> nat \<Rightarrow> byte) \<Rightarrow> ('w \<Rightarrow> nat) \<Rightarrow> bool" where
  "clients_ok env fd fbyte flen \<longleftrightarrow>
     (\<forall>addr bulk. \<exists>rbyte. file_remote_ok env fd flen rbyte \<and> bulk_ok env addr bulk fbyte flen rbyte)"

lemma region_ok_mono:
  "region_ok k e f \<Longrightarrow> unat (log_offset e) \<le> unat (log_offset e') \<Longrightarrow> region_ok k e' f"
  by (simp add: region_ok_def)

lemma disjoint_regions_byte:
  assumes "disjoint_regions g f" and "i < unat (log_entry_size f)"
  shows "unat (log_entry_offset f) + i < unat (log_entry_offset g) \<or>
    unat (log_entry_offset g) + unat (log_entry_size g) \<le> unat (log_entry_offset f) + i"
  using assms by (auto simp: disjoint_regions_def)

text \<open>One operation keeps the invariant and the bytes of a region it does not own.\<close>

lemma file_op_run_ok:
  assumes env: "log_file_ok env (log_fd e) fbyte flen" and cl: "clients_ok env (log_fd e) fbyte flen"
    and e: "entry_ok k e"
    and f: "region_ok k e f" and a: "op_apart env k f (e, w) x" and room: "log_room e (create_total (x # xs))"
    and run: "file_op_run env x (e, w) = (e', w')"
  shows "log_fd e' = log_fd e" "entry_ok k e'" "region_ok k e' f" "log_room e' (create_total xs)"
    "flen w \<le> flen w'" "i < unat (log_entry_size f) \<Longrightarrow>
       fbyte w' (unat (log_entry_offset f) + i) = fbyte w (unat (log_entry_offset f) + i)"
proof -
  have "log_fd e' = log_fd e \<and> entry_ok k e' \<and> region_ok k e' f \<and> log_room e' (create_total xs) \<and>
    flen w \<le> flen w' \<and>
    (\<forall>i < unat (log_entry_size f).
       fbyte w' (unat (log_entry_offset f) + i) = fbyte w (unat (log_entry_offset f) + i))"
  proof (cases x)
    case (FCreate sz)
    let ?z = "\<lparr>rid_type = 0, rid_data = []\<rparr>"
    obtain ret rid' e1 w1 where c: "bake_file_create env e sz ?z w = ((ret, rid', e1), w1)"
      by (metis prod.exhaust)
    have e1: "e' = e1" "w' = w1" using run by (simp_all add: FCreate c)
    have r: "log_room e (unat sz)" using room by (simp add: FCreate log_room_def)
    note ok = bake_file_create_ok [OF env e r c]
    have "2 ^ k \<le> (4096::nat)" by (rule block_le_4096 [OF entry_okD(2) [OF e]])
    then have "log_room e1 (create_total xs)"
      using room ok(8,9) by (simp add: FCreate log_room_def)
    moreover have "fbyte w' (unat (log_entry_offset f) + i) = fbyte w (unat (log_entry_offset f) + i)"
      if "i < unat (log_entry_size f)" for i
      using ok(10) [of "unat (log_entry_offset f) + i"] a f that
      by (cases "sz = 0") (auto simp: e1 FCreate region_ok_def)
    ultimately show ?thesis
      using ok f by (simp add: e1 region_ok_def)
  next
    case (FWriteRaw rid off sz d)
    then have w': "e' = e" "bake_file_write_raw env e rid off sz d w = (fst (bake_file_write_raw env e rid off sz d w), w')"
      using run by auto
    have b: "unat sz \<le> length d" "region_ok k e (frid_of rid)" "disjoint_regions (frid_of rid) f"
      using a by (simp_all add: FWriteRaw)
    show ?thesis
      using write_raw_frame [OF env e b(2,1) w'(2)] disjoint_regions_byte [OF b(3)] w'(1) e f room
        write_raw_flen [OF env, of w rid off sz d] run
      by (simp add: FWriteRaw)
  next
    case (FReadRaw rid off sz)
    then show ?thesis using run e f room read_raw_frame [OF env, of rid off sz w] by auto
  next
    case (FPersist rid off sz)
    then show ?thesis using run e f room persist_frame [OF env, of rid off sz w] by auto
  next
    case (FRemove rid)
    then have b: "disjoint_regions (frid_of rid) f" using a by simp
    show ?thesis
      using run e f room remove_frame [OF env, of _ rid w] remove_flen [OF env, of rid w] disjoint_regions_byte [OF b]
      by (auto simp: FRemove)
  next
    case (FWriteBulk rid off sz bulk addr boff sched)
    obtain rbyte where rb: "file_remote_ok env (log_fd e) flen rbyte" "bulk_ok env addr bulk fbyte flen rbyte"
      using cl unfolding clients_ok_def by blast
    obtain res w2 where r: "bake_file_write_bulk env e rid off sz bulk addr boff sched w = (res, w2)" by fastforce
    with run have w': "bake_file_write_bulk env e rid off sz bulk addr boff sched w = (res, w')" "e' = e"
      by (simp_all add: FWriteBulk)
    have d: "disjoint_regions (frid_of rid) f"
      "off \<noteq> 0 \<or> log_entry_size (frid_of rid) < sz + off \<or> bulk_req k env e (frid_of rid) off sz boff w"
      using a by (simp_all add: FWriteBulk)
    from write_bulk_frame [OF env rb d(2) w'(1)] disjoint_regions_byte [OF d(1)] show ?thesis
      using w'(2) e f room by (simp add: FWriteBulk)
  next
    case (FReadBulk rid off sz bulk addr boff sched)
    obtain rbyte where "bulk_ok env addr bulk fbyte flen rbyte" using cl unfolding clients_ok_def by blast
    from read_bulk_frame [OF env this, of rid off sz boff sched w] run e f room show ?thesis
      by (auto simp: FReadBulk)
  qed
  then show "log_fd e' = log_fd e" "entry_ok k e'" "region_ok k e' f" "log_room e' (create_total xs)"
    "flen w \<le> flen w'" "i < unat (log_entry_size f) \<Longrightarrow>
       fbyte w' (unat (log_entry_offset f) + i) = fbyte w (unat (log_entry_offset f) + i)"
    by blast+
qed

lemma file_ops_run_ok:
  assumes "log_file_ok env (log_fd e) fbyte flen" and "clients_ok env (log_fd e) fbyte flen"
    and "entry_ok k e" and "region_ok k e f" and "ops_apart env k f xs (e, w)" and "log_room e (create_total xs)"
    and "file_ops_run env xs (e, w) = (e', w')"
  shows "log_fd e' = log_fd e \<and> entry_ok k e' \<and> region_ok k e' f \<and> flen w \<le> flen w' \<and>
    extent (unat (log_entry_offset f)) (unat (log_entry_size f)) (fbyte w')
      = extent (unat (log_entry_offset f)) (unat (log_entry_size f)) (fbyte w)"
  using assms
proof (induction xs arbitrary: e w)
  case (Cons x xs)
  obtain e1 w1 where s: "file_op_run env x (e, w) = (e1, w1)" by fastforce
  from Cons.prems have a: "op_apart env k f (e, w) x" "ops_apart env k f xs (e1, w1)"
    "file_ops_run env xs (e1, w1) = (e', w')" by (simp_all add: s)
  note ok = file_op_run_ok [OF Cons.prems(1-4) a(1) Cons.prems(6) s]
  have "log_file_ok env (log_fd e1) fbyte flen" "clients_ok env (log_fd e1) fbyte flen"
    using Cons.prems(1,2) ok(1) by simp_all
  note ih = Cons.IH [OF this ok(2,3) a(2) ok(4) a(3)]
  have "extent (unat (log_entry_offset f)) (unat (log_entry_size f)) (fbyte w1)
      = extent (unat (log_entry_offset f)) (unat (log_entry_size f)) (fbyte w)"
    by (rule extent_cong) (rule ok(6))
  with ih ok(1,5) show ?case by simp
qed simp

lemma read_raw_success_Some:
  "bake_file_read_raw env e rid off sz w = ((BAKE_SUCCESS, d), w') \<Longrightarrow> \<exists>rd. d = Some rd"
  by (auto simp: bake_file_read_raw_def Let_def bake_err_defs split: prod.splits if_splits)


definition demo_small :: bake_file_entry where
  "demo_small = demo_entry\<lparr>log_alignment := 2 ^ 3, log_offset := 4112\<rparr>"

definition demo_small_rid :: "u64 \<Rightarrow> bake_region_id" where
  "demo_small_rid off = \<lparr>rid_type = 0, rid_data = frid_data \<lparr>log_entry_offset = off, log_entry_size = 8\<rparr>\<rparr>"

definition demo_ops :: "file_op list" where
  "demo_ops = [FCreate 8, FWriteRaw (demo_small_rid 4104) 0 2 [9, 9], FWriteBulk (demo_small_rid 4104) 0 5 7 1 1 [0, 0, 0, 0],
     FReadBulk (demo_small_rid 4096) 0 4 7 1 0 [0, 0], FRemove (demo_small_rid 4104)]"

lemma sim_clients_ok: "clients_ok sim_env fd sim_file sim_len"
  unfolding clients_ok_def using sim_file_remote_ok sim_bulk_ok by blast

lemma demo_small_ok:
  "entry_ok 3 demo_small" "log_room demo_small (create_total demo_ops)"
  "region_ok 3 demo_small (frid_of (demo_small_rid 4096))"
  "ops_apart sim_env 3 (frid_of (demo_small_rid 4096)) demo_ops (demo_small, w1)"
  by (simp_all add: entry_ok_def bulk_req_def sim_env_def log_room_def region_ok_def disjoint_regions_def demo_ops_def
      demo_small_def demo_entry_def demo_small_rid_def frid_of_def frid_data_def
      bake_file_create_def file_reserve_def BAKE_ALIGN_UP_def Let_def case_prod_unfold)


end
