(* ===== verification/Pmem_Backend.thy ===== *)
theory Pmem_Backend
  imports Bake_Sim Worker_Pool
begin

text \<open>
  The persistent memory backend of \<^verbatim>\<open>src/bake-pmem-backend.c\<close>. A region is an object of a
  libpmemobj pool that is mapped into memory; the program reads and writes it through pointers.
  Memory is therefore explicit: a function from addresses to bytes beside the opaque world of the
  libraries. The compile time option \<open>USE_SIZECHECK_HEADERS\<close> is the argument \<open>sizecheck\<close>, and the
  \<open>pipeline_enable\<close> setting of the provider is the argument \<open>pipeline\<close>.
\<close>

section \<open>Data\<close>

type_synonym memory = "nat \<Rightarrow> byte"
type_synonym 'w pm = "memory \<times> 'w"

record bake_pmem_entry =
  pmem_pool_of :: pmem_pool
  pmem_root :: u64
  pmem_dir :: cstring
  pmem_filename :: cstring

text \<open>The region id holds the 16 bytes of the object id.\<close>

definition prid_oid :: "bake_region_id \<Rightarrow> pmem_oid" where
  "prid_oid rid = rid_data rid"

text \<open>\<open>region_content_t\<close>: an optional 64 bit size in front of the data.\<close>

definition region_hdr :: "bool \<Rightarrow> u64" where
  "region_hdr sizecheck = (if sizecheck then 8 else 0)"

definition region_data :: "bool \<Rightarrow> u64 \<Rightarrow> u64" where
  "region_data sizecheck region = region + region_hdr sizecheck"

definition region_size :: "u64 \<Rightarrow> memory \<Rightarrow> u64" where
  "region_size region m = of_le_bytes (extent (unat region) 8 m)"

definition set_region_size :: "u64 \<Rightarrow> u64 \<Rightarrow> memory \<Rightarrow> memory" where
  "set_region_size region sz m = overlay (unat region) (le_bytes 8 sz) m"

section \<open>Pools\<close>

definition bake_pmem_makepool :: "'w env \<Rightarrow> cstring \<Rightarrow> u64 \<Rightarrow> 'w pm \<Rightarrow> int \<times> 'w pm" where
  "bake_pmem_makepool env pool_name pool_size s =
    (let (m, w) = s; (pool, w) = pmemobj_create env pool_name pool_size w
     in case pool of
          None \<Rightarrow> (BAKE_ERR_PMEM, (m, w))
        | Some pool \<Rightarrow>
           (let (root_oid, w) = pmemobj_root env pool 16 w;
                root = pmemobj_direct env root_oid w;
                (pool_id, w) = uuid_generate env w;
                m = overlay (unat root) pool_id m;
                w = pmemobj_persist env root (extent (unat root) 16 m) w
            in (BAKE_SUCCESS, (m, pmemobj_close env pool w))))"

section \<open>Creation\<close>

definition bake_pmem_create ::
  "'w env \<Rightarrow> bool \<Rightarrow> bake_pmem_entry \<Rightarrow> u64 \<Rightarrow> bake_region_id \<Rightarrow> 'w pm \<Rightarrow> (int \<times> bake_region_id) \<times> 'w pm" where
  "bake_pmem_create env sizecheck entry sz rid s =
    (let (m, w) = s;
         content_size = (if sizecheck then sz + 8 else sz);
         ((ret, oid), w) = pmemobj_alloc env (pmem_pool_of entry) content_size w;
         rid = rid\<lparr>rid_data := oid\<rparr>
     in if ret \<noteq> 0 then ((BAKE_ERR_PMEM, rid), (m, w))
        else if sizecheck then
          (let region = pmemobj_direct env (prid_oid rid) w
           in if region = 0 then ((BAKE_ERR_PMEM, rid), (m, w))
              else (let m = set_region_size region sz m;
                        w = pmemobj_persist env region (extent (unat region) 8 m) w
                    in ((BAKE_SUCCESS, rid), (m, w))))
        else ((BAKE_SUCCESS, rid), (m, w)))"

section \<open>Raw access\<close>

definition bake_pmem_write_raw ::
  "'w env \<Rightarrow> bool \<Rightarrow> bake_region_id \<Rightarrow> u64 \<Rightarrow> u64 \<Rightarrow> byte list \<Rightarrow> 'w pm \<Rightarrow> int \<times> 'w pm" where
  "bake_pmem_write_raw env sizecheck rid off sz data s =
    (let (m, w) = s; region = pmemobj_direct env (prid_oid rid) w
     in if region = 0 then (BAKE_ERR_PMEM, s)
        else if sizecheck \<and> sz + off > region_size region m then (BAKE_ERR_OUT_OF_BOUNDS, s)
        else (BAKE_SUCCESS,
              (overlay (unat (region_data sizecheck region + off)) (take (unat sz) data) m, w)))"

text \<open>The result is the return code, the address of the data and its size; nothing is copied.\<close>

definition bake_pmem_read_raw ::
  "'w env \<Rightarrow> bool \<Rightarrow> bake_region_id \<Rightarrow> u64 \<Rightarrow> u64 \<Rightarrow> 'w pm \<Rightarrow> int \<times> u64 \<times> u64" where
  "bake_pmem_read_raw env sizecheck rid off sz s =
    (let (m, w) = s; region = pmemobj_direct env (prid_oid rid) w
     in if region = 0 then (BAKE_ERR_UNKNOWN_REGION, 0, 0)
        else if sizecheck \<and> off > region_size region m then (BAKE_ERR_OUT_OF_BOUNDS, 0, 0)
        else (let size_to_read = (if sizecheck \<and> off + sz > region_size region m
                                  then region_size region m - off else sz)
              in (BAKE_SUCCESS, region_data sizecheck region + off, size_to_read)))"

definition bake_pmem_read_bulk ::
  "'w env \<Rightarrow> bool \<Rightarrow> bake_region_id \<Rightarrow> u64 \<Rightarrow> u64 \<Rightarrow> hg_bulk \<Rightarrow> hg_addr \<Rightarrow> u64 \<Rightarrow> 'w pm \<Rightarrow>
     (int \<times> u64) \<times> 'w pm" where
  "bake_pmem_read_bulk env sizecheck rid region_offset sz bulk source bulk_offset s =
    (let (m, w) = s; region = pmemobj_direct env (prid_oid rid) w
     in if region = 0 then ((BAKE_ERR_UNKNOWN_REGION, 0), (m, bulk_free env HG_BULK_NULL w))
        else if sizecheck \<and> region_offset > region_size region m
        then ((BAKE_ERR_OUT_OF_BOUNDS, 0), (m, bulk_free env HG_BULK_NULL w))
        else
         (let size_to_read = (if sizecheck \<and> region_offset + sz > region_size region m
                              then region_size region m - region_offset else sz);
              buffer = region_data sizecheck region + region_offset;
              ((hret, h), w) = bulk_create env buffer size_to_read w
          in if hret \<noteq> HG_SUCCESS then ((BAKE_ERR_MERCURY, 0), (m, bulk_free env h w))
             else
              (let (hret, w) = bulk_push env source bulk bulk_offset
                                 (extent (unat buffer) (unat size_to_read) m) w
               in if hret \<noteq> HG_SUCCESS then ((BAKE_ERR_MERCURY, 0), (m, bulk_free env h w))
                  else ((BAKE_SUCCESS, size_to_read), (m, bulk_free env h w)))))"

definition bake_pmem_persist ::
  "'w env \<Rightarrow> bool \<Rightarrow> bake_region_id \<Rightarrow> u64 \<Rightarrow> u64 \<Rightarrow> 'w pm \<Rightarrow> int \<times> 'w pm" where
  "bake_pmem_persist env sizecheck rid off sz s =
    (let (m, w) = s; region = pmemobj_direct env (prid_oid rid) w
     in if region = 0 then (BAKE_ERR_PMEM, s)
        else (let ptr = region_data sizecheck region + off
              in (BAKE_SUCCESS, (m, pmemobj_persist env ptr (extent (unat ptr) (unat sz) m) w))))"

definition bake_pmem_create_write_persist_raw ::
  "'w env \<Rightarrow> bool \<Rightarrow> bake_pmem_entry \<Rightarrow> byte list \<Rightarrow> u64 \<Rightarrow> bake_region_id \<Rightarrow> 'w pm \<Rightarrow>
     (int \<times> bake_region_id) \<times> 'w pm" where
  "bake_pmem_create_write_persist_raw env sizecheck entry data sz rid s =
    (let (m, w) = s;
         content_size = (if sizecheck then sz + 8 else sz);
         ((ret, oid), w) = pmemobj_alloc env (pmem_pool_of entry) content_size w;
         rid = rid\<lparr>rid_data := oid\<rparr>
     in if ret \<noteq> 0 then ((BAKE_ERR_PMEM, rid), (m, w))
        else
         (let region = pmemobj_direct env (prid_oid rid) w
          in if region = 0 then ((BAKE_ERR_PMEM, rid), (m, w))
             else
              (let m = (if sizecheck then set_region_size region sz m else m);
                   m = overlay (unat (region_data sizecheck region)) (take (unat sz) data) m;
                   w = pmemobj_persist env region (extent (unat region) (unat content_size) m) w
               in ((BAKE_SUCCESS, rid), (m, w)))))"

definition bake_pmem_get_region_size ::
  "'w env \<Rightarrow> bool \<Rightarrow> bake_region_id \<Rightarrow> 'w pm \<Rightarrow> int \<times> u64 option" where
  "bake_pmem_get_region_size env sizecheck rid s =
    (if sizecheck then
       (let (m, w) = s; region = pmemobj_direct env (prid_oid rid) w
        in if region = 0 then (BAKE_ERR_PMEM, None) else (BAKE_SUCCESS, Some (region_size region m)))
     else (BAKE_ERR_OP_UNSUPPORTED, None))"

definition bake_pmem_get_region_data ::
  "'w env \<Rightarrow> bool \<Rightarrow> bake_region_id \<Rightarrow> 'w pm \<Rightarrow> int \<times> u64 option" where
  "bake_pmem_get_region_data env sizecheck rid s =
    (let (m, w) = s; region = pmemobj_direct env (prid_oid rid) w
     in if region = 0 then (BAKE_ERR_UNKNOWN_REGION, None)
        else (BAKE_SUCCESS, Some (region_data sizecheck region)))"

definition bake_pmem_remove :: "'w env \<Rightarrow> bake_region_id \<Rightarrow> 'w pm \<Rightarrow> int \<times> 'w pm" where
  "bake_pmem_remove env rid s =
    (let (m, w) = s in (BAKE_SUCCESS, (m, pmemobj_free env (prid_oid rid) w)))"

end
