(* ===== verification/Pmem_Transfer.thy ===== *)
theory Pmem_Transfer
  imports Pmem_Backend
begin

text \<open>
  Bulk writes of \<^verbatim>\<open>src/bake-pmem-backend.c\<close>: \<open>write_transfer_data\<close> pulls the client's bytes
  directly into the region, or, with pipelining, starts threads that pull chunks into buffers of
  the pool and copy them. The shared state and the threads are those of the source, and the
  interpretation of \<open>relay_pool\<close> gives the facts about all interleavings.
\<close>

section \<open>The worker thread\<close>

record pmem_xfer =
  px_remote_addr :: hg_addr
  px_remote_bulk :: hg_bulk
  px_remote_offset :: u64
  px_bulk_size :: u64
  px_local_ptr :: u64
  px_bytes_issued :: u64
  px_bytes_retired :: u64
  px_poolset_max_size :: u64
  px_ret :: int
  px_ults_active :: int
  px_mutex_freed :: bool
  px_eventual :: bool

record pmem_chunk =
  pc_size :: u64
  pc_local_ptr :: u64
  pc_remote_offset :: u64

definition pmem_claim :: "pmem_xfer \<Rightarrow> pmem_chunk \<times> pmem_xfer" where
  "pmem_claim x =
    (let sz = (if px_bulk_size x - px_bytes_issued x > px_poolset_max_size x
               then px_poolset_max_size x else px_bulk_size x - px_bytes_issued x)
     in (\<lparr>pc_size = sz, pc_local_ptr = px_local_ptr x + px_bytes_issued x,
          pc_remote_offset = px_remote_offset x + px_bytes_issued x\<rparr>,
         x\<lparr>px_bytes_issued := px_bytes_issued x + sz\<rparr>))"

datatype pmem_ult =
    PLoop "pmem_chunk option"
  | PGetBuf pmem_chunk
  | PAccess pmem_chunk hg_bulk
  | PPull pmem_chunk hg_bulk "byte list"
  | PCopy pmem_chunk hg_bulk "byte list"
  | PRelease pmem_chunk hg_bulk
  | PFinish hg_bulk
  | PCount
  | PSignal
  | PExit
  | PAbort

definition pmem_loop :: "pmem_xfer \<Rightarrow> pmem_ult \<times> pmem_xfer" where
  "pmem_loop x =
    (if px_bytes_issued x < px_bulk_size x \<and> px_ret x = 0
     then (let (c, x) = pmem_claim x in (PGetBuf c, x))
     else (PFinish HG_BULK_NULL, x))"

definition pmem_check :: "int \<Rightarrow> hg_bulk \<Rightarrow> pmem_ult \<Rightarrow> pmem_xfer \<Rightarrow> pmem_ult \<times> pmem_xfer" where
  "pmem_check ret h next x =
    (if ret \<noteq> 0 \<and> px_ret x = 0 then (PFinish h, x\<lparr>px_ret := ret\<rparr>) else (next, x))"

fun pmem_xfer_ult :: "'w env \<Rightarrow> pmem_ult \<Rightarrow> pmem_xfer \<Rightarrow> 'w pm \<Rightarrow> (pmem_ult \<times> pmem_xfer) \<times> 'w pm" where
  "pmem_xfer_ult env (PLoop None) x s = (pmem_loop x, s)"
| "pmem_xfer_ult env (PLoop (Some c)) x s =
    (pmem_loop (x\<lparr>px_bytes_retired := px_bytes_retired x + pc_size c\<rparr>), s)"
| "pmem_xfer_ult env (PGetBuf c) x s =
    (let ((ret, h), w) = poolset_get env (pc_size c) (snd s)
     in (pmem_check ret h (PAccess c h) x, (fst s, w)))"
| "pmem_xfer_ult env (PAccess c h) x s =
    (let (ret, ptr, buf) = bulk_access env h (pc_size c) (snd s)
     in if ret \<noteq> 0 then ((PAbort, x), s) else ((PPull c h buf, x), s))"
| "pmem_xfer_ult env (PPull c h buf) x s =
    (let ((ret, bs), w) = bulk_pull env (px_remote_addr x) (px_remote_bulk x)
                            (pc_remote_offset c) (pc_size c) (snd s)
     in (pmem_check ret h (PCopy c h (bs @ drop (length bs) buf)) x, (fst s, w)))"
| "pmem_xfer_ult env (PCopy c h buf) x s =
    ((PRelease c h, x),
     (overlay (unat (pc_local_ptr c)) (take (unat (pc_size c)) buf) (fst s), snd s))"
| "pmem_xfer_ult env (PRelease c h) x s = ((PLoop (Some c), x), (fst s, poolset_release env h (snd s)))"
| "pmem_xfer_ult env (PFinish h) x s =
    ((PCount, x), if h \<noteq> HG_BULK_NULL then (fst s, poolset_release env h (snd s)) else s)"
| "pmem_xfer_ult env PCount x s =
    (let x = x\<lparr>px_ults_active := px_ults_active x - 1\<rparr>
     in ((if px_ults_active x = 0 then PSignal else PExit, x), s))"
| "pmem_xfer_ult env PSignal x s = ((PExit, x\<lparr>px_mutex_freed := True, px_eventual := True\<rparr>), s)"
| "pmem_xfer_ult env PExit x s = ((PExit, x), s)"
| "pmem_xfer_ult env PAbort x s = ((PAbort, x), s)"

fun pkind :: "pmem_ult \<Rightarrow> ult_kind" where
  "pkind PCount = Counting"
| "pkind PSignal = Signalling"
| "pkind PExit = Exited"
| "pkind PAbort = Aborted"
| "pkind _ = Working"

section \<open>Bulk writes\<close>

text \<open>The loop that counts the threads; \<open>None\<close> is a loop that does not end.\<close>

partial_function (option) pmem_count_ults :: "u64 \<Rightarrow> u64 \<Rightarrow> u64 \<Rightarrow> nat \<Rightarrow> nat option" where
  "pmem_count_ults sz mx i n = (if i < sz then pmem_count_ults sz mx (i + mx) (Suc n) else Some n)"

definition pmem_setup ::
  "'w env \<Rightarrow> u64 \<Rightarrow> hg_bulk \<Rightarrow> u64 \<Rightarrow> u64 \<Rightarrow> hg_addr \<Rightarrow> 'w \<Rightarrow> pmem_xfer" where
  "pmem_setup env mem_ptr remote_bulk remote_bulk_offset bulk_size src_addr w =
    \<lparr>px_remote_addr = src_addr, px_remote_bulk = remote_bulk, px_remote_offset = remote_bulk_offset,
     px_bulk_size = bulk_size, px_local_ptr = mem_ptr, px_bytes_issued = 0, px_bytes_retired = 0,
     px_poolset_max_size = poolset_get_max env w, px_ret = 0, px_ults_active = 0,
     px_mutex_freed = False, px_eventual = False\<rparr>"

definition write_transfer_data ::
  "'w env \<Rightarrow> bool \<Rightarrow> bool \<Rightarrow> pmem_oid \<Rightarrow> u64 \<Rightarrow> hg_bulk \<Rightarrow> u64 \<Rightarrow> u64 \<Rightarrow> hg_addr \<Rightarrow> nat list \<Rightarrow> 'w pm \<Rightarrow>
     int option \<times> 'w pm" where
  "write_transfer_data env sizecheck pipeline oid region_offset remote_bulk remote_bulk_offset
      bulk_size src_addr sched s =
    (let (m, w) = s; region = pmemobj_direct env oid w
     in if region = 0 then (Some BAKE_ERR_UNKNOWN_REGION, s)
        else if sizecheck \<and> region_offset + bulk_size > region_size region m
        then (Some BAKE_ERR_OUT_OF_BOUNDS, s)
        else
         (let mem_ptr = region_data sizecheck region + region_offset
          in if \<not> pipeline then
               (let ((hret, h), w) = bulk_create env mem_ptr bulk_size w
                in if hret \<noteq> HG_SUCCESS then (Some BAKE_ERR_MERCURY, (m, bulk_free env h w))
                   else
                    (let ((hret, bs), w) = bulk_pull env src_addr remote_bulk remote_bulk_offset bulk_size w;
                         m = overlay (unat mem_ptr) bs m
                     in (Some (if hret \<noteq> HG_SUCCESS then BAKE_ERR_MERCURY else 0), (m, bulk_free env h w))))
             else
               (let x = pmem_setup env mem_ptr remote_bulk remote_bulk_offset bulk_size src_addr w
                in case pmem_count_ults bulk_size (px_poolset_max_size x) 0 0 of
                     None \<Rightarrow> (None, s)
                   | Some n \<Rightarrow>
                      (let t = pool_run (pmem_xfer_ult env) pkind sched
                                 \<lparr>sys_args = x\<lparr>px_ults_active := int n\<rparr>,
                                  sys_ults = replicate n (PLoop None), sys_world = s\<rparr>
                       in if px_eventual (sys_args t) \<and> \<not> pool_aborted pkind t
                          then (Some (px_ret (sys_args t)),
                                (fst (sys_world t), bulk_free env HG_BULK_NULL (snd (sys_world t))))
                          else (None, sys_world t)))))"

definition bake_pmem_write_bulk ::
  "'w env \<Rightarrow> bool \<Rightarrow> bool \<Rightarrow> bake_region_id \<Rightarrow> u64 \<Rightarrow> u64 \<Rightarrow> hg_bulk \<Rightarrow> hg_addr \<Rightarrow> u64 \<Rightarrow> nat list \<Rightarrow>
     'w pm \<Rightarrow> int option \<times> 'w pm" where
  "bake_pmem_write_bulk env sizecheck pipeline rid region_offset sz bulk source bulk_offset sched s =
    write_transfer_data env sizecheck pipeline (prid_oid rid) region_offset bulk bulk_offset sz source sched s"

definition bake_pmem_create_write_persist_bulk ::
  "'w env \<Rightarrow> bool \<Rightarrow> bool \<Rightarrow> bake_pmem_entry \<Rightarrow> hg_bulk \<Rightarrow> hg_addr \<Rightarrow> u64 \<Rightarrow> u64 \<Rightarrow> bake_region_id \<Rightarrow>
     nat list \<Rightarrow> 'w pm \<Rightarrow> (int \<times> bake_region_id) option \<times> 'w pm" where
  "bake_pmem_create_write_persist_bulk env sizecheck pipeline entry bulk source bulk_offset sz rid sched s =
    (let (m, w) = s;
         content_size = (if sizecheck then sz + 8 else sz);
         ((ret, oid), w) = pmemobj_alloc env (pmem_pool_of entry) content_size w;
         rid = rid\<lparr>rid_data := oid\<rparr>
     in if ret \<noteq> 0 then (Some (BAKE_ERR_PMEM, rid), (m, w))
        else
         (case write_transfer_data env sizecheck pipeline (prid_oid rid) 0 bulk bulk_offset sz source sched (m, w) of
            (None, s) \<Rightarrow> (None, s)
          | (Some ret, (m, w)) \<Rightarrow>
              if ret = BAKE_SUCCESS then
                (let region = pmemobj_direct env (prid_oid rid) w
                 in if region = 0 then (Some (BAKE_ERR_PMEM, rid), (m, w))
                    else
                     (let m = (if sizecheck then set_region_size region sz m else m);
                          w = pmemobj_persist env region (extent (unat region) (unat content_size) m) w
                      in (Some (BAKE_SUCCESS, rid), (m, w))))
              else (Some (BAKE_SUCCESS, rid), (m, w))))"

section \<open>The chunks of a transfer\<close>

abbreviation plen :: "pmem_xfer \<Rightarrow> nat" where "plen x \<equiv> unat (px_bulk_size x)"
abbreviation pissued :: "pmem_xfer \<Rightarrow> nat" where "pissued x \<equiv> unat (px_bytes_issued x)"
abbreviation plo :: "pmem_xfer \<Rightarrow> nat" where "plo x \<equiv> unat (px_local_ptr x)"
abbreviation pro :: "pmem_xfer \<Rightarrow> nat" where "pro x \<equiv> unat (px_remote_offset x)"

definition pmem_ok :: "pmem_xfer \<Rightarrow> bool" where
  "pmem_ok x \<longleftrightarrow> 0 < unat (px_poolset_max_size x) \<and> pissued x \<le> plen x \<and>
     plo x + plen x < 2 ^ 64 \<and> pro x + plen x < 2 ^ 64"

definition same_pmem :: "pmem_xfer \<Rightarrow> pmem_xfer \<Rightarrow> bool" where
  "same_pmem x y \<longleftrightarrow> px_remote_addr x = px_remote_addr y \<and> px_remote_bulk x = px_remote_bulk y \<and>
     px_remote_offset x = px_remote_offset y \<and> px_bulk_size x = px_bulk_size y \<and>
     px_local_ptr x = px_local_ptr y \<and> px_poolset_max_size x = px_poolset_max_size y"

definition pchunk_ok :: "pmem_xfer \<Rightarrow> pmem_chunk \<Rightarrow> bool" where
  "pchunk_ok x c \<longleftrightarrow> plo x \<le> unat (pc_local_ptr c) \<and>
     unat (pc_local_ptr c) + unat (pc_size c) \<le> plo x + pissued x \<and>
     unat (pc_remote_offset c) = pro x + (unat (pc_local_ptr c) - plo x)"

lemma pmem_claim_ok:
  assumes x: "pmem_ok x" and more: "px_bytes_issued x < px_bulk_size x" and claim: "pmem_claim x = (c, y)"
  shows "pmem_ok y" and "same_pmem x y" and "pchunk_ok y c" and "unat (pc_local_ptr c) = plo x + pissued x"
    and "pissued y = pissued x + unat (pc_size c)" and "0 < unat (pc_size c)" and "px_ret y = px_ret x"
proof -
  have ok: "0 < unat (px_poolset_max_size x)" "plo x + plen x < 2 ^ 64" "pro x + plen x < 2 ^ 64"
    using x by (simp_all add: pmem_ok_def)
  have lt: "pissued x < plen x" using more by (simp add: word_less_nat_alt)
  have left: "unat (px_bulk_size x - px_bytes_issued x) = plen x - pissued x"
    using more by (simp add: unat_sub order.strict_implies_order)
  define n where "n = (if px_bulk_size x - px_bytes_issued x > px_poolset_max_size x
    then px_poolset_max_size x else px_bulk_size x - px_bytes_issued x)"
  have n: "unat n = min (unat (px_poolset_max_size x)) (plen x - pissued x)"
    by (auto simp: n_def word_less_nat_alt left min_def)
  have c: "c = \<lparr>pc_size = n, pc_local_ptr = px_local_ptr x + px_bytes_issued x,
      pc_remote_offset = px_remote_offset x + px_bytes_issued x\<rparr>"
    and y: "y = x\<lparr>px_bytes_issued := px_bytes_issued x + n\<rparr>"
    using claim by (auto simp: pmem_claim_def Let_def n_def)
  have sum: "unat (px_bytes_issued x + n) = pissued x + unat n"
    using n lt ok(2) by (subst unat_add_lem [THEN iffD1]) (simp_all add: n)
  have lp: "unat (px_local_ptr x + px_bytes_issued x) = plo x + pissued x"
    "unat (px_remote_offset x + px_bytes_issued x) = pro x + pissued x"
    using ok(2,3) lt by (subst unat_add_lem [THEN iffD1]; simp)+
  show "same_pmem x y" "px_ret y = px_ret x" by (simp_all add: y same_pmem_def)
  show "unat (pc_local_ptr c) = plo x + pissued x" "pissued y = pissued x + unat (pc_size c)"
    by (simp_all add: c y lp sum)
  show "0 < unat (pc_size c)" using ok(1) lt by (simp add: c n)
  show "pmem_ok y" using ok lt n by (simp add: pmem_ok_def y sum)
  show "pchunk_ok y c" using n lt by (simp add: pchunk_ok_def c y lp sum)
qed


section \<open>One step of a thread\<close>

fun ppending :: "pmem_ult \<Rightarrow> pmem_chunk option" where
  "ppending (PGetBuf c) = Some c"
| "ppending (PAccess c h) = Some c"
| "ppending (PPull c h buf) = Some c"
| "ppending (PCopy c h buf) = Some c"
| "ppending _ = None"

definition powned :: "pmem_xfer \<Rightarrow> pmem_ult \<Rightarrow> nat set" where
  "powned x u = (case ppending u of None \<Rightarrow> {}
     | Some c \<Rightarrow> {p. unat (pc_local_ptr c) \<le> plo x + p \<and> plo x + p < unat (pc_local_ptr c) + unat (pc_size c)})"

definition prelayed :: "('w \<Rightarrow> nat \<Rightarrow> byte) \<Rightarrow> pmem_xfer \<Rightarrow> 'w pm \<Rightarrow> nat \<Rightarrow> bool" where
  "prelayed rbyte x s p \<longleftrightarrow> fst s (plo x + p) = rbyte (snd s) (pro x + p)"

fun pult_ok :: "('w \<Rightarrow> nat \<Rightarrow> byte) \<Rightarrow> pmem_xfer \<Rightarrow> 'w pm \<Rightarrow> pmem_ult \<Rightarrow> bool" where
  "pult_ok rbyte x s (PGetBuf c) = pchunk_ok x c"
| "pult_ok rbyte x s (PAccess c h) = pchunk_ok x c"
| "pult_ok rbyte x s (PPull c h buf) = (pchunk_ok x c \<and> length buf = unat (pc_size c))"
| "pult_ok rbyte x s (PCopy c h buf) = (pchunk_ok x c \<and> (px_ret x = 0 \<longrightarrow>
     buf = extent (unat (pc_remote_offset c)) (unat (pc_size c)) (rbyte (snd s))))"
| "pult_ok rbyte x s u = True"

fun pleft :: "pmem_ult \<Rightarrow> bool" where
  "pleft (PFinish h) = True"
| "pleft PCount = True"
| "pleft PSignal = True"
| "pleft PExit = True"
| "pleft _ = False"

definition pmem_frame :: "('w \<Rightarrow> nat \<Rightarrow> byte) \<Rightarrow> pmem_xfer \<Rightarrow> 'w pm \<Rightarrow> 'w pm \<Rightarrow> bool" where
  "pmem_frame rbyte x s s' \<longleftrightarrow> rbyte (snd s') = rbyte (snd s) \<and>
     (\<forall>q. q < plo x \<or> plo x + plen x \<le> q \<longrightarrow> fst s' q = fst s q)"

definition pmem_good :: "'w env \<Rightarrow> ('w \<Rightarrow> nat \<Rightarrow> byte) \<Rightarrow> pmem_xfer \<Rightarrow> 'w pm \<Rightarrow> bool" where
  "pmem_good env rbyte x s \<longleftrightarrow> pull_remote_ok env (px_remote_addr x) (px_remote_bulk x) rbyte \<and>
     local_bulk_ok env rbyte \<and> pmem_ok x"

definition pmem_evolves :: "('w \<Rightarrow> nat \<Rightarrow> byte) \<Rightarrow> pmem_xfer \<Rightarrow> 'w pm \<Rightarrow> pmem_xfer \<Rightarrow> 'w pm \<Rightarrow> bool" where
  "pmem_evolves rbyte x s x' s' \<longleftrightarrow> same_pmem x x' \<and> pissued x \<le> pissued x' \<and>
     (px_ret x \<noteq> 0 \<longrightarrow> px_ret x' \<noteq> 0) \<and> pmem_frame rbyte x s s'"

definition pstep_ok ::
  "('w \<Rightarrow> nat \<Rightarrow> byte) \<Rightarrow> pmem_ult \<Rightarrow> pmem_xfer \<Rightarrow> 'w pm \<Rightarrow> pmem_ult \<Rightarrow> pmem_xfer \<Rightarrow> 'w pm \<Rightarrow> bool" where
  "pstep_ok rbyte u x s u' x' s' \<longleftrightarrow> pmem_ok x' \<and> pmem_evolves rbyte x s x' s' \<and> pult_ok rbyte x' s' u' \<and>
     (pleft u' \<longrightarrow> pleft u \<or> px_ret x' \<noteq> 0 \<or> pissued x' = plen x') \<and>
     (px_ret x' = 0 \<and> u' \<noteq> PAbort \<longrightarrow> (\<forall>p < pissued x'. p \<in> powned x' u' \<or> prelayed rbyte x' s' p \<or>
        p < pissued x \<and> p \<notin> powned x u \<and> (prelayed rbyte x s p \<longrightarrow> prelayed rbyte x' s' p)))"

lemma same_pmem_update [simp]:
  "same_pmem x x" "same_pmem x (x\<lparr>px_ret := r\<rparr>)" "same_pmem x (x\<lparr>px_bytes_retired := v\<rparr>)"
  "same_pmem x (x\<lparr>px_ults_active := n\<rparr>)" "same_pmem x (x\<lparr>px_mutex_freed := b, px_eventual := b'\<rparr>)"
  by (simp_all add: same_pmem_def)

lemma powned_simps [simp]:
  "powned x (PLoop c') = {}" "powned x (PRelease c h) = {}" "powned x (PFinish h) = {}"
  "powned x PCount = {}" "powned x PSignal = {}" "powned x PExit = {}" "powned x PAbort = {}"
  by (simp_all add: powned_def)

lemma same_pmem_cong:
  assumes "same_pmem x y"
  shows "powned y u = powned x u" and "prelayed rbyte y = prelayed rbyte x"
    and "pmem_frame rbyte y = pmem_frame rbyte x"
  using assms by (auto simp: powned_def prelayed_def pmem_frame_def same_pmem_def fun_eq_iff split: option.split)

text \<open>Steps that move no data.\<close>

lemma pstep_quiet:
  assumes "fst s' = fst s" "rbyte (snd s') = rbyte (snd s)"
    and "pmem_ok x" "same_pmem x x'" "px_bytes_issued x' = px_bytes_issued x"
    and "px_ret x \<noteq> 0 \<Longrightarrow> px_ret x' \<noteq> 0" and "pult_ok rbyte x' s' u'"
    and "px_ret x' = 0 \<Longrightarrow> u' \<noteq> PAbort \<Longrightarrow> powned x u \<subseteq> powned x' u'"
    and "pleft u' \<Longrightarrow> pleft u \<or> px_ret x' \<noteq> 0 \<or> pissued x' = plen x'"
  shows "pstep_ok rbyte u x s u' x' s'"
proof -
  have "pmem_ok x'" using assms(3-5) by (simp add: pmem_ok_def same_pmem_def)
  moreover have "prelayed rbyte x' s' p = prelayed rbyte x s p" for p
    using assms(1,2,4) by (simp add: prelayed_def same_pmem_def)
  ultimately show ?thesis
    using assms by (auto simp: pstep_ok_def pmem_evolves_def pmem_frame_def)
qed

lemma pmem_check_cases:
  assumes "pmem_check ret h nx x = (u', x')"
  shows "ret \<noteq> 0 \<and> px_ret x = 0 \<and> u' = PFinish h \<and> x' = x\<lparr>px_ret := ret\<rparr> \<or>
    (ret \<noteq> 0 \<longrightarrow> px_ret x \<noteq> 0) \<and> u' = nx \<and> x' = x"
  using assms unfolding pmem_check_def by (cases "ret \<noteq> 0 \<and> px_ret x = 0") auto

lemma pstep_check:
  assumes "pmem_check ret h nx x = (u', x')"
    and "fst s' = fst s" "rbyte (snd s') = rbyte (snd s)" "pmem_ok x"
    and "(ret \<noteq> 0 \<longrightarrow> px_ret x \<noteq> 0) \<Longrightarrow> pult_ok rbyte x s' nx"
    and "powned x u \<subseteq> powned x nx" and "\<not> pleft nx"
  shows "pstep_ok rbyte u x s u' x' s'"
  using pmem_check_cases [OF assms(1)]
proof (elim disjE conjE)
  assume "ret \<noteq> 0" "px_ret x = 0" "u' = PFinish h" "x' = x\<lparr>px_ret := ret\<rparr>"
  with assms(2-4) show ?thesis by (intro pstep_quiet) simp_all
next
  assume "ret \<noteq> 0 \<longrightarrow> px_ret x \<noteq> 0" "u' = nx" "x' = x"
  with assms(2-7) show ?thesis by (intro pstep_quiet) simp_all
qed

lemma pstep_loop:
  assumes x: "pmem_ok x" and l: "pmem_loop x = (u', x')" and u: "powned x u = {}"
  shows "pstep_ok rbyte u x s u' x' s"
proof (cases "px_bytes_issued x < px_bulk_size x \<and> px_ret x = 0")
  case True
  obtain c y where cl: "pmem_claim x = (c, y)" by fastforce
  have r: "u' = PGetBuf c" "x' = y" using l True by (simp_all add: pmem_loop_def cl)
  note cy = pmem_claim_ok [OF x conjunct1 [OF True] cl]
  have "powned y (PGetBuf c) = {pissued x ..< pissued y}"
    using cy(2,4,5) by (auto simp: powned_def same_pmem_def)
  moreover have "prelayed rbyte y = prelayed rbyte x" by (rule same_pmem_cong [OF cy(2)])
  ultimately show ?thesis
    using cy u by (auto simp: r pstep_ok_def pmem_evolves_def pmem_frame_def)
next
  case False
  then have r: "u' = PFinish HG_BULK_NULL" "x' = x" using l by (auto simp: pmem_loop_def)
  have "px_ret x \<noteq> 0 \<or> pissued x = plen x"
    using False x by (auto simp: pmem_ok_def word_less_nat_alt)
  then show ?thesis using x u r by (intro pstep_quiet) auto
qed

lemma pstep_copy:
  assumes x: "pmem_ok x" and u: "pult_ok rbyte x s (PCopy c h buf)"
    and st: "pmem_xfer_ult env (PCopy c h buf) x s = ((u', x'), s')"
  shows "pstep_ok rbyte (PCopy c h buf) x s u' x' s'"
proof -
  let ?d = "take (unat (pc_size c)) buf"
  have r: "u' = PRelease c h" "x' = x" "s' = (overlay (unat (pc_local_ptr c)) ?d (fst s), snd s)"
    using st by simp_all
  have c: "plo x \<le> unat (pc_local_ptr c)" "unat (pc_local_ptr c) + unat (pc_size c) \<le> plo x + pissued x"
    "unat (pc_remote_offset c) = pro x + (unat (pc_local_ptr c) - plo x)" "pissued x \<le> plen x"
    using u x by (simp_all add: pchunk_ok_def pmem_ok_def)
  have "pmem_frame rbyte x s s'"
    using c by (auto simp: pmem_frame_def r intro!: overlay_outside)
  moreover have "prelayed rbyte x s' p" if r0: "px_ret x = 0" and po: "p \<in> powned x (PCopy c h buf)" for p
  proof -
    have buf: "?d = extent (unat (pc_remote_offset c)) (unat (pc_size c)) (rbyte (snd s))"
      using u r0 by (simp add: take_extent)
    obtain j where j: "plo x + p = unat (pc_local_ptr c) + j" "j < unat (pc_size c)"
      using po by (auto simp: powned_def le_iff_add)
    have "overlay (unat (pc_local_ptr c)) ?d (fst s) (plo x + p) = ?d ! j"
      unfolding j(1) by (rule overlay_inside) (simp add: buf j(2))
    also have "\<dots> = rbyte (snd s) (unat (pc_remote_offset c) + j)" using j(2) by (simp add: buf)
    also have "unat (pc_remote_offset c) + j = pro x + p" using j(1) c(1,3) by linarith
    finally show ?thesis by (simp add: prelayed_def r)
  qed
  moreover have "prelayed rbyte x s' p = prelayed rbyte x s p" if "p \<notin> powned x (PCopy c h buf)" for p
    using that by (auto simp: prelayed_def r powned_def intro!: arg_cong2 [where f = "(=)"] overlay_outside)
  ultimately show ?thesis
    using x by (auto simp: pstep_ok_def pmem_evolves_def r)
qed


lemma pmem_step_ok:
  assumes g: "pmem_good env rbyte x s" and u: "pult_ok rbyte x s u"
    and st: "pmem_xfer_ult env u x s = ((u', x'), s')"
  shows "pstep_ok rbyte u x s u' x' s'"
proof (cases u)
  case (PLoop co)
  have ok: "pmem_ok (x\<lparr>px_bytes_retired := v\<rparr>)" "pmem_ok x" for v
    using g by (simp_all add: pmem_good_def pmem_ok_def)
  show ?thesis
  proof (cases co)
    case None
    then show ?thesis using ok st PLoop by (auto intro: pstep_loop)
  next
    case (Some c)
    let ?x = "x\<lparr>px_bytes_retired := px_bytes_retired x + pc_size c\<rparr>"
    have "pstep_ok rbyte u ?x s u' x' s'" using ok st PLoop Some by (auto intro: pstep_loop)
    moreover have "same_pmem ?x x" by (simp add: same_pmem_def)
    note c = same_pmem_cong [OF this]
    ultimately show ?thesis
      by (simp add: pstep_ok_def pmem_evolves_def PLoop c(2,3) [symmetric] same_pmem_def)
  qed
next
  case (PGetBuf c)
  obtain r h w1 where a: "poolset_get env (pc_size c) (snd s) = ((r, h), w1)" by (metis prod.exhaust)
  have "rbyte w1 = rbyte (snd s)" using g local_bulk_okD(1) [OF _ a] by (simp add: pmem_good_def)
  moreover have "pmem_check r h (PAccess c h) x = (u', x')" "s' = (fst s, w1)"
    using st by (simp_all add: PGetBuf a)
  ultimately show ?thesis
    using g u by (intro pstep_check) (auto simp: PGetBuf powned_def pmem_good_def)
next
  case (PAccess c h)
  obtain r q buf where a: "bulk_access env h (pc_size c) (snd s) = (r, q, buf)" by (metis prod.exhaust)
  show ?thesis
  proof (cases "r = 0")
    case False
    then have "u' = PAbort" "x' = x" "s' = s" using st by (simp_all add: PAccess a)
    then show ?thesis using g by (intro pstep_quiet) (simp_all add: pmem_good_def)
  next
    case True
    then have "u' = PPull c h buf" "x' = x" "s' = s" using st by (simp_all add: PAccess a)
    moreover have "length buf = unat (pc_size c)"
      using True g a by (auto simp: pmem_good_def dest: local_bulk_okD(3))
    ultimately show ?thesis
      using g u by (intro pstep_quiet) (auto simp: PAccess powned_def pmem_good_def)
  qed
next
  case (PPull c h buf)
  obtain r bs w1 where a: "bulk_pull env (px_remote_addr x) (px_remote_bulk x)
      (pc_remote_offset c) (pc_size c) (snd s) = ((r, bs), w1)" by (metis prod.exhaust)
  have po: "rbyte w1 = rbyte (snd s)"
    "r = 0 \<Longrightarrow> bs = extent (unat (pc_remote_offset c)) (unat (pc_size c)) (rbyte (snd s))"
    using g pull_remote_okD [OF _ a] by (auto simp: pmem_good_def)
  have "pmem_check r h (PCopy c h (bs @ drop (length bs) buf)) x = (u', x')" and s': "s' = (fst s, w1)"
    using st by (simp_all add: PPull a)
  moreover have "pult_ok rbyte x s' (PCopy c h (bs @ drop (length bs) buf))" if "r \<noteq> 0 \<longrightarrow> px_ret x \<noteq> 0"
    using that u po by (auto simp: PPull s')
  ultimately show ?thesis
    using g po(1) by (intro pstep_check) (auto simp: PPull powned_def pmem_good_def)
next
  case (PCopy c h buf)
  have "pmem_ok x" using g by (simp add: pmem_good_def)
  then show ?thesis unfolding PCopy by (rule pstep_copy [OF _ u [unfolded PCopy] st [unfolded PCopy]])
next
  case (PRelease c h)
  then show ?thesis
    using st g local_bulk_okD(2) [of env rbyte] by (intro pstep_quiet) (auto simp: pmem_good_def)
next
  case (PFinish h)
  then show ?thesis
    using st g local_bulk_okD(2) [of env rbyte] by (intro pstep_quiet) (auto simp: pmem_good_def)
next
  case PCount
  then show ?thesis using st g by (intro pstep_quiet) (auto simp: Let_def pmem_good_def)
next
  case PSignal
  then show ?thesis using st g by (intro pstep_quiet) (auto simp: pmem_good_def)
next
  case PExit
  then show ?thesis using st g by (intro pstep_quiet) (auto simp: pmem_good_def)
next
  case PAbort
  then show ?thesis using st g by (intro pstep_quiet) (auto simp: pmem_good_def)
qed


section \<open>All interleavings\<close>

fun pweight :: "pmem_ult \<Rightarrow> nat" where
  "pweight (PGetBuf c) = 9"
| "pweight (PAccess c h) = 8"
| "pweight (PPull c h buf) = 7"
| "pweight (PCopy c h buf) = 6"
| "pweight (PRelease c h) = 5"
| "pweight (PLoop co) = 4"
| "pweight (PFinish h) = 3"
| "pweight PCount = 2"
| "pweight PSignal = 1"
| "pweight PExit = 0"
| "pweight PAbort = 0"

abbreviation prest :: "pmem_xfer \<Rightarrow> nat" where "prest x \<equiv> 6 * (plen x - pissued x)"

lemma pweight_decreases:
  assumes "pmem_ok x" and "pkind u \<noteq> Exited" and "pkind u \<noteq> Aborted"
    and "pmem_xfer_ult env u x s = ((u', x'), s')"
  shows "prest x' + pweight u' < prest x + pweight u"
proof -
  have loop: "prest x' + pweight u' < prest y + 4"
    if y: "pmem_ok y" and l: "pmem_loop y = (u', x')" for y
  proof (cases "px_bytes_issued y < px_bulk_size y \<and> px_ret y = 0")
    case True
    obtain c z where cl: "pmem_claim y = (c, z)" by fastforce
    note cy = pmem_claim_ok [OF y conjunct1 [OF True] cl]
    have r: "u' = PGetBuf c" "x' = z" using l True by (simp_all add: pmem_loop_def cl)
    have "plen z = plen y" "pissued z \<le> plen z"
      using cy(1,2) by (simp_all add: same_pmem_def pmem_ok_def)
    then show ?thesis using cy(5,6) by (simp add: r)
  next
    case False
    then show ?thesis using l by (auto simp: pmem_loop_def)
  qed
  show ?thesis
  proof (cases u)
    case (PLoop co)
    have "pmem_ok (x\<lparr>px_bytes_retired := v\<rparr>)" for v using assms(1) by (simp add: pmem_ok_def)
    then show ?thesis
      using assms(1,4) loop [of x] loop [of "x\<lparr>px_bytes_retired := v\<rparr>" for v]
      by (cases co) (auto simp: PLoop)
  qed (use assms(2-4) in \<open>auto simp: pmem_check_def Let_def split: if_splits prod.splits\<close>)
qed

lemma pult_ok_other:
  assumes "pmem_evolves rbyte x s y s'" and "pult_ok rbyte x s u"
  shows "pult_ok rbyte y s' u"
proof -
  have e: "same_pmem x y" "pissued x \<le> pissued y" "px_ret x \<noteq> 0 \<longrightarrow> px_ret y \<noteq> 0"
    "rbyte (snd s') = rbyte (snd s)" using assms(1) by (simp_all add: pmem_evolves_def pmem_frame_def)
  have "pchunk_ok x c \<Longrightarrow> pchunk_ok y c" for c using e(1,2) by (auto simp: pchunk_ok_def same_pmem_def)
  then show ?thesis using assms(2) e(3,4) by (cases u) auto
qed

interpretation pmem_workers: relay_pool "pmem_xfer_ult env" pkind px_ults_active px_eventual prest pweight pmem_ok
  "pmem_good env rbyte" "pult_ok rbyte" "pmem_evolves rbyte" powned "prelayed rbyte" pissued plen
  "\<lambda>x. px_ret x \<noteq> 0" pleft
  for env :: "'w env" and rbyte
proof
  fix u u' :: pmem_ult and x x' x'' and s s' s'' :: "'w pm" and p
  show "(pkind u' = Working \<or> pkind u' = Counting \<or> pkind u' = Aborted) \<and>
      px_ults_active x' = px_ults_active x \<and> px_eventual x' = px_eventual x"
    if "pkind u = Working" "pmem_xfer_ult env u x s = ((u', x'), s')"
    using that by (cases "(env, u, x, s)" rule: pmem_xfer_ult.cases)
      (auto simp: pmem_loop_def pmem_claim_def pmem_check_def Let_def split: if_splits prod.splits)
  show "pkind u' = (if px_ults_active x' = 0 then Signalling else Exited) \<and>
      px_ults_active x' = px_ults_active x - 1 \<and> px_eventual x' = px_eventual x"
    if "pkind u = Counting" "pmem_xfer_ult env u x s = ((u', x'), s')"
    using that by (cases u) (auto simp: Let_def)
  show "pkind u' = Exited \<and> px_ults_active x' = px_ults_active x \<and> px_eventual x'"
    if "pkind u = Signalling" "pmem_xfer_ult env u x s = ((u', x'), s')"
    using that by (cases u) auto
  show "pmem_xfer_ult env u x s = ((u, x), s)" if "pkind u = Exited"
    using that by (cases u) auto
  show "prest x' + pweight u' < prest x + pweight u"
    if "pmem_ok x" "pkind u \<noteq> Exited" "pkind u \<noteq> Aborted" "pmem_xfer_ult env u x s = ((u', x'), s')"
    using that by (rule pweight_decreases)
  show "pmem_ok x" "pissued x \<le> plen x" if "pmem_good env rbyte x s"
    using that by (simp_all add: pmem_good_def pmem_ok_def)
  show "pmem_evolves rbyte x s x'' s''" if "pmem_evolves rbyte x s x' s'" "pmem_evolves rbyte x' s' x'' s''"
    using that by (auto simp: pmem_evolves_def pmem_frame_def same_pmem_def)
  show "pissued x \<le> pissued x' \<and> plen x' = plen x \<and> (px_ret x \<noteq> 0 \<longrightarrow> px_ret x' \<noteq> 0)"
    if "pmem_evolves rbyte x s x' s'"
    using that by (simp add: pmem_evolves_def same_pmem_def)
  show "pult_ok rbyte x' s' u" if "pmem_evolves rbyte x s x' s'" "pult_ok rbyte x s u"
    using that by (rule pult_ok_other)
  show "powned x' u = powned x u" if "pmem_evolves rbyte x s x' s'"
    using that by (intro same_pmem_cong(1)) (simp add: pmem_evolves_def)
  show "pleft u \<and> powned x u = {}" if "pkind u = Exited" using that by (cases u) auto
  show "pmem_good env rbyte x' s' \<and> pult_ok rbyte x' s' u' \<and> pmem_evolves rbyte x s x' s'"
    if "pmem_good env rbyte x s" "pult_ok rbyte x s u" "pmem_xfer_ult env u x s = ((u', x'), s')"
    using pmem_step_ok [OF that] that(1)
    by (auto simp: pstep_ok_def pmem_good_def pmem_evolves_def same_pmem_def)
  show "pleft u \<or> px_ret x' \<noteq> 0 \<or> pissued x' = plen x'"
    if "pmem_good env rbyte x s" "pult_ok rbyte x s u" "pmem_xfer_ult env u x s = ((u', x'), s')" "pleft u'"
    using pmem_step_ok [OF that(1-3)] that(4) by (simp add: pstep_ok_def)
  show "p \<in> powned x' u' \<or> prelayed rbyte x' s' p \<or>
      p < pissued x \<and> p \<notin> powned x u \<and> (prelayed rbyte x s p \<longrightarrow> prelayed rbyte x' s' p)"
    if "pmem_good env rbyte x s" "pult_ok rbyte x s u" "pmem_xfer_ult env u x s = ((u', x'), s')"
      "\<not> px_ret x' \<noteq> 0" "pkind u' \<noteq> Aborted" "p < pissued x'"
    using pmem_step_ok [OF that(1-3)] that(4-6) by (auto simp: pstep_ok_def)
qed

lemma pmem_ult_no_abort:
  assumes "pool_buffers_ok env" and "pkind u \<noteq> Aborted" and "pmem_xfer_ult env u x s = ((u', x'), s')"
  shows "pkind u' \<noteq> Aborted"
proof (cases u)
  case (PAccess c h)
  obtain r q buf where a: "bulk_access env h (pc_size c) (snd s) = (r, q, buf)" by (metis prod.exhaust)
  then have "r = 0" using assms(1) unfolding pool_buffers_ok_def by (metis fst_conv)
  then show ?thesis using assms(3) by (auto simp: PAccess a)
next
  case (PLoop co)
  then show ?thesis using assms(3) by (cases co) (auto simp: pmem_loop_def Let_def split: if_splits prod.splits)
qed (use assms in \<open>auto simp: pmem_check_def Let_def split: if_splits prod.splits\<close>)

lemma pmem_ult_reliable:
  assumes "bulk_reliable env" and "px_ret x = 0" and st: "pmem_xfer_ult env u x s = ((u', x'), s')"
  shows "px_ret x' = 0"
proof -
  have rel: "\<And>addr bulk off n w r bs w'. bulk_pull env addr bulk off n w = ((r, bs), w') \<Longrightarrow> r = 0"
    "\<And>n w r h w'. poolset_get env n w = ((r, h), w') \<Longrightarrow> r = 0"
    using assms(1) unfolding bulk_reliable_def by (metis fst_conv)+
  have loop: "px_ret y = 0 \<Longrightarrow> px_ret (snd (pmem_loop y)) = 0" for y
    by (simp add: pmem_loop_def pmem_claim_def Let_def case_prod_unfold)
  show ?thesis
  proof (cases u)
    case (PLoop co)
    then obtain y where "pmem_loop y = (u', x')" "px_ret y = 0"
      using st assms(2) by (cases co) auto
    then show ?thesis using loop [of y] by simp
  qed (use st rel assms(2) in \<open>auto simp: pmem_check_def Let_def split: prod.splits if_splits\<close>)
qed

lemma pmem_count_ends:
  assumes "0 < unat ps" and "unat sz + unat ps < 2 ^ 64" and "unat i < unat sz + unat ps"
  shows "\<exists>m. pmem_count_ults sz ps i n = Some m \<and> n \<le> m \<and> (i < sz \<longrightarrow> n < m)"
  using assms(3)
proof (induction "unat sz - unat i" arbitrary: i n rule: less_induct)
  case less
  show ?case
  proof (cases "i < sz")
    case True
    then have lt: "unat i < unat sz" by (simp add: word_less_nat_alt)
    have sum: "unat (i + ps) = unat i + unat ps"
      using lt assms(2) by (subst unat_add_lem [THEN iffD1]) simp_all
    have "unat sz - unat (i + ps) < unat sz - unat i" "unat (i + ps) < unat sz + unat ps"
      using assms(1) lt by (simp_all add: sum)
    from less.hyps [OF this, of "Suc n"]
    have "\<exists>m. pmem_count_ults sz ps (i + ps) (Suc n) = Some m \<and> Suc n \<le> m" by blast
    then show ?thesis using True by (subst pmem_count_ults.simps) auto
  qed (subst pmem_count_ults.simps, simp)
qed

end
