(* ===== verification/Pmem_Props.thy ===== *)
theory Pmem_Props
  imports Pmem_Transfer
begin

text \<open>
  Properties of the persistent memory backend: what bulk writes leave in memory with and without
  pipelining and under every interleaving, that they end, round trips of the raw access, the size
  header, and what is durable after a combined create, write and persist.
\<close>

section \<open>Bulk writes\<close>

text \<open>
  A request for at least one byte on an existing object; addresses do not wrap around, and with
  size headers the range lies inside the region.
\<close>

definition pmem_req :: "'w env \<Rightarrow> bool \<Rightarrow> pmem_oid \<Rightarrow> u64 \<Rightarrow> u64 \<Rightarrow> u64 \<Rightarrow> 'w pm \<Rightarrow> bool" where
  "pmem_req env sizecheck oid roff sz boff s \<longleftrightarrow>
     pmemobj_direct env oid (snd s) \<noteq> 0 \<and> 0 < sz \<and>
     unat (pmemobj_direct env oid (snd s)) + 8 + unat roff + unat sz < 2 ^ 64 \<and>
     unat boff + unat sz < 2 ^ 64 \<and>
     0 < unat (poolset_get_max env (snd s)) \<and> unat sz + unat (poolset_get_max env (snd s)) < 2 ^ 64 \<and>
     (sizecheck \<longrightarrow> unat roff + unat sz \<le> unat (region_size (pmemobj_direct env oid (snd s)) (fst s)))"

text \<open>Where the data of a region starts, as a number.\<close>

definition data_at :: "bool \<Rightarrow> u64 \<Rightarrow> nat" where
  "data_at sizecheck region = unat region + (if sizecheck then 8 else 0)"

lemma unat_data_ptr:
  assumes "unat region + 8 + unat off < 2 ^ 64"
  shows "unat (region_data sizecheck region + off) = data_at sizecheck region + unat off"
proof -
  have h: "unat (region_hdr sizecheck) = (if sizecheck then 8 else 0)" by (simp add: region_hdr_def)
  have "unat (region + region_hdr sizecheck) = unat region + unat (region_hdr sizecheck)"
    using assms by (subst unat_add_lem [THEN iffD1]) (simp_all add: h)
  moreover from this have "unat (region + region_hdr sizecheck + off) = unat (region + region_hdr sizecheck) + unat off"
    using assms by (subst unat_add_lem [THEN iffD1]) (simp_all add: h)
  ultimately show ?thesis by (simp add: region_data_def data_at_def h)
qed

definition pmem_start :: "pmem_xfer \<Rightarrow> nat \<Rightarrow> 'w pm \<Rightarrow> (pmem_xfer, pmem_ult, 'w pm) pool_sys" where
  "pmem_start x n s = \<lparr>sys_args = x\<lparr>px_ults_active := int n\<rparr>, sys_ults = replicate n (PLoop None), sys_world = s\<rparr>"

lemma pmem_start_inv:
  assumes "pmem_good env rbyte (x\<lparr>px_ults_active := int n\<rparr>) s" and "px_bytes_issued x = 0"
    and "px_eventual x = False" and "0 < n"
  shows "pmem_workers.relay_inv env rbyte x s (pmem_start x n s)"
    and "pmem_workers.active_inv (pmem_start x n s)" and "\<not> pool_aborted pkind (pmem_start x n s)"
    and "sys_ults (pmem_start x n s) \<noteq> []" and "length (sys_ults (pmem_start x n s)) = n"
  using assms
  by (auto simp: pmem_start_def pmem_workers.relay_inv_def pmem_workers.covered_def
      pmem_workers.active_inv_def pmem_workers.n_alive_def pmem_workers.n_signal_def not_pool_aborted
      pmem_evolves_def pmem_frame_def)

text \<open>The two paths of \<open>write_transfer_data\<close> for an admissible request.\<close>

lemma write_transfer_paths:
  assumes req: "pmem_req env sc oid roff sz boff s"
    and ptr: "ptr = region_data sc (pmemobj_direct env oid (snd s)) + roff"
    and x: "x = pmem_setup env ptr bulk boff sz addr (snd s)"
  shows "write_transfer_data env sc False oid roff bulk boff sz addr sched s =
      (let ((hret, h), w) = bulk_create env ptr sz (snd s)
       in if hret \<noteq> HG_SUCCESS then (Some BAKE_ERR_MERCURY, (fst s, bulk_free env h w))
          else (let ((hret, bs), w) = bulk_pull env addr bulk boff sz w
                in (Some (if hret \<noteq> HG_SUCCESS then BAKE_ERR_MERCURY else 0),
                    (overlay (unat ptr) bs (fst s), bulk_free env h w))))"
    and "\<exists>n > 0. \<forall>sched. write_transfer_data env sc True oid roff bulk boff sz addr sched s =
      (let t = pool_run (pmem_xfer_ult env) pkind sched (pmem_start x n s)
       in if px_eventual (sys_args t) \<and> \<not> pool_aborted pkind t
          then (Some (px_ret (sys_args t)), (fst (sys_world t), bulk_free env HG_BULK_NULL (snd (sys_world t))))
          else (None, sys_world t))"
proof -
  let ?r = "pmemobj_direct env oid (snd s)"
  have q: "?r \<noteq> 0" "unat ?r + 8 + unat roff + unat sz < 2 ^ 64"
    "0 < unat (poolset_get_max env (snd s))" "unat sz + unat (poolset_get_max env (snd s)) < 2 ^ 64" "0 < sz"
    using req by (simp_all add: pmem_req_def)
  have "unat (roff + sz) = unat roff + unat sz" using q(2) by (subst unat_add_lem [THEN iffD1]) simp_all
  then have nb: "\<not> (sc \<and> region_size ?r (fst s) < roff + sz)"
    using req by (auto simp: pmem_req_def word_less_nat_alt)
  obtain m w where s: "s = (m, w)" by fastforce
  have guards: "(pmemobj_direct env oid w = 0) = False"
    "(sc \<and> region_size (pmemobj_direct env oid w) m < roff + sz) = False"
    using q(1) nb by (auto simp: s)
  show "write_transfer_data env sc False oid roff bulk boff sz addr sched s =
      (let ((hret, h), w) = bulk_create env ptr sz (snd s)
       in if hret \<noteq> HG_SUCCESS then (Some BAKE_ERR_MERCURY, (fst s, bulk_free env h w))
          else (let ((hret, bs), w) = bulk_pull env addr bulk boff sz w
                in (Some (if hret \<noteq> HG_SUCCESS then BAKE_ERR_MERCURY else 0),
                    (overlay (unat ptr) bs (fst s), bulk_free env h w))))"
    by (simp only: write_transfer_data_def s ptr Let_def prod.case fst_conv snd_conv guards if_False if_True
        not_False_eq_True)
  have "unat (0 :: u64) < unat sz + unat (poolset_get_max env (snd s))" using q(3) by simp
  from pmem_count_ends [OF q(3,4) this, of 0] obtain n where
    n: "pmem_count_ults sz (poolset_get_max env (snd s)) 0 0 = Some n" "0 < n" using q(5) by auto
  have "write_transfer_data env sc True oid roff bulk boff sz addr sched s =
      (let t = pool_run (pmem_xfer_ult env) pkind sched (pmem_start x n s)
       in if px_eventual (sys_args t) \<and> \<not> pool_aborted pkind t
          then (Some (px_ret (sys_args t)), (fst (sys_world t), bulk_free env HG_BULK_NULL (snd (sys_world t))))
          else (None, sys_world t))" for sched
  proof -
    have "px_poolset_max_size (pmem_setup env p bulk boff sz addr w) = poolset_get_max env w" for p
      by (simp add: pmem_setup_def)
    then show ?thesis
      using n(1) by (simp only: write_transfer_data_def s x ptr pmem_start_def Let_def prod.case fst_conv snd_conv
          guards if_False if_True not_True_eq_False option.case)
  qed
  then show "\<exists>n > 0. \<forall>sched. write_transfer_data env sc True oid roff bulk boff sz addr sched s =
      (let t = pool_run (pmem_xfer_ult env) pkind sched (pmem_start x n s)
       in if px_eventual (sys_args t) \<and> \<not> pool_aborted pkind t
          then (Some (px_ret (sys_args t)), (fst (sys_world t), bulk_free env HG_BULK_NULL (snd (sys_world t))))
          else (None, sys_world t))"
    using n(2) by blast
qed

lemma pmem_setup_good:
  assumes "pull_remote_ok env addr bulk rbyte" and "local_bulk_ok env rbyte"
    and req: "pmem_req env sc oid roff sz boff s"
    and ptr: "ptr = region_data sc (pmemobj_direct env oid (snd s)) + roff"
    and x: "x = pmem_setup env ptr bulk boff sz addr (snd s)"
  shows "pmem_good env rbyte (x\<lparr>px_ults_active := n\<rparr>) s" and "px_bytes_issued x = 0"
    and "px_eventual x = False" and "px_ret x = 0" and "plo x = data_at sc (pmemobj_direct env oid (snd s)) + unat roff"
    and "plen x = unat sz" and "pro x = unat boff"
proof -
  have q: "unat (pmemobj_direct env oid (snd s)) + 8 + unat roff + unat sz < 2 ^ 64"
    "unat boff + unat sz < 2 ^ 64" "0 < unat (poolset_get_max env (snd s))"
    using req by (simp_all add: pmem_req_def)
  have p: "unat ptr = data_at sc (pmemobj_direct env oid (snd s)) + unat roff"
    unfolding ptr using q(1) by (intro unat_data_ptr) simp
  show "px_bytes_issued x = 0" "px_eventual x = False" "px_ret x = 0" "plen x = unat sz" "pro x = unat boff"
    "plo x = data_at sc (pmemobj_direct env oid (snd s)) + unat roff"
    by (simp_all add: x pmem_setup_def p)
  have "data_at sc (pmemobj_direct env oid (snd s)) + unat roff + unat sz < 2 ^ 64"
    using q(1) by (simp add: data_at_def)
  then show "pmem_good env rbyte (x\<lparr>px_ults_active := n\<rparr>) s"
    using assms(1,2) q by (simp add: pmem_good_def pmem_ok_def x pmem_setup_def p)
qed

lemma overlay_extentI:
  assumes "\<And>i. i < n \<Longrightarrow> g (o1 + i) = h (o2 + i)" and "\<And>q. q < o1 \<or> o1 + n \<le> q \<Longrightarrow> g q = f q"
  shows "g = overlay o1 (extent o2 n h) f"
proof
  fix q
  show "g q = overlay o1 (extent o2 n h) f q"
    using assms(1) [of "q - o1"] assms(2) [of q] by (auto simp: overlay_def)
qed


lemma write_transfer_result:
  assumes env: "pull_remote_ok env addr bulk rbyte" "local_bulk_ok env rbyte"
    and req: "pmem_req env sc oid roff sz boff s"
    and run: "write_transfer_data env sc pl oid roff bulk boff sz addr sched s = (res, s')"
    and d: "d = data_at sc (pmemobj_direct env oid (snd s)) + unat roff"
  shows "rbyte (snd s') = rbyte (snd s)"
    and "q < d \<or> d + unat sz \<le> q \<Longrightarrow> fst s' q = fst s q"
    and "res = Some 0 \<Longrightarrow> fst s' = overlay d (extent (unat boff) (unat sz) (rbyte (snd s))) (fst s)"
proof -
  define ptr where ptr: "ptr = region_data sc (pmemobj_direct env oid (snd s)) + roff"
  define x where x: "x = pmem_setup env ptr bulk boff sz addr (snd s)"
  note sg = pmem_setup_good [OF env req ptr x] and paths = write_transfer_paths [OF req ptr x]
  have dp: "unat ptr = d" using sg(5) d by (simp add: x pmem_setup_def)
  have "rbyte (snd s') = rbyte (snd s) \<and> (\<forall>q. q < d \<or> d + unat sz \<le> q \<longrightarrow> fst s' q = fst s q) \<and>
    (res = Some 0 \<longrightarrow> fst s' = overlay d (extent (unat boff) (unat sz) (rbyte (snd s))) (fst s))"
  proof (cases pl)
    case False
    obtain h1 h w1 where bc: "bulk_create env ptr sz (snd s) = ((h1, h), w1)" by (metis prod.exhaust)
    obtain h2 bs w2 where bp: "bulk_pull env addr bulk boff sz w1 = ((h2, bs), w2)" by (metis prod.exhaust)
    note po = pull_remote_okD [OF env(1) bp]
    have r: "rbyte w1 = rbyte (snd s)" "rbyte (bulk_free env h w) = rbyte w" for h w
      using local_bulk_okD(4) [OF env(2) bc] local_bulk_okD(5) [OF env(2)] by simp_all
    have "(res, s') = (if h1 \<noteq> HG_SUCCESS then (Some BAKE_ERR_MERCURY, (fst s, bulk_free env h w1))
        else (Some (if h2 \<noteq> HG_SUCCESS then BAKE_ERR_MERCURY else 0), (overlay d bs (fst s), bulk_free env h w2)))"
      using run paths(1) [of sched] False by (simp add: bc bp dp Let_def cong: if_cong)
    then show ?thesis
      using po r by (auto simp: HG_SUCCESS_def bake_err_defs split: if_splits intro!: overlay_outside)
  next
    case True
    obtain n where n: "0 < n" and eq: "(res, s') =
      (let t = pool_run (pmem_xfer_ult env) pkind sched (pmem_start x n s)
       in if px_eventual (sys_args t) \<and> \<not> pool_aborted pkind t
          then (Some (px_ret (sys_args t)), (fst (sys_world t), bulk_free env HG_BULK_NULL (snd (sys_world t))))
          else (None, sys_world t))"
      using paths(2) run True by auto
    define t where "t = pool_run (pmem_xfer_ult env) pkind sched (pmem_start x n s)"
    have rt: "fst s' = fst (sys_world t)" "rbyte (snd s') = rbyte (snd (sys_world t))"
      "res = Some 0 \<Longrightarrow> px_eventual (sys_args t) \<and> \<not> pool_aborted pkind t \<and> px_ret (sys_args t) = 0"
      using eq local_bulk_okD(5) [OF env(2)] by (auto simp: t_def Let_def split: if_splits)
    note st = pmem_start_inv [OF sg(1,2,3) n]
    have inv: "pmem_workers.relay_inv env rbyte x s t" and act: "pmem_workers.active_inv t"
      unfolding t_def by (rule pmem_workers.run_relay [OF st(1)], rule pmem_workers.run_active [OF st(2)])
    then have ev: "pmem_evolves rbyte x s (sys_args t) (sys_world t)" by (simp add: pmem_workers.relay_inv_def)
    then have fr: "pmem_frame rbyte x s (sys_world t)" "same_pmem x (sys_args t)"
      by (simp_all add: pmem_evolves_def)
    have out: "fst s' q = fst s q" if "q < d \<or> d + unat sz \<le> q" for q
      using fr(1) that sg(5,6) d by (auto simp: pmem_frame_def rt(1))
    moreover have "fst s' = overlay d (extent (unat boff) (unat sz) (rbyte (snd s))) (fst s)" if r0: "res = Some 0"
    proof (rule overlay_extentI)
      fix i assume i: "i < unat sz"
      have "length (sys_ults t) = n" using st(5) by (simp add: t_def)
      then have "sys_ults t \<noteq> []" using n by auto
      then have "prelayed rbyte (sys_args t) (sys_world t) i"
        using pmem_workers.signalled_all_relayed [OF inv act] rt(3) [OF r0] i sg(6) by simp
      then show "fst s' (d + i) = rbyte (snd s) (unat boff + i)"
        using fr sg(5,7) d by (simp add: prelayed_def rt(1) same_pmem_def pmem_frame_def)
    qed (rule out)
    ultimately show ?thesis using fr(1) rt(2) by (simp add: pmem_frame_def)
  qed
  then show "rbyte (snd s') = rbyte (snd s)" "q < d \<or> d + unat sz \<le> q \<Longrightarrow> fst s' q = fst s q"
    "res = Some 0 \<Longrightarrow> fst s' = overlay d (extent (unat boff) (unat sz) (rbyte (snd s))) (fst s)"
    by blast+
qed

lemma write_transfer_completes:
  assumes env: "pull_remote_ok env addr bulk rbyte" "local_bulk_ok env rbyte" "pool_buffers_ok env"
    and req: "pmem_req env sc oid roff sz boff s"
  shows "\<exists>n turns. \<forall>sched. (\<forall>i < n. turns \<le> count_list sched i) \<longrightarrow>
    (\<exists>ret s'. write_transfer_data env sc True oid roff bulk boff sz addr sched s = (Some ret, s') \<and>
      (bulk_reliable env \<longrightarrow> ret = 0))"
proof -
  define ptr where ptr: "ptr = region_data sc (pmemobj_direct env oid (snd s)) + roff"
  define x where x: "x = pmem_setup env ptr bulk boff sz addr (snd s)"
  note sg = pmem_setup_good [OF env(1,2) req ptr x]
  obtain n where n: "0 < n" and eq: "\<And>sched. write_transfer_data env sc True oid roff bulk boff sz addr sched s =
      (let t = pool_run (pmem_xfer_ult env) pkind sched (pmem_start x n s)
       in if px_eventual (sys_args t) \<and> \<not> pool_aborted pkind t
          then (Some (px_ret (sys_args t)), (fst (sys_world t), bulk_free env HG_BULK_NULL (snd (sys_world t))))
          else (None, sys_world t))"
    using write_transfer_paths(2) [OF req ptr x] by metis
  note st = pmem_start_inv [OF sg(1,2,3) n]
  let ?s = "pmem_start x n s"
  have "\<exists>ret s'. write_transfer_data env sc True oid roff bulk boff sz addr sched s = (Some ret, s') \<and>
      (bulk_reliable env \<longrightarrow> ret = 0)"
    if turns: "\<forall>i < n. Suc (pmem_workers.pool_measure ?s) \<le> count_list sched i" for sched
  proof -
    let ?r = "pool_run (pmem_xfer_ult env) pkind sched ?s"
    have na: "pkind u' \<noteq> Aborted" if "pkind u \<noteq> Aborted" "pmem_xfer_ult env u y v = ((u', y'), v')" for u y v u' y' v'
      using pmem_ult_no_abort [OF env(3) that] .
    have t: "pmem_workers.pool_measure ?s < count_list sched i" if "i < length (sys_ults ?s)" for i
      using turns that st(5) by auto
    have "px_eventual (sys_args ?r)" "\<not> pool_aborted pkind ?r"
      by (rule pmem_workers.fair_relay_signals [OF na st(1,3,2,4) t], assumption+)+
    moreover have "px_ret (sys_args ?r) = 0" if "bulk_reliable env"
    proof -
      have "\<not> px_ret y' \<noteq> 0" if "\<not> px_ret y \<noteq> 0" "pmem_xfer_ult env u y v = ((u', y'), v')" for y v u u' y' v'
        using pmem_ult_reliable [OF \<open>bulk_reliable env\<close> _ that(2)] that(1) by simp
      from pmem_workers.run_not_failed [OF this st(1)] sg(4) show ?thesis by (simp add: pmem_start_def)
    qed
    ultimately show ?thesis by (simp add: eq Let_def)
  qed
  then show ?thesis by blast
qed


text \<open>C5: A bulk write into a persistent memory region, pipelined or not and under every interleaving
  of the transfer threads, changes no byte of memory outside the requested range and no byte of the
  client's buffer, and when it returns success the range holds exactly the client's bytes.\<close>
theorem pmem_write_bulk_correct:
  assumes "pull_remote_ok env source bulk rbyte" and "local_bulk_ok env rbyte"
    and "pmem_req env sizecheck (prid_oid rid) off sz boff (m, w)"
    and "bake_pmem_write_bulk env sizecheck pipeline rid off sz bulk source boff sched (m, w) = (res, (m', w'))"
    and "d = data_at sizecheck (pmemobj_direct env (prid_oid rid) w) + unat off"
  shows "rbyte w' = rbyte w \<and> (\<forall>q. q < d \<or> d + unat sz \<le> q \<longrightarrow> m' q = m q) \<and>
    (res = Some BAKE_SUCCESS \<longrightarrow> m' = overlay d (extent (unat boff) (unat sz) (rbyte w)) m)"
  using write_transfer_result [OF assms(1-3) assms(4) [unfolded bake_pmem_write_bulk_def]] assms(5)
  by (auto simp: BAKE_SUCCESS_def)

text \<open>Registering local memory for the direct path does not fail.\<close>

definition bulk_create_reliable :: "'w env \<Rightarrow> bool" where
  "bulk_create_reliable env \<longleftrightarrow> (\<forall>p n w. fst (fst (bulk_create env p n w)) = 0)"

lemma write_transfer_direct:
  assumes "bulk_reliable env" and "bulk_create_reliable env"
    and "pmem_req env sc oid roff sz boff s"
  shows "fst (write_transfer_data env sc False oid roff bulk boff sz addr sched s) = Some 0"
proof -
  define ptr where ptr: "ptr = region_data sc (pmemobj_direct env oid (snd s)) + roff"
  obtain h1 h w1 where bc: "bulk_create env ptr sz (snd s) = ((h1, h), w1)" by (metis prod.exhaust)
  obtain h2 bs w2 where bp: "bulk_pull env addr bulk boff sz w1 = ((h2, bs), w2)" by (metis prod.exhaust)
  have "h1 = 0" using assms(2) bc unfolding bulk_create_reliable_def by (metis fst_conv)
  moreover have "h2 = 0" using assms(1) bp unfolding bulk_reliable_def by (metis fst_conv)
  ultimately show ?thesis
    using write_transfer_paths(1) [OF assms(3) ptr refl] by (simp add: bc bp Let_def HG_SUCCESS_def)
qed

text \<open>C6: Pipelining is transparent for admissible requests of at least one byte: when no call of the
  libraries fails and every transfer thread gets enough turns, the pipelined bulk write returns success and leaves in memory exactly what the single direct transfer
  leaves, whatever the interleaving.\<close>
theorem pmem_pipeline_equiv:
  assumes "pull_remote_ok env source bulk rbyte" and "local_bulk_ok env rbyte" and "pool_buffers_ok env"
    and "bulk_reliable env" and "bulk_create_reliable env"
    and "pmem_req env sizecheck (prid_oid rid) off sz boff s"
  shows "\<exists>n turns. \<forall>sched. (\<forall>i < n. turns \<le> count_list sched i) \<longrightarrow>
    (\<exists>s1 s2. bake_pmem_write_bulk env sizecheck True rid off sz bulk source boff sched s = (Some BAKE_SUCCESS, s1) \<and>
      bake_pmem_write_bulk env sizecheck False rid off sz bulk source boff sched s = (Some BAKE_SUCCESS, s2) \<and>
      fst s1 = fst s2)"
proof -
  let ?wt = "\<lambda>pl sched. write_transfer_data env sizecheck pl (prid_oid rid) off bulk boff sz source sched s"
  obtain n turns where run: "\<And>sched. (\<forall>i < n. turns \<le> count_list sched i) \<Longrightarrow>
      \<exists>s1. ?wt True sched = (Some 0, s1)"
    using write_transfer_completes [OF assms(1,2,3,6)] assms(4) by metis
  have "\<exists>s1 s2. ?wt True sched = (Some 0, s1) \<and> ?wt False sched = (Some 0, s2) \<and> fst s1 = fst s2"
    if fair: "\<forall>i < n. turns \<le> count_list sched i" for sched
  proof -
    obtain s1 where s1: "?wt True sched = (Some 0, s1)" using run [OF fair] by blast
    obtain s2 where s2: "?wt False sched = (Some 0, s2)"
      using write_transfer_direct [OF assms(4-6), of bulk source sched] by (metis prod.collapse)
    note e = write_transfer_result(3) [OF assms(1,2,6) _ refl refl]
    show ?thesis using e [OF s1] e [OF s2] s1 s2 by simp
  qed
  then show ?thesis unfolding bake_pmem_write_bulk_def BAKE_SUCCESS_def by blast
qed

section \<open>Raw access and the size header\<close>

lemma region_size_set: "region_size region (set_region_size region sz m) = sz"
  by (simp add: region_size_def set_region_size_def extent_overlay_prefix)

lemma region_size_overlay:
  assumes "unat region + 8 \<le> p"
  shows "region_size region (overlay p bs m) = region_size region m"
  using assms by (simp add: region_size_def extent_overlay_disjoint)

text \<open>A raw write that returns success followed by a raw read of the same range.\<close>

lemma raw_write_then_read:
  assumes "unat (pmemobj_direct env (prid_oid rid) w) + 8 + unat off + unat sz < 2 ^ 64"
    and "unat sz \<le> length data"
    and "bake_pmem_write_raw env sizecheck rid off sz data (m, w) = (BAKE_SUCCESS, (m', w'))"
    and "ptr = region_data sizecheck (pmemobj_direct env (prid_oid rid) w) + off"
  shows "pmemobj_direct env (prid_oid rid) w \<noteq> 0" and "w' = w" and "m' = overlay (unat ptr) (take (unat sz) data) m"
    and "unat ptr = data_at sizecheck (pmemobj_direct env (prid_oid rid) w) + unat off"
    and "bake_pmem_read_raw env sizecheck rid off sz (m', w') = (BAKE_SUCCESS, ptr, sz)"
    and "extent (unat ptr) (unat sz) m' = take (unat sz) data"
proof -
  let ?r = "pmemobj_direct env (prid_oid rid) w"
  show r: "?r \<noteq> 0" "w' = w" "m' = overlay (unat ptr) (take (unat sz) data) m"
    using assms(3,4) by (auto simp: bake_pmem_write_raw_def Let_def bake_err_defs split: if_splits)
  have b: "\<not> (sizecheck \<and> region_size ?r m < sz + off)"
    using assms(3) by (auto simp: bake_pmem_write_raw_def Let_def bake_err_defs split: if_splits)
  show p: "unat ptr = data_at sizecheck ?r + unat off" unfolding assms(4) using assms(1) by (intro unat_data_ptr) simp
  have sum: "unat (off + sz) = unat off + unat sz"
    using assms(1) by (subst unat_add_lem [THEN iffD1]) simp_all
  have le: "off \<le> off + sz" using sum by (simp add: word_le_nat_alt)
  have hdr: "region_size ?r m' = region_size ?r m" if sizecheck
    using that p by (simp add: r(3) region_size_overlay data_at_def)
  have nb: "\<not> (sizecheck \<and> region_size ?r m' < off + sz)" "\<not> (sizecheck \<and> region_size ?r m' < off)"
    using b hdr le by (auto simp: add.commute)
  show "bake_pmem_read_raw env sizecheck rid off sz (m', w') = (BAKE_SUCCESS, ptr, sz)"
    using r(1) nb by (auto simp: bake_pmem_read_raw_def Let_def r(2) assms(4))
  show "extent (unat ptr) (unat sz) m' = take (unat sz) data"
    using assms(2) extent_overlay_prefix [of "unat sz" "take (unat sz) data"] by (simp add: r(3))
qed

text \<open>A raw write that returns success is visible: a raw read of the same range returns success, the
  requested size and an address at which memory holds the written bytes; it is the address that
  \<open>get_region_data\<close> reports, plus the offset. Bytes outside the range, the size header included,
  keep their value.\<close>
theorem pmem_write_read_raw:
  assumes "unat (pmemobj_direct env (prid_oid rid) w) + 8 + unat off + unat sz < 2 ^ 64"
    and "unat sz \<le> length data"
    and "bake_pmem_write_raw env sizecheck rid off sz data (m, w) = (BAKE_SUCCESS, (m', w'))"
  shows "\<exists>base. bake_pmem_get_region_data env sizecheck rid (m', w') = (BAKE_SUCCESS, Some base) \<and>
    bake_pmem_read_raw env sizecheck rid off sz (m', w') = (BAKE_SUCCESS, base + off, sz) \<and>
    extent (unat (base + off)) (unat sz) m' = take (unat sz) data \<and>
    (\<forall>q. q < unat (base + off) \<or> unat (base + off) + unat sz \<le> q \<longrightarrow> m' q = m q) \<and>
    bake_pmem_get_region_size env sizecheck rid (m', w') = bake_pmem_get_region_size env sizecheck rid (m, w)"
proof -
  let ?r = "pmemobj_direct env (prid_oid rid) w"
  note x = raw_write_then_read [OF assms refl]
  have "region_size ?r m' = region_size ?r m" if sizecheck
    using that x(4) by (simp add: x(3) region_size_overlay data_at_def)
  moreover have "m' q = m q" if "q < unat (region_data sizecheck ?r + off) \<or> unat (region_data sizecheck ?r + off) + unat sz \<le> q" for q
    using that assms(2) by (simp add: x(3) overlay_outside min_absorb2)
  ultimately show ?thesis
    using x by (auto simp: bake_pmem_get_region_data_def bake_pmem_get_region_size_def)
qed


section \<open>Create, write and persist\<close>

text \<open>
  \<open>durable w\<close> is what survives a crash. \<open>pmemobj_persist\<close> makes the given bytes durable and does
  not move objects.
\<close>

definition persist_ok :: "'w env \<Rightarrow> ('w \<Rightarrow> nat \<Rightarrow> byte) \<Rightarrow> bool" where
  "persist_ok env durable \<longleftrightarrow>
    (\<forall>p d w. durable (pmemobj_persist env p d w) = overlay (unat p) d (durable w) \<and>
      (\<forall>oid. pmemobj_direct env oid (pmemobj_persist env p d w) = pmemobj_direct env oid w))"

lemma persist_okD:
  assumes "persist_ok env durable"
  shows "durable (pmemobj_persist env p d w) = overlay (unat p) d (durable w)"
    and "pmemobj_direct env oid (pmemobj_persist env p d w) = pmemobj_direct env oid w"
  using assms by (simp_all add: persist_ok_def)

lemma extent_overlay_extent:
  assumes "off \<le> o1" and "o1 + k \<le> off + n"
  shows "extent o1 k (overlay off (extent off n m) f) = extent o1 k m"
  using assms by (intro extent_cong) (auto simp: overlay_def)

text \<open>What both forms of the operation end with: the header and the data are in memory and persisted.\<close>

lemma persisted_region:
  assumes "persist_ok env durable" and "region \<noteq> 0" and "unat region + 8 + unat sz < 2 ^ 64"
    and "region = pmemobj_direct env oid w"
    and cs: "content_size = (if sc then sz + 8 else sz)"
    and data: "extent (unat (region_data sc region)) (unat sz) m = bs" and hdr: "sc \<Longrightarrow> region_size region m = sz"
    and w': "w' = pmemobj_persist env region (extent (unat region) (unat content_size) m) w"
    and rid: "prid_oid rid = oid"
  shows "\<exists>base. bake_pmem_get_region_data env sc rid (m, w') = (BAKE_SUCCESS, Some base) \<and>
      extent (unat base) (unat sz) m = bs \<and> extent (unat base) (unat sz) (durable w') = bs \<and>
      (sc \<longrightarrow> bake_pmem_get_region_size env sc rid (m, w') = (BAKE_SUCCESS, Some sz) \<and>
         bake_pmem_get_region_size env sc rid (durable w', w') = (BAKE_SUCCESS, Some sz))"
proof -
  have n: "unat content_size = unat sz + (if sc then 8 else 0)"
    using assms(3) unfolding cs by (auto simp: unat_add_lem [THEN iffD1])
  have d: "unat (region_data sc region) = data_at sc region"
    using unat_data_ptr [of region 0 sc] assms(3) by simp
  have r': "pmemobj_direct env (prid_oid rid) w' = region"
    using assms(4) by (simp add: w' rid persist_okD(2) [OF assms(1)])
  have dur: "durable w' = overlay (unat region) (extent (unat region) (unat content_size) m) (durable w)"
    by (simp add: w' persist_okD(1) [OF assms(1)])
  have "extent (data_at sc region) (unat sz) (durable w') = bs"
    unfolding dur using data d n by (subst extent_overlay_extent) (auto simp: data_at_def)
  moreover have "region_size region (durable w') = sz" if sc
    unfolding region_size_def dur using hdr that n
    by (subst extent_overlay_extent) (auto simp: region_size_def)
  ultimately show ?thesis
    using assms(2) data d hdr
    by (auto simp: bake_pmem_get_region_data_def bake_pmem_get_region_size_def r' Let_def)
qed

text \<open>C25: When the combined create, write and persist of a raw buffer returns success, the new region holds
  the buffer both in memory and durably, and with size headers its recorded size, in memory and
  durably, is the size of the buffer.\<close>
theorem pmem_cwp_raw_durable:
  assumes "persist_ok env durable" and "unat sz \<le> length data"
    and "bake_pmem_create_write_persist_raw env sizecheck entry data sz rid (m, w) = ((BAKE_SUCCESS, rid'), (m', w'))"
    and "unat (pmemobj_direct env (prid_oid rid') w') + 8 + unat sz < 2 ^ 64"
  shows "\<exists>base. bake_pmem_get_region_data env sizecheck rid' (m', w') = (BAKE_SUCCESS, Some base) \<and>
    extent (unat base) (unat sz) m' = take (unat sz) data \<and>
    extent (unat base) (unat sz) (durable w') = take (unat sz) data \<and>
    (sizecheck \<longrightarrow> bake_pmem_get_region_size env sizecheck rid' (m', w') = (BAKE_SUCCESS, Some sz) \<and>
       bake_pmem_get_region_size env sizecheck rid' (durable w', w') = (BAKE_SUCCESS, Some sz))"
proof -
  let ?cs = "if sizecheck then sz + 8 else sz"
  obtain ret oid w1 where al: "pmemobj_alloc env (pmem_pool_of entry) ?cs w = ((ret, oid), w1)"
    by (metis prod.exhaust)
  let ?r = "pmemobj_direct env oid w1"
  let ?m = "overlay (unat (region_data sizecheck ?r)) (take (unat sz) data)
    (if sizecheck then set_region_size ?r sz m else m)"
  have e: "ret = 0" "?r \<noteq> 0" "rid' = rid\<lparr>rid_data := oid\<rparr>" "m' = ?m"
    "w' = pmemobj_persist env ?r (extent (unat ?r) (unat ?cs) ?m) w1"
    using assms(3) by (auto simp: bake_pmem_create_write_persist_raw_def al prid_oid_def Let_def bake_err_defs
        split: if_splits)
  have o: "prid_oid rid' = oid" by (simp add: e(3) prid_oid_def)
  have b: "unat ?r + 8 + unat sz < 2 ^ 64"
    using assms(4) by (simp only: o) (simp add: e(5) persist_okD(2) [OF assms(1)])
  have "unat (region_data sizecheck ?r) = data_at sizecheck ?r"
    using unat_data_ptr [of ?r 0 sizecheck] b by simp
  then have "region_size ?r ?m = sz" if sizecheck
    using that by (simp add: region_size_overlay data_at_def region_size_set)
  moreover have "extent (unat (region_data sizecheck ?r)) (unat sz) ?m = take (unat sz) data"
    using assms(2) extent_overlay_prefix [of "unat sz" "take (unat sz) data"] by simp
  ultimately show ?thesis
    unfolding e(4) by (intro persisted_region [OF assms(1) e(2) b refl refl _ _ e(5) o])
qed

text \<open>A new region whose old header is too small for the request refuses the transfer; otherwise the
  request is admissible.\<close>

lemma new_region_transfer:
  assumes "pmemobj_direct env oid w = r" and "r \<noteq> 0"
    and "write_transfer_data env sc pl oid 0 bulk boff sz addr sched (m, w) = (tr, s')"
  shows "sc \<Longrightarrow> region_size r m < sz \<Longrightarrow> tr = Some BAKE_ERR_OUT_OF_BOUNDS \<and> s' = (m, w)"
    and "\<not> (sc \<and> region_size r m < sz) \<Longrightarrow> 0 < sz \<Longrightarrow> unat r + 8 + unat sz < 2 ^ 64 \<Longrightarrow>
      unat boff + unat sz < 2 ^ 64 \<Longrightarrow> 0 < unat (poolset_get_max env w) \<Longrightarrow>
      unat sz + unat (poolset_get_max env w) < 2 ^ 64 \<Longrightarrow> pmem_req env sc oid 0 sz boff (m, w)"
  using assms by (auto simp: write_transfer_data_def pmem_req_def Let_def not_less word_le_nat_alt)

text \<open>C33: the combined create, write and persist of a bulk handle, when the allocation has succeeded.
  If it returns, it returns success and the id of the new region, whatever became of the transfer.
  If the transfer returned 0, the region holds the client's bytes and, with size headers, the
  size, both in memory and durably. Otherwise nothing is persisted and memory outside the range of
  the transfer is as before. With size headers the transfer is checked against the header that
  the allocation left in the region: if that is smaller than the request, the transfer is refused
  and the operation returns success with nothing stored.\<close>
theorem pmem_cwp_bulk_result:
  assumes "pull_remote_ok env source bulk rbyte" and "local_bulk_ok env rbyte" and "persist_ok env durable"
    and "pmemobj_alloc env (pmem_pool_of entry) (if sizecheck then sz + 8 else sz) w = ((0, oid), w1)"
    and "pmemobj_direct env oid w1 = r" and "r \<noteq> 0" and "0 < sz" and "unat r + 8 + unat sz < 2 ^ 64"
    and "unat boff + unat sz < 2 ^ 64" and "0 < unat (poolset_get_max env w1)"
    and "unat sz + unat (poolset_get_max env w1) < 2 ^ 64"
    and "write_transfer_data env sizecheck pipeline oid 0 bulk boff sz source sched (m, w1) = (tr, (m2, w2))"
    and "pmemobj_direct env oid w2 = r"
    and "bake_pmem_create_write_persist_bulk env sizecheck pipeline entry bulk source boff sz rid sched (m, w) =
      (res, (m', w'))"
  shows "res = map_option (\<lambda>_. (BAKE_SUCCESS, rid\<lparr>rid_data := oid\<rparr>)) tr \<and>
    (tr = Some BAKE_SUCCESS \<longrightarrow>
      (\<exists>base. bake_pmem_get_region_data env sizecheck (rid\<lparr>rid_data := oid\<rparr>) (m', w') = (BAKE_SUCCESS, Some base) \<and>
        extent (unat base) (unat sz) m' = extent (unat boff) (unat sz) (rbyte w1) \<and>
        extent (unat base) (unat sz) (durable w') = extent (unat boff) (unat sz) (rbyte w1) \<and>
        (sizecheck \<longrightarrow> bake_pmem_get_region_size env sizecheck (rid\<lparr>rid_data := oid\<rparr>) (m', w') = (BAKE_SUCCESS, Some sz) \<and>
          bake_pmem_get_region_size env sizecheck (rid\<lparr>rid_data := oid\<rparr>) (durable w', w') = (BAKE_SUCCESS, Some sz)))) \<and>
    (tr \<noteq> Some BAKE_SUCCESS \<longrightarrow> m' = m2 \<and> w' = w2 \<and>
      (\<forall>q. q < data_at sizecheck r \<or> data_at sizecheck r + unat sz \<le> q \<longrightarrow> m' q = m q)) \<and>
    (sizecheck \<and> region_size r m < sz \<longrightarrow> tr = Some BAKE_ERR_OUT_OF_BOUNDS \<and> m' = m \<and> w' = w1)"
proof -
  let ?rid = "rid\<lparr>rid_data := oid\<rparr>" and ?cs = "if sizecheck then sz + 8 else sz"
  let ?m = "if sizecheck then set_region_size r sz m2 else m2"
  have o: "prid_oid ?rid = oid" by (simp add: prid_oid_def)
  have out: "(res, (m', w')) = (case tr of None \<Rightarrow> (None, (m2, w2)) | Some ret \<Rightarrow>
      if ret = BAKE_SUCCESS then (Some (BAKE_SUCCESS, ?rid), (?m, pmemobj_persist env r (extent (unat r) (unat ?cs) ?m) w2))
      else (Some (BAKE_SUCCESS, ?rid), (m2, w2)))"
    using assms(4,6,12-14) by (auto simp: bake_pmem_create_write_persist_bulk_def Let_def o split: option.splits)
  note nt = new_region_transfer [OF assms(5,6,12)]
  have req: "pmem_req env sizecheck oid 0 sz boff (m, w1)" if "\<not> (sizecheck \<and> region_size r m < sz)"
    using nt(2) that assms(7-11) by blast
  have "\<exists>base. bake_pmem_get_region_data env sizecheck ?rid (m', w') = (BAKE_SUCCESS, Some base) \<and>
      extent (unat base) (unat sz) m' = extent (unat boff) (unat sz) (rbyte w1) \<and>
      extent (unat base) (unat sz) (durable w') = extent (unat boff) (unat sz) (rbyte w1) \<and>
      (sizecheck \<longrightarrow> bake_pmem_get_region_size env sizecheck ?rid (m', w') = (BAKE_SUCCESS, Some sz) \<and>
        bake_pmem_get_region_size env sizecheck ?rid (durable w', w') = (BAKE_SUCCESS, Some sz))"
    if t: "tr = Some BAKE_SUCCESS"
  proof -
    have q: "pmem_req env sizecheck oid 0 sz boff (m, w1)" using req nt(1) t by (auto simp: bake_err_defs)
    have "tr = Some 0" using t by (simp add: BAKE_SUCCESS_def)
    from write_transfer_result(3) [OF assms(1,2) q assms(12) refl this]
    have m2: "m2 = overlay (data_at sizecheck r) (extent (unat boff) (unat sz) (rbyte w1)) m" by (simp add: assms(5))
    have d: "unat (region_data sizecheck r) = data_at sizecheck r"
      using unat_data_ptr [of r 0 sizecheck] assms(8) by simp
    have "?m q = m2 q" if "data_at sizecheck r \<le> q" for q
      using that by (auto simp: set_region_size_def data_at_def intro!: overlay_outside)
    then have "extent (unat (region_data sizecheck r)) (unat sz) ?m = extent (data_at sizecheck r) (unat sz) m2"
      unfolding d by (intro extent_cong) simp
    also have "\<dots> = extent (unat boff) (unat sz) (rbyte w1)" by (simp add: m2 extent_overlay_prefix)
    finally have data: "extent (unat (region_data sizecheck r)) (unat sz) ?m = extent (unat boff) (unat sz) (rbyte w1)" .
    have hdr: "region_size r ?m = sz" if sizecheck using that by (simp add: region_size_set)
    have e: "m' = ?m" "w' = pmemobj_persist env r (extent (unat r) (unat ?cs) ?m) w2"
      using out t by simp_all
    show ?thesis unfolding e(1)
      by (rule persisted_region [OF assms(3,6,8) assms(13) [symmetric] refl data hdr e(2) o])
  qed
  moreover have "m' q = m q" if "tr \<noteq> Some BAKE_SUCCESS" "q < data_at sizecheck r \<or> data_at sizecheck r + unat sz \<le> q" for q
  proof (cases "sizecheck \<and> region_size r m < sz")
    case True
    with nt(1) out that(1) show ?thesis by (simp split: option.splits)
  next
    case False
    have "m2 q = m q"
      using write_transfer_result(2) [OF assms(1,2) req [OF False] assms(12) refl] that(2) by (simp add: assms(5))
    with out that(1) show ?thesis by (simp split: option.splits)
  qed
  ultimately show ?thesis
    using out nt(1) by (auto simp: bake_err_defs split: option.splits if_splits)
qed

section \<open>Concrete instances\<close>

text \<open>A region of 6000 bytes at address 8192 of the simulated heap, with its size header.\<close>

definition demo_prid :: bake_region_id where
  "demo_prid = \<lparr>rid_type = 0, rid_data = le_bytes 8 (1 :: u64) @ le_bytes 8 (8192 :: u64)\<rparr>"

definition demo_memory :: memory where
  "demo_memory = set_region_size 8192 6000 (\<lambda>p. 0xBB)"

definition demo_pmem_entry :: bake_pmem_entry where
  "demo_pmem_entry = \<lparr>pmem_pool_of = 1, pmem_root = 64, pmem_dir = [], pmem_filename = []\<rparr>"

lemma demo_direct: "pmemobj_direct sim_env (prid_oid demo_prid) w = 8192"
  by (simp add: demo_prid_def prid_oid_def sim_env_def)

lemma demo_pmem_req: "pmem_req sim_env True (prid_oid demo_prid) 100 5000 0 (demo_memory, sim0)"
  unfolding pmem_req_def demo_direct by (simp add: demo_memory_def region_size_set) (simp add: sim_env_def)

lemma sim_bulk_create_reliable: "bulk_create_reliable sim_env"
  by (simp add: bulk_create_reliable_def sim_env_def)

lemma sim_persist_ok: "persist_ok sim_env sim_durable"
  by (simp add: persist_ok_def sim_env_def)

theorem pmem_write_bulk_correct_witness:
  "\<exists>m' w'. bake_pmem_write_bulk sim_env True False demo_prid 100 5000 7 1 0 [] (demo_memory, sim0)
       = (Some BAKE_SUCCESS, (m', w')) \<and> extent 8300 5000 m' = extent 0 5000 (sim_remote sim0 7)"
proof -
  obtain m' w' where r: "bake_pmem_write_bulk sim_env True False demo_prid 100 5000 7 1 0 [] (demo_memory, sim0)
       = (Some BAKE_SUCCESS, (m', w'))"
    using write_transfer_direct [OF sim_bulk_reliable sim_bulk_create_reliable demo_pmem_req, of 7 1 "[]"]
    unfolding bake_pmem_write_bulk_def BAKE_SUCCESS_def by (metis prod.collapse)
  have "8300 = data_at True (pmemobj_direct sim_env (prid_oid demo_prid) sim0) + unat (100 :: u64)"
    by (simp add: demo_direct data_at_def)
  with pmem_write_bulk_correct [OF sim_remote_ok(1,3) demo_pmem_req r, of 8300] r
  have "m' = overlay 8300 (extent 0 5000 (sim_remote sim0 7)) demo_memory" by simp
  then have "extent 8300 5000 m' = extent 0 5000 (sim_remote sim0 7)"
    by (simp add: extent_overlay_prefix)
  with r show ?thesis by blast
qed

theorem pmem_pipeline_equiv_witness:
  "\<exists>n turns. \<forall>sched. (\<forall>i < n. turns \<le> count_list sched i) \<longrightarrow>
    (\<exists>s1 s2. bake_pmem_write_bulk sim_env True True demo_prid 100 5000 7 1 0 sched (demo_memory, sim0)
        = (Some BAKE_SUCCESS, s1) \<and>
      bake_pmem_write_bulk sim_env True False demo_prid 100 5000 7 1 0 sched (demo_memory, sim0)
        = (Some BAKE_SUCCESS, s2) \<and> fst s1 = fst s2)"
  by (rule pmem_pipeline_equiv [OF sim_remote_ok(1,3) sim_pool_buffers_ok sim_bulk_reliable
      sim_bulk_create_reliable demo_pmem_req])

theorem pmem_write_read_raw_witness:
  "\<exists>m' w' base. bake_pmem_write_raw sim_env True demo_prid 4 3 [1, 2, 3] (demo_memory, sim0) = (BAKE_SUCCESS, (m', w')) \<and>
     bake_pmem_read_raw sim_env True demo_prid 4 3 (m', w') = (BAKE_SUCCESS, base + 4, 3) \<and>
     extent (unat (base + 4)) 3 m' = [1, 2, 3]"
proof -
  obtain m' w' where r: "bake_pmem_write_raw sim_env True demo_prid 4 3 [1, 2, 3] (demo_memory, sim0)
      = (BAKE_SUCCESS, (m', w'))"
    by (simp add: bake_pmem_write_raw_def demo_direct demo_memory_def region_size_set)
  from pmem_write_read_raw [OF _ _ r] obtain base where
    "bake_pmem_read_raw sim_env True demo_prid 4 3 (m', w') = (BAKE_SUCCESS, base + 4, 3)"
    "extent (unat (base + 4)) 3 m' = [1, 2, 3]"
    by (auto simp: demo_direct)
  with r show ?thesis by blast
qed

theorem pmem_cwp_raw_durable_witness:
  "\<exists>rid' m' w'. bake_pmem_create_write_persist_raw sim_env True demo_pmem_entry [1, 2, 3] 3 demo_prid (demo_memory, sim0)
       = ((BAKE_SUCCESS, rid'), (m', w')) \<and>
     bake_pmem_get_region_size sim_env True rid' (sim_durable w', w') = (BAKE_SUCCESS, Some 3)"
proof -
  obtain rid' m' w' where r: "bake_pmem_create_write_persist_raw sim_env True demo_pmem_entry [1, 2, 3] 3 demo_prid
      (demo_memory, sim0) = ((BAKE_SUCCESS, rid'), (m', w'))"
    and d: "pmemobj_direct sim_env (prid_oid rid') w' = 4096"
    by (simp add: bake_pmem_create_write_persist_raw_def sim_env_def sim0_def demo_pmem_entry_def prid_oid_def Let_def)
  from pmem_cwp_raw_durable [OF sim_persist_ok _ r] d r show ?thesis by auto
qed

theorem pmem_cwp_bulk_result_witness:
  "\<exists>rid' w'. bake_pmem_create_write_persist_bulk sim_env True False demo_pmem_entry 7 1 0 512 demo_prid []
      (\<lambda>p. 0, sim0) = (Some (BAKE_SUCCESS, rid'), (\<lambda>p. 0, w')) \<and>
    (\<exists>rid' m' w' base. bake_pmem_create_write_persist_bulk sim_env False False demo_pmem_entry 7 1 0 512 demo_prid []
        (\<lambda>p. 0, sim0) = (Some (BAKE_SUCCESS, rid'), (m', w')) \<and>
      bake_pmem_get_region_data sim_env False rid' (m', w') = (BAKE_SUCCESS, Some base) \<and>
      extent (unat base) 512 (sim_durable w') = extent 0 512 (sim_remote sim0 7))"
proof -
  have mx: "0 < unat (poolset_get_max sim_env v)" "unat (512 :: u64) + unat (poolset_get_max sim_env v) < 2 ^ 64" for v
    by (simp_all add: sim_env_def)
  obtain oid1 w1 where a1: "pmemobj_alloc sim_env (pmem_pool_of demo_pmem_entry) (if True then 512 + 8 else 512) sim0
      = ((0, oid1), w1)" and d1: "\<And>v. pmemobj_direct sim_env oid1 v = 4096"
    by (auto simp: sim_env_def sim0_def)
  obtain oid2 w2 where a2: "pmemobj_alloc sim_env (pmem_pool_of demo_pmem_entry) (if False then 512 + 8 else 512) sim0
      = ((0, oid2), w2)" and d2: "\<And>v. pmemobj_direct sim_env oid2 v = 4096" and r2: "sim_remote w2 = sim_remote sim0"
    by (auto simp: sim_env_def sim0_def)
  obtain t1 n1 v1 where t1: "write_transfer_data sim_env True False oid1 0 7 0 512 1 [] (\<lambda>p. 0, w1) = (t1, (n1, v1))"
    by (metis surj_pair)
  obtain t2 n2 v2 where t2: "write_transfer_data sim_env False False oid2 0 7 0 512 1 [] (\<lambda>p. 0, w2) = (t2, (n2, v2))"
    by (metis surj_pair)
  obtain s1 m1' w1' where c1: "bake_pmem_create_write_persist_bulk sim_env True False demo_pmem_entry 7 1 0 512 demo_prid []
      (\<lambda>p. 0, sim0) = (s1, (m1', w1'))" by (metis surj_pair)
  obtain s2 m2' w2' where c2: "bake_pmem_create_write_persist_bulk sim_env False False demo_pmem_entry 7 1 0 512 demo_prid []
      (\<lambda>p. 0, sim0) = (s2, (m2', w2'))" by (metis surj_pair)
  have "region_size 4096 (\<lambda>p. 0) < 512" by (simp add: region_size_def extent_def upt_rec)
  with pmem_cwp_bulk_result [OF sim_remote_ok(1,3) sim_persist_ok a1 d1 _ _ _ _ mx t1 d1 c1]
  have 1: "m1' = (\<lambda>p. 0)" "s1 = Some (BAKE_SUCCESS, demo_prid\<lparr>rid_data := oid1\<rparr>)" by simp_all
  have "pmem_req sim_env False oid2 0 512 0 (\<lambda>p. 0, w2)" using mx d2 by (simp add: pmem_req_def)
  from write_transfer_direct [OF sim_bulk_reliable sim_bulk_create_reliable this, of 7 1 "[]"]
  have "t2 = Some BAKE_SUCCESS" unfolding t2 by (simp add: BAKE_SUCCESS_def)
  with pmem_cwp_bulk_result [OF sim_remote_ok(1,3) sim_persist_ok a2 d2 _ _ _ _ mx t2 d2 c2]
  have "\<exists>base. bake_pmem_get_region_data sim_env False (demo_prid\<lparr>rid_data := oid2\<rparr>) (m2', w2') = (BAKE_SUCCESS, Some base) \<and>
      extent (unat base) 512 (sim_durable w2') = extent 0 512 (sim_remote sim0 7)"
    and "s2 = Some (BAKE_SUCCESS, demo_prid\<lparr>rid_data := oid2\<rparr>)" by (auto simp: r2)
  with 1 c1 c2 show ?thesis by auto
qed

end
