(* ===== verification/Bake_Rpc.thy ===== *)
theory Bake_Rpc
  imports Bake_Env
begin

text \<open>
  The messages of \<^verbatim>\<open>src/bake-rpc.h\<close> and their serialisation. Every RPC has an input and an
  output struct; a proc function runs over the fields of a struct and writes them into, or reads
  them from, a buffer. The proc functions of single fields belong to Mercury and are the record
  \<open>hg_proc\<close>: an encoder gives the bytes of a value, a decoder takes the old value of the field and
  the bytes that remain and returns the return code, the new value and the rest. The structs
  generated by \<open>MERCURY_GEN_PROC\<close> stop at the first field that fails; the hand written ones
  ignore most return codes, and so do their definitions here.
\<close>

type_synonym 'a proc = "'a \<Rightarrow> byte list \<Rightarrow> int \<times> 'a \<times> byte list"

record hg_proc =
  enc_uint8 :: "byte \<Rightarrow> byte list"
  enc_uint16 :: "u16 \<Rightarrow> byte list"
  enc_uint32 :: "u32 \<Rightarrow> byte list"
  enc_uint64 :: "u64 \<Rightarrow> byte list"
  enc_int32 :: "int \<Rightarrow> byte list"
  enc_bulk :: "hg_bulk \<Rightarrow> byte list"
  enc_string :: "cstring option \<Rightarrow> byte list"
  dec_uint8 :: "byte proc"
  dec_uint16 :: "u16 proc"
  dec_uint32 :: "u32 proc"
  dec_uint64 :: "u64 proc"
  dec_int32 :: "int proc"
  dec_bulk :: "hg_bulk proc"
  dec_string :: "cstring option proc"
  dec_memcpy :: "nat \<Rightarrow> byte list proc"
  dec_save_ptr :: "nat \<Rightarrow> byte list \<Rightarrow> byte list \<times> byte list"

section \<open>Running over the fields of a struct\<close>

definition on_field :: "'v proc \<Rightarrow> ('m \<Rightarrow> 'v) \<Rightarrow> (('v \<Rightarrow> 'v) \<Rightarrow> 'm \<Rightarrow> 'm) \<Rightarrow> 'm proc" where
  "on_field dec get upd x bs = (let (ret, v, bs) = dec (get x) bs in (ret, upd (\<lambda>_. v) x, bs))"

fun gen_proc :: "'m proc list \<Rightarrow> 'm proc" where
  "gen_proc [] x bs = (HG_SUCCESS, x, bs)"
| "gen_proc (f # fs) x bs =
    (let (ret, x, bs) = f x bs in if ret \<noteq> HG_SUCCESS then (ret, x, bs) else gen_proc fs x bs)"

fun unchecked_proc :: "'m proc list \<Rightarrow> 'm proc" where
  "unchecked_proc [] x bs = (HG_SUCCESS, x, bs)"
| "unchecked_proc (f # fs) x bs = (let (ret, x, bs) = f x bs in unchecked_proc fs x bs)"

section \<open>Identifiers\<close>

fun proc_bytes :: "byte proc \<Rightarrow> nat \<Rightarrow> nat \<Rightarrow> byte list proc" where
  "proc_bytes dec i 0 x bs = (HG_SUCCESS, x, bs)"
| "proc_bytes dec i (Suc n) x bs =
    (let (ret, b, bs) = dec (x ! i) bs; x = x[i := b]
     in if ret \<noteq> HG_SUCCESS then (ret, x, bs) else proc_bytes dec (Suc i) n x bs)"

definition enc_bake_region_id :: "hg_proc \<Rightarrow> bake_region_id \<Rightarrow> byte list" where
  "enc_bake_region_id H rid = enc_uint32 H (rid_type rid) @ concat (map (enc_uint8 H) (rid_data rid))"

definition dec_bake_region_id :: "hg_proc \<Rightarrow> bake_region_id proc" where
  "dec_bake_region_id H rid bs =
    (let (_, rid, bs) = on_field (dec_uint32 H) rid_type rid_type_update rid bs
     in on_field (proc_bytes (dec_uint8 H) 0 BAKE_REGION_ID_DATA_SIZE) rid_data rid_data_update rid bs)"

definition enc_bake_target_id :: "hg_proc \<Rightarrow> bake_target_id \<Rightarrow> byte list" where
  "enc_bake_target_id H bti = bti"

definition dec_bake_target_id :: "hg_proc \<Rightarrow> bake_target_id proc" where
  "dec_bake_target_id H = dec_memcpy H 16"

section \<open>Messages\<close>

record bake_create_in = cri_bti :: bake_target_id  cri_region_size :: u64

record bake_rid_out = ro_ret :: int  ro_rid :: bake_region_id

record bake_bulk_in =
  bi_bti :: bake_target_id
  bi_rid :: bake_region_id
  bi_region_offset :: u64
  bi_bulk_handle :: hg_bulk
  bi_bulk_offset :: u64
  bi_bulk_size :: u64
  bi_remote_addr_str :: "cstring option"

record bake_ret_out = out_ret :: int

record bake_eager_write_in =
  ewi_bti :: bake_target_id
  ewi_rid :: bake_region_id
  ewi_region_offset :: u64
  ewi_size :: u64
  ewi_buffer :: "byte list"

record bake_extent_in =
  xi_bti :: bake_target_id
  xi_rid :: bake_region_id
  xi_offset :: u64
  xi_size :: u64

record bake_create_write_persist_in =
  cwi_bti :: bake_target_id
  cwi_region_size :: u64
  cwi_bulk_handle :: hg_bulk
  cwi_bulk_offset :: u64
  cwi_bulk_size :: u64
  cwi_remote_addr_str :: "cstring option"

record bake_eager_create_write_persist_in =
  ecwi_bti :: bake_target_id
  ecwi_size :: u64
  ecwi_buffer :: "byte list"

record bake_region_in = ri_bti :: bake_target_id  ri_rid :: bake_region_id

record bake_word_out = wo_ret :: int  wo_word :: u64

record bake_read_out = rdo_size :: u64  rdo_ret :: int

record bake_eager_read_out = ero_ret :: int  ero_size :: u64  ero_buffer :: "byte list"

record bake_probe_in = pri_max_targets :: u64

record bake_probe_out = po_ret :: int  po_num_targets :: u64  po_targets :: "bake_target_id list"

record bake_migrate_region_in =
  mri_bti :: bake_target_id
  mri_source_rid :: bake_region_id
  mri_region_size :: u64
  mri_remove_src :: int
  mri_dest_addr :: "cstring option"
  mri_dest_provider_id :: u16
  mri_dest_target_id :: bake_target_id

record bake_migrate_target_in =
  mti_bti :: bake_target_id
  mti_remove_src :: int
  mti_dest_remi_addr :: "cstring option"
  mti_dest_remi_provider_id :: u16
  mti_dest_root :: "cstring option"

text \<open>
  Structs with the same fields share a record: \<open>bake_bulk_in\<close> is the input of write and read,
  \<open>bake_extent_in\<close> of persist and eager read, \<open>bake_region_in\<close> of get size, get data and remove;
  \<open>bake_rid_out\<close> is the output of create, both forms of create write persist and migrate region,
  \<open>bake_ret_out\<close> of the RPCs that only return a code, \<open>bake_word_out\<close> of get size and get data.
  \<open>rpc_in\<close> and \<open>rpc_out\<close> say which RPC a struct belongs to. A NULL buffer is the empty list.
\<close>

datatype rpc_in =
    In_create bake_create_in
  | In_write bake_bulk_in
  | In_eager_write bake_eager_write_in
  | In_persist bake_extent_in
  | In_create_write_persist bake_create_write_persist_in
  | In_eager_create_write_persist bake_eager_create_write_persist_in
  | In_get_size bake_region_in
  | In_get_data bake_region_in
  | In_read bake_bulk_in
  | In_eager_read bake_extent_in
  | In_probe bake_probe_in
  | In_noop
  | In_remove bake_region_in
  | In_migrate_region bake_migrate_region_in
  | In_migrate_target bake_migrate_target_in

datatype rpc_out =
    Out_create bake_rid_out
  | Out_write bake_ret_out
  | Out_eager_write bake_ret_out
  | Out_persist bake_ret_out
  | Out_create_write_persist bake_rid_out
  | Out_eager_create_write_persist bake_rid_out
  | Out_get_size bake_word_out
  | Out_get_data bake_word_out
  | Out_read bake_read_out
  | Out_eager_read bake_eager_read_out
  | Out_probe bake_probe_out
  | Out_noop
  | Out_remove bake_ret_out
  | Out_migrate_region bake_rid_out
  | Out_migrate_target bake_ret_out

section \<open>Encoders\<close>

definition enc_buffer :: "u64 \<Rightarrow> byte list \<Rightarrow> byte list" where
  "enc_buffer sz buf = (if sz \<noteq> 0 then take (unat sz) buf else [])"

definition enc_create_in :: "hg_proc \<Rightarrow> bake_create_in \<Rightarrow> byte list" where
  "enc_create_in H x = enc_bake_target_id H (cri_bti x) @ enc_uint64 H (cri_region_size x)"

definition enc_rid_out :: "hg_proc \<Rightarrow> bake_rid_out \<Rightarrow> byte list" where
  "enc_rid_out H x = enc_int32 H (ro_ret x) @ enc_bake_region_id H (ro_rid x)"

definition enc_bulk_in :: "hg_proc \<Rightarrow> bake_bulk_in \<Rightarrow> byte list" where
  "enc_bulk_in H x = enc_bake_target_id H (bi_bti x) @ enc_bake_region_id H (bi_rid x) @
     enc_uint64 H (bi_region_offset x) @ enc_bulk H (bi_bulk_handle x) @ enc_uint64 H (bi_bulk_offset x) @
     enc_uint64 H (bi_bulk_size x) @ enc_string H (bi_remote_addr_str x)"

definition enc_ret_out :: "hg_proc \<Rightarrow> bake_ret_out \<Rightarrow> byte list" where
  "enc_ret_out H x = enc_int32 H (out_ret x)"

definition enc_eager_write_in :: "hg_proc \<Rightarrow> bake_eager_write_in \<Rightarrow> byte list" where
  "enc_eager_write_in H x = enc_bake_target_id H (ewi_bti x) @ enc_bake_region_id H (ewi_rid x) @
     enc_uint64 H (ewi_region_offset x) @ enc_uint64 H (ewi_size x) @ enc_buffer (ewi_size x) (ewi_buffer x)"

definition enc_extent_in :: "hg_proc \<Rightarrow> bake_extent_in \<Rightarrow> byte list" where
  "enc_extent_in H x = enc_bake_target_id H (xi_bti x) @ enc_bake_region_id H (xi_rid x) @
     enc_uint64 H (xi_offset x) @ enc_uint64 H (xi_size x)"

definition enc_create_write_persist_in :: "hg_proc \<Rightarrow> bake_create_write_persist_in \<Rightarrow> byte list" where
  "enc_create_write_persist_in H x = enc_bake_target_id H (cwi_bti x) @ enc_uint64 H (cwi_region_size x) @
     enc_bulk H (cwi_bulk_handle x) @ enc_uint64 H (cwi_bulk_offset x) @ enc_uint64 H (cwi_bulk_size x) @
     enc_string H (cwi_remote_addr_str x)"

definition enc_eager_create_write_persist_in ::
  "hg_proc \<Rightarrow> bake_eager_create_write_persist_in \<Rightarrow> byte list" where
  "enc_eager_create_write_persist_in H x = enc_bake_target_id H (ecwi_bti x) @ enc_uint64 H (ecwi_size x) @
     enc_buffer (ecwi_size x) (ecwi_buffer x)"

definition enc_region_in :: "hg_proc \<Rightarrow> bake_region_in \<Rightarrow> byte list" where
  "enc_region_in H x = enc_bake_target_id H (ri_bti x) @ enc_bake_region_id H (ri_rid x)"

definition enc_word_out :: "hg_proc \<Rightarrow> bake_word_out \<Rightarrow> byte list" where
  "enc_word_out H x = enc_int32 H (wo_ret x) @ enc_uint64 H (wo_word x)"

definition enc_read_out :: "hg_proc \<Rightarrow> bake_read_out \<Rightarrow> byte list" where
  "enc_read_out H x = enc_uint64 H (rdo_size x) @ enc_int32 H (rdo_ret x)"

text \<open>
  The 64 bit \<open>size\<close> is passed to the proc function for 32 bit integers, which accesses its low
  half on a little endian machine.
\<close>

definition enc_eager_read_out :: "hg_proc \<Rightarrow> bake_eager_read_out \<Rightarrow> byte list" where
  "enc_eager_read_out H x = enc_int32 H (ero_ret x) @ enc_uint32 H (ucast (ero_size x)) @
     enc_buffer (ero_size x) (ero_buffer x)"

definition enc_probe_in :: "hg_proc \<Rightarrow> bake_probe_in \<Rightarrow> byte list" where
  "enc_probe_in H x = enc_uint64 H (pri_max_targets x)"

definition enc_probe_out :: "hg_proc \<Rightarrow> bake_probe_out \<Rightarrow> byte list" where
  "enc_probe_out H x = enc_int32 H (po_ret x) @ enc_uint64 H (po_num_targets x) @
     (if po_num_targets x \<noteq> 0 then take (unat (po_num_targets x * 16)) (concat (po_targets x)) else [])"

definition enc_migrate_region_in :: "hg_proc \<Rightarrow> bake_migrate_region_in \<Rightarrow> byte list" where
  "enc_migrate_region_in H x = enc_bake_target_id H (mri_bti x) @ enc_bake_region_id H (mri_source_rid x) @
     enc_uint64 H (mri_region_size x) @ enc_int32 H (mri_remove_src x) @ enc_string H (mri_dest_addr x) @
     enc_uint16 H (mri_dest_provider_id x) @ enc_bake_target_id H (mri_dest_target_id x)"

definition enc_migrate_target_in :: "hg_proc \<Rightarrow> bake_migrate_target_in \<Rightarrow> byte list" where
  "enc_migrate_target_in H x = enc_bake_target_id H (mti_bti x) @ enc_int32 H (mti_remove_src x) @
     enc_string H (mti_dest_remi_addr x) @ enc_uint16 H (mti_dest_remi_provider_id x) @
     enc_string H (mti_dest_root x)"

section \<open>Decoders\<close>

definition dec_buffer :: "hg_proc \<Rightarrow> ('m \<Rightarrow> u64) \<Rightarrow> ((byte list \<Rightarrow> byte list) \<Rightarrow> 'm \<Rightarrow> 'm) \<Rightarrow> 'm proc" where
  "dec_buffer H sz upd x bs =
    (if sz x \<noteq> 0 then (let (buf, bs) = dec_save_ptr H (unat (sz x)) bs in (HG_SUCCESS, upd (\<lambda>_. buf) x, bs))
     else (HG_SUCCESS, x, bs))"

definition dec_create_in :: "hg_proc \<Rightarrow> bake_create_in proc" where
  "dec_create_in H = gen_proc
    [on_field (dec_bake_target_id H) cri_bti cri_bti_update,
     on_field (dec_uint64 H) cri_region_size cri_region_size_update]"

definition dec_rid_out :: "hg_proc \<Rightarrow> bake_rid_out proc" where
  "dec_rid_out H = gen_proc
    [on_field (dec_int32 H) ro_ret ro_ret_update, on_field (dec_bake_region_id H) ro_rid ro_rid_update]"

definition dec_bulk_in :: "hg_proc \<Rightarrow> bake_bulk_in proc" where
  "dec_bulk_in H = gen_proc
    [on_field (dec_bake_target_id H) bi_bti bi_bti_update,
     on_field (dec_bake_region_id H) bi_rid bi_rid_update,
     on_field (dec_uint64 H) bi_region_offset bi_region_offset_update,
     on_field (dec_bulk H) bi_bulk_handle bi_bulk_handle_update,
     on_field (dec_uint64 H) bi_bulk_offset bi_bulk_offset_update,
     on_field (dec_uint64 H) bi_bulk_size bi_bulk_size_update,
     on_field (dec_string H) bi_remote_addr_str bi_remote_addr_str_update]"

definition dec_ret_out :: "hg_proc \<Rightarrow> bake_ret_out proc" where
  "dec_ret_out H = gen_proc [on_field (dec_int32 H) out_ret out_ret_update]"

definition dec_eager_write_in :: "hg_proc \<Rightarrow> bake_eager_write_in proc" where
  "dec_eager_write_in H = unchecked_proc
    [on_field (dec_bake_target_id H) ewi_bti ewi_bti_update,
     on_field (dec_bake_region_id H) ewi_rid ewi_rid_update,
     on_field (dec_uint64 H) ewi_region_offset ewi_region_offset_update,
     on_field (dec_uint64 H) ewi_size ewi_size_update,
     dec_buffer H ewi_size ewi_buffer_update]"

definition dec_extent_in :: "hg_proc \<Rightarrow> bake_extent_in proc" where
  "dec_extent_in H = gen_proc
    [on_field (dec_bake_target_id H) xi_bti xi_bti_update,
     on_field (dec_bake_region_id H) xi_rid xi_rid_update,
     on_field (dec_uint64 H) xi_offset xi_offset_update,
     on_field (dec_uint64 H) xi_size xi_size_update]"

definition dec_create_write_persist_in :: "hg_proc \<Rightarrow> bake_create_write_persist_in proc" where
  "dec_create_write_persist_in H = gen_proc
    [on_field (dec_bake_target_id H) cwi_bti cwi_bti_update,
     on_field (dec_uint64 H) cwi_region_size cwi_region_size_update,
     on_field (dec_bulk H) cwi_bulk_handle cwi_bulk_handle_update,
     on_field (dec_uint64 H) cwi_bulk_offset cwi_bulk_offset_update,
     on_field (dec_uint64 H) cwi_bulk_size cwi_bulk_size_update,
     on_field (dec_string H) cwi_remote_addr_str cwi_remote_addr_str_update]"

definition dec_eager_create_write_persist_in :: "hg_proc \<Rightarrow> bake_eager_create_write_persist_in proc" where
  "dec_eager_create_write_persist_in H = unchecked_proc
    [on_field (dec_bake_target_id H) ecwi_bti ecwi_bti_update,
     on_field (dec_uint64 H) ecwi_size ecwi_size_update,
     dec_buffer H ecwi_size ecwi_buffer_update]"

definition dec_region_in :: "hg_proc \<Rightarrow> bake_region_in proc" where
  "dec_region_in H = gen_proc
    [on_field (dec_bake_target_id H) ri_bti ri_bti_update,
     on_field (dec_bake_region_id H) ri_rid ri_rid_update]"

definition dec_word_out :: "hg_proc \<Rightarrow> bake_word_out proc" where
  "dec_word_out H = gen_proc
    [on_field (dec_int32 H) wo_ret wo_ret_update, on_field (dec_uint64 H) wo_word wo_word_update]"

definition dec_read_out :: "hg_proc \<Rightarrow> bake_read_out proc" where
  "dec_read_out H = gen_proc
    [on_field (dec_uint64 H) rdo_size rdo_size_update, on_field (dec_int32 H) rdo_ret rdo_ret_update]"

definition low_half :: "u64 \<Rightarrow> u32" where "low_half x = ucast x"

definition low_half_update :: "(u32 \<Rightarrow> u32) \<Rightarrow> u64 \<Rightarrow> u64" where
  "low_half_update f x = push_bit 32 (drop_bit 32 x) OR ucast (f (ucast x))"

definition dec_eager_read_out :: "hg_proc \<Rightarrow> bake_eager_read_out proc" where
  "dec_eager_read_out H = unchecked_proc
    [on_field (dec_int32 H) ero_ret ero_ret_update,
     on_field (on_field (dec_uint32 H) low_half low_half_update) ero_size ero_size_update,
     dec_buffer H ero_size ero_buffer_update]"

definition dec_probe_in :: "hg_proc \<Rightarrow> bake_probe_in proc" where
  "dec_probe_in H = gen_proc [on_field (dec_uint64 H) pri_max_targets pri_max_targets_update]"

fun target_array :: "nat \<Rightarrow> byte list \<Rightarrow> bake_target_id list" where
  "target_array 0 bs = []"
| "target_array (Suc n) bs = take 16 bs # target_array n (drop 16 bs)"

definition dec_probe_out :: "hg_proc \<Rightarrow> bake_probe_out proc" where
  "dec_probe_out H = unchecked_proc
    [on_field (dec_int32 H) po_ret po_ret_update,
     on_field (dec_uint64 H) po_num_targets po_num_targets_update,
     \<lambda>x bs. if po_num_targets x \<noteq> 0
            then (let (buf, bs) = dec_save_ptr H (unat (po_num_targets x * 16)) bs
                  in (HG_SUCCESS, x\<lparr>po_targets := target_array (unat (po_num_targets x)) buf\<rparr>, bs))
            else (HG_SUCCESS, x, bs)]"

definition dec_migrate_region_in :: "hg_proc \<Rightarrow> bake_migrate_region_in proc" where
  "dec_migrate_region_in H = gen_proc
    [on_field (dec_bake_target_id H) mri_bti mri_bti_update,
     on_field (dec_bake_region_id H) mri_source_rid mri_source_rid_update,
     on_field (dec_uint64 H) mri_region_size mri_region_size_update,
     on_field (dec_int32 H) mri_remove_src mri_remove_src_update,
     on_field (dec_string H) mri_dest_addr mri_dest_addr_update,
     on_field (dec_uint16 H) mri_dest_provider_id mri_dest_provider_id_update,
     on_field (dec_bake_target_id H) mri_dest_target_id mri_dest_target_id_update]"

definition dec_migrate_target_in :: "hg_proc \<Rightarrow> bake_migrate_target_in proc" where
  "dec_migrate_target_in H = gen_proc
    [on_field (dec_bake_target_id H) mti_bti mti_bti_update,
     on_field (dec_int32 H) mti_remove_src mti_remove_src_update,
     on_field (dec_string H) mti_dest_remi_addr mti_dest_remi_addr_update,
     on_field (dec_uint16 H) mti_dest_remi_provider_id mti_dest_remi_provider_id_update,
     on_field (dec_string H) mti_dest_root mti_dest_root_update]"

end
