(* ===== verification/Bake_Margo.thy ===== *)
theory Bake_Margo
  imports Bake_Rpc
begin

text \<open>
  The remaining library calls of the server and of the client, as a second record of functions over
  the opaque world: margo addresses, handles and RPC registration, buffer pools, the set-up calls
  of abt-io, \<open>fstat\<close>, the uuid library, REMI and json-c. As in \<open>Bake_Env\<close> nothing is assumed about
  them here.
\<close>

type_synonym hg_handle = nat
type_synonym hg_id = nat

definition HG_HANDLE_NULL :: hg_handle where "HG_HANDLE_NULL = 0"
definition HG_ADDR_NULL :: hg_addr where "HG_ADDR_NULL = 0"
definition ABT_IO_INSTANCE_NULL :: nat where "ABT_IO_INSTANCE_NULL = 0"
definition REMI_SUCCESS :: int where "REMI_SUCCESS = 0"

text \<open>
  \<^item> \<open>margo_get_output h old\<close> decodes the response into a struct that holds \<open>old\<close>.
  \<^item> \<open>abt_io_open path direct\<close> opens with \<open>O_RDWR\<close>, and with \<open>O_DIRECT\<close> if \<open>direct\<close>; the result is
    the file descriptor or a negative \<open>errno\<close>.
  \<^item> \<open>fstat_size fd\<close>: return code and size of a file.
  \<^item> \<open>client_load\<close> and \<open>client_store\<close> access the memory of the client process, which remote
    transfers change as well.
\<close>

record 'w margo =
  addr_lookup :: "cstring option \<Rightarrow> 'w \<Rightarrow> (int \<times> hg_addr) \<times> 'w"
  addr_dup :: "hg_addr \<Rightarrow> 'w \<Rightarrow> (int \<times> hg_addr) \<times> 'w"
  addr_free :: "hg_addr \<Rightarrow> 'w \<Rightarrow> 'w"
  addr_self :: "'w \<Rightarrow> (int \<times> hg_addr) \<times> 'w"
  addr_to_string :: "hg_addr \<Rightarrow> u64 \<Rightarrow> 'w \<Rightarrow> int \<times> cstring \<times> u64"
  margo_create :: "hg_id \<Rightarrow> hg_addr \<Rightarrow> 'w \<Rightarrow> (int \<times> hg_handle) \<times> 'w"
  margo_provider_forward :: "u16 \<Rightarrow> hg_handle \<Rightarrow> rpc_in \<Rightarrow> 'w \<Rightarrow> int \<times> 'w"
  margo_get_output :: "hg_handle \<Rightarrow> rpc_out \<Rightarrow> 'w \<Rightarrow> (int \<times> rpc_out) \<times> 'w"
  margo_free_output :: "hg_handle \<Rightarrow> 'w \<Rightarrow> 'w"
  margo_destroy :: "hg_handle \<Rightarrow> 'w \<Rightarrow> 'w"
  margo_registered_name :: "cstring \<Rightarrow> 'w \<Rightarrow> hg_id option"
  margo_provider_registered_name :: "cstring \<Rightarrow> u16 \<Rightarrow> 'w \<Rightarrow> bool"
  margo_register :: "cstring \<Rightarrow> 'w \<Rightarrow> hg_id \<times> 'w"
  margo_register_provider :: "cstring \<Rightarrow> u16 \<Rightarrow> 'w \<Rightarrow> hg_id \<times> 'w"
  margo_deregister :: "hg_id \<Rightarrow> 'w \<Rightarrow> 'w"
  margo_provider_push_finalize_callback :: "'w \<Rightarrow> 'w"
  margo_provider_pop_finalize_callback :: "'w \<Rightarrow> 'w"
  margo_shutdown_remote_instance :: "hg_addr \<Rightarrow> 'w \<Rightarrow> int \<times> 'w"
  rwlock_create :: "'w \<Rightarrow> int \<times> 'w"
  poolset_create :: "int \<Rightarrow> int \<Rightarrow> int \<Rightarrow> int \<Rightarrow> 'w \<Rightarrow> (int \<times> nat) \<times> 'w"
  poolset_destroy :: "nat \<Rightarrow> 'w \<Rightarrow> int \<times> 'w"
  abt_io_init :: "int \<Rightarrow> 'w \<Rightarrow> nat \<times> 'w"
  abt_io_finalize :: "nat \<Rightarrow> 'w \<Rightarrow> 'w"
  abt_io_open :: "cstring \<Rightarrow> bool \<Rightarrow> 'w \<Rightarrow> int \<times> 'w"
  fstat_size :: "int \<Rightarrow> 'w \<Rightarrow> int \<times> u64"
  uuid_is_null :: "bake_target_id \<Rightarrow> bool"
  remi_fileset_create :: "cstring \<Rightarrow> cstring \<Rightarrow> 'w \<Rightarrow> (int \<times> nat) \<times> 'w"
  remi_fileset_register_file :: "nat \<Rightarrow> cstring \<Rightarrow> 'w \<Rightarrow> int \<times> 'w"
  remi_fileset_register_metadata :: "nat \<Rightarrow> cstring \<Rightarrow> cstring \<Rightarrow> 'w \<Rightarrow> 'w"
  remi_fileset_free :: "nat \<Rightarrow> 'w \<Rightarrow> 'w"
  remi_provider_handle_create :: "hg_addr \<Rightarrow> u16 \<Rightarrow> 'w \<Rightarrow> (int \<times> nat) \<times> 'w"
  remi_provider_handle_release :: "nat \<Rightarrow> 'w \<Rightarrow> 'w"
  remi_fileset_migrate :: "nat \<Rightarrow> nat \<Rightarrow> cstring option \<Rightarrow> int \<Rightarrow> 'w \<Rightarrow> int \<times> 'w"
  remi_register_migration_class :: "'w \<Rightarrow> int \<times> 'w"
  client_load :: "u64 \<Rightarrow> nat \<Rightarrow> 'w \<Rightarrow> byte list"
  client_store :: "u64 \<Rightarrow> byte list \<Rightarrow> 'w \<Rightarrow> 'w"

section \<open>json-c\<close>

text \<open>
  A configuration is a value of the library's type \<open>'j\<close>. \<open>json_object_object_get\<close> returns nothing
  for a missing key, \<open>json_object_object_add\<close> replaces the value of a key; changes to a nested
  value are written back into the object that holds it.
\<close>

datatype json_type = json_type_null | json_type_boolean | json_type_double | json_type_int
  | json_type_object | json_type_array | json_type_string

record 'j json =
  json_object_object_get :: "'j \<Rightarrow> cstring \<Rightarrow> 'j option"
  json_object_object_add :: "'j \<Rightarrow> cstring \<Rightarrow> 'j \<Rightarrow> 'j"
  json_object_object_del :: "'j \<Rightarrow> cstring \<Rightarrow> 'j"
  json_object_get_type :: "'j \<Rightarrow> json_type"
  json_object_new_object :: 'j
  json_object_new_array :: 'j
  json_object_new_int64 :: "int \<Rightarrow> 'j"
  json_object_new_boolean :: "bool \<Rightarrow> 'j"
  json_object_new_string :: "cstring \<Rightarrow> 'j"
  json_object_get_boolean :: "'j option \<Rightarrow> bool"
  json_object_get_int :: "'j option \<Rightarrow> int"
  json_object_get_string :: "'j \<Rightarrow> cstring"
  json_object_array_elems :: "'j \<Rightarrow> 'j list"
  json_object_array_add :: "'j \<Rightarrow> 'j \<Rightarrow> 'j"
  json_tokener_parse :: "cstring \<Rightarrow> 'j option"
  json_object_to_json_string :: "'j \<Rightarrow> cstring"

text \<open>The documented laws: a value is found under its key, other keys are unaffected, constructors
  and accessors agree. The code uses the object functions on objects only, as json-c demands: the
  configuration is checked to be an object when the provider is registered, and nested blocks
  are objects by \<open>CONFIG_HAS_OR_CREATE_OBJECT\<close>. The laws are stated for all values of the type
  of json values, so they speak of such a type with total object functions.\<close>

definition json_ok :: "'j json \<Rightarrow> bool" where
  "json_ok J \<longleftrightarrow>
    (\<forall>c k v. json_object_object_get J (json_object_object_add J c k v) k = Some v) \<and>
    (\<forall>c k v k'. k' \<noteq> k \<longrightarrow> json_object_object_get J (json_object_object_add J c k v) k' = json_object_object_get J c k') \<and>
    (\<forall>c k. json_object_object_get J (json_object_object_del J c k) k = None) \<and>
    (\<forall>c k k'. k' \<noteq> k \<longrightarrow> json_object_object_get J (json_object_object_del J c k) k' = json_object_object_get J c k') \<and>
    (\<forall>k. json_object_object_get J (json_object_new_object J) k = None) \<and>
    json_object_get_type J (json_object_new_object J) = json_type_object \<and>
    json_object_get_type J (json_object_new_array J) = json_type_array \<and>
    (\<forall>i. json_object_get_type J (json_object_new_int64 J i) = json_type_int) \<and>
    (\<forall>b. json_object_get_type J (json_object_new_boolean J b) = json_type_boolean) \<and>
    (\<forall>i. - (2 ^ 31) \<le> i \<and> i < 2 ^ 31 \<longrightarrow> json_object_get_int J (Some (json_object_new_int64 J i)) = i) \<and>
    (\<forall>b. json_object_get_boolean J (Some (json_object_new_boolean J b)) = b) \<and>
    (\<forall>s. json_object_get_string J (json_object_new_string J s) = s) \<and>
    json_object_array_elems J (json_object_new_array J) = [] \<and>
    (\<forall>a v. json_object_array_elems J (json_object_array_add J a v) = json_object_array_elems J a @ [v]) \<and>
    (\<forall>a v. json_object_get_type J (json_object_array_add J a v) = json_object_get_type J a) \<and>
    (\<forall>c k v. json_object_get_type J (json_object_object_add J c k v) = json_object_get_type J c) \<and>
    (\<forall>c k. json_object_get_type J (json_object_object_del J c k) = json_object_get_type J c)"

lemma json_okD:
  assumes "json_ok J"
  shows "json_object_object_get J (json_object_object_add J c k v) k' =
      (if k' = k then Some v else json_object_object_get J c k')"
    and "json_object_object_get J (json_object_object_del J c k) k' =
      (if k' = k then None else json_object_object_get J c k')"
    and "json_object_object_get J (json_object_new_object J) k = None"
    and "json_object_get_type J (json_object_new_object J) = json_type_object"
    and "json_object_get_type J (json_object_new_array J) = json_type_array"
    and "json_object_get_type J (json_object_new_int64 J i) = json_type_int"
    and "json_object_get_type J (json_object_new_boolean J b) = json_type_boolean"
    and "- (2 ^ 31) \<le> i \<Longrightarrow> i < 2 ^ 31 \<Longrightarrow> json_object_get_int J (Some (json_object_new_int64 J i)) = i"
    and "json_object_get_boolean J (Some (json_object_new_boolean J b)) = b"
    and "json_object_get_string J (json_object_new_string J s) = s"
    and "json_object_array_elems J (json_object_new_array J) = []"
    and "json_object_array_elems J (json_object_array_add J a v) = json_object_array_elems J a @ [v]"
    and "json_object_get_type J (json_object_array_add J a v) = json_object_get_type J a"
    and "json_object_get_type J (json_object_object_add J c k v) = json_object_get_type J c"
    and "json_object_get_type J (json_object_object_del J c k) = json_object_get_type J c"
  using assms by (auto simp: json_ok_def)

section \<open>Configuration macros (bake-macros.h)\<close>

text \<open>
  A macro that finds a value of the wrong type makes the enclosing function return \<open>-1\<close>; this is
  the result \<open>None\<close>. The second component is the object after the macro.
\<close>

type_synonym ('j, 'a) cfg = "'j \<Rightarrow> 'a option \<times> 'j"

definition CONFIG_HAS_OR_CREATE :: "'j json \<Rightarrow> json_type \<Rightarrow> cstring \<Rightarrow> 'j \<Rightarrow> ('j, 'j) cfg" where
  "CONFIG_HAS_OR_CREATE J typ key val config =
    (case json_object_object_get J config key of
       Some v \<Rightarrow> (if json_object_get_type J v \<noteq> typ then None else Some v, config)
     | None \<Rightarrow> (Some val, json_object_object_add J config key val))"

definition CONFIG_HAS_OR_CREATE_OBJECT :: "'j json \<Rightarrow> cstring \<Rightarrow> ('j, 'j) cfg" where
  "CONFIG_HAS_OR_CREATE_OBJECT J key config =
    (case json_object_object_get J config key of
       Some v \<Rightarrow> (if json_object_get_type J v \<noteq> json_type_object then None else Some v, config)
     | None \<Rightarrow> (let v = json_object_new_object J in (Some v, json_object_object_add J config key v)))"

definition CONFIG_HAS_OR_CREATE_ARRAY :: "'j json \<Rightarrow> cstring \<Rightarrow> ('j, 'j) cfg" where
  "CONFIG_HAS_OR_CREATE_ARRAY J key config =
    (case json_object_object_get J config key of
       Some v \<Rightarrow> (if json_object_get_type J v \<noteq> json_type_array then None else Some v, config)
     | None \<Rightarrow> (let v = json_object_new_array J in (Some v, json_object_object_add J config key v)))"

definition CONFIG_HAS :: "'j json \<Rightarrow> 'j \<Rightarrow> cstring \<Rightarrow> 'j option" where
  "CONFIG_HAS J config key = json_object_object_get J config key"

definition CONFIG_OVERRIDE_STRING :: "'j json \<Rightarrow> cstring \<Rightarrow> cstring \<Rightarrow> 'j \<Rightarrow> 'j" where
  "CONFIG_OVERRIDE_STRING J key val config = json_object_object_add J config key (json_object_new_string J val)"

definition CONFIG_OVERRIDE_BOOL :: "'j json \<Rightarrow> cstring \<Rightarrow> bool \<Rightarrow> 'j \<Rightarrow> 'j" where
  "CONFIG_OVERRIDE_BOOL J key val config = json_object_object_add J config key (json_object_new_boolean J val)"

text \<open>Macros one after the other, and macros applied to the object below a key.\<close>

fun cfg_all :: "('j, 'j) cfg list \<Rightarrow> ('j, unit) cfg" where
  "cfg_all [] config = (Some (), config)"
| "cfg_all (f # fs) config =
    (case f config of (None, config) \<Rightarrow> (None, config) | (Some _, config) \<Rightarrow> cfg_all fs config)"

definition cfg_below :: "'j json \<Rightarrow> cstring \<Rightarrow> ('j, unit) cfg \<Rightarrow> ('j, unit) cfg" where
  "cfg_below J key f config =
    (case CONFIG_HAS_OR_CREATE_OBJECT J key config of
       (None, config) \<Rightarrow> (None, config)
     | (Some obj, config) \<Rightarrow> (let (r, obj) = f obj in (r, json_object_object_add J config key obj)))"

end
