(* ===== verification/Backend_Init.thy ===== *)
theory Backend_Init
  imports Bake_Margo File_Transfer Pmem_Transfer
begin

text \<open>
  Attaching and releasing targets in both backends, the migration of a persistent memory region to
  another provider and the filesets that describe a target to REMI. The configuration of the
  provider is read and completed on the way, so it is an argument and part of the result; \<open>aid\<close> is
  the abt-io instance of the provider, zero if there is none.
\<close>

abbreviation str :: "string \<Rightarrow> cstring" where "str \<equiv> bytes_of_string"

section \<open>Paths and configuration shared by both backends\<close>

text \<open>\<open>strrchr (path, '/')\<close>, as an index.\<close>

definition last_slash :: "cstring \<Rightarrow> nat option" where
  "last_slash path =
    (if 47 \<in> set path then Some (length path - 1 - length (takeWhile ((\<noteq>) 47) (rev path))) else None)"

text \<open>The new target is appended to the \<open>targets\<close> array of the configuration of its backend.\<close>

definition record_target :: "'j json \<Rightarrow> cstring \<Rightarrow> cstring \<Rightarrow> 'j \<Rightarrow> 'j" where
  "record_target J backend path config =
    (case json_object_object_get J config backend of
       None \<Rightarrow> config
     | Some obj \<Rightarrow>
        (case json_object_object_get J obj (str ''targets'') of
           None \<Rightarrow> config
         | Some arr \<Rightarrow>
            json_object_object_add J config backend
              (json_object_object_add J obj (str ''targets'')
                (json_object_array_add J arr (json_object_new_string J path)))))"

definition pipeline_enable :: "'j json \<Rightarrow> 'j \<Rightarrow> bool" where
  "pipeline_enable J config =
    json_object_get_boolean J (json_object_object_get J config (str ''pipeline_enable''))"

section \<open>Persistent memory backend\<close>

definition pmem_config :: "'j json \<Rightarrow> ('j, unit) cfg" where
  "pmem_config J = cfg_below J (str ''pmem_backend'') (cfg_all
    [CONFIG_HAS_OR_CREATE J json_type_int (str ''default_initial_target_size'') (json_object_new_int64 J 1073741824),
     CONFIG_HAS_OR_CREATE_ARRAY J (str ''targets'')])"

definition bake_pmem_backend_initialize ::
  "'w env \<Rightarrow> 'w margo \<Rightarrow> 'j json \<Rightarrow> 'j \<Rightarrow> cstring \<Rightarrow> 'w pm \<Rightarrow>
     ((int + bake_target_id \<times> bake_pmem_entry) \<times> 'j) \<times> 'w pm" where
  "bake_pmem_backend_initialize env M J config path s =
    (let (m, w) = s;
         (dir, name) = (case last_slash path of
             Some d \<Rightarrow> (take d path, drop d path)
           | None \<Rightarrow> (str ''./'', path))
     in case pmem_config J config of
          (None, config) \<Rightarrow> ((Inl (-1), config), (m, w))
        | (Some _, config) \<Rightarrow>
           (case pmemobj_open env path w of
              (None, w) \<Rightarrow> ((Inl BAKE_ERR_NOENT, config), (m, w))
            | (Some pool, w) \<Rightarrow>
               (let (root_oid, w) = pmemobj_root env pool 16 w;
                    root = pmemobj_direct env root_oid w;
                    tid = extent (unat root) 16 m
                in if uuid_is_null M tid
                   then ((Inl BAKE_ERR_UNKNOWN_TARGET, config), (m, pmemobj_close env pool w))
                   else ((Inr (tid, \<lparr>pmem_pool_of = pool, pmem_root = root, pmem_dir = dir, pmem_filename = name\<rparr>),
                          record_target J (str ''pmem_backend'') path config), (m, w)))))"

definition bake_pmem_backend_finalize :: "'w env \<Rightarrow> bake_pmem_entry \<Rightarrow> 'w pm \<Rightarrow> int \<times> 'w pm" where
  "bake_pmem_backend_finalize env entry s =
    (let (m, w) = s in (0, (m, pmemobj_close env (pmem_pool_of entry) w)))"

text \<open>
  \<open>bake_pmem_migrate_region\<close> sends the region to the destination provider with a
  create-write-persist RPC and then frees it. The fields \<open>region_size\<close> of the request and the struct
  for the response are not initialised by the source: their values are the arguments \<open>junk\<close> and
  \<open>blank\<close>.
\<close>

definition migrate_cwp ::
  "'w env \<Rightarrow> 'w margo \<Rightarrow> hg_id \<Rightarrow> hg_addr \<Rightarrow> u16 \<Rightarrow> bake_target_id \<Rightarrow> u64 \<Rightarrow> u64 \<Rightarrow> u64 \<Rightarrow> rpc_out \<Rightarrow> 'w \<Rightarrow>
     (int + bake_region_id) \<times> 'w" where
  "migrate_cwp env M cwp_id dest_addr dest_provider_id dest_target_id ptr rsize junk blank w =
    (let ((hret, bulk), w) = bulk_create env ptr rsize w;
         cleanup = (\<lambda>h w. margo_destroy M h (bulk_free env bulk (margo_free_output M h w)));
         cwp_in = \<lparr>cwi_bti = dest_target_id, cwi_region_size = junk, cwi_bulk_handle = bulk,
                   cwi_bulk_offset = 0, cwi_bulk_size = rsize, cwi_remote_addr_str = None\<rparr>
     in if hret \<noteq> HG_SUCCESS then (Inl BAKE_ERR_MERCURY, cleanup HG_HANDLE_NULL w)
        else
         (let ((hret, h), w) = margo_create M cwp_id dest_addr w
          in if hret \<noteq> HG_SUCCESS then (Inl BAKE_ERR_MERCURY, cleanup h w)
             else
              (let (hret, w) = margo_provider_forward M dest_provider_id h (In_create_write_persist cwp_in) w
               in if hret \<noteq> HG_SUCCESS then (Inl BAKE_ERR_MERCURY, cleanup h w)
                  else
                   (let ((hret, out), w) = margo_get_output M h blank w
                    in if hret \<noteq> HG_SUCCESS then (Inl BAKE_ERR_MERCURY, cleanup h w)
                       else
                        (case out of
                           Out_create_write_persist cwp_out \<Rightarrow>
                             (if ro_ret cwp_out \<noteq> BAKE_SUCCESS then Inl (ro_ret cwp_out) else Inr (ro_rid cwp_out),
                              cleanup h w)
                         | _ \<Rightarrow> (Inl BAKE_ERR_MERCURY, cleanup h w))))))"

definition bake_pmem_migrate_region ::
  "'w env \<Rightarrow> 'w margo \<Rightarrow> bool \<Rightarrow> hg_id \<Rightarrow> bake_region_id \<Rightarrow> u64 \<Rightarrow> int \<Rightarrow> cstring option \<Rightarrow> u16 \<Rightarrow> bake_target_id \<Rightarrow>
     u64 \<Rightarrow> rpc_out \<Rightarrow> bake_region_id \<Rightarrow> 'w pm \<Rightarrow> (int \<times> bake_region_id) \<times> 'w pm" where
  "bake_pmem_migrate_region env M sizecheck cwp_id source_rid region_size_arg remove_source dest_addr_str
      dest_provider_id dest_target_id junk blank dest_rid s =
    (let (m, w) = s; region = pmemobj_direct env (prid_oid source_rid) w
     in if region = 0 then ((BAKE_ERR_UNKNOWN_REGION, dest_rid), (m, addr_free M HG_ADDR_NULL w))
        else if sizecheck \<and> region_size_arg \<noteq> region_size region m
        then ((BAKE_ERR_INVALID_ARG, dest_rid), (m, addr_free M HG_ADDR_NULL w))
        else
         (let ((hret, dest_addr), w) = addr_lookup M dest_addr_str w
          in if hret \<noteq> HG_SUCCESS then ((BAKE_ERR_MERCURY, dest_rid), (m, addr_free M dest_addr w))
             else
              (case migrate_cwp env M cwp_id dest_addr dest_provider_id dest_target_id
                      (region_data sizecheck region) region_size_arg junk blank w of
                 (Inl ret, w) \<Rightarrow> ((ret, dest_rid), (m, addr_free M dest_addr w))
               | (Inr rid, w) \<Rightarrow>
                   (let w = (if remove_source \<noteq> 0 then pmemobj_free env (prid_oid source_rid) w else w)
                    in ((BAKE_SUCCESS, rid), (m, addr_free M dest_addr w))))))"

text \<open>A fileset with the single file of the target; both backends have the same code.\<close>

definition create_fileset :: "'w margo \<Rightarrow> cstring \<Rightarrow> cstring \<Rightarrow> 'w \<Rightarrow> (int \<times> nat option) \<times> 'w" where
  "create_fileset M dir name w =
    (let ((ret, fs), w) = remi_fileset_create M (str ''bake'') dir w
     in if ret \<noteq> REMI_SUCCESS then ((BAKE_ERR_REMI, None), remi_fileset_free M fs w)
        else
         (let (ret, w) = remi_fileset_register_file M fs name w
          in if ret \<noteq> REMI_SUCCESS then ((BAKE_ERR_REMI, None), remi_fileset_free M fs w)
             else ((ret, Some fs), w)))"

definition bake_pmem_create_fileset :: "'w margo \<Rightarrow> bake_pmem_entry \<Rightarrow> 'w \<Rightarrow> (int \<times> nat option) \<times> 'w" where
  "bake_pmem_create_fileset M entry w = create_fileset M (pmem_dir entry) (pmem_filename entry) w"

definition bake_file_create_fileset :: "'w margo \<Rightarrow> bake_file_entry \<Rightarrow> 'w \<Rightarrow> (int \<times> nat option) \<times> 'w" where
  "bake_file_create_fileset M entry w = create_fileset M (root entry) (filename entry) w"

section \<open>File backend\<close>

definition file_config :: "'j json \<Rightarrow> ('j, unit) cfg" where
  "file_config J = cfg_below J (str ''file_backend'') (cfg_all
    [CONFIG_HAS_OR_CREATE_ARRAY J (str ''targets''),
     CONFIG_HAS_OR_CREATE J json_type_int (str ''alignment'') (json_object_new_int64 J 4096),
     CONFIG_HAS_OR_CREATE J json_type_boolean (str ''sync'') (json_object_new_boolean J True),
     CONFIG_HAS_OR_CREATE J json_type_boolean (str ''directio'') (json_object_new_boolean J True)])"

definition file_setting :: "'j json \<Rightarrow> 'j \<Rightarrow> cstring \<Rightarrow> 'j option" where
  "file_setting J config key =
    (case json_object_object_get J config (str ''file_backend'') of
       None \<Rightarrow> None | Some obj \<Rightarrow> json_object_object_get J obj key)"

definition EINVAL :: int where "EINVAL = 22"

text \<open>
  Opening the log: without direct I/O if the first attempt with it is refused. The second component
  says that the fallback was taken.
\<close>

definition file_open_log :: "'w margo \<Rightarrow> cstring \<Rightarrow> bool \<Rightarrow> 'w \<Rightarrow> (int \<times> bool) \<times> 'w" where
  "file_open_log M path direct w =
    (let (fd, w) = abt_io_open M path direct w
     in if fd = - EINVAL \<and> direct
        then (let (fd, w) = abt_io_open M path False w in ((fd, 0 \<le> fd), w))
        else ((fd, False), w))"

definition file_no_directio :: "'j json \<Rightarrow> 'j \<Rightarrow> 'j" where
  "file_no_directio J config =
    snd (cfg_below J (str ''file_backend'')
      (\<lambda>obj. (Some (), json_object_object_add J obj (str ''directio'') (json_object_new_boolean J False))) config)"

definition file_error_cleanup :: "'w env \<Rightarrow> 'w margo \<Rightarrow> nat \<Rightarrow> nat \<Rightarrow> int \<Rightarrow> 'w \<Rightarrow> 'w" where
  "file_error_cleanup env M aid abtio fd w =
    (let w = (if - 1 < fd then close_fd env fd w else w)
     in if abtio \<noteq> ABT_IO_INSTANCE_NULL \<and> abtio \<noteq> aid then abt_io_finalize M abtio w else w)"

definition alignment_ok :: "int \<Rightarrow> bool" where
  "alignment_ok al \<longleftrightarrow> 0 \<le> al \<and> (of_int al :: u32) AND (of_int al - 1) = 0"

text \<open>The part from opening the log on, with the abt-io instance \<open>abtio\<close>.\<close>

definition file_attach_log ::
  "'w env \<Rightarrow> 'w margo \<Rightarrow> 'j json \<Rightarrow> nat \<Rightarrow> nat \<Rightarrow> 'j \<Rightarrow> cstring \<Rightarrow> 'w \<Rightarrow>
     ((int + bake_target_id \<times> bake_file_entry) \<times> 'j) \<times> 'w" where
  "file_attach_log env M J aid abtio config path w =
    (let d = (case last_slash path of Some d \<Rightarrow> d | None \<Rightarrow> 0);
         ((fd, fallback), w) = file_open_log M path
            (json_object_get_boolean J (file_setting J config (str ''directio''))) w;
         config = (if fallback then file_no_directio J config else config);
         fail = (\<lambda>ret w. ((Inl ret, config), file_error_cleanup env M aid abtio fd w))
     in if fd < 0 then fail BAKE_ERR_NOENT w
        else
         (let (ret, st_size) = fstat_size M fd w
          in if ret < 0 then fail BAKE_ERR_IO w
             else
              (let ((ret, _, buf), w) = posix_memalign env BAKE_SUPERBLOCK_SIZE BAKE_SUPERBLOCK_SIZE w
               in if ret < 0 then fail BAKE_ERR_IO w
                  else
                   (let ((r, bs), w) = abt_io_pread env fd BAKE_SUPERBLOCK_SIZE 0 w
                    in if to_c_int r < 0 then fail BAKE_ERR_IO w
                       else
                        (let tid = take 16 (bs @ drop (length bs) buf);
                             al = json_object_get_int J (file_setting J config (str ''alignment''))
                         in if uuid_is_null M tid then fail BAKE_ERR_IO w
                            else if \<not> alignment_ok al then fail BAKE_ERR_INVALID_ARG w
                            else
                             ((Inr (tid, \<lparr>log_fd = fd, log_offset = st_size, log_alignment = al,
                                 sync = json_object_get_boolean J (file_setting J config (str ''sync'')),
                                 file_root = tid, root = take d path, filename = drop d path, abtioi = abtio\<rparr>),
                               record_target J (str ''file_backend'') path config), w))))))"

definition bake_file_backend_initialize ::
  "'w env \<Rightarrow> 'w margo \<Rightarrow> 'j json \<Rightarrow> nat \<Rightarrow> 'j \<Rightarrow> cstring \<Rightarrow> 'w \<Rightarrow>
     ((int + bake_target_id \<times> bake_file_entry) \<times> 'j) \<times> 'w" where
  "bake_file_backend_initialize env M J aid config path w =
    (if \<not> pipeline_enable J config then ((Inl BAKE_ERR_INVALID_ARG, config), w)
     else
      (case file_config J config of
         (None, config) \<Rightarrow> ((Inl (-1), config), w)
       | (Some _, config) \<Rightarrow>
          if aid \<noteq> ABT_IO_INSTANCE_NULL \<and> file_setting J config (str ''abtio_nthreads'') \<noteq> None
          then ((Inl BAKE_ERR_INVALID_ARG, config), file_error_cleanup env M aid 0 (-1) w)
          else if aid \<noteq> ABT_IO_INSTANCE_NULL then file_attach_log env M J aid aid config path w
          else
           (case cfg_below J (str ''file_backend'') (cfg_all
                   [CONFIG_HAS_OR_CREATE J json_type_int (str ''abtio_nthreads'') (json_object_new_int64 J 16)]) config of
              (None, config) \<Rightarrow> ((Inl (-1), config), w)
            | (Some _, config) \<Rightarrow>
               (let (abtio, w) = abt_io_init M
                       (json_object_get_int J (file_setting J config (str ''abtio_nthreads''))) w
                in if abtio = ABT_IO_INSTANCE_NULL
                   then ((Inl BAKE_ERR_IO, config), file_error_cleanup env M aid abtio (-1) w)
                   else file_attach_log env M J aid abtio config path w))))"

definition bake_file_backend_finalize :: "'w env \<Rightarrow> 'w margo \<Rightarrow> nat \<Rightarrow> bake_file_entry \<Rightarrow> 'w \<Rightarrow> int \<times> 'w" where
  "bake_file_backend_finalize env M aid entry w =
    (let w = close_fd env (log_fd entry) w;
         w = (if abtioi entry \<noteq> ABT_IO_INSTANCE_NULL \<and> abtioi entry \<noteq> aid then abt_io_finalize M (abtioi entry) w else w)
     in (BAKE_SUCCESS, w))"

end
