(* ===== verification/Bake_Backend.thy ===== *)
theory Bake_Backend
  imports Backend_Init
begin

text \<open>
  The operation tables of \<^verbatim>\<open>src/bake-backend.h\<close>. A target holds a pointer to one of the two tables
  \<open>g_bake_pmem_backend\<close> and \<open>g_bake_file_backend\<close> and the context that the backend made for it; both
  are set together when the target is attached. The pair is the type \<open>bake_context\<close>, and a call
  through the table is a case distinction on it.
\<close>

datatype bake_context = PmemContext bake_pmem_entry | FileContext bake_file_entry

datatype bake_backend_kind = g_bake_pmem_backend | g_bake_file_backend

text \<open>
  What the backends take from their surroundings: the libraries, whether the code was compiled with
  \<open>USE_SIZECHECK_HEADERS\<close> and with \<open>USE_REMI\<close>, the values of uninitialised locals, and which of the
  allocations for the target names of a backend succeed: number 0 is the array of the names,
  number \<open>i + 1\<close> the buffer of name \<open>i\<close>.
\<close>

record ('w, 'j) site =
  st_env :: "'w env"
  st_margo :: "'w margo"
  st_json :: "'j json"
  st_sizecheck :: bool
  st_remi :: bool
  st_junk_size :: u64
  st_junk_out :: rpc_out
  st_alloc :: "cstring \<Rightarrow> nat \<Rightarrow> bool"

fun backend_name :: "bake_context \<Rightarrow> cstring" where
  "backend_name (PmemContext e) = str ''pmem''"
| "backend_name (FileContext e) = str ''file''"

text \<open>File operations leave the memory that the program maps alone.\<close>

definition on_world :: "('w \<Rightarrow> 'a \<times> 'w) \<Rightarrow> 'w pm \<Rightarrow> 'a \<times> 'w pm" where
  "on_world f s = (let (r, w) = f (snd s) in (r, (fst s, w)))"

lemma on_world_simps [simp]:
  "fst (on_world f s) = fst (f (snd s))" "fst (snd (on_world f s)) = fst s" "snd (snd (on_world f s)) = snd (f (snd s))"
  by (simp_all add: on_world_def case_prod_unfold Let_def)

definition backend_initialize ::
  "('w, 'j) site \<Rightarrow> bake_backend_kind \<Rightarrow> nat \<Rightarrow> 'j \<Rightarrow> cstring \<Rightarrow> 'w pm \<Rightarrow>
     ((int + bake_target_id \<times> bake_context) \<times> 'j) \<times> 'w pm" where
  "backend_initialize S kind aid config path s =
    (case kind of
       g_bake_pmem_backend \<Rightarrow>
        (let ((r, config), s) = bake_pmem_backend_initialize (st_env S) (st_margo S) (st_json S) config path s
         in ((map_sum id (apsnd PmemContext) r, config), s))
     | g_bake_file_backend \<Rightarrow>
        (let ((r, config), s) = on_world (bake_file_backend_initialize (st_env S) (st_margo S) (st_json S) aid config path) s
         in ((map_sum id (apsnd FileContext) r, config), s)))"

fun backend_finalize :: "('w, 'j) site \<Rightarrow> nat \<Rightarrow> bake_context \<Rightarrow> 'w pm \<Rightarrow> int \<times> 'w pm" where
  "backend_finalize S aid (PmemContext e) s = bake_pmem_backend_finalize (st_env S) e s"
| "backend_finalize S aid (FileContext e) s = on_world (bake_file_backend_finalize (st_env S) (st_margo S) aid e) s"

fun backend_create ::
  "('w, 'j) site \<Rightarrow> bake_context \<Rightarrow> u64 \<Rightarrow> bake_region_id \<Rightarrow> 'w pm \<Rightarrow> (int \<times> bake_region_id \<times> bake_context) \<times> 'w pm" where
  "backend_create S (PmemContext e) sz rid s =
    (let ((ret, rid), s) = bake_pmem_create (st_env S) (st_sizecheck S) e sz rid s in ((ret, rid, PmemContext e), s))"
| "backend_create S (FileContext e) sz rid s =
    (let ((ret, rid, e), s) = on_world (bake_file_create (st_env S) e sz rid) s in ((ret, rid, FileContext e), s))"

fun backend_write_raw ::
  "('w, 'j) site \<Rightarrow> bake_context \<Rightarrow> bake_region_id \<Rightarrow> u64 \<Rightarrow> u64 \<Rightarrow> byte list \<Rightarrow> 'w pm \<Rightarrow> int \<times> 'w pm" where
  "backend_write_raw S (PmemContext e) rid off sz data s =
    bake_pmem_write_raw (st_env S) (st_sizecheck S) rid off sz data s"
| "backend_write_raw S (FileContext e) rid off sz data s =
    on_world (bake_file_write_raw (st_env S) e rid off sz data) s"

fun backend_write_bulk ::
  "('w, 'j) site \<Rightarrow> 'j \<Rightarrow> bake_context \<Rightarrow> bake_region_id \<Rightarrow> u64 \<Rightarrow> u64 \<Rightarrow> hg_bulk \<Rightarrow> hg_addr \<Rightarrow> u64 \<Rightarrow> nat list \<Rightarrow>
     'w pm \<Rightarrow> int option \<times> 'w pm" where
  "backend_write_bulk S config (PmemContext e) rid off sz bulk source boff sched s =
    bake_pmem_write_bulk (st_env S) (st_sizecheck S) (pipeline_enable (st_json S) config) rid off sz bulk source boff sched s"
| "backend_write_bulk S config (FileContext e) rid off sz bulk source boff sched s =
    on_world (bake_file_write_bulk (st_env S) e rid off sz bulk source boff sched) s"

text \<open>
  The result of a raw read: return code, the data with its address, and the function that frees it.
  Mapped memory is not freed.
\<close>

datatype free_fn = free_fn_NULL | bake_file_read_raw_free_fn

fun backend_read_raw ::
  "('w, 'j) site \<Rightarrow> bake_context \<Rightarrow> bake_region_id \<Rightarrow> u64 \<Rightarrow> u64 \<Rightarrow> 'w pm \<Rightarrow>
     (int \<times> raw_data option \<times> free_fn) \<times> 'w pm" where
  "backend_read_raw S (PmemContext e) rid off sz s =
    (let (ret, ptr, n) = bake_pmem_read_raw (st_env S) (st_sizecheck S) rid off sz s
     in ((ret,
          if ret \<noteq> BAKE_SUCCESS then None
          else Some \<lparr>rd_base = ptr, rd_ptr = ptr, rd_size = n, rd_bytes = extent (unat ptr) (unat n) (fst s)\<rparr>,
          free_fn_NULL), s))"
| "backend_read_raw S (FileContext e) rid off sz s =
    (let ((ret, d), s) = on_world (bake_file_read_raw (st_env S) e rid off sz) s
     in ((ret, d, if d = None then free_fn_NULL else bake_file_read_raw_free_fn), s))"

fun backend_read_bulk ::
  "('w, 'j) site \<Rightarrow> bake_context \<Rightarrow> bake_region_id \<Rightarrow> u64 \<Rightarrow> u64 \<Rightarrow> hg_bulk \<Rightarrow> hg_addr \<Rightarrow> u64 \<Rightarrow> nat list \<Rightarrow>
     'w pm \<Rightarrow> (int \<times> u64) option \<times> 'w pm" where
  "backend_read_bulk S (PmemContext e) rid off sz bulk source boff sched s =
    apfst Some (bake_pmem_read_bulk (st_env S) (st_sizecheck S) rid off sz bulk source boff s)"
| "backend_read_bulk S (FileContext e) rid off sz bulk source boff sched s =
    on_world (bake_file_read_bulk (st_env S) e rid off sz bulk source boff sched) s"

fun backend_persist ::
  "('w, 'j) site \<Rightarrow> bake_context \<Rightarrow> bake_region_id \<Rightarrow> u64 \<Rightarrow> u64 \<Rightarrow> 'w pm \<Rightarrow> int \<times> 'w pm" where
  "backend_persist S (PmemContext e) rid off sz s = bake_pmem_persist (st_env S) (st_sizecheck S) rid off sz s"
| "backend_persist S (FileContext e) rid off sz s = on_world (bake_file_persist (st_env S) e rid off sz) s"

text \<open>The combined operations are missing from the table of the file backend.\<close>

fun backend_create_write_persist_raw ::
  "('w, 'j) site \<Rightarrow> bake_context \<Rightarrow> (byte list \<Rightarrow> u64 \<Rightarrow> bake_region_id \<Rightarrow> 'w pm \<Rightarrow> (int \<times> bake_region_id) \<times> 'w pm) option" where
  "backend_create_write_persist_raw S (PmemContext e) =
    Some (bake_pmem_create_write_persist_raw (st_env S) (st_sizecheck S) e)"
| "backend_create_write_persist_raw S (FileContext e) = None"

fun backend_create_write_persist_bulk ::
  "('w, 'j) site \<Rightarrow> 'j \<Rightarrow> bake_context \<Rightarrow> (hg_bulk \<Rightarrow> hg_addr \<Rightarrow> u64 \<Rightarrow> u64 \<Rightarrow> bake_region_id \<Rightarrow> nat list \<Rightarrow> 'w pm \<Rightarrow>
     (int \<times> bake_region_id) option \<times> 'w pm) option" where
  "backend_create_write_persist_bulk S config (PmemContext e) =
    Some (bake_pmem_create_write_persist_bulk (st_env S) (st_sizecheck S) (pipeline_enable (st_json S) config) e)"
| "backend_create_write_persist_bulk S config (FileContext e) = None"

fun backend_get_region_size :: "('w, 'j) site \<Rightarrow> bake_context \<Rightarrow> bake_region_id \<Rightarrow> 'w pm \<Rightarrow> int \<times> u64 option" where
  "backend_get_region_size S (PmemContext e) rid s = bake_pmem_get_region_size (st_env S) (st_sizecheck S) rid s"
| "backend_get_region_size S (FileContext e) rid s = (bake_file_get_region_size e rid, None)"

fun backend_get_region_data :: "('w, 'j) site \<Rightarrow> bake_context \<Rightarrow> bake_region_id \<Rightarrow> 'w pm \<Rightarrow> int \<times> u64 option" where
  "backend_get_region_data S (PmemContext e) rid s = bake_pmem_get_region_data (st_env S) (st_sizecheck S) rid s"
| "backend_get_region_data S (FileContext e) rid s = (bake_file_get_region_data e rid, None)"

fun backend_remove :: "('w, 'j) site \<Rightarrow> bake_context \<Rightarrow> bake_region_id \<Rightarrow> 'w pm \<Rightarrow> int \<times> 'w pm" where
  "backend_remove S (PmemContext e) rid s = bake_pmem_remove (st_env S) rid s"
| "backend_remove S (FileContext e) rid s = on_world (bake_file_remove (st_env S) e rid) s"

fun backend_migrate_region ::
  "('w, 'j) site \<Rightarrow> hg_id \<Rightarrow> bake_context \<Rightarrow> bake_migrate_region_in \<Rightarrow> bake_region_id \<Rightarrow> 'w pm \<Rightarrow>
     (int \<times> bake_region_id) \<times> 'w pm" where
  "backend_migrate_region S cwp_id (PmemContext e) x dest_rid s =
    bake_pmem_migrate_region (st_env S) (st_margo S) (st_sizecheck S) cwp_id (mri_source_rid x) (mri_region_size x)
      (mri_remove_src x) (mri_dest_addr x) (mri_dest_provider_id x) (mri_dest_target_id x)
      (st_junk_size S) (st_junk_out S) dest_rid s"
| "backend_migrate_region S cwp_id (FileContext e) x dest_rid s =
    ((bake_file_migrate_region e (mri_source_rid x), dest_rid), s)"

fun backend_create_raw_target ::
  "('w, 'j) site \<Rightarrow> bake_backend_kind \<Rightarrow> cstring \<Rightarrow> u64 \<Rightarrow> 'w pm \<Rightarrow> int outcome \<times> 'w pm" where
  "backend_create_raw_target S g_bake_pmem_backend path sz s = apfst Returns (bake_pmem_makepool (st_env S) path sz s)"
| "backend_create_raw_target S g_bake_file_backend path sz s = on_world (bake_file_makepool (st_env S) path sz) s"

fun backend_create_fileset :: "('w, 'j) site \<Rightarrow> bake_context \<Rightarrow> 'w pm \<Rightarrow> (int \<times> nat option) \<times> 'w pm" where
  "backend_create_fileset S (PmemContext e) s = on_world (bake_pmem_create_fileset (st_margo S) e) s"
| "backend_create_fileset S (FileContext e) s = on_world (bake_file_create_fileset (st_margo S) e) s"

end
