(* ===== verification/Uthash.thy ===== *)
theory Uthash
  imports Bake_Prelude "HOL-Library.Multiset"
begin

text \<open>
  The hash table of \<^verbatim>\<open>src/uthash.h\<close> as the server uses it: \<open>HASH_FIND\<close>, \<open>HASH_ADD\<close>,
  \<open>HASH_DEL\<close> and \<open>HASH_ITER\<close> with the Jenkins hash, bucket chains and bucket expansion.
  The two intrusive doubly linked lists (bucket order and application order) are lists; an
  element is identified by its address. A table that does not exist (\<open>head == NULL\<close>) is
  \<open>None\<close>. The bookkeeping counters are natural numbers: they count elements that are in memory.
  The locale \<open>keyed_table\<close> is the contract the provider relies on; the model of the macros is
  its instance.
\<close>

section \<open>The contract\<close>

record 'a ut_elem =
  el_ptr :: nat
  el_key :: "byte list"
  el_val :: 'a

abbreviation without :: "nat \<Rightarrow> 'a ut_elem list \<Rightarrow> 'a ut_elem list" where
  "without p es \<equiv> filter (\<lambda>e. el_ptr e \<noteq> p) es"

locale keyed_table =
  fixes tab_empty :: 't
    and find :: "'t \<Rightarrow> byte list \<Rightarrow> 'a ut_elem option"
    and add :: "'t \<Rightarrow> 'a ut_elem \<Rightarrow> 't"
    and del :: "'t \<Rightarrow> 'a ut_elem \<Rightarrow> 't"
    and elems :: "'t \<Rightarrow> 'a ut_elem list"
    and invar :: "'t \<Rightarrow> bool"
  assumes elems_empty: "elems tab_empty = []"
    and elems_add: "invar t \<Longrightarrow> el_ptr e \<notin> el_ptr ` set (elems t) \<Longrightarrow> elems (add t e) = elems t @ [e]"
    and elems_del: "invar t \<Longrightarrow> e \<in> set (elems t) \<Longrightarrow> elems (del t e) = without (el_ptr e) (elems t)"
    and find_Some: "invar t \<Longrightarrow> find t k = Some e \<Longrightarrow> e \<in> set (elems t) \<and> el_key e = k"
    and find_None: "invar t \<Longrightarrow> find t k = None \<longleftrightarrow> k \<notin> el_key ` set (elems t)"
    and distinct_ptrs: "invar t \<Longrightarrow> distinct (map el_ptr (elems t))"
    and invar_empty: "invar tab_empty"
    and invar_add: "invar t \<Longrightarrow> el_ptr e \<notin> el_ptr ` set (elems t) \<Longrightarrow> invar (add t e)"
    and invar_del: "invar t \<Longrightarrow> e \<in> set (elems t) \<Longrightarrow> invar (del t e)"
begin

text \<open>While no key is stored twice, a lookup is determined by the stored elements.\<close>

definition distinct_keys :: "'t \<Rightarrow> bool" where
  "distinct_keys t \<longleftrightarrow> distinct (map el_key (elems t))"

lemma find_eq:
  assumes "invar t" and "distinct_keys t"
  shows "find t k = Some e \<longleftrightarrow> e \<in> set (elems t) \<and> el_key e = k"
proof
  assume "find t k = Some e"
  then show "e \<in> set (elems t) \<and> el_key e = k" using assms(1) find_Some by blast
next
  assume e: "e \<in> set (elems t) \<and> el_key e = k"
  then obtain e' where e': "find t k = Some e'"
    using assms(1) find_None [of t k] by (cases "find t k") auto
  then have "e' \<in> set (elems t)" and "el_key e' = k"
    using assms(1) find_Some by blast+
  with e have "e' = e"
    using assms(2) unfolding distinct_keys_def distinct_map by (auto dest: inj_onD)
  with e' show "find t k = Some e" by simp
qed

lemma find_cong:
  assumes "invar t" "distinct_keys t" "invar t'" "distinct_keys t'"
    and "\<And>e. el_key e = k \<Longrightarrow> e \<in> set (elems t) \<longleftrightarrow> e \<in> set (elems t')"
  shows "find t k = find t' k"
proof -
  have "find t k = Some e \<longleftrightarrow> find t' k = Some e" for e
    using assms find_eq by blast
  then show ?thesis by (metis not_Some_eq)
qed

lemma find_add:
  assumes "invar t" and "distinct_keys t" and "el_ptr e \<notin> el_ptr ` set (elems t)"
    and "find t (el_key e) = None"
  shows "distinct_keys (add t e)" and "find (add t e) (el_key e) = Some e"
    and "k \<noteq> el_key e \<Longrightarrow> find (add t e) k = find t k"
proof -
  show dk: "distinct_keys (add t e)"
    using assms find_None [of t "el_key e"] by (auto simp: distinct_keys_def elems_add)
  show "find (add t e) (el_key e) = Some e"
    using assms dk by (simp add: find_eq invar_add elems_add)
  show "find (add t e) k = find t k" if "k \<noteq> el_key e"
    using assms dk that by (intro find_cong) (auto simp: invar_add elems_add)
qed

lemma find_del:
  assumes "invar t" and "distinct_keys t" and "find t k = Some e"
  shows "distinct_keys (del t e)" and "find (del t e) k = None"
    and "k' \<noteq> k \<Longrightarrow> find (del t e) k' = find t k'"
proof -
  have e: "e \<in> set (elems t)" and k: "el_key e = k"
    using assms find_Some by blast+
  have el: "elems (del t e) = without (el_ptr e) (elems t)"
    using assms e by (simp add: elems_del)
  show dk: "distinct_keys (del t e)"
    using assms(2) by (simp add: distinct_keys_def el distinct_map_filter)
  have inj: "x = e" if "x \<in> set (elems t)" and "el_key x = k" for x
    using that e k assms(2) unfolding distinct_keys_def distinct_map by (auto dest: inj_onD)
  show "find (del t e) k = None"
    using assms e inj by (auto simp: find_None invar_del el)
  have ptr: "x = e" if "x \<in> set (elems t)" and "el_ptr x = el_ptr e" for x
    using that e distinct_ptrs [OF assms(1)] unfolding distinct_map by (auto dest: inj_onD)
  show "find (del t e) k' = find t k'" if "k' \<noteq> k"
    using assms dk e that k ptr by (intro find_cong) (auto simp: invar_del el)
qed

end

section \<open>The Jenkins hash\<close>

definition hash_jen_mix :: "u32 \<times> u32 \<times> u32 \<Rightarrow> u32 \<times> u32 \<times> u32" where
  "hash_jen_mix = (\<lambda>(a, b, c).
    let a = a - b; a = a - c; a = a XOR drop_bit 13 c;
        b = b - c; b = b - a; b = b XOR push_bit 8 a;
        c = c - a; c = c - b; c = c XOR drop_bit 13 b;
        a = a - b; a = a - c; a = a XOR drop_bit 12 c;
        b = b - c; b = b - a; b = b XOR push_bit 16 a;
        c = c - a; c = c - b; c = c XOR drop_bit 5 b;
        a = a - b; a = a - c; a = a XOR drop_bit 3 c;
        b = b - c; b = b - a; b = b XOR push_bit 10 a;
        c = c - a; c = c - b; c = c XOR drop_bit 15 b
    in (a, b, c))"

text \<open>Four key bytes as one little endian word, and the last, shorter group (bytes that are
  not there count as zero, as the fall-through switch leaves them out).\<close>

definition jen_word :: "byte list \<Rightarrow> nat \<Rightarrow> u32" where
  "jen_word key i = (if i < length key then ucast (key ! i) else 0)"

definition jen_word4 :: "byte list \<Rightarrow> nat \<Rightarrow> u32" where
  "jen_word4 key i = jen_word key i + push_bit 8 (jen_word key (i + 1)) +
     push_bit 16 (jen_word key (i + 2)) + push_bit 24 (jen_word key (i + 3))"

fun hash_jen_loop :: "byte list \<Rightarrow> u32 \<times> u32 \<times> u32 \<Rightarrow> byte list \<times> (u32 \<times> u32 \<times> u32)" where
  "hash_jen_loop key (i, j, hashv) =
    (if length key \<ge> 12
     then hash_jen_loop (drop 12 key)
            (hash_jen_mix (i + jen_word4 key 0, j + jen_word4 key 4, hashv + jen_word4 key 8))
     else (key, (i, j, hashv)))"

declare hash_jen_loop.simps [simp del]

definition hash_jen :: "byte list \<Rightarrow> u32" where
  "hash_jen key =
    (let (rest, (i, j, hashv)) = hash_jen_loop key (0x9e3779b9, 0x9e3779b9, 0xfeedbeef);
         hashv = hashv + of_nat (length key);
         hashv = hashv + push_bit 8 (jen_word rest 8) + push_bit 16 (jen_word rest 9) +
                 push_bit 24 (jen_word rest 10);
         j = j + jen_word4 rest 4;
         i = i + jen_word4 rest 0;
         (_, _, hashv) = hash_jen_mix (i, j, hashv)
     in hashv)"

section \<open>The table\<close>

record 'a ut_hh =
  hh_hashv :: u32
  hh_elem :: "'a ut_elem"

record 'a ut_bucket =
  bk_chain :: "'a ut_hh list"
  bk_count :: nat
  bk_expand_mult :: nat

record 'a ut_table =
  buckets :: "'a ut_bucket list"
  num_buckets :: nat
  log2_num_buckets :: nat
  num_items :: nat
  ideal_chain_maxlen :: nat
  nonideal_items :: nat
  ineff_expands :: nat
  noexpand :: nat
  app_order :: "'a ut_hh list"

definition HASH_INITIAL_NUM_BUCKETS :: nat where "HASH_INITIAL_NUM_BUCKETS = 32"
definition HASH_INITIAL_NUM_BUCKETS_LOG2 :: nat where "HASH_INITIAL_NUM_BUCKETS_LOG2 = 5"
definition HASH_BKT_CAPACITY_THRESH :: nat where "HASH_BKT_CAPACITY_THRESH = 10"

definition empty_bucket :: "'a ut_bucket" where
  "empty_bucket = \<lparr>bk_chain = [], bk_count = 0, bk_expand_mult = 0\<rparr>"

definition hash_make_table :: "'a ut_table" where
  "hash_make_table =
    \<lparr>buckets = replicate HASH_INITIAL_NUM_BUCKETS empty_bucket,
     num_buckets = HASH_INITIAL_NUM_BUCKETS, log2_num_buckets = HASH_INITIAL_NUM_BUCKETS_LOG2,
     num_items = 0, ideal_chain_maxlen = 0, nonideal_items = 0, ineff_expands = 0, noexpand = 0,
     app_order = []\<rparr>"

definition hash_to_bkt :: "u32 \<Rightarrow> nat \<Rightarrow> nat" where
  "hash_to_bkt hashv num_bkts = unat (hashv AND (of_nat num_bkts - 1))"

definition hash_find_in_bkt :: "'a ut_bucket \<Rightarrow> byte list \<Rightarrow> 'a ut_elem option" where
  "hash_find_in_bkt bkt key =
    map_option hh_elem
      (List.find (\<lambda>h. length (el_key (hh_elem h)) = length key \<and> el_key (hh_elem h) = key)
        (bk_chain bkt))"

definition hash_find :: "'a ut_table option \<Rightarrow> byte list \<Rightarrow> 'a ut_elem option" where
  "hash_find head key =
    (case head of
       None \<Rightarrow> None
     | Some t \<Rightarrow> hash_find_in_bkt (buckets t ! hash_to_bkt (hash_jen key) (num_buckets t)) key)"

text \<open>One step of the redistribution loop of \<open>HASH_EXPAND_BUCKETS\<close>.\<close>

definition expand_move ::
  "nat \<Rightarrow> nat \<Rightarrow> 'a ut_hh \<Rightarrow> 'a ut_bucket list \<times> nat \<Rightarrow> 'a ut_bucket list \<times> nat" where
  "expand_move num_bkts ideal thh = (\<lambda>(new_buckets, nonideal).
    let b = hash_to_bkt (hh_hashv thh) num_bkts;
        newbkt = new_buckets ! b;
        cnt = bk_count newbkt + 1;
        newbkt = newbkt\<lparr>bk_count := cnt\<rparr>;
        (newbkt, nonideal) =
          (if cnt > ideal
           then (newbkt\<lparr>bk_expand_mult := cnt div ideal\<rparr>, nonideal + 1)
           else (newbkt, nonideal))
    in (new_buckets[b := newbkt\<lparr>bk_chain := thh # bk_chain newbkt\<rparr>], nonideal))"

definition hash_expand_buckets :: "'a ut_table \<Rightarrow> 'a ut_table" where
  "hash_expand_buckets t =
    (let ideal = num_items t div 2 ^ (log2_num_buckets t + 1) +
                 (if num_items t mod (num_buckets t * 2) \<noteq> 0 then 1 else 0);
         (new_buckets, nonideal) =
           fold (expand_move (num_buckets t * 2) ideal) (concat (map bk_chain (buckets t)))
             (replicate (2 * num_buckets t) empty_bucket, 0);
         ineff = (if nonideal > num_items t div 2 then ineff_expands t + 1 else 0)
     in t\<lparr>buckets := new_buckets, num_buckets := num_buckets t * 2,
          log2_num_buckets := log2_num_buckets t + 1, ideal_chain_maxlen := ideal,
          nonideal_items := nonideal, ineff_expands := ineff,
          noexpand := (if ineff > 1 then 1 else noexpand t)\<rparr>)"

definition hash_add_to_bkt :: "nat \<Rightarrow> 'a ut_hh \<Rightarrow> 'a ut_table \<Rightarrow> 'a ut_table" where
  "hash_add_to_bkt b addhh t =
    (let bkt = buckets t ! b;
         bkt = bkt\<lparr>bk_count := bk_count bkt + 1, bk_chain := addhh # bk_chain bkt\<rparr>;
         t = t\<lparr>buckets := (buckets t)[b := bkt]\<rparr>
     in if bk_count bkt \<ge> (bk_expand_mult bkt + 1) * HASH_BKT_CAPACITY_THRESH \<and> noexpand t \<noteq> 1
        then hash_expand_buckets t else t)"

definition hash_add :: "'a ut_table option \<Rightarrow> 'a ut_elem \<Rightarrow> 'a ut_table option" where
  "hash_add head e =
    (let t = (case head of None \<Rightarrow> hash_make_table | Some t \<Rightarrow> t);
         hh = \<lparr>hh_hashv = hash_jen (el_key e), hh_elem = e\<rparr>;
         t = t\<lparr>app_order := app_order t @ [hh], num_items := num_items t + 1\<rparr>
     in Some (hash_add_to_bkt (hash_to_bkt (hh_hashv hh) (num_buckets t)) hh t))"

definition hash_del_in_bkt :: "nat \<Rightarrow> 'a ut_bucket \<Rightarrow> 'a ut_bucket" where
  "hash_del_in_bkt p bkt =
    bkt\<lparr>bk_count := bk_count bkt - 1,
        bk_chain := filter (\<lambda>h. el_ptr (hh_elem h) \<noteq> p) (bk_chain bkt)\<rparr>"

text \<open>\<open>HASH_DELETE\<close> of an element of the table; the stored hash value selects the bucket.\<close>

definition hash_delete :: "'a ut_table option \<Rightarrow> 'a ut_elem \<Rightarrow> 'a ut_table option" where
  "hash_delete head e =
    (case head of
       None \<Rightarrow> None
     | Some t \<Rightarrow>
         (case List.find (\<lambda>h. el_ptr (hh_elem h) = el_ptr e) (app_order t) of
            None \<Rightarrow> Some t
          | Some hh \<Rightarrow>
              if length (app_order t) = 1 then None
              else let b = hash_to_bkt (hh_hashv hh) (num_buckets t)
                   in Some (t\<lparr>app_order := filter (\<lambda>h. el_ptr (hh_elem h) \<noteq> el_ptr e) (app_order t),
                              buckets := (buckets t)[b := hash_del_in_bkt (el_ptr e) (buckets t ! b)],
                              num_items := num_items t - 1\<rparr>)))"

definition hash_iter :: "'a ut_table option \<Rightarrow> 'a ut_elem list" where
  "hash_iter head = (case head of None \<Rightarrow> [] | Some t \<Rightarrow> map hh_elem (app_order t))"

definition hash_cnt :: "'a ut_table option \<Rightarrow> nat" where
  "hash_cnt head = (case head of None \<Rightarrow> 0 | Some t \<Rightarrow> num_items t)"

section \<open>The table keeps its invariant\<close>

definition buckets_ok :: "nat \<Rightarrow> 'a ut_hh set \<Rightarrow> 'a ut_bucket list \<Rightarrow> bool" where
  "buckets_ok nb S bs \<longleftrightarrow> length bs = nb \<and>
    (\<forall>b<nb. set (bk_chain (bs ! b)) = {h \<in> S. hash_to_bkt (hh_hashv h) nb = b} \<and>
      distinct (bk_chain (bs ! b)) \<and> bk_count (bs ! b) = length (bk_chain (bs ! b)))"

definition ut_table_ok :: "'a ut_table \<Rightarrow> bool" where
  "ut_table_ok t \<longleftrightarrow>
    (\<exists>k. num_buckets t = 2 ^ k) \<and> buckets_ok (num_buckets t) (set (app_order t)) (buckets t) \<and>
    (\<forall>h \<in> set (app_order t). hh_hashv h = hash_jen (el_key (hh_elem h))) \<and>
    distinct (map (\<lambda>h. el_ptr (hh_elem h)) (app_order t)) \<and>
    num_items t = length (app_order t)"

definition ut_ok :: "'a ut_table option \<Rightarrow> bool" where
  "ut_ok head \<longleftrightarrow> (case head of None \<Rightarrow> True | Some t \<Rightarrow> ut_table_ok t \<and> app_order t \<noteq> [])"

lemma hash_to_bkt_less: "hash_to_bkt h (2 ^ k) < 2 ^ k"
proof -
  have "hash_to_bkt h (2 ^ k) = unat (take_bit k h)"
    by (simp add: hash_to_bkt_def take_bit_eq_mask mask_eq_exp_minus_1)
  then show ?thesis by (simp add: unsigned_take_bit_eq)
qed

lemma buckets_ok_empty: "buckets_ok nb {} (replicate nb empty_bucket)"
  by (simp add: buckets_ok_def empty_bucket_def)

lemma buckets_ok_insert:
  assumes "buckets_ok nb S bs" and "h \<notin> S" and "b = hash_to_bkt (hh_hashv h) nb" and "b < nb"
    and "bk_chain bkt = h # bk_chain (bs ! b)" and "bk_count bkt = bk_count (bs ! b) + 1"
  shows "buckets_ok nb (insert h S) (bs[b := bkt])"
  using assms by (auto simp: buckets_ok_def nth_list_update)

lemma buckets_ok_expand_move:
  assumes "buckets_ok (2 ^ k) S bs" and "h \<notin> S"
  shows "buckets_ok (2 ^ k) (insert h S) (fst (expand_move (2 ^ k) ideal h (bs, n)))"
  using assms hash_to_bkt_less [of "hh_hashv h" k]
  by (auto simp: expand_move_def Let_def intro!: buckets_ok_insert)

lemma buckets_ok_expand:
  assumes "buckets_ok (2 ^ k) S bs" and "distinct xs" and "set xs \<inter> S = {}"
  shows "buckets_ok (2 ^ k) (S \<union> set xs) (fst (fold (expand_move (2 ^ k) ideal) xs (bs, n)))"
  using assms
proof (induction xs arbitrary: S bs n)
  case Nil
  then show ?case by simp
next
  case (Cons h xs)
  obtain bs' n' where m: "expand_move (2 ^ k) ideal h (bs, n) = (bs', n')"
    by fastforce
  have "buckets_ok (2 ^ k) (insert h S) bs'"
    using buckets_ok_expand_move [of k S bs h ideal n] Cons.prems m by simp
  then show ?case
    using Cons.IH [of "insert h S" bs' n'] Cons.prems m by auto
qed

lemma distinct_concat_nth:
  assumes "\<And>i. i < length xss \<Longrightarrow> distinct (xss ! i)"
    and "\<And>i j. i < j \<Longrightarrow> j < length xss \<Longrightarrow> set (xss ! i) \<inter> set (xss ! j) = {}"
  shows "distinct (concat xss)"
  using assms
proof (induction xss)
  case Nil
  then show ?case by simp
next
  case (Cons xs xss)
  have "distinct (concat xss)"
    using Cons.prems(1) [of "Suc i" for i] Cons.prems(2) [of "Suc i" "Suc j" for i j]
    by (intro Cons.IH) auto
  moreover have "set xs \<inter> set ys = {}" if "ys \<in> set xss" for ys
    using that Cons.prems(2) [of 0 "Suc j" for j] by (auto simp: in_set_conv_nth)
  ultimately show ?case
    using Cons.prems(1) [of 0] by auto
qed

lemma buckets_ok_concat:
  assumes "buckets_ok (2 ^ k) S bs"
  shows "distinct (concat (map bk_chain bs))" and "set (concat (map bk_chain bs)) = S"
proof -
  show "distinct (concat (map bk_chain bs))"
    by (rule distinct_concat_nth) (use assms in \<open>auto simp: buckets_ok_def\<close>)
  show "set (concat (map bk_chain bs)) = S"
    using assms hash_to_bkt_less [of _ k] by (fastforce simp: buckets_ok_def in_set_conv_nth)
qed

lemma buckets_ok_expand_all:
  assumes "buckets_ok (2 ^ k) S bs"
  shows "buckets_ok (2 ^ Suc k) S
    (fst (fold (expand_move (2 ^ Suc k) ideal) (concat (map bk_chain bs))
      (replicate (2 ^ Suc k) empty_bucket, 0)))"
  using buckets_ok_expand [OF buckets_ok_empty, of "concat (map bk_chain bs)" "Suc k" ideal 0]
    buckets_ok_concat [OF assms] by simp

lemma hash_expand_ok:
  assumes "ut_table_ok t"
  shows "ut_table_ok (hash_expand_buckets t)"
    and "app_order (hash_expand_buckets t) = app_order t"
proof -
  obtain k where k: "num_buckets t = 2 ^ k" using assms by (auto simp: ut_table_ok_def)
  then have nb: "num_buckets t * 2 = 2 ^ Suc k" "2 * num_buckets t = 2 ^ Suc k" by simp_all
  have ok: "buckets_ok (2 ^ k) (set (app_order t)) (buckets t)"
    using assms k by (simp add: ut_table_ok_def)
  have new: "buckets_ok (2 ^ Suc k) (set (app_order t)) (buckets (hash_expand_buckets t)) \<and>
      num_buckets (hash_expand_buckets t) = 2 ^ Suc k"
    unfolding hash_expand_buckets_def Let_def nb
    by (simp add: case_prod_unfold buckets_ok_expand_all [OF ok] del: power_Suc)
  show ao: "app_order (hash_expand_buckets t) = app_order t"
    by (simp add: hash_expand_buckets_def Let_def case_prod_unfold)
  have ni: "num_items (hash_expand_buckets t) = num_items t"
    by (simp add: hash_expand_buckets_def Let_def case_prod_unfold)
  show "ut_table_ok (hash_expand_buckets t)"
    using assms new unfolding ut_table_ok_def ao ni by (auto intro: exI [of _ "Suc k"])
qed

lemma hash_add_to_bkt_ok:
  assumes "ut_table_ok (t\<lparr>app_order := ord, num_items := length ord\<rparr>)"
    and "h \<notin> set ord" and "el_ptr (hh_elem h) \<notin> (\<lambda>h. el_ptr (hh_elem h)) ` set ord"
    and "hh_hashv h = hash_jen (el_key (hh_elem h))"
    and "t' = t\<lparr>app_order := ord @ [h], num_items := Suc (length ord)\<rparr>"
  shows "ut_table_ok (hash_add_to_bkt (hash_to_bkt (hh_hashv h) (num_buckets t)) h t')"
    and "app_order (hash_add_to_bkt (hash_to_bkt (hh_hashv h) (num_buckets t)) h t') = ord @ [h]"
proof -
  let ?b = "hash_to_bkt (hh_hashv h) (num_buckets t)"
  let ?bkt = "(buckets t ! ?b)\<lparr>bk_count := bk_count (buckets t ! ?b) + 1,
      bk_chain := h # bk_chain (buckets t ! ?b)\<rparr>"
  let ?t = "t'\<lparr>buckets := (buckets t)[?b := ?bkt]\<rparr>"
  obtain k where k: "num_buckets t = 2 ^ k"
    using assms(1) by (auto simp: ut_table_ok_def)
  have "buckets_ok (num_buckets t) (insert h (set ord)) ((buckets t)[?b := ?bkt])"
    by (rule buckets_ok_insert) (use assms k hash_to_bkt_less in \<open>auto simp: ut_table_ok_def\<close>)
  then have ok: "ut_table_ok ?t"
    using assms k by (auto simp: ut_table_ok_def)
  have eq: "hash_add_to_bkt ?b h t' = ?t \<or> hash_add_to_bkt ?b h t' = hash_expand_buckets ?t"
    using assms(5) by (simp add: hash_add_to_bkt_def Let_def)
  show "ut_table_ok (hash_add_to_bkt ?b h t')"
    using eq ok hash_expand_ok(1) [OF ok] by auto
  show "app_order (hash_add_to_bkt ?b h t') = ord @ [h]"
    using eq hash_expand_ok(2) [OF ok] assms(5) by auto
qed

lemma ut_table_ok_new: "ut_table_ok hash_make_table"
  by (auto simp: ut_table_ok_def hash_make_table_def HASH_INITIAL_NUM_BUCKETS_def
      intro: exI [of _ 5] buckets_ok_empty)

lemma hash_add_ok:
  assumes "ut_ok head" and "el_ptr e \<notin> el_ptr ` set (hash_iter head)"
  shows "ut_ok (hash_add head e)" and "hash_iter (hash_add head e) = hash_iter head @ [e]"
proof -
  define t where "t = (case head of None \<Rightarrow> hash_make_table | Some t \<Rightarrow> t)"
  define h where "h = \<lparr>hh_hashv = hash_jen (el_key e), hh_elem = e\<rparr>"
  have ok: "ut_table_ok t"
    using assms(1) ut_table_ok_new by (auto simp: t_def ut_ok_def split: option.splits)
  have it: "hash_iter head = map hh_elem (app_order t)"
    by (simp add: t_def hash_iter_def hash_make_table_def split: option.splits)
  have ptr: "el_ptr (hh_elem h) \<notin> (\<lambda>h. el_ptr (hh_elem h)) ` set (app_order t)"
    using assms(2) by (auto simp: it h_def)
  have fresh: "h \<notin> set (app_order t)" using ptr by blast
  have n: "num_items t = length (app_order t)" using ok by (simp add: ut_table_ok_def)
  have "ut_table_ok (t\<lparr>app_order := app_order t, num_items := length (app_order t)\<rparr>)"
    using ok n by (metis (mono_tags, lifting) ut_table.surjective ut_table.update_convs(4,9))
  note add = hash_add_to_bkt_ok [OF this fresh ptr _ refl]
  have eq: "hash_add head e = Some (hash_add_to_bkt (hash_to_bkt (hh_hashv h) (num_buckets t)) h
      (t\<lparr>app_order := app_order t @ [h], num_items := Suc (length (app_order t))\<rparr>))"
    by (simp add: hash_add_def Let_def t_def [symmetric] h_def n)
  show "ut_ok (hash_add head e)"
    using add unfolding eq by (simp add: ut_ok_def h_def)
  show "hash_iter (hash_add head e) = hash_iter head @ [e]"
    using add(2) unfolding eq it by (simp add: hash_iter_def h_def)
qed

lemma find_SomeD: "List.find P xs = Some x \<Longrightarrow> x \<in> set xs \<and> P x"
  by (auto simp: find_Some_iff)

lemma distinct_filter_ptr:
  assumes "distinct (map f xs)" and "x \<in> set xs"
  shows "length (filter (\<lambda>y. f y \<noteq> f x) xs) = length xs - 1"
  using assms
proof (induction xs)
  case Nil
  then show ?case by simp
next
  case (Cons a xs)
  show ?case
  proof (cases "f a = f x")
    case True
    with Cons.prems have "filter (\<lambda>y. f y \<noteq> f x) xs = xs"
      by (intro filter_True) (auto simp: image_iff)
    with True show ?thesis by simp
  next
    case False
    with Cons.prems have "x \<in> set xs" by auto
    with Cons False show ?thesis by (cases xs) auto
  qed
qed

lemma buckets_ok_delete:
  assumes "buckets_ok nb S bs" and "h \<in> S" and "hash_to_bkt (hh_hashv h) nb < nb"
    and "inj_on (\<lambda>h. el_ptr (hh_elem h)) S" and "b = hash_to_bkt (hh_hashv h) nb"
  shows "buckets_ok nb (S - {h}) (bs[b := hash_del_in_bkt (el_ptr (hh_elem h)) (bs ! b)])"
proof -
  have same: "x = h" if "x \<in> S" and "el_ptr (hh_elem x) = el_ptr (hh_elem h)" for x
    using assms(2,4) that by (auto dest: inj_onD)
  have chain: "set (bk_chain (bs ! b)) = {h \<in> S. hash_to_bkt (hh_hashv h) nb = b}"
    "distinct (bk_chain (bs ! b))" "bk_count (bs ! b) = length (bk_chain (bs ! b))"
    using assms by (auto simp: buckets_ok_def)
  have "distinct (map (\<lambda>h. el_ptr (hh_elem h)) (bk_chain (bs ! b)))"
    using chain assms(4) by (auto simp: distinct_map inj_on_def)
  then have "length (filter (\<lambda>y. el_ptr (hh_elem y) \<noteq> el_ptr (hh_elem h)) (bk_chain (bs ! b))) =
      length (bk_chain (bs ! b)) - 1"
    by (rule distinct_filter_ptr) (use chain assms in auto)
  then show ?thesis
    using assms chain same by (auto simp: buckets_ok_def hash_del_in_bkt_def nth_list_update)
qed

lemma hash_delete_ok:
  assumes "ut_ok head" and "e \<in> set (hash_iter head)"
  shows "ut_ok (hash_delete head e)"
    and "hash_iter (hash_delete head e) = without (el_ptr e) (hash_iter head)"
proof -
  let ?p = "\<lambda>h. el_ptr (hh_elem h)"
  obtain t where t: "head = Some t" and ok: "ut_table_ok t"
    using assms by (cases head) (auto simp: hash_iter_def ut_ok_def)
  obtain k where k: "num_buckets t = 2 ^ k" using ok by (auto simp: ut_table_ok_def)
  have dist: "distinct (map ?p (app_order t))" and n: "num_items t = length (app_order t)"
    using ok by (simp_all add: ut_table_ok_def)
  have inj: "inj_on ?p (set (app_order t))" using dist by (simp add: distinct_map)
  obtain h where h: "h \<in> set (app_order t)" "hh_elem h = e"
    using assms(2) by (auto simp: t hash_iter_def)
  then obtain h' where fnd: "List.find (\<lambda>h. ?p h = el_ptr e) (app_order t) = Some h'"
    by (cases "List.find (\<lambda>h. ?p h = el_ptr e) (app_order t)") (auto simp: find_None_iff)
  then have h': "h' \<in> set (app_order t)" "?p h' = el_ptr e"
    by (auto dest: find_SomeD)
  define ord where "ord = filter (\<lambda>h. ?p h \<noteq> el_ptr e) (app_order t)"
  have len: "length ord = length (app_order t) - 1"
    using distinct_filter_ptr [OF dist h'(1)] by (simp add: ord_def h')
  have set_ord: "set ord = set (app_order t) - {h'}"
    using inj h' unfolding inj_on_def ord_def by auto
  have iter: "map hh_elem ord = without (el_ptr e) (hash_iter head)"
    by (simp add: ord_def t hash_iter_def filter_map o_def)
  have "ut_ok (hash_delete head e) \<and> hash_iter (hash_delete head e) = map hh_elem ord"
  proof (cases "length (app_order t) = 1")
    case True
    then show ?thesis using fnd len by (simp add: t hash_delete_def ut_ok_def hash_iter_def)
  next
    case False
    have ne: "ord \<noteq> []" using False len h(1) by (cases "app_order t") auto
    have "buckets_ok (num_buckets t) (set (app_order t)) (buckets t)"
      using ok by (simp add: ut_table_ok_def)
    then have "buckets_ok (num_buckets t) (set ord)
        ((buckets t)[hash_to_bkt (hh_hashv h') (num_buckets t) :=
          hash_del_in_bkt (el_ptr e) (buckets t ! hash_to_bkt (hh_hashv h') (num_buckets t))])"
      unfolding set_ord h'(2) [symmetric]
      by (rule buckets_ok_delete) (use h' k inj hash_to_bkt_less in auto)
    moreover have "distinct (map ?p ord)" using dist by (simp add: ord_def distinct_map_filter)
    ultimately show ?thesis
      using False fnd ok k len n ne
      by (auto simp: t hash_delete_def Let_def ut_ok_def hash_iter_def ut_table_ok_def
          ord_def [symmetric] set_ord)
  qed
  then show "ut_ok (hash_delete head e)"
    and "hash_iter (hash_delete head e) = without (el_ptr e) (hash_iter head)"
    by (simp_all add: iter)
qed

lemma hash_find_chain:
  assumes "ut_ok (Some t)"
  shows "set (bk_chain (buckets t ! hash_to_bkt (hash_jen key) (num_buckets t))) =
    {h \<in> set (app_order t). hash_to_bkt (hh_hashv h) (num_buckets t) =
       hash_to_bkt (hash_jen key) (num_buckets t)}"
proof -
  obtain k where k: "num_buckets t = 2 ^ k"
    using assms by (auto simp: ut_ok_def ut_table_ok_def)
  then have "hash_to_bkt (hash_jen key) (num_buckets t) < num_buckets t"
    by (simp add: hash_to_bkt_less)
  then show ?thesis
    using assms by (simp add: ut_ok_def ut_table_ok_def buckets_ok_def)
qed

lemma hash_find_None_iff:
  assumes "ut_ok head"
  shows "hash_find head key = None \<longleftrightarrow> key \<notin> el_key ` set (hash_iter head)"
proof (cases head)
  case None
  then show ?thesis by (simp add: hash_find_def hash_iter_def)
next
  case (Some t)
  have hv: "\<forall>h \<in> set (app_order t). hh_hashv h = hash_jen (el_key (hh_elem h))"
    using assms by (simp add: Some ut_ok_def ut_table_ok_def)
  show ?thesis
    using hash_find_chain [of t key] assms hv
    by (auto simp: Some hash_find_def hash_find_in_bkt_def find_None_iff hash_iter_def)
qed

lemma hash_find_SomeD:
  assumes "ut_ok head" and "hash_find head key = Some e"
  shows "e \<in> set (hash_iter head) \<and> el_key e = key"
proof (cases head)
  case None
  with assms show ?thesis by (simp add: hash_find_def)
next
  case (Some t)
  with assms(2) obtain h where
    "h \<in> set (bk_chain (buckets t ! hash_to_bkt (hash_jen key) (num_buckets t)))"
    "hh_elem h = e" "el_key e = key"
    by (auto simp: hash_find_def hash_find_in_bkt_def dest!: find_SomeD)
  then show ?thesis
    using hash_find_chain [of t key] assms(1) by (auto simp: Some hash_iter_def)
qed

lemma hash_iter_distinct: "ut_ok head \<Longrightarrow> distinct (map el_ptr (hash_iter head))"
  by (auto simp: ut_ok_def ut_table_ok_def hash_iter_def o_def split: option.splits)

lemma hash_cnt_iter: "ut_ok head \<Longrightarrow> hash_cnt head = length (hash_iter head)"
  by (auto simp: ut_ok_def ut_table_ok_def hash_iter_def hash_cnt_def split: option.splits)

interpretation ut: keyed_table None hash_find hash_add hash_delete hash_iter ut_ok
proof unfold_locales
  show "hash_iter None = []" by (simp add: hash_iter_def)
  show "ut_ok None" by (simp add: ut_ok_def)
qed (simp_all add: hash_add_ok hash_delete_ok hash_find_SomeD hash_find_None_iff hash_iter_distinct)

section \<open>Properties\<close>

text \<open>C29: the hash table refines a map that remembers insertion order. Adding an element whose
  key is not stored keeps the invariant of the table, appends the element to the iteration
  order, makes it the result of looking its key up and changes no other lookup, also when the
  addition triggers a bucket expansion.\<close>

theorem hash_add_refines_map:
  assumes "ut_ok head" and "distinct (map el_key (hash_iter head))"
    and "el_ptr e \<notin> el_ptr ` set (hash_iter head)" and "hash_find head (el_key e) = None"
  shows "ut_ok (hash_add head e) \<and> hash_iter (hash_add head e) = hash_iter head @ [e] \<and>
    hash_find (hash_add head e) = (hash_find head)(el_key e \<mapsto> e)"
proof -
  have dk: "ut.distinct_keys head" using assms(2) by (simp add: ut.distinct_keys_def)
  note add = ut.find_add [OF assms(1) dk assms(3,4)]
  have "hash_find (hash_add head e) = (hash_find head)(el_key e \<mapsto> e)"
    by (rule ext) (use add in simp)
  then show ?thesis by (simp add: assms hash_add_ok)
qed

text \<open>C30: deleting a stored element keeps the invariant, removes exactly that element from the
  iteration order, makes its key unknown and changes no other lookup.\<close>

theorem hash_delete_refines_map:
  assumes "ut_ok head" and "distinct (map el_key (hash_iter head))"
    and "hash_find head key = Some e"
  shows "ut_ok (hash_delete head e) \<and>
    hash_iter (hash_delete head e) = filter (\<lambda>x. el_ptr x \<noteq> el_ptr e) (hash_iter head) \<and>
    hash_find (hash_delete head e) = (hash_find head)(key := None)"
proof -
  have dk: "ut.distinct_keys head" using assms(2) by (simp add: ut.distinct_keys_def)
  have e: "e \<in> set (hash_iter head)" using assms hash_find_SomeD by blast
  note del = ut.find_del [OF assms(1) dk assms(3)]
  have "hash_find (hash_delete head e) = (hash_find head)(key := None)"
    by (rule ext) (use del in simp)
  then show ?thesis using e by (simp add: assms hash_delete_ok)
qed

definition example_elem :: "nat \<Rightarrow> unit ut_elem" where
  "example_elem n = \<lparr>el_ptr = n, el_key = replicate 16 (of_nat n), el_val = ()\<rparr>"

theorem hash_add_refines_map_witness:
  "ut_ok (hash_add (hash_add None (example_elem 1)) (example_elem 2)) \<and>
   hash_iter (hash_add (hash_add None (example_elem 1)) (example_elem 2)) =
     [example_elem 1, example_elem 2]"
proof -
  have 1: "ut_ok (hash_add None (example_elem 1))"
    "hash_iter (hash_add None (example_elem 1)) = [example_elem 1]"
    using hash_add_ok [OF ut.invar_empty, of "example_elem 1"] by (simp_all add: ut.elems_empty)
  have 2: "hash_find (hash_add None (example_elem 1)) (el_key (example_elem 2)) = None"
    using 1 by (simp add: hash_find_None_iff example_elem_def)
  show ?thesis
    using hash_add_refines_map [OF 1(1) _ _ 2] 1 by (simp add: example_elem_def)
qed

theorem hash_delete_refines_map_witness:
  "hash_find (hash_delete (hash_add None (example_elem 1)) (example_elem 1))
     (el_key (example_elem 1)) = None"
proof -
  have 1: "ut_ok (hash_add None (example_elem 1))"
    "hash_iter (hash_add None (example_elem 1)) = [example_elem 1]"
    using hash_add_ok [OF ut.invar_empty, of "example_elem 1"] by (simp_all add: ut.elems_empty)
  have 2: "hash_find (hash_add None (example_elem 1)) (el_key (example_elem 1)) = Some (example_elem 1)"
    using 1 hash_find_None_iff [OF 1(1)] hash_find_SomeD [OF 1(1)]
    by (cases "hash_find (hash_add None (example_elem 1)) (el_key (example_elem 1))") auto
  show ?thesis
    using hash_delete_refines_map [OF 1(1) _ 2] 1 by simp
qed

end
