(* ===== verification/Provider.thy ===== *)
theory Provider
  imports Bake_Backend Uthash
begin

text \<open>
  The provider of \<^verbatim>\<open>src/bake-server.c\<close>: its state, the table of targets, attaching, detaching and
  listing them, run time parameters, configuration, registration and deregistration. The targets
  are the elements of the uthash table; an element holds the address of the context, and the
  contexts live in a store indexed by address. Calls on the lock of the provider are recorded in
  the order in which they are made.
\<close>

section \<open>State\<close>

datatype lock_call = ABT_rwlock_rdlock | ABT_rwlock_wrlock | ABT_rwlock_unlock

record 'j bake_provider =
  pv_num_targets :: u64
  pv_targets :: "nat ut_table option"
  pv_contexts :: "nat \<Rightarrow> bake_context option"
  pv_brk :: nat
  pv_aid :: nat
  pv_poolset :: nat
  pv_lock_calls :: "lock_call list"
  pv_rpc_ids :: "hg_id list"
  pv_cwp_client_id :: hg_id
  pv_remi_client :: bool
  pv_remi_provider :: bool
  pv_json_cfg :: 'j

type_synonym ('w, 'j) server = "'j bake_provider \<times> 'w pm"

definition lock_op :: "lock_call \<Rightarrow> 'j bake_provider \<Rightarrow> 'j bake_provider" where
  "lock_op c p = p\<lparr>pv_lock_calls := pv_lock_calls p @ [c]\<rparr>"

lemma lock_op_simps [simp]:
  "pv_num_targets (lock_op c p) = pv_num_targets p" "pv_targets (lock_op c p) = pv_targets p"
  "pv_contexts (lock_op c p) = pv_contexts p" "pv_brk (lock_op c p) = pv_brk p"
  "pv_aid (lock_op c p) = pv_aid p" "pv_poolset (lock_op c p) = pv_poolset p"
  "pv_lock_calls (lock_op c p) = pv_lock_calls p @ [c]" "pv_rpc_ids (lock_op c p) = pv_rpc_ids p"
  "pv_cwp_client_id (lock_op c p) = pv_cwp_client_id p" "pv_remi_client (lock_op c p) = pv_remi_client p"
  "pv_remi_provider (lock_op c p) = pv_remi_provider p" "pv_json_cfg (lock_op c p) = pv_json_cfg p"
  by (simp_all add: lock_op_def)

definition find_target_entry :: "'j bake_provider \<Rightarrow> bake_target_id \<Rightarrow> nat ut_elem option" where
  "find_target_entry p target_id = hash_find (pv_targets p) target_id"

definition target_context :: "'j bake_provider \<Rightarrow> bake_target_id \<Rightarrow> bake_context option" where
  "target_context p target_id =
    (case find_target_entry p target_id of None \<Rightarrow> None | Some e \<Rightarrow> pv_contexts p (el_val e))"

section \<open>Targets\<close>

text \<open>The backend is named before the first colon; without one it is \<open>pmem\<close>.\<close>

definition split_target_name :: "cstring \<Rightarrow> cstring \<times> cstring" where
  "split_target_name name =
    (if 58 \<in> set name then (takeWhile ((\<noteq>) 58) name, tl (dropWhile ((\<noteq>) 58) name)) else (str ''pmem'', name))"

definition backend_of_type :: "cstring \<Rightarrow> bake_backend_kind option" where
  "backend_of_type typ =
    (if typ = str ''pmem'' then Some g_bake_pmem_backend
     else if typ = str ''file'' then Some g_bake_file_backend else None)"

definition bake_create_raw_target ::
  "('w, 'j) site \<Rightarrow> cstring \<Rightarrow> u64 \<Rightarrow> 'w pm \<Rightarrow> int outcome \<times> 'w pm" where
  "bake_create_raw_target S name sz s =
    (let (typ, path) = split_target_name name
     in case backend_of_type typ of
          None \<Rightarrow> (Returns BAKE_ERR_BACKEND_TYPE, s)
        | Some kind \<Rightarrow> backend_create_raw_target S kind path sz s)"

definition insert_target ::
  "('w, 'j) site \<Rightarrow> bake_target_id \<Rightarrow> bake_context \<Rightarrow> ('w, 'j) server \<Rightarrow> (int \<times> bake_target_id option) \<times> ('w, 'j) server" where
  "insert_target S tid ctx = (\<lambda>(p, s).
    let e = \<lparr>el_ptr = pv_brk p, el_key = tid, el_val = pv_brk p + 1\<rparr>;
        p = p\<lparr>pv_brk := pv_brk p + 2, pv_contexts := (pv_contexts p)(el_val e := Some ctx)\<rparr>;
        p = lock_op ABT_rwlock_wrlock p;
        p = p\<lparr>pv_targets := hash_add (pv_targets p) e\<rparr>
    in case hash_find (pv_targets p) tid of
         Some check_entry \<Rightarrow>
           (if el_ptr check_entry \<noteq> el_ptr e
            then (let (_, s) = backend_finalize S (pv_aid p) ctx s;
                      p = p\<lparr>pv_contexts := (pv_contexts p)(el_val e := None)\<rparr>
                  in ((BAKE_ERR_ALLOCATION, None), (lock_op ABT_rwlock_unlock p, s)))
            else ((BAKE_SUCCESS, Some tid),
                  (lock_op ABT_rwlock_unlock (p\<lparr>pv_num_targets := pv_num_targets p + 1\<rparr>), s)))
       | None \<Rightarrow>
           (let (_, s) = backend_finalize S (pv_aid p) ctx s;
                p = p\<lparr>pv_contexts := (pv_contexts p)(el_val e := None)\<rparr>
            in ((BAKE_ERR_ALLOCATION, None), (lock_op ABT_rwlock_unlock p, s))))"

definition bake_provider_attach_target ::
  "('w, 'j) site \<Rightarrow> cstring \<Rightarrow> ('w, 'j) server \<Rightarrow> (int \<times> bake_target_id option) \<times> ('w, 'j) server" where
  "bake_provider_attach_target S target_name = (\<lambda>(p, s).
    let (typ, path) = split_target_name target_name
    in case backend_of_type typ of
         None \<Rightarrow> ((BAKE_ERR_BACKEND_TYPE, None), (p, s))
       | Some kind \<Rightarrow>
          (let ((r, config), s) = backend_initialize S kind (pv_aid p) (pv_json_cfg p) path s;
               p = p\<lparr>pv_json_cfg := config\<rparr>
           in case r of
                Inl ret \<Rightarrow> ((ret, None), (p, s))
              | Inr (tid, ctx) \<Rightarrow> insert_target S tid ctx (p, s)))"

definition bake_provider_create_target ::
  "('w, 'j) site \<Rightarrow> cstring \<Rightarrow> u64 \<Rightarrow> ('w, 'j) server \<Rightarrow> (int \<times> bake_target_id option) outcome \<times> ('w, 'j) server" where
  "bake_provider_create_target S target_name sz = (\<lambda>(p, s).
    case bake_create_raw_target S target_name sz s of
      (Aborts, s) \<Rightarrow> (Aborts, (p, s))
    | (Returns ret, s) \<Rightarrow>
        if ret < 0 then (Returns (ret, None), (p, s))
        else apfst Returns (bake_provider_attach_target S target_name (p, s)))"

text \<open>Removing one entry: out of the table, then its context is released.\<close>

definition drop_target :: "('w, 'j) site \<Rightarrow> nat ut_elem \<Rightarrow> ('w, 'j) server \<Rightarrow> ('w, 'j) server" where
  "drop_target S e = (\<lambda>(p, s).
    let p = p\<lparr>pv_targets := hash_delete (pv_targets p) e\<rparr>;
        s = (case pv_contexts p (el_val e) of None \<Rightarrow> s | Some ctx \<Rightarrow> snd (backend_finalize S (pv_aid p) ctx s))
    in (p\<lparr>pv_contexts := (pv_contexts p)(el_val e := None)\<rparr>, s))"

definition bake_provider_detach_target ::
  "('w, 'j) site \<Rightarrow> bake_target_id \<Rightarrow> ('w, 'j) server \<Rightarrow> int \<times> ('w, 'j) server" where
  "bake_provider_detach_target S target_id = (\<lambda>(p, s).
    let p = lock_op ABT_rwlock_wrlock p
    in case hash_find (pv_targets p) target_id of
         None \<Rightarrow> (BAKE_ERR_UNKNOWN_TARGET, (lock_op ABT_rwlock_unlock p, s))
       | Some e \<Rightarrow> (BAKE_SUCCESS, apfst (lock_op ABT_rwlock_unlock) (drop_target S e (p, s))))"

definition bake_provider_detach_all_targets ::
  "('w, 'j) site \<Rightarrow> ('w, 'j) server \<Rightarrow> int \<times> ('w, 'j) server" where
  "bake_provider_detach_all_targets S = (\<lambda>(p, s).
    let p = lock_op ABT_rwlock_wrlock p;
        (p, s) = fold (drop_target S) (hash_iter (pv_targets p)) (p, s)
    in (BAKE_SUCCESS, (lock_op ABT_rwlock_unlock (p\<lparr>pv_num_targets := 0\<rparr>), s)))"

definition bake_provider_count_targets :: "'j bake_provider \<Rightarrow> (int \<times> u64) \<times> 'j bake_provider" where
  "bake_provider_count_targets p =
    (let p = lock_op ABT_rwlock_rdlock p
     in ((BAKE_SUCCESS, pv_num_targets p), lock_op ABT_rwlock_unlock p))"

text \<open>
  The ids of the targets are stored into the array of the caller, here a list; the rest of the array
  keeps its contents. An array that is too short is overrun: the result is then longer than it.
\<close>

definition bake_provider_list_targets ::
  "'j bake_provider \<Rightarrow> bake_target_id list \<Rightarrow> (int \<times> bake_target_id list) \<times> 'j bake_provider" where
  "bake_provider_list_targets p targets =
    (let p = lock_op ABT_rwlock_rdlock p;
         ids = map el_key (hash_iter (pv_targets p))
     in ((BAKE_SUCCESS, ids @ drop (length ids) targets), lock_op ABT_rwlock_unlock p))"

section \<open>Parameters and buffer pools\<close>

definition setup_poolset :: "('w, 'j) site \<Rightarrow> ('w, 'j) server \<Rightarrow> int \<times> ('w, 'j) server" where
  "setup_poolset S = (\<lambda>(p, s).
    let J = st_json S; cfg = pv_json_cfg p;
        setting = (\<lambda>key. json_object_get_int J (json_object_object_get J cfg (str key)));
        (hret, p, s) =
          (if pv_poolset p = 0 \<and> pipeline_enable J cfg
           then (let ((hret, ps), w) = poolset_create (st_margo S) (setting ''pipeline_npools'')
                        (setting ''pipeline_nbuffers_per_pool'') (setting ''pipeline_first_buffer_size'')
                        (setting ''pipeline_multiplier'') (snd s)
                 in (hret, p\<lparr>pv_poolset := ps\<rparr>, (fst s, w)))
           else (0, p, s))
    in if hret \<noteq> 0 then (BAKE_ERR_MERCURY, (p, s))
       else if pv_poolset p \<noteq> 0 \<and> \<not> pipeline_enable J cfg
       then (let (hret, w) = poolset_destroy (st_margo S) (pv_poolset p) (snd s)
             in (if hret \<noteq> 0 then BAKE_ERR_MERCURY else BAKE_SUCCESS, (p, (fst s, w))))
       else (BAKE_SUCCESS, (p, s)))"

definition bake_provider_set_param ::
  "('w, 'j) site \<Rightarrow> cstring \<Rightarrow> cstring \<Rightarrow> ('w, 'j) server \<Rightarrow> int \<times> ('w, 'j) server" where
  "bake_provider_set_param S key val = (\<lambda>(p, s).
    if key = str ''pipeline_enable'' then
      (case if val = str ''true'' \<or> val = str ''1'' then Some True
            else if val = str ''false'' \<or> val = str ''0'' then Some False else None of
         None \<Rightarrow> (BAKE_ERR_INVALID_ARG, (p, s))
       | Some b \<Rightarrow>
           (let p = p\<lparr>pv_json_cfg := CONFIG_OVERRIDE_BOOL (st_json S) key b (pv_json_cfg p)\<rparr>
            in (0, snd (setup_poolset S (p, s)))))
    else (BAKE_ERR_INVALID_ARG, (p, s)))"

definition bake_provider_get_config :: "('w, 'j) site \<Rightarrow> 'j bake_provider \<Rightarrow> cstring" where
  "bake_provider_get_config S p = json_object_to_json_string (st_json S) (pv_json_cfg p)"

end
