(* ===== verification/Provider_Register.thy ===== *)
theory Provider_Register
  imports Provider
begin

text \<open>
  Registration of a provider (\<^verbatim>\<open>src/bake-server.c\<close>): the configuration is completed, the RPCs are
  registered and the targets named in the configuration are attached or created; every failure
  undoes what was done before. \<open>Aborts\<close> is a failed assertion.
\<close>

section \<open>Configuration\<close>

definition validate_and_complete_config :: "'j json \<Rightarrow> cstring \<Rightarrow> ('j, unit) cfg" where
  "validate_and_complete_config J version config =
    cfg_all
      [CONFIG_HAS_OR_CREATE J json_type_boolean (str ''pipeline_enable'') (json_object_new_boolean J False),
       CONFIG_HAS_OR_CREATE J json_type_int (str ''pipeline_npools'') (json_object_new_int64 J 4),
       CONFIG_HAS_OR_CREATE J json_type_int (str ''pipeline_nbuffers_per_pool'') (json_object_new_int64 J 32),
       CONFIG_HAS_OR_CREATE J json_type_int (str ''pipeline_first_buffer_size'') (json_object_new_int64 J 65536),
       CONFIG_HAS_OR_CREATE J json_type_int (str ''pipeline_multiplier'') (json_object_new_int64 J 4)]
      (CONFIG_OVERRIDE_STRING J (str ''version'') version config)"

section \<open>Targets named in the configuration\<close>

definition attach_or_create ::
  "('w, 'j) site \<Rightarrow> u64 \<Rightarrow> cstring \<Rightarrow> ('w, 'j) server \<Rightarrow> int outcome \<times> ('w, 'j) server" where
  "attach_or_create S sz name st =
    (let ((ret, _), st) = bake_provider_attach_target S name st
     in if ret = BAKE_ERR_NOENT
        then (case bake_provider_create_target S name sz st of
                (Aborts, st) \<Rightarrow> (Aborts, st)
              | (Returns (ret, _), st) \<Rightarrow> (Returns ret, st))
        else (Returns ret, st))"

text \<open>
  The loop over the names. Each name lies in a buffer of its own that is freed after it has been
  attached; \<open>frees\<close> is the list of the indices of the buffers passed to \<open>free\<close>.
\<close>

fun attach_loop ::
  "('w, 'j) site \<Rightarrow> u64 \<Rightarrow> cstring list \<Rightarrow> nat \<Rightarrow> nat list \<Rightarrow> ('w, 'j) server \<Rightarrow>
     (int \<times> nat list) outcome \<times> ('w, 'j) server" where
  "attach_loop S sz [] i frees st = (Returns (0, frees), st)"
| "attach_loop S sz (name # names) i frees st =
    (case attach_or_create S sz name st of
       (Aborts, st) \<Rightarrow> (Aborts, st)
     | (Returns ret, st) \<Rightarrow>
         if ret \<noteq> BAKE_SUCCESS then (Returns (ret, frees), st)
         else attach_loop S sz names (Suc i) (frees @ [i]) st)"

text \<open>How many names are attached before the first one that cannot be.\<close>

fun attached_before :: "('w, 'j) site \<Rightarrow> u64 \<Rightarrow> cstring list \<Rightarrow> ('w, 'j) server \<Rightarrow> nat" where
  "attached_before S sz [] st = 0"
| "attached_before S sz (name # names) st =
    (case attach_or_create S sz name st of
       (Returns ret, st) \<Rightarrow> if ret = BAKE_SUCCESS then Suc (attached_before S sz names st) else 0
     | (Aborts, st) \<Rightarrow> 0)"

definition target_name :: "cstring \<Rightarrow> cstring \<Rightarrow> cstring" where
  "target_name prefix path = take 255 (prefix @ [58] @ path)"

text \<open>The names in the array, the size for targets that have to be created, and the provider with
  the array removed from its configuration (it is rebuilt as the targets are attached).\<close>

definition target_names :: "('w, 'j) site \<Rightarrow> cstring \<Rightarrow> 'j \<Rightarrow> cstring list" where
  "target_names S prefix targets =
    map (\<lambda>t. target_name prefix (json_object_get_string (st_json S) t)) (json_object_array_elems (st_json S) targets)"

definition initial_target_size :: "'j json \<Rightarrow> 'j \<Rightarrow> u64" where
  "initial_target_size J backend =
    (case CONFIG_HAS J backend (str ''default_initial_target_size'') of
       None \<Rightarrow> 0 | Some v \<Rightarrow> of_int (json_object_get_int J (Some v)))"

definition without_targets :: "('w, 'j) site \<Rightarrow> cstring \<Rightarrow> 'j \<Rightarrow> 'j bake_provider \<Rightarrow> 'j bake_provider" where
  "without_targets S key backend p =
    p\<lparr>pv_json_cfg := json_object_object_add (st_json S) (pv_json_cfg p) key
        (json_object_object_del (st_json S) backend (str ''targets''))\<rparr>"

text \<open>
  If the array cannot be allocated there is nothing to free; if a buffer cannot be allocated, the
  array comes from \<open>calloc\<close>, so the error path frees the buffers before it.
\<close>

definition attach_targets ::
  "('w, 'j) site \<Rightarrow> cstring \<Rightarrow> cstring \<Rightarrow> 'j \<Rightarrow> ('w, 'j) server \<Rightarrow> (int \<times> nat list) outcome \<times> ('w, 'j) server" where
  "attach_targets S prefix key backend = (\<lambda>(p, s).
    let sz = initial_target_size (st_json S) backend
    in case CONFIG_HAS (st_json S) backend (str ''targets'') of
         None \<Rightarrow> (Returns (0, []), (p, s))
       | Some targets \<Rightarrow>
          (let names = target_names S prefix targets
           in if \<not> st_alloc S prefix 0 then (Returns (BAKE_ERR_NOMEM, []), (p, s))
              else
               (case find (\<lambda>i. \<not> st_alloc S prefix (Suc i)) [0..<length names] of
                  Some i \<Rightarrow> (Returns (BAKE_ERR_NOMEM, [0..<i]), (p, s))
                | None \<Rightarrow>
                   (case attach_loop S sz names 0 [] (without_targets S key backend p, s) of
                      (Aborts, st) \<Rightarrow> (Aborts, st)
                    | (Returns (ret, frees), st) \<Rightarrow>
                        if ret \<noteq> 0 then (Returns (ret, frees @ [0..<length names]), st)
                        else (Returns (0, frees), st)))))"

definition configure_targets :: "('w, 'j) site \<Rightarrow> ('w, 'j) server \<Rightarrow> int outcome \<times> ('w, 'j) server" where
  "configure_targets S = (\<lambda>(p, s).
    let J = st_json S;
        file = (case CONFIG_HAS J (pv_json_cfg p) (str ''file_backend'') of
                  None \<Rightarrow> (Returns (0, []), (p, s))
                | Some backend \<Rightarrow> attach_targets S (str ''file'') (str ''file_backend'') backend (p, s))
    in case file of
         (Aborts, st) \<Rightarrow> (Aborts, st)
       | (Returns (ret, _), (p, s)) \<Rightarrow>
           if ret \<noteq> BAKE_SUCCESS then (Returns ret, (p, s))
           else
            (case CONFIG_HAS J (pv_json_cfg p) (str ''pmem_backend'') of
               None \<Rightarrow> (Returns 0, (p, s))
             | Some backend \<Rightarrow>
                (case CONFIG_HAS_OR_CREATE J json_type_int (str ''default_initial_target_size'')
                        (json_object_new_int64 J 1073741824) backend of
                   (None, _) \<Rightarrow> (Returns (-1), (p, s))
                 | (Some _, backend) \<Rightarrow>
                    (let p = p\<lparr>pv_json_cfg := json_object_object_add J (pv_json_cfg p) (str ''pmem_backend'') backend\<rparr>
                     in case attach_targets S (str ''pmem'') (str ''pmem_backend'') backend (p, s) of
                          (Aborts, st) \<Rightarrow> (Aborts, st)
                        | (Returns (ret, _), st) \<Rightarrow> (Returns ret, st)))))"

section \<open>Registration\<close>

definition server_rpc_names :: "cstring list" where
  "server_rpc_names = map str
    [''bake_create_rpc'', ''bake_write_rpc'', ''bake_eager_write_rpc'', ''bake_eager_read_rpc'',
     ''bake_persist_rpc'', ''bake_create_write_persist_rpc'', ''bake_eager_create_write_persist_rpc'',
     ''bake_get_size_rpc'', ''bake_get_data_rpc'', ''bake_read_rpc'', ''bake_probe_rpc'', ''bake_noop_rpc'',
     ''bake_remove_rpc'', ''bake_migrate_region_rpc'', ''bake_migrate_target_rpc'']"

fun register_rpcs :: "'w margo \<Rightarrow> u16 \<Rightarrow> cstring list \<Rightarrow> 'w \<Rightarrow> hg_id list \<times> 'w" where
  "register_rpcs M provider_id [] w = ([], w)"
| "register_rpcs M provider_id (name # names) w =
    (let (rpc_id, w) = margo_register_provider M name provider_id w;
         (ids, w) = register_rpcs M provider_id names w
     in (rpc_id # ids, w))"

text \<open>The order in which the ids are deregistered, as positions in the order of registration.\<close>

definition deregister_order :: "nat list" where
  "deregister_order = [0, 1, 2, 4, 5, 6, 7, 8, 9, 3, 10, 11, 12, 13, 14]"

definition deregister_rpcs :: "'w margo \<Rightarrow> hg_id list \<Rightarrow> 'w \<Rightarrow> 'w" where
  "deregister_rpcs M ids w = fold (\<lambda>i. margo_deregister M (ids ! i)) deregister_order w"

definition cwp_client_id :: "'w margo \<Rightarrow> 'w \<Rightarrow> hg_id \<times> 'w" where
  "cwp_client_id M w =
    (case margo_registered_name M (str ''bake_create_write_persist_rpc'') w of
       Some rpc_id \<Rightarrow> (rpc_id, w)
     | None \<Rightarrow> margo_register M (str ''bake_create_write_persist_rpc'') w)"

text \<open>The arguments of \<open>bake_provider_register\<close> besides the margo instance.\<close>

record provider_args =
  pa_json_config :: "cstring option"
  pa_aid :: nat
  pa_remi_client :: bool
  pa_remi_provider :: bool

definition new_provider :: "provider_args \<Rightarrow> 'j \<Rightarrow> 'j bake_provider" where
  "new_provider args config =
    \<lparr>pv_num_targets = 0, pv_targets = None, pv_contexts = (\<lambda>_. None), pv_brk = 1, pv_aid = pa_aid args,
     pv_poolset = 0, pv_lock_calls = [], pv_rpc_ids = [], pv_cwp_client_id = 0, pv_remi_client = False,
     pv_remi_provider = False, pv_json_cfg = config\<rparr>"

text \<open>The code at the label \<open>error\<close> for a provider that has been allocated.\<close>

definition register_error :: "('w, 'j) site \<Rightarrow> bool \<Rightarrow> ('w, 'j) server \<Rightarrow> 'w pm" where
  "register_error S configuring_targets_flag st =
    (let (p, s) = (if configuring_targets_flag then snd (bake_provider_detach_all_targets S st) else st);
         w = (if pv_rpc_ids p \<noteq> [] then deregister_rpcs (st_margo S) (pv_rpc_ids p) (snd s) else snd s);
         w = (if pv_poolset p \<noteq> 0 then snd (poolset_destroy (st_margo S) (pv_poolset p) w) else w)
     in (fst s, w))"

definition register_config :: "'j json \<Rightarrow> cstring \<Rightarrow> provider_args \<Rightarrow> int + 'j" where
  "register_config J version args =
    (let parsed = (case pa_json_config args of
             None \<Rightarrow> Some (json_object_new_object J)
           | Some text \<Rightarrow> if text \<noteq> [] then json_tokener_parse J text else Some (json_object_new_object J))
     in case parsed of
          None \<Rightarrow> Inl BAKE_ERR_INVALID_ARG
        | Some config \<Rightarrow>
           (case validate_and_complete_config J version config of
              (None, _) \<Rightarrow> Inl BAKE_ERR_INVALID_ARG
            | (Some _, config) \<Rightarrow> Inr config))"

text \<open>The part from the registration of the RPCs on.\<close>

definition register_services ::
  "('w, 'j) site \<Rightarrow> provider_args \<Rightarrow> u16 \<Rightarrow> ('w, 'j) server \<Rightarrow> (int + 'j bake_provider) outcome \<times> 'w pm" where
  "register_services S args provider_id = (\<lambda>(p, s).
    let M = st_margo S;
        (ids, w) = register_rpcs M provider_id server_rpc_names (snd s);
        (cwp, w) = cwp_client_id M w;
        p = p\<lparr>pv_rpc_ids := ids, pv_cwp_client_id := cwp\<rparr>;
        p = (if st_remi S then p\<lparr>pv_remi_client := pa_remi_client args, pv_remi_provider := pa_remi_provider args\<rparr> else p);
        (ret, w) = (if st_remi S \<and> pv_remi_provider p then remi_register_migration_class M w else (REMI_SUCCESS, w))
    in if ret \<noteq> REMI_SUCCESS then (Returns (Inl BAKE_ERR_REMI), register_error S False (p, (fst s, w)))
       else
        (case configure_targets S (p, (fst s, w)) of
           (Aborts, (p, s)) \<Rightarrow> (Aborts, s)
         | (Returns ret, (p, s)) \<Rightarrow>
             if ret < 0 then (Returns (Inl BAKE_ERR_INVALID_ARG), register_error S True (p, s))
             else (Returns (Inr p), (fst s, margo_provider_push_finalize_callback M (snd s)))))"

definition bake_provider_register ::
  "('w, 'j) site \<Rightarrow> cstring \<Rightarrow> provider_args \<Rightarrow> u16 \<Rightarrow> 'w pm \<Rightarrow> (int + 'j bake_provider) outcome \<times> 'w pm" where
  "bake_provider_register S version args provider_id s =
    (if margo_provider_registered_name (st_margo S) (str ''bake_probe_rpc'') provider_id (snd s)
     then (Returns (Inl BAKE_ERR_MERCURY), s)
     else
      (case register_config (st_json S) version args of
         Inl ret \<Rightarrow> (Returns (Inl ret), s)
       | Inr config \<Rightarrow>
          (let (ret, (p, s)) = setup_poolset S (new_provider args config, s)
           in if ret \<noteq> 0 then (Returns (Inl ret), register_error S False (p, s))
              else
               (let (ret, w) = rwlock_create (st_margo S) (snd s)
                in if ret \<noteq> 0 then (Returns (Inl BAKE_ERR_ARGOBOTS), register_error S False (p, (fst s, w)))
                   else register_services S args provider_id (p, (fst s, w))))))"

definition bake_server_finalize_cb :: "('w, 'j) site \<Rightarrow> ('w, 'j) server \<Rightarrow> 'w pm" where
  "bake_server_finalize_cb S = (\<lambda>(p, s).
    let w = deregister_rpcs (st_margo S) (pv_rpc_ids p) (snd s);
        (_, (p, s)) = bake_provider_detach_all_targets S (p, (fst s, w));
        w = (if pv_poolset p \<noteq> 0 then snd (poolset_destroy (st_margo S) (pv_poolset p) (snd s)) else snd s)
    in (fst s, w))"

definition bake_provider_deregister :: "('w, 'j) site \<Rightarrow> ('w, 'j) server \<Rightarrow> int \<times> 'w pm" where
  "bake_provider_deregister S = (\<lambda>(p, s).
    (BAKE_SUCCESS, bake_server_finalize_cb S (p, (fst s, margo_provider_pop_finalize_callback (st_margo S) (snd s)))))"

section \<open>Targets that arrive by migration\<close>

definition migration_metadata_cb :: "cstring \<times> cstring \<Rightarrow> cstring \<Rightarrow> cstring" where
  "migration_metadata_cb kv bname =
    (if fst kv = str ''backend'' then take 31 (snd kv) else bname)"

definition migration_fileset_cb ::
  "('w, 'j) site \<Rightarrow> cstring \<Rightarrow> cstring \<Rightarrow> cstring \<Rightarrow> ('w, 'j) server \<Rightarrow> ('w, 'j) server" where
  "migration_fileset_cb S bname dir file st =
    snd (bake_provider_attach_target S (bname @ [58] @ dir @ file) st)"

definition bake_target_post_migration_callback ::
  "('w, 'j) site \<Rightarrow> (cstring \<times> cstring) list \<Rightarrow> cstring \<Rightarrow> cstring list \<Rightarrow> cstring \<Rightarrow> ('w, 'j) server \<Rightarrow> int \<times> ('w, 'j) server" where
  "bake_target_post_migration_callback S metadata dir files junk st =
    (let bname = fold migration_metadata_cb metadata junk
     in (0, fold (migration_fileset_cb S bname dir) files st))"

end
