(* ===== verification/Server.thy ===== *)
theory Server
  imports Provider_Register
begin

text \<open>
  The RPC handlers of \<^verbatim>\<open>src/bake-server.c\<close>. Every handler starts with the macros \<open>FIND_PROVIDER\<close>,
  \<open>GET_RPC_INPUT\<close>, \<open>LOCK_PROVIDER\<close> and \<open>FIND_TARGET\<close>, each of which may jump to the label \<open>finish\<close>,
  and ends there with the response. The provider is absent if none is registered for the RPC, the
  input is absent if it could not be decoded. What a handler does with its handle and with the
  resources it frees is the list of \<open>handle_call\<close>s. An argument \<open>None\<close> is a local variable whose
  initialisation was jumped over, and \<open>Free_unset_input\<close> is \<open>margo_free_input\<close> on a struct that was
  never filled in: these calls are undefined. The list of a handler ends with its first
  undefined call, and nothing is claimed about what the process does from there on. A handler
  that waits for ever, or whose process aborts, is \<open>Stuck\<close>.
\<close>

section \<open>The common part\<close>

datatype handle_call =
    Respond rpc_out
  | Free_input
  | Free_unset_input
  | Destroy
  | Addr_free "hg_addr option"
  | Call_free_data "(free_fn \<times> u64) option"
  | Fileset_free "nat option"
  | Provider_handle_release "nat option"

text \<open>A call with an indeterminate argument, behind which the behaviour of the process is undefined.\<close>

fun undefined_call :: "handle_call \<Rightarrow> bool" where
  "undefined_call Free_unset_input = True"
| "undefined_call (Addr_free None) = True"
| "undefined_call (Call_free_data None) = True"
| "undefined_call (Fileset_free None) = True"
| "undefined_call (Provider_handle_release None) = True"
| "undefined_call _ = False"

text \<open>How a handler reaches the label \<open>finish\<close>: before the input was read, from \<open>FIND_TARGET\<close>, or from
  its body.\<close>

datatype 'o run = Unread 'o | Early 'o | Body 'o | Stuck

type_synonym ('w, 'j) host = "'j bake_provider option \<times> 'w pm"

definition run_handler ::
  "('m \<Rightarrow> bake_target_id) \<Rightarrow> (int \<Rightarrow> 'o) \<Rightarrow>
     ('m \<Rightarrow> nat ut_elem \<Rightarrow> bake_context \<Rightarrow> ('w, 'j) server \<Rightarrow> 'o option \<times> ('w, 'j) server) \<Rightarrow>
     'm option \<Rightarrow> ('w, 'j) host \<Rightarrow> 'o run \<times> ('w, 'j) host" where
  "run_handler bti fail body inp = (\<lambda>(po, s).
    case po of
      None \<Rightarrow> (Unread (fail BAKE_ERR_UNKNOWN_PROVIDER), (None, s))
    | Some p \<Rightarrow>
       (case inp of
          None \<Rightarrow> (Unread (fail BAKE_ERR_MERCURY), (Some p, s))
        | Some x \<Rightarrow>
           (let p = lock_op ABT_rwlock_rdlock p
            in case find_target_entry p (bti x) of
                 None \<Rightarrow> (Early (fail BAKE_ERR_UNKNOWN_TARGET), (Some (lock_op ABT_rwlock_unlock p), s))
               | Some target \<Rightarrow>
                  (case pv_contexts p (el_val target) of
                     None \<Rightarrow> (Stuck, (Some p, s))
                   | Some ctx \<Rightarrow>
                      (case body x target ctx (p, s) of
                         (None, (p, s)) \<Rightarrow> (Stuck, (Some p, s))
                       | (Some out, (p, s)) \<Rightarrow> (Body out, (Some (lock_op ABT_rwlock_unlock p), s)))))))"

definition respond_and_cleanup :: "('o \<Rightarrow> rpc_out) \<Rightarrow> 'o run \<times> ('w, 'j) host \<Rightarrow> handle_call list option \<times> ('w, 'j) host" where
  "respond_and_cleanup con = (\<lambda>(r, h).
    (case r of Unread out \<Rightarrow> Some [Respond (con out), Free_unset_input]
             | Early out \<Rightarrow> Some [Respond (con out), Free_input, Destroy]
             | Body out \<Rightarrow> Some [Respond (con out), Free_input, Destroy]
             | Stuck \<Rightarrow> None, h))"

text \<open>
  Handlers that hold an address: it is freed at \<open>finish\<close>, before the response. The jumps of the
  macros skip the initialisation of the address, so the call is undefined after them and the
  response is not reached by defined behaviour.
\<close>

definition addr_free_and_respond ::
  "'w margo \<Rightarrow> ('o \<Rightarrow> rpc_out) \<Rightarrow> ('o \<times> hg_addr) run \<times> ('w, 'j) host \<Rightarrow> handle_call list option \<times> ('w, 'j) host" where
  "addr_free_and_respond M con = (\<lambda>(r, (po, s)).
    case r of
      Unread _ \<Rightarrow> (Some [Addr_free None], (po, s))
    | Early _ \<Rightarrow> (Some [Addr_free None], (po, s))
    | Body (out, src_addr) \<Rightarrow>
        (Some [Addr_free (Some src_addr), Respond (con out), Free_input, Destroy],
         (po, (fst s, addr_free M src_addr (snd s))))
    | Stuck \<Rightarrow> (None, (po, s)))"

definition set_context :: "nat ut_elem \<Rightarrow> bake_context \<Rightarrow> 'j bake_provider \<Rightarrow> 'j bake_provider" where
  "set_context target ctx p = p\<lparr>pv_contexts := (pv_contexts p)(el_val target := Some ctx)\<rparr>"

definition zero_rid :: bake_region_id where
  "zero_rid = \<lparr>rid_type = 0, rid_data = replicate 16 0\<rparr>"

definition rid_out :: "int \<Rightarrow> bake_region_id \<Rightarrow> bake_rid_out" where
  "rid_out ret rid = \<lparr>ro_ret = ret, ro_rid = rid\<rparr>"

definition ret_out :: "int \<Rightarrow> bake_ret_out" where
  "ret_out ret = \<lparr>out_ret = ret\<rparr>"

text \<open>The address of the data: a third party if the request names one, else the sender.\<close>

definition resolve_source :: "'w margo \<Rightarrow> cstring option \<Rightarrow> hg_addr \<Rightarrow> 'w \<Rightarrow> (int \<times> hg_addr) \<times> 'w" where
  "resolve_source M remote_addr_str sender w =
    (case remote_addr_str of
       None \<Rightarrow> addr_dup M sender w
     | Some a \<Rightarrow> if a \<noteq> [] then addr_lookup M (Some a) w else addr_dup M sender w)"

section \<open>Creation and writes\<close>

definition bake_create_ult ::
  "('w, 'j) site \<Rightarrow> bake_create_in option \<Rightarrow> ('w, 'j) host \<Rightarrow> handle_call list option \<times> ('w, 'j) host" where
  "bake_create_ult S inp h = respond_and_cleanup Out_create (run_handler cri_bti (\<lambda>ret. rid_out ret zero_rid)
    (\<lambda>x target ctx (p, s).
      let ((ret, rid, ctx), s) = backend_create S ctx (cri_region_size x) zero_rid s
      in (Some (rid_out ret rid), (set_context target ctx p, s))) inp h)"

definition bake_write_ult ::
  "('w, 'j) site \<Rightarrow> hg_addr \<Rightarrow> nat list \<Rightarrow> bake_bulk_in option \<Rightarrow> ('w, 'j) host \<Rightarrow> handle_call list option \<times> ('w, 'j) host" where
  "bake_write_ult S sender sched inp h = addr_free_and_respond (st_margo S) Out_write (run_handler bi_bti
    (\<lambda>ret. (ret_out ret, HG_ADDR_NULL))
    (\<lambda>x target ctx (p, s).
      let ((hret, src_addr), w) = resolve_source (st_margo S) (bi_remote_addr_str x) sender (snd s); s = (fst s, w)
      in if hret \<noteq> HG_SUCCESS then (Some (ret_out BAKE_ERR_MERCURY, src_addr), (p, s))
         else
          (let (r, s) = backend_write_bulk S (pv_json_cfg p) ctx (bi_rid x) (bi_region_offset x) (bi_bulk_size x)
                          (bi_bulk_handle x) src_addr (bi_bulk_offset x) sched s
           in (map_option (\<lambda>ret. (ret_out ret, src_addr)) r, (p, s)))) inp h)"

definition bake_eager_write_ult ::
  "('w, 'j) site \<Rightarrow> bake_eager_write_in option \<Rightarrow> ('w, 'j) host \<Rightarrow> handle_call list option \<times> ('w, 'j) host" where
  "bake_eager_write_ult S inp h = respond_and_cleanup Out_eager_write (run_handler ewi_bti ret_out
    (\<lambda>x target ctx (p, s).
      let (ret, s) = backend_write_raw S ctx (ewi_rid x) (ewi_region_offset x) (ewi_size x) (ewi_buffer x) s
      in (Some (ret_out ret), (p, s))) inp h)"

definition bake_persist_ult ::
  "('w, 'j) site \<Rightarrow> bake_extent_in option \<Rightarrow> ('w, 'j) host \<Rightarrow> handle_call list option \<times> ('w, 'j) host" where
  "bake_persist_ult S inp h = respond_and_cleanup Out_persist (run_handler xi_bti ret_out
    (\<lambda>x target ctx (p, s).
      let (ret, s) = backend_persist S ctx (xi_rid x) (xi_offset x) (xi_size x) s
      in (Some (ret_out ret), (p, s))) inp h)"

text \<open>The default implementation of create-write-persist, for backends that have none.\<close>

definition default_cwp ::
  "('w, 'j) site \<Rightarrow> (bake_context \<Rightarrow> bake_region_id \<Rightarrow> 'w pm \<Rightarrow> int option \<times> 'w pm) \<Rightarrow> bake_context \<Rightarrow> u64 \<Rightarrow> 'w pm \<Rightarrow>
     (int \<times> bake_region_id) option \<times> bake_context \<times> 'w pm" where
  "default_cwp S write ctx sz s =
    (let ((ret, rid, ctx), s) = backend_create S ctx sz zero_rid s
     in if ret \<noteq> BAKE_SUCCESS then (Some (ret, rid), ctx, s)
        else
         (case write ctx rid s of
            (None, s) \<Rightarrow> (None, ctx, s)
          | (Some ret, s) \<Rightarrow>
              if ret \<noteq> BAKE_SUCCESS then (Some (ret, rid), ctx, s)
              else (let (ret, s) = backend_persist S ctx rid 0 sz s in (Some (ret, rid), ctx, s))))"

definition bake_create_write_persist_ult ::
  "('w, 'j) site \<Rightarrow> hg_addr \<Rightarrow> nat list \<Rightarrow> bake_create_write_persist_in option \<Rightarrow> ('w, 'j) host \<Rightarrow>
     handle_call list option \<times> ('w, 'j) host" where
  "bake_create_write_persist_ult S sender sched inp h =
    addr_free_and_respond (st_margo S) Out_create_write_persist (run_handler cwi_bti
    (\<lambda>ret. (rid_out ret zero_rid, HG_ADDR_NULL))
    (\<lambda>x target ctx (p, s).
      let ((hret, src_addr), w) = resolve_source (st_margo S) (cwi_remote_addr_str x) sender (snd s); s = (fst s, w)
      in if hret \<noteq> HG_SUCCESS then (Some (rid_out BAKE_ERR_MERCURY zero_rid, src_addr), (p, s))
         else
          (let (r, ctx, s) =
             (case backend_create_write_persist_bulk S (pv_json_cfg p) ctx of
                None \<Rightarrow> default_cwp S
                  (\<lambda>ctx rid s. backend_write_bulk S (pv_json_cfg p) ctx rid 0 (cwi_bulk_size x) (cwi_bulk_handle x)
                                 src_addr (cwi_bulk_offset x) sched s) ctx (cwi_region_size x) s
              | Some cwp \<Rightarrow>
                  (let (r, s) = cwp (cwi_bulk_handle x) src_addr (cwi_bulk_offset x) (cwi_bulk_size x) zero_rid sched s
                   in (r, ctx, s)))
           in (map_option (\<lambda>(ret, rid). (rid_out ret rid, src_addr)) r, (set_context target ctx p, s)))) inp h)"

definition bake_eager_create_write_persist_ult ::
  "('w, 'j) site \<Rightarrow> bake_eager_create_write_persist_in option \<Rightarrow> ('w, 'j) host \<Rightarrow>
     handle_call list option \<times> ('w, 'j) host" where
  "bake_eager_create_write_persist_ult S inp h =
    respond_and_cleanup Out_eager_create_write_persist (run_handler ecwi_bti (\<lambda>ret. rid_out ret zero_rid)
    (\<lambda>x target ctx (p, s).
      let (r, ctx, s) =
         (case backend_create_write_persist_raw S ctx of
            None \<Rightarrow> default_cwp S
              (\<lambda>ctx rid s. apfst Some (backend_write_raw S ctx rid 0 (ecwi_size x) (ecwi_buffer x) s)) ctx (ecwi_size x) s
          | Some cwp \<Rightarrow>
              (let (r, s) = cwp (ecwi_buffer x) (ecwi_size x) zero_rid s in (Some r, ctx, s)))
      in (map_option (\<lambda>(ret, rid). rid_out ret rid) r, (set_context target ctx p, s))) inp h)"

section \<open>Queries and reads\<close>

definition word_out :: "int \<Rightarrow> u64 option \<Rightarrow> bake_word_out" where
  "word_out ret v = \<lparr>wo_ret = ret, wo_word = (case v of None \<Rightarrow> 0 | Some v \<Rightarrow> v)\<rparr>"

definition bake_get_size_ult ::
  "('w, 'j) site \<Rightarrow> bake_region_in option \<Rightarrow> ('w, 'j) host \<Rightarrow> handle_call list option \<times> ('w, 'j) host" where
  "bake_get_size_ult S inp h = respond_and_cleanup Out_get_size (run_handler ri_bti (\<lambda>ret. word_out ret None)
    (\<lambda>x target ctx (p, s).
      let (ret, v) = backend_get_region_size S ctx (ri_rid x) s in (Some (word_out ret v), (p, s))) inp h)"

definition bake_get_data_ult ::
  "('w, 'j) site \<Rightarrow> bake_region_in option \<Rightarrow> ('w, 'j) host \<Rightarrow> handle_call list option \<times> ('w, 'j) host" where
  "bake_get_data_ult S inp h = respond_and_cleanup Out_get_data (run_handler ri_bti (\<lambda>ret. word_out ret None)
    (\<lambda>x target ctx (p, s).
      let (ret, v) = backend_get_region_data S ctx (ri_rid x) s in (Some (word_out ret v), (p, s))) inp h)"

definition bake_noop_ult :: "('w, 'j) host \<Rightarrow> handle_call list option \<times> ('w, 'j) host" where
  "bake_noop_ult h = (Some [Respond Out_noop, Destroy], h)"

definition read_out :: "int \<Rightarrow> u64 \<Rightarrow> bake_read_out" where
  "read_out ret n = \<lparr>rdo_size = n, rdo_ret = ret\<rparr>"

definition bake_read_ult ::
  "('w, 'j) site \<Rightarrow> hg_addr \<Rightarrow> nat list \<Rightarrow> bake_bulk_in option \<Rightarrow> ('w, 'j) host \<Rightarrow> handle_call list option \<times> ('w, 'j) host" where
  "bake_read_ult S sender sched inp h = addr_free_and_respond (st_margo S) Out_read (run_handler bi_bti
    (\<lambda>ret. (read_out ret 0, HG_ADDR_NULL))
    (\<lambda>x target ctx (p, s).
      let ((hret, src_addr), w) = resolve_source (st_margo S) (bi_remote_addr_str x) sender (snd s); s = (fst s, w)
      in if hret \<noteq> HG_SUCCESS then (Some (read_out BAKE_ERR_MERCURY 0, src_addr), (p, s))
         else
          (let (r, s) = backend_read_bulk S ctx (bi_rid x) (bi_region_offset x) (bi_bulk_size x)
                          (bi_bulk_handle x) src_addr (bi_bulk_offset x) sched s
           in (map_option (\<lambda>(ret, n). (read_out ret n, src_addr)) r, (p, s)))) inp h)"

definition eager_read_out :: "int \<Rightarrow> raw_data option \<Rightarrow> bake_eager_read_out" where
  "eager_read_out ret d =
    (case d of None \<Rightarrow> \<lparr>ero_ret = ret, ero_size = 0, ero_buffer = []\<rparr>
             | Some d \<Rightarrow> \<lparr>ero_ret = ret, ero_size = rd_size d, ero_buffer = rd_bytes d\<rparr>)"

text \<open>The function pointer is tested and called after the response; a jump leaves it indeterminate.\<close>

definition eager_read_epilogue ::
  "(bake_eager_read_out \<times> free_fn \<times> u64) run \<times> ('w, 'j) host \<Rightarrow> handle_call list option \<times> ('w, 'j) host" where
  "eager_read_epilogue = (\<lambda>(r, h).
    (case r of
       Unread (out, _) \<Rightarrow> Some [Respond (Out_eager_read out), Free_unset_input]
     | Early (out, _) \<Rightarrow> Some [Respond (Out_eager_read out), Free_input, Destroy, Call_free_data None]
     | Body (out, free_data, ptr) \<Rightarrow>
         Some ([Respond (Out_eager_read out), Free_input, Destroy] @
               (if free_data \<noteq> free_fn_NULL then [Call_free_data (Some (free_data, ptr))] else []))
     | Stuck \<Rightarrow> None, h))"

definition bake_eager_read_ult ::
  "('w, 'j) site \<Rightarrow> bake_extent_in option \<Rightarrow> ('w, 'j) host \<Rightarrow> handle_call list option \<times> ('w, 'j) host" where
  "bake_eager_read_ult S inp h = eager_read_epilogue (run_handler xi_bti
    (\<lambda>ret. (eager_read_out ret None, free_fn_NULL, 0))
    (\<lambda>x target ctx (p, s).
      let ((ret, d, free_data), s) = backend_read_raw S ctx (xi_rid x) (xi_offset x) (xi_size x) s
      in (Some (eager_read_out ret d, free_data, case d of None \<Rightarrow> 0 | Some d \<Rightarrow> rd_ptr d), (p, s))) inp h)"

text \<open>The array for the ids has as many elements as the counter says; \<open>junk\<close> is what it holds at first.\<close>

definition bake_probe_ult ::
  "(nat \<Rightarrow> bake_target_id) \<Rightarrow> ('w, 'j) host \<Rightarrow> handle_call list option \<times> ('w, 'j) host" where
  "bake_probe_ult junk = (\<lambda>(po, s).
    case po of
      None \<Rightarrow> (Some [Respond (Out_probe \<lparr>po_ret = BAKE_ERR_UNKNOWN_PROVIDER, po_num_targets = 0, po_targets = []\<rparr>), Destroy],
               (None, s))
    | Some p \<Rightarrow>
       (let ((_, n), p) = bake_provider_count_targets p;
            ((_, ids), p) = bake_provider_list_targets p (map junk [0..<unat n])
        in (Some [Respond (Out_probe \<lparr>po_ret = BAKE_SUCCESS, po_num_targets = n, po_targets = ids\<rparr>), Destroy],
            (Some p, s))))"

section \<open>Removal and migration\<close>

definition bake_remove_ult ::
  "('w, 'j) site \<Rightarrow> bake_region_in option \<Rightarrow> ('w, 'j) host \<Rightarrow> handle_call list option \<times> ('w, 'j) host" where
  "bake_remove_ult S inp h = respond_and_cleanup Out_remove (run_handler ri_bti ret_out
    (\<lambda>x target ctx (p, s).
      let (ret, s) = backend_remove S ctx (ri_rid x) s in (Some (ret_out ret), (p, s))) inp h)"

definition bake_migrate_region_ult ::
  "('w, 'j) site \<Rightarrow> bake_migrate_region_in option \<Rightarrow> ('w, 'j) host \<Rightarrow> handle_call list option \<times> ('w, 'j) host" where
  "bake_migrate_region_ult S inp h =
    respond_and_cleanup Out_migrate_region (run_handler mri_bti (\<lambda>ret. rid_out ret zero_rid)
    (\<lambda>x target ctx (p, s).
      let ((ret, rid), s) = backend_migrate_region S (pv_cwp_client_id p) ctx x zero_rid s
      in (Some (rid_out ret rid), (p, s))) inp h)"

text \<open>
  The part of \<open>bake_migrate_target_ult\<close> that runs with the write lock; it ends with the return code,
  the fileset, the REMI handle and the destination address. A successful migration leaves with the
  read lock.
\<close>

definition migrate_target_locked ::
  "('w, 'j) site \<Rightarrow> bake_migrate_target_in \<Rightarrow> bake_context \<Rightarrow> ('w, 'j) server \<Rightarrow>
     (int \<times> nat \<times> nat \<times> hg_addr) \<times> ('w, 'j) server" where
  "migrate_target_locked S x ctx = (\<lambda>(p, s).
    let M = st_margo S; ((hret, dest_addr), w) = addr_lookup M (mti_dest_remi_addr x) (snd s)
    in if hret \<noteq> HG_SUCCESS then ((BAKE_ERR_MERCURY, 0, 0, dest_addr), (p, (fst s, w)))
       else
        (let ((ret, remi_ph), w) = remi_provider_handle_create M dest_addr (mti_dest_remi_provider_id x) w
         in if ret \<noteq> REMI_SUCCESS then ((BAKE_ERR_REMI, 0, remi_ph, dest_addr), (p, (fst s, w)))
            else
             (case backend_create_fileset S ctx (fst s, w) of
                ((ret, None), s) \<Rightarrow>
                  ((if ret \<noteq> BAKE_SUCCESS then ret else BAKE_ERR_OP_UNSUPPORTED, 0, remi_ph, dest_addr), (p, s))
              | ((ret, Some fs), s) \<Rightarrow>
                 if ret \<noteq> BAKE_SUCCESS then ((ret, fs, remi_ph, dest_addr), (p, s))
                 else
                  (let w = remi_fileset_register_metadata M fs (str ''backend'') (backend_name ctx) (snd s);
                       (ret, w) = remi_fileset_migrate M remi_ph fs (mti_dest_root x) (mti_remove_src x) w;
                       s = (fst s, w)
                   in if ret \<noteq> REMI_SUCCESS then ((BAKE_ERR_REMI, fs, remi_ph, dest_addr), (p, s))
                      else
                       (let st = (lock_op ABT_rwlock_unlock p, s);
                            (p, s) = (if mti_remove_src x \<noteq> 0 then snd (bake_provider_detach_target S (mti_bti x) st) else st)
                        in ((BAKE_SUCCESS, fs, remi_ph, dest_addr), (lock_op ABT_rwlock_rdlock p, s)))))))"

definition migrate_target_finish ::
  "('w, 'j) site \<Rightarrow> (int \<times> nat \<times> nat \<times> hg_addr) \<times> ('w, 'j) server \<Rightarrow> handle_call list option \<times> ('w, 'j) host" where
  "migrate_target_finish S = (\<lambda>((ret, fs, remi_ph, dest_addr), (p, s)).
    let M = st_margo S;
        w = addr_free M dest_addr (remi_provider_handle_release M remi_ph (remi_fileset_free M fs (snd s)))
    in (Some [Fileset_free (Some fs), Provider_handle_release (Some remi_ph), Addr_free (Some dest_addr),
              Respond (Out_migrate_target (ret_out ret)), Free_input, Destroy],
        (Some (lock_op ABT_rwlock_unlock p), (fst s, w))))"

definition bake_migrate_target_ult ::
  "('w, 'j) site \<Rightarrow> bake_migrate_target_in option \<Rightarrow> ('w, 'j) host \<Rightarrow> handle_call list option \<times> ('w, 'j) host" where
  "bake_migrate_target_ult S inp = (\<lambda>(po, s).
    if \<not> st_remi S
    then (Some [Respond (Out_migrate_target (ret_out BAKE_ERR_OP_UNSUPPORTED)), Destroy], (po, s))
    else
     (case po of
         None \<Rightarrow> (Some [Fileset_free None], (None, s))
       | Some p \<Rightarrow>
          (case inp of
             None \<Rightarrow> (Some [Fileset_free None], (Some p, s))
           | Some x \<Rightarrow>
              (let p = lock_op ABT_rwlock_wrlock p
                 in if \<not> pv_remi_client p
                    then migrate_target_finish S ((BAKE_ERR_OP_UNSUPPORTED, 0, 0, HG_ADDR_NULL), (p, s))
                    else
                     (case find_target_entry p (mti_bti x) of
                        None \<Rightarrow> migrate_target_finish S ((BAKE_ERR_UNKNOWN_TARGET, 0, 0, HG_ADDR_NULL), (p, s))
                      | Some target \<Rightarrow>
                         (case pv_contexts p (el_val target) of
                            None \<Rightarrow> (None, (Some p, s))
                          | Some ctx \<Rightarrow> migrate_target_finish S (migrate_target_locked S x ctx (p, s))))))))"

end
