(* ===== verification/Provider_Props.thy ===== *)
theory Provider_Props
  imports Provider_Register
begin

text \<open>
  Properties of the provider: its invariant, the abstract view of the targets as a map from ids to
  contexts that attaching and detaching refine, the counter of targets, the buffer pools, the
  completed configuration and the registration of the RPCs.
\<close>

section \<open>Invariant and abstract state\<close>

text \<open>
  The hash table is well formed and holds no id twice, every entry points to a context of its own,
  and the contexts that exist are those of the attached targets. Addresses below \<open>pv_brk\<close> have been
  handed out.
\<close>

definition pv_ok :: "'j bake_provider \<Rightarrow> bool" where
  "pv_ok p \<longleftrightarrow> ut_ok (pv_targets p) \<and> distinct (map el_key (hash_iter (pv_targets p))) \<and>
     distinct (map el_val (hash_iter (pv_targets p))) \<and>
     dom (pv_contexts p) = el_val ` set (hash_iter (pv_targets p)) \<and>
     (\<forall>e \<in> set (hash_iter (pv_targets p)). el_ptr e < pv_brk p \<and> el_val e < pv_brk p)"

definition target_ids :: "'j bake_provider \<Rightarrow> bake_target_id list" where
  "target_ids p = map el_key (hash_iter (pv_targets p))"

lemma pv_okD:
  assumes "pv_ok p"
  shows "ut_ok (pv_targets p)" and "ut.distinct_keys (pv_targets p)"
    and "distinct (map el_val (hash_iter (pv_targets p)))"
    and "dom (pv_contexts p) = el_val ` set (hash_iter (pv_targets p))"
    and "e \<in> set (hash_iter (pv_targets p)) \<Longrightarrow> el_ptr e < pv_brk p"
    and "e \<in> set (hash_iter (pv_targets p)) \<Longrightarrow> el_val e < pv_brk p"
  using assms by (auto simp: pv_ok_def ut.distinct_keys_def)

text \<open>An attached target has a context.\<close>

lemma found_has_context:
  assumes "pv_ok p" and "find_target_entry p tid = Some e"
  shows "\<exists>ctx. pv_contexts p (el_val e) = Some ctx \<and> target_context p tid = Some ctx"
proof -
  have "e \<in> set (hash_iter (pv_targets p))"
    using assms ut.find_Some [OF pv_okD(1) [OF assms(1)]] by (simp add: find_target_entry_def)
  then have "el_val e \<in> dom (pv_contexts p)" using pv_okD(4) [OF assms(1)] by simp
  then show ?thesis using assms(2) by (auto simp: target_context_def)
qed

lemma target_context_dom:
  assumes "pv_ok p"
  shows "dom (target_context p) = set (target_ids p)"
proof -
  have "target_context p tid \<noteq> None \<longleftrightarrow> tid \<in> set (target_ids p)" for tid
    using ut.find_None [OF pv_okD(1) [OF assms], of tid] found_has_context [OF assms, of tid]
    by (cases "find_target_entry p tid") (auto simp: target_context_def find_target_entry_def target_ids_def)
  then show ?thesis by auto
qed

text \<open>A context may be replaced: the table does not change.\<close>

definition with_context :: "nat \<Rightarrow> bake_context \<Rightarrow> 'j bake_provider \<Rightarrow> 'j bake_provider" where
  "with_context a ctx p = p\<lparr>pv_contexts := (pv_contexts p)(a := Some ctx)\<rparr>"

lemma pv_ok_cong:
  assumes "pv_targets q = pv_targets p" and "pv_contexts q = pv_contexts p" and "pv_brk q = pv_brk p"
  shows "pv_ok q = pv_ok p" and "target_context q = target_context p" and "target_ids q = target_ids p"
proof -
  show "pv_ok q = pv_ok p" "target_ids q = target_ids p" using assms by (simp_all add: pv_ok_def target_ids_def)
  show "target_context q = target_context p"
    by (rule ext) (use assms in \<open>simp add: target_context_def find_target_entry_def split: option.split\<close>)
qed

lemma pv_ok_lock [simp]: "pv_ok (lock_op c p) = pv_ok p" "target_context (lock_op c p) = target_context p"
  "target_ids (lock_op c p) = target_ids p" "find_target_entry (lock_op c p) = find_target_entry p"
  by (rule pv_ok_cong; simp)+ (rule ext, simp add: find_target_entry_def)

lemma pv_ok_context:
  assumes "pv_ok p" and "find_target_entry p tid = Some e"
  shows "pv_ok (with_context (el_val e) ctx p)"
    and "target_context (with_context (el_val e) ctx p) = (target_context p)(tid \<mapsto> ctx)"
    and "target_ids (with_context (el_val e) ctx p) = target_ids p"
proof -
  note ok = pv_okD [OF assms(1)]
  have e: "e \<in> set (hash_iter (pv_targets p))" "el_key e = tid"
    using assms ut.find_Some [OF ok(1)] by (auto simp: find_target_entry_def)
  show "target_ids (with_context (el_val e) ctx p) = target_ids p" by (simp add: target_ids_def with_context_def)
  show "pv_ok (with_context (el_val e) ctx p)"
    using assms(1) e(1) by (auto simp: pv_ok_def with_context_def)
  have inj: "x = e" if "x \<in> set (hash_iter (pv_targets p))" "el_val x = el_val e" for x
    using that e(1) ok(3) unfolding distinct_map by (auto dest: inj_onD)
  have "target_context (with_context (el_val e) ctx p) t = ((target_context p)(tid \<mapsto> ctx)) t" for t
  proof (cases "hash_find (pv_targets p) t")
    case (Some x)
    then have x: "x \<in> set (hash_iter (pv_targets p))" "el_key x = t" using ut.find_Some [OF ok(1)] by auto
    have "el_val x = el_val e \<longleftrightarrow> t = tid"
    proof
      assume "el_val x = el_val e"
      then show "t = tid" using inj [OF x(1)] x(2) e(2) by simp
    next
      assume "t = tid"
      then show "el_val x = el_val e" using Some assms(2) by (simp add: find_target_entry_def)
    qed
    then show ?thesis using Some by (auto simp: target_context_def find_target_entry_def with_context_def)
  next
    case None
    then have "t \<noteq> tid" using assms(2) by (auto simp: find_target_entry_def)
    then show ?thesis using None by (simp add: target_context_def find_target_entry_def with_context_def)
  qed
  then show "target_context (with_context (el_val e) ctx p) = (target_context p)(tid \<mapsto> ctx)" by (rule ext)
qed

section \<open>Attaching and detaching\<close>

lemma insert_target_new:
  assumes ok: "pv_ok p" and new: "target_context p tid = None"
    and run: "insert_target S tid ctx (p, s) = ((ret, res), (p', s'))"
  shows "ret = BAKE_SUCCESS" and "res = Some tid" and "s' = s" and "pv_ok p'"
    and "target_context p' = (target_context p)(tid \<mapsto> ctx)" and "target_ids p' = target_ids p @ [tid]"
    and "pv_num_targets p' = pv_num_targets p + 1"
    and "pv_lock_calls p' = pv_lock_calls p @ [ABT_rwlock_wrlock, ABT_rwlock_unlock]"
    and "pv_json_cfg p' = pv_json_cfg p"
proof -
  note okD = pv_okD [OF ok]
  let ?e = "\<lparr>el_ptr = pv_brk p, el_key = tid, el_val = pv_brk p + 1\<rparr>"
  let ?t = "hash_add (pv_targets p) ?e"
  have fresh: "el_ptr ?e \<notin> el_ptr ` set (hash_iter (pv_targets p))" by (auto dest: okD(5) [THEN less_not_refl3])
  have nf: "hash_find (pv_targets p) (el_key ?e) = None"
    using new found_has_context [OF ok, of tid] by (cases "find_target_entry p tid") (auto simp: find_target_entry_def)
  note add = ut.find_add [OF okD(1,2) fresh nf]
  have iter: "hash_iter ?t = hash_iter (pv_targets p) @ [?e]" using okD(1) fresh by (rule ut.elems_add)
  let ?p = "lock_op ABT_rwlock_unlock (lock_op ABT_rwlock_wrlock (p\<lparr>pv_brk := pv_brk p + 2,
      pv_contexts := (pv_contexts p)(pv_brk p + 1 := Some ctx)\<rparr>)\<lparr>pv_targets := ?t, pv_num_targets := pv_num_targets p + 1\<rparr>)"
  have r: "ret = BAKE_SUCCESS" "res = Some tid" "s' = s" "p' = ?p"
    using run add(2) by (auto simp: insert_target_def Let_def)
  show "ret = BAKE_SUCCESS" "res = Some tid" "s' = s" by (fact r)+
  show "pv_num_targets p' = pv_num_targets p + 1" "pv_json_cfg p' = pv_json_cfg p"
    "pv_lock_calls p' = pv_lock_calls p @ [ABT_rwlock_wrlock, ABT_rwlock_unlock]" by (simp_all add: r(4))
  show "target_ids p' = target_ids p @ [tid]" using iter by (simp add: r(4) target_ids_def)
  have nv: "pv_brk p + 1 \<notin> el_val ` set (hash_iter (pv_targets p))" using okD(6) by fastforce
  have "ut_ok ?t" using okD(1) fresh by (rule ut.invar_add)
  moreover have "distinct (map el_key (hash_iter ?t))" using add(1) by (simp add: ut.distinct_keys_def)
  moreover have "distinct (map el_val (hash_iter ?t))" unfolding iter using okD(3) nv by simp
  moreover have "dom ((pv_contexts p)(pv_brk p + 1 := Some ctx)) = el_val ` set (hash_iter ?t)"
    unfolding iter using okD(4) by simp
  moreover have "el_ptr x < pv_brk p + 2 \<and> el_val x < pv_brk p + 2" if "x \<in> set (hash_iter ?t)" for x
    using that okD(5,6) unfolding iter by force
  ultimately show "pv_ok p'" by (simp add: r(4) pv_ok_def)
  have "target_context p' t = ((target_context p)(tid \<mapsto> ctx)) t" for t
  proof (cases "t = tid")
    case True
    then show ?thesis using add(2) by (simp add: r(4) target_context_def find_target_entry_def)
  next
    case False
    then have "hash_find ?t t = hash_find (pv_targets p) t" using add(3) by simp
    moreover have "el_val x \<noteq> pv_brk p + 1" if "hash_find (pv_targets p) t = Some x" for x
      using ut.find_Some [OF okD(1) that] nv by (metis imageI)
    ultimately show ?thesis
      using False by (auto simp: r(4) target_context_def find_target_entry_def split: option.splits)
  qed
  then show "target_context p' = (target_context p)(tid \<mapsto> ctx)" by (rule ext)
qed

lemma drop_target_ok:
  assumes ok: "pv_ok p" and e: "e \<in> set (hash_iter (pv_targets p))"
    and run: "drop_target S e (p, s) = (p', s')"
  shows "pv_ok p'" and "target_context p' = (target_context p)(el_key e := None)"
    and "hash_iter (pv_targets p') = without (el_ptr e) (hash_iter (pv_targets p))"
    and "pv_num_targets p' = pv_num_targets p" and "pv_lock_calls p' = pv_lock_calls p"
    and "\<exists>ctx. target_context p (el_key e) = Some ctx \<and> s' = snd (backend_finalize S (pv_aid p) ctx s)"
    and "pv_json_cfg p' = pv_json_cfg p" and "pv_aid p' = pv_aid p" and "pv_poolset p' = pv_poolset p"
proof -
  note okD = pv_okD [OF ok]
  let ?t = "hash_delete (pv_targets p) e"
  have p': "p' = p\<lparr>pv_targets := ?t, pv_contexts := (pv_contexts p)(el_val e := None)\<rparr>"
    using run by (auto simp: drop_target_def Let_def)
  show "pv_num_targets p' = pv_num_targets p" "pv_lock_calls p' = pv_lock_calls p"
    "pv_json_cfg p' = pv_json_cfg p" "pv_aid p' = pv_aid p" "pv_poolset p' = pv_poolset p" by (simp_all add: p')
  have iter: "hash_iter ?t = without (el_ptr e) (hash_iter (pv_targets p))" using okD(1) e by (rule ut.elems_del)
  then show "hash_iter (pv_targets p') = without (el_ptr e) (hash_iter (pv_targets p))" by (simp add: p')
  have fe: "hash_find (pv_targets p) (el_key e) = Some e" using okD(1,2) e by (simp add: ut.find_eq)
  note del = ut.find_del [OF okD(1,2) fe]
  obtain ctx where c: "pv_contexts p (el_val e) = Some ctx" "target_context p (el_key e) = Some ctx"
    using found_has_context [OF ok, of "el_key e" e] fe by (auto simp: find_target_entry_def)
  then show "\<exists>ctx. target_context p (el_key e) = Some ctx \<and> s' = snd (backend_finalize S (pv_aid p) ctx s)"
    using run by (auto simp: drop_target_def Let_def)
  have same: "x = e" if "x \<in> set (hash_iter (pv_targets p))" "el_val x = el_val e" for x
    using that e okD(3) unfolding distinct_map by (auto dest: inj_onD)
  have ptr: "x = e" if "x \<in> set (hash_iter (pv_targets p))" "el_ptr x = el_ptr e" for x
    using that e ut.distinct_ptrs [OF okD(1)] unfolding distinct_map by (auto dest: inj_onD)
  have "dom ((pv_contexts p)(el_val e := None)) = el_val ` set (hash_iter ?t)"
    using okD(4) same ptr by (auto simp: iter)
  moreover have "distinct (map el_val (hash_iter ?t))" using okD(3) by (simp add: iter distinct_map_filter)
  ultimately show "pv_ok p'"
    using okD(1,5,6) e del(1) ut.invar_del [OF okD(1) e] by (auto simp: p' pv_ok_def ut.distinct_keys_def iter)
  have "target_context p' t = ((target_context p)(el_key e := None)) t" for t
  proof (cases "t = el_key e")
    case True
    then show ?thesis using del(2) by (simp add: p' target_context_def find_target_entry_def)
  next
    case False
    then have f: "hash_find ?t t = hash_find (pv_targets p) t" using del(3) by simp
    moreover have "el_val x \<noteq> el_val e" if "hash_find (pv_targets p) t = Some x" for x
      using ut.find_Some [OF okD(1) that] same False by blast
    ultimately show ?thesis
      using False by (auto simp: p' target_context_def find_target_entry_def split: option.splits)
  qed
  then show "target_context p' = (target_context p)(el_key e := None)" by (rule ext)
qed


lemma map_sum_Inl: "map_sum id f r = Inl e \<longleftrightarrow> r = Inl e"
  by (cases r) auto

lemma backend_initialize_code:
  assumes "backend_initialize S kind aid config path s = ((Inl ret, config'), s')"
  shows "ret < 0"
proof -
  have "ret < 0" if "file_attach_log env M J aid abtio c path w = ((Inl ret, c'), w')" for env M J abtio c w c' w'
    using that by (auto simp: file_attach_log_def Let_def bake_err_defs split: prod.splits if_splits)
  then have f: "ret < 0" if "bake_file_backend_initialize env M J aid c path w = ((Inl ret, c'), w')" for env M J c w c' w'
    using that by (auto simp: bake_file_backend_initialize_def Let_def bake_err_defs split: prod.splits if_splits option.splits)
  have p: "ret < 0" if "bake_pmem_backend_initialize env M J c path s = ((Inl ret, c'), s')" for env M J c c' s'
    using that by (auto simp: bake_pmem_backend_initialize_def Let_def bake_err_defs split: prod.splits if_splits option.splits)
  show ?thesis
  proof (cases kind)
    case g_bake_pmem_backend
    then show ?thesis using assms p
      by (auto simp: backend_initialize_def map_sum_Inl split: prod.splits)
  next
    case g_bake_file_backend
    then show ?thesis using assms f
      by (auto simp: backend_initialize_def on_world_def map_sum_Inl split: prod.splits)
  qed
qed

text \<open>C120: Attaching a target refines an update of the map from target ids to contexts. A name with an
  unknown backend type is refused with \<open>BAKE_ERR_BACKEND_TYPE\<close> and changes nothing. Otherwise the
  backend is initialised: if that fails, its code, which is negative, is returned, and of the
  provider only the JSON configuration may have changed, to what the backend made of it. If it yields an id and a
  context, where the id is not attached yet, the call returns success and this id, which is appended
  to the list of targets and leads to exactly this context; no other id is affected, the counter
  grows by one, and the lock is taken for writing and released. The invariant is kept.\<close>
theorem provider_attach_refines:
  assumes "pv_ok p"
    and "\<forall>kind tid ctx config s1. backend_of_type typ = Some kind \<and>
      backend_initialize S kind (pv_aid p) (pv_json_cfg p) path s = ((Inr (tid, ctx), config), s1)
      \<longrightarrow> target_context p tid = None"
    and "split_target_name name = (typ, path)"
    and "bake_provider_attach_target S name (p, s) = ((ret, res), (p', s'))"
  shows "pv_ok p' \<and>
    (case backend_of_type typ of
       None \<Rightarrow> ret = BAKE_ERR_BACKEND_TYPE \<and> res = None \<and> p' = p \<and> s' = s
     | Some kind \<Rightarrow>
        (\<exists>r config. backend_initialize S kind (pv_aid p) (pv_json_cfg p) path s = ((r, config), s') \<and>
          (case r of
             Inl e \<Rightarrow> ret = e \<and> e < 0 \<and> res = None \<and> p' = p\<lparr>pv_json_cfg := config\<rparr>
           | Inr (tid, ctx) \<Rightarrow> ret = BAKE_SUCCESS \<and> res = Some tid \<and> target_ids p' = target_ids p @ [tid] \<and>
               target_context p' = (target_context p)(tid \<mapsto> ctx) \<and> pv_json_cfg p' = config \<and>
               pv_num_targets p' = pv_num_targets p + 1 \<and>
               pv_lock_calls p' = pv_lock_calls p @ [ABT_rwlock_wrlock, ABT_rwlock_unlock])))"
proof (cases "backend_of_type typ")
  case None
  then show ?thesis using assms(1,3,4) by (simp add: bake_provider_attach_target_def)
next
  case (Some kind)
  obtain r config s1 where i: "backend_initialize S kind (pv_aid p) (pv_json_cfg p) path s = ((r, config), s1)"
    by (metis prod.exhaust)
  let ?p = "p\<lparr>pv_json_cfg := config\<rparr>"
  note c = pv_ok_cong [of ?p p, simplified]
  show ?thesis
  proof (cases r)
    case (Inl e)
    then have "p' = ?p" "res = None" "ret = e" "s' = s1"
      using assms(3,4) Some i by (auto simp: bake_provider_attach_target_def Let_def)
    then show ?thesis using assms(1) Some i Inl backend_initialize_code [OF i [unfolded Inl]] by (simp add: c)
  next
    case (Inr x)
    then obtain tid ctx where x: "r = Inr (tid, ctx)" by (cases x) auto
    have run: "insert_target S tid ctx (?p, s1) = ((ret, res), (p', s'))"
      using assms(3,4) Some i x by (simp add: bake_provider_attach_target_def Let_def)
    have "target_context ?p tid = None" using assms(2) Some i x c by auto
    note n = insert_target_new [OF _ this run]
    have "pv_ok ?p" using assms(1) by (simp add: c)
    from n [OF this] Some i x show ?thesis by (simp add: c)
  qed
qed

lemma detach_ok:
  assumes "pv_ok p" and "bake_provider_detach_target S tid (p, s) = (ret, (p', s'))"
  shows "pv_ok p' \<and> target_context p' = (target_context p)(tid := None) \<and>
    target_ids p' = filter (\<lambda>t. t \<noteq> tid) (target_ids p) \<and> pv_num_targets p' = pv_num_targets p \<and>
    pv_lock_calls p' = pv_lock_calls p @ [ABT_rwlock_wrlock, ABT_rwlock_unlock] \<and>
    pv_json_cfg p' = pv_json_cfg p \<and> pv_poolset p' = pv_poolset p \<and>
    (case target_context p tid of
       None \<Rightarrow> ret = BAKE_ERR_UNKNOWN_TARGET \<and> s' = s
     | Some ctx \<Rightarrow> ret = BAKE_SUCCESS \<and> s' = snd (backend_finalize S (pv_aid p) ctx s))"
proof (cases "hash_find (pv_targets p) tid")
  case None
  then have "tid \<notin> set (target_ids p)" using ut.find_None [OF pv_okD(1) [OF assms(1)]] by (simp add: target_ids_def)
  then have "filter (\<lambda>t. t \<noteq> tid) (target_ids p) = target_ids p" by (auto intro!: filter_True)
  moreover have "target_context p tid = None" using None by (simp add: target_context_def find_target_entry_def)
  ultimately show ?thesis
    using assms None by (auto simp: bake_provider_detach_target_def Let_def)
next
  case (Some e)
  let ?p = "lock_op ABT_rwlock_wrlock p"
  have e: "e \<in> set (hash_iter (pv_targets p))" "el_key e = tid"
    using Some ut.find_Some [OF pv_okD(1) [OF assms(1)]] by auto
  obtain q s1 where d: "drop_target S e (?p, s) = (q, s1)" by (metis surj_pair)
  have r: "ret = BAKE_SUCCESS" "p' = lock_op ABT_rwlock_unlock q" "s' = s1"
    using assms(2) Some d by (simp_all add: bake_provider_detach_target_def Let_def)
  have "pv_ok ?p" "e \<in> set (hash_iter (pv_targets ?p))" using assms(1) e(1) by simp_all
  note dt = drop_target_ok [OF this d]
  have "map el_key (without (el_ptr e) (hash_iter (pv_targets p))) = filter (\<lambda>t. t \<noteq> tid) (target_ids p)"
    using e pv_okD(2) [OF assms(1)] ut.distinct_ptrs [OF pv_okD(1) [OF assms(1)]]
    unfolding target_ids_def filter_map ut.distinct_keys_def distinct_map
    by (intro arg_cong [where f = "map el_key"] filter_cong) (auto dest: inj_onD)
  then have "target_ids p' = filter (\<lambda>t. t \<noteq> tid) (target_ids p)" using dt(3) by (simp add: target_ids_def r(2))
  then show ?thesis using dt e(2) by (auto simp: r)
qed

text \<open>C19: Detaching refines the removal of an id from the map: it keeps the invariant, reports an unknown id,
  releases exactly the context of the target and leaves the order of the others. The counter of
  targets keeps its value.\<close>
theorem provider_detach_refines:
  assumes "pv_ok p" and "bake_provider_detach_target S tid (p, s) = (ret, (p', s'))"
  shows "pv_ok p' \<and> target_context p' = (target_context p)(tid := None) \<and>
    target_ids p' = filter (\<lambda>t. t \<noteq> tid) (target_ids p) \<and> pv_num_targets p' = pv_num_targets p \<and>
    pv_lock_calls p' = pv_lock_calls p @ [ABT_rwlock_wrlock, ABT_rwlock_unlock] \<and>
    (case target_context p tid of
       None \<Rightarrow> ret = BAKE_ERR_UNKNOWN_TARGET \<and> s' = s
     | Some ctx \<Rightarrow> ret = BAKE_SUCCESS \<and> s' = snd (backend_finalize S (pv_aid p) ctx s))"
  using detach_ok [OF assms] by blast

lemma drop_targets_ok:
  assumes "pv_ok p" and "hash_iter (pv_targets p) = es" and "fold (drop_target S) es (p, s) = (p', s')"
  shows "pv_ok p' \<and> hash_iter (pv_targets p') = [] \<and> pv_lock_calls p' = pv_lock_calls p \<and>
    s' = fold (\<lambda>tid s. snd (backend_finalize S (pv_aid p) (the (target_context p tid)) s)) (map el_key es) s"
  using assms
proof (induction es arbitrary: p s)
  case (Cons e es)
  obtain q s1 where d: "drop_target S e (p, s) = (q, s1)" by (metis surj_pair)
  have "e \<in> set (hash_iter (pv_targets p))" using Cons.prems(2) by simp
  note dt = drop_target_ok [OF Cons.prems(1) this d]
  have dk: "e \<notin> set es" "el_ptr e \<notin> el_ptr ` set es" "el_key e \<notin> el_key ` set es"
    using ut.distinct_ptrs [OF pv_okD(1) [OF Cons.prems(1)]] pv_okD(2) [OF Cons.prems(1)] Cons.prems(2)
    by (auto simp: ut.distinct_keys_def)
  then have "without (el_ptr e) es = es" by (intro filter_True) (metis imageI)
  then have "hash_iter (pv_targets q) = es" using dt(3) Cons.prems(2) by simp
  from Cons.IH [OF dt(1) this] Cons.prems(3) d
  have ih: "pv_ok p' \<and> hash_iter (pv_targets p') = [] \<and> pv_lock_calls p' = pv_lock_calls q \<and>
    s' = fold (\<lambda>tid s. snd (backend_finalize S (pv_aid q) (the (target_context q tid)) s)) (map el_key es) s1" by simp
  have "fold (\<lambda>tid s. snd (backend_finalize S (pv_aid q) (the (target_context q tid)) s)) (map el_key es) s1 =
      fold (\<lambda>tid s. snd (backend_finalize S (pv_aid p) (the (target_context p tid)) s)) (map el_key es) s1"
  proof (intro List.fold_cong)
    fix t assume "t \<in> set (map el_key es)"
    then have "t \<noteq> el_key e" using dk(3) by (metis list.set_map)
    then show "(\<lambda>s. snd (backend_finalize S (pv_aid q) (the (target_context q t)) s)) =
        (\<lambda>s. snd (backend_finalize S (pv_aid p) (the (target_context p t)) s))" using dt(2,8) by simp
  qed simp_all
  then show ?case using ih dt(5,6) by auto
qed simp

text \<open>C20: Detaching all targets leaves an empty table and a zero counter and releases the context of every
  target exactly once, in the order of attachment.\<close>
theorem provider_detach_all_releases:
  assumes "pv_ok p" and "bake_provider_detach_all_targets S (p, s) = (ret, (p', s'))"
  shows "ret = BAKE_SUCCESS \<and> pv_ok p' \<and> target_ids p' = [] \<and> pv_num_targets p' = 0 \<and>
    s' = fold (\<lambda>tid s. snd (backend_finalize S (pv_aid p) (the (target_context p tid)) s)) (target_ids p) s"
proof -
  let ?p = "lock_op ABT_rwlock_wrlock p"
  obtain q s1 where f: "fold (drop_target S) (hash_iter (pv_targets p)) (?p, s) = (q, s1)" by (metis surj_pair)
  have r: "ret = BAKE_SUCCESS" "p' = lock_op ABT_rwlock_unlock (q\<lparr>pv_num_targets := 0\<rparr>)" "s' = s1"
    using assms(2) f by (simp_all add: bake_provider_detach_all_targets_def Let_def)
  have "pv_ok ?p" "hash_iter (pv_targets ?p) = hash_iter (pv_targets p)" using assms(1) by simp_all
  from drop_targets_ok [OF this f]
  have "pv_ok q" "hash_iter (pv_targets q) = []"
    "s1 = fold (\<lambda>tid s. snd (backend_finalize S (pv_aid p) (the (target_context p tid)) s)) (target_ids p) s"
    by (simp_all add: target_ids_def)
  then show ?thesis using pv_ok_cong(1) [of "q\<lparr>pv_num_targets := 0\<rparr>" q] by (simp add: r target_ids_def)
qed


section \<open>Configuration\<close>

text \<open>A list of settings with their types and default values, completed in order.\<close>

definition complete_settings :: "'j json \<Rightarrow> (cstring \<times> json_type \<times> 'j) list \<Rightarrow> ('j, unit) cfg" where
  "complete_settings J ks = cfg_all (map (\<lambda>(k, typ, v). CONFIG_HAS_OR_CREATE J typ k v) ks)"

definition setting_default :: "(cstring \<times> json_type \<times> 'j) list \<Rightarrow> cstring \<Rightarrow> 'j option" where
  "setting_default ks k = map_option snd (map_of ks k)"

definition mistyped :: "'j json \<Rightarrow> (cstring \<times> json_type \<times> 'j) list \<Rightarrow> 'j \<Rightarrow> bool" where
  "mistyped J ks config \<longleftrightarrow>
    (\<exists>(k, typ, d) \<in> set ks. \<exists>v. json_object_object_get J config k = Some v \<and> json_object_get_type J v \<noteq> typ)"

lemma complete_settings_spec:
  assumes "json_ok J" and "distinct (map fst ks)"
  shows "fst (complete_settings J ks config) = None \<longleftrightarrow> mistyped J ks config"
    and "complete_settings J ks config = (Some (), config') \<Longrightarrow> json_object_object_get J config' k =
      (case json_object_object_get J config k of Some v \<Rightarrow> Some v | None \<Rightarrow> setting_default ks k)"
proof -
  have "(fst (complete_settings J ks config) = None \<longleftrightarrow> mistyped J ks config) \<and>
    (\<forall>config' k. complete_settings J ks config = (Some (), config') \<longrightarrow> json_object_object_get J config' k =
      (case json_object_object_get J config k of Some v \<Rightarrow> Some v | None \<Rightarrow> setting_default ks k))"
    using assms(2)
  proof (induction ks arbitrary: config)
    case Nil
    then show ?case by (auto simp: complete_settings_def mistyped_def setting_default_def split: option.split)
  next
    case (Cons x ks)
    obtain k ty d where x: "x = (k, ty, d)" by (metis prod.exhaust)
    note step = complete_settings_def CONFIG_HAS_OR_CREATE_def x
    show ?case
    proof (cases "json_object_object_get J config k")
      case (Some v)
      then show ?thesis
        using Cons.IH [of config] Cons.prems
        by (auto simp: step mistyped_def setting_default_def split: option.splits if_splits)
    next
      case None
      let ?c = "json_object_object_add J config k d"
      have get: "json_object_object_get J ?c k' = (if k' = k then Some d else json_object_object_get J config k')" for k'
        by (rule json_okD(1) [OF assms(1)])
      have "mistyped J ks ?c = mistyped J ks config"
      proof -
        have "json_object_object_get J ?c k' = json_object_object_get J config k'" if "(k', ty', d') \<in> set ks" for k' ty' d'
          using that Cons.prems x get [of k'] by (metis distinct.simps(2) fst_conv imageI list.set_map list.simps(9))
        then show ?thesis unfolding mistyped_def by (intro bex_cong refl) (auto split: prod.split)
      qed
      moreover have "mistyped J (x # ks) config = mistyped J ks config" by (simp add: mistyped_def x None)
      moreover have "complete_settings J (x # ks) config = complete_settings J ks ?c" by (simp add: step None)
      ultimately show ?thesis
        using Cons.IH [of ?c] Cons.prems None x by (auto simp: get setting_default_def split: option.splits)
    qed
  qed
  then show "fst (complete_settings J ks config) = None \<longleftrightarrow> mistyped J ks config"
    and "complete_settings J ks config = (Some (), config') \<Longrightarrow> json_object_object_get J config' k =
      (case json_object_object_get J config k of Some v \<Rightarrow> Some v | None \<Rightarrow> setting_default ks k)" by blast+
qed

definition pipeline_settings :: "'j json \<Rightarrow> (cstring \<times> json_type \<times> 'j) list" where
  "pipeline_settings J =
    [(str ''pipeline_enable'', json_type_boolean, json_object_new_boolean J False),
     (str ''pipeline_npools'', json_type_int, json_object_new_int64 J 4),
     (str ''pipeline_nbuffers_per_pool'', json_type_int, json_object_new_int64 J 32),
     (str ''pipeline_first_buffer_size'', json_type_int, json_object_new_int64 J 65536),
     (str ''pipeline_multiplier'', json_type_int, json_object_new_int64 J 4)]"

lemma pipeline_settings_distinct: "distinct (map fst (pipeline_settings J))"
  by (simp add: pipeline_settings_def bytes_of_string_def)

text \<open>C22: The configuration of a provider is typed: validation fails exactly if one of the five pipeline
  settings has a value of the wrong JSON type; otherwise every setting is present with its type
  afterwards, the values given by the user are kept and the others have their defaults.\<close>
theorem validate_config_typed:
  assumes "json_ok J"
  shows "(fst (validate_and_complete_config J version config) = None \<longleftrightarrow> mistyped J (pipeline_settings J) config) \<and>
    (\<forall>config'. validate_and_complete_config J version config = (Some (), config') \<longrightarrow>
      (\<forall>(k, typ, d) \<in> set (pipeline_settings J). \<exists>v. json_object_object_get J config' k = Some v \<and>
         json_object_get_type J v = typ \<and>
         v = (case json_object_object_get J config k of Some u \<Rightarrow> u | None \<Rightarrow> d)))"
proof -
  let ?ks = "pipeline_settings J"
  let ?c = "CONFIG_OVERRIDE_STRING J (str ''version'') version config"
  have v: "validate_and_complete_config J version config = complete_settings J ?ks ?c"
    by (simp add: validate_and_complete_config_def complete_settings_def pipeline_settings_def)
  have "str ''version'' \<notin> fst ` set ?ks" by (simp add: pipeline_settings_def bytes_of_string_def)
  then have keep: "json_object_object_get J ?c k = json_object_object_get J config k" if "(k, ty, d) \<in> set ?ks" for k ty d
    using that by (force simp: CONFIG_OVERRIDE_STRING_def json_okD(1) [OF assms])
  then have mt: "mistyped J ?ks ?c = mistyped J ?ks config" by (force simp: mistyped_def)
  note spec = complete_settings_spec [OF assms pipeline_settings_distinct [of J]]
  have "\<exists>v. json_object_object_get J config' k = Some v \<and> json_object_get_type J v = ty \<and>
      v = (case json_object_object_get J config k of Some u \<Rightarrow> u | None \<Rightarrow> d)"
    if run: "complete_settings J ?ks ?c = (Some (), config')" and m: "(k, ty, d) \<in> set ?ks" for config' k ty d
  proof -
    have d: "setting_default ?ks k = Some d"
      using m pipeline_settings_distinct [of J] by (simp add: setting_default_def)
    have "json_object_get_type J d = ty" using m by (auto simp: pipeline_settings_def json_okD(6,7) [OF assms])
    moreover have "\<not> mistyped J ?ks config" using spec(1) [of ?c] run mt by simp
    ultimately show ?thesis
      using spec(2) [OF run, of k] m d keep [OF m] by (force simp: mistyped_def split: option.splits)
  qed
  then show ?thesis using spec(1) [of ?c] mt by (auto simp: v)
qed

section \<open>Buffer pools\<close>

text \<open>C39: Disabling pipelining destroys the buffer pools but keeps the pointer to them: enabling it again
  creates no pools, and the provider goes on with the pointer to the destroyed ones.\<close>
theorem poolset_dangling:
  assumes "json_ok J" and "st_json S = J" and "pv_poolset p \<noteq> 0"
    and "poolset_destroy (st_margo S) (pv_poolset p) w = (0, w1)"
    and "bake_provider_set_param S (str ''pipeline_enable'') (str ''false'') (p, (m, w)) = (r1, (p1, s1))"
    and "bake_provider_set_param S (str ''pipeline_enable'') (str ''true'') (p1, s1) = (r2, (p2, s2))"
  shows "s1 = (m, w1) \<and> s2 = (m, w1) \<and> r2 = 0 \<and> pv_poolset p2 = pv_poolset p \<and> pipeline_enable J (pv_json_cfg p2)"
proof -
  have en: "pipeline_enable J (CONFIG_OVERRIDE_BOOL J (str ''pipeline_enable'') b c) = b" for b c
    by (simp add: pipeline_enable_def CONFIG_OVERRIDE_BOOL_def json_okD(1,9) [OF assms(1)])
  have f: "str ''false'' \<noteq> str ''true''" "str ''false'' \<noteq> str ''1''" by (simp_all add: bytes_of_string_def)
  have p1: "p1 = p\<lparr>pv_json_cfg := CONFIG_OVERRIDE_BOOL J (str ''pipeline_enable'') False (pv_json_cfg p)\<rparr>" "s1 = (m, w1)"
    using assms(2-5) f en by (auto simp: bake_provider_set_param_def setup_poolset_def Let_def BAKE_SUCCESS_def)
  then show ?thesis
    using assms(2,3,6) en by (auto simp: bake_provider_set_param_def setup_poolset_def Let_def)
qed

section \<open>Targets of the configuration\<close>

lemma attach_loop_frees:
  assumes "attach_loop S sz names i frees st = (Returns (ret, frees'), st')" and "ret \<noteq> 0"
  shows "attached_before S sz names st < length names \<and> frees' = frees @ [i..<i + attached_before S sz names st]"
  using assms(1)
proof (induction names arbitrary: i frees st)
  case (Cons name names)
  obtain r st1 where at: "attach_or_create S sz name st = (r, st1)" by (metis surj_pair)
  with Cons.prems obtain c where one: "attach_or_create S sz name st = (Returns c, st1)" by (cases r) auto
  show ?case
  proof (cases "c = BAKE_SUCCESS")
    case True
    then have "attach_loop S sz names (Suc i) (frees @ [i]) st1 = (Returns (ret, frees'), st')"
      using Cons.prems one by simp
    from Cons.IH [OF this] show ?thesis by (simp add: one True upt_conv_Cons)
  next
    case False
    then show ?thesis using Cons.prems one by simp
  qed
qed (use assms(2) in simp)

text \<open>Without memory for the array or a buffer, the allocated buffers are freed once and nothing is attached.\<close>

lemma attach_targets_nomem:
  assumes "CONFIG_HAS (st_json S) backend (str ''targets'') = Some targets"
    and "i < length (target_names S prefix targets)" and "\<not> st_alloc S prefix (Suc i)" and "\<forall>j \<le> i. st_alloc S prefix j"
  shows "attach_targets S prefix key backend st = (Returns (BAKE_ERR_NOMEM, [0..<i]), st)"
proof -
  have "find (\<lambda>j. \<not> st_alloc S prefix (Suc j)) [0..<length (target_names S prefix targets)] = Some i"
    unfolding find_Some_iff using assms(2-4) by (intro exI [of _ i]) auto
  then show ?thesis using assms(1,4) by (cases st) (simp add: attach_targets_def)
qed

text \<open>C40: If the memory for the names of the targets of a backend is there and the registration fails because
  a target cannot be attached or created, then the buffers of the names that were attached before that
  target are freed twice, once when they were attached and once by the error path, which frees the buffers of all names.\<close>
theorem attach_targets_double_free:
  assumes "CONFIG_HAS (st_json S) backend (str ''targets'') = Some targets"
    and "names = target_names S prefix targets" and "\<forall>i \<le> length names. st_alloc S prefix i"
    and "k = attached_before S (initial_target_size (st_json S) backend) names (without_targets S key backend p, s)"
    and "attach_targets S prefix key backend (p, s) = (Returns (ret, frees), st')" and "ret \<noteq> 0"
  shows "k < length names \<and> frees = [0..<k] @ [0..<length names] \<and> (\<forall>i < k. count_list frees i = 2)"
proof -
  have "find (\<lambda>i. \<not> st_alloc S prefix (Suc i)) [0..<length names] = None"
    using assms(3) by (auto simp: find_None_iff)
  then obtain fr where l: "attach_loop S (initial_target_size (st_json S) backend) names 0 []
      (without_targets S key backend p, s) = (Returns (ret, fr), st')"
    and f: "frees = fr @ [0..<length names]"
    using assms(1,3,5,6) unfolding assms(2)
    by (auto simp: attach_targets_def Let_def split: prod.splits outcome.splits if_splits)
  from attach_loop_frees [OF l assms(6)] have k: "k < length names" "fr = [0..<k]" by (auto simp: assms(4))
  have one: "i < n \<Longrightarrow> count_list [0..<n] i = 1" for i n :: nat
    by (induction n) (auto simp: less_Suc_eq)
  have "count_list frees i = 2" if "i < k" for i
    using that k one [of i k] one [of i "length names"] by (simp add: f)
  then show ?thesis using f k by simp
qed

section \<open>Registration\<close>

text \<open>Deregistration of a provider, on the error path of the registration as in the finalize callback,
  deregisters every RPC id that the registration obtained, each exactly once.\<close>
theorem deregister_all_rpcs:
  assumes "register_rpcs M provider_id server_rpc_names w = (ids, w')"
  shows "deregister_rpcs M ids w1 = fold (margo_deregister M) (map ((!) ids) deregister_order) w1 \<and>
    mset (map ((!) ids) deregister_order) = mset ids"
proof -
  have len: "register_rpcs M pid names v = (is, v') \<Longrightarrow> length is = length names" for pid names v "is" v'
    by (induction names arbitrary: v "is") (auto simp: Let_def split: prod.splits)
  have "length ids = 15" using len [OF assms] by (simp add: server_rpc_names_def)
  then obtain a0 a1 a2 a3 a4 a5 a6 a7 a8 a9 a10 a11 a12 a13 a14
    where "ids = [a0, a1, a2, a3, a4, a5, a6, a7, a8, a9, a10, a11, a12, a13, a14]"
    by (auto simp: numeral_eq_Suc length_Suc_conv)
  then show ?thesis by (simp add: deregister_rpcs_def fold_map o_def deregister_order_def add_mset_commute)
qed

end
