(* ===== verification/Server_Props.thy ===== *)
theory Server_Props
  imports Server Provider_Props
begin

text \<open>
  Properties of the RPC handlers: what every handler keeps of the provider, its lock discipline,
  that each request gets one response, the answers for unknown targets and providers, and what
  a probe returns. \<open>rpc_service\<close> is the contract of a handler; the dispatcher of all RPCs is its
  instance, so its facts about sequences of requests hold for the server.
\<close>

section \<open>Dispatch\<close>

text \<open>Which handler serves which RPC, as registered by \<open>bake_provider_register\<close>.\<close>

definition serve ::
  "('w, 'j) site \<Rightarrow> hg_addr \<Rightarrow> nat list \<Rightarrow> (nat \<Rightarrow> bake_target_id) \<Rightarrow> rpc_in \<Rightarrow> ('w, 'j) host \<Rightarrow>
     handle_call list option \<times> ('w, 'j) host" where
  "serve S sender sched junk msg h =
    (case msg of
       In_create x \<Rightarrow> bake_create_ult S (Some x) h
     | In_write x \<Rightarrow> bake_write_ult S sender sched (Some x) h
     | In_eager_write x \<Rightarrow> bake_eager_write_ult S (Some x) h
     | In_persist x \<Rightarrow> bake_persist_ult S (Some x) h
     | In_create_write_persist x \<Rightarrow> bake_create_write_persist_ult S sender sched (Some x) h
     | In_eager_create_write_persist x \<Rightarrow> bake_eager_create_write_persist_ult S (Some x) h
     | In_get_size x \<Rightarrow> bake_get_size_ult S (Some x) h
     | In_get_data x \<Rightarrow> bake_get_data_ult S (Some x) h
     | In_read x \<Rightarrow> bake_read_ult S sender sched (Some x) h
     | In_eager_read x \<Rightarrow> bake_eager_read_ult S (Some x) h
     | In_probe x \<Rightarrow> bake_probe_ult junk h
     | In_noop \<Rightarrow> bake_noop_ult h
     | In_remove x \<Rightarrow> bake_remove_ult S (Some x) h
     | In_migrate_region x \<Rightarrow> bake_migrate_region_ult S (Some x) h
     | In_migrate_target x \<Rightarrow> bake_migrate_target_ult S (Some x) h)"

text \<open>The target that a request names, and the return code in a response.\<close>

fun in_bti :: "rpc_in \<Rightarrow> bake_target_id option" where
  "in_bti (In_create x) = Some (cri_bti x)"
| "in_bti (In_write x) = Some (bi_bti x)"
| "in_bti (In_eager_write x) = Some (ewi_bti x)"
| "in_bti (In_persist x) = Some (xi_bti x)"
| "in_bti (In_create_write_persist x) = Some (cwi_bti x)"
| "in_bti (In_eager_create_write_persist x) = Some (ecwi_bti x)"
| "in_bti (In_get_size x) = Some (ri_bti x)"
| "in_bti (In_get_data x) = Some (ri_bti x)"
| "in_bti (In_read x) = Some (bi_bti x)"
| "in_bti (In_eager_read x) = Some (xi_bti x)"
| "in_bti (In_remove x) = Some (ri_bti x)"
| "in_bti (In_migrate_region x) = Some (mri_bti x)"
| "in_bti _ = None"

fun out_code :: "rpc_out \<Rightarrow> int" where
  "out_code (Out_create x) = ro_ret x"
| "out_code (Out_write x) = out_ret x"
| "out_code (Out_eager_write x) = out_ret x"
| "out_code (Out_persist x) = out_ret x"
| "out_code (Out_create_write_persist x) = ro_ret x"
| "out_code (Out_eager_create_write_persist x) = ro_ret x"
| "out_code (Out_get_size x) = wo_ret x"
| "out_code (Out_get_data x) = wo_ret x"
| "out_code (Out_read x) = rdo_ret x"
| "out_code (Out_eager_read x) = ero_ret x"
| "out_code (Out_probe x) = po_ret x"
| "out_code Out_noop = 0"
| "out_code (Out_remove x) = out_ret x"
| "out_code (Out_migrate_region x) = ro_ret x"
| "out_code (Out_migrate_target x) = out_ret x"

text \<open>The requests whose handlers use a local at \<open>finish\<close> that \<open>FIND_TARGET\<close> may leave unset.\<close>

fun reads_unset_local :: "rpc_in \<Rightarrow> bool" where
  "reads_unset_local (In_write _) = True"
| "reads_unset_local (In_read _) = True"
| "reads_unset_local (In_create_write_persist _) = True"
| "reads_unset_local (In_eager_read _) = True"
| "reads_unset_local _ = False"

section \<open>The contract of a handler\<close>

fun balanced :: "lock_call list \<Rightarrow> bool" where
  "balanced [] = True"
| "balanced [_] = False"
| "balanced (a # b # xs) \<longleftrightarrow> a \<noteq> ABT_rwlock_unlock \<and> b = ABT_rwlock_unlock \<and> balanced xs"

lemma balanced_append: "balanced xs \<Longrightarrow> balanced ys \<Longrightarrow> balanced (xs @ ys)"
  by (induction xs rule: balanced.induct) auto

fun is_respond :: "handle_call \<Rightarrow> bool" where
  "is_respond (Respond _) = True"
| "is_respond _ = False"

definition answered_once :: "handle_call list \<Rightarrow> bool" where
  "answered_once cs \<longleftrightarrow> length (filter is_respond cs) = 1 \<and> count_list cs Destroy = 1"

definition keeps_provider :: "'j bake_provider \<Rightarrow> 'j bake_provider \<Rightarrow> bool" where
  "keeps_provider p p' \<longleftrightarrow> pv_ok p' \<and> set (target_ids p') \<subseteq> set (target_ids p) \<and> pv_num_targets p' = pv_num_targets p \<and>
     pv_poolset p' = pv_poolset p \<and> pv_json_cfg p' = pv_json_cfg p"

text \<open>A handler whose calls are all defined answers once and releases its locks.\<close>

definition handler_ok :: "'j bake_provider \<Rightarrow> handle_call list option \<Rightarrow> 'j bake_provider \<Rightarrow> bool" where
  "handler_ok p calls p' \<longleftrightarrow> keeps_provider p p' \<and>
     (\<forall>cs. calls = Some cs \<and> \<not> list_ex undefined_call cs \<longrightarrow>
        answered_once cs \<and> (\<exists>new. pv_lock_calls p' = pv_lock_calls p @ new \<and> balanced new))"

text \<open>
  The requests of a session one after the other. It ends early with a handler that is stuck, and
  in front of a request whose handler would make an undefined call.
\<close>

fun session ::
  "('m \<Rightarrow> ('w, 'j) host \<Rightarrow> handle_call list option \<times> ('w, 'j) host) \<Rightarrow> 'm list \<Rightarrow> ('w, 'j) host \<Rightarrow>
     handle_call list list \<times> ('w, 'j) host" where
  "session run [] h = ([], h)"
| "session run (m # ms) h =
    (case run m h of
       (None, h') \<Rightarrow> ([], h')
     | (Some cs, h') \<Rightarrow>
         if list_ex undefined_call cs then ([], h)
         else (let (css, h'') = session run ms h' in (cs # css, h'')))"

locale rpc_service =
  fixes run :: "'m \<Rightarrow> ('w, 'j) host \<Rightarrow> handle_call list option \<times> ('w, 'j) host"
    and suspect :: "'m \<Rightarrow> 'j bake_provider \<Rightarrow> bool"
  assumes run_ok: "pv_ok p \<Longrightarrow> run msg (Some p, s) = (calls, (po, s')) \<Longrightarrow> \<exists>p'. po = Some p' \<and> handler_ok p calls p'"
    and run_undefined: "pv_ok p \<Longrightarrow> run msg (Some p, s) = (Some cs, h) \<Longrightarrow> list_ex undefined_call cs \<Longrightarrow> suspect msg p"
begin

lemma session_ok:
  assumes "pv_ok p" and "session run ms (Some p, s) = (css, (po, s'))"
  shows "\<exists>p'. po = Some p' \<and> keeps_provider p p' \<and>
    (\<forall>cs \<in> set css. answered_once cs \<and> \<not> list_ex undefined_call cs) \<and>
    (length css = length ms \<longrightarrow> (\<exists>new. pv_lock_calls p' = pv_lock_calls p @ new \<and> balanced new)) \<and>
    (length css < length ms \<longrightarrow>
      (\<exists>h. run (ms ! length css) h = (None, (Some p', s'))) \<or> suspect (ms ! length css) p')"
  using assms
proof (induction ms arbitrary: p s css)
  case Nil
  then show ?case by (auto simp: keeps_provider_def intro!: exI [of _ "[]"])
next
  case (Cons m ms)
  obtain calls po1 s1 where r: "run m (Some p, s) = (calls, (po1, s1))" by (metis surj_pair)
  from run_ok [OF Cons.prems(1) r] obtain p1 where p1: "po1 = Some p1" "handler_ok p calls p1" by blast
  consider (stuck) "calls = None" | (undefined) cs where "calls = Some cs" "list_ex undefined_call cs"
    | (goes) cs where "calls = Some cs" "\<not> list_ex undefined_call cs" by blast
  then show ?case
  proof cases
    case stuck
    then have "run m (Some p, s) = (None, (Some p1, s'))" "po = Some p1" "css = []"
      using Cons.prems(2) r p1 by auto
    then show ?thesis using p1(2) by (auto simp: handler_ok_def simp del: split_paired_Ex)
  next
    case (undefined cs)
    have "suspect m p" using run_undefined [OF Cons.prems(1) _ undefined(2)] r undefined(1) by blast
    then show ?thesis using Cons.prems r undefined by (auto simp: keeps_provider_def)
  next
    case (goes cs)
    obtain css2 where s2: "session run ms (Some p1, s1) = (css2, (po, s'))" "css = cs # css2"
      using Cons.prems(2) r p1 goes by (auto split: prod.splits)
    have "pv_ok p1" using p1(2) by (simp add: handler_ok_def keeps_provider_def)
    from Cons.IH [OF this s2(1)] obtain p' where p': "po = Some p'" "keeps_provider p1 p'"
      "\<forall>cs \<in> set css2. answered_once cs \<and> \<not> list_ex undefined_call cs"
      "length css2 = length ms \<longrightarrow> (\<exists>new. pv_lock_calls p' = pv_lock_calls p1 @ new \<and> balanced new)"
      "length css2 < length ms \<longrightarrow> (\<exists>h. run (ms ! length css2) h = (None, (Some p', s'))) \<or> suspect (ms ! length css2) p'"
      by blast
    moreover from p1(2) goes obtain new where "answered_once cs" "pv_lock_calls p1 = pv_lock_calls p @ new"
      "balanced new" "keeps_provider p p1" by (auto simp: handler_ok_def)
    ultimately show ?thesis
      using goes(2) by (auto simp: s2(2) keeps_provider_def balanced_append)
  qed
qed

end

section \<open>Handlers that use the common part\<close>

lemma set_context_eq: "set_context e ctx p = with_context (el_val e) ctx p"
  by (simp add: set_context_def with_context_def)

text \<open>What a body may do to the provider: replace the context of its target.\<close>

definition body_ok :: "('m \<Rightarrow> nat ut_elem \<Rightarrow> bake_context \<Rightarrow> ('w, 'j) server \<Rightarrow> 'o option \<times> ('w, 'j) server) \<Rightarrow> bool" where
  "body_ok body \<longleftrightarrow> (\<forall>x e ctx p s r p' s'. body x e ctx (p, s) = (r, (p', s')) \<longrightarrow>
     p' = p \<or> (\<exists>ctx'. p' = set_context e ctx' p))"

lemma run_handler_ok:
  assumes "body_ok body" and "pv_ok p" and "run_handler bti fail body inp (Some p, s) = (r, (po, s'))"
  shows "\<exists>p'. po = Some p' \<and> keeps_provider p p' \<and>
    (r \<noteq> Stuck \<longrightarrow> (\<exists>new. pv_lock_calls p' = pv_lock_calls p @ new \<and> balanced new))"
proof (cases inp)
  case None
  then show ?thesis using assms(2,3)
    by (auto simp: run_handler_def keeps_provider_def intro!: exI [of _ "[]"])
next
  case (Some x)
  let ?p = "lock_op ABT_rwlock_rdlock p"
  show ?thesis
  proof (cases "find_target_entry p (bti x)")
    case None
    then show ?thesis using assms(2,3) Some
      by (auto simp: run_handler_def keeps_provider_def intro!: exI [of _ "[ABT_rwlock_rdlock, ABT_rwlock_unlock]"])
  next
    case (Some e)
    obtain ctx where c: "pv_contexts p (el_val e) = Some ctx" using found_has_context [OF assms(2) Some] by blast
    obtain out q s1 where b: "body x e ctx (?p, s) = (out, (q, s1))" by (metis surj_pair)
    have "q = ?p \<or> (\<exists>ctx'. q = set_context e ctx' ?p)" using assms(1) b unfolding body_ok_def by blast
    moreover have "keeps_provider p (set_context e ctx' ?p)" for ctx'
      using pv_ok_context [of ?p "bti x" e ctx'] assms(2) Some
      by (simp add: keeps_provider_def set_context_eq with_context_def)
    moreover have "keeps_provider p ?p" using assms(2) by (simp add: keeps_provider_def)
    ultimately have q: "keeps_provider p q" "pv_lock_calls q = pv_lock_calls p @ [ABT_rwlock_rdlock]"
      by (auto simp: set_context_def)
    have "keeps_provider p (lock_op ABT_rwlock_unlock q)" using q(1) by (simp add: keeps_provider_def)
    then show ?thesis
      using assms(3) \<open>inp = Some x\<close> Some c b q
      by (cases out) (auto simp: run_handler_def Let_def)
  qed
qed

lemma plain_handler_ok:
  assumes "body_ok body" and "pv_ok p"
    and "respond_and_cleanup con (run_handler bti fail body inp (Some p, s)) = (calls, (po, s'))"
  shows "\<exists>p'. po = Some p' \<and> handler_ok p calls p'"
proof -
  obtain r po1 s1 where rh: "run_handler bti fail body inp (Some p, s) = (r, (po1, s1))" by (metis surj_pair)
  from run_handler_ok [OF assms(1,2) rh] assms(3) show ?thesis
    unfolding rh by (cases r) (auto simp: respond_and_cleanup_def handler_ok_def answered_once_def)
qed

lemma addr_handler_ok:
  assumes "body_ok body" and "pv_ok p"
    and "addr_free_and_respond M con (run_handler bti fail body inp (Some p, s)) = (calls, (po, s'))"
  shows "\<exists>p'. po = Some p' \<and> handler_ok p calls p'"
proof -
  obtain r po1 s1 where rh: "run_handler bti fail body inp (Some p, s) = (r, (po1, s1))" by (metis surj_pair)
  from run_handler_ok [OF assms(1,2) rh] assms(3) show ?thesis
    unfolding rh by (cases r) (auto simp: addr_free_and_respond_def handler_ok_def answered_once_def)
qed

lemma eager_read_handler_ok:
  assumes "body_ok body" and "pv_ok p"
    and "eager_read_epilogue (run_handler bti fail body inp (Some p, s)) = (calls, (po, s'))"
  shows "\<exists>p'. po = Some p' \<and> handler_ok p calls p'"
proof -
  obtain r po1 s1 where rh: "run_handler bti fail body inp (Some p, s) = (r, (po1, s1))" by (metis surj_pair)
  from run_handler_ok [OF assms(1,2) rh] assms(3) show ?thesis
    unfolding rh by (cases r) (auto simp: eager_read_epilogue_def handler_ok_def answered_once_def split: if_splits)
qed

lemma probe_ok:
  assumes "pv_ok p" and "bake_probe_ult junk (Some p, s) = (calls, (po, s'))"
  shows "\<exists>p'. po = Some p' \<and> handler_ok p calls p'"
  using assms by (auto simp: bake_probe_ult_def bake_provider_count_targets_def bake_provider_list_targets_def Let_def
      handler_ok_def keeps_provider_def answered_once_def
      intro!: exI [of _ "[ABT_rwlock_rdlock, ABT_rwlock_unlock, ABT_rwlock_rdlock, ABT_rwlock_unlock]"])

lemma migrate_locked_ok:
  assumes "pv_ok p" and "migrate_target_locked S x ctx (p, s) = ((ret, fs, ph, addr), (p', s'))"
    and "pv_lock_calls p = cs @ [ABT_rwlock_wrlock]"
  shows "keeps_provider p p' \<and> (\<exists>new. pv_lock_calls p' @ [ABT_rwlock_unlock] = cs @ new \<and> balanced new)"
proof -
  have stay: "keeps_provider p p \<and> (\<exists>new. pv_lock_calls p @ [ABT_rwlock_unlock] = cs @ new \<and> balanced new)"
    using assms(1,3) by (auto simp: keeps_provider_def intro!: exI [of _ "[ABT_rwlock_wrlock, ABT_rwlock_unlock]"])
  have goes: "keeps_provider p (lock_op ABT_rwlock_rdlock (lock_op ABT_rwlock_unlock p))"
    "\<exists>new. pv_lock_calls p @ [ABT_rwlock_unlock, ABT_rwlock_rdlock, ABT_rwlock_unlock] = cs @ new \<and> balanced new"
    using assms(1,3) by (auto simp: keeps_provider_def
        intro!: exI [of _ "[ABT_rwlock_wrlock, ABT_rwlock_unlock, ABT_rwlock_rdlock, ABT_rwlock_unlock]"])
  have removes: "keeps_provider p (lock_op ABT_rwlock_rdlock q) \<and>
      (\<exists>new. pv_lock_calls q @ [ABT_rwlock_rdlock, ABT_rwlock_unlock] = cs @ new \<and> balanced new)"
    if dq: "snd (bake_provider_detach_target S tid (lock_op ABT_rwlock_unlock p, u)) = (q, v)" for q tid u v
  proof -
    obtain r where d: "bake_provider_detach_target S tid (lock_op ABT_rwlock_unlock p, u) = (r, (q, v))"
      using dq by (metis prod.collapse)
    have "pv_ok (lock_op ABT_rwlock_unlock p)" using assms(1) by simp
    from detach_ok [OF this d] show ?thesis using assms(3)
      by (auto simp: keeps_provider_def intro!: exI [of _ "[ABT_rwlock_wrlock, ABT_rwlock_unlock,
          ABT_rwlock_wrlock, ABT_rwlock_unlock, ABT_rwlock_rdlock, ABT_rwlock_unlock]"])
  qed
  show ?thesis
    using assms(2) stay goes
    by (auto simp: migrate_target_locked_def Let_def balanced_append
        split: prod.splits option.splits if_splits dest!: removes)
qed

lemma migrate_target_ok:
  assumes "pv_ok p" and "bake_migrate_target_ult S inp (Some p, s) = (calls, (po, s'))"
  shows "\<exists>p'. po = Some p' \<and> handler_ok p calls p'"
proof -
  let ?p = "lock_op ABT_rwlock_wrlock p"
  have k: "keeps_provider p p" using assms(1) by (simp add: keeps_provider_def)
  have fin: "\<exists>p'. po' = Some p' \<and> handler_ok p calls' p'"
    if "migrate_target_finish S ((ret, fs, ph, addr), (q, u)) = (calls', (po', u'))"
      "keeps_provider ?p q" "\<exists>new. pv_lock_calls q @ [ABT_rwlock_unlock] = pv_lock_calls p @ new \<and> balanced new"
    for ret fs ph addr q u calls' po' u'
    using that by (auto simp: migrate_target_finish_def Let_def handler_ok_def keeps_provider_def answered_once_def)
  have wr: "keeps_provider ?p ?p" "\<exists>new. pv_lock_calls ?p @ [ABT_rwlock_unlock] = pv_lock_calls p @ new \<and> balanced new"
    using assms(1) by (auto simp: keeps_provider_def intro!: exI [of _ "[ABT_rwlock_wrlock, ABT_rwlock_unlock]"])
  show ?thesis
  proof (cases "st_remi S \<and> inp \<noteq> None")
    case False
    then show ?thesis using assms(2) k
      by (auto simp: bake_migrate_target_ult_def Let_def handler_ok_def answered_once_def split: if_splits
          intro!: exI [of _ "[]"])
  next
    case True
    then obtain x where x: "st_remi S" "inp = Some x" by blast
    show ?thesis
    proof (cases "pv_remi_client p \<and> find_target_entry p (mti_bti x) \<noteq> None")
      case False
      then obtain ret where "migrate_target_finish S ((ret, 0, 0, HG_ADDR_NULL), (?p, s)) = (calls, (po, s'))"
        using assms(2) x by (auto simp: bake_migrate_target_ult_def Let_def split: if_splits)
      then show ?thesis by (rule fin [OF _ wr])
    next
      case True
      then obtain e where e: "pv_remi_client p" "find_target_entry p (mti_bti x) = Some e" by blast
      obtain ctx where c: "pv_contexts p (el_val e) = Some ctx" using found_has_context [OF assms(1) e(2)] by blast
      obtain ret fs ph addr q u where l: "migrate_target_locked S x ctx (?p, s) = ((ret, fs, ph, addr), (q, u))"
        by (metis surj_pair)
      have "migrate_target_finish S ((ret, fs, ph, addr), (q, u)) = (calls, (po, s'))"
        using assms(2) x e c l by (simp add: bake_migrate_target_ult_def Let_def)
      moreover have "pv_ok ?p" "pv_lock_calls ?p = pv_lock_calls p @ [ABT_rwlock_wrlock]" using assms(1) by simp_all
      note migrate_locked_ok [OF this(1) l this(2)]
      ultimately show ?thesis by (intro fin) auto
    qed
  qed
qed

lemma serve_ok:
  assumes "pv_ok p" and "serve S sender sched junk msg (Some p, s) = (calls, (po, s'))"
  shows "\<exists>p'. po = Some p' \<and> handler_ok p calls p'"
proof (cases msg)
  case (In_create x)
  show ?thesis using assms(2) unfolding In_create serve_def rpc_in.case bake_create_ult_def
    by (intro plain_handler_ok [OF _ assms(1)]) (auto simp: body_ok_def split: prod.splits)
next
  case (In_write x)
  show ?thesis using assms(2) unfolding In_write serve_def rpc_in.case bake_write_ult_def
    by (intro addr_handler_ok [OF _ assms(1)]) (auto simp: body_ok_def Let_def split: prod.splits if_splits)
next
  case (In_eager_write x)
  show ?thesis using assms(2) unfolding In_eager_write serve_def rpc_in.case bake_eager_write_ult_def
    by (intro plain_handler_ok [OF _ assms(1)]) (auto simp: body_ok_def split: prod.splits)
next
  case (In_persist x)
  show ?thesis using assms(2) unfolding In_persist serve_def rpc_in.case bake_persist_ult_def
    by (intro plain_handler_ok [OF _ assms(1)]) (auto simp: body_ok_def split: prod.splits)
next
  case (In_create_write_persist x)
  show ?thesis using assms(2) unfolding In_create_write_persist serve_def rpc_in.case bake_create_write_persist_ult_def
    by (intro addr_handler_ok [OF _ assms(1)]) (auto simp: body_ok_def Let_def split: prod.splits if_splits)
next
  case (In_eager_create_write_persist x)
  show ?thesis using assms(2)
    unfolding In_eager_create_write_persist serve_def rpc_in.case bake_eager_create_write_persist_ult_def
    by (intro plain_handler_ok [OF _ assms(1)]) (auto simp: body_ok_def Let_def split: prod.splits)
next
  case (In_get_size x)
  show ?thesis using assms(2) unfolding In_get_size serve_def rpc_in.case bake_get_size_ult_def
    by (intro plain_handler_ok [OF _ assms(1)]) (auto simp: body_ok_def split: prod.splits)
next
  case (In_get_data x)
  show ?thesis using assms(2) unfolding In_get_data serve_def rpc_in.case bake_get_data_ult_def
    by (intro plain_handler_ok [OF _ assms(1)]) (auto simp: body_ok_def split: prod.splits)
next
  case (In_read x)
  show ?thesis using assms(2) unfolding In_read serve_def rpc_in.case bake_read_ult_def
    by (intro addr_handler_ok [OF _ assms(1)]) (auto simp: body_ok_def Let_def split: prod.splits if_splits)
next
  case (In_eager_read x)
  show ?thesis using assms(2) unfolding In_eager_read serve_def rpc_in.case bake_eager_read_ult_def
    by (intro eager_read_handler_ok [OF _ assms(1)]) (auto simp: body_ok_def Let_def split: prod.splits)
next
  case (In_probe x)
  show ?thesis using assms unfolding In_probe serve_def rpc_in.case by (intro probe_ok)
next
  case In_noop
  show ?thesis using assms unfolding In_noop serve_def rpc_in.case
    by (auto simp: bake_noop_ult_def handler_ok_def keeps_provider_def answered_once_def intro!: exI [of _ "[]"])
next
  case (In_remove x)
  show ?thesis using assms(2) unfolding In_remove serve_def rpc_in.case bake_remove_ult_def
    by (intro plain_handler_ok [OF _ assms(1)]) (auto simp: body_ok_def split: prod.splits)
next
  case (In_migrate_region x)
  show ?thesis using assms(2) unfolding In_migrate_region serve_def rpc_in.case bake_migrate_region_ult_def
    by (intro plain_handler_ok [OF _ assms(1)]) (auto simp: body_ok_def split: prod.splits)
next
  case (In_migrate_target x)
  show ?thesis using assms unfolding In_migrate_target serve_def rpc_in.case by (intro migrate_target_ok)
qed

text \<open>
  Where undefined calls come from: a request without a provider, and one of the four kinds of
  requests whose handlers use an unset local, for a target that is not attached.
\<close>

lemma run_handler_attached:
  assumes "pv_ok p" and "target_context p (bti x) \<noteq> None"
  shows "fst (run_handler bti fail body (Some x) (Some p, s)) \<noteq> Early out"
    and "fst (run_handler bti fail body (Some x) (Some p, s)) \<noteq> Unread out"
proof -
  obtain e where "find_target_entry p (bti x) = Some e"
    using assms(2) by (auto simp: target_context_def split: option.splits)
  then show "fst (run_handler bti fail body (Some x) (Some p, s)) \<noteq> Early out"
    and "fst (run_handler bti fail body (Some x) (Some p, s)) \<noteq> Unread out"
    by (simp_all add: run_handler_def Let_def split: option.splits prod.splits)
qed

lemma plain_defined:
  assumes "respond_and_cleanup con (run_handler bti fail body (Some x) (Some p, s)) = (Some cs, h)"
  shows "\<not> list_ex undefined_call cs"
  using assms by (auto simp: respond_and_cleanup_def run_handler_def Let_def split: run.splits option.splits prod.splits)

lemma addr_defined:
  assumes "pv_ok p" and "target_context p (bti x) \<noteq> None"
    and "addr_free_and_respond M con (run_handler bti fail body (Some x) (Some p, s)) = (Some cs, h)"
  shows "\<not> list_ex undefined_call cs"
proof -
  obtain r po1 s1 where rh: "run_handler bti fail body (Some x) (Some p, s) = (r, (po1, s1))" by (metis surj_pair)
  have "r \<noteq> Early out" "r \<noteq> Unread out" for out
    using run_handler_attached [where bti = bti and x = x and fail = fail and body = body and s = s and out = out,
        OF assms(1,2)] by (simp_all add: rh)
  then show ?thesis using assms(3) unfolding rh by (auto simp: addr_free_and_respond_def split: run.splits)
qed

lemma eager_read_defined:
  assumes "pv_ok p" and "target_context p (bti x) \<noteq> None"
    and "eager_read_epilogue (run_handler bti fail body (Some x) (Some p, s)) = (Some cs, h)"
  shows "\<not> list_ex undefined_call cs"
proof -
  obtain r po1 s1 where rh: "run_handler bti fail body (Some x) (Some p, s) = (r, (po1, s1))" by (metis surj_pair)
  have "r \<noteq> Early out" "r \<noteq> Unread out" for out
    using run_handler_attached [where bti = bti and x = x and fail = fail and body = body and s = s and out = out,
        OF assms(1,2)] by (simp_all add: rh)
  then show ?thesis using assms(3) unfolding rh by (auto simp: eager_read_epilogue_def split: run.splits if_splits)
qed

lemma serve_undefined:
  assumes "pv_ok p" and "serve S sender sched junk msg (Some p, s) = (Some cs, h)" and "list_ex undefined_call cs"
  shows "reads_unset_local msg \<and> (\<exists>tid. in_bti msg = Some tid \<and> target_context p tid = None)"
proof (rule ccontr)
  assume no: "\<not> ?thesis"
  have "\<not> list_ex undefined_call cs"
  proof (cases msg)
    case (In_write x)
    show ?thesis using assms(2) no unfolding In_write serve_def rpc_in.case bake_write_ult_def
      by (intro addr_defined [OF assms(1)]) auto
  next
    case (In_create_write_persist x)
    show ?thesis using assms(2) no
      unfolding In_create_write_persist serve_def rpc_in.case bake_create_write_persist_ult_def
      by (intro addr_defined [OF assms(1)]) auto
  next
    case (In_read x)
    show ?thesis using assms(2) no unfolding In_read serve_def rpc_in.case bake_read_ult_def
      by (intro addr_defined [OF assms(1)]) auto
  next
    case (In_eager_read x)
    show ?thesis using assms(2) no unfolding In_eager_read serve_def rpc_in.case bake_eager_read_ult_def
      by (intro eager_read_defined [OF assms(1)]) auto
  next
    case (In_probe x)
    then show ?thesis using assms(2)
      by (auto simp: serve_def bake_probe_ult_def Let_def split: prod.splits)
  next
    case In_noop
    then show ?thesis using assms(2) by (auto simp: serve_def bake_noop_ult_def)
  next
    case (In_migrate_target x)
    then show ?thesis using assms(2)
      by (auto simp: serve_def bake_migrate_target_ult_def migrate_target_finish_def Let_def
          split: if_splits option.splits prod.splits)
  qed (use assms(2) in \<open>auto simp: serve_def bake_create_ult_def bake_eager_write_ult_def bake_persist_ult_def
      bake_eager_create_write_persist_ult_def bake_get_size_ult_def bake_get_data_ult_def bake_remove_ult_def
      bake_migrate_region_ult_def dest!: plain_defined\<close>)
  with assms(3) show False by simp
qed

text \<open>The handler of a request makes no undefined call, whatever the interleaving of its threads.\<close>

definition defined_request :: "('w, 'j) site \<Rightarrow> rpc_in \<Rightarrow> ('w, 'j) host \<Rightarrow> bool" where
  "defined_request S msg h \<longleftrightarrow> (\<forall>sender sched junk cs h'.
     serve S sender sched junk msg h = (Some cs, h') \<longrightarrow> \<not> list_ex undefined_call cs)"

lemma defined_requestI:
  assumes "pv_ok p" and "reads_unset_local msg \<longrightarrow> (\<forall>tid. in_bti msg = Some tid \<longrightarrow> target_context p tid \<noteq> None)"
  shows "defined_request S msg (Some p, s)"
  using assms serve_undefined [OF assms(1)] unfolding defined_request_def by blast

text \<open>A request with its sender, the interleaving of its threads and the initial stack contents.\<close>

type_synonym request = "hg_addr \<times> nat list \<times> (nat \<Rightarrow> bake_target_id) \<times> rpc_in"

definition serve_request ::
  "('w, 'j) site \<Rightarrow> request \<Rightarrow> ('w, 'j) host \<Rightarrow> handle_call list option \<times> ('w, 'j) host" where
  "serve_request S = (\<lambda>(sender, sched, junk, msg). serve S sender sched junk msg)"

definition request_msg :: "request \<Rightarrow> rpc_in" where
  "request_msg = (\<lambda>(sender, sched, junk, msg). msg)"

interpretation bake_server: rpc_service "serve_request S"
  "\<lambda>r p. reads_unset_local (request_msg r) \<and> (\<exists>tid. in_bti (request_msg r) = Some tid \<and> target_context p tid = None)"
  for S :: "('w, 'j) site"
proof
  fix p :: "'j bake_provider" and msg :: request and s :: "'w pm" and calls po s'
  assume "pv_ok p" "serve_request S msg (Some p, s) = (calls, (po, s'))"
  then show "\<exists>p'. po = Some p' \<and> handler_ok p calls p'"
    by (cases msg) (auto simp: serve_request_def intro: serve_ok)
next
  fix p :: "'j bake_provider" and msg :: request and s :: "'w pm" and cs h
  assume "pv_ok p" "serve_request S msg (Some p, s) = (Some cs, h)" "list_ex undefined_call cs"
  then show "reads_unset_local (request_msg msg) \<and>
      (\<exists>tid. in_bti (request_msg msg) = Some tid \<and> target_context p tid = None)"
    by (cases msg) (auto simp: serve_request_def request_msg_def dest: serve_undefined)
qed


section \<open>Properties of the server\<close>


lemmas handler_defs = bake_create_ult_def bake_write_ult_def bake_eager_write_ult_def bake_persist_ult_def
  bake_create_write_persist_ult_def bake_eager_create_write_persist_ult_def bake_get_size_ult_def
  bake_get_data_ult_def bake_read_ult_def bake_eager_read_ult_def bake_remove_ult_def bake_migrate_region_ult_def

lemmas out_defs = rid_out_def ret_out_def word_out_def read_out_def eager_read_out_def

text \<open>What a handler does with its handle when it leaves before its body.\<close>

definition early_calls :: "rpc_in \<Rightarrow> rpc_out \<Rightarrow> handle_call list" where
  "early_calls msg out =
    (case msg of
       In_write _ \<Rightarrow> [Addr_free None]
     | In_create_write_persist _ \<Rightarrow> [Addr_free None]
     | In_read _ \<Rightarrow> [Addr_free None]
     | In_eager_read _ \<Rightarrow> [Respond out, Free_input, Destroy, Call_free_data None]
     | _ \<Rightarrow> [Respond out, Free_input, Destroy])"

lemma serve_early:
  assumes "in_bti msg = Some tid" and "find_target_entry p tid = None"
  shows "\<exists>out. serve S sender sched junk msg (Some p, s) =
      (Some (early_calls msg out), (Some (lock_op ABT_rwlock_unlock (lock_op ABT_rwlock_rdlock p)), s)) \<and>
      out_code out = BAKE_ERR_UNKNOWN_TARGET"
proof (cases "reads_unset_local msg \<and> (\<forall>x. msg \<noteq> In_eager_read x)")
  case True
  have "serve S sender sched junk msg (Some p, s) = (Some [Addr_free None],
      (Some (lock_op ABT_rwlock_unlock (lock_op ABT_rwlock_rdlock p)), s))"
    using True assms by (cases msg) (auto simp: serve_def handler_defs run_handler_def addr_free_and_respond_def)
  moreover have "early_calls msg out = [Addr_free None]" for out
    using True by (cases msg) (simp_all add: early_calls_def)
  ultimately show ?thesis by (intro exI [of _ "Out_write (ret_out BAKE_ERR_UNKNOWN_TARGET)"]) (simp add: ret_out_def)
next
  case False
  then show ?thesis using assms
    by (cases msg; force simp: serve_def handler_defs run_handler_def respond_and_cleanup_def
        eager_read_epilogue_def early_calls_def out_defs)
qed

lemma serve_no_provider:
  assumes "in_bti msg = Some tid" and "\<not> reads_unset_local msg"
  shows "\<exists>out. serve S sender sched junk msg (None, s) = (Some [Respond out, Free_unset_input], (None, s)) \<and>
      out_code out = BAKE_ERR_UNKNOWN_PROVIDER"
  using assms
  by (cases msg; force simp: serve_def handler_defs run_handler_def respond_and_cleanup_def out_defs)

lemma not_attached_not_found:
  assumes "pv_ok p" and "target_context p tid = None"
  shows "find_target_entry p tid = None"
  using assms(2) found_has_context [OF assms(1), of tid] by (cases "find_target_entry p tid") auto


text \<open>C132: A handler that answers an unknown target jumps over the initialisation of locals that it uses at the
  label \<open>finish\<close>: the handlers of write, read and create-write-persist free an indeterminate address,
  and the handler of eager read tests and calls an indeterminate function pointer.\<close>
theorem unknown_target_uninitialised:
  assumes "pv_ok p" and "target_context p tid = None"
  shows "(in_bti (In_write x) = Some tid \<longrightarrow>
      (\<exists>cs. fst (serve S sender sched junk (In_write x) (Some p, s)) = Some (Addr_free None # cs))) \<and>
    (in_bti (In_read x) = Some tid \<longrightarrow>
      (\<exists>cs. fst (serve S sender sched junk (In_read x) (Some p, s)) = Some (Addr_free None # cs))) \<and>
    (in_bti (In_create_write_persist y) = Some tid \<longrightarrow>
      (\<exists>cs. fst (serve S sender sched junk (In_create_write_persist y) (Some p, s)) = Some (Addr_free None # cs))) \<and>
    (in_bti (In_eager_read z) = Some tid \<longrightarrow>
      (\<exists>cs. fst (serve S sender sched junk (In_eager_read z) (Some p, s)) = Some (cs @ [Call_free_data None])))"
proof -
  note nf = not_attached_not_found [OF assms]
  have e: "\<exists>out. fst (serve S sender sched junk msg (Some p, s)) = Some (early_calls msg out)"
    if "in_bti msg = Some tid" for msg
    using serve_early [OF that nf, of S sender sched junk s] by (metis fst_conv)
  show ?thesis using e [of "In_write x"] e [of "In_read x"] e [of "In_create_write_persist y"] e [of "In_eager_read z"]
    by (auto simp: early_calls_def)
qed

text \<open>A probe reports the counter of targets and the ids of the attached targets in the order of
  attachment, followed by whatever the array held where the counter exceeds the number of targets, as
  it does after a target has been detached.\<close>
theorem probe_lists_targets:
  assumes "length (target_ids p) \<le> unat (pv_num_targets p)"
  shows "\<exists>p'. bake_probe_ult junk (Some p, s) =
    (Some [Respond (Out_probe \<lparr>po_ret = BAKE_SUCCESS, po_num_targets = pv_num_targets p,
       po_targets = target_ids p @ map junk [length (target_ids p)..<unat (pv_num_targets p)]\<rparr>), Destroy],
     (Some p', s)) \<and> target_context p' = target_context p"
  using assms
  by (auto simp: bake_probe_ult_def bake_provider_count_targets_def bake_provider_list_targets_def Let_def
      target_ids_def drop_map)

end
