(* ===== verification/Client.thy ===== *)
theory Client
  imports Bake_Margo
begin

text \<open>
  The client library (\<^verbatim>\<open>src/bake-client.c\<close>). Clients and provider handles are heap objects; a handle
  holds the address of its client and is shared by reference counting. The remote operations take
  the two objects that the pointer \<open>provider\<close> leads to, the handle and its client. Their out
  parameters are options in the result: \<open>None\<close> means that the function did not assign to them. The
  timers of \<^verbatim>\<open>bake-timing.h\<close> have no effect on results and are left out.
\<close>

section \<open>State\<close>

definition BAKE_DEFAULT_EAGER_LIMIT :: u64 where "BAKE_DEFAULT_EAGER_LIMIT = 2048"

text \<open>The RPCs of the client; \<open>rpc_name\<close> is the name that it registers or looks up.\<close>

datatype client_rpc =
    bake_probe_id | bake_create_id | bake_write_id | bake_eager_write_id | bake_eager_read_id
  | bake_persist_id | bake_create_write_persist_id | bake_eager_create_write_persist_id
  | bake_get_size_id | bake_get_data_id | bake_read_id | bake_noop_id | bake_remove_id
  | bake_migrate_region_id | bake_migrate_target_id

fun rpc_name :: "client_rpc \<Rightarrow> string" where
  "rpc_name bake_probe_id = ''bake_probe_rpc''"
| "rpc_name bake_create_id = ''bake_create_rpc''"
| "rpc_name bake_write_id = ''bake_write_rpc''"
| "rpc_name bake_eager_write_id = ''bake_eager_write_rpc''"
| "rpc_name bake_eager_read_id = ''bake_eager_read_rpc''"
| "rpc_name bake_persist_id = ''bake_persist_rpc''"
| "rpc_name bake_create_write_persist_id = ''bake_create_write_persist_rpc''"
| "rpc_name bake_eager_create_write_persist_id = ''bake_eager_create_write_persist_rpc''"
| "rpc_name bake_get_size_id = ''bake_get_size_rpc''"
| "rpc_name bake_get_data_id = ''bake_get_data_rpc''"
| "rpc_name bake_read_id = ''bake_read_rpc''"
| "rpc_name bake_noop_id = ''bake_noop_rpc''"
| "rpc_name bake_remove_id = ''bake_remove_rpc''"
| "rpc_name bake_migrate_region_id = ''bake_migrate_region_rpc''"
| "rpc_name bake_migrate_target_id = ''bake_migrate_target_rpc''"

definition client_rpcs :: "client_rpc list" where
  "client_rpcs =
    [bake_probe_id, bake_create_id, bake_write_id, bake_eager_write_id, bake_eager_read_id, bake_persist_id,
     bake_create_write_persist_id, bake_eager_create_write_persist_id, bake_get_size_id, bake_get_data_id,
     bake_read_id, bake_noop_id, bake_remove_id, bake_migrate_region_id, bake_migrate_target_id]"

record bake_client =
  cl_id :: "client_rpc \<Rightarrow> hg_id"
  cl_num_provider_handles :: u64

record bake_provider_handle =
  ph_client :: nat
  ph_addr :: hg_addr
  ph_provider_id :: u16
  ph_refcount :: u64
  ph_eager_limit :: u64

text \<open>The heap of the client process; the address 0 is NULL and \<open>hp_brk\<close> is the next free address.\<close>

record client_heap =
  hp_clients :: "nat \<Rightarrow> bake_client option"
  hp_handles :: "nat \<Rightarrow> bake_provider_handle option"
  hp_brk :: nat

definition BAKE_CLIENT_NULL :: nat where "BAKE_CLIENT_NULL = 0"
definition BAKE_PROVIDER_HANDLE_NULL :: nat where "BAKE_PROVIDER_HANDLE_NULL = 0"

text \<open>
  The surroundings of the client: the libraries, whether \<open>calloc\<close> succeeds, and what the fields of
  uninitialised structs hold.
\<close>

record 'v client_site =
  cs_env :: "'v env"
  cs_margo :: "'v margo"
  cs_calloc :: bool
  cs_junk_ret :: int
  cs_junk_word :: u64
  cs_junk_rid :: bake_region_id

section \<open>Clients\<close>

definition bake_client_register :: "'v margo \<Rightarrow> bake_client \<Rightarrow> 'v \<Rightarrow> (int \<times> bake_client) \<times> 'v" where
  "bake_client_register M c v =
    (case margo_registered_name M (bytes_of_string ''bake_probe_rpc'') v of
       Some _ \<Rightarrow>
         ((BAKE_SUCCESS, fold (\<lambda>r c. case margo_registered_name M (bytes_of_string (rpc_name r)) v of
              None \<Rightarrow> c | Some i \<Rightarrow> c\<lparr>cl_id := (cl_id c)(r := i)\<rparr>) client_rpcs c), v)
     | None \<Rightarrow>
         (let (c, v) = fold (\<lambda>r (c, v). let (i, v) = margo_register M (bytes_of_string (rpc_name r)) v
                                         in (c\<lparr>cl_id := (cl_id c)(r := i)\<rparr>, v)) client_rpcs (c, v)
          in ((BAKE_SUCCESS, c), v)))"

definition bake_client_init :: "'v client_site \<Rightarrow> client_heap \<times> 'v \<Rightarrow> (int \<times> nat option) \<times> client_heap \<times> 'v" where
  "bake_client_init C = (\<lambda>(hp, v).
    if \<not> cs_calloc C then ((BAKE_ERR_ALLOCATION, None), (hp, v))
    else
     (let ((ret, c), v) = bake_client_register (cs_margo C) \<lparr>cl_id = (\<lambda>_. 0), cl_num_provider_handles = 0\<rparr> v
      in if ret \<noteq> BAKE_SUCCESS then ((ret, None), (hp, v))
         else ((BAKE_SUCCESS, Some (hp_brk hp)),
               (hp\<lparr>hp_clients := (hp_clients hp)(hp_brk hp := Some c), hp_brk := hp_brk hp + 1\<rparr>, v))))"

text \<open>Handles that are still alive only cause a warning. Operations on objects that do not exist are \<open>None\<close>.\<close>

definition bake_client_finalize :: "nat \<Rightarrow> client_heap \<Rightarrow> (int \<times> client_heap) option" where
  "bake_client_finalize client hp =
    (case hp_clients hp client of
       None \<Rightarrow> None
     | Some c \<Rightarrow> Some (BAKE_SUCCESS, hp\<lparr>hp_clients := (hp_clients hp)(client := None)\<rparr>))"

definition bake_shutdown_service :: "'v client_site \<Rightarrow> hg_addr \<Rightarrow> 'v \<Rightarrow> int \<times> 'v" where
  "bake_shutdown_service C addr v = margo_shutdown_remote_instance (cs_margo C) addr v"

section \<open>Provider handles\<close>

definition bake_provider_handle_create ::
  "'v client_site \<Rightarrow> nat \<Rightarrow> hg_addr \<Rightarrow> u16 \<Rightarrow> client_heap \<times> 'v \<Rightarrow> ((int \<times> nat option) \<times> client_heap \<times> 'v) option" where
  "bake_provider_handle_create C client addr provider_id = (\<lambda>(hp, v).
    if client = BAKE_CLIENT_NULL then Some ((BAKE_ERR_INVALID_ARG, None), (hp, v))
    else if \<not> cs_calloc C then Some ((BAKE_ERR_ALLOCATION, None), (hp, v))
    else
     (case hp_clients hp client of
        None \<Rightarrow> None
      | Some c \<Rightarrow>
         (let ((ret, a), v) = addr_dup (cs_margo C) addr v
          in if ret \<noteq> HG_SUCCESS then Some ((BAKE_ERR_MERCURY, None), (hp, v))
             else
              (let provider = \<lparr>ph_client = client, ph_addr = a, ph_provider_id = provider_id, ph_refcount = 1,
                               ph_eager_limit = BAKE_DEFAULT_EAGER_LIMIT\<rparr>;
                   c = c\<lparr>cl_num_provider_handles := cl_num_provider_handles c + 1\<rparr>
               in Some ((BAKE_SUCCESS, Some (hp_brk hp)),
                   (hp\<lparr>hp_clients := (hp_clients hp)(client := Some c),
                       hp_handles := (hp_handles hp)(hp_brk hp := Some provider), hp_brk := hp_brk hp + 1\<rparr>, v))))))"

definition bake_provider_handle_get_eager_limit :: "nat \<Rightarrow> client_heap \<Rightarrow> (int \<times> u64 option) option" where
  "bake_provider_handle_get_eager_limit handle hp =
    (if handle = BAKE_PROVIDER_HANDLE_NULL then Some (BAKE_ERR_INVALID_ARG, None)
     else map_option (\<lambda>p. (BAKE_SUCCESS, Some (ph_eager_limit p))) (hp_handles hp handle))"

definition update_handle :: "nat \<Rightarrow> (bake_provider_handle \<Rightarrow> bake_provider_handle) \<Rightarrow> client_heap \<Rightarrow> (int \<times> client_heap) option" where
  "update_handle handle f hp =
    (if handle = BAKE_PROVIDER_HANDLE_NULL then Some (BAKE_ERR_INVALID_ARG, hp)
     else map_option (\<lambda>p. (BAKE_SUCCESS, hp\<lparr>hp_handles := (hp_handles hp)(handle := Some (f p))\<rparr>)) (hp_handles hp handle))"

definition bake_provider_handle_set_eager_limit :: "nat \<Rightarrow> u64 \<Rightarrow> client_heap \<Rightarrow> (int \<times> client_heap) option" where
  "bake_provider_handle_set_eager_limit handle limit = update_handle handle (\<lambda>p. p\<lparr>ph_eager_limit := limit\<rparr>)"

definition bake_provider_handle_ref_incr :: "nat \<Rightarrow> client_heap \<Rightarrow> (int \<times> client_heap) option" where
  "bake_provider_handle_ref_incr handle = update_handle handle (\<lambda>p. p\<lparr>ph_refcount := ph_refcount p + 1\<rparr>)"

text \<open>The flags say which out parameters are not NULL.\<close>

definition bake_provider_handle_get_info ::
  "'v client_site \<Rightarrow> nat \<Rightarrow> bool \<Rightarrow> bool \<Rightarrow> bool \<Rightarrow> client_heap \<times> 'v \<Rightarrow>
     ((int \<times> nat option \<times> hg_addr option \<times> u16 option) \<times> client_heap \<times> 'v) option" where
  "bake_provider_handle_get_info C handle client addr provider_id = (\<lambda>(hp, v).
    if handle = BAKE_PROVIDER_HANDLE_NULL then Some ((BAKE_ERR_INVALID_ARG, None, None, None), (hp, v))
    else
     (case hp_handles hp handle of
        None \<Rightarrow> None
      | Some p \<Rightarrow>
         (let ((hret, a), v) = (if addr then addr_dup (cs_margo C) (ph_addr p) v else ((HG_SUCCESS, HG_ADDR_NULL), v))
          in Some ((if hret \<noteq> HG_SUCCESS then BAKE_ERR_MERCURY else BAKE_SUCCESS,
                    if client then Some (ph_client p) else None,
                    if addr then Some a else None,
                    if provider_id then Some (ph_provider_id p) else None), (hp, v)))))"

definition bake_provider_handle_release ::
  "'v client_site \<Rightarrow> nat \<Rightarrow> client_heap \<times> 'v \<Rightarrow> (int \<times> client_heap \<times> 'v) option" where
  "bake_provider_handle_release C handle = (\<lambda>(hp, v).
    if handle = BAKE_PROVIDER_HANDLE_NULL then Some (BAKE_ERR_INVALID_ARG, (hp, v))
    else
     (case hp_handles hp handle of
        None \<Rightarrow> None
      | Some p \<Rightarrow>
         (let p = p\<lparr>ph_refcount := ph_refcount p - 1\<rparr>;
              hp = hp\<lparr>hp_handles := (hp_handles hp)(handle := Some p)\<rparr>
          in if ph_refcount p = 0
             then
              (case hp_clients hp (ph_client p) of
                 None \<Rightarrow> None
               | Some c \<Rightarrow>
                  Some (BAKE_SUCCESS,
                    (hp\<lparr>hp_clients := (hp_clients hp)
                          (ph_client p := Some (c\<lparr>cl_num_provider_handles := cl_num_provider_handles c - 1\<rparr>)),
                        hp_handles := (hp_handles hp)(handle := None)\<rparr>,
                     addr_free (cs_margo C) (ph_addr p) v)))
             else Some (BAKE_SUCCESS, (hp, v)))))"

end
