(* ===== verification/Client_Rpc.thy ===== *)
theory Client_Rpc
  imports Client
begin

text \<open>
  The remote operations of the client (\<^verbatim>\<open>src/bake-client.c\<close>). Each one creates a handle, forwards its
  request, decodes the response and releases what it holds. The arguments \<open>c\<close> and \<open>provider\<close> are
  the client and the provider handle.
\<close>

section \<open>One remote procedure call\<close>

datatype 'o rpc_stage = Create_failed | Forward_failed | Output_failed | Answered 'o

text \<open>
  \<open>con\<close> and \<open>sel\<close> relate the struct for the output to the type of all outputs, \<open>blank\<close> is what the
  struct holds before; the request is serialised when it is forwarded, so it may depend on the
  memory at that time.
\<close>

definition rpc_call ::
  "'v margo \<Rightarrow> hg_id \<Rightarrow> bake_provider_handle \<Rightarrow> ('v \<Rightarrow> rpc_in) \<Rightarrow> ('o \<Rightarrow> rpc_out) \<Rightarrow> (rpc_out \<Rightarrow> 'o option) \<Rightarrow> 'o \<Rightarrow> 'v \<Rightarrow>
     ('o rpc_stage \<times> hg_handle) \<times> 'v" where
  "rpc_call M rpc provider inp con sel blank v =
    (let ((hret, h), v) = margo_create M rpc (ph_addr provider) v
     in if hret \<noteq> HG_SUCCESS then ((Create_failed, h), v)
        else
         (let (hret, v) = margo_provider_forward M (ph_provider_id provider) h (inp v) v
          in if hret \<noteq> HG_SUCCESS then ((Forward_failed, h), v)
             else
              (let ((hret, out), v) = margo_get_output M h (con blank) v
               in if hret \<noteq> HG_SUCCESS then ((Output_failed, h), v)
                  else (case sel out of None \<Rightarrow> ((Output_failed, h), v) | Some out \<Rightarrow> ((Answered out, h), v)))))"

text \<open>The code at the label \<open>finish\<close>.\<close>

definition rpc_finish :: "'v margo \<Rightarrow> hg_handle \<Rightarrow> 'v \<Rightarrow> 'v" where
  "rpc_finish M h v = margo_destroy M h (margo_free_output M h v)"

text \<open>A call whose failures all lead to \<open>finish\<close>: the answer if there is one.\<close>

definition rpc_roundtrip ::
  "'v margo \<Rightarrow> hg_id \<Rightarrow> bake_provider_handle \<Rightarrow> ('v \<Rightarrow> rpc_in) \<Rightarrow> ('o \<Rightarrow> rpc_out) \<Rightarrow> (rpc_out \<Rightarrow> 'o option) \<Rightarrow> 'o \<Rightarrow> 'v \<Rightarrow>
     'o option \<times> 'v" where
  "rpc_roundtrip M rpc provider inp con sel blank v =
    (let ((r, h), v) = rpc_call M rpc provider inp con sel blank v
     in (case r of Answered out \<Rightarrow> Some out | _ \<Rightarrow> None, rpc_finish M h v))"

text \<open>The same with a bulk handle for local memory, which is created first and freed in \<open>finish\<close>.\<close>

definition bulk_roundtrip ::
  "'v client_site \<Rightarrow> hg_id \<Rightarrow> bake_provider_handle \<Rightarrow> u64 \<Rightarrow> u64 \<Rightarrow> (hg_bulk \<Rightarrow> rpc_in) \<Rightarrow> ('o \<Rightarrow> rpc_out) \<Rightarrow>
     (rpc_out \<Rightarrow> 'o option) \<Rightarrow> 'o \<Rightarrow> 'v \<Rightarrow> 'o option \<times> 'v" where
  "bulk_roundtrip C rpc provider buf buf_size inp con sel blank v =
    (let M = cs_margo C;
         finish = (\<lambda>bulk h v. margo_destroy M h (bulk_free (cs_env C) bulk (margo_free_output M h v)));
         ((hret, bulk), v) = bulk_create (cs_env C) buf buf_size v
     in if hret \<noteq> HG_SUCCESS then (None, finish bulk HG_HANDLE_NULL v)
        else
         (let ((r, h), v) = rpc_call M rpc provider (\<lambda>_. inp bulk) con sel blank v
          in (case r of Answered out \<Rightarrow> Some out | _ \<Rightarrow> None, finish bulk h v)))"

text \<open>What the functions return: the code of the answer, or \<open>BAKE_ERR_MERCURY\<close>.\<close>

definition answer_code :: "('o \<Rightarrow> int) \<Rightarrow> 'o option \<Rightarrow> int" where
  "answer_code ret r = (case r of None \<Rightarrow> BAKE_ERR_MERCURY | Some out \<Rightarrow> ret out)"

definition answer_rid :: "bake_rid_out option \<Rightarrow> int \<times> bake_region_id option" where
  "answer_rid r = (case r of
     None \<Rightarrow> (BAKE_ERR_MERCURY, None)
   | Some out \<Rightarrow> (ro_ret out, if ro_ret out = BAKE_SUCCESS then Some (ro_rid out) else None))"

section \<open>Output structs\<close>

fun sel_create where "sel_create (Out_create x) = Some x" | "sel_create _ = None"
fun sel_write where "sel_write (Out_write x) = Some x" | "sel_write _ = None"
fun sel_eager_write where "sel_eager_write (Out_eager_write x) = Some x" | "sel_eager_write _ = None"
fun sel_persist where "sel_persist (Out_persist x) = Some x" | "sel_persist _ = None"
fun sel_cwp where "sel_cwp (Out_create_write_persist x) = Some x" | "sel_cwp _ = None"
fun sel_eager_cwp where "sel_eager_cwp (Out_eager_create_write_persist x) = Some x" | "sel_eager_cwp _ = None"
fun sel_get_size where "sel_get_size (Out_get_size x) = Some x" | "sel_get_size _ = None"
fun sel_get_data where "sel_get_data (Out_get_data x) = Some x" | "sel_get_data _ = None"
fun sel_read where "sel_read (Out_read x) = Some x" | "sel_read _ = None"
fun sel_eager_read where "sel_eager_read (Out_eager_read x) = Some x" | "sel_eager_read _ = None"
fun sel_probe where "sel_probe (Out_probe x) = Some x" | "sel_probe _ = None"
fun sel_remove where "sel_remove (Out_remove x) = Some x" | "sel_remove _ = None"
fun sel_migrate_region where "sel_migrate_region (Out_migrate_region x) = Some x" | "sel_migrate_region _ = None"
fun sel_migrate_target where "sel_migrate_target (Out_migrate_target x) = Some x" | "sel_migrate_target _ = None"

definition junk_ret :: "'v client_site \<Rightarrow> bake_ret_out" where "junk_ret C = \<lparr>out_ret = cs_junk_ret C\<rparr>"

definition junk_rid :: "'v client_site \<Rightarrow> bake_rid_out" where
  "junk_rid C = \<lparr>ro_ret = cs_junk_ret C, ro_rid = cs_junk_rid C\<rparr>"

definition junk_word :: "'v client_site \<Rightarrow> bake_word_out" where
  "junk_word C = \<lparr>wo_ret = cs_junk_ret C, wo_word = cs_junk_word C\<rparr>"

definition junk_read :: "'v client_site \<Rightarrow> bake_read_out" where
  "junk_read C = \<lparr>rdo_size = cs_junk_word C, rdo_ret = cs_junk_ret C\<rparr>"

section \<open>Probing\<close>

text \<open>Result: return code, the number of targets and the ids stored into \<open>bti\<close>.\<close>

definition bake_probe ::
  "'v client_site \<Rightarrow> bake_client \<Rightarrow> bake_provider_handle \<Rightarrow> u64 \<Rightarrow> bool \<Rightarrow> 'v \<Rightarrow>
     (int \<times> u64 option \<times> bake_target_id list) \<times> 'v" where
  "bake_probe C c provider max_targets bti_null v =
    (let M = cs_margo C;
         max_targets = (if bti_null then 0 else max_targets);
         ((r, h), v) = rpc_call M (cl_id c bake_probe_id) provider (\<lambda>_. In_probe \<lparr>pri_max_targets = max_targets\<rparr>)
            Out_probe sel_probe \<lparr>po_ret = cs_junk_ret C, po_num_targets = cs_junk_word C, po_targets = []\<rparr> v
     in case r of
          Create_failed \<Rightarrow> ((BAKE_ERR_MERCURY, None, []), v)
        | Forward_failed \<Rightarrow> ((BAKE_ERR_MERCURY, None, []), margo_destroy M h v)
        | Output_failed \<Rightarrow> ((BAKE_ERR_MERCURY, None, []), margo_destroy M h v)
        | Answered out \<Rightarrow>
           (let res =
              (if po_ret out = HG_SUCCESS then
                 if max_targets = 0 then (Some (po_num_targets out), [])
                 else (let s = (if max_targets < po_num_targets out then max_targets else po_num_targets out)
                       in (Some s, if 0 < s then take (unat s) (po_targets out) else []))
               else (None, []))
            in ((po_ret out, res), rpc_finish M h v)))"

section \<open>Creation and writes\<close>

definition bake_eager_write ::
  "'v client_site \<Rightarrow> bake_client \<Rightarrow> bake_provider_handle \<Rightarrow> bake_target_id \<Rightarrow> bake_region_id \<Rightarrow> u64 \<Rightarrow> u64 \<Rightarrow> u64 \<Rightarrow> 'v \<Rightarrow>
     int \<times> 'v" where
  "bake_eager_write C c provider tid rid region_offset buf buf_size v =
    (let M = cs_margo C;
         ((r, h), v) = rpc_call M (cl_id c bake_eager_write_id) provider
            (\<lambda>v. In_eager_write \<lparr>ewi_bti = tid, ewi_rid = rid, ewi_region_offset = region_offset, ewi_size = buf_size,
                                 ewi_buffer = client_load M buf (unat buf_size) v\<rparr>)
            Out_eager_write sel_eager_write (junk_ret C) v
     in case r of
          Answered out \<Rightarrow> (out_ret out, rpc_finish M h v)
        | Output_failed \<Rightarrow> (BAKE_ERR_MERCURY, margo_destroy M h v)
        | _ \<Rightarrow> (BAKE_ERR_MERCURY, rpc_finish M h v))"

definition bake_write ::
  "'v client_site \<Rightarrow> bake_client \<Rightarrow> bake_provider_handle \<Rightarrow> bake_target_id \<Rightarrow> bake_region_id \<Rightarrow> u64 \<Rightarrow> u64 \<Rightarrow> u64 \<Rightarrow> 'v \<Rightarrow>
     int \<times> 'v" where
  "bake_write C c provider tid rid region_offset buf buf_size v =
    (if buf_size \<le> ph_eager_limit provider then bake_eager_write C c provider tid rid region_offset buf buf_size v
     else
      (let (r, v) = bulk_roundtrip C (cl_id c bake_write_id) provider buf buf_size
            (\<lambda>bulk. In_write \<lparr>bi_bti = tid, bi_rid = rid, bi_region_offset = region_offset, bi_bulk_handle = bulk,
                              bi_bulk_offset = 0, bi_bulk_size = buf_size, bi_remote_addr_str = None\<rparr>)
            Out_write sel_write (junk_ret C) v
       in (answer_code out_ret r, v)))"

definition bake_proxy_write ::
  "'v client_site \<Rightarrow> bake_client \<Rightarrow> bake_provider_handle \<Rightarrow> bake_target_id \<Rightarrow> bake_region_id \<Rightarrow> u64 \<Rightarrow> hg_bulk \<Rightarrow> u64 \<Rightarrow>
     cstring option \<Rightarrow> u64 \<Rightarrow> 'v \<Rightarrow> int \<times> 'v" where
  "bake_proxy_write C c provider tid rid region_offset remote_bulk remote_offset remote_addr sz v =
    (let (r, v) = rpc_roundtrip (cs_margo C) (cl_id c bake_write_id) provider
          (\<lambda>_. In_write \<lparr>bi_bti = tid, bi_rid = rid, bi_region_offset = region_offset, bi_bulk_handle = remote_bulk,
                         bi_bulk_offset = remote_offset, bi_bulk_size = sz, bi_remote_addr_str = remote_addr\<rparr>)
          Out_write sel_write (junk_ret C) v
     in (answer_code out_ret r, v))"

definition bake_create ::
  "'v client_site \<Rightarrow> bake_client \<Rightarrow> bake_provider_handle \<Rightarrow> bake_target_id \<Rightarrow> u64 \<Rightarrow> 'v \<Rightarrow>
     (int \<times> bake_region_id option) \<times> 'v" where
  "bake_create C c provider bti rsize v =
    (let (r, v) = rpc_roundtrip (cs_margo C) (cl_id c bake_create_id) provider
          (\<lambda>_. In_create \<lparr>cri_bti = bti, cri_region_size = rsize\<rparr>) Out_create sel_create (junk_rid C) v
     in (answer_rid r, v))"

definition bake_persist ::
  "'v client_site \<Rightarrow> bake_client \<Rightarrow> bake_provider_handle \<Rightarrow> bake_target_id \<Rightarrow> bake_region_id \<Rightarrow> u64 \<Rightarrow> u64 \<Rightarrow> 'v \<Rightarrow>
     int \<times> 'v" where
  "bake_persist C c provider tid rid offs sz v =
    (let (r, v) = rpc_roundtrip (cs_margo C) (cl_id c bake_persist_id) provider
          (\<lambda>_. In_persist \<lparr>xi_bti = tid, xi_rid = rid, xi_offset = offs, xi_size = sz\<rparr>)
          Out_persist sel_persist (junk_ret C) v
     in (answer_code out_ret r, v))"

definition bake_eager_create_write_persist ::
  "'v client_site \<Rightarrow> bake_client \<Rightarrow> bake_provider_handle \<Rightarrow> bake_target_id \<Rightarrow> u64 \<Rightarrow> u64 \<Rightarrow> 'v \<Rightarrow>
     (int \<times> bake_region_id option) \<times> 'v" where
  "bake_eager_create_write_persist C c provider bti buf buf_size v =
    (let M = cs_margo C;
         (r, v) = rpc_roundtrip M (cl_id c bake_eager_create_write_persist_id) provider
          (\<lambda>v. In_eager_create_write_persist
             \<lparr>ecwi_bti = bti, ecwi_size = buf_size, ecwi_buffer = client_load M buf (unat buf_size) v\<rparr>)
          Out_eager_create_write_persist sel_eager_cwp (junk_rid C) v
     in (answer_rid r, v))"

definition bake_create_write_persist ::
  "'v client_site \<Rightarrow> bake_client \<Rightarrow> bake_provider_handle \<Rightarrow> bake_target_id \<Rightarrow> u64 \<Rightarrow> u64 \<Rightarrow> 'v \<Rightarrow>
     (int \<times> bake_region_id option) \<times> 'v" where
  "bake_create_write_persist C c provider bti buf buf_size v =
    (if buf_size \<le> ph_eager_limit provider then bake_eager_create_write_persist C c provider bti buf buf_size v
     else
      (let (r, v) = bulk_roundtrip C (cl_id c bake_create_write_persist_id) provider buf buf_size
            (\<lambda>bulk. In_create_write_persist \<lparr>cwi_bti = bti, cwi_region_size = buf_size, cwi_bulk_handle = bulk,
                              cwi_bulk_offset = 0, cwi_bulk_size = buf_size, cwi_remote_addr_str = None\<rparr>)
            Out_create_write_persist sel_cwp (junk_rid C) v
       in (answer_rid r, v)))"

text \<open>The proxy variant does not set \<open>region_size\<close>.\<close>

definition bake_create_write_persist_proxy ::
  "'v client_site \<Rightarrow> bake_client \<Rightarrow> bake_provider_handle \<Rightarrow> bake_target_id \<Rightarrow> hg_bulk \<Rightarrow> u64 \<Rightarrow> cstring option \<Rightarrow> u64 \<Rightarrow> 'v \<Rightarrow>
     (int \<times> bake_region_id option) \<times> 'v" where
  "bake_create_write_persist_proxy C c provider bti remote_bulk remote_offset remote_addr sz v =
    (let (r, v) = rpc_roundtrip (cs_margo C) (cl_id c bake_create_write_persist_id) provider
          (\<lambda>_. In_create_write_persist \<lparr>cwi_bti = bti, cwi_region_size = cs_junk_word C, cwi_bulk_handle = remote_bulk,
                         cwi_bulk_offset = remote_offset, cwi_bulk_size = sz, cwi_remote_addr_str = remote_addr\<rparr>)
          Out_create_write_persist sel_cwp (junk_rid C) v
     in (answer_rid r, v))"

section \<open>Queries\<close>

text \<open>The out parameter is assigned even if the answer is an error.\<close>

definition bake_get_size ::
  "'v client_site \<Rightarrow> bake_client \<Rightarrow> bake_provider_handle \<Rightarrow> bake_target_id \<Rightarrow> bake_region_id \<Rightarrow> 'v \<Rightarrow> (int \<times> u64 option) \<times> 'v" where
  "bake_get_size C c provider bti rid v =
    (let (r, v) = rpc_roundtrip (cs_margo C) (cl_id c bake_get_size_id) provider
          (\<lambda>_. In_get_size \<lparr>ri_bti = bti, ri_rid = rid\<rparr>) Out_get_size sel_get_size (junk_word C) v
     in ((answer_code wo_ret r, map_option wo_word r), v))"

text \<open>
  The address of a region only makes sense in the process of the provider: the text forms of the
  two addresses are compared first. The second conversion gets the size that the first one returned.
\<close>

definition same_address :: "'v margo \<Rightarrow> bake_provider_handle \<Rightarrow> 'v \<Rightarrow> bool \<times> 'v" where
  "same_address M provider v =
    (let ((hret, self_addr), v) = addr_self M v
     in if hret \<noteq> HG_SUCCESS then (False, v)
        else
         (let (h1, self_addr_str, addr_size) = addr_to_string M self_addr 1024 v;
              (h2, trgt_addr_str, _) = addr_to_string M (ph_addr provider) addr_size v
          in (h1 = HG_SUCCESS \<and> h2 = HG_SUCCESS \<and> self_addr_str = trgt_addr_str, addr_free M self_addr v)))"

definition bake_get_data ::
  "'v client_site \<Rightarrow> bake_client \<Rightarrow> bake_provider_handle \<Rightarrow> bake_target_id \<Rightarrow> bake_region_id \<Rightarrow> 'v \<Rightarrow> (int \<times> u64 option) \<times> 'v" where
  "bake_get_data C c provider bti rid v =
    (let M = cs_margo C; (same, v) = same_address M provider v
     in if \<not> same then ((BAKE_ERR_MERCURY, None), rpc_finish M HG_HANDLE_NULL v)
        else
         (let (r, v) = rpc_roundtrip M (cl_id c bake_get_data_id) provider
               (\<lambda>_. In_get_data \<lparr>ri_bti = bti, ri_rid = rid\<rparr>) Out_get_data sel_get_data (junk_word C) v
          in ((answer_code wo_ret r, map_option wo_word r), v)))"

definition bake_noop :: "'v client_site \<Rightarrow> bake_client \<Rightarrow> bake_provider_handle \<Rightarrow> 'v \<Rightarrow> int \<times> 'v" where
  "bake_noop C c provider v =
    (let M = cs_margo C; ((hret, h), v) = margo_create M (cl_id c bake_noop_id) (ph_addr provider) v
     in if hret \<noteq> HG_SUCCESS then (BAKE_ERR_MERCURY, v)
        else
         (let (hret, v) = margo_provider_forward M (ph_provider_id provider) h In_noop v
          in (if hret \<noteq> HG_SUCCESS then BAKE_ERR_MERCURY else BAKE_SUCCESS, margo_destroy M h v)))"

section \<open>Reads\<close>

definition bake_eager_read ::
  "'v client_site \<Rightarrow> bake_client \<Rightarrow> bake_provider_handle \<Rightarrow> bake_target_id \<Rightarrow> bake_region_id \<Rightarrow> u64 \<Rightarrow> u64 \<Rightarrow> u64 \<Rightarrow> 'v \<Rightarrow>
     (int \<times> u64 option) \<times> 'v" where
  "bake_eager_read C c provider bti rid region_offset buf buf_size v =
    (let M = cs_margo C;
         ((r, h), v) = rpc_call M (cl_id c bake_eager_read_id) provider
            (\<lambda>_. In_eager_read \<lparr>xi_bti = bti, xi_rid = rid, xi_offset = region_offset, xi_size = buf_size\<rparr>)
            Out_eager_read sel_eager_read \<lparr>ero_ret = cs_junk_ret C, ero_size = 0, ero_buffer = []\<rparr> v
     in case r of
          Answered out \<Rightarrow>
           (let v = (if ero_ret out = 0 then client_store M buf (take (unat (ero_size out)) (ero_buffer out)) v else v)
            in ((ero_ret out, Some (ero_size out)), rpc_finish M h v))
        | _ \<Rightarrow> ((BAKE_ERR_MERCURY, None), rpc_finish M h v))"

definition bake_read ::
  "'v client_site \<Rightarrow> bake_client \<Rightarrow> bake_provider_handle \<Rightarrow> bake_target_id \<Rightarrow> bake_region_id \<Rightarrow> u64 \<Rightarrow> u64 \<Rightarrow> u64 \<Rightarrow> 'v \<Rightarrow>
     (int \<times> u64 option) \<times> 'v" where
  "bake_read C c provider bti rid region_offset buf buf_size v =
    (if buf_size \<le> ph_eager_limit provider then bake_eager_read C c provider bti rid region_offset buf buf_size v
     else
      (let (r, v) = bulk_roundtrip C (cl_id c bake_read_id) provider buf buf_size
            (\<lambda>bulk. In_read \<lparr>bi_bti = bti, bi_rid = rid, bi_region_offset = region_offset, bi_bulk_handle = bulk,
                             bi_bulk_offset = 0, bi_bulk_size = buf_size, bi_remote_addr_str = None\<rparr>)
            Out_read sel_read (junk_read C) v
       in ((answer_code rdo_ret r, map_option rdo_size r), v)))"

definition bake_proxy_read ::
  "'v client_site \<Rightarrow> bake_client \<Rightarrow> bake_provider_handle \<Rightarrow> bake_target_id \<Rightarrow> bake_region_id \<Rightarrow> u64 \<Rightarrow> hg_bulk \<Rightarrow> u64 \<Rightarrow>
     cstring option \<Rightarrow> u64 \<Rightarrow> 'v \<Rightarrow> (int \<times> u64 option) \<times> 'v" where
  "bake_proxy_read C c provider tid rid region_offset remote_bulk remote_offset remote_addr sz v =
    (let (r, v) = rpc_roundtrip (cs_margo C) (cl_id c bake_read_id) provider
          (\<lambda>_. In_read \<lparr>bi_bti = tid, bi_rid = rid, bi_region_offset = region_offset, bi_bulk_handle = remote_bulk,
                        bi_bulk_offset = remote_offset, bi_bulk_size = sz, bi_remote_addr_str = remote_addr\<rparr>)
          Out_read sel_read (junk_read C) v
     in ((answer_code rdo_ret r, map_option rdo_size r), v))"

section \<open>Removal and migration\<close>

definition bake_remove ::
  "'v client_site \<Rightarrow> bake_client \<Rightarrow> bake_provider_handle \<Rightarrow> bake_target_id \<Rightarrow> bake_region_id \<Rightarrow> 'v \<Rightarrow> int \<times> 'v" where
  "bake_remove C c provider tid rid v =
    (let (r, v) = rpc_roundtrip (cs_margo C) (cl_id c bake_remove_id) provider
          (\<lambda>_. In_remove \<lparr>ri_bti = tid, ri_rid = rid\<rparr>) Out_remove sel_remove (junk_ret C) v
     in (answer_code out_ret r, v))"

definition bake_migrate_region ::
  "'v client_site \<Rightarrow> bake_client \<Rightarrow> bake_provider_handle \<Rightarrow> bake_target_id \<Rightarrow> bake_region_id \<Rightarrow> u64 \<Rightarrow> int \<Rightarrow>
     cstring option \<Rightarrow> u16 \<Rightarrow> bake_target_id \<Rightarrow> 'v \<Rightarrow> (int \<times> bake_region_id option) \<times> 'v" where
  "bake_migrate_region C c source bti source_rid rsize remove_source dest_addr dest_provider_id dest_target_id v =
    (let (r, v) = rpc_roundtrip (cs_margo C) (cl_id c bake_migrate_region_id) source
          (\<lambda>_. In_migrate_region \<lparr>mri_bti = bti, mri_source_rid = source_rid, mri_region_size = rsize,
                 mri_remove_src = remove_source, mri_dest_addr = dest_addr, mri_dest_provider_id = dest_provider_id,
                 mri_dest_target_id = dest_target_id\<rparr>)
          Out_migrate_region sel_migrate_region (junk_rid C) v
     in (answer_rid r, v))"

definition bake_migrate_target ::
  "'v client_site \<Rightarrow> bake_client \<Rightarrow> bake_provider_handle \<Rightarrow> bake_target_id \<Rightarrow> int \<Rightarrow> cstring option \<Rightarrow> u16 \<Rightarrow>
     cstring option \<Rightarrow> 'v \<Rightarrow> int \<times> 'v" where
  "bake_migrate_target C c source src_target_id remove_source dest_addr dest_provider_id dest_root v =
    (let (r, v) = rpc_roundtrip (cs_margo C) (cl_id c bake_migrate_target_id) source
          (\<lambda>_. In_migrate_target \<lparr>mti_bti = src_target_id, mti_remove_src = remove_source, mti_dest_remi_addr = dest_addr,
                 mti_dest_remi_provider_id = dest_provider_id, mti_dest_root = dest_root\<rparr>)
          Out_migrate_target sel_migrate_target (junk_ret C) v
     in (answer_code out_ret r, v))"

end
