(* ===== verification/Rpc_Props.thy ===== *)
theory Rpc_Props
  imports Bake_Rpc
begin

text \<open>
  Round trips of the RPC messages. \<open>stream_codec\<close> is the contract of an encoder and a decoder
  whose output may be followed by other data; every struct of \<open>Bake_Rpc\<close> is an instance, given
  that Mercury's procs of single fields are, and so are all requests and all responses together.
\<close>

section \<open>The contract\<close>

locale stream_codec =
  fixes enc :: "'a \<Rightarrow> byte list" and dec :: "'a proc" and valid :: "'a \<Rightarrow> 'a \<Rightarrow> bool"
  assumes dec_enc: "valid old x \<Longrightarrow> dec old (enc x @ rest) = (HG_SUCCESS, x, rest)"
begin

lemma dec_enc_whole: "valid old x \<Longrightarrow> dec old (enc x) = (HG_SUCCESS, x, [])"
  using dec_enc [of old x "[]"] by simp

lemma enc_prefix_free:
  assumes "valid old x" and "valid old y" and "enc x @ r = enc y @ s"
  shows "x = y \<and> r = s"
proof -
  have "(HG_SUCCESS, x, r) = (HG_SUCCESS, y, s)"
    using dec_enc [OF assms(1), of r] unfolding assms(3) dec_enc [OF assms(2)] by (rule sym)
  then show ?thesis by simp
qed

text \<open>A field of a struct whose codec is this one.\<close>

lemma on_field_enc:
  "valid (get m) x \<Longrightarrow> on_field dec get upd m (enc x @ rest) = (HG_SUCCESS, upd (\<lambda>_. x) m, rest)"
  by (simp add: on_field_def dec_enc)

end

section \<open>Mercury's procs\<close>

text \<open>The documented behaviour of the procs of single fields: they are inverse to each other.\<close>

definition proc_ok :: "hg_proc \<Rightarrow> bool" where
  "proc_ok H \<longleftrightarrow>
    (\<forall>old x rest. dec_uint8 H old (enc_uint8 H x @ rest) = (HG_SUCCESS, x, rest)) \<and>
    (\<forall>old x rest. dec_uint16 H old (enc_uint16 H x @ rest) = (HG_SUCCESS, x, rest)) \<and>
    (\<forall>old x rest. dec_uint32 H old (enc_uint32 H x @ rest) = (HG_SUCCESS, x, rest)) \<and>
    (\<forall>old x rest. dec_uint64 H old (enc_uint64 H x @ rest) = (HG_SUCCESS, x, rest)) \<and>
    (\<forall>old x rest. - (2 ^ 31) \<le> x \<and> x < 2 ^ 31 \<longrightarrow>
       dec_int32 H old (enc_int32 H x @ rest) = (HG_SUCCESS, x, rest)) \<and>
    (\<forall>old x rest. dec_bulk H old (enc_bulk H x @ rest) = (HG_SUCCESS, x, rest)) \<and>
    (\<forall>old x rest. dec_string H old (enc_string H x @ rest) = (HG_SUCCESS, x, rest)) \<and>
    (\<forall>old x rest. dec_memcpy H (length x) old (x @ rest) = (HG_SUCCESS, x, rest)) \<and>
    (\<forall>x rest. dec_save_ptr H (length x) (x @ rest) = (x, rest))"

abbreviation int32 :: "int \<Rightarrow> bool" where "int32 x \<equiv> - (2 ^ 31) \<le> x \<and> x < 2 ^ 31"

lemma proc_okD:
  assumes "proc_ok H"
  shows "dec_uint8 H o1 (enc_uint8 H x1 @ rest) = (HG_SUCCESS, x1, rest)"
    and "dec_uint16 H o2 (enc_uint16 H x2 @ rest) = (HG_SUCCESS, x2, rest)"
    and "dec_uint32 H o3 (enc_uint32 H x3 @ rest) = (HG_SUCCESS, x3, rest)"
    and "dec_uint64 H o4 (enc_uint64 H x4 @ rest) = (HG_SUCCESS, x4, rest)"
    and "int32 x5 \<Longrightarrow> dec_int32 H o5 (enc_int32 H x5 @ rest) = (HG_SUCCESS, x5, rest)"
    and "dec_bulk H o6 (enc_bulk H x6 @ rest) = (HG_SUCCESS, x6, rest)"
    and "dec_string H o7 (enc_string H x7 @ rest) = (HG_SUCCESS, x7, rest)"
    and "length x8 = n \<Longrightarrow> dec_memcpy H n o8 (x8 @ rest) = (HG_SUCCESS, x8, rest)"
    and "length x8 = n \<Longrightarrow> dec_save_ptr H n (x8 @ rest) = (x8, rest)"
  using assms by (auto simp: proc_ok_def)

interpretation pu16: stream_codec "enc_uint16 H" "dec_uint16 H" "\<lambda>old x. proc_ok H" for H
  by unfold_locales (simp add: proc_okD)

interpretation pu32: stream_codec "enc_uint32 H" "dec_uint32 H" "\<lambda>old x. proc_ok H" for H
  by unfold_locales (simp add: proc_okD)

interpretation pu64: stream_codec "enc_uint64 H" "dec_uint64 H" "\<lambda>old x. proc_ok H" for H
  by unfold_locales (simp add: proc_okD)

interpretation pi32: stream_codec "enc_int32 H" "dec_int32 H" "\<lambda>old x. proc_ok H \<and> int32 x" for H
  by unfold_locales (simp add: proc_okD)

interpretation pblk: stream_codec "enc_bulk H" "dec_bulk H" "\<lambda>old x. proc_ok H" for H
  by unfold_locales (simp add: proc_okD)

interpretation pstr: stream_codec "enc_string H" "dec_string H" "\<lambda>old x. proc_ok H" for H
  by unfold_locales (simp add: proc_okD)

section \<open>Identifiers\<close>

lemma proc_bytes_enc:
  assumes "proc_ok H" and "length pre = i" and "length old = length xs"
  shows "proc_bytes (dec_uint8 H) i (length xs) (pre @ old) (concat (map (enc_uint8 H) xs) @ rest)
    = (HG_SUCCESS, pre @ xs, rest)"
  using assms(2,3)
proof (induction xs arbitrary: i pre old)
  case (Cons x xs)
  then obtain a as where old: "old = a # as" "length as = length xs" by (cases old) auto
  have "(pre @ old)[i := x] = (pre @ [x]) @ as" using Cons.prems(1) old(1) by (simp add: list_update_append)
  moreover have "proc_bytes (dec_uint8 H) (Suc i) (length xs) ((pre @ [x]) @ as)
      (concat (map (enc_uint8 H) xs) @ rest) = (HG_SUCCESS, (pre @ [x]) @ xs, rest)"
    by (rule Cons.IH) (simp_all add: Cons.prems(1) old(2))
  ultimately show ?case by (simp add: proc_okD(1) [OF assms(1)] HG_SUCCESS_def)
qed simp

interpretation prid: stream_codec "enc_bake_region_id H" "dec_bake_region_id H"
  "\<lambda>old x. proc_ok H \<and> wf_rid old \<and> wf_rid x" for H
proof
  fix old x :: bake_region_id and rest
  assume v: "proc_ok H \<and> wf_rid old \<and> wf_rid x"
  then have "proc_bytes (dec_uint8 H) 0 16 ([] @ rid_data old) (concat (map (enc_uint8 H) (rid_data x)) @ rest)
      = (HG_SUCCESS, [] @ rid_data x, rest)"
    using proc_bytes_enc [of H "[]" 0 "rid_data old" "rid_data x" rest]
    by (simp add: wf_rid_def BAKE_REGION_ID_DATA_SIZE_def)
  with v show "dec_bake_region_id H old (enc_bake_region_id H x @ rest) = (HG_SUCCESS, x, rest)"
    by (simp add: dec_bake_region_id_def enc_bake_region_id_def on_field_def proc_okD(3) BAKE_REGION_ID_DATA_SIZE_def)
qed

interpretation ptid: stream_codec "enc_bake_target_id H" "dec_bake_target_id H"
  "\<lambda>old x. proc_ok H \<and> length x = 16" for H
  by unfold_locales (simp add: dec_bake_target_id_def enc_bake_target_id_def proc_okD)

lemmas fields = pu16.on_field_enc pu32.on_field_enc pu64.on_field_enc pi32.on_field_enc pblk.on_field_enc
  pstr.on_field_enc prid.on_field_enc ptid.on_field_enc

section \<open>Structs\<close>

text \<open>
  What the decoder needs of a message and of the struct it fills: ids have their fixed sizes,
  return codes fit in 32 bits, a buffer has the announced length. The decoder leaves the buffer
  pointer alone when the size is zero, so the old pointer must then be NULL.
\<close>

abbreviation tid_ok :: "bake_target_id \<Rightarrow> bool" where "tid_ok t \<equiv> length t = 16"

interpretation pcreate: stream_codec "enc_create_in H" "dec_create_in H"
  "\<lambda>old x. proc_ok H \<and> tid_ok (cri_bti x)" for H
  by unfold_locales (simp add: enc_create_in_def dec_create_in_def fields HG_SUCCESS_def)

interpretation pridout: stream_codec "enc_rid_out H" "dec_rid_out H"
  "\<lambda>old x. proc_ok H \<and> int32 (ro_ret x) \<and> wf_rid (ro_rid old) \<and> wf_rid (ro_rid x)" for H
  by unfold_locales (simp add: enc_rid_out_def dec_rid_out_def fields HG_SUCCESS_def)

interpretation pbulkin: stream_codec "enc_bulk_in H" "dec_bulk_in H"
  "\<lambda>old x. proc_ok H \<and> tid_ok (bi_bti x) \<and> wf_rid (bi_rid old) \<and> wf_rid (bi_rid x)" for H
  by unfold_locales (simp add: enc_bulk_in_def dec_bulk_in_def fields HG_SUCCESS_def)

interpretation pretout: stream_codec "enc_ret_out H" "dec_ret_out H"
  "\<lambda>old x. proc_ok H \<and> int32 (out_ret x)" for H
  by unfold_locales (simp add: enc_ret_out_def dec_ret_out_def fields HG_SUCCESS_def)

interpretation peagerw: stream_codec "enc_eager_write_in H" "dec_eager_write_in H"
  "\<lambda>old x. proc_ok H \<and> tid_ok (ewi_bti x) \<and> wf_rid (ewi_rid old) \<and> wf_rid (ewi_rid x) \<and>
     length (ewi_buffer x) = unat (ewi_size x) \<and> ewi_buffer old = []" for H
  by unfold_locales (auto simp: enc_eager_write_in_def dec_eager_write_in_def fields HG_SUCCESS_def
      dec_buffer_def enc_buffer_def proc_okD)

interpretation pextent: stream_codec "enc_extent_in H" "dec_extent_in H"
  "\<lambda>old x. proc_ok H \<and> tid_ok (xi_bti x) \<and> wf_rid (xi_rid old) \<and> wf_rid (xi_rid x)" for H
  by unfold_locales (simp add: enc_extent_in_def dec_extent_in_def fields HG_SUCCESS_def)

interpretation pcwp: stream_codec "enc_create_write_persist_in H" "dec_create_write_persist_in H"
  "\<lambda>old x. proc_ok H \<and> tid_ok (cwi_bti x)" for H
  by unfold_locales
    (simp add: enc_create_write_persist_in_def dec_create_write_persist_in_def fields HG_SUCCESS_def)

interpretation pecwp: stream_codec "enc_eager_create_write_persist_in H" "dec_eager_create_write_persist_in H"
  "\<lambda>old x. proc_ok H \<and> tid_ok (ecwi_bti x) \<and> length (ecwi_buffer x) = unat (ecwi_size x) \<and>
     ecwi_buffer old = []" for H
  by unfold_locales (auto simp: enc_eager_create_write_persist_in_def dec_eager_create_write_persist_in_def
      fields HG_SUCCESS_def dec_buffer_def enc_buffer_def proc_okD)

interpretation pregion: stream_codec "enc_region_in H" "dec_region_in H"
  "\<lambda>old x. proc_ok H \<and> tid_ok (ri_bti x) \<and> wf_rid (ri_rid old) \<and> wf_rid (ri_rid x)" for H
  by unfold_locales (simp add: enc_region_in_def dec_region_in_def fields HG_SUCCESS_def)

interpretation pword: stream_codec "enc_word_out H" "dec_word_out H"
  "\<lambda>old x. proc_ok H \<and> int32 (wo_ret x)" for H
  by unfold_locales (simp add: enc_word_out_def dec_word_out_def fields HG_SUCCESS_def)

interpretation preadout: stream_codec "enc_read_out H" "dec_read_out H"
  "\<lambda>old x. proc_ok H \<and> int32 (rdo_ret x)" for H
  by unfold_locales (simp add: enc_read_out_def dec_read_out_def fields HG_SUCCESS_def)

interpretation pprobein: stream_codec "enc_probe_in H" "dec_probe_in H" "\<lambda>old x. proc_ok H" for H
  by unfold_locales (simp add: enc_probe_in_def dec_probe_in_def fields HG_SUCCESS_def)

interpretation pmigr: stream_codec "enc_migrate_region_in H" "dec_migrate_region_in H"
  "\<lambda>old x. proc_ok H \<and> tid_ok (mri_bti x) \<and> wf_rid (mri_source_rid old) \<and> wf_rid (mri_source_rid x) \<and>
     int32 (mri_remove_src x) \<and> tid_ok (mri_dest_target_id x)" for H
  by unfold_locales (simp add: enc_migrate_region_in_def dec_migrate_region_in_def fields HG_SUCCESS_def)

interpretation pmigt: stream_codec "enc_migrate_target_in H" "dec_migrate_target_in H"
  "\<lambda>old x. proc_ok H \<and> tid_ok (mti_bti x) \<and> int32 (mti_remove_src x)" for H
  by unfold_locales (simp add: enc_migrate_target_in_def dec_migrate_target_in_def fields HG_SUCCESS_def)


lemma low_half_update_eq:
  "low_half_update (\<lambda>_. ucast x) old = push_bit 32 (drop_bit 32 old) OR take_bit 32 (x :: u64)"
  by (rule bit_word_eqI) (auto simp: low_half_update_def bit_simps)

lemma low_half_update_id: "unat old < 2 ^ 32 \<Longrightarrow> unat x < 2 ^ 32 \<Longrightarrow> low_half_update (\<lambda>_. ucast x) old = (x :: u64)"
proof -
  assume "unat old < 2 ^ 32" and "unat x < 2 ^ 32"
  moreover have "unat (drop_bit 32 old) = unat old div 2 ^ 32"
    unfolding unsigned_drop_bit_eq using \<open>unat old < 2 ^ 32\<close>
    by (simp add: drop_bit_eq_div take_bit_eq_mod)
  moreover have "unat (take_bit 32 x) = unat x mod 2 ^ 32"
    unfolding unsigned_take_bit_eq by (simp add: take_bit_eq_mod)
  ultimately have "unat (drop_bit 32 old) = 0" and "unat (take_bit 32 x) = unat x" by simp_all
  then have "drop_bit 32 old = 0" and "take_bit 32 x = x" by (simp_all only: unat_eq_zero word_unat_eq_iff)
  then show ?thesis by (simp add: low_half_update_eq)
qed

interpretation peagerr: stream_codec "enc_eager_read_out H" "dec_eager_read_out H"
  "\<lambda>old x. proc_ok H \<and> int32 (ero_ret x) \<and> unat (ero_size old) < 2 ^ 32 \<and> unat (ero_size x) < 2 ^ 32 \<and>
     length (ero_buffer x) = unat (ero_size x) \<and> ero_buffer old = []" for H
proof
  fix old x :: bake_eager_read_out and rest
  assume v: "proc_ok H \<and> int32 (ero_ret x) \<and> unat (ero_size old) < 2 ^ 32 \<and> unat (ero_size x) < 2 ^ 32 \<and>
     length (ero_buffer x) = unat (ero_size x) \<and> ero_buffer old = []"
  then have "low_half_update (\<lambda>_. ucast (ero_size x)) (ero_size old) = ero_size x"
    by (intro low_half_update_id) simp_all
  with v show "dec_eager_read_out H old (enc_eager_read_out H x @ rest) = (HG_SUCCESS, x, rest)"
    by (auto simp: enc_eager_read_out_def dec_eager_read_out_def on_field_def proc_okD HG_SUCCESS_def
        dec_buffer_def enc_buffer_def)
qed

lemma target_array_concat: "\<forall>t \<in> set ts. tid_ok t \<Longrightarrow> target_array (length ts) (concat ts) = ts"
  by (induction ts) auto

lemma length_concat_tids: "\<forall>t \<in> set ts. tid_ok t \<Longrightarrow> length (concat ts) = length ts * 16"
  by (induction ts) auto

definition targets_ok :: "bake_probe_out \<Rightarrow> bool" where
  "targets_ok x \<longleftrightarrow> (\<forall>t \<in> set (po_targets x). tid_ok t) \<and> unat (po_num_targets x) = length (po_targets x) \<and>
     length (po_targets x) * 16 < 2 ^ 64"

interpretation pprobe: stream_codec "enc_probe_out H" "dec_probe_out H"
  "\<lambda>old x. proc_ok H \<and> int32 (po_ret x) \<and> targets_ok x \<and> po_targets old = []" for H
proof
  fix old x :: bake_probe_out and rest
  assume v: "proc_ok H \<and> int32 (po_ret x) \<and> targets_ok x \<and> po_targets old = []"
  have n: "unat (po_num_targets x * 16) = length (concat (po_targets x))"
    using v unat_mult_lem [of "po_num_targets x" 16] by (simp add: targets_ok_def length_concat_tids)
  have "target_array (unat (po_num_targets x)) (concat (po_targets x)) = po_targets x"
    using v target_array_concat [of "po_targets x"] by (simp add: targets_ok_def)
  moreover have "po_num_targets x = 0 \<Longrightarrow> po_targets x = []" using v by (auto simp: targets_ok_def)
  ultimately show "dec_probe_out H old (enc_probe_out H x @ rest) = (HG_SUCCESS, x, rest)"
    using v n by (auto simp: enc_probe_out_def dec_probe_out_def on_field_def proc_okD HG_SUCCESS_def)
qed

section \<open>All requests and all responses\<close>

text \<open>The RPC id chooses the proc; here the constructor does, of the message and of the struct to fill.\<close>

fun enc_in :: "hg_proc \<Rightarrow> rpc_in \<Rightarrow> byte list" where
  "enc_in H (In_create x) = enc_create_in H x"
| "enc_in H (In_write x) = enc_bulk_in H x"
| "enc_in H (In_eager_write x) = enc_eager_write_in H x"
| "enc_in H (In_persist x) = enc_extent_in H x"
| "enc_in H (In_create_write_persist x) = enc_create_write_persist_in H x"
| "enc_in H (In_eager_create_write_persist x) = enc_eager_create_write_persist_in H x"
| "enc_in H (In_get_size x) = enc_region_in H x"
| "enc_in H (In_get_data x) = enc_region_in H x"
| "enc_in H (In_read x) = enc_bulk_in H x"
| "enc_in H (In_eager_read x) = enc_extent_in H x"
| "enc_in H (In_probe x) = enc_probe_in H x"
| "enc_in H In_noop = []"
| "enc_in H (In_remove x) = enc_region_in H x"
| "enc_in H (In_migrate_region x) = enc_migrate_region_in H x"
| "enc_in H (In_migrate_target x) = enc_migrate_target_in H x"

definition as_msg :: "('m \<Rightarrow> 'r) \<Rightarrow> int \<times> 'm \<times> byte list \<Rightarrow> int \<times> 'r \<times> byte list" where
  "as_msg con = (\<lambda>(ret, x, bs). (ret, con x, bs))"

lemma as_msg_simp [simp]: "as_msg con (ret, x, bs) = (ret, con x, bs)" by (simp add: as_msg_def)

fun dec_in :: "hg_proc \<Rightarrow> rpc_in proc" where
  "dec_in H (In_create x) bs = as_msg In_create (dec_create_in H x bs)"
| "dec_in H (In_write x) bs = as_msg In_write (dec_bulk_in H x bs)"
| "dec_in H (In_eager_write x) bs = as_msg In_eager_write (dec_eager_write_in H x bs)"
| "dec_in H (In_persist x) bs = as_msg In_persist (dec_extent_in H x bs)"
| "dec_in H (In_create_write_persist x) bs = as_msg In_create_write_persist (dec_create_write_persist_in H x bs)"
| "dec_in H (In_eager_create_write_persist x) bs =
    as_msg In_eager_create_write_persist (dec_eager_create_write_persist_in H x bs)"
| "dec_in H (In_get_size x) bs = as_msg In_get_size (dec_region_in H x bs)"
| "dec_in H (In_get_data x) bs = as_msg In_get_data (dec_region_in H x bs)"
| "dec_in H (In_read x) bs = as_msg In_read (dec_bulk_in H x bs)"
| "dec_in H (In_eager_read x) bs = as_msg In_eager_read (dec_extent_in H x bs)"
| "dec_in H (In_probe x) bs = as_msg In_probe (dec_probe_in H x bs)"
| "dec_in H In_noop bs = (HG_SUCCESS, In_noop, bs)"
| "dec_in H (In_remove x) bs = as_msg In_remove (dec_region_in H x bs)"
| "dec_in H (In_migrate_region x) bs = as_msg In_migrate_region (dec_migrate_region_in H x bs)"
| "dec_in H (In_migrate_target x) bs = as_msg In_migrate_target (dec_migrate_target_in H x bs)"

inductive in_fits :: "rpc_in \<Rightarrow> rpc_in \<Rightarrow> bool" where
  "tid_ok (cri_bti x) \<Longrightarrow>
    in_fits (In_create old) (In_create x)"
| "tid_ok (bi_bti x) \<and> wf_rid (bi_rid old) \<and> wf_rid (bi_rid x) \<Longrightarrow>
    in_fits (In_write old) (In_write x)"
| "tid_ok (ewi_bti x) \<and> wf_rid (ewi_rid old) \<and> wf_rid (ewi_rid x) \<and> length (ewi_buffer x) = unat (ewi_size x) \<and> ewi_buffer old = [] \<Longrightarrow>
    in_fits (In_eager_write old) (In_eager_write x)"
| "tid_ok (xi_bti x) \<and> wf_rid (xi_rid old) \<and> wf_rid (xi_rid x) \<Longrightarrow>
    in_fits (In_persist old) (In_persist x)"
| "tid_ok (cwi_bti x) \<Longrightarrow>
    in_fits (In_create_write_persist old) (In_create_write_persist x)"
| "tid_ok (ecwi_bti x) \<and> length (ecwi_buffer x) = unat (ecwi_size x) \<and> ecwi_buffer old = [] \<Longrightarrow>
    in_fits (In_eager_create_write_persist old) (In_eager_create_write_persist x)"
| "tid_ok (ri_bti x) \<and> wf_rid (ri_rid old) \<and> wf_rid (ri_rid x) \<Longrightarrow>
    in_fits (In_get_size old) (In_get_size x)"
| "tid_ok (ri_bti x) \<and> wf_rid (ri_rid old) \<and> wf_rid (ri_rid x) \<Longrightarrow>
    in_fits (In_get_data old) (In_get_data x)"
| "tid_ok (bi_bti x) \<and> wf_rid (bi_rid old) \<and> wf_rid (bi_rid x) \<Longrightarrow>
    in_fits (In_read old) (In_read x)"
| "tid_ok (xi_bti x) \<and> wf_rid (xi_rid old) \<and> wf_rid (xi_rid x) \<Longrightarrow>
    in_fits (In_eager_read old) (In_eager_read x)"
| "in_fits (In_probe old) (In_probe x)"
| "in_fits In_noop In_noop"
| "tid_ok (ri_bti x) \<and> wf_rid (ri_rid old) \<and> wf_rid (ri_rid x) \<Longrightarrow>
    in_fits (In_remove old) (In_remove x)"
| "tid_ok (mri_bti x) \<and> wf_rid (mri_source_rid old) \<and> wf_rid (mri_source_rid x) \<and> int32 (mri_remove_src x) \<and> tid_ok (mri_dest_target_id x) \<Longrightarrow>
    in_fits (In_migrate_region old) (In_migrate_region x)"
| "tid_ok (mti_bti x) \<and> int32 (mti_remove_src x) \<Longrightarrow>
    in_fits (In_migrate_target old) (In_migrate_target x)"

fun enc_out :: "hg_proc \<Rightarrow> rpc_out \<Rightarrow> byte list" where
  "enc_out H (Out_create x) = enc_rid_out H x"
| "enc_out H (Out_write x) = enc_ret_out H x"
| "enc_out H (Out_eager_write x) = enc_ret_out H x"
| "enc_out H (Out_persist x) = enc_ret_out H x"
| "enc_out H (Out_create_write_persist x) = enc_rid_out H x"
| "enc_out H (Out_eager_create_write_persist x) = enc_rid_out H x"
| "enc_out H (Out_get_size x) = enc_word_out H x"
| "enc_out H (Out_get_data x) = enc_word_out H x"
| "enc_out H (Out_read x) = enc_read_out H x"
| "enc_out H (Out_eager_read x) = enc_eager_read_out H x"
| "enc_out H (Out_probe x) = enc_probe_out H x"
| "enc_out H Out_noop = []"
| "enc_out H (Out_remove x) = enc_ret_out H x"
| "enc_out H (Out_migrate_region x) = enc_rid_out H x"
| "enc_out H (Out_migrate_target x) = enc_ret_out H x"

fun dec_out :: "hg_proc \<Rightarrow> rpc_out proc" where
  "dec_out H (Out_create x) bs = as_msg Out_create (dec_rid_out H x bs)"
| "dec_out H (Out_write x) bs = as_msg Out_write (dec_ret_out H x bs)"
| "dec_out H (Out_eager_write x) bs = as_msg Out_eager_write (dec_ret_out H x bs)"
| "dec_out H (Out_persist x) bs = as_msg Out_persist (dec_ret_out H x bs)"
| "dec_out H (Out_create_write_persist x) bs = as_msg Out_create_write_persist (dec_rid_out H x bs)"
| "dec_out H (Out_eager_create_write_persist x) bs = as_msg Out_eager_create_write_persist (dec_rid_out H x bs)"
| "dec_out H (Out_get_size x) bs = as_msg Out_get_size (dec_word_out H x bs)"
| "dec_out H (Out_get_data x) bs = as_msg Out_get_data (dec_word_out H x bs)"
| "dec_out H (Out_read x) bs = as_msg Out_read (dec_read_out H x bs)"
| "dec_out H (Out_eager_read x) bs = as_msg Out_eager_read (dec_eager_read_out H x bs)"
| "dec_out H (Out_probe x) bs = as_msg Out_probe (dec_probe_out H x bs)"
| "dec_out H Out_noop bs = (HG_SUCCESS, Out_noop, bs)"
| "dec_out H (Out_remove x) bs = as_msg Out_remove (dec_ret_out H x bs)"
| "dec_out H (Out_migrate_region x) bs = as_msg Out_migrate_region (dec_rid_out H x bs)"
| "dec_out H (Out_migrate_target x) bs = as_msg Out_migrate_target (dec_ret_out H x bs)"

definition rid_out_fits :: "bake_rid_out \<Rightarrow> bake_rid_out \<Rightarrow> bool" where
  "rid_out_fits old x \<longleftrightarrow> int32 (ro_ret x) \<and> wf_rid (ro_rid old) \<and> wf_rid (ro_rid x)"

inductive out_fits :: "rpc_out \<Rightarrow> rpc_out \<Rightarrow> bool" where
  "rid_out_fits old x \<Longrightarrow>
    out_fits (Out_create old) (Out_create x)"
| "int32 (out_ret x) \<Longrightarrow>
    out_fits (Out_write old) (Out_write x)"
| "int32 (out_ret x) \<Longrightarrow>
    out_fits (Out_eager_write old) (Out_eager_write x)"
| "int32 (out_ret x) \<Longrightarrow>
    out_fits (Out_persist old) (Out_persist x)"
| "rid_out_fits old x \<Longrightarrow>
    out_fits (Out_create_write_persist old) (Out_create_write_persist x)"
| "rid_out_fits old x \<Longrightarrow>
    out_fits (Out_eager_create_write_persist old) (Out_eager_create_write_persist x)"
| "int32 (wo_ret x) \<Longrightarrow>
    out_fits (Out_get_size old) (Out_get_size x)"
| "int32 (wo_ret x) \<Longrightarrow>
    out_fits (Out_get_data old) (Out_get_data x)"
| "int32 (rdo_ret x) \<Longrightarrow>
    out_fits (Out_read old) (Out_read x)"
| "int32 (ero_ret x) \<and> unat (ero_size old) < 2 ^ 32 \<and> unat (ero_size x) < 2 ^ 32 \<and> length (ero_buffer x) = unat (ero_size x) \<and> ero_buffer old = [] \<Longrightarrow>
    out_fits (Out_eager_read old) (Out_eager_read x)"
| "int32 (po_ret x) \<and> targets_ok x \<and> po_targets old = [] \<Longrightarrow>
    out_fits (Out_probe old) (Out_probe x)"
| "out_fits Out_noop Out_noop"
| "int32 (out_ret x) \<Longrightarrow>
    out_fits (Out_remove old) (Out_remove x)"
| "rid_out_fits old x \<Longrightarrow>
    out_fits (Out_migrate_region old) (Out_migrate_region x)"
| "int32 (out_ret x) \<Longrightarrow>
    out_fits (Out_migrate_target old) (Out_migrate_target x)"

interpretation prpcin: stream_codec "enc_in H" "dec_in H" "\<lambda>old x. proc_ok H \<and> in_fits old x" for H
proof
  fix old x rest
  assume "proc_ok H \<and> in_fits old x"
  then show "dec_in H old (enc_in H x @ rest) = (HG_SUCCESS, x, rest)"
    by (elim conjE in_fits.cases)
      (simp_all add: pcreate.dec_enc pbulkin.dec_enc peagerw.dec_enc pextent.dec_enc pcwp.dec_enc
        pecwp.dec_enc pregion.dec_enc pprobein.dec_enc pmigr.dec_enc pmigt.dec_enc)
qed

interpretation prpcout: stream_codec "enc_out H" "dec_out H" "\<lambda>old x. proc_ok H \<and> out_fits old x" for H
proof
  fix old x rest
  assume "proc_ok H \<and> out_fits old x"
  then show "dec_out H old (enc_out H x @ rest) = (HG_SUCCESS, x, rest)"
    by (elim conjE out_fits.cases)
      (simp_all add: pridout.dec_enc pretout.dec_enc pword.dec_enc preadout.dec_enc peagerr.dec_enc
        pprobe.dec_enc rid_out_fits_def)
qed


text \<open>C23: Every request is understood by the server: whatever RPC it belongs to, decoding the bytes of a
  well formed request into a struct of that RPC succeeds, gives the request back and leaves the bytes
  behind it unread.\<close>
theorem rpc_request_roundtrip:
  assumes "proc_ok H" and "in_fits old x"
  shows "dec_in H old (enc_in H x @ rest) = (HG_SUCCESS, x, rest)"
  by (rule prpcin.dec_enc) (simp add: assms)

text \<open>C24: Every response is understood by the client, for an eager read provided that the size is below
  2^32 and that the high half of the size in the struct to fill is zero.\<close>
theorem rpc_response_roundtrip:
  assumes "proc_ok H" and "out_fits old x"
  shows "dec_out H old (enc_out H x @ rest) = (HG_SUCCESS, x, rest)"
  by (rule prpcout.dec_enc) (simp add: assms)

text \<open>C112: Only the low half of the size of an eager read travels: what the client finds in \<open>size\<close> is the
  high half that its struct held before with the low half of the size that the server sent, and the
  decoder reports success all the same.\<close>
theorem eager_read_size_low_half:
  assumes "proc_ok H" and "int32 (ero_ret x)"
  shows "\<exists>y rest'. dec_eager_read_out H old (enc_eager_read_out H x @ rest) = (HG_SUCCESS, y, rest') \<and>
    ero_ret y = ero_ret x \<and>
    ero_size y = push_bit 32 (drop_bit 32 (ero_size old)) OR take_bit 32 (ero_size x)"
  using assms
  by (auto simp: enc_eager_read_out_def dec_eager_read_out_def on_field_def proc_okD HG_SUCCESS_def
      dec_buffer_def low_half_update_eq split: prod.splits)

section \<open>Concrete instances\<close>

definition le_dec :: "nat \<Rightarrow> 'a::len word proc" where
  "le_dec n old bs = (if n \<le> length bs then (HG_SUCCESS, of_le_bytes (take n bs), drop n bs) else (1, old, bs))"

definition le_proc :: hg_proc where
  "le_proc =
    \<lparr>enc_uint8 = (\<lambda>x. [x]), enc_uint16 = le_bytes 2, enc_uint32 = le_bytes 4, enc_uint64 = le_bytes 8,
     enc_int32 = (\<lambda>x. le_bytes 4 (of_int x :: u32)), enc_bulk = (\<lambda>h. replicate h 1 @ [0]),
     enc_string = (\<lambda>s. case s of None \<Rightarrow> [0] | Some s \<Rightarrow> 1 # replicate (length s) 1 @ 0 # s),
     dec_uint8 = (\<lambda>old bs. case bs of [] \<Rightarrow> (1, old, bs) | b # bs \<Rightarrow> (HG_SUCCESS, b, bs)),
     dec_uint16 = le_dec 2, dec_uint32 = le_dec 4, dec_uint64 = le_dec 8,
     dec_int32 = (\<lambda>old bs. if 4 \<le> length bs then (HG_SUCCESS, sint (of_le_bytes (take 4 bs) :: u32), drop 4 bs)
       else (1, old, bs)),
     dec_bulk = (\<lambda>old bs. (HG_SUCCESS, length (takeWhile ((=) 1) bs), tl (dropWhile ((=) 1) bs))),
     dec_string = (\<lambda>old bs. case bs of [] \<Rightarrow> (1, old, bs) | b # bs \<Rightarrow>
       if b = 0 then (HG_SUCCESS, None, bs)
       else (let n = length (takeWhile ((=) 1) bs); bs = tl (dropWhile ((=) 1) bs)
             in (HG_SUCCESS, Some (take n bs), drop n bs))),
     dec_memcpy = (\<lambda>n old bs. if n \<le> length bs then (HG_SUCCESS, take n bs, drop n bs) else (1, old, bs)),
     dec_save_ptr = (\<lambda>n bs. (take n bs, drop n bs))\<rparr>"

lemma unary_front:
  "length (takeWhile ((=) (1 :: byte)) (replicate n 1 @ 0 # rest)) = n"
  "tl (dropWhile ((=) (1 :: byte)) (replicate n 1 @ 0 # rest)) = rest"
  by (simp_all add: takeWhile_append dropWhile_append)

lemma sint_of_int32: "int32 x \<Longrightarrow> sint (of_int x :: u32) = x"
  by (simp add: signed_of_int signed_take_bit_int_eq_self)

lemma le_proc_ok: "proc_ok le_proc"
  by (auto simp: proc_ok_def le_proc_def le_dec_def unary_front sint_of_int32 of_le_bytes_inverse Let_def
      split: option.splits)

definition demo_request :: rpc_in where
  "demo_request = In_eager_write \<lparr>ewi_bti = replicate 16 7, ewi_rid = \<lparr>rid_type = 2, rid_data = replicate 16 5\<rparr>,
     ewi_region_offset = 0, ewi_size = 3, ewi_buffer = [1, 2, 3]\<rparr>"

definition blank_request :: rpc_in where
  "blank_request = In_eager_write \<lparr>ewi_bti = [], ewi_rid = \<lparr>rid_type = 0, rid_data = replicate 16 0\<rparr>,
     ewi_region_offset = 9, ewi_size = 9, ewi_buffer = []\<rparr>"

theorem rpc_request_roundtrip_witness:
  "dec_in le_proc blank_request (enc_in le_proc demo_request @ [42]) = (HG_SUCCESS, demo_request, [42])"
  by (rule rpc_request_roundtrip [OF le_proc_ok])
    (simp add: demo_request_def blank_request_def in_fits.simps wf_rid_def BAKE_REGION_ID_DATA_SIZE_def)

theorem rpc_response_roundtrip_witness:
  "dec_out le_proc (Out_eager_read \<lparr>ero_ret = 5, ero_size = 0, ero_buffer = []\<rparr>)
     (enc_out le_proc (Out_eager_read \<lparr>ero_ret = -3, ero_size = 2, ero_buffer = [8, 9]\<rparr>) @ [42]) =
   (HG_SUCCESS, Out_eager_read \<lparr>ero_ret = -3, ero_size = 2, ero_buffer = [8, 9]\<rparr>, [42])"
  by (rule rpc_response_roundtrip [OF le_proc_ok]) (simp add: out_fits.simps)

theorem eager_read_size_low_half_witness:
  "\<exists>y rest'. dec_eager_read_out le_proc \<lparr>ero_ret = 0, ero_size = 0x700000000, ero_buffer = []\<rparr>
      (enc_eager_read_out le_proc \<lparr>ero_ret = 0, ero_size = 4, ero_buffer = [1, 2, 3, 4]\<rparr>) = (HG_SUCCESS, y, rest') \<and>
    ero_size y = 0x700000004"
proof -
  have "push_bit 32 (drop_bit 32 (0x700000000 :: u64)) OR take_bit 32 4 = 0x700000004"
    by (simp add: push_bit_eq_mult drop_bit_eq_div take_bit_eq_mod)
  then show ?thesis
    using eager_read_size_low_half [OF le_proc_ok, of "\<lparr>ero_ret = 0, ero_size = 4, ero_buffer = [1, 2, 3, 4]\<rparr>"
      "\<lparr>ero_ret = 0, ero_size = 0x700000000, ero_buffer = []\<rparr>" "[]"] by auto
qed

end
