(* ===== verification/Transport.thy ===== *)
theory Transport
  imports Server_Props Client_Rpc Rpc_Props Pmem_Props
begin

text \<open>
  Client and server together. What margo promises is the predicate \<open>net_ok\<close>: a request that is
  forwarded successfully has been encoded, decoded and served by the handler of its RPC, and the
  output that the client gets is decoded from the bytes of the response. Everything else may fail.
\<close>

section \<open>The network\<close>

text \<open>
  \<open>host v\<close> is the provider with its memory and its world in the state \<open>v\<close> of the whole system,
  \<open>resp v h\<close> are the bytes that have arrived for the handle \<open>h\<close>. The promise is about requests whose
  handlers make no undefined call; nothing is promised for the others. The indeterminate ids in an
  array on the stack (\<open>junk\<close>) are arbitrary values of their type. The handler is the one
  for the struct that was sent: that the id under which a client forwards a struct belongs to the handler for that
  struct is part of the promise, and \<open>client_rpcs_served\<close> below shows that the names agree.
\<close>

definition forward_ok ::
  "'v margo \<Rightarrow> hg_proc \<Rightarrow> ('w, 'j) site \<Rightarrow> ('v \<Rightarrow> ('w, 'j) host) \<Rightarrow> ('v \<Rightarrow> hg_handle \<Rightarrow> byte list option) \<Rightarrow> bool" where
  "forward_ok M H S host resp \<longleftrightarrow>
    (\<forall>pid h x v v'. margo_provider_forward M pid h x v = (HG_SUCCESS, v') \<and> (\<exists>old. in_fits old x) \<and>
         defined_request S x (host v) \<longrightarrow>
      (\<exists>old y rest sender sched junk cs out. (\<forall>i. tid_ok (junk i)) \<and> in_fits old x \<and> dec_in H old (enc_in H x) = (HG_SUCCESS, y, rest) \<and>
         serve S sender sched junk y (host v) = (Some cs, host v') \<and> Respond out \<in> set cs \<and>
         resp v' h = Some (enc_out H out)))"

definition output_ok ::
  "'v margo \<Rightarrow> hg_proc \<Rightarrow> ('v \<Rightarrow> ('w, 'j) host) \<Rightarrow> ('v \<Rightarrow> hg_handle \<Rightarrow> byte list option) \<Rightarrow> bool" where
  "output_ok M H host resp \<longleftrightarrow>
    (\<forall>h old v out v' bs. margo_get_output M h old v = ((HG_SUCCESS, out), v') \<and> resp v h = Some bs \<longrightarrow>
      (\<exists>rest. dec_out H old bs = (HG_SUCCESS, out, rest)) \<and> host v' = host v)"

text \<open>Managing handles does not involve the server or the memory of the client.\<close>

definition handles_local :: "'v margo \<Rightarrow> ('v \<Rightarrow> ('w, 'j) host) \<Rightarrow> bool" where
  "handles_local M host \<longleftrightarrow>
    (\<forall>rpc a v r v'. margo_create M rpc a v = (r, v') \<longrightarrow>
       host v' = host v \<and> (\<forall>p n. client_load M p n v' = client_load M p n v)) \<and>
    (\<forall>h v. host (margo_free_output M h v) = host v \<and>
       (\<forall>p n. client_load M p n (margo_free_output M h v) = client_load M p n v)) \<and>
    (\<forall>h v. host (margo_destroy M h v) = host v \<and>
       (\<forall>p n. client_load M p n (margo_destroy M h v) = client_load M p n v))"

definition client_memory_ok :: "'v margo \<Rightarrow> ('v \<Rightarrow> ('w, 'j) host) \<Rightarrow> bool" where
  "client_memory_ok M host \<longleftrightarrow>
    (\<forall>p n v. length (client_load M p n v) = n) \<and>
    (\<forall>p d v. host (client_store M p d v) = host v \<and> client_load M p (length d) (client_store M p d v) = d)"

definition net_ok ::
  "'v margo \<Rightarrow> hg_proc \<Rightarrow> ('w, 'j) site \<Rightarrow> ('v \<Rightarrow> ('w, 'j) host) \<Rightarrow> ('v \<Rightarrow> hg_handle \<Rightarrow> byte list option) \<Rightarrow> bool" where
  "net_ok M H S host resp \<longleftrightarrow> proc_ok H \<and> forward_ok M H S host resp \<and> output_ok M H host resp \<and>
     handles_local M host \<and> client_memory_ok M host"

lemma net_okD:
  assumes "net_ok M H S host resp"
  shows "proc_ok H" and "client_memory_ok M host"
    and "margo_provider_forward M pid h x v = (HG_SUCCESS, v') \<Longrightarrow> in_fits old x \<Longrightarrow> defined_request S x (host v) \<Longrightarrow>
      \<exists>sender sched junk cs out. (\<forall>i. tid_ok (junk i)) \<and> serve S sender sched junk x (host v) = (Some cs, host v') \<and> Respond out \<in> set cs \<and>
         resp v' h = Some (enc_out H out)"
    and "margo_get_output M h old' v = ((HG_SUCCESS, out), v') \<Longrightarrow> resp v h = Some (enc_out H out') \<Longrightarrow>
      host v' = host v \<and> (out_fits old' out' \<longrightarrow> out = out')"
    and "margo_create M rpc a v = (r, v') \<Longrightarrow> host v' = host v \<and> (\<forall>p n. client_load M p n v' = client_load M p n v)"
    and "host (rpc_finish M h v) = host v" and "client_load M p n (rpc_finish M h v) = client_load M p n v"
    and "host (margo_destroy M h v) = host v" and "client_load M p n (margo_destroy M h v) = client_load M p n v"
    and "length (client_load M p n v) = n"
proof -
  show H: "proc_ok H" and "client_memory_ok M host" using assms by (simp_all add: net_ok_def)
  then show "length (client_load M p n v) = n" by (simp add: client_memory_ok_def)
  have l: "handles_local M host" using assms by (simp add: net_ok_def)
  then show "margo_create M rpc a v = (r, v') \<Longrightarrow> host v' = host v \<and> (\<forall>p n. client_load M p n v' = client_load M p n v)"
    unfolding handles_local_def by blast
  show "host (rpc_finish M h v) = host v" "client_load M p n (rpc_finish M h v) = client_load M p n v"
    "host (margo_destroy M h v) = host v" "client_load M p n (margo_destroy M h v) = client_load M p n v"
    using l by (simp_all add: handles_local_def rpc_finish_def)
  show "\<exists>sender sched junk cs out. (\<forall>i. tid_ok (junk i)) \<and> serve S sender sched junk x (host v) = (Some cs, host v') \<and> Respond out \<in> set cs \<and>
      resp v' h = Some (enc_out H out)"
    if fw: "margo_provider_forward M pid h x v = (HG_SUCCESS, v')" "in_fits old x" "defined_request S x (host v)"
  proof -
    have fo: "forward_ok M H S host resp" using assms by (simp add: net_ok_def)
    obtain old y rest sender sched junk cs out where f: "in_fits old x" and j: "\<forall>i. tid_ok (junk i)" and f':
      "dec_in H old (enc_in H x) = (HG_SUCCESS, y, rest)" "serve S sender sched junk y (host v) = (Some cs, host v')"
      "Respond out \<in> set cs" "resp v' h = Some (enc_out H out)"
      using fo [unfolded forward_ok_def, rule_format, of pid h x v v'] fw by blast
    have "y = x" using prpcin.dec_enc_whole [of H old x] H f f'(1) by simp
    then show ?thesis using j f' by blast
  qed
  show "host v' = host v \<and> (out_fits old' out' \<longrightarrow> out = out')"
    if go: "margo_get_output M h old' v = ((HG_SUCCESS, out), v')" "resp v h = Some (enc_out H out')"
  proof -
    have "output_ok M H host resp" using assms by (simp add: net_ok_def)
    then obtain rest where "dec_out H old' (enc_out H out') = (HG_SUCCESS, out, rest)" "host v' = host v"
      using go unfolding output_ok_def by blast
    then show ?thesis using prpcout.dec_enc_whole [of H old' out'] H by auto
  qed
qed

text \<open>A call that is answered has been served once, and the answer is what the handler responded.\<close>

lemma rpc_call_served:
  assumes net: "net_ok M H S host resp" and fits: "\<And>v. in_fits (old v) (inp v)"
    and df: "\<And>u. defined_request S (inp u) (host v)"
    and call: "rpc_call M rpc provider inp con sel blank v = ((Answered out, h), v')"
  shows "\<exists>v0 sender sched junk cs o1. (\<forall>p n. client_load M p n v0 = client_load M p n v) \<and>
    serve S sender sched junk (inp v0) (host v) = (Some cs, host v') \<and> Respond o1 \<in> set cs \<and>
    (out_fits (con blank) o1 \<longrightarrow> sel o1 = Some out) \<and> (\<forall>i. tid_ok (junk i))"
proof -
  note d = net_okD [OF net]
  obtain r1 h1 v1 where c: "margo_create M rpc (ph_addr provider) v = ((r1, h1), v1)" by (metis surj_pair)
  obtain r2 v2 where f: "margo_provider_forward M (ph_provider_id provider) h1 (inp v1) v1 = (r2, v2)" by (metis surj_pair)
  obtain r3 o1 v3 where g: "margo_get_output M h1 (con blank) v2 = ((r3, o1), v3)" by (metis surj_pair)
  have ok: "r1 = HG_SUCCESS" "r2 = HG_SUCCESS" "r3 = HG_SUCCESS" "v' = v3" "sel o1 = Some out"
    using call c f g by (auto simp: rpc_call_def Let_def split: if_splits option.splits)
  have f': "margo_provider_forward M (ph_provider_id provider) h1 (inp v1) v1 = (HG_SUCCESS, v2)" using f ok by simp
  have g': "margo_get_output M h1 (con blank) v2 = ((HG_SUCCESS, o1), v3)" using g ok by simp
  obtain sender sched junk cs out' where s: "serve S sender sched junk (inp v1) (host v1) = (Some cs, host v2)"
    "Respond out' \<in> set cs" "resp v2 h1 = Some (enc_out H out')" "\<forall>i. tid_ok (junk i)" using d(3) [OF f' fits] df d(5) [OF c] by auto
  have "host v3 = host v2" "out_fits (con blank) out' \<longrightarrow> o1 = out'" using d(4) [OF g' s(3)] by simp_all
  moreover have "host v1 = host v" "\<forall>p n. client_load M p n v1 = client_load M p n v" using d(5) [OF c] by simp_all
  ultimately show ?thesis using s ok by (intro exI [of _ v1]) (metis option.inject)
qed

text \<open>Client and server register the same RPC names.\<close>

lemma client_rpcs_served: "set (map (\<lambda>r. str (rpc_name r)) client_rpcs) = set server_rpc_names"
  by (simp add: server_rpc_names_def client_rpcs_def) blast

section \<open>Handlers for an attached target\<close>

lemma run_handler_found:
  assumes "pv_ok p" and "target_context p (bti x) = Some ctx"
    and "\<And>e. body x e ctx (lock_op ABT_rwlock_rdlock p, s) = (Some out, (lock_op ABT_rwlock_rdlock p, s'))"
  shows "\<exists>p'. run_handler bti fail body (Some x) (Some p, s) = (Body out, (Some p', s')) \<and> pv_ok p' \<and>
    target_context p' = target_context p"
proof -
  obtain e where e: "find_target_entry p (bti x) = Some e" "pv_contexts p (el_val e) = Some ctx"
    using assms(2) by (auto simp: target_context_def split: option.splits)
  then show ?thesis using assms(1,3) by (simp add: run_handler_def Let_def)
qed

lemma serve_eager_write:
  assumes "pv_ok p" and "target_context p (ewi_bti x) = Some ctx"
    and "backend_write_raw S ctx (ewi_rid x) (ewi_region_offset x) (ewi_size x) (ewi_buffer x) s = (ret, s')"
  shows "\<exists>p'. serve S sender sched junk (In_eager_write x) (Some p, s) =
      (Some [Respond (Out_eager_write (ret_out ret)), Free_input, Destroy], (Some p', s')) \<and> pv_ok p' \<and>
    target_context p' = target_context p"
proof -
  let ?body = "\<lambda>x target ctx (p, s).
      let (ret, s) = backend_write_raw S ctx (ewi_rid x) (ewi_region_offset x) (ewi_size x) (ewi_buffer x) s
      in (Some (ret_out ret), (p, s))"
  have b: "?body x e ctx (lock_op ABT_rwlock_rdlock p, s) = (Some (ret_out ret), (lock_op ABT_rwlock_rdlock p, s'))" for e
    using assms(3) by simp
  obtain p' where "run_handler ewi_bti ret_out ?body (Some x) (Some p, s) = (Body (ret_out ret), (Some p', s'))"
    "pv_ok p'" "target_context p' = target_context p"
    using run_handler_found [where body = ?body and bti = ewi_bti and fail = ret_out, OF assms(1,2) b] by blast
  then show ?thesis by (simp add: serve_def bake_eager_write_ult_def respond_and_cleanup_def)
qed

lemma serve_eager_read:
  assumes "pv_ok p" and "target_context p (xi_bti x) = Some ctx"
    and "backend_read_raw S ctx (xi_rid x) (xi_offset x) (xi_size x) s = ((ret, d, fr), s')"
  shows "\<exists>cs p'. serve S sender sched junk (In_eager_read x) (Some p, s) =
      (Some ([Respond (Out_eager_read (eager_read_out ret d)), Free_input, Destroy] @ cs), (Some p', s')) \<and>
    pv_ok p' \<and> target_context p' = target_context p \<and> (\<forall>c \<in> set cs. \<not> is_respond c)"
proof -
  let ?body = "\<lambda>x target ctx (p, s).
      let ((ret, d, free_data), s) = backend_read_raw S ctx (xi_rid x) (xi_offset x) (xi_size x) s
      in (Some (eager_read_out ret d, free_data, case d of None \<Rightarrow> 0 | Some d \<Rightarrow> rd_ptr d), (p, s))"
  let ?out = "(eager_read_out ret d, fr, case d of None \<Rightarrow> 0 | Some d \<Rightarrow> rd_ptr d)"
  have b: "?body x e ctx (lock_op ABT_rwlock_rdlock p, s) = (Some ?out, (lock_op ABT_rwlock_rdlock p, s'))" for e
    using assms(3) by simp
  obtain p' where "run_handler xi_bti (\<lambda>ret. (eager_read_out ret None, free_fn_NULL, 0)) ?body (Some x) (Some p, s) =
      (Body ?out, (Some p', s'))" "pv_ok p'" "target_context p' = target_context p"
    using run_handler_found [where body = ?body and bti = xi_bti
        and fail = "\<lambda>ret. (eager_read_out ret None, free_fn_NULL, 0)", OF assms(1,2) b] by blast
  then show ?thesis by (auto simp: serve_def bake_eager_read_ult_def eager_read_epilogue_def)
qed

end
