(* ===== verification/End_To_End.thy ===== *)
theory End_To_End
  imports Transport
begin

text \<open>
  What an application sees: the eager operations of the client, through the encoding of the
  messages and the handlers of the server, on a persistent memory target.
\<close>

section \<open>Eager writes and reads of the client\<close>

lemma client_eager_write:
  assumes net: "net_ok M H S host resp" and C: "cs_margo C = M"
    and h: "host v = (Some p, s)" "pv_ok p" "target_context p tid = Some ctx"
    and ids: "tid_ok tid" "wf_rid rid"
    and b: "backend_write_raw S ctx rid off n (client_load M buf (unat n) v) s = (ret0, s')" "int32 ret0"
    and w: "bake_eager_write C c provider tid rid off buf n v = (ret, v')" "ret \<noteq> BAKE_ERR_MERCURY"
  shows "ret = ret0 \<and> (\<exists>p'. host v' = (Some p', s') \<and> pv_ok p' \<and> target_context p' = target_context p)"
proof -
  note d = net_okD [OF net]
  let ?inp = "\<lambda>v. In_eager_write \<lparr>ewi_bti = tid, ewi_rid = rid, ewi_region_offset = off, ewi_size = n,
      ewi_buffer = client_load M buf (unat n) v\<rparr>"
  let ?old = "In_eager_write \<lparr>ewi_bti = tid, ewi_rid = rid, ewi_region_offset = off, ewi_size = n, ewi_buffer = []\<rparr>"
  have fits: "in_fits ?old (?inp v)" for v using ids d(10) by (simp add: in_fits.simps)
  have df: "defined_request S (?inp u) (host v)" for u unfolding h(1) by (rule defined_requestI [OF h(2)]) simp
  obtain r hd v1 where call: "rpc_call M (cl_id c bake_eager_write_id) provider ?inp Out_eager_write sel_eager_write (junk_ret C) v =
      ((r, hd), v1)" by (metis surj_pair)
  from w call C obtain out where out: "r = Answered out" "ret = out_ret out" "v' = rpc_finish M hd v1"
    by (cases r) (auto simp: bake_eager_write_def)
  obtain v0 sender sched junk cs o1 where s: "\<forall>p n. client_load M p n v0 = client_load M p n v"
    "serve S sender sched junk (?inp v0) (host v) = (Some cs, host v1)" "Respond o1 \<in> set cs"
    "out_fits (Out_eager_write (junk_ret C)) o1 \<longrightarrow> sel_eager_write o1 = Some out"
    using rpc_call_served [OF net fits df call [unfolded out(1)]] by blast
  from serve_eager_write [of p "\<lparr>ewi_bti = tid, ewi_rid = rid, ewi_region_offset = off, ewi_size = n,
      ewi_buffer = client_load M buf (unat n) v0\<rparr>" ctx S s ret0 s' sender sched junk] h b s(1)
  obtain p' where p': "serve S sender sched junk (?inp v0) (Some p, s) =
      (Some [Respond (Out_eager_write (ret_out ret0)), Free_input, Destroy], (Some p', s'))" "pv_ok p'"
    "target_context p' = target_context p" by auto
  then have "o1 = Out_eager_write (ret_out ret0)" "host v1 = (Some p', s')" using s(2,3) h(1) by auto
  then show ?thesis using s(4) b(2) out p' d(6) by (auto simp: out_fits.simps ret_out_def)
qed

lemma client_eager_read:
  assumes net: "net_ok M H S host resp" and C: "cs_margo C = M"
    and h: "host v = (Some p, s)" "pv_ok p" "target_context p tid = Some ctx"
    and ids: "tid_ok tid" "wf_rid rid"
    and b: "backend_read_raw S ctx rid off n s = ((ret0, Some d, fr), s')" "int32 ret0"
      "length (rd_bytes d) = unat (rd_size d)" "unat (rd_size d) < 2 ^ 32"
    and w: "bake_eager_read C c provider tid rid off buf n v = ((ret, cnt), v')" "ret \<noteq> BAKE_ERR_MERCURY"
  shows "ret = ret0 \<and> cnt = Some (rd_size d) \<and> (ret0 = 0 \<longrightarrow> client_load M buf (unat (rd_size d)) v' = rd_bytes d) \<and>
    (\<exists>p'. host v' = (Some p', s') \<and> pv_ok p' \<and> target_context p' = target_context p)"
proof -
  note dd = net_okD [OF net]
  let ?x = "\<lparr>xi_bti = tid, xi_rid = rid, xi_offset = off, xi_size = n\<rparr>"
  let ?blank = "\<lparr>ero_ret = cs_junk_ret C, ero_size = 0, ero_buffer = []\<rparr>"
  have fits: "in_fits (In_eager_read ?x) ((\<lambda>_. In_eager_read ?x) v)" for v using ids by (simp add: in_fits.simps)
  have df: "defined_request S ((\<lambda>_. In_eager_read ?x) u) (host v)" for u
    unfolding h(1) by (rule defined_requestI [OF h(2)]) (simp add: h(3))
  obtain r hd v1 where call: "rpc_call M (cl_id c bake_eager_read_id) provider (\<lambda>_. In_eager_read ?x) Out_eager_read sel_eager_read ?blank v =
      ((r, hd), v1)" by (metis surj_pair)
  let ?v = "\<lambda>out. if ero_ret out = 0 then client_store M buf (take (unat (ero_size out)) (ero_buffer out)) v1 else v1"
  from w call C obtain out where out: "r = Answered out" "ret = ero_ret out" "cnt = Some (ero_size out)"
    "v' = rpc_finish M hd (?v out)" by (cases r) (auto simp: bake_eager_read_def Let_def)
  obtain sender sched junk cs o1 where s: "serve S sender sched junk (In_eager_read ?x) (host v) = (Some cs, host v1)"
    "Respond o1 \<in> set cs" "out_fits (Out_eager_read ?blank) o1 \<longrightarrow> sel_eager_read o1 = Some out"
    using rpc_call_served [OF net fits df call [unfolded out(1)]] by blast
  from serve_eager_read [of p ?x ctx S s ret0 "Some d" fr s' sender sched junk] h b(1)
  obtain cs' p' where p': "serve S sender sched junk (In_eager_read ?x) (Some p, s) =
      (Some ([Respond (Out_eager_read (eager_read_out ret0 (Some d))), Free_input, Destroy] @ cs'), (Some p', s'))"
    "pv_ok p'" "target_context p' = target_context p" "\<forall>c \<in> set cs'. \<not> is_respond c" by auto
  then have o1: "o1 = Out_eager_read (eager_read_out ret0 (Some d))" "host v1 = (Some p', s')"
    using s(1,2) h(1) bspec [OF p'(4), of "Respond o1"] by auto
  then have "out = eager_read_out ret0 (Some d)" using s(3) b(2-4) by (auto simp: out_fits.simps eager_read_out_def)
  then have o: "ero_ret out = ret0" "ero_size out = rd_size d" "ero_buffer out = rd_bytes d" by (simp_all add: eager_read_out_def)
  have st: "host (client_store M buf d' v1) = host v1" "client_load M buf (length d') (client_store M buf d' v1) = d'" for d'
    using dd(2) by (simp_all add: client_memory_ok_def)
  have "host v' = host v1" using out(4) dd(6) st(1) by simp
  moreover have "client_load M buf (unat (rd_size d)) v' = rd_bytes d" if "ret0 = 0"
    using that out(4) dd(7) st(2) [of "rd_bytes d"] b(3) o by simp
  ultimately show ?thesis using out o o1(2) p' by simp
qed

section \<open>Writes through a bulk handle\<close>

text \<open>
  \<open>rb b w\<close> are the bytes that the bulk handle \<open>b\<close> gives access to from the server. A handle that the
  client creates exposes the contents of its buffer, and pulls of the server read it. Creating and
  freeing handles and duplicating an address leave the provider and its memory alone, and no call
  of a transfer moves an object of persistent memory.
\<close>

definition same_objects :: "'w env \<Rightarrow> 'w \<Rightarrow> 'w \<Rightarrow> bool" where
  "same_objects env w w' \<longleftrightarrow> (\<forall>i. pmemobj_direct env i w' = pmemobj_direct env i w) \<and>
     poolset_get_max env w' = poolset_get_max env w"

lemma same_objects_refl [simp]: "same_objects env w w"
  by (simp add: same_objects_def)

lemma same_objects_trans: "same_objects env w w1 \<Longrightarrow> same_objects env w1 w2 \<Longrightarrow> same_objects env w w2"
  by (simp add: same_objects_def)

definition objects_stay :: "'w env \<Rightarrow> 'w margo \<Rightarrow> bool" where
  "objects_stay env M \<longleftrightarrow>
    (\<forall>a w r w'. addr_dup M a w = (r, w') \<longrightarrow> same_objects env w w') \<and>
    (\<forall>a w. same_objects env w (addr_free M a w)) \<and>
    (\<forall>n w r w'. poolset_get env n w = (r, w') \<longrightarrow> same_objects env w w') \<and>
    (\<forall>h w. same_objects env w (poolset_release env h w)) \<and>
    (\<forall>p n w r w'. bulk_create env p n w = (r, w') \<longrightarrow> same_objects env w w') \<and>
    (\<forall>h w. same_objects env w (bulk_free env h w)) \<and>
    (\<forall>a b off n w r w'. bulk_pull env a b off n w = (r, w') \<longrightarrow> same_objects env w w')"

lemma objects_stayD:
  assumes "objects_stay env M"
  shows "addr_dup M a w = (r, w') \<Longrightarrow> same_objects env w w'"
    and "same_objects env w (addr_free M a w)"
    and "poolset_get env n w = (r1, w') \<Longrightarrow> same_objects env w w'"
    and "same_objects env w (poolset_release env h w)"
    and "bulk_create env p n w = (r2, w') \<Longrightarrow> same_objects env w w'"
    and "same_objects env w (bulk_free env h w)"
    and "bulk_pull env a' b off n w = (r3, w') \<Longrightarrow> same_objects env w w'"
  using assms unfolding objects_stay_def by meson+

lemma pmem_ult_objects:
  assumes "objects_stay env M" and "same_objects env w (snd s)" and "pmem_xfer_ult env u x s = ((u', x'), s')"
  shows "same_objects env w (snd s')"
proof -
  note d = objects_stayD [OF assms(1)]
  have "same_objects env (snd s) (snd s')"
  proof (cases u)
    case (PLoop co)
    then show ?thesis using assms(3) by (cases co) auto
  qed (use assms(3) in \<open>auto simp: Let_def d(4) split: prod.splits if_splits dest: d(3,7)\<close>)
  then show ?thesis by (rule same_objects_trans [OF assms(2)])
qed

lemma write_transfer_objects:
  assumes st: "objects_stay env M" and run: "write_transfer_data env sc pl oid roff bulk boff sz addr sched (m, w) = (r, s')"
  shows "same_objects env w (snd s')"
proof -
  note d = objects_stayD [OF st]
  let ?mem = "region_data sc (pmemobj_direct env oid w) + roff"
  have keep: "same_objects env w (snd (sys_world (pool_run (pmem_xfer_ult env) pkind sched t)))"
    if "same_objects env w (snd (sys_world t))" for t
  proof (rule pool_run_keeps [where P = "\<lambda>t. same_objects env w (snd (sys_world t))", OF _ that])
    fix i and t :: "(pmem_xfer, pmem_ult, 'a pm) pool_sys"
    assume t: "same_objects env w (snd (sys_world t))"
    obtain u' x' w' where "pmem_xfer_ult env (sys_ults t ! i) (sys_args t) (sys_world t) = ((u', x'), w')" by (metis surj_pair)
    then show "same_objects env w (snd (sys_world (pool_step (pmem_xfer_ult env) pkind i t)))"
      using pmem_ult_objects [OF st t] t
      by (cases "i < length (sys_ults t) \<and> \<not> pool_aborted pkind t") (simp_all add: pool_step_eq pool_step_idle)
  qed
  obtain r1 h w1 where c: "bulk_create env ?mem sz w = ((r1, h), w1)" by (metis surj_pair)
  obtain r2 bs w2 where p: "bulk_pull env addr bulk boff sz w1 = ((r2, bs), w2)" by (metis surj_pair)
  have direct: "same_objects env w (bulk_free env h w1)" "same_objects env w (bulk_free env h w2)"
    using d(5) [OF c] d(7) [OF p] d(6) same_objects_trans by metis+
  have free: "same_objects env w (bulk_free env h0 w0)" if "same_objects env w w0" for h0 w0
    using that d(6) same_objects_trans by metis
  show ?thesis
    using run c p direct keep free
    by (auto simp: write_transfer_data_def Let_def split: if_splits option.splits)
qed

definition bulk_exposes ::
  "'v client_site \<Rightarrow> ('w, 'j) site \<Rightarrow> ('v \<Rightarrow> ('w, 'j) host) \<Rightarrow> (hg_bulk \<Rightarrow> 'w \<Rightarrow> nat \<Rightarrow> byte) \<Rightarrow> bool" where
  "bulk_exposes C S host rb \<longleftrightarrow>
    (\<forall>ptr n v b v' po m w. bulk_create (cs_env C) ptr n v = ((HG_SUCCESS, b), v') \<and> host v = (po, (m, w)) \<longrightarrow>
       (\<exists>w'. host v' = (po, (m, w')) \<and> same_objects (st_env S) w w' \<and>
          extent 0 (unat n) (rb b w') = client_load (cs_margo C) ptr (unat n) v)) \<and>
    (\<forall>b v po m w. host v = (po, (m, w)) \<longrightarrow> (\<exists>w'. host (bulk_free (cs_env C) b v) = (po, (m, w')) \<and> same_objects (st_env S) w w')) \<and>
    (\<forall>source b. pull_remote_ok (st_env S) source b (rb b)) \<and> (\<forall>b. local_bulk_ok (st_env S) (rb b)) \<and>
    (\<forall>a w r w'. addr_dup (st_margo S) a w = (r, w') \<longrightarrow> (\<forall>b. rb b w' = rb b w)) \<and> objects_stay (st_env S) (st_margo S)"

lemma bulk_exposesD:
  assumes "bulk_exposes C S host rb"
  shows "bulk_create (cs_env C) ptr n v = ((HG_SUCCESS, b), v') \<Longrightarrow> host v = (po, (m, w)) \<Longrightarrow>
       \<exists>w'. host v' = (po, (m, w')) \<and> same_objects (st_env S) w w' \<and>
          extent 0 (unat n) (rb b w') = client_load (cs_margo C) ptr (unat n) v"
    and "host v = (po, (m, w)) \<Longrightarrow> \<exists>w'. host (bulk_free (cs_env C) b v) = (po, (m, w')) \<and> same_objects (st_env S) w w'"
    and "pull_remote_ok (st_env S) source b (rb b)" and "local_bulk_ok (st_env S) (rb b)"
    and "addr_dup (st_margo S) a w = (r, w') \<Longrightarrow> rb b w' = rb b w \<and> same_objects (st_env S) w w'"
    and "objects_stay (st_env S) (st_margo S)"
proof -
  show st: "objects_stay (st_env S) (st_margo S)" using assms by (simp add: bulk_exposes_def)
  show "rb b w' = rb b w \<and> same_objects (st_env S) w w'" if "addr_dup (st_margo S) a w = (r, w')"
    using assms objects_stayD(1) [OF st that] that unfolding bulk_exposes_def by meson
qed (use assms in \<open>unfold bulk_exposes_def, meson\<close>)+

lemma pmem_req_same:
  "pmem_req env sc i off n boff (m, w) \<Longrightarrow> same_objects env w w' \<Longrightarrow> pmem_req env sc i off n boff (m, w')"
  by (simp add: pmem_req_def same_objects_def)

text \<open>The codes of the transfer functions of mercury are C integers, and so are those of the transfer.\<close>

definition hg_codes_ok :: "'w env \<Rightarrow> bool" where
  "hg_codes_ok env \<longleftrightarrow> (\<forall>n w. int32 (fst (fst (poolset_get env n w)))) \<and>
     (\<forall>a b off n w. int32 (fst (fst (bulk_pull env a b off n w))))"

lemma pmem_ult_code:
  assumes "hg_codes_ok env" and "int32 (px_ret x)" and st: "pmem_xfer_ult env u x s = ((u', x'), s')"
  shows "int32 (px_ret x')"
proof -
  have rel: "\<And>addr bulk off n w r bs w'. bulk_pull env addr bulk off n w = ((r, bs), w') \<Longrightarrow> int32 r"
    "\<And>n w r h w'. poolset_get env n w = ((r, h), w') \<Longrightarrow> int32 r"
    using assms(1) unfolding hg_codes_ok_def by (metis fst_conv)+
  have loop: "px_ret (snd (pmem_loop y)) = px_ret y" for y
    by (simp add: pmem_loop_def pmem_claim_def Let_def case_prod_unfold)
  show ?thesis
  proof (cases u)
    case (PLoop co)
    then obtain y where "pmem_loop y = (u', x')" "px_ret y = px_ret x" using st by (cases co) auto
    then show ?thesis using loop [of y] assms(2) by simp
  qed (use st rel assms(2) in \<open>auto simp: pmem_check_def Let_def split: prod.splits if_splits\<close>)
qed

lemma write_transfer_code:
  assumes "hg_codes_ok env" and "write_transfer_data env sc pl oid roff bulk boff sz addr sched s = (Some r, s')"
  shows "int32 r"
proof -
  have run: "int32 (px_ret (sys_args (pool_run (pmem_xfer_ult env) pkind sched t)))" if "int32 (px_ret (sys_args t))" for t
  proof (rule pool_run_keeps [where P = "\<lambda>t. int32 (px_ret (sys_args t))", OF _ that])
    fix i and t :: "(pmem_xfer, pmem_ult, 'a pm) pool_sys"
    assume t: "int32 (px_ret (sys_args t))"
    obtain u' x' w' where st: "pmem_xfer_ult env (sys_ults t ! i) (sys_args t) (sys_world t) = ((u', x'), w')" by (metis surj_pair)
    show "int32 (px_ret (sys_args (pool_step (pmem_xfer_ult env) pkind i t)))"
      using pmem_ult_code [OF assms(1) t st] t st
      by (cases "i < length (sys_ults t) \<and> \<not> pool_aborted pkind t") (simp_all add: pool_step_eq pool_step_idle)
  qed
  have run0: "- 2147483648 \<le> px_ret (sys_args (pool_run (pmem_xfer_ult env) pkind sched t))"
    "px_ret (sys_args (pool_run (pmem_xfer_ult env) pkind sched t)) < 2147483648" if "px_ret (sys_args t) = 0" for t
    using run [of t] that by simp_all
  show ?thesis using assms(2)
    by (auto simp: write_transfer_data_def Let_def bake_err_defs pmem_setup_def run0 split: prod.splits if_splits option.splits)
qed

lemma serve_write_eq:
  assumes "target_context p (bi_bti x) = Some ctx" and "bi_remote_addr_str x = None"
    and "addr_dup (st_margo S) sender w = ((hret, a), w1)"
    and "backend_write_bulk S (pv_json_cfg p) ctx (bi_rid x) (bi_region_offset x) (bi_bulk_size x)
      (bi_bulk_handle x) a (bi_bulk_offset x) sched (m, w1) = (r, s2)"
  defines "q \<equiv> lock_op ABT_rwlock_unlock (lock_op ABT_rwlock_rdlock p)"
  shows "serve S sender sched junk (In_write x) (Some p, (m, w)) =
      (if hret \<noteq> HG_SUCCESS
       then (Some [Addr_free (Some a), Respond (Out_write (ret_out BAKE_ERR_MERCURY)), Free_input, Destroy],
             (Some q, (m, addr_free (st_margo S) a w1)))
       else case r of None \<Rightarrow> (None, (Some (lock_op ABT_rwlock_rdlock p), s2))
         | Some ret \<Rightarrow> (Some [Addr_free (Some a), Respond (Out_write (ret_out ret)), Free_input, Destroy],
             (Some q, (fst s2, addr_free (st_margo S) a (snd s2)))))"
proof -
  obtain en where en: "find_target_entry p (bi_bti x) = Some en" "pv_contexts p (el_val en) = Some ctx"
    using assms(1) by (auto simp: target_context_def split: option.splits)
  show ?thesis
    using en assms(2-4) by (cases r; cases s2)
      (simp_all add: q_def serve_def bake_write_ult_def run_handler_def addr_free_and_respond_def resolve_source_def Let_def)
qed

lemma serve_write_pmem:
  assumes ex: "bulk_exposes C S host rb" and codes: "hg_codes_ok (st_env S)"
    and p: "pv_ok p" "target_context p (bi_bti x) = Some (PmemContext e)" and x: "bi_remote_addr_str x = None"
    and req: "pmem_req (st_env S) (st_sizecheck S) (prid_oid (bi_rid x)) (bi_region_offset x) (bi_bulk_size x) (bi_bulk_offset x) (m, w)"
    and run: "serve S sender sched junk (In_write x) (Some p, (m, w)) = (Some cs, hst)" "Respond out \<in> set cs"
    and d: "d = data_at (st_sizecheck S) (pmemobj_direct (st_env S) (prid_oid (bi_rid x)) w) + unat (bi_region_offset x)"
  shows "\<exists>ret. out = Out_write (ret_out ret) \<and> int32 ret \<and> (ret = BAKE_SUCCESS \<longrightarrow> (\<exists>p' w'.
    hst = (Some p', (overlay d (extent (unat (bi_bulk_offset x)) (unat (bi_bulk_size x)) (rb (bi_bulk_handle x) w)) m, w')) \<and>
    same_objects (st_env S) w w' \<and> pv_ok p' \<and> target_context p' = target_context p))"
proof -
  let ?q = "lock_op ABT_rwlock_unlock (lock_op ABT_rwlock_rdlock p)"
  obtain hret a w1 where ad: "addr_dup (st_margo S) sender w = ((hret, a), w1)" by (metis surj_pair)
  obtain r s2 where b: "backend_write_bulk S (pv_json_cfg p) (PmemContext e) (bi_rid x) (bi_region_offset x) (bi_bulk_size x)
      (bi_bulk_handle x) a (bi_bulk_offset x) sched (m, w1) = (r, s2)" by (metis surj_pair)
  note eq = serve_write_eq [OF p(2) x ad b, of junk]
  note dd = bulk_exposesD [OF ex]
  have ob: "rb (bi_bulk_handle x) w1 = rb (bi_bulk_handle x) w" "same_objects (st_env S) w w1" using dd(5) [OF ad] by simp_all
  then have same: "rb (bi_bulk_handle x) w1 = rb (bi_bulk_handle x) w"
    "pmemobj_direct (st_env S) i w1 = pmemobj_direct (st_env S) i w" for i by (simp_all add: same_objects_def)
  note req1 = pmem_req_same [OF req ob(2)]
  show ?thesis
  proof (cases "hret = HG_SUCCESS")
    case False
    then have "out = Out_write (ret_out BAKE_ERR_MERCURY)" using run eq by auto
    then show ?thesis by (auto simp: bake_err_defs)
  next
    case True
    obtain ret where ret: "r = Some ret" using run(1) eq True by (cases r) auto
    then have o: "out = Out_write (ret_out ret)" "hst = (Some ?q, (fst s2, addr_free (st_margo S) a (snd s2)))"
      using run eq True by auto
    have "int32 ret" using write_transfer_code [OF codes] b ret by (auto simp: bake_pmem_write_bulk_def)
    moreover have "fst s2 = overlay d (extent (unat (bi_bulk_offset x)) (unat (bi_bulk_size x)) (rb (bi_bulk_handle x) w)) m"
      if "ret = BAKE_SUCCESS"
      using write_transfer_result(3) [OF dd(3) dd(4) req1 b [unfolded backend_write_bulk.simps bake_pmem_write_bulk_def ret], of d]
        that by (simp add: same d bake_err_defs)
    moreover have "same_objects (st_env S) w (addr_free (st_margo S) a (snd s2))"
      using write_transfer_objects [OF dd(6) b [unfolded backend_write_bulk.simps bake_pmem_write_bulk_def]] ob(2)
        objects_stayD(2) [OF dd(6)] same_objects_trans by metis
    ultimately show ?thesis using o p(1) by (intro exI [of _ ret]) simp
  qed
qed

lemma client_bulk_write:
  assumes net: "net_ok M H S host resp" and C: "cs_margo C = M" and ex: "bulk_exposes C S host rb" and codes: "hg_codes_ok (st_env S)"
    and h: "host v = (Some p, (m, w))" "pv_ok p" "target_context p tid = Some (PmemContext e)"
    and ids: "tid_ok tid" "wf_rid rid"
    and req: "pmem_req (st_env S) (st_sizecheck S) (prid_oid rid) off n 0 (m, w)"
    and big: "\<not> n \<le> ph_eager_limit provider" and run: "bake_write C c provider tid rid off buf n v = (BAKE_SUCCESS, v1)"
    and d: "d = data_at (st_sizecheck S) (pmemobj_direct (st_env S) (prid_oid rid) w) + unat off"
  shows "\<exists>p' w'. host v1 = (Some p', (overlay d (client_load M buf (unat n) v) m, w')) \<and> same_objects (st_env S) w w' \<and>
    pv_ok p' \<and> target_context p' = target_context p"
proof -
  note dd = net_okD [OF net] and de = bulk_exposesD [OF ex]
  let ?x = "\<lambda>b. \<lparr>bi_bti = tid, bi_rid = rid, bi_region_offset = off, bi_bulk_handle = b, bi_bulk_offset = 0, bi_bulk_size = n,
      bi_remote_addr_str = None\<rparr>"
  obtain hret b v2 where bc: "bulk_create (cs_env C) buf n v = ((hret, b), v2)" by (metis surj_pair)
  obtain r hd v3 where call: "rpc_call M (cl_id c bake_write_id) provider (\<lambda>_. In_write (?x b)) Out_write sel_write (junk_ret C) v2 =
      ((r, hd), v3)" by (metis surj_pair)
  have "\<exists>out. hret = HG_SUCCESS \<and> r = Answered out \<and> out_ret out = BAKE_SUCCESS \<and>
      v1 = margo_destroy M hd (bulk_free (cs_env C) b (margo_free_output M hd v3))"
    using run big bc call C
    by (cases r) (auto simp: bake_write_def bulk_roundtrip_def answer_code_def Let_def bake_err_defs split: if_splits)
  then obtain out where o: "hret = HG_SUCCESS" "r = Answered out" "out_ret out = BAKE_SUCCESS"
      "v1 = margo_destroy M hd (bulk_free (cs_env C) b (margo_free_output M hd v3))" by blast
  have fits: "in_fits (In_write (?x b)) ((\<lambda>_. In_write (?x b)) v)" for v using ids by (simp add: in_fits.simps)
  obtain w2 where ho: "host v2 = (Some p, (m, w2))" "extent 0 (unat n) (rb b w2) = client_load M buf (unat n) v"
    "same_objects (st_env S) w w2"
    using de(1) [OF bc [unfolded o(1)] h(1)] C by auto
  have df: "defined_request S ((\<lambda>_. In_write (?x b)) u) (host v2)" for u
    unfolding ho(1) by (rule defined_requestI [OF h(2)]) (simp add: h(3))
  obtain sender sched junk cs o1 where s: "serve S sender sched junk (In_write (?x b)) (host v2) = (Some cs, host v3)"
    "Respond o1 \<in> set cs" "out_fits (Out_write (junk_ret C)) o1 \<longrightarrow> sel_write o1 = Some out"
    using rpc_call_served [OF net fits df call [unfolded o(2)]] by blast
  have d2: "d = data_at (st_sizecheck S) (pmemobj_direct (st_env S) (prid_oid rid) w2) + unat off"
    using d ho(3) by (simp add: same_objects_def)
  have "\<exists>ret. o1 = Out_write (ret_out ret) \<and> int32 ret \<and> (ret = BAKE_SUCCESS \<longrightarrow> (\<exists>p' w'.
      host v3 = (Some p', (overlay d (extent (unat (bi_bulk_offset (?x b))) (unat (bi_bulk_size (?x b))) (rb (bi_bulk_handle (?x b)) w2)) m, w')) \<and>
      same_objects (st_env S) w2 w' \<and> pv_ok p' \<and> target_context p' = target_context p))"
    by (rule serve_write_pmem [OF ex codes h(2) _ _ _ s(1) [unfolded ho(1)] s(2)])
      (use h(3) pmem_req_same [OF req ho(3)] d2 in simp_all)
  then obtain ret where ret: "o1 = Out_write (ret_out ret)" "int32 ret" "ret = BAKE_SUCCESS \<longrightarrow> (\<exists>p' w'.
      host v3 = (Some p', (overlay d (client_load M buf (unat n) v) m, w')) \<and> same_objects (st_env S) w2 w' \<and> pv_ok p' \<and>
      target_context p' = target_context p)"
    using ho(2) by auto
  then have "ret = BAKE_SUCCESS" using s(3) o(3) by (auto simp: out_fits.simps ret_out_def)
  then obtain p' w3 where h3: "host v3 = (Some p', (overlay d (client_load M buf (unat n) v) m, w3))" "pv_ok p'"
    "target_context p' = target_context p" "same_objects (st_env S) w2 w3" using ret(3) by blast
  have "host (margo_free_output M hd v3) = host v3" using dd(6,8) by (metis rpc_finish_def)
  then obtain w4 where "host (bulk_free (cs_env C) b (margo_free_output M hd v3)) =
      (Some p', (overlay d (client_load M buf (unat n) v) m, w4))" "same_objects (st_env S) w3 w4" using de(2) h3(1) by metis
  then show ?thesis using o(4) dd(8) h3(2,3) same_objects_trans [OF same_objects_trans [OF ho(3) h3(4)]] by simp
qed

lemma client_write_overlay:
  assumes "net_ok M H S host resp" and "cs_margo C = M" and "bulk_exposes C S host rb" and "hg_codes_ok (st_env S)"
    and "host v = (Some p, (m, w))" and "pv_ok p" and "target_context p tid = Some (PmemContext e)"
    and "tid_ok tid" and "wf_rid rid"
    and "pmem_req (st_env S) (st_sizecheck S) (prid_oid rid) off n 0 (m, w)"
    and "bake_write C c provider tid rid off buf n v = (BAKE_SUCCESS, v1)"
    and "d = data_at (st_sizecheck S) (pmemobj_direct (st_env S) (prid_oid rid) w) + unat off"
  shows "\<exists>p' w'. host v1 = (Some p', (overlay d (client_load M buf (unat n) v) m, w')) \<and> same_objects (st_env S) w w' \<and> pv_ok p' \<and>
    target_context p' = target_context p"
proof (cases "n \<le> ph_eager_limit provider")
  case True
  let ?data = "client_load M buf (unat n) v"
  have len: "length ?data = unat n" by (rule net_okD(10) [OF assms(1)])
  obtain ret0 m' w' where wr: "bake_pmem_write_raw (st_env S) (st_sizecheck S) rid off n ?data (m, w) = (ret0, (m', w'))"
    by (metis surj_pair)
  have "int32 ret0" using wr by (auto simp: bake_pmem_write_raw_def Let_def bake_err_defs split: if_splits)
  moreover have w1: "bake_eager_write C c provider tid rid off buf n v = (BAKE_SUCCESS, v1)" "BAKE_SUCCESS \<noteq> BAKE_ERR_MERCURY"
    using True assms(11) by (simp_all add: bake_write_def bake_err_defs)
  ultimately obtain p' where p': "BAKE_SUCCESS = ret0" "host v1 = (Some p', (m', w'))" "pv_ok p'"
    "target_context p' = target_context p"
    using client_eager_write [OF assms(1,2,5-9) _ _ w1, of ret0 "(m', w')"] wr by auto
  have bound: "unat (pmemobj_direct (st_env S) (prid_oid rid) w) + 8 + unat off + unat n < 2 ^ 64" "unat n \<le> length ?data"
    using assms(10) len by (simp_all add: pmem_req_def)
  note x = raw_write_then_read [OF bound wr [folded p'(1)] refl]
  have "m' = overlay d ?data m" using x(3,4) assms(12) len by simp
  moreover have "same_objects (st_env S) w w'" using wr by (auto simp: bake_pmem_write_raw_def Let_def split: if_splits)
  ultimately show ?thesis using p' by blast
next
  case False
  show ?thesis by (rule client_bulk_write [OF assms(1-10) False assms(11,12)])
qed

text \<open>C142: Whatever the size of the buffer, and thus whether the data travels in the request or is pulled by
  the server, pipelined or not and under every interleaving of its threads: when \<open>bake_write\<close> returns
  success for a persistent memory region, the memory of the server is the old memory with the bytes of
  the client's buffer at the requested offset of the region, every object of persistent memory is where
  it was, and the provider still has the same targets.\<close>
theorem client_write_stores:
  assumes "net_ok M H S host resp" and "cs_margo C = M" and "bulk_exposes C S host rb" and "hg_codes_ok (st_env S)"
    and "host v = (Some p, (m, w))" and "pv_ok p" and "target_context p tid = Some (PmemContext e)"
    and "tid_ok tid" and "wf_rid rid"
    and "pmem_req (st_env S) (st_sizecheck S) (prid_oid rid) off n 0 (m, w)"
    and "bake_write C c provider tid rid off buf n v = (BAKE_SUCCESS, v1)"
    and "d = data_at (st_sizecheck S) (pmemobj_direct (st_env S) (prid_oid rid) w) + unat off"
  shows "\<exists>p' w'. host v1 = (Some p', (overlay d (client_load M buf (unat n) v) m, w')) \<and> same_objects (st_env S) w w' \<and> pv_ok p' \<and>
    target_context p' = target_context p"
  by (rule client_write_overlay [OF assms])

end
