(* ===== verification/Client_Handles.thy ===== *)
theory Client_Handles
  imports Client
begin

text \<open>
  Reference counting of provider handles. \<open>ref_counting\<close> is the contract of an object store whose
  objects are shared by counting references; its lemma says that a program that only uses
  references it holds never touches a freed object. The provider handles are its instance.
\<close>

section \<open>The contract\<close>

datatype 'a handle_op = Op_create 'a | Op_ref_incr nat | Op_release nat

text \<open>
  How a sequence of operations ends: with a state, or because the program used a reference that it
  does not hold or took more than \<open>limit\<close> of them, or because an operation touched a freed object.
  \<open>refs h\<close> is the number of references to \<open>h\<close> that the program holds.
\<close>

datatype 's verdict = Fine 's "nat \<Rightarrow> nat" | Misuse | Dangling

fun ref_session ::
  "nat \<Rightarrow> ('a \<Rightarrow> 's \<Rightarrow> (nat option \<times> 's) option) \<Rightarrow> (nat \<Rightarrow> 's \<Rightarrow> 's option) \<Rightarrow> (nat \<Rightarrow> 's \<Rightarrow> 's option) \<Rightarrow>
     'a handle_op list \<Rightarrow> 's \<Rightarrow> (nat \<Rightarrow> nat) \<Rightarrow> 's verdict" where
  "ref_session limit create retain release [] s refs = Fine s refs"
| "ref_session limit create retain release (Op_create a # ops) s refs =
    (case create a s of
       None \<Rightarrow> Dangling
     | Some (None, s) \<Rightarrow> ref_session limit create retain release ops s refs
     | Some (Some h, s) \<Rightarrow> ref_session limit create retain release ops s (refs(h := refs h + 1)))"
| "ref_session limit create retain release (Op_ref_incr h # ops) s refs =
    (if refs h = 0 \<or> limit \<le> refs h then Misuse
     else case retain h s of
       None \<Rightarrow> Dangling
     | Some s \<Rightarrow> ref_session limit create retain release ops s (refs(h := refs h + 1)))"
| "ref_session limit create retain release (Op_release h # ops) s refs =
    (if refs h = 0 then Misuse
     else case release h s of
       None \<Rightarrow> Dangling
     | Some s \<Rightarrow> ref_session limit create retain release ops s (refs(h := refs h - 1)))"

locale ref_counting =
  fixes limit :: nat
    and inv :: "'s \<Rightarrow> (nat \<Rightarrow> nat) \<Rightarrow> bool"
    and create :: "'a \<Rightarrow> 's \<Rightarrow> (nat option \<times> 's) option"
    and retain :: "nat \<Rightarrow> 's \<Rightarrow> 's option"
    and release :: "nat \<Rightarrow> 's \<Rightarrow> 's option"
  assumes create_ok: "inv s refs \<Longrightarrow> \<exists>r s'. create a s = Some (r, s') \<and>
      (case r of None \<Rightarrow> inv s' refs | Some h \<Rightarrow> inv s' (refs(h := refs h + 1)))"
    and retain_ok: "inv s refs \<Longrightarrow> 0 < refs h \<Longrightarrow> refs h < limit \<Longrightarrow>
      \<exists>s'. retain h s = Some s' \<and> inv s' (refs(h := refs h + 1))"
    and release_ok: "inv s refs \<Longrightarrow> 0 < refs h \<Longrightarrow> \<exists>s'. release h s = Some s' \<and> inv s' (refs(h := refs h - 1))"
begin

lemma session_safe:
  assumes "inv s refs"
  shows "case ref_session limit create retain release ops s refs of
    Fine s' refs' \<Rightarrow> inv s' refs' | Misuse \<Rightarrow> True | Dangling \<Rightarrow> False"
  using assms
proof (induction ops arbitrary: s refs)
  case (Cons op ops)
  show ?case
  proof (cases op)
    case (Op_create a)
    obtain r s' where "create a s = Some (r, s')"
      "case r of None \<Rightarrow> inv s' refs | Some h \<Rightarrow> inv s' (refs(h := refs h + 1))" using create_ok [OF Cons.prems] by blast
    then show ?thesis using Cons.IH by (cases r) (simp_all add: Op_create)
  next
    case (Op_ref_incr h)
    then show ?thesis using retain_ok [OF Cons.prems, of h] Cons.IH by (cases "refs h = 0 \<or> limit \<le> refs h") auto
  next
    case (Op_release h)
    then show ?thesis using release_ok [OF Cons.prems, of h] Cons.IH by (cases "refs h = 0") auto
  qed
qed simp

end

section \<open>Provider handles of one client\<close>

text \<open>
  The handles in the heap are those with references; the count of a handle is the number of its
  references and the count of the client is the number of handles. Counts of handles stay below
  2^64, the count of the client is exact modulo 2^64.
\<close>

definition handle_agrees :: "nat \<Rightarrow> client_heap \<Rightarrow> nat \<Rightarrow> nat \<Rightarrow> bool" where
  "handle_agrees client hp n h \<longleftrightarrow> n < 2 ^ 64 \<and>
     (case hp_handles hp h of
        None \<Rightarrow> n = 0
      | Some p \<Rightarrow> 0 < n \<and> 0 < h \<and> h < hp_brk hp \<and> ph_refcount p = of_nat n \<and> ph_client p = client)"

definition handles_ok :: "nat \<Rightarrow> client_heap \<Rightarrow> (nat \<Rightarrow> nat) \<Rightarrow> bool" where
  "handles_ok client hp refs \<longleftrightarrow> client \<noteq> BAKE_CLIENT_NULL \<and> 0 < hp_brk hp \<and>
     finite {h. 0 < refs h} \<and> (\<forall>h. handle_agrees client hp (refs h) h) \<and>
     (\<exists>c. hp_clients hp client = Some c \<and> cl_num_provider_handles c = of_nat (card {h. 0 < refs h}))"

lemma handles_okD:
  assumes "handles_ok client hp refs"
  shows "client \<noteq> BAKE_CLIENT_NULL" and "0 < hp_brk hp" and "finite {h. 0 < refs h}" and "refs h < 2 ^ 64"
    and "0 < refs h \<Longrightarrow> \<exists>p. hp_handles hp h = Some p \<and> h \<noteq> BAKE_PROVIDER_HANDLE_NULL \<and> h < hp_brk hp \<and>
       ph_refcount p = of_nat (refs h) \<and> ph_client p = client"
    and "handle_agrees client hp (refs h) h"
    and "refs (hp_brk hp) = 0"
    and "\<exists>c. hp_clients hp client = Some c \<and> cl_num_provider_handles c = of_nat (card {h. 0 < refs h})"
proof -
  have h: "handle_agrees client hp (refs h) h" for h using assms by (simp add: handles_ok_def)
  show "client \<noteq> BAKE_CLIENT_NULL" "0 < hp_brk hp" "finite {h. 0 < refs h}" "handle_agrees client hp (refs h) h"
    "\<exists>c. hp_clients hp client = Some c \<and> cl_num_provider_handles c = of_nat (card {h. 0 < refs h})"
    using assms by (simp_all add: handles_ok_def)
  show "refs h < 2 ^ 64" "0 < refs h \<Longrightarrow> \<exists>p. hp_handles hp h = Some p \<and> h \<noteq> BAKE_PROVIDER_HANDLE_NULL \<and> h < hp_brk hp \<and>
       ph_refcount p = of_nat (refs h) \<and> ph_client p = client"
    using h [of h] by (auto simp: handle_agrees_def BAKE_PROVIDER_HANDLE_NULL_def split: option.splits)
  show "refs (hp_brk hp) = 0" using h [of "hp_brk hp"] by (simp add: handle_agrees_def split: option.splits)
qed

text \<open>Only the handle itself and the limit of the heap matter for a handle.\<close>

lemma handle_agrees_other:
  assumes "handle_agrees client hp n h" and "hp_handles hp' h = hp_handles hp h" and "hp_brk hp \<le> hp_brk hp'"
  shows "handle_agrees client hp' n h"
  using assms by (auto simp: handle_agrees_def split: option.splits)

text \<open>The operations on handles as operations on a state; creation yields the new handle.\<close>

definition create_handle ::
  "'v client_site \<Rightarrow> nat \<Rightarrow> hg_addr \<times> u16 \<Rightarrow> client_heap \<times> 'v \<Rightarrow> (nat option \<times> client_heap \<times> 'v) option" where
  "create_handle C client a s = map_option (\<lambda>((_, h), s). (h, s)) (bake_provider_handle_create C client (fst a) (snd a) s)"

definition retain_handle :: "nat \<Rightarrow> client_heap \<times> 'v \<Rightarrow> (client_heap \<times> 'v) option" where
  "retain_handle h = (\<lambda>(hp, v). map_option (\<lambda>(_, hp). (hp, v)) (bake_provider_handle_ref_incr h hp))"

definition release_handle :: "'v client_site \<Rightarrow> nat \<Rightarrow> client_heap \<times> 'v \<Rightarrow> (client_heap \<times> 'v) option" where
  "release_handle C h s = map_option snd (bake_provider_handle_release C h s)"

lemma refs_insert: "refs h = 0 \<Longrightarrow> {k. 0 < (refs(h := Suc 0)) k} = insert h {k. 0 < refs k}" for refs :: "nat \<Rightarrow> nat"
  by (auto simp: fun_upd_def)

lemma refs_remove: "{k. 0 < (refs(h := 0)) k} = {k. 0 < refs k} - {h}" for refs :: "nat \<Rightarrow> nat"
  by (auto simp: fun_upd_def)

lemma refs_same: "0 < refs h \<Longrightarrow> 0 < n \<Longrightarrow> {k. 0 < (refs(h := n)) k} = {k. 0 < refs k}" for refs :: "nat \<Rightarrow> nat"
  by (auto simp: fun_upd_def)

lemma create_handle_ok:
  assumes ok: "handles_ok client hp refs"
  shows "\<exists>r hp' v'. create_handle C client a (hp, v) = Some (r, (hp', v')) \<and>
    (case r of None \<Rightarrow> hp' = hp \<and> handles_ok client hp' refs
     | Some h \<Rightarrow> refs h = 0 \<and> handles_ok client hp' (refs(h := refs h + 1)))"
proof -
  note d = handles_okD [OF ok]
  obtain c where c: "hp_clients hp client = Some c" "cl_num_provider_handles c = of_nat (card {h. 0 < refs h})"
    using d(8) by blast
  obtain ret ad v1 where a: "addr_dup (cs_margo C) (fst a) v = ((ret, ad), v1)" by (metis surj_pair)
  show ?thesis
  proof (cases "cs_calloc C \<and> ret = HG_SUCCESS")
    case False
    then show ?thesis using ok d(1) c a by (auto simp: create_handle_def bake_provider_handle_create_def)
  next
    case True
    let ?b = "hp_brk hp"
    let ?c = "c\<lparr>cl_num_provider_handles := cl_num_provider_handles c + 1\<rparr>"
    let ?p = "\<lparr>ph_client = client, ph_addr = ad, ph_provider_id = snd a, ph_refcount = 1, ph_eager_limit = BAKE_DEFAULT_EAGER_LIMIT\<rparr>"
    let ?hp = "hp\<lparr>hp_clients := (hp_clients hp)(client := Some ?c), hp_handles := (hp_handles hp)(?b := Some ?p), hp_brk := ?b + 1\<rparr>"
    have r: "create_handle C client a (hp, v) = Some (Some ?b, (?hp, v1))"
      using True d(1) c a by (simp add: create_handle_def bake_provider_handle_create_def Let_def)
    have card: "card (insert ?b {k. 0 < refs k}) = Suc (card {k. 0 < refs k})" using d(3,7) by simp
    have "handles_ok client ?hp (refs(?b := Suc 0))"
      unfolding handles_ok_def refs_insert [where refs = refs and h = "hp_brk hp", OF d(7)]
    proof (intro conjI allI)
      show "handle_agrees client ?hp ((refs(?b := Suc 0)) h) h" for h
        using d(2) handle_agrees_other [OF d(6) [of h], of ?hp] by (cases "h = ?b") (simp_all add: handle_agrees_def)
    qed (use d c card in simp_all)
    then show ?thesis using r d(7) by auto
  qed
qed

lemma update_handle_ok:
  assumes ok: "handles_ok client hp refs" and h: "0 < refs h" "hp_handles hp h = Some p"
    and q: "ph_refcount q = of_nat n" "ph_client q = ph_client p" "0 < n" "n < 2 ^ 64"
  shows "handles_ok client (hp\<lparr>hp_handles := (hp_handles hp)(h := Some q)\<rparr>) (refs(h := n))"
  unfolding handles_ok_def refs_same [where refs = refs and h = h, OF h(1) q(3)]
proof (intro conjI allI)
  let ?hp = "hp\<lparr>hp_handles := (hp_handles hp)(h := Some q)\<rparr>"
  note d = handles_okD [OF ok]
  show "handle_agrees client ?hp ((refs(h := n)) k) k" for k
    using d(6) [of k] handle_agrees_other [OF d(6) [of k], of ?hp] h q
    by (cases "k = h") (simp_all add: handle_agrees_def)
qed (use handles_okD [OF ok] in simp_all)

lemma retain_handle_ok:
  assumes "handles_ok client hp refs" and "0 < refs h" and "refs h < 2 ^ 64 - 1"
  shows "\<exists>hp'. retain_handle h (hp, v) = Some (hp', v) \<and> handles_ok client hp' (refs(h := refs h + 1))"
proof -
  obtain p where p: "hp_handles hp h = Some p" "h \<noteq> BAKE_PROVIDER_HANDLE_NULL" "ph_refcount p = of_nat (refs h)"
    using handles_okD(5) [OF assms(1,2)] by blast
  then show ?thesis
    using update_handle_ok [OF assms(1,2) p(1), of "p\<lparr>ph_refcount := ph_refcount p + 1\<rparr>" "refs h + 1"] assms(3)
    by (simp add: retain_handle_def bake_provider_handle_ref_incr_def update_handle_def)
qed

lemma release_handle_ok:
  assumes ok: "handles_ok client hp refs" and h: "0 < refs h"
  shows "\<exists>hp' v'. release_handle C h (hp, v) = Some (hp', v') \<and> handles_ok client hp' (refs(h := refs h - 1)) \<and>
    (hp_handles hp' h = None \<longleftrightarrow> refs h = 1)"
proof -
  note d = handles_okD [OF ok]
  obtain p where p: "hp_handles hp h = Some p" "h \<noteq> BAKE_PROVIDER_HANDLE_NULL" "ph_refcount p = of_nat (refs h)"
    "ph_client p = client" using d(5) [OF h] by blast
  obtain c where c: "hp_clients hp client = Some c" "cl_num_provider_handles c = of_nat (card {h. 0 < refs h})"
    using d(8) by blast
  have cnt: "ph_refcount p - 1 = of_nat (refs h - 1)" using h p(3) by (simp add: of_nat_diff)
  have zero: "ph_refcount p - 1 = 0 \<longleftrightarrow> refs h = 1"
    using h d(4) [of h] unfolding cnt by (subst word_of_nat_eq_0_iff) (auto dest!: dvd_imp_le)
  show ?thesis
  proof (cases "refs h = 1")
    case False
    then show ?thesis
      using update_handle_ok [OF ok h p(1), of "p\<lparr>ph_refcount := ph_refcount p - 1\<rparr>" "refs h - 1"] p cnt zero h d(4) [of h]
      by (simp add: release_handle_def bake_provider_handle_release_def Let_def)
  next
    case True
    let ?c = "c\<lparr>cl_num_provider_handles := cl_num_provider_handles c - 1\<rparr>"
    let ?hp = "hp\<lparr>hp_clients := (hp_clients hp)(client := Some ?c), hp_handles := (hp_handles hp)(h := None)\<rparr>"
    have r: "\<exists>v'. release_handle C h (hp, v) = Some (?hp, v')"
      using p c zero True by (simp add: release_handle_def bake_provider_handle_release_def Let_def)
    have card: "card {k. 0 < refs k} = Suc (card ({k. 0 < refs k} - {h}))"
      using d(3) h card.remove [of "{k. 0 < refs k}" h] by simp
    have "handles_ok client ?hp (refs(h := 0))"
      unfolding handles_ok_def refs_remove
    proof (intro conjI allI)
      show "handle_agrees client ?hp ((refs(h := 0)) k) k" for k
        using handle_agrees_other [OF d(6) [of k], of ?hp] by (cases "k = h") (simp_all add: handle_agrees_def)
    qed (use d c card in simp_all)
    then show ?thesis using r True by auto
  qed
qed

interpretation bake_handles: ref_counting "2 ^ 64 - 1" "\<lambda>(hp, v). handles_ok client hp" "create_handle C client"
  retain_handle "release_handle C" for client C
proof
  fix s :: "client_heap \<times> 'a" and refs a h
  assume ok: "(case s of (hp, v) \<Rightarrow> handles_ok client hp) refs"
  obtain hp v where s: "s = (hp, v)" by (cases s)
  have i: "handles_ok client hp refs" using ok by (simp add: s)
  show "\<exists>r s'. create_handle C client a s = Some (r, s') \<and>
      (case r of None \<Rightarrow> (case s' of (hp, v) \<Rightarrow> handles_ok client hp) refs
       | Some h \<Rightarrow> (case s' of (hp, v) \<Rightarrow> handles_ok client hp) (refs(h := refs h + 1)))"
    using create_handle_ok [OF i, of C a v] by (fastforce simp: s split: option.splits)
  show "\<exists>s'. retain_handle h s = Some s' \<and> (case s' of (hp, v) \<Rightarrow> handles_ok client hp) (refs(h := refs h + 1))"
    if "0 < refs h" "refs h < 2 ^ 64 - 1"
    using retain_handle_ok [OF i that, of v] by (auto simp: s)
  show "\<exists>s'. release_handle C h s = Some s' \<and> (case s' of (hp, v) \<Rightarrow> handles_ok client hp) (refs(h := refs h - 1))"
    if "0 < refs h"
    using release_handle_ok [OF i that, of C v] by (auto simp: s)
qed

section \<open>Safety\<close>

lemma client_init_ok:
  assumes "bake_client_init C (hp, v) = ((BAKE_SUCCESS, Some client), (hp', v'))"
    and "hp_handles hp = (\<lambda>_. None)" and "0 < hp_brk hp"
  shows "handles_ok client hp' (\<lambda>_. 0)"
proof -
  have keep: "cl_num_provider_handles (fold (\<lambda>r c. case g r of None \<Rightarrow> c | Some i \<Rightarrow> c\<lparr>cl_id := (cl_id c)(r := i)\<rparr>) rs c) =
      cl_num_provider_handles c" for g :: "client_rpc \<Rightarrow> hg_id option" and rs and c :: bake_client
    by (induction rs arbitrary: c) (auto split: option.split)
  have keep2: "cl_num_provider_handles (fst (fold (\<lambda>r (c, v). let (i, v) = g r v in (c\<lparr>cl_id := (cl_id c)(r := i)\<rparr>, v)) rs cv)) =
      cl_num_provider_handles (fst cv)" for g :: "client_rpc \<Rightarrow> 'a \<Rightarrow> hg_id \<times> 'a" and rs and cv :: "bake_client \<times> 'a"
    by (induction rs arbitrary: cv) (auto simp: Let_def split: prod.splits)
  obtain ret c v1 where r: "bake_client_register (cs_margo C) \<lparr>cl_id = \<lambda>_. 0, cl_num_provider_handles = 0\<rparr> v = ((ret, c), v1)"
    by (metis surj_pair)
  then have "cl_num_provider_handles c = 0"
    using keep [of "\<lambda>r. margo_registered_name (cs_margo C) (bytes_of_string (rpc_name r)) v" client_rpcs]
      keep2 [of "\<lambda>r. margo_register (cs_margo C) (bytes_of_string (rpc_name r))" client_rpcs]
    by (auto simp: bake_client_register_def Let_def case_prod_unfold split: option.splits)
  then show ?thesis
    using assms r
    by (auto simp: bake_client_init_def handles_ok_def handle_agrees_def BAKE_CLIENT_NULL_def split: if_splits)
qed

text \<open>C15: A program that releases and duplicates only references to provider handles that it holds never
  reaches a freed handle or client, whatever sequence of operations it performs after creating its
  client. At every point a handle exists exactly while there are references to it, its count is their
  number, and the counter of the client is the number of its handles.\<close>
theorem provider_handles_safe:
  assumes "bake_client_init C (hp, v) = ((BAKE_SUCCESS, Some client), (hp', v'))"
    and "hp_handles hp = (\<lambda>_. None)" and "0 < hp_brk hp"
  shows "case ref_session (2 ^ 64 - 1) (create_handle C client) retain_handle (release_handle C) ops (hp', v') (\<lambda>_. 0) of
      Fine (hp2, v2) refs \<Rightarrow>
        (\<forall>h. hp_handles hp2 h \<noteq> None \<longleftrightarrow> 0 < refs h) \<and>
        (\<forall>h p. hp_handles hp2 h = Some p \<longrightarrow> ph_refcount p = of_nat (refs h) \<and> ph_client p = client) \<and>
        (\<exists>c. hp_clients hp2 client = Some c \<and> cl_num_provider_handles c = of_nat (card {h. 0 < refs h}))
    | Misuse \<Rightarrow> True
    | Dangling \<Rightarrow> False"
proof -
  have i: "(\<lambda>(hp, v). handles_ok client hp) (hp', v') (\<lambda>_. 0)" using client_init_ok [OF assms] by simp
  have facts: "(\<forall>h. hp_handles hp2 h \<noteq> None \<longleftrightarrow> 0 < refs h) \<and>
        (\<forall>h p. hp_handles hp2 h = Some p \<longrightarrow> ph_refcount p = of_nat (refs h) \<and> ph_client p = client) \<and>
        (\<exists>c. hp_clients hp2 client = Some c \<and> cl_num_provider_handles c = of_nat (card {h. 0 < refs h}))"
    if "handles_ok client hp2 refs" for hp2 refs
  proof -
    have "(hp_handles hp2 h \<noteq> None \<longleftrightarrow> 0 < refs h) \<and>
        (\<forall>p. hp_handles hp2 h = Some p \<longrightarrow> ph_refcount p = of_nat (refs h) \<and> ph_client p = client)" for h
      using handles_okD(6) [OF that, of h] by (auto simp: handle_agrees_def split: option.splits)
    then show ?thesis using handles_okD(8) [OF that] by blast
  qed
  show ?thesis using bake_handles.session_safe [OF i, of C ops] facts by (auto split: verdict.splits prod.splits)
qed

end
