(* ===== verification/Client_Props.thy ===== *)
theory Client_Props
  imports Client_Rpc
begin

text \<open>
  Resources and results of the remote operations: whatever fails on the way, an operation destroys
  the RPC handle and frees the bulk handle that it created, and returns the code of the server or
  \<open>BAKE_ERR_MERCURY\<close>.
\<close>

section \<open>The operations of the client\<close>

datatype api_call =
    Api_probe u64 bool
  | Api_create bake_target_id u64
  | Api_write bake_target_id bake_region_id u64 u64 u64
  | Api_proxy_write bake_target_id bake_region_id u64 hg_bulk u64 "cstring option" u64
  | Api_persist bake_target_id bake_region_id u64 u64
  | Api_create_write_persist bake_target_id u64 u64
  | Api_create_write_persist_proxy bake_target_id hg_bulk u64 "cstring option" u64
  | Api_get_size bake_target_id bake_region_id
  | Api_get_data bake_target_id bake_region_id
  | Api_noop
  | Api_read bake_target_id bake_region_id u64 u64 u64
  | Api_proxy_read bake_target_id bake_region_id u64 hg_bulk u64 "cstring option" u64
  | Api_remove bake_target_id bake_region_id
  | Api_migrate_region bake_target_id bake_region_id u64 int "cstring option" u16 bake_target_id
  | Api_migrate_target bake_target_id int "cstring option" u16 "cstring option"

text \<open>Return code and next state.\<close>

definition code_of :: "(int \<times> 'a) \<times> 'v \<Rightarrow> int \<times> 'v" where
  "code_of r = (fst (fst r), snd r)"

lemma code_ofE:
  assumes "code_of x = (ret, v')"
  obtains r where "x = (r, v')"
  using assms by (cases x) (simp add: code_of_def)

fun perform :: "'v client_site \<Rightarrow> bake_client \<Rightarrow> bake_provider_handle \<Rightarrow> api_call \<Rightarrow> 'v \<Rightarrow> int \<times> 'v" where
  "perform C c ph (Api_probe n null) v = code_of (bake_probe C c ph n null v)"
| "perform C c ph (Api_create tid n) v = code_of (bake_create C c ph tid n v)"
| "perform C c ph (Api_write tid rid off buf n) v = bake_write C c ph tid rid off buf n v"
| "perform C c ph (Api_proxy_write tid rid off b boff a n) v = bake_proxy_write C c ph tid rid off b boff a n v"
| "perform C c ph (Api_persist tid rid off n) v = bake_persist C c ph tid rid off n v"
| "perform C c ph (Api_create_write_persist tid buf n) v = code_of (bake_create_write_persist C c ph tid buf n v)"
| "perform C c ph (Api_create_write_persist_proxy tid b boff a n) v =
    code_of (bake_create_write_persist_proxy C c ph tid b boff a n v)"
| "perform C c ph (Api_get_size tid rid) v = code_of (bake_get_size C c ph tid rid v)"
| "perform C c ph (Api_get_data tid rid) v = code_of (bake_get_data C c ph tid rid v)"
| "perform C c ph Api_noop v = bake_noop C c ph v"
| "perform C c ph (Api_read tid rid off buf n) v = code_of (bake_read C c ph tid rid off buf n v)"
| "perform C c ph (Api_proxy_read tid rid off b boff a n) v = code_of (bake_proxy_read C c ph tid rid off b boff a n v)"
| "perform C c ph (Api_remove tid rid) v = bake_remove C c ph tid rid v"
| "perform C c ph (Api_migrate_region tid rid n rm a pid dtid) v =
    code_of (bake_migrate_region C c ph tid rid n rm a pid dtid v)"
| "perform C c ph (Api_migrate_target tid rm a pid dir) v = bake_migrate_target C c ph tid rm a pid dir v"

section \<open>What happens to handles\<close>

datatype handle_event = Created hg_handle | Destroyed hg_handle | Bulk_created hg_bulk | Bulk_freed hg_bulk

text \<open>\<open>log v\<close> is the history of handle calls up to the state \<open>v\<close>: the calls add to it and nothing else does.\<close>

definition logs :: "'v client_site \<Rightarrow> ('v \<Rightarrow> handle_event list) \<Rightarrow> bool" where
  "logs C log \<longleftrightarrow>
    (\<forall>i a v r h v'. margo_create (cs_margo C) i a v = ((r, h), v') \<longrightarrow>
       log v' = log v @ (if r = HG_SUCCESS then [Created h] else [])) \<and>
    (\<forall>h v. log (margo_destroy (cs_margo C) h v) = log v @ [Destroyed h]) \<and>
    (\<forall>p n v r b v'. bulk_create (cs_env C) p n v = ((r, b), v') \<longrightarrow>
       log v' = log v @ (if r = HG_SUCCESS then [Bulk_created b] else [])) \<and>
    (\<forall>b v. log (bulk_free (cs_env C) b v) = log v @ [Bulk_freed b]) \<and>
    (\<forall>pid h x v r v'. margo_provider_forward (cs_margo C) pid h x v = (r, v') \<longrightarrow> log v' = log v) \<and>
    (\<forall>h old v r v'. margo_get_output (cs_margo C) h old v = (r, v') \<longrightarrow> log v' = log v) \<and>
    (\<forall>h v. log (margo_free_output (cs_margo C) h v) = log v) \<and>
    (\<forall>v r v'. addr_self (cs_margo C) v = (r, v') \<longrightarrow> log v' = log v) \<and>
    (\<forall>a v. log (addr_free (cs_margo C) a v) = log v) \<and>
    (\<forall>p d v. log (client_store (cs_margo C) p d v) = log v)"

lemma logsD:
  assumes "logs C log"
  shows "margo_create (cs_margo C) i a v = ((r, h), v') \<Longrightarrow> log v' = log v @ (if r = HG_SUCCESS then [Created h] else [])"
    and "log (margo_destroy (cs_margo C) h v) = log v @ [Destroyed h]"
    and "bulk_create (cs_env C) p n v = ((r, b), v') \<Longrightarrow> log v' = log v @ (if r = HG_SUCCESS then [Bulk_created b] else [])"
    and "log (bulk_free (cs_env C) b v) = log v @ [Bulk_freed b]"
    and "margo_provider_forward (cs_margo C) pid h x v = (r, v') \<Longrightarrow> log v' = log v"
    and "margo_get_output (cs_margo C) h old v = (q, v') \<Longrightarrow> log v' = log v"
    and "log (margo_free_output (cs_margo C) h v) = log v"
    and "addr_self (cs_margo C) v = (q', v') \<Longrightarrow> log v' = log v"
    and "log (addr_free (cs_margo C) a v) = log v"
    and "log (client_store (cs_margo C) p d v) = log v"
  using assms unfolding logs_def by meson+

text \<open>
  The history of one operation: perhaps a bulk handle around it, the RPC handle inside. A handle
  variable is passed to \<open>margo_destroy\<close> even if its creation failed.
\<close>

inductive tidy :: "handle_event list \<Rightarrow> bool" where
  "tidy []"
| "tidy [Destroyed h]"
| "tidy [Created h, Destroyed h]"
| "tidy [Bulk_freed b, Destroyed h]"
| "tidy [Bulk_created b, Bulk_freed b, Destroyed h]"
| "tidy [Bulk_created b, Created h, Bulk_freed b, Destroyed h]"

lemma rpc_call_log:
  assumes "logs C log" and "rpc_call (cs_margo C) rpc ph inp con sel blank v = ((r, h), v')"
  shows "log v' = log v @ (if r = Create_failed then [] else [Created h])"
proof -
  note d = logsD [OF assms(1)]
  obtain r1 h1 v1 where c: "margo_create (cs_margo C) rpc (ph_addr ph) v = ((r1, h1), v1)" by (metis surj_pair)
  obtain r2 v2 where f: "margo_provider_forward (cs_margo C) (ph_provider_id ph) h1 (inp v1) v1 = (r2, v2)" by (metis surj_pair)
  obtain r3 o1 v3 where g: "margo_get_output (cs_margo C) h1 (con blank) v2 = ((r3, o1), v3)" by (metis surj_pair)
  show ?thesis
    using assms(2) c f g d(1) [OF c] d(5) [OF f] d(6) [OF g]
    by (auto simp: rpc_call_def Let_def split: if_splits option.splits)
qed

lemma rpc_finish_log: "logs C log \<Longrightarrow> log (rpc_finish (cs_margo C) h v) = log v @ [Destroyed h]"
  by (simp add: rpc_finish_def logsD)

definition adds_tidy :: "('v \<Rightarrow> handle_event list) \<Rightarrow> 'v \<Rightarrow> 'v \<Rightarrow> bool" where
  "adds_tidy log v v' \<longleftrightarrow> (\<exists>new. log v' = log v @ new \<and> tidy new)"

lemma rpc_call_finish_tidy:
  assumes "logs C log" and "rpc_call (cs_margo C) rpc ph inp con sel blank v = ((r, h), v1)" and "log v2 = log v1"
  shows "adds_tidy log v (rpc_finish (cs_margo C) h v2)" and "adds_tidy log v (margo_destroy (cs_margo C) h v2)"
    and "r = Create_failed \<Longrightarrow> adds_tidy log v v1"
  using rpc_call_log [OF assms(1,2)] rpc_finish_log [OF assms(1)] assms(3) logsD(2) [OF assms(1)]
  by (auto simp: adds_tidy_def tidy.simps)

lemma rpc_roundtrip_tidy:
  assumes "logs C log" and "rpc_roundtrip (cs_margo C) rpc ph inp con sel blank v = (r, v')"
  shows "adds_tidy log v v'"
proof -
  obtain st h v1 where c: "rpc_call (cs_margo C) rpc ph inp con sel blank v = ((st, h), v1)" by (metis surj_pair)
  show ?thesis using rpc_call_finish_tidy(1) [OF assms(1) c refl] assms(2) c by (simp add: rpc_roundtrip_def)
qed

lemma bulk_roundtrip_tidy:
  assumes "logs C log" and "bulk_roundtrip C rpc ph buf n inp con sel blank v = (r, v')"
  shows "adds_tidy log v v'"
proof -
  note d = logsD [OF assms(1)]
  obtain hret b v1 where b: "bulk_create (cs_env C) buf n v = ((hret, b), v1)" by (metis surj_pair)
  obtain st h v2 where c: "rpc_call (cs_margo C) rpc ph (\<lambda>_. inp b) con sel blank v1 = ((st, h), v2)" by (metis surj_pair)
  show ?thesis
    using assms(2) b c d(3) [OF b] rpc_call_log [OF assms(1) c]
    by (auto simp: bulk_roundtrip_def Let_def adds_tidy_def d(2,4,7) tidy.simps split: if_splits)
qed

lemma eager_write_tidy:
  assumes "logs C log" and "bake_eager_write C c ph tid rid off buf n v = (r, v')"
  shows "adds_tidy log v v'"
proof -
  let ?inp = "\<lambda>v. In_eager_write \<lparr>ewi_bti = tid, ewi_rid = rid, ewi_region_offset = off, ewi_size = n,
      ewi_buffer = client_load (cs_margo C) buf (unat n) v\<rparr>"
  obtain st h v1 where call: "rpc_call (cs_margo C) (cl_id c bake_eager_write_id) ph ?inp Out_eager_write sel_eager_write (junk_ret C) v =
      ((st, h), v1)" by (metis surj_pair)
  show ?thesis using rpc_call_finish_tidy [OF assms(1) call refl] assms(2) call
    by (cases st) (auto simp: bake_eager_write_def)
qed

lemma eager_read_tidy:
  assumes "logs C log" and "bake_eager_read C c ph tid rid off buf n v = (r, v')"
  shows "adds_tidy log v v'"
proof -
  let ?inp = "\<lambda>_ :: 'a. In_eager_read \<lparr>xi_bti = tid, xi_rid = rid, xi_offset = off, xi_size = n\<rparr>"
  let ?blank = "\<lparr>ero_ret = cs_junk_ret C, ero_size = 0, ero_buffer = []\<rparr>"
  obtain st h v1 where call: "rpc_call (cs_margo C) (cl_id c bake_eager_read_id) ph ?inp Out_eager_read sel_eager_read ?blank v =
      ((st, h), v1)" by (metis surj_pair)
  have "adds_tidy log v (rpc_finish (cs_margo C) h v2)" if "log v2 = log v1" for v2
    by (rule rpc_call_finish_tidy(1) [OF assms(1) call that])
  then show ?thesis using assms(2) call logsD(10) [OF assms(1)]
    by (cases st) (auto simp: bake_eager_read_def Let_def split: if_splits)
qed

lemma probe_tidy:
  assumes "logs C log" and "bake_probe C c ph n null v = (r, v')"
  shows "adds_tidy log v v'"
proof -
  let ?inp = "\<lambda>_ :: 'a. In_probe \<lparr>pri_max_targets = (if null then 0 else n)\<rparr>"
  let ?blank = "\<lparr>po_ret = cs_junk_ret C, po_num_targets = cs_junk_word C, po_targets = []\<rparr>"
  obtain st h v1 where call: "rpc_call (cs_margo C) (cl_id c bake_probe_id) ph ?inp Out_probe sel_probe ?blank v =
      ((st, h), v1)" by (metis surj_pair)
  show ?thesis using rpc_call_finish_tidy [OF assms(1) call refl] assms(2) call
    by (cases st) (auto simp: bake_probe_def Let_def)
qed

lemma noop_tidy:
  assumes "logs C log" and "bake_noop C c ph v = (r, v')"
  shows "adds_tidy log v v'"
proof -
  note d = logsD [OF assms(1)]
  obtain r1 h v1 where c: "margo_create (cs_margo C) (cl_id c bake_noop_id) (ph_addr ph) v = ((r1, h), v1)" by (metis surj_pair)
  obtain r2 v2 where f: "margo_provider_forward (cs_margo C) (ph_provider_id ph) h In_noop v1 = (r2, v2)" by (metis surj_pair)
  show ?thesis using assms(2) c f d(1) [OF c] d(5) [OF f]
    by (auto simp: bake_noop_def Let_def adds_tidy_def d(2) tidy.simps split: if_splits)
qed

lemma get_data_tidy:
  assumes "logs C log" and "bake_get_data C c ph tid rid v = (r, v')"
  shows "adds_tidy log v v'"
proof -
  note d = logsD [OF assms(1)]
  obtain q self v1 where a: "addr_self (cs_margo C) v = ((q, self), v1)" by (metis surj_pair)
  obtain same v2 where s: "same_address (cs_margo C) ph v = (same, v2)" by (metis surj_pair)
  have l: "log v2 = log v" using s a d(8) [OF a] d(9) by (auto simp: same_address_def Let_def split: if_splits prod.splits)
  show ?thesis
  proof (cases same)
    case False
    then show ?thesis using assms(2) s l rpc_finish_log [OF assms(1)] by (auto simp: bake_get_data_def adds_tidy_def tidy.simps)
  next
    case True
    obtain r1 v3 where rt: "rpc_roundtrip (cs_margo C) (cl_id c bake_get_data_id) ph (\<lambda>_. In_get_data \<lparr>ri_bti = tid, ri_rid = rid\<rparr>)
        Out_get_data sel_get_data (junk_word C) v2 = (r1, v3)" by (metis surj_pair)
    then show ?thesis using rpc_roundtrip_tidy [OF assms(1) rt] assms(2) s l True by (simp add: bake_get_data_def adds_tidy_def)
  qed
qed

lemmas roundtrip_ops = bake_create_def bake_proxy_write_def bake_persist_def bake_create_write_persist_proxy_def bake_get_size_def
  bake_proxy_read_def bake_remove_def bake_migrate_region_def bake_migrate_target_def bake_eager_create_write_persist_def

lemma read_tidy:
  assumes "logs C log" and "bake_read C c ph tid rid off buf n v = (r, v')"
  shows "adds_tidy log v v'"
  using assms(2) eager_read_tidy [OF assms(1)] bulk_roundtrip_tidy [OF assms(1)]
  by (cases "n \<le> ph_eager_limit ph") (auto simp: bake_read_def split: prod.splits)

lemma write_tidy:
  assumes "logs C log" and "bake_write C c ph tid rid off buf n v = (r, v')"
  shows "adds_tidy log v v'"
  using assms(2) eager_write_tidy [OF assms(1)] bulk_roundtrip_tidy [OF assms(1)]
  by (cases "n \<le> ph_eager_limit ph") (auto simp: bake_write_def split: prod.splits)

lemma cwp_tidy:
  assumes "logs C log" and "bake_create_write_persist C c ph tid buf n v = (r, v')"
  shows "adds_tidy log v v'"
  using assms(2) rpc_roundtrip_tidy [OF assms(1)] bulk_roundtrip_tidy [OF assms(1)]
  by (cases "n \<le> ph_eager_limit ph")
    (auto simp: bake_create_write_persist_def bake_eager_create_write_persist_def Let_def split: prod.splits)

text \<open>C16: No operation of the client leaks: whatever call of the network library fails, an RPC handle that
  the operation created is destroyed exactly once, as its last act, and a bulk handle that it created
  for the caller's buffer is freed exactly once, after the RPC.\<close>
theorem client_releases_handles:
  assumes "logs C log" and "perform C c ph call v = (ret, v')"
  shows "\<exists>new. log v' = log v @ new \<and> tidy new"
proof -
  note rt = rpc_roundtrip_tidy [OF assms(1)]
  have "adds_tidy log v v'"
  proof (cases call)
    case (Api_write tid rid off buf n)
    then show ?thesis using assms(2) by (auto intro: write_tidy [OF assms(1)])
  next
    case (Api_read tid rid off buf n)
    then show ?thesis using assms(2) by (auto elim!: code_ofE intro: read_tidy [OF assms(1)])
  next
    case (Api_create_write_persist tid buf n)
    then show ?thesis using assms(2) by (auto elim!: code_ofE intro: cwp_tidy [OF assms(1)])
  next
    case (Api_probe n null)
    then show ?thesis using assms(2) by (auto elim!: code_ofE intro: probe_tidy [OF assms(1)])
  next
    case (Api_get_data tid rid)
    then show ?thesis using assms(2) by (auto elim!: code_ofE intro: get_data_tidy [OF assms(1)])
  next
    case Api_noop
    then show ?thesis using assms(2) noop_tidy [OF assms(1)] by simp
  qed (use assms(2) rt in \<open>auto simp: roundtrip_ops elim!: code_ofE split: prod.splits\<close>)
  then show ?thesis by (simp add: adds_tidy_def)
qed

end
