(* ===== verification/Site_Sim.thy ===== *)
theory Site_Sim
  imports Server_Props Bake_Sim Rpc_Props
begin

text \<open>
  One concrete surrounding of the server: JSON values as trees, and margo calls that succeed on the
  world of \<open>Bake_Sim\<close>. The concrete instances of the theorems about the provider and the handlers
  run in it.
\<close>

section \<open>JSON values\<close>

datatype jv = JV (jv_type: json_type) (jv_int: int) (jv_string: cstring) (jv_fields: "(cstring \<times> jv) list") (jv_elems: "jv list")

fun jv_add :: "jv \<Rightarrow> cstring \<Rightarrow> jv \<Rightarrow> jv" where
  "jv_add (JV t i s fs es) k v = JV t i s ((k, v) # fs) es"

fun jv_del :: "jv \<Rightarrow> cstring \<Rightarrow> jv" where
  "jv_del (JV t i s fs es) k = JV t i s (filter (\<lambda>x. fst x \<noteq> k) fs) es"

fun jv_push :: "jv \<Rightarrow> jv \<Rightarrow> jv" where
  "jv_push (JV t i s fs es) v = JV t i s fs (es @ [v])"

definition jv_bool :: "jv option \<Rightarrow> bool" where
  "jv_bool v = (case v of None \<Rightarrow> False | Some v \<Rightarrow> jv_int v \<noteq> 0)"

definition sim_json :: "jv json" where
  "sim_json =
    \<lparr>json_object_object_get = (\<lambda>c k. map_of (jv_fields c) k),
     json_object_object_add = jv_add,
     json_object_object_del = jv_del,
     json_object_get_type = jv_type,
     json_object_new_object = JV json_type_object 0 [] [] [],
     json_object_new_array = JV json_type_array 0 [] [] [],
     json_object_new_int64 = (\<lambda>i. JV json_type_int i [] [] []),
     json_object_new_boolean = (\<lambda>b. JV json_type_boolean (if b then 1 else 0) [] [] []),
     json_object_new_string = (\<lambda>s. JV json_type_string 0 s [] []),
     json_object_get_boolean = jv_bool,
     json_object_get_int = (\<lambda>v. case v of None \<Rightarrow> 0 | Some v \<Rightarrow> jv_int v),
     json_object_get_string = jv_string,
     json_object_array_elems = jv_elems,
     json_object_array_add = jv_push,
     json_tokener_parse = (\<lambda>s. None),
     json_object_to_json_string = (\<lambda>v. [])\<rparr>"

lemma jv_sel:
  "jv_fields (jv_add c k v) = (k, v) # jv_fields c" "jv_fields (jv_del c k) = filter (\<lambda>x. fst x \<noteq> k) (jv_fields c)"
  "jv_elems (jv_push c v) = jv_elems c @ [v]" "jv_type (jv_add c k v) = jv_type c" "jv_type (jv_del c k) = jv_type c"
  "jv_type (jv_push c v) = jv_type c"
  by (cases c; simp)+

lemma map_of_filter_key: "map_of (filter (\<lambda>x. fst x \<noteq> k) xs) k' = (if k' = k then None else map_of xs k')"
  by (induction xs) auto

lemma sim_json_ok: "json_ok sim_json"
  by (simp add: json_ok_def sim_json_def jv_sel map_of_filter_key jv_bool_def)

section \<open>Margo\<close>

definition sim_margo :: "sim margo" where
  "sim_margo =
    \<lparr>addr_lookup = (\<lambda>a w. ((0, 5), w)), addr_dup = (\<lambda>a w. ((0, a), w)), addr_free = (\<lambda>a w. w),
     addr_self = (\<lambda>w. ((0, 1), w)), addr_to_string = (\<lambda>a n w. (0, [of_nat a], 1)),
     margo_create = (\<lambda>i a w. ((0, 1), w)), margo_provider_forward = (\<lambda>pid h x w. (0, w)),
     margo_get_output = (\<lambda>h old w. ((0, old), w)), margo_free_output = (\<lambda>h w. w), margo_destroy = (\<lambda>h w. w),
     margo_registered_name = (\<lambda>n w. None), margo_provider_registered_name = (\<lambda>n pid w. False),
     margo_register = (\<lambda>n w. (9, w)), margo_register_provider = (\<lambda>n pid w. (length n, w)),
     margo_deregister = (\<lambda>i w. w), margo_provider_push_finalize_callback = (\<lambda>w. w),
     margo_provider_pop_finalize_callback = (\<lambda>w. w), margo_shutdown_remote_instance = (\<lambda>a w. (0, w)),
     rwlock_create = (\<lambda>w. (0, w)), poolset_create = (\<lambda>a b c d w. ((0, 3), w)), poolset_destroy = (\<lambda>p w. (0, w)),
     abt_io_init = (\<lambda>n w. (1, w)), abt_io_finalize = (\<lambda>a w. w), abt_io_open = (\<lambda>p d w. (3, w)),
     fstat_size = (\<lambda>fd w. (0, of_nat (sim_len w))), uuid_is_null = (\<lambda>t. t = replicate 16 0),
     remi_fileset_create = (\<lambda>a b w. ((0, 1), w)), remi_fileset_register_file = (\<lambda>f n w. (0, w)),
     remi_fileset_register_metadata = (\<lambda>f k v w. w), remi_fileset_free = (\<lambda>f w. w),
     remi_provider_handle_create = (\<lambda>a p w. ((0, 1), w)), remi_provider_handle_release = (\<lambda>h w. w),
     remi_fileset_migrate = (\<lambda>h f r d w. (0, w)), remi_register_migration_class = (\<lambda>w. (0, w)),
     client_load = (\<lambda>p n w. extent (unat p) n (sim_remote w 7)),
     client_store = (\<lambda>p d w. w\<lparr>sim_remote := (sim_remote w)(7 := overlay (unat p) d (sim_remote w 7))\<rparr>)\<rparr>"

definition sim_site :: "(sim, jv) site" where
  "sim_site = \<lparr>st_env = sim_env, st_margo = sim_margo, st_json = sim_json, st_sizecheck = True, st_remi = False,
     st_junk_size = 0, st_junk_out = Out_noop, st_alloc = (\<lambda>prefix i. True)\<rparr>"

text \<open>A provider without targets, and memory with a formatted pool at its root.\<close>

definition sim_config :: jv where
  "sim_config = snd (validate_and_complete_config sim_json [49] (json_object_new_object sim_json))"

definition sim_provider :: "jv bake_provider" where
  "sim_provider = new_provider \<lparr>pa_json_config = None, pa_aid = 1, pa_remi_client = False, pa_remi_provider = False\<rparr> sim_config"

definition sim_tid :: bake_target_id where "sim_tid = replicate 16 7"

definition sim_memory :: memory where "sim_memory = overlay 64 sim_tid (\<lambda>_. 0)"

abbreviation sim_state :: "sim pm" where "sim_state \<equiv> (sim_memory, sim0)"

lemma sim_provider_ok: "pv_ok sim_provider"
  by (simp add: pv_ok_def sim_provider_def new_provider_def ut.invar_empty ut.elems_empty)

lemma sim_provider_empty: "target_ids sim_provider = []" "target_context sim_provider tid = None"
  by (simp_all add: target_ids_def sim_provider_def new_provider_def ut.elems_empty target_context_def
      find_target_entry_def hash_find_def)

lemma sim_split: "split_target_name (str ''pmem:/p'') = (str ''pmem'', str ''/p'')" "backend_of_type (str ''pmem'') = Some g_bake_pmem_backend"
  by (simp_all add: split_target_name_def bytes_of_string_def backend_of_type_def)

lemma sim_pmem_config: "fst (pmem_config sim_json sim_config) = Some ()"
proof -
  have "map_of (jv_fields sim_config) (str ''pmem_backend'') = None"
    by (simp add: sim_config_def validate_and_complete_config_def CONFIG_HAS_OR_CREATE_def CONFIG_OVERRIDE_STRING_def
        sim_json_def bytes_of_string_def)
  then show ?thesis
    by (simp add: pmem_config_def cfg_below_def CONFIG_HAS_OR_CREATE_OBJECT_def CONFIG_HAS_OR_CREATE_def
        CONFIG_HAS_OR_CREATE_ARRAY_def sim_json_def bytes_of_string_def Let_def)
qed

lemma sim_initialize:
  "\<exists>e config. backend_initialize sim_site g_bake_pmem_backend 1 sim_config (str ''/p'') sim_state =
     ((Inr (sim_tid, PmemContext e), config), sim_state)"
proof -
  obtain config where c: "pmem_config sim_json sim_config = (Some (), config)"
    using sim_pmem_config by (metis prod.collapse)
  have "extent 64 16 sim_memory = sim_tid" by (simp add: sim_memory_def extent_overlay_prefix sim_tid_def)
  moreover have "sim_tid \<noteq> replicate 16 0" by (simp add: sim_tid_def)
  ultimately show ?thesis
    by (simp add: backend_initialize_def bake_pmem_backend_initialize_def sim_site_def sim_env_def sim_margo_def c Let_def
        split: option.split)
qed

lemma sim_attach:
  "\<exists>p' e. bake_provider_attach_target sim_site (str ''pmem:/p'') (sim_provider, sim_state) =
     ((BAKE_SUCCESS, Some sim_tid), (p', sim_state)) \<and> pv_ok p' \<and> target_ids p' = [sim_tid] \<and> pv_num_targets p' = 1 \<and>
     target_context p' = [sim_tid \<mapsto> PmemContext e]"
proof -
  obtain e config where i: "backend_initialize sim_site g_bake_pmem_backend 1 sim_config (str ''/p'') sim_state =
     ((Inr (sim_tid, PmemContext e), config), sim_state)" using sim_initialize by blast
  let ?p = "sim_provider\<lparr>pv_json_cfg := config\<rparr>"
  note c = pv_ok_cong [of ?p sim_provider, simplified]
  obtain ret res p' s' where run: "insert_target sim_site sim_tid (PmemContext e) (?p, sim_state) = ((ret, res), (p', s'))"
    by (metis surj_pair)
  have at: "bake_provider_attach_target sim_site (str ''pmem:/p'') (sim_provider, sim_state) = ((ret, res), (p', s'))"
    using i run by (simp add: bake_provider_attach_target_def sim_split sim_provider_def new_provider_def)
  have "pv_ok ?p" "target_context ?p sim_tid = None" using sim_provider_ok sim_provider_empty(2) by (simp_all add: c)
  note n = insert_target_new [OF this run]
  have "target_context sim_provider = Map.empty" by (rule ext) (simp add: sim_provider_empty)
  then show ?thesis
    using at n by (auto simp: c sim_provider_empty) (simp add: sim_provider_def new_provider_def)
qed


section \<open>Concrete instances\<close>

theorem provider_attach_refines_witness:
  "\<exists>p'. bake_provider_attach_target sim_site (str ''pmem:/p'') (sim_provider, sim_state) =
     ((BAKE_SUCCESS, Some sim_tid), (p', sim_state)) \<and> pv_ok p' \<and> target_ids p' = [sim_tid]"
proof -
  obtain p' where r: "bake_provider_attach_target sim_site (str ''pmem:/p'') (sim_provider, sim_state) =
     ((BAKE_SUCCESS, Some sim_tid), (p', sim_state))" using sim_attach by blast
  from provider_attach_refines [OF sim_provider_ok _ sim_split(1) r] obtain i config where ok: "pv_ok p'"
    "case i of Inl e \<Rightarrow> BAKE_SUCCESS = e \<and> e < 0 \<and> Some sim_tid = None \<and> p' = sim_provider\<lparr>pv_json_cfg := config\<rparr>
      | Inr (tid, ctx) \<Rightarrow> BAKE_SUCCESS = BAKE_SUCCESS \<and> Some sim_tid = Some tid \<and> target_ids p' = target_ids sim_provider @ [tid] \<and>
          target_context p' = (target_context sim_provider)(tid \<mapsto> ctx) \<and> pv_json_cfg p' = config \<and>
          pv_num_targets p' = pv_num_targets sim_provider + 1 \<and>
          pv_lock_calls p' = pv_lock_calls sim_provider @ [ABT_rwlock_wrlock, ABT_rwlock_unlock]"
    unfolding sim_split(2) option.case using sim_provider_empty(2) by blast
  then have "target_ids p' = [sim_tid]"
    by (cases i) (auto simp: sim_provider_empty bake_err_defs)
  with r ok(1) show ?thesis by blast
qed

theorem provider_detach_refines_witness:
  "\<exists>p1 p2 s2. bake_provider_attach_target sim_site (str ''pmem:/p'') (sim_provider, sim_state) =
     ((BAKE_SUCCESS, Some sim_tid), (p1, sim_state)) \<and>
     bake_provider_detach_target sim_site sim_tid (p1, sim_state) = (BAKE_SUCCESS, (p2, s2)) \<and>
     target_ids p2 = [] \<and> pv_num_targets p2 = 1"
proof -
  obtain p1 ctx where r: "bake_provider_attach_target sim_site (str ''pmem:/p'') (sim_provider, sim_state) =
     ((BAKE_SUCCESS, Some sim_tid), (p1, sim_state))" "pv_ok p1" "target_ids p1 = [sim_tid]" "pv_num_targets p1 = 1"
    "target_context p1 = [sim_tid \<mapsto> PmemContext ctx]" using sim_attach by blast
  obtain ret p2 s2 where d: "bake_provider_detach_target sim_site sim_tid (p1, sim_state) = (ret, (p2, s2))"
    by (metis surj_pair)
  from provider_detach_refines [OF r(2) d] r d show ?thesis by auto
qed

theorem provider_detach_all_releases_witness:
  "\<exists>p1 p2 s2. bake_provider_attach_target sim_site (str ''pmem:/p'') (sim_provider, sim_state) =
     ((BAKE_SUCCESS, Some sim_tid), (p1, sim_state)) \<and>
     bake_provider_detach_all_targets sim_site (p1, sim_state) = (BAKE_SUCCESS, (p2, s2)) \<and>
     target_ids p2 = [] \<and> pv_num_targets p2 = 0"
proof -
  obtain p1 where r: "bake_provider_attach_target sim_site (str ''pmem:/p'') (sim_provider, sim_state) =
     ((BAKE_SUCCESS, Some sim_tid), (p1, sim_state))" "pv_ok p1" using sim_attach by blast
  obtain ret p2 s2 where d: "bake_provider_detach_all_targets sim_site (p1, sim_state) = (ret, (p2, s2))"
    by (metis surj_pair)
  from provider_detach_all_releases [OF r(2) d] r d show ?thesis by auto
qed

theorem validate_config_typed_witness:
  "\<exists>config. validate_and_complete_config sim_json [49] (json_object_new_object sim_json) = (Some (), config) \<and>
    (\<exists>v. json_object_object_get sim_json config (str ''pipeline_npools'') = Some v \<and>
      json_object_get_type sim_json v = json_type_int)"
proof -
  let ?r = "validate_and_complete_config sim_json [49] (json_object_new_object sim_json)"
  note v = validate_config_typed [OF sim_json_ok, of "[49]" "json_object_new_object sim_json"]
  have "fst ?r \<noteq> None" using v by (simp add: mistyped_def json_okD(3) [OF sim_json_ok])
  then obtain config where c: "?r = (Some (), config)" by (cases ?r) auto
  moreover have "(str ''pipeline_npools'', json_type_int, json_object_new_int64 sim_json 4) \<in> set (pipeline_settings sim_json)"
    by (simp add: pipeline_settings_def)
  ultimately show ?thesis using v by blast
qed

theorem poolset_dangling_witness:
  "\<exists>p1 s1 p2 s2. bake_provider_set_param sim_site (str ''pipeline_enable'') (str ''false'')
      (sim_provider\<lparr>pv_poolset := 3\<rparr>, (sim_memory, sim0)) = (0, (p1, s1)) \<and>
    bake_provider_set_param sim_site (str ''pipeline_enable'') (str ''true'') (p1, s1) = (0, (p2, s2)) \<and> pv_poolset p2 = 3"
proof -
  obtain r1 p1 s1 where a: "bake_provider_set_param sim_site (str ''pipeline_enable'') (str ''false'')
      (sim_provider\<lparr>pv_poolset := 3\<rparr>, (sim_memory, sim0)) = (r1, (p1, s1))" by (metis surj_pair)
  obtain r2 p2 s2 where b: "bake_provider_set_param sim_site (str ''pipeline_enable'') (str ''true'') (p1, s1) = (r2, (p2, s2))"
    by (metis surj_pair)
  have d: "poolset_destroy (st_margo sim_site) (pv_poolset (sim_provider\<lparr>pv_poolset := 3\<rparr>)) sim0 = (0, sim0)"
    "st_json sim_site = sim_json" by (simp_all add: sim_site_def sim_margo_def)
  have "r1 = 0" using a by (auto simp: bake_provider_set_param_def split: if_splits)
  with poolset_dangling [OF sim_json_ok d(2) _ d(1) a b] a b show ?thesis by auto
qed

text \<open>Memory in which only the pool \<open>/p\<close> exists and no pool can be made, and a configuration that
  names a second one.\<close>

definition half_env :: "sim env" where
  "half_env = sim_env\<lparr>pmemobj_open := (\<lambda>name w. (if name = str ''/p'' then Some 1 else None, w)),
     pmemobj_create := (\<lambda>name n w. (None, w))\<rparr>"

definition half_site :: "(sim, jv) site" where
  "half_site = sim_site\<lparr>st_env := half_env\<rparr>"

definition two_pools :: jv where
  "two_pools = JV json_type_object 0 [] [(str ''targets'', JV json_type_array 0 [] []
     [JV json_type_string 0 (str ''/p'') [] [], JV json_type_string 0 (str ''/q'') [] []])] []"

definition half_provider :: "jv bake_provider" where
  "half_provider = sim_provider\<lparr>pv_json_cfg := jv_add sim_config (str ''pmem_backend'') (jv_del two_pools (str ''targets''))\<rparr>"

lemma half_attach:
  "\<exists>p'. attach_or_create half_site 0 (str ''pmem:/p'') (half_provider, sim_state) = (Returns BAKE_SUCCESS, (p', sim_state))"
proof -
  let ?cfg = "pv_json_cfg half_provider"
  have "fst (pmem_config sim_json ?cfg) = Some ()"
    by (simp add: half_provider_def pmem_config_def cfg_below_def CONFIG_HAS_OR_CREATE_OBJECT_def CONFIG_HAS_OR_CREATE_def
        CONFIG_HAS_OR_CREATE_ARRAY_def sim_json_def two_pools_def jv_sel bytes_of_string_def Let_def)
  then obtain config where c: "pmem_config sim_json ?cfg = (Some (), config)" by (metis prod.collapse)
  have "extent 64 16 sim_memory = sim_tid" by (simp add: sim_memory_def extent_overlay_prefix sim_tid_def)
  moreover have "sim_tid \<noteq> replicate 16 0" by (simp add: sim_tid_def)
  ultimately have "\<exists>ctx config'. backend_initialize half_site g_bake_pmem_backend 1 ?cfg (str ''/p'') sim_state =
     ((Inr (sim_tid, ctx), config'), sim_state)"
    by (simp add: backend_initialize_def bake_pmem_backend_initialize_def half_site_def half_env_def sim_site_def sim_env_def
        sim_margo_def c Let_def split: option.split)
  then obtain ctx config' where i: "backend_initialize half_site g_bake_pmem_backend 1 ?cfg (str ''/p'') sim_state =
     ((Inr (sim_tid, ctx), config'), sim_state)" by blast
  let ?p = "half_provider\<lparr>pv_json_cfg := config'\<rparr>"
  obtain ret res p' s' where run: "insert_target half_site sim_tid ctx (?p, sim_state) = ((ret, res), (p', s'))"
    by (metis surj_pair)
  have "pv_ok ?p" "target_context ?p sim_tid = None" using sim_provider_ok sim_provider_empty(2)
    by (simp_all add: half_provider_def pv_ok_cong [of "sim_provider\<lparr>pv_json_cfg := config'\<rparr>" sim_provider, simplified])
  note n = insert_target_new [OF this run]
  have "bake_provider_attach_target half_site (str ''pmem:/p'') (half_provider, sim_state) = ((ret, res), (p', s'))"
    using i run by (simp add: bake_provider_attach_target_def sim_split half_provider_def sim_provider_def new_provider_def)
  then show ?thesis using n by (simp add: attach_or_create_def bake_err_defs)
qed

lemma half_fail:
  "\<exists>ret st'. attach_or_create half_site 0 (str ''pmem:/q'') st = (Returns ret, st') \<and> ret \<noteq> 0"
proof -
  obtain p m w where st: "st = (p, m, w)" by (cases st)
  have q: "split_target_name (str ''pmem:/q'') = (str ''pmem'', str ''/q'')"
    by (simp add: split_target_name_def bytes_of_string_def)
  have o: "pmemobj_open half_env (str ''/q'') w = (None, w)" "pmemobj_create half_env (str ''/q'') n w = (None, w)" for n w
    by (simp_all add: half_env_def bytes_of_string_def)
  obtain r config where c: "pmem_config sim_json (pv_json_cfg p) = (r, config)" by (metis surj_pair)
  show ?thesis
    by (cases r) (simp_all add: st attach_or_create_def bake_provider_attach_target_def q sim_split backend_initialize_def
        bake_pmem_backend_initialize_def half_site_def sim_site_def c o Let_def last_slash_def case_prod_unfold
        bake_provider_create_target_def bake_create_raw_target_def bake_pmem_makepool_def bake_err_defs)
qed

theorem attach_targets_double_free_witness:
  "\<exists>ret frees st'. attach_targets half_site (str ''pmem'') (str ''pmem_backend'') two_pools (sim_provider, sim_state) =
     (Returns (ret, frees), st') \<and> ret \<noteq> 0 \<and> frees = [0, 0, 1] \<and> count_list frees 0 = 2"
proof -
  obtain p1 where a: "attach_or_create half_site 0 (str ''pmem:/p'') (half_provider, sim_state) =
     (Returns BAKE_SUCCESS, (p1, sim_state))" using half_attach by blast
  obtain ret st' where b: "attach_or_create half_site 0 (str ''pmem:/q'') (p1, sim_state) = (Returns ret, st')" "ret \<noteq> 0"
    using half_fail by blast
  have names: "target_name (str ''pmem'') (str ''/p'') = str ''pmem:/p''" "target_name (str ''pmem'') (str ''/q'') = str ''pmem:/q''"
    by (simp_all add: target_name_def bytes_of_string_def)
  have alloc: "st_alloc half_site pre i" for pre i by (simp add: half_site_def sim_site_def)
  have j: "st_json half_site = sim_json"
    "json_object_object_get sim_json two_pools (str ''default_initial_target_size'') = None"
    "json_object_object_get sim_json two_pools (str ''targets'') = Some (snd (hd (jv_fields two_pools)))"
    "json_object_array_elems sim_json (snd (hd (jv_fields two_pools))) =
       [JV json_type_string 0 (str ''/p'') [] [], JV json_type_string 0 (str ''/q'') [] []]"
    "json_object_get_string sim_json = jv_string"
    "sim_provider\<lparr>pv_json_cfg := json_object_object_add sim_json (pv_json_cfg sim_provider) (str ''pmem_backend'')
       (json_object_object_del sim_json two_pools (str ''targets''))\<rparr> = half_provider"
    by (simp_all add: half_site_def sim_site_def sim_json_def two_pools_def half_provider_def sim_provider_def new_provider_def
        bytes_of_string_def)
  have r: "attach_targets half_site (str ''pmem'') (str ''pmem_backend'') two_pools (sim_provider, sim_state) =
     (Returns (ret, [0, 0, 1]), st')"
    using a b
    by (simp add: attach_targets_def CONFIG_HAS_def j names upt_rec bake_err_defs target_names_def initial_target_size_def
        without_targets_def alloc)
  have t: "CONFIG_HAS (st_json half_site) two_pools (str ''targets'') = Some (snd (hd (jv_fields two_pools)))"
    by (simp add: CONFIG_HAS_def j)
  let ?names = "target_names half_site (str ''pmem'') (snd (hd (jv_fields two_pools)))"
  have k: "1 = attached_before half_site (initial_target_size sim_json two_pools) ?names
      (without_targets half_site (str ''pmem_backend'') two_pools sim_provider, sim_state)"
    using a b by (simp add: CONFIG_HAS_def j names bake_err_defs target_names_def initial_target_size_def without_targets_def)
  from attach_targets_double_free [OF t refl _ k [folded j(1)] r b(2)] alloc have "count_list [0, 0, 1::nat] 0 = 2" by blast
  with r b(2) show ?thesis by blast
qed

theorem deregister_all_rpcs_witness:
  "mset (map ((!) (fst (register_rpcs sim_margo 1 server_rpc_names sim0))) deregister_order) =
   mset (fst (register_rpcs sim_margo 1 server_rpc_names sim0))"
proof -
  obtain ids w' where "register_rpcs sim_margo 1 server_rpc_names sim0 = (ids, w')" by fastforce
  with deregister_all_rpcs [OF this, of sim0] show ?thesis by simp
qed

definition sim_query :: rpc_in where
  "sim_query = In_eager_read \<lparr>xi_bti = sim_tid, xi_rid = zero_rid, xi_offset = 0, xi_size = 4\<rparr>"



theorem unknown_target_uninitialised_witness:
  "\<exists>cs. fst (serve sim_site 1 [] (\<lambda>_. []) sim_query (Some sim_provider, sim_state)) = Some (cs @ [Call_free_data None])"
  using unknown_target_uninitialised [OF sim_provider_ok sim_provider_empty(2) [of sim_tid], of _ sim_site 1 "[]" "\<lambda>_. []"]
  by (auto simp: sim_query_def)

theorem probe_lists_targets_witness:
  "\<exists>p1 p'. bake_provider_attach_target sim_site (str ''pmem:/p'') (sim_provider, sim_state) =
     ((BAKE_SUCCESS, Some sim_tid), (p1, sim_state)) \<and>
    bake_probe_ult (\<lambda>_. []) (Some p1, sim_state) =
    (Some [Respond (Out_probe \<lparr>po_ret = BAKE_SUCCESS, po_num_targets = 1, po_targets = [sim_tid]\<rparr>), Destroy], (Some p', sim_state))"
proof -
  obtain p1 where r: "bake_provider_attach_target sim_site (str ''pmem:/p'') (sim_provider, sim_state) =
     ((BAKE_SUCCESS, Some sim_tid), (p1, sim_state))" "target_ids p1 = [sim_tid]" "pv_num_targets p1 = 1"
    using sim_attach by blast
  with probe_lists_targets [of p1 "\<lambda>_. []" sim_state] show ?thesis by auto
qed

end
