(* ===== verification/Client_Sim.thy ===== *)
theory Client_Sim
  imports End_To_End Client_Handles Client_Props Site_Sim
begin

text \<open>
  One concrete network: client and server in one world, messages encoded in little endian, every
  request served at once. The concrete instances of the theorems about the client run in it.
\<close>

section \<open>The network\<close>

record loop =
  lp_host :: "(sim, jv) host"
  lp_resp :: "hg_handle \<Rightarrow> byte list option"
  lp_mem :: memory
  lp_log :: "handle_event list"
  lp_shared :: "(u64 \<times> u64) option"

definition loop_log :: "handle_event \<Rightarrow> loop \<Rightarrow> loop" where
  "loop_log e v = v\<lparr>lp_log := lp_log v @ [e]\<rparr>"

lemma loop_log_simps [simp]:
  "lp_host (loop_log e v) = lp_host v" "lp_resp (loop_log e v) = lp_resp v" "lp_mem (loop_log e v) = lp_mem v"
  "lp_log (loop_log e v) = lp_log v @ [e]" "lp_shared (loop_log e v) = lp_shared v"
  by (simp_all add: loop_log_def)

fun loop_blank :: "rpc_in \<Rightarrow> rpc_in" where
  "loop_blank (In_eager_write x) = In_eager_write (x\<lparr>ewi_buffer := []\<rparr>)"
| "loop_blank (In_eager_create_write_persist x) = In_eager_create_write_persist (x\<lparr>ecwi_buffer := []\<rparr>)"
| "loop_blank x = x"

fun responses :: "handle_call list \<Rightarrow> rpc_out list" where
  "responses [] = []"
| "responses (Respond out # cs) = out # responses cs"
| "responses (c # cs) = responses cs"

text \<open>
  The bulk handle 7 is the memory that was registered last: its contents as the server sees them are
  in the world of the server, and come back with the answer to a read request.
\<close>

definition loop_write_back :: "rpc_in \<Rightarrow> loop \<Rightarrow> loop" where
  "loop_write_back x v =
    (case (x, lp_shared v) of
       (In_read _, Some (p, n)) \<Rightarrow>
         v\<lparr>lp_mem := overlay (unat p) (extent 0 (unat n) (sim_remote (snd (snd (lp_host v))) 7)) (lp_mem v)\<rparr>
     | _ \<Rightarrow> v)"

lemma loop_write_back_simps [simp]:
  "lp_host (loop_write_back x v) = lp_host v" "lp_resp (loop_write_back x v) = lp_resp v"
  "lp_log (loop_write_back x v) = lp_log v" "lp_shared (loop_write_back x v) = lp_shared v"
  by (simp_all add: loop_write_back_def split: rpc_in.split option.split)

lemma loop_write_back_other: "(\<And>y. x \<noteq> In_read y) \<Longrightarrow> loop_write_back x v = v"
  by (simp add: loop_write_back_def split: rpc_in.split)

definition loop_forward :: "u16 \<Rightarrow> hg_handle \<Rightarrow> rpc_in \<Rightarrow> loop \<Rightarrow> int \<times> loop" where
  "loop_forward pid h x v =
    (let (r, y, rest) = dec_in le_proc (loop_blank x) (enc_in le_proc x)
     in if r \<noteq> HG_SUCCESS then (r, v)
        else
         (let (cs, hst) = serve sim_site 1 [] (\<lambda>_. replicate 16 0) y (lp_host v); v = loop_write_back x (v\<lparr>lp_host := hst\<rparr>)
          in case cs of
               None \<Rightarrow> (1, v)
             | Some cs \<Rightarrow>
                (case responses cs of
                   [] \<Rightarrow> (1, v)
                 | out # _ \<Rightarrow> (HG_SUCCESS, v\<lparr>lp_resp := (lp_resp v)(h := Some (enc_out le_proc out))\<rparr>))))"

definition loop_get_output :: "hg_handle \<Rightarrow> rpc_out \<Rightarrow> loop \<Rightarrow> (int \<times> rpc_out) \<times> loop" where
  "loop_get_output h old v =
    (case lp_resp v h of
       None \<Rightarrow> ((1, old), v)
     | Some bs \<Rightarrow> (let (r, out, rest) = dec_out le_proc old bs in ((r, out), v)))"

definition loop_margo :: "loop margo" where
  "loop_margo =
    \<lparr>addr_lookup = (\<lambda>a v. ((0, 5), v)), addr_dup = (\<lambda>a v. ((0, a), v)), addr_free = (\<lambda>a v. v),
     addr_self = (\<lambda>v. ((0, 1), v)), addr_to_string = (\<lambda>a n v. (0, [of_nat a], 1)),
     margo_create = (\<lambda>i a v. ((0, 1), loop_log (Created 1) v)), margo_provider_forward = loop_forward,
     margo_get_output = loop_get_output, margo_free_output = (\<lambda>h v. v), margo_destroy = (\<lambda>h v. loop_log (Destroyed h) v),
     margo_registered_name = (\<lambda>n v. None), margo_provider_registered_name = (\<lambda>n pid v. False),
     margo_register = (\<lambda>n v. (length n, v)), margo_register_provider = (\<lambda>n pid v. (length n, v)),
     margo_deregister = (\<lambda>i v. v), margo_provider_push_finalize_callback = (\<lambda>v. v),
     margo_provider_pop_finalize_callback = (\<lambda>v. v), margo_shutdown_remote_instance = (\<lambda>a v. (0, v)),
     rwlock_create = (\<lambda>v. (0, v)), poolset_create = (\<lambda>a b c d v. ((0, 3), v)), poolset_destroy = (\<lambda>p v. (0, v)),
     abt_io_init = (\<lambda>n v. (1, v)), abt_io_finalize = (\<lambda>a v. v), abt_io_open = (\<lambda>p d v. (3, v)),
     fstat_size = (\<lambda>fd v. (0, 3)), uuid_is_null = (\<lambda>t. t = replicate 16 0),
     remi_fileset_create = (\<lambda>a b v. ((0, 1), v)), remi_fileset_register_file = (\<lambda>f n v. (0, v)),
     remi_fileset_register_metadata = (\<lambda>f k x v. v), remi_fileset_free = (\<lambda>f v. v),
     remi_provider_handle_create = (\<lambda>a p v. ((0, 1), v)), remi_provider_handle_release = (\<lambda>h v. v),
     remi_fileset_migrate = (\<lambda>h f r d v. (0, v)), remi_register_migration_class = (\<lambda>v. (0, v)),
     client_load = (\<lambda>p n v. extent (unat p) n (lp_mem v)),
     client_store = (\<lambda>p d v. v\<lparr>lp_mem := overlay (unat p) d (lp_mem v)\<rparr>)\<rparr>"

lemma loop_margo_simps:
  "margo_create loop_margo = (\<lambda>i a v. ((0, 1), loop_log (Created 1) v))" "margo_provider_forward loop_margo = loop_forward"
  "margo_get_output loop_margo = loop_get_output" "margo_free_output loop_margo = (\<lambda>h v. v)"
  "margo_destroy loop_margo = (\<lambda>h v. loop_log (Destroyed h) v)" "client_load loop_margo = (\<lambda>p n v. extent (unat p) n (lp_mem v))"
  "client_store loop_margo = (\<lambda>p d v. v\<lparr>lp_mem := overlay (unat p) d (lp_mem v)\<rparr>)"
  by (simp_all add: loop_margo_def)

lemma loop_blank_fits: "in_fits old x \<Longrightarrow> in_fits (loop_blank x) x"
  by (erule in_fits.cases) (simp_all add: in_fits.simps)

lemma responses_in: "responses cs = out # outs \<Longrightarrow> Respond out \<in> set cs"
  by (induction cs rule: responses.induct) auto

lemma loop_forward_eq:
  assumes "in_fits old x" and "serve sim_site 1 [] (\<lambda>_. replicate 16 0) x (lp_host v) = (Some cs, hst)"
    and "responses cs = out # outs"
  shows "loop_forward pid h x v =
    (HG_SUCCESS, (loop_write_back x (v\<lparr>lp_host := hst\<rparr>))\<lparr>lp_resp := (lp_resp v)(h := Some (enc_out le_proc out))\<rparr>)"
  using assms prpcin.dec_enc_whole [of le_proc "loop_blank x" x] loop_blank_fits [OF assms(1)] le_proc_ok
  by (simp add: loop_forward_def)

lemma loop_net_ok: "net_ok loop_margo le_proc sim_site lp_host lp_resp"
  unfolding net_ok_def
proof (intro conjI)
  show "proc_ok le_proc" by (rule le_proc_ok)
  show "forward_ok loop_margo le_proc sim_site lp_host lp_resp"
    unfolding forward_ok_def
  proof (intro allI impI; elim conjE exE)
    fix pid h x v v' old
    assume f: "margo_provider_forward loop_margo pid h x v = (HG_SUCCESS, v')" and x: "in_fits old x"
    have bx: "in_fits (loop_blank x) x" by (rule loop_blank_fits [OF x])
    have d: "dec_in le_proc (loop_blank x) (enc_in le_proc x) = (HG_SUCCESS, x, [])"
      using prpcin.dec_enc_whole [of le_proc "loop_blank x" x] bx le_proc_ok by simp
    obtain cs hst where s: "serve sim_site 1 [] (\<lambda>_. replicate 16 0) x (lp_host v) = (cs, hst)" by (metis surj_pair)
    from f d s obtain cs' out outs where cs: "cs = Some cs'" "responses cs' = out # outs"
      "v' = (loop_write_back x (v\<lparr>lp_host := hst\<rparr>))\<lparr>lp_resp := (lp_resp v)(h := Some (enc_out le_proc out))\<rparr>"
      by (auto simp: loop_margo_simps loop_forward_def Let_def HG_SUCCESS_def split: option.splits list.splits)
    have j: "\<forall>i::nat. tid_ok ((\<lambda>_. replicate 16 0) i)" by simp
    show "\<exists>old y rest sender sched junk cs out. (\<forall>i. tid_ok (junk i)) \<and> in_fits old x \<and> dec_in le_proc old (enc_in le_proc x) = (HG_SUCCESS, y, rest) \<and>
         serve sim_site sender sched junk y (lp_host v) = (Some cs, lp_host v') \<and> Respond out \<in> set cs \<and>
         lp_resp v' h = Some (enc_out le_proc out)"
      using bx d s cs responses_in [OF cs(2)] j
      by (intro exI [of _ "loop_blank x"] exI [of _ x] exI [of _ "[]"] exI [of _ 1] exI [of _ "\<lambda>_. replicate 16 0"]
          exI [of _ cs'] exI [of _ out] conjI) simp_all
  qed
  show "output_ok loop_margo le_proc lp_host lp_resp"
    by (auto simp: output_ok_def loop_margo_simps loop_get_output_def split: prod.splits)
  show "handles_local loop_margo lp_host" by (simp add: handles_local_def loop_margo_simps)
  show "client_memory_ok loop_margo lp_host" by (simp add: client_memory_ok_def loop_margo_simps extent_overlay_prefix)
qed

text \<open>A call that the server answers.\<close>

lemma loop_call:
  assumes "in_fits old (inp (loop_log (Created 1) v))"
    and "serve sim_site 1 [] (\<lambda>_. replicate 16 0) (inp (loop_log (Created 1) v)) (lp_host (loop_log (Created 1) v)) = (Some cs, hst)"
    and "responses cs = out # outs" and "out_fits (con blank) out" and "sel out = Some x"
  shows "\<exists>v'. rpc_call loop_margo rpc provider inp con sel blank v = ((Answered x, 1), v') \<and> lp_host v' = hst \<and>
    ((\<forall>y. inp (loop_log (Created 1) v) \<noteq> In_read y) \<longrightarrow> lp_mem v' = lp_mem v)"
  using loop_forward_eq [OF assms(1-3)] loop_write_back_other [of "inp (loop_log (Created 1) v)"] prpcout.dec_enc_whole [of le_proc "con blank" out] assms(4,5) le_proc_ok
  by (simp add: rpc_call_def loop_margo_simps loop_get_output_def HG_SUCCESS_def)

section \<open>Concrete instances\<close>

text \<open>Registering memory makes its contents available to the server under the handle 7.\<close>

definition loop_expose :: "u64 \<Rightarrow> u64 \<Rightarrow> loop \<Rightarrow> loop" where
  "loop_expose p n v = (case lp_host v of (po, (m, w)) \<Rightarrow>
     v\<lparr>lp_host := (po, (m, w\<lparr>sim_remote := (sim_remote w)(7 := (\<lambda>q. lp_mem v (unat p + q)))\<rparr>)), lp_shared := Some (p, n)\<rparr>)"

definition loop_env :: "loop env" where
  "loop_env =
    \<lparr>posix_memalign = (\<lambda>al n v. ((0, 4096, []), v)), abt_io_pwrite = (\<lambda>fd d off v. (0, v)),
     abt_io_pread = (\<lambda>fd n off v. ((0, []), v)), abt_io_fdatasync = (\<lambda>fd v. (0, v)),
     abt_io_punch_hole = (\<lambda>fd off n v. (0, v)), open_excl = (\<lambda>n v. (3, v)), write_fd = (\<lambda>fd d v. (0, v)),
     close_fd = (\<lambda>fd v. v), uuid_generate = (\<lambda>v. ([], v)), poolset_get_max = (\<lambda>v. 0),
     poolset_get = (\<lambda>n v. ((1, 0), v)), poolset_release = (\<lambda>b v. v), bulk_access = (\<lambda>b n v. (1, 0, [])),
     bulk_pull = (\<lambda>a b off n v. ((1, []), v)), bulk_push = (\<lambda>a b off d v. (1, v)),
     bulk_create = (\<lambda>p n v. ((0, 7), loop_log (Bulk_created 7) (loop_expose p n v))), bulk_free = (\<lambda>b v. loop_log (Bulk_freed b) v), pmemobj_create = (\<lambda>n k v. (None, v)),
     pmemobj_open = (\<lambda>n v. (None, v)), pmemobj_close = (\<lambda>p v. v), pmemobj_root = (\<lambda>p n v. ([], v)),
     pmemobj_direct = (\<lambda>i v. 0), pmemobj_alloc = (\<lambda>p n v. ((1, []), v)), pmemobj_free = (\<lambda>i v. v),
     pmemobj_persist = (\<lambda>p d v. v)\<rparr>"

definition loop_client :: "loop client_site" where
  "loop_client = \<lparr>cs_env = loop_env, cs_margo = loop_margo, cs_calloc = True, cs_junk_ret = 77, cs_junk_word = 99,
     cs_junk_rid = zero_rid\<rparr>"

definition loop_ids :: bake_client where
  "loop_ids = \<lparr>cl_id = (\<lambda>_. 4), cl_num_provider_handles = 1\<rparr>"

definition loop_handle :: bake_provider_handle where
  "loop_handle = \<lparr>ph_client = 1, ph_addr = 1, ph_provider_id = 1, ph_refcount = 1, ph_eager_limit = BAKE_DEFAULT_EAGER_LIMIT\<rparr>"

definition loop_start :: "jv bake_provider \<Rightarrow> loop" where
  "loop_start p = \<lparr>lp_host = (Some p, (demo_memory, sim0)), lp_resp = (\<lambda>_. None), lp_mem = overlay 512 [1, 2, 3] (\<lambda>_. 0), lp_log = [], lp_shared = None\<rparr>"

lemma demo_ids: "tid_ok sim_tid" "wf_rid demo_prid"
  by (simp_all add: sim_tid_def demo_prid_def wf_rid_def BAKE_REGION_ID_DATA_SIZE_def)

lemma loop_bulk_exposes: "bulk_exposes loop_client sim_site lp_host (\<lambda>b w. sim_remote w b)"
  unfolding bulk_exposes_def
proof (intro conjI allI impI; (elim conjE)?)
  show "\<exists>w'. lp_host v' = (po, (m, w')) \<and> same_objects (st_env sim_site) w w' \<and>
      extent 0 (unat n) (sim_remote w' b) = client_load (cs_margo loop_client) ptr (unat n) v"
    if "bulk_create (cs_env loop_client) ptr n v = ((HG_SUCCESS, b), v')" "lp_host v = (po, (m, w))"
    for ptr n v b v' po m w
    using that by (auto simp: loop_client_def loop_env_def loop_expose_def same_objects_def sim_site_def sim_env_def
        loop_margo_simps extent_def)
  show "objects_stay (st_env sim_site) (st_margo sim_site)"
    by (auto simp: objects_stay_def same_objects_def sim_site_def sim_env_def sim_margo_def)
qed (auto simp: loop_client_def loop_env_def sim_site_def sim_remote_ok sim_margo_def)

lemma sim_hg_codes: "hg_codes_ok (st_env sim_site)"
  by (simp add: hg_codes_ok_def sim_site_def sim_env_def)

text \<open>A handle without eager mode, and a provider without pipelining.\<close>

definition bulk_handle_only :: bake_provider_handle where
  "bulk_handle_only = loop_handle\<lparr>ph_eager_limit := 0\<rparr>"

lemma demo_write_req: "pmem_req (st_env sim_site) (st_sizecheck sim_site) (prid_oid demo_prid) 100 3 0 (demo_memory, w)"
  by (simp add: pmem_req_def sim_site_def demo_direct) (simp add: sim_env_def demo_memory_def region_size_set)

lemma loop_bulk_write:
  assumes "pv_ok p" and "target_context p sim_tid = Some (PmemContext e)" and "\<not> pipeline_enable sim_json (pv_json_cfg p)"
  shows "\<exists>v1. bake_write loop_client loop_ids bulk_handle_only sim_tid demo_prid 100 512 3 (loop_start p) = (BAKE_SUCCESS, v1)"
proof -
  let ?x = "\<lparr>bi_bti = sim_tid, bi_rid = demo_prid, bi_region_offset = 100, bi_bulk_handle = 7, bi_bulk_offset = 0, bi_bulk_size = 3,
      bi_remote_addr_str = None\<rparr>"
  let ?inp = "\<lambda>_ :: loop. In_write ?x" and ?v = "loop_log (Bulk_created 7) (loop_expose 512 3 (loop_start p))"
  obtain w where h: "lp_host (loop_expose 512 3 (loop_start p)) = (Some p, (demo_memory, w))" by (simp add: loop_expose_def loop_start_def)
  obtain s2 where b: "backend_write_bulk sim_site (pv_json_cfg p) (PmemContext e) demo_prid 100 3 7 1 0 [] (demo_memory, w) =
      (Some BAKE_SUCCESS, s2)"
    using write_transfer_direct [OF _ _ demo_write_req, of 7 1 "[]" w] sim_bulk_reliable sim_bulk_create_reliable assms(3)
    by (cases "write_transfer_data (st_env sim_site) (st_sizecheck sim_site) False (prid_oid demo_prid) 100 7 0 3 1 [] (demo_memory, w)")
      (simp add: bake_pmem_write_bulk_def sim_site_def bake_err_defs)
  have ad: "addr_dup (st_margo sim_site) 1 w = ((0, 1), w)" by (simp add: sim_site_def sim_margo_def)
  have s: "serve sim_site 1 [] (\<lambda>_. replicate 16 0) (?inp (loop_log (Created 1) ?v)) (lp_host (loop_log (Created 1) ?v)) =
      (Some [Addr_free (Some 1), Respond (Out_write (ret_out BAKE_SUCCESS)), Free_input, Destroy],
       (Some (lock_op ABT_rwlock_unlock (lock_op ABT_rwlock_rdlock p)), (fst s2, addr_free (st_margo sim_site) 1 (snd s2))))"
    using serve_write_eq [of p ?x "PmemContext e" sim_site 1 w 0 1 w "[]" demo_memory "Some BAKE_SUCCESS" s2 "\<lambda>_. replicate 16 0"]
      assms(2) ad b by (simp add: h HG_SUCCESS_def)
  have f: "in_fits (In_write ?x) (?inp (loop_log (Created 1) ?v))" using demo_ids by (simp add: in_fits.simps)
  have f2: "out_fits (Out_write (junk_ret loop_client)) (Out_write (ret_out BAKE_SUCCESS))"
    by (simp add: out_fits.simps ret_out_def bake_err_defs)
  obtain v1 where "rpc_call loop_margo 4 bulk_handle_only ?inp Out_write sel_write (junk_ret loop_client) ?v =
      ((Answered (ret_out BAKE_SUCCESS), 1), v1)"
    using loop_call [where con = Out_write and sel = sel_write and x = "ret_out BAKE_SUCCESS" and blank = "junk_ret loop_client"
        and outs = "[]" and rpc = 4 and provider = bulk_handle_only and inp = ?inp and v = ?v, OF f s _ f2] by auto
  moreover have "bulk_create loop_env 512 3 (loop_start p) = ((HG_SUCCESS, 7), ?v)" by (simp add: loop_env_def HG_SUCCESS_def)
  ultimately show ?thesis
    by (simp add: bake_write_def bulk_handle_only_def loop_client_def loop_ids_def bulk_roundtrip_def answer_code_def ret_out_def Let_def)
qed

theorem client_write_stores_witness:
  "\<exists>p v1 p' w'. bake_write loop_client loop_ids bulk_handle_only sim_tid demo_prid 100 512 3 (loop_start p) = (BAKE_SUCCESS, v1) \<and>
    lp_host v1 = (Some p', (overlay 8300 [1, 2, 3] demo_memory, w'))"
proof -
  obtain p0 :: "jv bake_provider" and e where p0: "pv_ok p0" "target_context p0 = [sim_tid \<mapsto> PmemContext e]" using sim_attach by blast
  define p where "p = p0\<lparr>pv_json_cfg := JV json_type_object 0 [] [] []\<rparr>"
  note c = pv_ok_cong [of p p0, unfolded p_def, simplified, folded p_def]
  have p: "pv_ok p" "target_context p sim_tid = Some (PmemContext e)" "\<not> pipeline_enable sim_json (pv_json_cfg p)"
    using p0 by (simp_all add: c) (simp add: p_def pipeline_enable_def sim_json_def jv_bool_def)
  obtain v1 where w: "bake_write loop_client loop_ids bulk_handle_only sim_tid demo_prid 100 512 3 (loop_start p) = (BAKE_SUCCESS, v1)"
    using loop_bulk_write [OF p] by blast
  have ld: "client_load loop_margo 512 (unat (3 :: u64)) (loop_start p) = [1, 2, 3]"
    using extent_overlay_prefix [of 3 "[1, 2, 3]" 512 "\<lambda>_. 0"] by (simp add: loop_margo_simps loop_start_def)
  have h: "lp_host (loop_start p) = (Some p, (demo_memory, sim0))" "cs_margo loop_client = loop_margo"
    by (simp_all add: loop_start_def loop_client_def)
  have "(8300 :: nat) = data_at (st_sizecheck sim_site) (pmemobj_direct (st_env sim_site) (prid_oid demo_prid) sim0) + unat (100 :: u64)"
    by (simp add: sim_site_def demo_direct data_at_def)
  from client_write_stores [OF loop_net_ok h(2) loop_bulk_exposes sim_hg_codes h(1) p(1,2) demo_ids demo_write_req w this] ld
  show ?thesis using w by fastforce
qed

lemma loop_logs: "logs loop_client lp_log"
proof -
  have f: "loop_forward pid h x v = (r, v') \<Longrightarrow> lp_log v' = lp_log v" for pid h x v r v'
    by (auto simp: loop_forward_def Let_def split: prod.splits if_splits option.splits list.splits)
  have g: "loop_get_output h old v = (r, v') \<Longrightarrow> lp_log v' = lp_log v" for h old v r v'
    by (auto simp: loop_get_output_def split: option.splits prod.splits)
  have e: "lp_log (loop_expose q n v) = lp_log v" for q n v by (simp add: loop_expose_def split: prod.splits)
  show ?thesis unfolding logs_def by (auto simp: loop_client_def loop_env_def loop_margo_def HG_SUCCESS_def f g e)
qed

theorem client_releases_handles_witness:
  "\<exists>new. lp_log (snd (perform loop_client loop_ids bulk_handle_only (Api_write sim_tid demo_prid 100 512 3) (loop_start sim_provider))) =
      lp_log (loop_start sim_provider) @ new \<and> tidy new"
  by (rule client_releases_handles [OF loop_logs]) (rule prod.collapse [symmetric])

theorem provider_handles_safe_witness:
  "\<exists>client s. bake_client_init loop_client (\<lparr>hp_clients = (\<lambda>_. None), hp_handles = (\<lambda>_. None), hp_brk = 1\<rparr>, loop_start sim_provider) =
      ((BAKE_SUCCESS, Some client), s) \<and>
    (case ref_session (2 ^ 64 - 1) (create_handle loop_client client) retain_handle (release_handle loop_client)
        [Op_create (1, 1), Op_ref_incr 2, Op_release 2, Op_release 2] s (\<lambda>_. 0) of
      Fine (hp2, v2) refs \<Rightarrow> (\<forall>h. hp_handles hp2 h \<noteq> None \<longleftrightarrow> 0 < refs h) | Misuse \<Rightarrow> True | Dangling \<Rightarrow> False)"
proof -
  let ?hp = "\<lparr>hp_clients = (\<lambda>_. None), hp_handles = (\<lambda>_. None), hp_brk = 1\<rparr>"
  obtain hp' v' where i: "bake_client_init loop_client (?hp, loop_start sim_provider) = ((BAKE_SUCCESS, Some 1), (hp', v'))"
    by (simp add: bake_client_init_def loop_client_def bake_client_register_def loop_margo_def case_prod_unfold Let_def)
  from provider_handles_safe [OF i, of "[Op_create (1, 1), Op_ref_incr 2, Op_release 2, Op_release 2]"] i show ?thesis
    by (intro exI [of _ 1] exI [of _ "(hp', v')"]) (auto split: verdict.splits)
qed

end
