(* ===== verification/Cpp_Types.thy ===== *)
theory Cpp_Types
  imports Bake_Util
begin

text \<open>
  The C++ types shared by client and server (\<^verbatim>\<open>include/bake.hpp\<close>): the exception that carries a
  return code, and the classes \<open>target\<close> and \<open>region\<close> with their conversions to and from text. A
  method that throws yields \<open>Inl\<close> of the exception.
\<close>

section \<open>Exceptions\<close>

definition bake_error_messages :: "string list" where
  "bake_error_messages =
    ['''', ''Allocation error'', ''Invalid argument'', ''Mercury error'', ''Argobots error'', ''PMEM error'',
     ''Unknown target'', ''Unknown provider'', ''Unknown region'', ''Access out of bound'', ''REMI error'',
     ''Operation not supported'', ''Forbidden operation'', ''Unknown backend type'', ''Backend I/O error'',
     ''Entry does not exist'', ''Entry already exists'', ''Not enough memory'']"

record bake_exception =
  m_error :: int
  m_msg :: string

definition exception :: "int \<Rightarrow> bake_exception" where
  "exception error =
    \<lparr>m_error = error,
     m_msg = (if error < 0 \<and> error > BAKE_ERR_END then ''[BAKE] '' @ bake_error_messages ! nat (- error)
              else ''[BAKE] '' @ ''Unknown error code '' @ dec_int error)\<rparr>"

definition what :: "bake_exception \<Rightarrow> string" where "what e = m_msg e"

definition CHECK_RET :: "int \<Rightarrow> 'a \<Rightarrow> bake_exception + 'a" where
  "CHECK_RET ret x = (if ret \<noteq> BAKE_SUCCESS then Inl (exception ret) else Inr x)"

section \<open>Targets and regions\<close>

text \<open>
  The constructors from text ignore the return code: a text that cannot be parsed leaves the member
  as it is, \<open>junk\<close>. An object is represented by its only member.
\<close>

definition target_from_string :: "(cstring \<Rightarrow> bake_target_id option) \<Rightarrow> bake_target_id \<Rightarrow> cstring \<Rightarrow> bake_target_id" where
  "target_from_string uuid_parse junk str =
    (case snd (bake_target_id_from_string uuid_parse str) of None \<Rightarrow> junk | Some tid \<Rightarrow> tid)"

definition target_to_string :: "(bake_target_id \<Rightarrow> cstring) \<Rightarrow> cstring \<Rightarrow> bake_target_id \<Rightarrow> cstring" where
  "target_to_string uuid_unparse junk tid =
    (case snd (bake_target_id_to_string uuid_unparse tid 37) of None \<Rightarrow> junk | Some str \<Rightarrow> str)"

definition region_from_string :: "bool \<Rightarrow> cstring \<Rightarrow> mem_fault + bake_region_id" where
  "region_from_string mem str =
    (case bake_region_id_from_string mem str of Inl f \<Rightarrow> Inl f | Inr (ret, rid) \<Rightarrow> Inr rid)"

definition region_to_string :: "bool \<Rightarrow> cstring \<Rightarrow> bake_region_id \<Rightarrow> mem_fault + cstring" where
  "region_to_string mem junk rid =
    (case bake_region_id_to_string mem rid 128 of
       Inl f \<Rightarrow> Inl f
     | Inr (ret, s) \<Rightarrow> Inr (case s of None \<Rightarrow> junk | Some str \<Rightarrow> str))"

text \<open>The archive of \<open>save\<close> and \<open>load\<close> writes and reads the bytes of the member.\<close>

definition target_save :: "byte list \<Rightarrow> bake_target_id \<Rightarrow> byte list" where "target_save ar tid = ar @ tid"

definition target_load :: "byte list \<Rightarrow> bake_target_id \<times> byte list" where "target_load ar = (take 16 ar, drop 16 ar)"

definition region_save :: "byte list \<Rightarrow> bake_region_id \<Rightarrow> byte list" where "region_save ar rid = ar @ rid_image rid"

definition region_load :: "byte list \<Rightarrow> bake_region_id \<times> byte list" where
  "region_load ar = (rid_of_image (take 20 ar), drop 20 ar)"

section \<open>Properties\<close>

lemma CHECK_RET_simps [simp]: "CHECK_RET BAKE_SUCCESS x = Inr x" "ret \<noteq> BAKE_SUCCESS \<Longrightarrow> CHECK_RET ret x = Inl (exception ret)"
  by (simp_all add: CHECK_RET_def)

lemma region_string_roundtrip:
  assumes "wf_rid r"
  shows "\<exists>s. region_to_string True junk r = Inr s \<and> region_from_string True s = Inr r"
  using assms by (simp add: region_to_string_def region_from_string_def to_string_eq bake_region_id_from_string_def
      bake_b64_decode_spec length_rid_image rid_of_image_inverse)

lemma region_archive_roundtrip: "wf_rid r \<Longrightarrow> region_load (region_save [] r @ rest) = (r, rest)"
  by (simp add: region_load_def region_save_def length_rid_image rid_of_image_inverse)

text \<open>Decimal numbers determine their value.\<close>

fun num_of_digits :: "nat \<Rightarrow> string \<Rightarrow> nat" where
  "num_of_digits acc [] = acc"
| "num_of_digits acc (c # cs) = num_of_digits (10 * acc + (of_char c - 48)) cs"

lemma num_of_digits_append: "num_of_digits acc (s @ t) = num_of_digits (num_of_digits acc s) t"
  by (induction acc s rule: num_of_digits.induct) simp_all

lemma num_of_dec_digits: "num_of_digits 0 (dec_digits n) = n"
proof (induction n rule: less_induct)
  case (less n)
  show ?case
  proof (cases "n < 10")
    case True
    then show ?thesis by (simp add: dec_digits.simps)
  next
    case False
    then have "num_of_digits 0 (dec_digits n) = 10 * (n div 10) + n mod 10"
      using less.IH [of "n div 10"] by (simp add: dec_digits.simps [of n] num_of_digits_append)
    then show ?thesis by simp
  qed
qed

lemma dec_digits_ne: "dec_digits n \<noteq> []" by (subst dec_digits.simps) simp

lemma dec_digits_digit: "c \<in> set (dec_digits n) \<Longrightarrow> \<exists>d < 10. c = char_of (48 + d :: nat)"
proof (induction n rule: less_induct)
  case (less n)
  show ?case
  proof (cases "n < 10")
    case True
    then show ?thesis using less.prems by (auto simp: dec_digits.simps [of n])
  next
    case False
    then have "c \<in> set (dec_digits (n div 10)) \<or> c = char_of (48 + n mod 10)"
      using less.prems by (auto simp: dec_digits.simps [of n])
    moreover have "n mod 10 < 10" "n div 10 < n" using False by simp_all
    ultimately show ?thesis using less.IH by blast
  qed
qed

lemma dec_digits_no_minus: "hd (dec_digits n) \<noteq> CHR ''-''"
proof -
  have "\<exists>d < 10. hd (dec_digits n) = char_of (48 + d :: nat)" by (rule dec_digits_digit [of _ n]) (simp add: dec_digits_ne)
  moreover have "(char_of (48 + d :: nat) :: char) \<noteq> CHR ''-''" if "d < 10" for d
    using that by (simp add: char_of_eq_iff take_bit_nat_eq_self)
  ultimately show ?thesis by metis
qed

lemma dec_int_inject: "dec_int i = dec_int j \<Longrightarrow> i = j"
proof -
  assume eq: "dec_int i = dec_int j"
  have neg: "i < 0 \<longleftrightarrow> j < 0"
    using arg_cong [OF eq, of hd] dec_digits_no_minus [of "nat i"] dec_digits_no_minus [of "nat j"]
    by (auto simp: dec_int_def split: if_splits)
  then have "dec_digits (nat \<bar>i\<bar>) = dec_digits (nat \<bar>j\<bar>)" using eq by (auto simp: dec_int_def split: if_splits)
  then have "nat \<bar>i\<bar> = nat \<bar>j\<bar>" by (metis num_of_dec_digits)
  then show ?thesis using neg by auto
qed

lemma message_start:
  "n < 18 \<Longrightarrow> take 19 (bake_error_messages ! n) \<noteq> ''Unknown error code ''"
  by (simp add: bake_error_messages_def numeral_eq_Suc less_Suc_eq) auto

lemma distinct_messages: "distinct bake_error_messages"
  by (simp add: bake_error_messages_def)

text \<open>The text of an exception identifies its error code: the table of messages has an entry for every
  code that is looked up in it, and no two codes, known or not, have the same text.\<close>

theorem exception_text_identifies_code:
  "what (exception i) = what (exception j) \<longleftrightarrow> i = j"
proof
  assume eq: "what (exception i) = what (exception j)"
  have len: "length bake_error_messages = 18" by (simp add: bake_error_messages_def)
  have unknown: False if "k < 0" "k > BAKE_ERR_END" "\<not> (l < 0 \<and> l > BAKE_ERR_END)" "what (exception k) = what (exception l)" for k l
  proof -
    have "bake_error_messages ! nat (- k) = ''Unknown error code '' @ dec_int l"
      using that by (auto simp: what_def exception_def)
    then have "take 19 (bake_error_messages ! nat (- k)) = ''Unknown error code ''" by simp
    moreover have "nat (- k) < 18" using that(1,2) by (simp add: BAKE_ERR_END_def)
    ultimately show False using message_start by blast
  qed
  show "i = j"
  proof (cases "i < 0 \<and> i > BAKE_ERR_END"; cases "j < 0 \<and> j > BAKE_ERR_END")
    assume k: "i < 0 \<and> i > BAKE_ERR_END" "j < 0 \<and> j > BAKE_ERR_END"
    then have "bake_error_messages ! nat (- i) = bake_error_messages ! nat (- j)" using eq by (simp add: what_def exception_def)
    moreover have "nat (- i) < 18" "nat (- j) < 18" using k by (auto simp: BAKE_ERR_END_def)
    ultimately have "nat (- i) = nat (- j)" using distinct_messages len nth_eq_iff_index_eq by metis
    then show ?thesis using k by arith
  next
    assume "\<not> (i < 0 \<and> i > BAKE_ERR_END)" "\<not> (j < 0 \<and> j > BAKE_ERR_END)"
    then have "dec_int i = dec_int j" using eq by (auto simp: what_def exception_def split: if_splits)
    then show ?thesis by (rule dec_int_inject)
  qed (use unknown eq in metis)+
qed simp

end
