(* ===== verification/Cpp_Server.thy ===== *)
theory Cpp_Server
  imports Cpp_Types Provider_Props
begin

text \<open>
  The C++ interface of the server (\<^verbatim>\<open>include/bake-server.hpp\<close>): methods over the functions of
  \<^verbatim>\<open>src/bake-server.c\<close> that turn return codes into exceptions.
\<close>

section \<open>The class provider\<close>

text \<open>\<open>Aborts\<close> is a failed assertion in the C code; it is not an exception.\<close>

fun checked :: "('a \<Rightarrow> int) \<Rightarrow> ('a \<Rightarrow> 'b) \<Rightarrow> 'a outcome \<Rightarrow> (bake_exception + 'b) outcome" where
  "checked code res Aborts = Aborts"
| "checked code res (Returns x) = Returns (CHECK_RET (code x) (res x))"

definition create_raw_target :: "('w, 'j) site \<Rightarrow> cstring \<Rightarrow> u64 \<Rightarrow> 'w pm \<Rightarrow> (bake_exception + unit) outcome \<times> 'w pm" where
  "create_raw_target S path sz s = apfst (checked id (\<lambda>_. ())) (bake_create_raw_target S path sz s)"

text \<open>The constructor registers the provider; the factory method also pushes a callback that deletes the object.\<close>

definition provider_construct ::
  "('w, 'j) site \<Rightarrow> cstring \<Rightarrow> provider_args \<Rightarrow> u16 \<Rightarrow> 'w pm \<Rightarrow> (bake_exception + 'j bake_provider) outcome \<times> 'w pm" where
  "provider_construct S version args provider_id s =
    (case bake_provider_register S version args provider_id s of
       (Aborts, s) \<Rightarrow> (Aborts, s)
     | (Returns (Inl ret), s) \<Rightarrow> (Returns (Inl (exception ret)), s)
     | (Returns (Inr p), s) \<Rightarrow> (Returns (Inr p), s))"

definition provider_create ::
  "('w, 'j) site \<Rightarrow> cstring \<Rightarrow> provider_args \<Rightarrow> u16 \<Rightarrow> 'w pm \<Rightarrow> (bake_exception + 'j bake_provider) outcome \<times> 'w pm" where
  "provider_create S version args provider_id s =
    (case provider_construct S version args provider_id s of
       (Returns (Inr p), s) \<Rightarrow> (Returns (Inr p), (fst s, margo_provider_push_finalize_callback (st_margo S) (snd s)))
     | r \<Rightarrow> r)"

definition provider_create_from ::
  "('w, 'j) site \<Rightarrow> cstring \<Rightarrow> u16 \<Rightarrow> cstring \<Rightarrow> nat \<Rightarrow> bool \<Rightarrow> bool \<Rightarrow> 'w pm \<Rightarrow> (bake_exception + 'j bake_provider) outcome \<times> 'w pm" where
  "provider_create_from S version provider_id config abtio remi_provider remi_client =
    provider_create S version
      \<lparr>pa_json_config = Some config, pa_aid = abtio, pa_remi_client = remi_client, pa_remi_provider = remi_provider\<rparr> provider_id"

definition provider_destroy :: "('w, 'j) site \<Rightarrow> ('w, 'j) server \<Rightarrow> 'w pm" where
  "provider_destroy S = (\<lambda>(p, s).
    snd (bake_provider_deregister S (p, (fst s, margo_provider_pop_finalize_callback (st_margo S) (snd s)))))"

text \<open>The target that is returned is indeterminate, \<open>None\<close>, only when the method throws.\<close>

definition attach_target ::
  "('w, 'j) site \<Rightarrow> cstring \<Rightarrow> ('w, 'j) server \<Rightarrow> (bake_exception + bake_target_id option) \<times> ('w, 'j) server" where
  "attach_target S name st = apfst (\<lambda>(ret, tid). CHECK_RET ret tid) (bake_provider_attach_target S name st)"

definition create_target ::
  "('w, 'j) site \<Rightarrow> cstring \<Rightarrow> u64 \<Rightarrow> ('w, 'j) server \<Rightarrow> (bake_exception + bake_target_id option) outcome \<times> ('w, 'j) server" where
  "create_target S name sz st = apfst (checked fst snd) (bake_provider_create_target S name sz st)"

definition detach_target :: "('w, 'j) site \<Rightarrow> bake_target_id \<Rightarrow> ('w, 'j) server \<Rightarrow> (bake_exception + unit) \<times> ('w, 'j) server" where
  "detach_target S t st = apfst (\<lambda>ret. CHECK_RET ret ()) (bake_provider_detach_target S t st)"

definition detach_all_targets :: "('w, 'j) site \<Rightarrow> ('w, 'j) server \<Rightarrow> (bake_exception + unit) \<times> ('w, 'j) server" where
  "detach_all_targets S st = apfst (\<lambda>ret. CHECK_RET ret ()) (bake_provider_detach_all_targets S st)"

definition count_targets :: "'j bake_provider \<Rightarrow> (bake_exception + u64) \<times> 'j bake_provider" where
  "count_targets p = apfst (\<lambda>(ret, count). CHECK_RET ret count) (bake_provider_count_targets p)"

text \<open>
  The ids are stored into a vector whose size is the counter of targets; more ids than that would be
  written behind it. \<open>None\<close> is a loop that does not end, because it counts in 32 bits.
\<close>

definition list_targets ::
  "'j bake_provider \<Rightarrow> (mem_fault + bake_exception + bake_target_id list) option \<times> 'j bake_provider" where
  "list_targets p =
    (case count_targets p of
       (Inl e, p) \<Rightarrow> (Some (Inr (Inl e)), p)
     | (Inr n, p) \<Rightarrow>
        (let tgts = replicate (unat n) (replicate 16 0);
             ((ret, ids), p) = bake_provider_list_targets p tgts
         in if unat n < length ids then (Some (Inl (OutOfBoundsWrite (unat n))), p)
            else if ret \<noteq> BAKE_SUCCESS then (Some (Inr (Inl (exception ret))), p)
            else if 2 ^ 32 \<le> unat n then (None, p)
            else (Some (Inr (Inr ids)), p)))"

definition get_config :: "('w, 'j) site \<Rightarrow> 'j bake_provider \<Rightarrow> cstring" where
  "get_config S p = bake_provider_get_config S p"

section \<open>Properties\<close>

text \<open>With an exact counter the vector is the list of targets; a counter that is too large leaves null ids at the end.\<close>

lemma list_targets_eq:
  assumes "length (target_ids p) \<le> unat (pv_num_targets p)" and "unat (pv_num_targets p) < 2 ^ 32"
  shows "\<exists>p'. list_targets p = (Some (Inr (Inr (target_ids p @
      replicate (unat (pv_num_targets p) - length (target_ids p)) (replicate 16 0)))), p') \<and> target_ids p' = target_ids p"
  using assms
  by (auto simp: list_targets_def count_targets_def bake_provider_count_targets_def bake_provider_list_targets_def Let_def
      target_ids_def)

lemma setup_poolset_code: "fst (setup_poolset S st) \<le> 0"
  by (cases st) (auto simp: setup_poolset_def Let_def bake_err_defs split: prod.splits)

text \<open>A provider that is not registered is reported with a negative code.\<close>

lemma register_failure_negative:
  assumes "bake_provider_register S version args pid s = (Returns (Inl ret), s')"
  shows "ret < 0"
proof -
  have "ret < 0" if "register_config (st_json S) version args = Inl ret" for ret
    using that by (auto simp: register_config_def Let_def bake_err_defs split: option.splits if_splits prod.splits)
  moreover have "ret < 0" if "setup_poolset S (new_provider args config, s) = (ret, ps)" "ret \<noteq> 0" for config ps
    using setup_poolset_code [of S "(new_provider args config, s)"] that by simp
  moreover have "ret < 0" if "register_services S args pid st = (Returns (Inl ret), s')" for st
    using that by (cases st) (auto simp: register_services_def Let_def bake_err_defs split: prod.splits outcome.splits if_splits)
  ultimately show ?thesis using assms
    by (auto simp: bake_provider_register_def Let_def bake_err_defs split: if_splits sum.splits prod.splits)
qed

end
