(* ===== verification/Bedrock_Module.thy ===== *)
theory Bedrock_Module
  imports Cpp_Server Client
begin

text \<open>
  The module for the Bedrock bootstrapping service (\<^verbatim>\<open>src/bake-bedrock-module.c\<close>): functions over the
  provider and the client that turn return codes into those of Bedrock.
\<close>

section \<open>Providers\<close>

text \<open>
  What Bedrock passes to the module, and its code for success. A dependency is a pointer; 0 is NULL.
\<close>

record bedrock_args =
  ba_provider_id :: u16
  ba_config :: "cstring option"
  ba_num_dependencies :: "cstring \<Rightarrow> nat"
  ba_dependency :: "cstring \<Rightarrow> nat"
  ba_success :: int

definition bedrock_code :: "bedrock_args \<Rightarrow> int \<Rightarrow> int" where
  "bedrock_code args ret = (if ret < 0 then -1 else ba_success args)"

definition bedrock_dependency :: "bedrock_args \<Rightarrow> string \<Rightarrow> nat" where
  "bedrock_dependency args name = (if 0 < ba_num_dependencies args (str name) then ba_dependency args (str name) else 0)"

definition bake_register_provider ::
  "('w, 'j) site \<Rightarrow> cstring \<Rightarrow> bedrock_args \<Rightarrow> 'w pm \<Rightarrow> (int \<times> 'j bake_provider option) outcome \<times> 'w pm" where
  "bake_register_provider S version args s =
    (let bpargs = \<lparr>pa_json_config = ba_config args, pa_aid = bedrock_dependency args ''abt_io'',
                   pa_remi_client = bedrock_dependency args ''remi_client'' \<noteq> 0,
                   pa_remi_provider = bedrock_dependency args ''remi_provider'' \<noteq> 0\<rparr>
     in case bake_provider_register S version bpargs (ba_provider_id args) s of
          (Aborts, s) \<Rightarrow> (Aborts, s)
        | (Returns (Inl ret), s) \<Rightarrow> (Returns (bedrock_code args ret, None), s)
        | (Returns (Inr p), s) \<Rightarrow> (Returns (ba_success args, Some p), s))"

definition bake_deregister_provider :: "('w, 'j) site \<Rightarrow> bedrock_args \<Rightarrow> ('w, 'j) server \<Rightarrow> int \<times> 'w pm" where
  "bake_deregister_provider S args st =
    (let (ret, s) = bake_provider_deregister S st in (bedrock_code args ret, s))"

definition bake_get_provider_config :: "('w, 'j) site \<Rightarrow> 'j bake_provider \<Rightarrow> cstring" where
  "bake_get_provider_config S p = bake_provider_get_config S p"

section \<open>Clients and provider handles\<close>

definition bake_init_client ::
  "'v client_site \<Rightarrow> bedrock_args \<Rightarrow> client_heap \<times> 'v \<Rightarrow> (int \<times> nat option) \<times> client_heap \<times> 'v" where
  "bake_init_client C args s = (let ((ret, client), s) = bake_client_init C s in ((bedrock_code args ret, client), s))"

definition bake_finalize_client :: "bedrock_args \<Rightarrow> nat \<Rightarrow> client_heap \<Rightarrow> (int \<times> client_heap) option" where
  "bake_finalize_client args client hp = map_option (apfst (bedrock_code args)) (bake_client_finalize client hp)"

definition bake_get_client_config :: "cstring" where
  "bake_get_client_config = str ''{}''"

definition bake_create_provider_handle ::
  "'v client_site \<Rightarrow> bedrock_args \<Rightarrow> nat \<Rightarrow> hg_addr \<Rightarrow> u16 \<Rightarrow> client_heap \<times> 'v \<Rightarrow>
     ((int \<times> nat option) \<times> client_heap \<times> 'v) option" where
  "bake_create_provider_handle C args client address provider_id s =
    map_option (\<lambda>((ret, ph), s). ((bedrock_code args ret, ph), s)) (bake_provider_handle_create C client address provider_id s)"

definition bake_destroy_provider_handle ::
  "'v client_site \<Rightarrow> bedrock_args \<Rightarrow> nat \<Rightarrow> client_heap \<times> 'v \<Rightarrow> (int \<times> client_heap \<times> 'v) option" where
  "bake_destroy_provider_handle C args ph s = map_option (apfst (bedrock_code args)) (bake_provider_handle_release C ph s)"

section \<open>Properties\<close>

text \<open>Bedrock is told of a success exactly when there is a provider, a client or a handle.\<close>

lemma bedrock_reports_registration:
  assumes "bake_register_provider S version args s = (Returns (ret, p), s')" and "ba_success args \<noteq> -1"
  shows "ret = ba_success args \<longleftrightarrow> p \<noteq> None"
  using assms register_failure_negative [of S version]
  by (auto simp: bake_register_provider_def bedrock_code_def Let_def split: prod.splits outcome.splits sum.splits if_splits)

lemma bedrock_reports_client:
  assumes "bake_init_client C args s = ((ret, client), s')" and "ba_success args \<noteq> -1"
  shows "ret = ba_success args \<longleftrightarrow> client \<noteq> None"
  using assms by (cases s) (auto simp: bake_init_client_def bake_client_init_def bake_client_register_def bedrock_code_def Let_def
      bake_err_defs split: prod.splits option.splits if_splits)

lemma bedrock_reports_handle:
  assumes "bake_create_provider_handle C args client a pid s = Some ((ret, ph), s')" and "ba_success args \<noteq> -1"
  shows "ret = ba_success args \<longleftrightarrow> ph \<noteq> None"
  using assms by (cases s) (auto simp: bake_create_provider_handle_def bake_provider_handle_create_def bedrock_code_def Let_def
      bake_err_defs split: prod.splits option.splits if_splits)

end
