(* ===== verification/Tools_Base.thy ===== *)
theory Tools_Base
  imports Bake_Util Provider_Register
begin

text \<open>
  What the command line tools share: the functions of the C library that they use to read numbers
  from text, and the calls of the operating system and of margo's start and end as a record of
  functions over the opaque world. \<open>getopt\<close> is represented by what it yields: the list of the
  options with their arguments, and the operands that remain.
\<close>

section \<open>Numbers in text (C library)\<close>

definition c_isspace :: "byte \<Rightarrow> bool" where
  "c_isspace b \<longleftrightarrow> b = 32 \<or> 9 \<le> b \<and> b \<le> 13"

definition c_isdigit :: "byte \<Rightarrow> bool" where
  "c_isdigit b \<longleftrightarrow> 48 \<le> b \<and> b \<le> 57"

definition digits_value :: "cstring \<Rightarrow> nat" where
  "digits_value = foldl (\<lambda>n d. 10 * n + (unat d - 48)) 0"

text \<open>An optional sign and digits after leading white space: whether it is negative, the digits, and the rest.\<close>

definition scan_number :: "cstring \<Rightarrow> (bool \<times> cstring \<times> cstring) option" where
  "scan_number text =
    (let s = dropWhile c_isspace text;
         sign = s \<noteq> [] \<and> (hd s = 43 \<or> hd s = 45);
         t = (if sign then tl s else s);
         digits = takeWhile c_isdigit t
     in if digits = [] then None else Some (sign \<and> hd s = 45, digits, dropWhile c_isdigit t))"

text \<open>
  \<open>%zu\<close> of \<open>sscanf\<close> converts like \<open>strtoul\<close>: values that do not fit become the largest number, and
  negative numbers wrap around.
\<close>

definition c_strtoul :: "cstring \<Rightarrow> (u64 \<times> cstring) option" where
  "c_strtoul text =
    (case scan_number text of
       None \<Rightarrow> None
     | Some (neg, digits, rest) \<Rightarrow>
        (let n = digits_value digits
         in Some (if n < 2 ^ 64 then (if neg then - of_nat n else of_nat n) else - 1, rest)))"

text \<open>\<open>atol\<close> and \<open>atoi\<close> as in glibc: the value of \<open>strtol\<close>, limited to 64 bits, cut down to 32 bits by \<open>atoi\<close>.\<close>

definition c_atol :: "cstring \<Rightarrow> int" where
  "c_atol text =
    (case scan_number text of
       None \<Rightarrow> 0
     | Some (neg, digits, _) \<Rightarrow>
        (let n = int (digits_value digits) in max (- (2 ^ 63)) (min (2 ^ 63 - 1) (if neg then - n else n))))"

definition c_atoi :: "cstring \<Rightarrow> int" where
  "c_atoi text = sint (of_int (c_atol text) :: 32 word)"

section \<open>Operating system\<close>

text \<open>
  \<^item> \<open>margo_init\<close> gets the address or protocol and whether it is a server; the result says whether
    there is an instance.
  \<^item> \<open>file_read\<close> is \<open>fopen\<close> for reading, \<open>fread\<close> of the whole file and \<open>fclose\<close>; \<open>file_write\<close>
    the same for writing.
  \<^item> \<open>os_mmap\<close> maps a number of bytes of an open file; the result is the address.
  \<^item> \<open>os_read\<close> returns the number of bytes and the bytes.
\<close>

record 'w os =
  margo_init :: "cstring option \<Rightarrow> bool \<Rightarrow> 'w \<Rightarrow> bool \<times> 'w"
  margo_finalize :: "'w \<Rightarrow> 'w"
  margo_enable_remote_shutdown :: "'w \<Rightarrow> 'w"
  margo_wait_for_finalize :: "'w \<Rightarrow> 'w"
  file_read :: "cstring \<Rightarrow> 'w \<Rightarrow> byte list option \<times> 'w"
  file_write :: "cstring \<Rightarrow> byte list \<Rightarrow> 'w \<Rightarrow> bool \<times> 'w"
  os_open :: "cstring \<Rightarrow> 'w \<Rightarrow> int \<times> 'w"
  os_create :: "cstring \<Rightarrow> 'w \<Rightarrow> int \<times> 'w"
  os_close :: "int \<Rightarrow> 'w \<Rightarrow> 'w"
  os_ftruncate :: "int \<Rightarrow> u64 \<Rightarrow> 'w \<Rightarrow> int \<times> 'w"
  os_mmap :: "int \<Rightarrow> u64 \<Rightarrow> 'w \<Rightarrow> u64 option \<times> 'w"
  os_munmap :: "u64 \<Rightarrow> u64 \<Rightarrow> 'w \<Rightarrow> 'w"
  os_read :: "int \<Rightarrow> nat \<Rightarrow> 'w \<Rightarrow> (int \<times> byte list) \<times> 'w"
  os_write :: "int \<Rightarrow> byte list \<Rightarrow> 'w \<Rightarrow> int \<times> 'w"
  os_mkstemp :: "cstring \<Rightarrow> 'w \<Rightarrow> (int \<times> cstring) \<times> 'w"

section \<open>Properties\<close>

lemma bytes_of_string_append: "str (s @ t) = str s @ str t"
  by (simp add: bytes_of_string_def)

lemma digits_value_snoc: "digits_value (ds @ [d]) = 10 * digits_value ds + (unat d - 48)"
  by (simp add: digits_value_def)

lemma digit_byte: "d < 10 \<Longrightarrow> (of_nat (of_char (char_of (48 + d :: nat) :: char)) :: byte) = of_nat (48 + d)"
  by (simp add: take_bit_nat_eq_self)

lemma unat_digit_byte: "d < 10 \<Longrightarrow> unat (of_nat (48 + d) :: byte) = 48 + d"
  by (simp add: unat_of_nat take_bit_nat_eq_self del: of_nat_add)

lemma dec_digits_bytes:
  shows dec_digits_value: "digits_value (str (dec_digits n)) = n"
    and dec_digits_isdigit: "list_all c_isdigit (str (dec_digits n))"
    and dec_digits_nonempty: "str (dec_digits n) \<noteq> []"
proof -
  have "digits_value (str (dec_digits n)) = n \<and> list_all c_isdigit (str (dec_digits n))"
  proof (induction n rule: less_induct)
    case (less n)
    have last: "str [char_of (48 + d)] = [of_nat (48 + d)]" "c_isdigit (of_nat (48 + d))" if "d < 10" for d
      using that digit_byte [OF that] unat_digit_byte [OF that]
      by (simp_all add: bytes_of_string_def c_isdigit_def word_le_nat_alt del: of_nat_add)
    show ?case
    proof (cases "n < 10")
      case True
      then show ?thesis using last [OF True] unat_digit_byte [OF True]
        by (simp add: dec_digits.simps [of n] digits_value_def del: of_nat_add)
    next
      case False
      have m: "n mod 10 < 10" by simp
      have "str (dec_digits n) = str (dec_digits (n div 10)) @ [of_nat (48 + n mod 10)]"
        using False last(1) [OF m] by (simp add: dec_digits.simps [of n] bytes_of_string_append del: of_nat_add)
      then show ?thesis using less.IH [of "n div 10"] False last(2) [OF m] unat_digit_byte [OF m]
        by (simp add: digits_value_snoc del: of_nat_add)
    qed
  qed
  then show "digits_value (str (dec_digits n)) = n" "list_all c_isdigit (str (dec_digits n))" by simp_all
  show "str (dec_digits n) \<noteq> []" by (subst dec_digits.simps) (simp add: bytes_of_string_def)
qed

lemma digit_facts: "c_isdigit b \<Longrightarrow> \<not> c_isspace b \<and> b \<noteq> 43 \<and> b \<noteq> 45"
  by (auto simp: c_isdigit_def c_isspace_def word_le_nat_alt)

text \<open>A decimal number is read back, up to the first byte that is not a digit.\<close>

lemma scan_dec_digits:
  assumes "rest \<noteq> [] \<Longrightarrow> \<not> c_isdigit (hd rest)"
  shows "scan_number (str (dec_digits n) @ rest) = Some (False, str (dec_digits n), rest)"
proof -
  let ?d = "str (dec_digits n)"
  have all: "list_all c_isdigit ?d" "?d \<noteq> []" by (rule dec_digits_isdigit, rule dec_digits_nonempty)
  then have hd: "c_isdigit (hd ?d)" by (cases ?d) auto
  then have s: "dropWhile c_isspace (?d @ rest) = ?d @ rest" "hd (?d @ rest) \<noteq> 43" "hd (?d @ rest) \<noteq> 45"
    using digit_facts [OF hd] all(2) by (cases ?d; simp)+
  have t: "takeWhile c_isdigit (?d @ rest) = ?d" "dropWhile c_isdigit (?d @ rest) = rest"
  proof -
    have r: "takeWhile c_isdigit rest = []" "dropWhile c_isdigit rest = rest" using assms by (cases rest; simp)+
    show "takeWhile c_isdigit (?d @ rest) = ?d" "dropWhile c_isdigit (?d @ rest) = rest"
      using all(1) r by (simp_all add: list_all_iff)
  qed
  show ?thesis using s t all(2) by (simp add: scan_number_def Let_def)
qed

end
