(* ===== verification/Tool_Server.thy ===== *)
theory Tool_Server
  imports Tools_Base Provider_Props
begin

text \<open>
  The tools on the side of the server: \<^verbatim>\<open>src/bake-mkpool.c\<close>, which creates a storage pool, and
  \<^verbatim>\<open>src/bake-server-daemon.c\<close>, which serves pools.
\<close>

section \<open>bake-mkpool\<close>

definition size_suffixes :: cstring where "size_suffixes = str ''BKMGTP''"

definition size_mult :: "nat \<Rightarrow> u64" where "size_mult i = push_bit (10 * i) 1"

text \<open>\<open>sscanf (str, "%zu%1s", ...)\<close>: one conversion if nothing but white space follows the number, otherwise two.\<close>

definition parse_size :: "cstring \<Rightarrow> u64 option" where
  "parse_size text =
    (case c_strtoul text of
       None \<Rightarrow> None
     | Some (sz, rest) \<Rightarrow>
        (case dropWhile c_isspace rest of
           [] \<Rightarrow> Some sz
         | suff # _ \<Rightarrow>
            (case filter (\<lambda>i. size_suffixes ! i = suff) [0..<6] of
               [] \<Rightarrow> None
             | i # _ \<Rightarrow> Some (sz * size_mult i))))"

record mkpool_options =
  mo_pmem_pool :: "cstring option"
  mo_pool_size :: u64

fun mkpool_getopt :: "(char \<times> cstring) list \<Rightarrow> mkpool_options \<Rightarrow> mkpool_options option" where
  "mkpool_getopt [] opts = Some opts"
| "mkpool_getopt ((opt, optarg) # rest) opts =
    (if opt = CHR ''s'' then
       (case parse_size optarg of None \<Rightarrow> None | Some sz \<Rightarrow> mkpool_getopt rest (opts\<lparr>mo_pool_size := sz\<rparr>))
     else None)"

text \<open>\<open>None\<close> is the exit with the usage message.\<close>

definition mkpool_parse_args :: "(char \<times> cstring) list \<Rightarrow> cstring list \<Rightarrow> mkpool_options option" where
  "mkpool_parse_args options operands =
    (case mkpool_getopt options \<lparr>mo_pmem_pool = None, mo_pool_size = 0\<rparr> of
       None \<Rightarrow> None
     | Some opts \<Rightarrow> if length operands \<noteq> 1 then None else Some (opts\<lparr>mo_pmem_pool := Some (hd operands)\<rparr>))"

definition EXIT_FAILURE :: int where "EXIT_FAILURE = 1"

definition mkpool_main :: "('w, 'j) site \<Rightarrow> (char \<times> cstring) list \<Rightarrow> cstring list \<Rightarrow> 'w pm \<Rightarrow> int outcome \<times> 'w pm" where
  "mkpool_main S options operands s =
    (case mkpool_parse_args options operands of
       None \<Rightarrow> (Returns EXIT_FAILURE, s)
     | Some opts \<Rightarrow>
        (case mo_pmem_pool opts of
           None \<Rightarrow> (Aborts, s)
         | Some path \<Rightarrow> bake_create_raw_target S path (mo_pool_size opts) s))"

section \<open>bake-server-daemon: options\<close>

datatype mplex_mode = MODE_TARGETS | MODE_PROVIDERS

record daemon_options =
  do_listen_addr_str :: "cstring option"
  do_num_pools :: u32
  do_bake_pools :: "cstring list"
  do_host_file :: "cstring option"
  do_json_file :: "cstring option"
  do_pipeline_enabled :: bool
  do_mplex_mode :: mplex_mode

fun daemon_getopt :: "(char \<times> cstring) list \<Rightarrow> daemon_options \<Rightarrow> daemon_options option" where
  "daemon_getopt [] opts = Some opts"
| "daemon_getopt ((opt, optarg) # rest) opts =
    (if opt = CHR ''f'' then daemon_getopt rest (opts\<lparr>do_host_file := Some optarg\<rparr>)
     else if opt = CHR ''j'' then daemon_getopt rest (opts\<lparr>do_json_file := Some optarg\<rparr>)
     else if opt = CHR ''m'' then
       (if optarg = str ''targets'' then daemon_getopt rest (opts\<lparr>do_mplex_mode := MODE_TARGETS\<rparr>)
        else if optarg = str ''providers'' then daemon_getopt rest (opts\<lparr>do_mplex_mode := MODE_PROVIDERS\<rparr>)
        else None)
     else if opt = CHR ''p'' then daemon_getopt rest (opts\<lparr>do_pipeline_enabled := True\<rparr>)
     else None)"

text \<open>
  \<open>num_pools\<close> is unsigned: without operands \<open>argc - optind - 1\<close> is 2^32 - 1, and the loop that copies
  the names of the pools runs past the end of \<open>argv\<close>.
\<close>

datatype 'a parsed = Parsed 'a | Usage_exit | Overrun

definition no_daemon_options :: daemon_options where
  "no_daemon_options = \<lparr>do_listen_addr_str = None, do_num_pools = 0, do_bake_pools = [], do_host_file = None,
     do_json_file = None, do_pipeline_enabled = False, do_mplex_mode = MODE_TARGETS\<rparr>"

definition daemon_parse_args :: "(char \<times> cstring) list \<Rightarrow> cstring list \<Rightarrow> daemon_options parsed" where
  "daemon_parse_args options operands =
    (case daemon_getopt options no_daemon_options of
       None \<Rightarrow> Usage_exit
     | Some opts \<Rightarrow>
        if length operands < 2 \<and> do_json_file opts = None then Usage_exit
        else
         (let num_pools = of_nat (length operands) - 1 :: u32
          in if length (tl operands) < unat num_pools then Overrun
             else Parsed (opts\<lparr>do_num_pools := num_pools,
                    do_listen_addr_str := (if operands = [] then None else Some (hd operands)),
                    do_bake_pools := take (unat num_pools) (tl operands)\<rparr>)))"

section \<open>bake-server-daemon: main\<close>

text \<open>
  How the program ends: after it has served with its providers and printed a configuration, with
  an exit code, by a failed assertion, or with undefined behaviour.
\<close>

datatype 'j daemon_end = Served "'j bake_provider list" cstring | Exits int | Asserts | Undefined_behaviour

text \<open>Registration of one provider, with pipelining switched on if asked for.\<close>

definition daemon_provider ::
  "('w, 'j) site \<Rightarrow> cstring \<Rightarrow> cstring option \<Rightarrow> bool \<Rightarrow> u16 \<Rightarrow> 'w pm \<Rightarrow> (int + 'j bake_provider) outcome \<times> 'w pm" where
  "daemon_provider S version json_string pipeline provider_id s =
    (let bpargs = \<lparr>pa_json_config = json_string, pa_aid = 0, pa_remi_client = False, pa_remi_provider = False\<rparr>
     in case bake_provider_register S version bpargs provider_id s of
          (Returns (Inr p), s) \<Rightarrow>
            (if pipeline
             then (let (ret, (p, s)) = bake_provider_set_param S (str ''pipeline_enable'') (str ''true'') (p, s)
                   in (Returns (if ret \<noteq> 0 then Inl ret else Inr p), s))
             else (Returns (Inr p), s))
        | r \<Rightarrow> r)"

fun daemon_attach :: "('w, 'j) site \<Rightarrow> cstring list \<Rightarrow> ('w, 'j) server \<Rightarrow> int \<times> ('w, 'j) server" where
  "daemon_attach S [] st = (0, st)"
| "daemon_attach S (pool # pools) st =
    (let ((ret, _), st) = bake_provider_attach_target S pool st
     in if ret \<noteq> 0 then (ret, st) else daemon_attach S pools st)"

text \<open>One provider for each pool, with the ids 1, 2, ...\<close>

fun daemon_providers ::
  "('w, 'j) site \<Rightarrow> cstring \<Rightarrow> cstring option \<Rightarrow> bool \<Rightarrow> nat \<Rightarrow> cstring list \<Rightarrow> 'j bake_provider list \<Rightarrow> 'w pm \<Rightarrow>
     (int + 'j bake_provider list) outcome \<times> 'w pm" where
  "daemon_providers S version json_string pipeline i [] ps s = (Returns (Inr ps), s)"
| "daemon_providers S version json_string pipeline i (pool # pools) ps s =
    (case daemon_provider S version json_string pipeline (of_nat (i + 1)) s of
       (Aborts, s) \<Rightarrow> (Aborts, s)
     | (Returns (Inl ret), s) \<Rightarrow> (Returns (Inl ret), s)
     | (Returns (Inr p), s) \<Rightarrow>
        (let ((ret, _), (p, s)) = bake_provider_attach_target S pool (p, s)
         in if ret \<noteq> 0 then (Returns (Inl ret), s)
            else daemon_providers S version json_string pipeline (i + 1) pools (ps @ [p]) s))"

definition daemon_start ::
  "('w, 'j) site \<Rightarrow> cstring \<Rightarrow> daemon_options \<Rightarrow> cstring option \<Rightarrow> 'w pm \<Rightarrow>
     (int + 'j bake_provider list) outcome \<times> 'w pm" where
  "daemon_start S version opts json_string s =
    (case do_mplex_mode opts of
       MODE_PROVIDERS \<Rightarrow> daemon_providers S version json_string (do_pipeline_enabled opts) 0 (do_bake_pools opts) [] s
     | MODE_TARGETS \<Rightarrow>
        (case daemon_provider S version json_string (do_pipeline_enabled opts) 1 s of
           (Aborts, s) \<Rightarrow> (Aborts, s)
         | (Returns (Inl ret), s) \<Rightarrow> (Returns (Inl ret), s)
         | (Returns (Inr p), s) \<Rightarrow>
            (let (ret, (p, s)) = daemon_attach S (do_bake_pools opts) (p, s)
             in (Returns (if ret \<noteq> 0 then Inl ret else Inr [p]), s))))"

text \<open>The address of the server is written to a file if asked for; the result is whether that succeeded.\<close>

definition daemon_host_file :: "('w, 'j) site \<Rightarrow> 'w os \<Rightarrow> cstring option \<Rightarrow> 'w \<Rightarrow> bool \<times> 'w" where
  "daemon_host_file S L host_file w =
    (case host_file of
       None \<Rightarrow> (True, w)
     | Some name \<Rightarrow>
        (let M = st_margo S; ((hret, self_addr), w) = addr_self M w
         in if hret \<noteq> HG_SUCCESS then (False, w)
            else
             (let (hret, self_addr_str, _) = addr_to_string M self_addr 128 w; w = addr_free M self_addr w
              in if hret \<noteq> HG_SUCCESS then (False, w) else file_write L name self_addr_str w)))"

text \<open>
  After the start the configuration of the last provider is printed. With one provider for each pool
  and no pools there is no provider: the variable is used uninitialised.
\<close>

definition daemon_main ::
  "('w, 'j) site \<Rightarrow> 'w os \<Rightarrow> cstring \<Rightarrow> (char \<times> cstring) list \<Rightarrow> cstring list \<Rightarrow> 'w pm \<Rightarrow> 'j daemon_end \<times> 'w pm" where
  "daemon_main S L version options operands s =
    (case daemon_parse_args options operands of
       Usage_exit \<Rightarrow> (Exits EXIT_FAILURE, s)
     | Overrun \<Rightarrow> (Undefined_behaviour, s)
     | Parsed opts \<Rightarrow>
        (let (m, w) = s; (inst, w) = margo_init L (do_listen_addr_str opts) True w
         in if \<not> inst then (Exits (-1), (m, w))
            else
             (let w = margo_enable_remote_shutdown L w;
                  (json, w) = (case do_json_file opts of
                     None \<Rightarrow> (Some None, w)
                   | Some name \<Rightarrow> (let (bytes, w) = file_read L name w in (map_option (\<lambda>b. Some (takeWhile ((\<noteq>) 0) b)) bytes, w)))
              in case json of
                   None \<Rightarrow> (Exits EXIT_FAILURE, (m, w))
                 | Some json_string \<Rightarrow>
                    (let (ok, w) = daemon_host_file S L (do_host_file opts) w
                     in if \<not> ok then (Exits (-1), (m, margo_finalize L w))
                        else
                         (case daemon_start S version opts json_string (m, w) of
                            (Aborts, s) \<Rightarrow> (Asserts, s)
                          | (Returns (Inl ret), (m, w)) \<Rightarrow> (Exits (-1), (m, margo_finalize L w))
                          | (Returns (Inr ps), (m, w)) \<Rightarrow>
                             if ps = [] then (Undefined_behaviour, (m, w))
                             else (Served ps (bake_provider_get_config S (last ps)), (m, margo_wait_for_finalize L w)))))))"

section \<open>Properties of parse\_size\<close>

lemma size_mult_eq: "size_mult k = of_nat (1024 ^ k)"
  by (simp add: size_mult_def push_bit_eq_mult power_mult)

lemma suffix_index:
  assumes "k < 6"
  shows "filter (\<lambda>i. size_suffixes ! i = size_suffixes ! k) [0..<6] = [k]"
proof -
  have "k = 0 \<or> k = 1 \<or> k = 2 \<or> k = 3 \<or> k = 4 \<or> k = 5" using assms by arith
  then show ?thesis by (auto simp: size_suffixes_def bytes_of_string_def upt_rec)
qed

lemma suffix_letter: "k < 6 \<Longrightarrow> \<not> c_isdigit (size_suffixes ! k) \<and> \<not> c_isspace (size_suffixes ! k)"
proof -
  assume "k < 6"
  then have "k = 0 \<or> k = 1 \<or> k = 2 \<or> k = 3 \<or> k = 4 \<or> k = 5" by arith
  then show ?thesis by (auto simp: size_suffixes_def bytes_of_string_def c_isdigit_def c_isspace_def)
qed

lemma parse_size_suffix:
  assumes "n < 2 ^ 64" and "k < 6"
  shows "\<exists>v. parse_size (str (dec_digits n) @ [size_suffixes ! k] @ rest) = Some v \<and> unat v = (n * 1024 ^ k) mod 2 ^ 64"
proof -
  let ?rest = "[size_suffixes ! k] @ rest"
  have "scan_number (str (dec_digits n) @ ?rest) = Some (False, str (dec_digits n), ?rest)"
    by (rule scan_dec_digits) (use suffix_letter [OF assms(2)] in simp)
  then have "parse_size (str (dec_digits n) @ ?rest) = Some (of_nat n * size_mult k)"
    using assms suffix_letter [OF assms(2)] suffix_index [OF assms(2)]
    by (simp add: parse_size_def c_strtoul_def dec_digits_value Let_def)
  moreover have "unat (of_nat n * size_mult k :: u64) = (n * 1024 ^ k) mod 2 ^ 64"
    unfolding size_mult_eq by (simp add: unat_of_nat take_bit_eq_mod flip: of_nat_mult del: of_nat_power)
  ultimately show ?thesis by blast
qed

text \<open>C153: \<open>parse_size\<close> on a decimal number below 2^64. Without a suffix the result is the number. The
  suffixes B, K, M, G, T and P stand for the powers 0, 10, 20, 30, 40 and 50 of 2, and the result is the
  number times the power, reduced modulo 2^64: a size that does not fit wraps around silently. What
  follows the suffix is ignored. Any other character behind the number, digits and white space
  apart, is an error.\<close>
theorem parse_size_value:
  assumes "n < 2 ^ 64"
  shows "parse_size (str (dec_digits n)) = Some (of_nat n) \<and>
    (\<forall>(c, b) \<in> set [(CHR ''B'', 0), (CHR ''K'', 10), (CHR ''M'', 20), (CHR ''G'', 30), (CHR ''T'', 40), (CHR ''P'', 50)].
       \<exists>v. parse_size (str (dec_digits n) @ str [c] @ rest) = Some v \<and> unat v = (n * 2 ^ b) mod 2 ^ 64) \<and>
    (\<forall>c. c \<notin> set (str ''BKMGTP'') \<and> \<not> c_isdigit c \<and> \<not> c_isspace c \<longrightarrow>
       parse_size (str (dec_digits n) @ [c] @ rest) = None)"
proof (intro conjI)
  have "scan_number (str (dec_digits n) @ []) = Some (False, str (dec_digits n), [])"
    by (rule scan_dec_digits) simp
  then show "parse_size (str (dec_digits n)) = Some (of_nat n)"
    using assms by (simp add: parse_size_def c_strtoul_def dec_digits_value Let_def)
next
  have letters: "str [CHR ''B''] = [size_suffixes ! 0]" "str [CHR ''K''] = [size_suffixes ! 1]"
    "str [CHR ''M''] = [size_suffixes ! 2]" "str [CHR ''G''] = [size_suffixes ! 3]"
    "str [CHR ''T''] = [size_suffixes ! 4]" "str [CHR ''P''] = [size_suffixes ! 5]"
    by (simp_all add: size_suffixes_def bytes_of_string_def)
  have "\<exists>v. parse_size (str (dec_digits n) @ [size_suffixes ! k] @ rest) = Some v \<and> unat v = (n * 2 ^ (10 * k)) mod 2 ^ 64"
    if "k < 6" for k
    using parse_size_suffix [OF assms that, of rest] by (simp add: power_mult)
  from this [of 0] this [of 1] this [of 2] this [of 3] this [of 4] this [of 5]
  show "\<forall>(c, b) \<in> set [(CHR ''B'', 0), (CHR ''K'', 10), (CHR ''M'', 20), (CHR ''G'', 30), (CHR ''T'', 40), (CHR ''P'', 50)].
       \<exists>v. parse_size (str (dec_digits n) @ str [c] @ rest) = Some v \<and> unat v = (n * 2 ^ b) mod 2 ^ 64"
    unfolding letters [symmetric] by simp
next
  show "\<forall>c. c \<notin> set (str ''BKMGTP'') \<and> \<not> c_isdigit c \<and> \<not> c_isspace c \<longrightarrow>
       parse_size (str (dec_digits n) @ [c] @ rest) = None"
  proof (intro allI impI; elim conjE)
    fix c assume c: "c \<notin> set (str ''BKMGTP'')" "\<not> c_isdigit c" "\<not> c_isspace c"
    have "scan_number (str (dec_digits n) @ [c] @ rest) = Some (False, str (dec_digits n), [c] @ rest)"
      by (rule scan_dec_digits) (use c in simp)
    moreover have "filter (\<lambda>i. size_suffixes ! i = c) [0..<6] = []"
      using c(1) by (auto simp: filter_empty_conv size_suffixes_def bytes_of_string_def upt_rec)
    ultimately show "parse_size (str (dec_digits n) @ [c] @ rest) = None"
      using c assms by (simp add: parse_size_def c_strtoul_def dec_digits_value Let_def)
  qed
qed

theorem parse_size_value_witness:
  "(\<exists>v. parse_size (str (dec_digits 16777217) @ str [CHR ''T''] @ str ''iB'') = Some v \<and> unat v = 2 ^ 40) \<and>
   parse_size (str (dec_digits 16777217)) = Some 16777217"
  using parse_size_value [of 16777217 "str ''iB''"] by simp

section \<open>Properties of the daemon\<close>

text \<open>The arguments are overrun exactly when a configuration file is named and no operand is given.\<close>

lemma daemon_overrun_iff:
  assumes "length operands < 2 ^ 32"
  shows "daemon_parse_args options operands = Overrun \<longleftrightarrow>
    operands = [] \<and> (\<exists>opts. daemon_getopt options no_daemon_options = Some opts \<and> do_json_file opts \<noteq> None)"
proof (cases operands)
  case Nil
  then show ?thesis by (auto simp: daemon_parse_args_def Let_def unat_eq_0 split: option.splits)
next
  case (Cons a l)
  have "unat (of_nat (length operands) - 1 :: u32) = length l"
    using assms Cons by (simp add: unat_of_nat take_bit_nat_eq_self)
  then show ?thesis using Cons by (auto simp: daemon_parse_args_def Let_def split: option.splits)
qed

lemma daemon_pools:
  assumes "length operands < 2 ^ 32" and "daemon_parse_args options operands = Parsed opts"
  shows "do_bake_pools opts = tl operands" and "operands \<noteq> []"
proof -
  show ne: "operands \<noteq> []" using assms(2) by (auto simp: daemon_parse_args_def Let_def unat_eq_0 split: option.splits if_splits)
  then obtain a l where "operands = a # l" by (cases operands) auto
  then have "unat (of_nat (length operands) - 1 :: u32) = length (tl operands)"
    using assms(1) by (simp add: unat_of_nat take_bit_nat_eq_self)
  then show "do_bake_pools opts = tl operands"
    using assms(2) by (auto simp: daemon_parse_args_def Let_def split: option.splits if_splits)
qed

lemma daemon_providers_length:
  assumes "daemon_providers S version json pipeline i pools ps s = (Returns (Inr qs), s')"
  shows "length qs = length ps + length pools"
  using assms
proof (induction S version json pipeline i pools ps s rule: daemon_providers.induct)
  case (2 S version json pipeline i pool pools ps s)
  obtain p s1 where r: "daemon_provider S version json pipeline (of_nat (i + 1)) s = (Returns (Inr p), s1)"
    using "2.prems" by (auto split: prod.splits outcome.splits sum.splits)
  obtain ret t p2 s2 where a: "bake_provider_attach_target S pool (p, s1) = ((ret, t), (p2, s2))" by (metis surj_pair)
  have "ret = 0" "daemon_providers S version json pipeline (i + 1) pools (ps @ [p2]) s2 = (Returns (Inr qs), s')"
    using "2.prems" r a by (simp_all split: if_splits)
  then show ?case using "2.IH" [OF r [symmetric] refl refl] a by auto
qed simp

text \<open>
  One provider for each pool, or one provider for all; in the first case the daemon has undefined
  behaviour if there are no pools.
\<close>

lemma daemon_served:
  assumes "length operands < 2 ^ 32" and "daemon_main S L version options operands s = (Served ps cfg, s')"
  shows "\<exists>opts. daemon_parse_args options operands = Parsed opts \<and> cfg = bake_provider_get_config S (last ps) \<and>
    length ps = (case do_mplex_mode opts of MODE_TARGETS \<Rightarrow> 1 | MODE_PROVIDERS \<Rightarrow> length (tl operands)) \<and> ps \<noteq> []"
proof -
  obtain opts where o: "daemon_parse_args options operands = Parsed opts"
    using assms(2) by (auto simp: daemon_main_def split: parsed.splits)
  obtain json s1 m w where st: "daemon_start S version opts json s1 = (Returns (Inr ps), (m, w))" "ps \<noteq> []"
    "cfg = bake_provider_get_config S (last ps)"
    using assms(2) o by (auto simp: daemon_main_def Let_def split: prod.splits if_splits option.splits outcome.splits sum.splits)
  have "length ps = (case do_mplex_mode opts of MODE_TARGETS \<Rightarrow> 1 | MODE_PROVIDERS \<Rightarrow> length (tl operands))"
    using st(1) daemon_pools(1) [OF assms(1) o] daemon_providers_length [of S version json "do_pipeline_enabled opts" 0 "tl operands" "[]" s1 ps]
    by (auto simp: daemon_start_def Let_def split: mplex_mode.splits prod.splits outcome.splits sum.splits if_splits)
  then show ?thesis using o st by blast
qed

end
