(* ===== verification/Tool_Copy.thy ===== *)
theory Tool_Copy
  imports Tools_Base Client_Rpc "HOL-Library.Monad_Syntax"
begin

text \<open>
  The tools on the side of the client: \<^verbatim>\<open>src/bake-copy-to.c\<close> stores a file in a region,
  \<^verbatim>\<open>src/bake-copy-from.c\<close> writes a region to a file and \<^verbatim>\<open>src/bake-shutdown.c\<close> stops a server. A
  program is a function on the heap of the client library and the world; its result is the exit code,
  and \<open>None\<close> is undefined behaviour. Messages to the user are left out. \<open>argv\<close> includes the name of
  the program.
\<close>

type_synonym 'v process = "client_heap \<times> 'v"

section \<open>Connecting\<close>

text \<open>The transport part of an address, in a buffer of 64 bytes.\<close>

definition addr_prefix :: "cstring \<Rightarrow> cstring" where
  "addr_prefix svr_addr_str = takeWhile ((\<noteq>) 58) (take 63 svr_addr_str)"

definition on_world2 :: "('v \<Rightarrow> 'v) \<Rightarrow> 'v process \<Rightarrow> 'v process" where
  "on_world2 f = apsnd f"

definition finalize_client :: "nat \<Rightarrow> 'v process \<Rightarrow> 'v process option" where
  "finalize_client bcl = (\<lambda>(hp, v). map_option (\<lambda>(_, hp). (hp, v)) (bake_client_finalize bcl hp))"

text \<open>\<open>margo_addr_free\<close>, \<open>bake_client_finalize\<close>, \<open>margo_finalize\<close>: the end of a session without handle.\<close>

definition close_session :: "'v os \<Rightarrow> 'v client_site \<Rightarrow> nat \<Rightarrow> hg_addr \<Rightarrow> 'v process \<Rightarrow> 'v process option" where
  "close_session L C bcl svr_addr st =
    map_option (on_world2 (margo_finalize L)) (finalize_client bcl (on_world2 (addr_free (cs_margo C) svr_addr) st))"

definition hang_up :: "'v os \<Rightarrow> 'v client_site \<Rightarrow> nat \<Rightarrow> nat \<Rightarrow> hg_addr \<Rightarrow> 'v process \<Rightarrow> 'v process option" where
  "hang_up L C bph bcl svr_addr st = do {
     (_, st) \<leftarrow> bake_provider_handle_release C bph st;
     close_session L C bcl svr_addr st
   }"

text \<open>
  From the start of margo to the provider handle. A failure has released everything; the provider id
  of the command line is cut down to 8 bits.
\<close>

definition connect ::
  "'v os \<Rightarrow> 'v client_site \<Rightarrow> cstring \<Rightarrow> cstring \<Rightarrow> 'v process \<Rightarrow> ((nat \<times> nat \<times> hg_addr) option \<times> 'v process) option" where
  "connect L C svr_addr_str mplex st =
    (let mplex_id = ucast (of_int (c_atoi mplex) :: byte) :: u16;
         (inst, v) = margo_init L (Some (addr_prefix svr_addr_str)) False (snd st); st = (fst st, v)
     in if \<not> inst then Some (None, st)
        else
         (case bake_client_init C st of
            ((_, None), st) \<Rightarrow> Some (None, on_world2 (margo_finalize L) st)
          | ((ret, Some bcl), st) \<Rightarrow>
             (let ((hret, svr_addr), v) = addr_lookup (cs_margo C) (Some svr_addr_str) (snd st); st = (fst st, v)
              in if hret \<noteq> HG_SUCCESS
                 then map_option (\<lambda>st. (None, on_world2 (margo_finalize L) st)) (finalize_client bcl st)
                 else
                  (case bake_provider_handle_create C bcl svr_addr mplex_id st of
                     None \<Rightarrow> None
                   | Some ((_, None), st) \<Rightarrow> map_option (Pair None) (close_session L C bcl svr_addr st)
                   | Some ((_, Some bph), st) \<Rightarrow> Some (Some (bph, bcl, svr_addr), st)))))"

text \<open>The client and the handle that the pointer \<open>bph\<close> leads to.\<close>

definition handle_objects :: "nat \<Rightarrow> client_heap \<Rightarrow> (bake_client \<times> bake_provider_handle) option" where
  "handle_objects bph hp = do {
     ph \<leftarrow> hp_handles hp bph;
     c \<leftarrow> hp_clients hp (ph_client ph);
     Some (c, ph)
   }"

section \<open>bake-copy-to\<close>

definition unmap_file :: "'v os \<Rightarrow> u64 \<Rightarrow> u64 \<Rightarrow> int \<Rightarrow> 'v process \<Rightarrow> 'v process" where
  "unmap_file L region sz fd = on_world2 (\<lambda>v. os_close L fd (os_munmap L region sz v))"

text \<open>
  What the program does with the provider handle: probe for the target, create the region, write,
  unmap and close the local file, persist and, with size headers, check the size. The result is the
  exit code and, for code 0, the ids. The exit for a missing target does not release the handle, and
  the exit for a wrong size releases nothing.
\<close>

definition copy_to_store ::
  "'v os \<Rightarrow> 'v client_site \<Rightarrow> bool \<Rightarrow> nat \<Rightarrow> nat \<Rightarrow> hg_addr \<Rightarrow> u32 \<Rightarrow> u64 \<Rightarrow> u64 \<Rightarrow> int \<Rightarrow> 'v process \<Rightarrow>
     ((int + bake_target_id \<times> bake_region_id) \<times> 'v process) option" where
  "copy_to_store L C sizecheck bph bcl svr_addr target_number region sz fd st = do {
     (c, ph) \<leftarrow> handle_objects bph (fst st);
     let ((ret, num_targets, tids), v) = bake_probe C c ph (ucast target_number) False (snd st); let st = (fst st, v);
     let fail = (\<lambda>st. map_option (\<lambda>st. (Inl (-1), unmap_file L region sz fd st)) (hang_up L C bph bcl svr_addr st));
     if ret < 0 then fail st
     else do {
       n \<leftarrow> num_targets;
       if n < ucast target_number
       then map_option (\<lambda>st. (Inl (-1), unmap_file L region sz fd st)) (close_session L C bcl svr_addr st)
       else do {
         tid \<leftarrow> (if unat target_number \<le> length tids then Some (tids ! (unat target_number - 1)) else None);
         let ((ret, rid), v) = bake_create C c ph tid sz (snd st); let st = (fst st, v);
         if ret \<noteq> 0 then fail st
         else do {
           rid \<leftarrow> rid;
           let (ret, v) = bake_write C c ph tid rid 0 region sz (snd st); let st = (fst st, v);
           if ret \<noteq> 0 then fail st
           else do {
             let st = unmap_file L region sz fd st;
             let (ret, v) = bake_persist C c ph tid rid 0 sz (snd st); let st = (fst st, v);
             if ret \<noteq> 0 then map_option (Pair (Inl (-1))) (hang_up L C bph bcl svr_addr st)
             else if sizecheck
             then do {
               let ((ret, check_size), v) = bake_get_size C c ph tid rid (snd st); let st = (fst st, v);
               if ret \<noteq> 0 then map_option (Pair (Inl (-1))) (hang_up L C bph bcl svr_addr st)
               else if check_size \<noteq> Some sz then Some (Inl (-1), st)
               else map_option (Pair (Inr (tid, rid))) (hang_up L C bph bcl svr_addr st)
             }
             else map_option (Pair (Inr (tid, rid))) (hang_up L C bph bcl svr_addr st)
           }
         }
       }
     }
   }"

text \<open>
  The ids are written to a new temporary file. The exit code is 0 whether or not that succeeds, and
  the file is closed only if it does.
\<close>

definition copy_to_save :: "'v os \<Rightarrow> bake_target_id \<Rightarrow> bake_region_id \<Rightarrow> 'v \<Rightarrow> 'v" where
  "copy_to_save L tid rid v =
    (let ((region_fd, name), v) = os_mkstemp L (str ''/tmp/bb-copy-rid.XXXXXX'') v
     in if region_fd < 0 then v
        else
         (let (ret, v) = os_write L region_fd tid v
          in if ret < 0 then v
             else (let (ret, v) = os_write L region_fd (rid_image rid) v
                   in if ret < 0 then v else os_close L region_fd v)))"

text \<open>An array \<open>bti\<close> of no elements is undefined.\<close>

definition copy_to :: "'v os \<Rightarrow> 'v client_site \<Rightarrow> bool \<Rightarrow> cstring list \<Rightarrow> 'v process \<Rightarrow> (int \<times> 'v process) option" where
  "copy_to L C sizecheck argv st =
    (if length argv \<noteq> 5 then Some (-1, st)
     else
      (let target_number = of_int (c_atoi (argv ! 4)) :: u32
       in if target_number = 0 then None
          else
           (let (fd, v) = os_open L (argv ! 1) (snd st); st = (fst st, v)
            in if fd < 0 then Some (-1, st)
               else
                (let (ret, st_size) = fstat_size (cs_margo C) fd (snd st)
                 in if ret < 0 then Some (-1, on_world2 (os_close L fd) st)
                    else
                     (case os_mmap L fd st_size (snd st) of
                        (None, v) \<Rightarrow> Some (-1, (fst st, os_close L fd v))
                      | (Some region, v) \<Rightarrow>
                         (case connect L C (argv ! 2) (argv ! 3) (fst st, v) of
                            None \<Rightarrow> None
                          | Some (None, st) \<Rightarrow> Some (-1, unmap_file L region st_size fd st)
                          | Some (Some (bph, bcl, svr_addr), st) \<Rightarrow>
                             (case copy_to_store L C sizecheck bph bcl svr_addr target_number region st_size fd st of
                                None \<Rightarrow> None
                              | Some (Inl ret, st) \<Rightarrow> Some (ret, st)
                              | Some (Inr (tid, rid), st) \<Rightarrow> Some (0, on_world2 (copy_to_save L tid rid) st))))))))"

section \<open>bake-copy-from\<close>

text \<open>The two ids from the identifier file; \<open>None\<close> if the file cannot be opened or is too short.\<close>

definition copy_from_ids :: "'v os \<Rightarrow> cstring \<Rightarrow> 'v \<Rightarrow> (bake_target_id \<times> bake_region_id) option \<times> 'v" where
  "copy_from_ids L name v =
    (let (region_fd, v) = os_open L name v
     in if region_fd < 0 then (None, v)
        else
         (let ((ret, tid), v) = os_read L region_fd 16 v
          in if ret \<noteq> 16 then (None, os_close L region_fd v)
             else
              (let ((ret, rid), v) = os_read L region_fd 20 v
               in if ret \<noteq> 20 then (None, os_close L region_fd v)
                  else (Some (tid, rid_of_image rid), os_close L region_fd v))))"

text \<open>The output file, truncated to the size and mapped: file descriptor and address.\<close>

definition copy_from_output :: "'v os \<Rightarrow> cstring \<Rightarrow> u64 \<Rightarrow> 'v \<Rightarrow> (int \<times> u64) option \<times> 'v" where
  "copy_from_output L name sz v =
    (let (fd, v) = os_create L name v
     in if fd < 0 then (None, v)
        else
         (let (ret, v) = os_ftruncate L fd sz v
          in if ret < 0 then (None, os_close L fd v)
             else
              (case os_mmap L fd sz v of
                 (None, v) \<Rightarrow> (None, os_close L fd v)
               | (Some region, v) \<Rightarrow> (Some (fd, region), v))))"

definition copy_from_load ::
  "'v os \<Rightarrow> 'v client_site \<Rightarrow> bool \<Rightarrow> nat \<Rightarrow> nat \<Rightarrow> hg_addr \<Rightarrow> cstring \<Rightarrow> cstring \<Rightarrow> u64 \<Rightarrow> 'v process \<Rightarrow> (int \<times> 'v process) option" where
  "copy_from_load L C sizecheck bph bcl svr_addr id_file out_file sz st = do {
     (c, ph) \<leftarrow> handle_objects bph (fst st);
     let leave = (\<lambda>ret st. map_option (Pair ret) (hang_up L C bph bcl svr_addr st));
     let (ids, v) = copy_from_ids L id_file (snd st); let st = (fst st, v);
     case ids of
       None \<Rightarrow> leave (-1) st
     | Some (tid, rid) \<Rightarrow> do {
         let ((ret, check_size), v) = (if sizecheck then bake_get_size C c ph tid rid (snd st) else ((0, Some sz), snd st));
         let st = (fst st, v);
         if ret \<noteq> 0 \<or> check_size \<noteq> Some sz then leave (-1) st
         else
          (case copy_from_output L out_file sz (snd st) of
             (None, v) \<Rightarrow> leave (-1) (fst st, v)
           | (Some (fd, region), v) \<Rightarrow>
              (let ((ret, bytes_read), v) = bake_read C c ph tid rid 0 region sz v;
                   st = unmap_file L region sz fd (fst st, v)
               in leave (if ret \<noteq> 0 then -1 else 0) st))
       }
   }"

definition copy_from :: "'v os \<Rightarrow> 'v client_site \<Rightarrow> bool \<Rightarrow> cstring list \<Rightarrow> 'v process \<Rightarrow> (int \<times> 'v process) option" where
  "copy_from L C sizecheck argv st =
    (if length argv \<noteq> 6 then Some (-1, st)
     else
      (case connect L C (argv ! 1) (argv ! 2) st of
         None \<Rightarrow> None
       | Some (None, st) \<Rightarrow> Some (-1, st)
       | Some (Some (bph, bcl, svr_addr), st) \<Rightarrow>
           copy_from_load L C sizecheck bph bcl svr_addr (argv ! 3) (argv ! 4) (of_int (c_atol (argv ! 5))) st))"

section \<open>bake-shutdown\<close>

definition shutdown_main :: "'v os \<Rightarrow> 'v client_site \<Rightarrow> cstring list \<Rightarrow> 'v process \<Rightarrow> (int \<times> 'v process) option" where
  "shutdown_main L C argv st =
    (if length argv \<noteq> 2 then Some (-1, st)
     else
      (let svr_addr_str = argv ! 1;
           (inst, v) = margo_init L (Some (addr_prefix svr_addr_str)) False (snd st); st = (fst st, v)
       in if \<not> inst then Some (-1, st)
          else
           (let ((hret, svr_addr), v) = addr_lookup (cs_margo C) (Some svr_addr_str) (snd st); st = (fst st, v)
            in if hret \<noteq> HG_SUCCESS then Some (-1, on_world2 (margo_finalize L) st)
               else
                (case bake_client_init C st of
                   ((ret, bc), st) \<Rightarrow>
                     if ret < 0 then Some (-1, on_world2 (margo_finalize L) (on_world2 (addr_free (cs_margo C) svr_addr) st))
                     else do {
                       bc \<leftarrow> bc;
                       let st = on_world2 (\<lambda>v. snd (bake_shutdown_service C svr_addr v)) st;
                       st \<leftarrow> close_session L C bc svr_addr st;
                       Some (0, st)
                     }))))"

end
