(* ===== verification/Client_Store.thy ===== *)
theory Client_Store
  imports End_To_End
begin

text \<open>
  Storing data for good: a client that creates a region, writes into it and persists it, each time
  with success, finds its bytes in the durable contents of the persistent memory of the server.
\<close>

section \<open>Creation and persisting through the RPC\<close>

lemma roundtrip_served:
  assumes net: "net_ok M H S host resp" and fits: "\<And>v. in_fits (old v) (inp v)"
    and df: "\<And>u. defined_request S (inp u) (host v)"
    and rt: "rpc_roundtrip M rpc provider inp con sel blank v = (Some out, v')"
  shows "\<exists>v0 sender sched junk cs o1. (\<forall>p n. client_load M p n v0 = client_load M p n v) \<and>
    serve S sender sched junk (inp v0) (host v) = (Some cs, host v') \<and> Respond o1 \<in> set cs \<and>
    (out_fits (con blank) o1 \<longrightarrow> sel o1 = Some out)"
proof -
  obtain r h v1 where call: "rpc_call M rpc provider inp con sel blank v = ((r, h), v1)" by (metis surj_pair)
  have r: "r = Answered out" "v' = rpc_finish M h v1" using rt call by (cases r; simp add: rpc_roundtrip_def)+
  show ?thesis using rpc_call_served [OF net fits df call [unfolded r(1)]] r(2) net_okD(6) [OF net] by metis
qed

lemma serve_create_pmem:
  assumes "pv_ok p" and "target_context p (cri_bti x) = Some (PmemContext e)"
    and "bake_pmem_create (st_env S) (st_sizecheck S) e (cri_region_size x) zero_rid s = ((ret, rid), s')"
  shows "\<exists>p'. serve S sender sched junk (In_create x) (Some p, s) =
      (Some [Respond (Out_create (rid_out ret rid)), Free_input, Destroy], (Some p', s')) \<and> pv_ok p' \<and>
    target_context p' = target_context p"
proof -
  obtain en where en: "find_target_entry p (cri_bti x) = Some en" "pv_contexts p (el_val en) = Some (PmemContext e)"
    using assms(2) by (auto simp: target_context_def split: option.splits)
  let ?q = "lock_op ABT_rwlock_unlock (lock_op ABT_rwlock_rdlock p)"
  have "set_context en (PmemContext e) (lock_op ABT_rwlock_rdlock p) = lock_op ABT_rwlock_rdlock p"
    using en(2) by (simp add: set_context_def fun_upd_idem)
  then have "serve S sender sched junk (In_create x) (Some p, s) =
      (Some [Respond (Out_create (rid_out ret rid)), Free_input, Destroy], (Some ?q, s'))"
    using en assms(3) by (simp add: serve_def bake_create_ult_def run_handler_def respond_and_cleanup_def Let_def)
  then show ?thesis using assms(1) by simp
qed

lemma serve_persist_pmem:
  assumes "pv_ok p" and "target_context p (xi_bti x) = Some (PmemContext e)"
    and "bake_pmem_persist (st_env S) (st_sizecheck S) (xi_rid x) (xi_offset x) (xi_size x) s = (ret, s')"
  shows "\<exists>p'. serve S sender sched junk (In_persist x) (Some p, s) =
      (Some [Respond (Out_persist (ret_out ret)), Free_input, Destroy], (Some p', s')) \<and> pv_ok p' \<and>
    target_context p' = target_context p"
proof -
  let ?body = "\<lambda>x target ctx (p, s).
      let (ret, s) = backend_persist S ctx (xi_rid x) (xi_offset x) (xi_size x) s in (Some (ret_out ret), (p, s))"
  have b: "?body x en (PmemContext e) (lock_op ABT_rwlock_rdlock p, s) = (Some (ret_out ret), (lock_op ABT_rwlock_rdlock p, s'))" for en
    using assms(3) by simp
  obtain p' where "run_handler xi_bti ret_out ?body (Some x) (Some p, s) = (Body (ret_out ret), (Some p', s'))"
    "pv_ok p'" "target_context p' = target_context p"
    using run_handler_found [where body = ?body and bti = xi_bti and fail = ret_out, OF assms(1,2) b] by blast
  then show ?thesis by (simp add: serve_def bake_persist_ult_def respond_and_cleanup_def)
qed

lemma serve_get_size_pmem:
  assumes "pv_ok p" and "target_context p (ri_bti x) = Some (PmemContext e)"
    and "bake_pmem_get_region_size (st_env S) (st_sizecheck S) (ri_rid x) s = (ret, n)"
  shows "\<exists>p'. serve S sender sched junk (In_get_size x) (Some p, s) =
      (Some [Respond (Out_get_size (word_out ret n)), Free_input, Destroy], (Some p', s)) \<and> pv_ok p' \<and>
    target_context p' = target_context p"
proof -
  let ?body = "\<lambda>x target ctx (p, s).
      let (ret, v) = backend_get_region_size S ctx (ri_rid x) s in (Some (word_out ret v), (p, s))"
  have b: "?body x en (PmemContext e) (lock_op ABT_rwlock_rdlock p, s) = (Some (word_out ret n), (lock_op ABT_rwlock_rdlock p, s))" for en
    using assms(3) by simp
  obtain p' where "run_handler ri_bti (\<lambda>ret. word_out ret None) ?body (Some x) (Some p, s) = (Body (word_out ret n), (Some p', s))"
    "pv_ok p'" "target_context p' = target_context p"
    using run_handler_found [where body = ?body and bti = ri_bti and fail = "\<lambda>ret. word_out ret None", OF assms(1,2) b] by blast
  then show ?thesis by (simp add: serve_def bake_get_size_ult_def respond_and_cleanup_def)
qed

text \<open>
  An allocation yields an object id of 16 bytes; if it succeeds, the object lies in memory, below the
  last bytes of the address space.
\<close>

definition alloc_ok :: "'w env \<Rightarrow> bool" where
  "alloc_ok env \<longleftrightarrow> (\<forall>pool n w r oid w'. pmemobj_alloc env pool n w = ((r, oid), w') \<longrightarrow> length oid = 16 \<and>
     (r = 0 \<longrightarrow> pmemobj_direct env oid w' \<noteq> 0 \<and> unat (pmemobj_direct env oid w') + unat n + 16 < 2 ^ 64))"

lemma alloc_okD:
  assumes "alloc_ok env" and "pmemobj_alloc env pool n w = ((r, oid), w')"
  shows "length oid = 16" and "r = 0 \<Longrightarrow> pmemobj_direct env oid w' \<noteq> 0"
    and "r = 0 \<Longrightarrow> unat (pmemobj_direct env oid w') + unat n + 16 < 2 ^ 64"
  using assms(1) [unfolded alloc_ok_def, rule_format, OF assms(2)] by simp_all

lemma client_create_pmem:
  assumes net: "net_ok M H S host resp" and C: "cs_margo C = M" "wf_rid (cs_junk_rid C)" and al: "alloc_ok (st_env S)"
    and h: "host v = (Some p, s)" "pv_ok p" "target_context p tid = Some (PmemContext e)" and id: "tid_ok tid"
    and run: "bake_create C c provider tid n v = ((BAKE_SUCCESS, Some rid), v1)"
  shows "\<exists>p' s'. bake_pmem_create (st_env S) (st_sizecheck S) e n zero_rid s = ((BAKE_SUCCESS, rid), s') \<and>
    host v1 = (Some p', s') \<and> pv_ok p' \<and> target_context p' = target_context p"
proof -
  let ?x = "\<lparr>cri_bti = tid, cri_region_size = n\<rparr>"
  obtain r where rt: "rpc_roundtrip M (cl_id c bake_create_id) provider (\<lambda>_. In_create ?x) Out_create sel_create (junk_rid C) v = (r, v1)"
    and r: "answer_rid r = (BAKE_SUCCESS, Some rid)"
    using run C by (auto simp: bake_create_def split: prod.splits)
  obtain out where out: "r = Some out" "ro_ret out = BAKE_SUCCESS" "ro_rid out = rid"
    using r by (auto simp: answer_rid_def bake_err_defs split: option.splits if_splits)
  have fits: "in_fits (In_create ?x) ((\<lambda>_. In_create ?x) v)" for v using id by (simp add: in_fits.simps)
  have df: "defined_request S ((\<lambda>_. In_create ?x) u) (host v)" for u unfolding h(1) by (rule defined_requestI [OF h(2)]) simp
  obtain sender sched junk cs o1 where s: "serve S sender sched junk (In_create ?x) (host v) = (Some cs, host v1)"
    "Respond o1 \<in> set cs" "out_fits (Out_create (junk_rid C)) o1 \<longrightarrow> sel_create o1 = Some out"
    using roundtrip_served [OF net fits df rt [unfolded out(1)]] by blast
  obtain ret rid0 s' where b: "bake_pmem_create (st_env S) (st_sizecheck S) e n zero_rid s = ((ret, rid0), s')" by (metis surj_pair)
  obtain p' where p': "serve S sender sched junk (In_create ?x) (Some p, s) =
      (Some [Respond (Out_create (rid_out ret rid0)), Free_input, Destroy], (Some p', s'))" "pv_ok p'"
    "target_context p' = target_context p"
    using serve_create_pmem [of p ?x e S s ret rid0 s' sender sched junk] h(2,3) b by auto
  have o1: "o1 = Out_create (rid_out ret rid0)" "host v1 = (Some p', s')" using s(1,2) p'(1) h(1) by auto
  have "int32 ret \<and> wf_rid rid0"
    using b alloc_okD(1) [OF al]
    by (auto simp: bake_pmem_create_def Let_def bake_err_defs wf_rid_def BAKE_REGION_ID_DATA_SIZE_def split: prod.splits if_splits)
  then have "out = rid_out ret rid0"
    using s(3) C(2) by (simp add: o1(1) out_fits.simps rid_out_fits_def junk_rid_def rid_out_def)
  then show ?thesis using out b o1(2) p'(2,3) by (auto simp: rid_out_def)
qed

lemma client_persist_pmem:
  assumes net: "net_ok M H S host resp" and C: "cs_margo C = M"
    and h: "host v = (Some p, s)" "pv_ok p" "target_context p tid = Some (PmemContext e)" and ids: "tid_ok tid" "wf_rid rid"
    and run: "bake_persist C c provider tid rid off n v = (BAKE_SUCCESS, v1)"
  shows "\<exists>p' s'. bake_pmem_persist (st_env S) (st_sizecheck S) rid off n s = (BAKE_SUCCESS, s') \<and>
    host v1 = (Some p', s') \<and> pv_ok p' \<and> target_context p' = target_context p"
proof -
  let ?x = "\<lparr>xi_bti = tid, xi_rid = rid, xi_offset = off, xi_size = n\<rparr>"
  obtain r where rt: "rpc_roundtrip M (cl_id c bake_persist_id) provider (\<lambda>_. In_persist ?x) Out_persist sel_persist (junk_ret C) v = (r, v1)"
    and r: "answer_code out_ret r = BAKE_SUCCESS"
    using run C by (auto simp: bake_persist_def split: prod.splits)
  obtain out where out: "r = Some out" "out_ret out = BAKE_SUCCESS"
    using r by (auto simp: answer_code_def bake_err_defs split: option.splits)
  have fits: "in_fits (In_persist ?x) ((\<lambda>_. In_persist ?x) v)" for v using ids by (simp add: in_fits.simps)
  have df: "defined_request S ((\<lambda>_. In_persist ?x) u) (host v)" for u unfolding h(1) by (rule defined_requestI [OF h(2)]) simp
  obtain sender sched junk cs o1 where s: "serve S sender sched junk (In_persist ?x) (host v) = (Some cs, host v1)"
    "Respond o1 \<in> set cs" "out_fits (Out_persist (junk_ret C)) o1 \<longrightarrow> sel_persist o1 = Some out"
    using roundtrip_served [OF net fits df rt [unfolded out(1)]] by blast
  obtain ret s' where b: "bake_pmem_persist (st_env S) (st_sizecheck S) rid off n s = (ret, s')" by (metis surj_pair)
  obtain p' where p': "serve S sender sched junk (In_persist ?x) (Some p, s) =
      (Some [Respond (Out_persist (ret_out ret)), Free_input, Destroy], (Some p', s'))" "pv_ok p'"
    "target_context p' = target_context p"
    using serve_persist_pmem [of p ?x e S s ret s' sender sched junk] h(2,3) b by auto
  have o1: "o1 = Out_persist (ret_out ret)" "host v1 = (Some p', s')" using s(1,2) p'(1) h(1) by auto
  have "int32 ret" using b by (auto simp: bake_pmem_persist_def Let_def bake_err_defs split: prod.splits if_splits)
  then have "ret = BAKE_SUCCESS" using s(3) out(2) by (auto simp: o1(1) out_fits.simps ret_out_def)
  then show ?thesis using b o1(2) p'(2,3) by auto
qed

section \<open>Probing\<close>

text \<open>
  A provider with the targets \<open>ids\<close> whose counter says \<open>n\<close>. The counter is exact until a target is
  detached, which does not decrement it; then a probe announces more ids than there are targets,
  and the ids behind them are indeterminate.
\<close>

definition counts_targets :: "nat \<Rightarrow> bake_target_id list \<Rightarrow> 'j bake_provider \<Rightarrow> bool" where
  "counts_targets n ids p \<longleftrightarrow> target_ids p = ids \<and> unat (pv_num_targets p) = n \<and> length ids \<le> n \<and>
     (\<forall>t \<in> set ids. tid_ok t) \<and> n * 16 < 2 ^ 64"

definition lists_targets :: "bake_target_id list \<Rightarrow> 'j bake_provider \<Rightarrow> bool" where
  "lists_targets ids p \<longleftrightarrow> target_ids p = ids \<and> unat (pv_num_targets p) = length ids \<and> (\<forall>t \<in> set ids. tid_ok t) \<and>
     length ids * 16 < 2 ^ 64"

lemma lists_counts: "lists_targets ids p \<longleftrightarrow> counts_targets (length ids) ids p"
  by (auto simp: lists_targets_def counts_targets_def)

lemma defined_probe: "defined_request S (In_probe x) (Some p, s)"
  by (auto simp: defined_request_def serve_def bake_probe_ult_def bake_provider_count_targets_def
      bake_provider_list_targets_def Let_def)

lemma serve_probe_counts:
  assumes "counts_targets n ids p"
  shows "\<exists>p'. serve S sender sched junk (In_probe x) (Some p, s) =
      (Some [Respond (Out_probe \<lparr>po_ret = BAKE_SUCCESS, po_num_targets = pv_num_targets p,
         po_targets = ids @ map junk [length ids..<n]\<rparr>), Destroy], (Some p', s)) \<and>
    counts_targets n ids p' \<and> pv_ok p' = pv_ok p \<and> target_context p' = target_context p"
  using assms by (auto simp: serve_def bake_probe_ult_def bake_provider_count_targets_def bake_provider_list_targets_def Let_def
      counts_targets_def target_ids_def drop_map)

lemma serve_probe:
  assumes "lists_targets ids p"
  shows "\<exists>p'. serve S sender sched junk (In_probe x) (Some p, s) =
      (Some [Respond (Out_probe \<lparr>po_ret = BAKE_SUCCESS, po_num_targets = pv_num_targets p, po_targets = ids\<rparr>), Destroy], (Some p', s)) \<and>
    lists_targets ids p' \<and> pv_ok p' = pv_ok p \<and> target_context p' = target_context p"
  using serve_probe_counts [of "length ids" ids p S sender sched junk x s] assms by (simp add: lists_counts)

lemma client_probe_counts:
  assumes net: "net_ok M H S host resp" and C: "cs_margo C = M" and h: "host v = (Some p, s)" "counts_targets k ids p"
    and run: "bake_probe C c ph n False v = ((ret, num, tids), v')" and n: "n \<noteq> 0"
  shows "(ret = BAKE_ERR_MERCURY \<and> num = None) \<or>
    (ret = BAKE_SUCCESS \<and> num = Some (if unat n < k then n else of_nat k) \<and>
     (\<exists>ts. length ts = k \<and> take (length ids) ts = ids \<and> tids = take (unat n) ts) \<and>
     (\<exists>p'. host v' = (Some p', s) \<and> counts_targets k ids p' \<and> pv_ok p' = pv_ok p \<and> target_context p' = target_context p))"
proof -
  let ?inp = "\<lambda>_ :: 'a. In_probe \<lparr>pri_max_targets = n\<rparr>"
  let ?blank = "\<lparr>po_ret = cs_junk_ret C, po_num_targets = cs_junk_word C, po_targets = []\<rparr>"
  obtain r hd v1 where call: "rpc_call M (cl_id c bake_probe_id) ph ?inp Out_probe sel_probe ?blank v = ((r, hd), v1)"
    by (metis surj_pair)
  show ?thesis
  proof (cases "\<exists>out. r = Answered out")
    case False
    then show ?thesis using run call C n by (cases r) (auto simp: bake_probe_def Let_def)
  next
    case True
    then obtain out where out: "r = Answered out" by blast
    have fits: "in_fits (In_probe \<lparr>pri_max_targets = n\<rparr>) (?inp v)" for v by (simp add: in_fits.simps)
    have df: "defined_request S (?inp u) (host v)" for u unfolding h(1) by (rule defined_probe)
    obtain sender sched junk cs o1 where s: "serve S sender sched junk (In_probe \<lparr>pri_max_targets = n\<rparr>) (host v) = (Some cs, host v1)"
      "Respond o1 \<in> set cs" "out_fits (Out_probe ?blank) o1 \<longrightarrow> sel_probe o1 = Some out" "\<forall>i. tid_ok (junk i)"
      using rpc_call_served [OF net fits df call [unfolded out]] by blast
    define ts where "ts = ids @ map junk [length ids..<k]"
    let ?out = "\<lparr>po_ret = BAKE_SUCCESS, po_num_targets = pv_num_targets p, po_targets = ts\<rparr>"
    obtain p' where p': "host v1 = (Some p', s)" "o1 = Out_probe ?out" "counts_targets k ids p'" "pv_ok p' = pv_ok p"
      "target_context p' = target_context p"
      using serve_probe_counts [OF h(2), of S sender sched junk "\<lparr>pri_max_targets = n\<rparr>" s] s(1,2) h(1)
      by (auto simp: ts_def)
    have ts: "length ts = k" "take (length ids) ts = ids" "\<forall>t \<in> set ts. tid_ok t"
      using h(2) s(4) by (auto simp: ts_def counts_targets_def)
    have "out_fits (Out_probe ?blank) o1"
      using p'(2) h(2) ts by (simp add: out_fits.simps counts_targets_def targets_ok_def bake_err_defs)
    then have o: "out = ?out" using s(3) p'(2) by simp
    have u: "unat (pv_num_targets p) = k" using h(2) by (simp add: counts_targets_def)
    then have k: "pv_num_targets p = of_nat k" by (metis of_nat_unat ucast_id)
    have "n < pv_num_targets p \<longleftrightarrow> unat n < k" using u by (simp add: word_less_nat_alt)
    moreover have "pv_num_targets p = 0 \<longleftrightarrow> ts = []"
      using u ts(1) by (metis length_0_conv unat_0 word_unat_eq_iff)
    then have "0 < n" "0 < pv_num_targets p \<longleftrightarrow> ts \<noteq> []" using n by (auto simp: word_gt_0)
    ultimately have res: "ret = BAKE_SUCCESS" "num = Some (if unat n < k then n else of_nat k)" "tids = take (unat n) ts"
      "v' = rpc_finish M hd v1"
      using run call C n out o u k ts(1) by (auto simp: bake_probe_def Let_def HG_SUCCESS_def bake_err_defs)
    have "host v' = (Some p', s)" using p'(1) net_okD(6) [OF net] by (simp add: res(4))
    then show ?thesis using res ts p' by blast
  qed
qed

lemma client_probe_rpc:
  assumes net: "net_ok M H S host resp" and C: "cs_margo C = M" and h: "host v = (Some p, s)" "lists_targets ids p"
    and run: "bake_probe C c ph n False v = ((ret, num, tids), v')" and n: "n \<noteq> 0"
  shows "(ret = BAKE_ERR_MERCURY \<and> num = None) \<or>
    (ret = BAKE_SUCCESS \<and> num = Some (if unat n < length ids then n else of_nat (length ids)) \<and> tids = take (unat n) ids \<and>
     (\<exists>p'. host v' = (Some p', s) \<and> lists_targets ids p' \<and> pv_ok p' = pv_ok p \<and> target_context p' = target_context p))"
  using client_probe_counts [OF net C h(1) h(2) [unfolded lists_counts] run n] unfolding lists_counts by auto

section \<open>The sequence of operations\<close>

lemma pmem_create_req:
  assumes al: "alloc_ok (st_env S)" and pm: "persist_ok (st_env S) durable"
    and b: "bake_pmem_create (st_env S) sc e n zero_rid (m, w) = ((BAKE_SUCCESS, rid), (m', w'))"
    and n: "0 < n" "unat n + 8 < 2 ^ 64" "0 < unat (poolset_get_max (st_env S) w')" "unat n + unat (poolset_get_max (st_env S) w') < 2 ^ 64"
  shows "pmem_req (st_env S) sc (prid_oid rid) 0 n 0 (m', w')" and "wf_rid rid"
    and "sc \<Longrightarrow> region_size (pmemobj_direct (st_env S) (prid_oid rid) w') m' = n"
proof -
  let ?cs = "if sc then n + 8 else n"
  obtain ret oid w1 where a: "pmemobj_alloc (st_env S) (pmem_pool_of e) ?cs w = ((ret, oid), w1)" by (metis surj_pair)
  note d = alloc_okD [OF al a]
  let ?r = "pmemobj_direct (st_env S) oid w1"
  have r: "ret = 0" "rid = zero_rid\<lparr>rid_data := oid\<rparr>" "?r \<noteq> 0"
    "m' = (if sc then set_region_size ?r n m else m)"
    "pmemobj_direct (st_env S) oid w' = ?r"
    using b a d by (auto simp: bake_pmem_create_def Let_def prid_oid_def bake_err_defs persist_okD(2) [OF pm] split: if_splits)
  have oid: "prid_oid rid = oid" by (simp add: r(2) prid_oid_def)
  have cs: "unat ?cs = (if sc then unat n + 8 else unat n)"
    using n(2) by (simp add: unat_word_ariths)
  show "wf_rid rid" using d(1) r(2) by (simp add: wf_rid_def BAKE_REGION_ID_DATA_SIZE_def)
  show sz: "region_size (pmemobj_direct (st_env S) (prid_oid rid) w') m' = n" if sc
    using that by (simp add: oid r(4,5) region_size_set)
  show "pmem_req (st_env S) sc (prid_oid rid) 0 n 0 (m', w')"
    using d(3) [OF r(1)] cs n r(3) sz by (auto simp: pmem_req_def oid r(5) split: if_splits)
qed

lemma client_store_facts:
  assumes "net_ok M H S host resp" and "cs_margo C = M" and "wf_rid (cs_junk_rid C)" and "bulk_exposes C S host rb"
    and "hg_codes_ok (st_env S)" and "alloc_ok (st_env S)" and "persist_ok (st_env S) durable"
    and "host v = (Some p, (m, w))" and "pv_ok p" and "target_context p tid = Some (PmemContext e)" and "tid_ok tid"
    and "0 < n" and "unat n + 8 < 2 ^ 64"
    and "\<And>w. 0 < unat (poolset_get_max (st_env S) w) \<and> unat n + unat (poolset_get_max (st_env S) w) < 2 ^ 64"
    and "bake_create C c provider tid n v = ((BAKE_SUCCESS, Some rid), v1)"
    and "bake_write C c provider tid rid 0 buf n v1 = (BAKE_SUCCESS, v2)"
    and "host v2' = host v2" and "bake_persist C c provider tid rid 0 n v2' = (BAKE_SUCCESS, v3)"
  shows "\<exists>p' m' w' d. host v3 = (Some p', (m', w')) \<and> pv_ok p' \<and> target_context p' = target_context p \<and> wf_rid rid \<and>
    bake_pmem_get_region_data (st_env S) (st_sizecheck S) rid (m', w') = (BAKE_SUCCESS, Some d) \<and>
    extent (unat d) (unat n) m' = client_load M buf (unat n) v1 \<and>
    extent (unat d) (unat n) (durable w') = client_load M buf (unat n) v1 \<and>
    pmem_req (st_env S) (st_sizecheck S) (prid_oid rid) 0 n 0 (m', w') \<and>
    (st_sizecheck S \<longrightarrow> bake_pmem_get_region_size (st_env S) True rid (m', w') = (BAKE_SUCCESS, Some n))"
proof -
  let ?env = "st_env S" and ?sc = "st_sizecheck S" and ?data = "client_load M buf (unat n) v1"
  obtain p1 m1 w1 where c: "bake_pmem_create ?env ?sc e n zero_rid (m, w) = ((BAKE_SUCCESS, rid), (m1, w1))"
    "host v1 = (Some p1, (m1, w1))" "pv_ok p1" "target_context p1 = target_context p"
    using client_create_pmem [OF assms(1-3,6,8-11,15)] by (metis surj_pair)
  note q = pmem_create_req [OF assms(6,7) c(1) assms(12,13), OF conjunct1 [OF assms(14)] conjunct2 [OF assms(14)]]
  define r where r: "r = pmemobj_direct ?env (prid_oid rid) w1"
  obtain p2 w2 where wr: "host v2 = (Some p2, (overlay (data_at ?sc r) ?data m1, w2))" "same_objects ?env w1 w2" "pv_ok p2"
    "target_context p2 = target_context p1"
    using client_write_overlay [OF assms(1,2,4,5) c(2,3) _ assms(11) q(2) q(1) assms(16), of e "data_at ?sc r"] assms(10) c(4) r by auto
  let ?m = "overlay (data_at ?sc r) ?data m1"
  obtain p3 s3 where pe: "bake_pmem_persist ?env ?sc rid 0 n (?m, w2) = (BAKE_SUCCESS, s3)" "host v3 = (Some p3, s3)"
    "target_context p3 = target_context p2" "pv_ok p3"
    using client_persist_pmem [OF assms(1,2) wr(1) [folded assms(17)] wr(3) _ assms(11) q(2) assms(18)] assms(10) c(4) wr(4) by auto
  have rr: "pmemobj_direct ?env (prid_oid rid) w2 = r" "r \<noteq> 0" "unat r + 8 + unat n < 2 ^ 64"
    using wr(2) q(1) by (simp_all add: same_objects_def pmem_req_def flip: r)
  let ?w = "pmemobj_persist ?env (region_data ?sc r) (extent (unat (region_data ?sc r)) (unat n) ?m) w2"
  have s3: "s3 = (?m, ?w)" using pe(1) rr by (auto simp: bake_pmem_persist_def Let_def)
  have d: "unat (region_data ?sc r) = data_at ?sc r" using unat_data_ptr [of r 0 ?sc] rr(3) by simp
  have len: "length ?data = unat n" by (rule net_okD(10) [OF assms(1)])
  have e1: "extent (data_at ?sc r) (unat n) ?m = ?data" using len by (simp add: extent_overlay_prefix)
  have dir: "pmemobj_direct ?env (prid_oid rid) ?w = r" using persist_okD(2) [OF assms(7)] rr(1) by simp
  have "extent (data_at ?sc r) (unat n) (durable ?w) = ?data"
    using persist_okD(1) [OF assms(7)] len by (simp add: d e1 extent_overlay_prefix)
  moreover have "region_size r ?m = n" if ?sc
    using q(3) that region_size_overlay [of r "data_at ?sc r"] by (simp add: data_at_def flip: r)
  moreover from this have "pmem_req ?env ?sc (prid_oid rid) 0 n 0 (?m, ?w)"
    unfolding pmem_req_def fst_conv snd_conv dir using assms(12,14) rr by simp
  ultimately show ?thesis
    using pe(2-4) q(2) s3 wr(4) c(4) e1 dir rr(2) d
    by (auto simp: bake_pmem_get_region_data_def bake_pmem_get_region_size_def Let_def)
qed

text \<open>C7: The purpose of the service: when a client creates a region of a persistent memory target, writes
  its bytes into it and persists it, and every call returns success, then the bytes are in the region
  on the server, in memory and in its durable contents, whatever their size, and the region has the size
  that was asked for.\<close>
theorem client_store_durable:
  assumes "net_ok M H S host resp" and "cs_margo C = M" and "wf_rid (cs_junk_rid C)" and "bulk_exposes C S host rb"
    and "hg_codes_ok (st_env S)" and "alloc_ok (st_env S)" and "persist_ok (st_env S) durable"
    and "host v = (Some p, (m, w))" and "pv_ok p" and "target_context p tid = Some (PmemContext e)" and "tid_ok tid"
    and "0 < n" and "unat n + 8 < 2 ^ 64"
    and "\<And>w. 0 < unat (poolset_get_max (st_env S) w) \<and> unat n + unat (poolset_get_max (st_env S) w) < 2 ^ 64"
    and "bake_create C c provider tid n v = ((BAKE_SUCCESS, Some rid), v1)"
    and "bake_write C c provider tid rid 0 buf n v1 = (BAKE_SUCCESS, v2)"
    and "bake_persist C c provider tid rid 0 n v2 = (BAKE_SUCCESS, v3)"
  shows "\<exists>p' m' w' d. host v3 = (Some p', (m', w')) \<and> target_context p' = target_context p \<and>
    bake_pmem_get_region_data (st_env S) (st_sizecheck S) rid (m', w') = (BAKE_SUCCESS, Some d) \<and>
    extent (unat d) (unat n) m' = client_load M buf (unat n) v1 \<and>
    extent (unat d) (unat n) (durable w') = client_load M buf (unat n) v1 \<and>
    (st_sizecheck S \<longrightarrow> bake_pmem_get_region_size (st_env S) True rid (m', w') = (BAKE_SUCCESS, Some n))"
  using client_store_facts [OF assms(1-16) refl assms(17)] by blast

end
