(* ===== verification/Copy_Props.thy ===== *)
theory Copy_Props
  imports Tool_Copy Client_Store
begin

text \<open>
  \<^verbatim>\<open>bake-copy-to\<close> from the command line to the persistent memory of the server.
\<close>

section \<open>What the calls leave alone\<close>

text \<open>
  Requests that carry no bulk handle leave the memory of the client alone, as the server has no access
  to it; so do the calls that read the answer. The calls of the operating system that the program makes
  concern its own process, and so does the end of its margo instance.
\<close>

fun carries_bulk :: "rpc_in \<Rightarrow> bool" where
  "carries_bulk (In_write _) = True"
| "carries_bulk (In_create_write_persist _) = True"
| "carries_bulk (In_read _) = True"
| "carries_bulk _ = False"

definition memory_kept :: "'v margo \<Rightarrow> bool" where
  "memory_kept M \<longleftrightarrow>
    (\<forall>pid h x v r v'. margo_provider_forward M pid h x v = (r, v') \<and> \<not> carries_bulk x \<longrightarrow>
       (\<forall>p n. client_load M p n v' = client_load M p n v)) \<and>
    (\<forall>h old v r v'. margo_get_output M h old v = (r, v') \<longrightarrow> (\<forall>p n. client_load M p n v' = client_load M p n v))"

definition keeps :: "'v margo \<Rightarrow> ('v \<Rightarrow> 'h) \<Rightarrow> 'v \<Rightarrow> 'v \<Rightarrow> bool" where
  "keeps M host v v' \<longleftrightarrow> host v' = host v \<and> (\<forall>p n. client_load M p n v' = client_load M p n v)"

definition os_local :: "'v os \<Rightarrow> ('v \<Rightarrow> 'h) \<Rightarrow> bool" where
  "os_local L host \<longleftrightarrow>
    (\<forall>name v. host (snd (os_open L name v)) = host v) \<and> (\<forall>fd n v. host (snd (os_mmap L fd n v)) = host v) \<and>
    (\<forall>name v. host (snd (os_mkstemp L name v)) = host v) \<and> (\<forall>fd d v. host (snd (os_write L fd d v)) = host v) \<and>
    (\<forall>p n v. host (os_munmap L p n v) = host v) \<and> (\<forall>fd v. host (os_close L fd v) = host v) \<and>
    (\<forall>name v. host (snd (os_create L name v)) = host v) \<and> (\<forall>fd n v. host (snd (os_ftruncate L fd n v)) = host v) \<and>
    (\<forall>fd n v. host (snd (os_read L fd n v)) = host v)"

definition margo_local :: "'v os \<Rightarrow> 'v margo \<Rightarrow> ('v \<Rightarrow> 'h) \<Rightarrow> bool" where
  "margo_local L M host \<longleftrightarrow>
    (\<forall>a srv v. keeps M host v (snd (margo_init L a srv v))) \<and> (\<forall>a v. keeps M host v (snd (addr_lookup M a v))) \<and>
    (\<forall>a v. keeps M host v (snd (addr_dup M a v))) \<and> (\<forall>n v. keeps M host v (snd (margo_register M n v))) \<and>
    (\<forall>v. host (margo_finalize L v) = host v) \<and> (\<forall>a v. host (addr_free M a v) = host v)"

lemma keeps_refl [simp]: "keeps M host v v" by (simp add: keeps_def)

lemma keeps_trans: "keeps M host v1 v2 \<Longrightarrow> keeps M host v2 v3 \<Longrightarrow> keeps M host v1 v3" by (simp add: keeps_def)

lemma keeps_fold:
  assumes "\<And>x c v. keeps M host v (snd (f x (c, v)))"
  shows "keeps M host v (snd (fold f xs (c, v)))"
proof (induction xs arbitrary: c v)
  case (Cons x xs)
  obtain c' v' where f: "f x (c, v) = (c', v')" by (metis surj_pair)
  have "keeps M host v v'" using assms [of v x c] f by simp
  from keeps_trans [OF this Cons] show ?case using f by simp
qed simp

lemma rpc_call_memory:
  assumes net: "net_ok M H S host resp" and k: "memory_kept M" and b: "\<And>v. \<not> carries_bulk (inp v)"
    and call: "rpc_call M rpc provider inp con sel blank v = (r, v')"
  shows "client_load M p n v' = client_load M p n v"
proof -
  obtain r1 h1 v1 where c: "margo_create M rpc (ph_addr provider) v = ((r1, h1), v1)" by (metis surj_pair)
  obtain r2 v2 where f: "margo_provider_forward M (ph_provider_id provider) h1 (inp v1) v1 = (r2, v2)" by (metis surj_pair)
  obtain r3 o1 v3 where g: "margo_get_output M h1 (con blank) v2 = ((r3, o1), v3)" by (metis surj_pair)
  have "client_load M p n v1 = client_load M p n v" using net_okD(5) [OF net c] by blast
  moreover have "client_load M p n v2 = client_load M p n v1" using k f b unfolding memory_kept_def by blast
  moreover have "client_load M p n v3 = client_load M p n v2" using k g unfolding memory_kept_def by blast
  ultimately show ?thesis using call c f g by (auto simp: rpc_call_def split: if_splits option.splits)
qed

lemma probe_memory:
  assumes "net_ok M H S host resp" and "memory_kept M" and "cs_margo C = M"
    and "bake_probe C c ph k b v = (r, v')"
  shows "client_load M p n v' = client_load M p n v"
proof -
  let ?k = "if b then 0 else k"
  obtain r1 h v1 where call: "rpc_call M (cl_id c bake_probe_id) ph (\<lambda>_. In_probe \<lparr>pri_max_targets = ?k\<rparr>) Out_probe sel_probe
      \<lparr>po_ret = cs_junk_ret C, po_num_targets = cs_junk_word C, po_targets = []\<rparr> v = ((r1, h), v1)" by (metis surj_pair)
  have "client_load M p n v1 = client_load M p n v" by (rule rpc_call_memory [OF assms(1,2) _ call]) simp
  then show ?thesis
    using assms(3,4) call net_okD(7,9) [OF assms(1)]
    by (cases r1) (auto simp: bake_probe_def Let_def split: if_splits)
qed

lemma create_memory:
  assumes "net_ok M H S host resp" and "memory_kept M" and "cs_margo C = M"
    and "bake_create C c ph tid k v = (r, v')"
  shows "client_load M p n v' = client_load M p n v"
proof -
  obtain r1 h v1 where call: "rpc_call M (cl_id c bake_create_id) ph (\<lambda>_. In_create \<lparr>cri_bti = tid, cri_region_size = k\<rparr>)
      Out_create sel_create (junk_rid C) v = ((r1, h), v1)" by (metis surj_pair)
  have "client_load M p n v1 = client_load M p n v" by (rule rpc_call_memory [OF assms(1,2) _ call]) simp
  then show ?thesis
    using assms(3,4) call net_okD(7,9) [OF assms(1)]
    by (cases r1) (auto simp: bake_create_def rpc_roundtrip_def Let_def split: if_splits)
qed

lemma client_get_size_host:
  assumes net: "net_ok M H S host resp" and C: "cs_margo C = M" and h: "host v = (Some p, s)" "pv_ok p"
    and ctx: "target_context p tid = Some (PmemContext e)" and ids: "tid_ok tid" "wf_rid rid"
    and run: "bake_get_size C c provider tid rid v = ((ret, Some n), v1)"
  shows "\<exists>p'. host v1 = (Some p', s) \<and> pv_ok p' \<and> target_context p' = target_context p"
proof -
  let ?x = "\<lparr>ri_bti = tid, ri_rid = rid\<rparr>"
  obtain out where rt: "rpc_roundtrip M (cl_id c bake_get_size_id) provider (\<lambda>_. In_get_size ?x) Out_get_size sel_get_size
      (junk_word C) v = (Some out, v1)"
    using run C by (auto simp: bake_get_size_def split: prod.splits)
  have fits: "in_fits (In_get_size ?x) ((\<lambda>_. In_get_size ?x) v)" for v using ids by (simp add: in_fits.simps)
  have df: "defined_request S ((\<lambda>_. In_get_size ?x) u) (host v)" for u unfolding h(1) by (rule defined_requestI [OF h(2)]) simp
  obtain sender sched junk cs where s: "serve S sender sched junk (In_get_size ?x) (host v) = (Some cs, host v1)"
    using roundtrip_served [OF net fits df rt] by blast
  obtain ret n where "bake_pmem_get_region_size (st_env S) (st_sizecheck S) rid s = (ret, n)" by (metis surj_pair)
  then show ?thesis
    using serve_get_size_pmem [of p ?x e S s ret n sender sched junk] s h ctx by auto
qed

lemma hang_up_host:
  assumes "margo_local L (cs_margo C) host" and "hang_up L C bph bcl a (hp, v) = Some st"
  shows "host (snd st) = host v"
  using assms
  by (auto simp: hang_up_def close_session_def finalize_client_def on_world2_def bake_provider_handle_release_def margo_local_def
      Let_def bind_eq_Some_conv split: if_splits option.splits prod.splits)

lemma client_init_keeps:
  assumes "margo_local L (cs_margo C) host" and "bake_client_init C (hp, v) = (r, (hp', v'))"
  shows "keeps (cs_margo C) host v v'"
proof -
  let ?reg = "\<lambda>r (c :: bake_client, v). let (i, v) = margo_register (cs_margo C) (bytes_of_string (rpc_name r)) v
      in (c\<lparr>cl_id := (cl_id c)(r := i)\<rparr>, v)"
  have "keeps (cs_margo C) host v (snd (?reg r (c, v)))" for r c v
    using assms(1) by (simp add: margo_local_def split: prod.splits) (metis snd_conv)
  from keeps_fold [where f = ?reg, OF this] have "keeps (cs_margo C) host v (snd (fold ?reg rs (c, v)))" for rs c v .
  then have "keeps (cs_margo C) host v (snd (bake_client_register (cs_margo C) c v))" for c
    by (simp add: bake_client_register_def case_prod_unfold Let_def split: option.splits)
  from this [of "\<lparr>cl_id = (\<lambda>_. 0), cl_num_provider_handles = 0\<rparr>"] show ?thesis
    using assms(2) by (auto simp: bake_client_init_def split: if_splits prod.splits)
qed

lemma connect_keeps:
  assumes l: "margo_local L (cs_margo C) host" and run: "connect L C a mplex (hp, v) = Some (Some h, (hp', v'))"
  shows "keeps (cs_margo C) host v v'"
proof -
  obtain inst v1 where i: "margo_init L (Some (addr_prefix a)) False v = (inst, v1)" by (metis surj_pair)
  obtain ret c hp2 v2 where ci: "bake_client_init C (hp, v1) = ((ret, c), (hp2, v2))" by (metis surj_pair)
  obtain hret addr v3 where al: "addr_lookup (cs_margo C) (Some a) v2 = ((hret, addr), v3)" by (metis surj_pair)
  obtain hret2 a2 v4 where ad: "addr_dup (cs_margo C) addr v3 = ((hret2, a2), v4)" by (metis surj_pair)
  have "keeps (cs_margo C) host v (snd (margo_init L (Some (addr_prefix a)) False v))"
    "keeps (cs_margo C) host v2 (snd (addr_lookup (cs_margo C) (Some a) v2))"
    "keeps (cs_margo C) host v3 (snd (addr_dup (cs_margo C) addr v3))"
    using l unfolding margo_local_def by blast+
  then have k: "keeps (cs_margo C) host v v1" "keeps (cs_margo C) host v2 v3" "keeps (cs_margo C) host v3 v4"
    using i al ad by simp_all
  have "v' = v4"
    using run i ci al ad by (auto simp: connect_def Let_def bake_provider_handle_create_def split: if_splits option.splits)
  then show ?thesis using keeps_trans [OF k(1) keeps_trans [OF client_init_keeps [OF l ci] keeps_trans [OF k(2,3)]]] by simp
qed

section \<open>The program\<close>

text \<open>The calls of a run that stores the file.\<close>

lemma copy_to_store_success:
  assumes "copy_to_store L C sc bph bcl a t region sz fd (hp, v) = Some (Inr (tid, rid), st)"
  obtains c ph ret n tids v1 v2 v3 v4 v5 where
    "bake_probe C c ph (ucast t) False v = ((ret, Some n, tids), v1)" "0 \<le> ret" "ucast t \<le> n" "unat t \<le> length tids"
    "tid = tids ! (unat t - 1)" "bake_create C c ph tid sz v1 = ((BAKE_SUCCESS, Some rid), v2)"
    "bake_write C c ph tid rid 0 region sz v2 = (BAKE_SUCCESS, v3)"
    "bake_persist C c ph tid rid 0 sz (os_close L fd (os_munmap L region sz v3)) = (BAKE_SUCCESS, v4)"
    "(sc \<and> bake_get_size C c ph tid rid v4 = ((BAKE_SUCCESS, Some sz), v5)) \<or> (\<not> sc \<and> v5 = v4)"
    "hang_up L C bph bcl a (hp, v5) = Some st"
proof -
  let ?v = "\<lambda>v. os_close L fd (os_munmap L region sz v)"
  note def = copy_to_store_def Let_def unmap_file_def on_world2_def
  obtain c ph where h: "handle_objects bph hp = Some (c, ph)" using assms by (auto simp: def bind_eq_Some_conv)
  obtain ret num tids v1 where p: "bake_probe C c ph (ucast t) False v = ((ret, num, tids), v1)" by (metis surj_pair)
  obtain n where n: "num = Some n" "0 \<le> ret" "ucast t \<le> n" "unat t \<le> length tids"
    using assms h p by (auto simp: def bind_eq_Some_conv not_less split: if_splits)
  let ?t = "tids ! (unat t - 1)"
  obtain r2 rid2 v2 where cr: "bake_create C c ph ?t sz v1 = ((r2, rid2), v2)" by (metis surj_pair)
  obtain rid' where rid: "r2 = BAKE_SUCCESS" "rid2 = Some rid'"
    using assms h p n cr by (auto simp: def bind_eq_Some_conv BAKE_SUCCESS_def split: if_splits)
  obtain r3 v3 where w: "bake_write C c ph ?t rid' 0 region sz v2 = (r3, v3)" by (metis surj_pair)
  obtain r4 v4 where pe: "bake_persist C c ph ?t rid' 0 sz (?v v3) = (r4, v4)" by (metis surj_pair)
  obtain r5 size v5 where g: "bake_get_size C c ph ?t rid' v4 = ((r5, size), v5)" by (metis surj_pair)
  note run = assms [unfolded def] h p n cr rid w pe g
  have "r3 = BAKE_SUCCESS" "r4 = BAKE_SUCCESS" "rid' = rid" "tid = ?t"
    "(if sc then r5 = BAKE_SUCCESS \<and> size = Some sz \<and> hang_up L C bph bcl a (hp, v5) = Some st else hang_up L C bph bcl a (hp, v4) = Some st)"
    using run by (auto simp: bind_eq_Some_conv BAKE_SUCCESS_def not_less split: if_splits)
  then show thesis using that [of c ph ret n tids v1 v2 v3 v4 "if sc then v5 else v4"] run by (auto split: if_splits)
qed

lemma copy_to_store_code: "copy_to_store L C sc bph bcl a t region sz fd (hp, v) = Some (Inl r, st) \<Longrightarrow> r = - 1"
  by (auto simp: copy_to_store_def Let_def bind_eq_Some_conv case_prod_unfold split: if_splits)

lemma copy_to_success:
  assumes "copy_to L C sc argv (hp, v) = Some (0, st)" and "os_open L (argv ! 1) v = (fd, v1)"
    and "fstat_size (cs_margo C) fd v1 = (r, sz)" and "os_mmap L fd sz v1 = (Some region, v2)"
  obtains bph bcl a hp3 v3 tid rid hp4 v4 where
    "of_int (c_atoi (argv ! 4)) \<noteq> (0 :: u32)" "connect L C (argv ! 2) (argv ! 3) (hp, v2) = Some (Some (bph, bcl, a), (hp3, v3))"
    "copy_to_store L C sc bph bcl a (of_int (c_atoi (argv ! 4))) region sz fd (hp3, v3) = Some (Inr (tid, rid), (hp4, v4))"
    "st = (hp4, copy_to_save L tid rid v4)"
proof -
  let ?t = "of_int (c_atoi (argv ! 4)) :: u32"
  obtain cr where c: "connect L C (argv ! 2) (argv ! 3) (hp, v2) = Some cr"
    using assms by (auto simp: copy_to_def Let_def split: if_splits option.splits)
  obtain bph bcl a hp3 v3 where cr: "cr = (Some (bph, bcl, a), (hp3, v3))"
    using assms c by (cases cr; cases "fst cr") (auto simp: copy_to_def Let_def split: if_splits)
  obtain sr where s: "copy_to_store L C sc bph bcl a ?t region sz fd (hp3, v3) = Some sr"
    using assms c cr by (auto simp: copy_to_def Let_def split: if_splits option.splits)
  have "fst sr \<noteq> Inl 0" using copy_to_store_code s by (cases sr) force
  then obtain tid rid hp4 v4 where sr: "sr = (Inr (tid, rid), (hp4, v4))" "st = (hp4, copy_to_save L tid rid v4)"
    using assms c cr s by (cases sr; cases "fst sr") (auto simp: copy_to_def Let_def on_world2_def split: if_splits)
  have "?t \<noteq> 0" using assms by (auto simp: copy_to_def Let_def split: if_splits)
  then show thesis using that c cr s sr by blast
qed

lemma copy_to_save_host: "os_local L host \<Longrightarrow> host (copy_to_save L tid rid v) = host v"
  by (auto simp: copy_to_save_def os_local_def Let_def case_prod_unfold)

lemma copy_to_store_facts:
  assumes net: "net_ok M H S host resp" and C: "cs_margo C = M" "wf_rid (cs_junk_rid C)" and ex: "bulk_exposes C S host rb"
    and en: "hg_codes_ok (st_env S)" "alloc_ok (st_env S)" "persist_ok (st_env S) durable"
    and l: "memory_kept M" "os_local L host" "margo_local L M host"
    and h: "host v = (Some p, (m, w))" "pv_ok p" "lists_targets ids p"
    and pm: "\<And>t. t \<in> set ids \<Longrightarrow> \<exists>e. target_context p t = Some (PmemContext e)"
    and n: "0 < n" "unat n + 8 < 2 ^ 64"
      "\<And>w. 0 < unat (poolset_get_max (st_env S) w) \<and> unat n + unat (poolset_get_max (st_env S) w) < 2 ^ 64"
    and t: "t \<noteq> 0" and run: "copy_to_store L C sc bph bcl a t region n fd (hp, v) = Some (Inr (tid, rid), st)"
  shows "unat t \<le> length ids \<and> tid = ids ! (unat t - 1) \<and> tid_ok tid \<and> wf_rid rid \<and>
    (\<exists>p' m' w' d. host (snd st) = (Some p', (m', w')) \<and> pv_ok p' \<and> target_context p' = target_context p \<and>
    pmem_req (st_env S) (st_sizecheck S) (prid_oid rid) 0 n 0 (m', w') \<and>
    bake_pmem_get_region_data (st_env S) (st_sizecheck S) rid (m', w') = (BAKE_SUCCESS, Some d) \<and>
    extent (unat d) (unat n) m' = client_load M region (unat n) v \<and>
    extent (unat d) (unat n) (durable w') = client_load M region (unat n) v)"
proof -
  obtain c ph ret k tids v1 v2 v3 v4 v5 where s:
    "bake_probe C c ph (ucast t) False v = ((ret, Some k, tids), v1)" "0 \<le> ret" "ucast t \<le> k" "unat t \<le> length tids"
    "tid = tids ! (unat t - 1)" "bake_create C c ph tid n v1 = ((BAKE_SUCCESS, Some rid), v2)"
    "bake_write C c ph tid rid 0 region n v2 = (BAKE_SUCCESS, v3)"
    "bake_persist C c ph tid rid 0 n (os_close L fd (os_munmap L region n v3)) = (BAKE_SUCCESS, v4)"
    "(sc \<and> bake_get_size C c ph tid rid v4 = ((BAKE_SUCCESS, Some n), v5)) \<or> (\<not> sc \<and> v5 = v4)"
    "hang_up L C bph bcl a (hp, v5) = Some st"
    using copy_to_store_success [OF run] by metis
  have ut: "unat (ucast t :: u64) = unat t" using unsigned_less [of t, where ?'a = nat] by (simp add: unsigned_ucast_eq take_bit_nat_eq_self)
  then have "(ucast t :: u64) \<noteq> 0" using t by (metis unat_eq_0)
  with client_probe_rpc [OF net C(1) h(1,3) s(1)] s(2)
  obtain p1 where p1: "host v1 = (Some p1, (m, w))" "lists_targets ids p1" "pv_ok p1" "target_context p1 = target_context p"
    "tids = take (unat t) ids"
    using h(2) by (auto simp: bake_err_defs ut)
  have "0 < unat t" using t by (simp add: unat_gt_0)
  then have tid: "unat t \<le> length ids" "tid = ids ! (unat t - 1)" "tid \<in> set ids" using s(4,5) p1(5) by auto
  obtain e where e: "target_context p tid = Some (PmemContext e)" using pm [OF tid(3)] by blast
  have tok: "tid_ok tid" using p1(2) tid(3) by (simp add: lists_targets_def)
  note store = client_store_facts [OF net C ex en p1(1,3) _ tok n s(6,7) _ s(8), unfolded p1(4), OF e]
  have o: "host (os_close L fd (os_munmap L region n v3)) = host v3" using l(2) by (simp add: os_local_def)
  obtain p4 m4 w4 d where st: "host v4 = (Some p4, (m4, w4))" "pv_ok p4" "target_context p4 = target_context p" "wf_rid rid"
    "bake_pmem_get_region_data (st_env S) (st_sizecheck S) rid (m4, w4) = (BAKE_SUCCESS, Some d)"
    "extent (unat d) (unat n) m4 = client_load M region (unat n) v2"
    "extent (unat d) (unat n) (durable w4) = client_load M region (unat n) v2"
    "pmem_req (st_env S) (st_sizecheck S) (prid_oid rid) 0 n 0 (m4, w4)"
    using store [OF o] by blast
  have "client_load M region (unat n) v2 = client_load M region (unat n) v"
    using probe_memory [OF net l(1) C(1) s(1)] create_memory [OF net l(1) C(1) s(6)] by simp
  moreover have "\<exists>p5. host v5 = (Some p5, (m4, w4)) \<and> pv_ok p5 \<and> target_context p5 = target_context p"
    using s(9) client_get_size_host [OF net C(1) st(1,2) _ tok st(4)] st(1-3) e by fastforce
  ultimately show ?thesis using tid(1,2) tok st(4-8) hang_up_host [OF _ s(10), of host] l(3) C(1) by auto
qed

text \<open>C161: \<^verbatim>\<open>bake-copy-to\<close> stores files: when the program exits with code 0, the target number of the
  command line is that of a target of the provider, and a region on the server holds the bytes of the
  mapped file, in memory and in its durable contents, whatever the size of the file.\<close>
theorem copy_to_stores_file:
  assumes "net_ok M H S host resp" and "cs_margo C = M" and "wf_rid (cs_junk_rid C)" and "bulk_exposes C S host rb"
    and "hg_codes_ok (st_env S)" and "alloc_ok (st_env S)" and "persist_ok (st_env S) durable"
    and "memory_kept M" and "os_local L host" and "margo_local L M host"
    and "host v = (Some p, (m, w))" and "pv_ok p" and "lists_targets (target_ids p) p"
    and "\<And>t. t \<in> set (target_ids p) \<Longrightarrow> \<exists>e. target_context p t = Some (PmemContext e)"
    and "0 < n" and "unat n + 8 < 2 ^ 64"
    and "\<And>w. 0 < unat (poolset_get_max (st_env S) w) \<and> unat n + unat (poolset_get_max (st_env S) w) < 2 ^ 64"
    and "os_open L (argv ! 1) v = (fd, v1)" and "fstat_size M fd v1 = (r, n)" and "os_mmap L fd n v1 = (Some region, v2)"
    and "copy_to L C sc argv (hp, v) = Some (0, st)"
  shows "0 < unat (of_int (c_atoi (argv ! 4)) :: u32) \<and> unat (of_int (c_atoi (argv ! 4)) :: u32) \<le> length (target_ids p) \<and>
    (\<exists>rid p' m' w' d. host (snd st) = (Some p', (m', w')) \<and>
    bake_pmem_get_region_data (st_env S) (st_sizecheck S) rid (m', w') = (BAKE_SUCCESS, Some d) \<and>
    extent (unat d) (unat n) m' = client_load M region (unat n) v2 \<and>
    extent (unat d) (unat n) (durable w') = client_load M region (unat n) v2)"
proof -
  obtain bph bcl a hp3 v3 tid rid hp4 v4 where s: "of_int (c_atoi (argv ! 4)) \<noteq> (0 :: u32)"
    "connect L C (argv ! 2) (argv ! 3) (hp, v2) = Some (Some (bph, bcl, a), (hp3, v3))"
    "copy_to_store L C sc bph bcl a (of_int (c_atoi (argv ! 4))) region n fd (hp3, v3) = Some (Inr (tid, rid), (hp4, v4))"
    "st = (hp4, copy_to_save L tid rid v4)"
    by (rule copy_to_success [OF assms(21,18) assms(19) [folded assms(2)] assms(20)])
  have "host v1 = host v" "host v2 = host v1" using assms(9) unfolding os_local_def by (metis assms(18,20) snd_conv)+
  then have k: "host v3 = (Some p, (m, w))" "client_load M region (unat n) v3 = client_load M region (unat n) v2"
    using connect_keeps [OF assms(10) [folded assms(2)] s(2)] assms(2,11) by (simp_all add: keeps_def)
  note d = copy_to_store_facts [OF assms(1-10) k(1) assms(12,13) assms(14) assms(15-17) s(1,3), unfolded k(2) snd_conv]
  have "host (snd st) = host v4" using s(4) copy_to_save_host [OF assms(9)] by simp
  then show ?thesis using d s(1) by (simp add: unat_gt_0) blast
qed

end
