(* ===== verification/Cpp_Client.thy ===== *)
theory Cpp_Client
  imports Cpp_Types Client_Rpc
begin

text \<open>
  The C++ interface of the client (\<^verbatim>\<open>include/bake-client.hpp\<close>). Objects of the classes \<open>client\<close> and
  \<open>provider_handle\<close> are identified by their address; the store maps the address of a living object
  to its members. A result \<open>None\<close> is undefined behaviour: a null or dangling pointer passed to the C
  functions, or an object that does not live.
\<close>

section \<open>State\<close>

record client_obj =
  m_client :: nat
  m_owns_client :: bool

record 'v cpp =
  cx_heap :: client_heap
  cx_world :: 'v
  cx_clients :: "nat \<Rightarrow> client_obj option"
  cx_handles :: "nat \<Rightarrow> nat option" \<comment> \<open>the member \<open>m_ph\<close> of an object\<close>

text \<open>How a method that returns nothing ends: with an exception or without.\<close>

type_synonym ending = "bake_exception + unit"

definition set_client :: "nat \<Rightarrow> client_obj option \<Rightarrow> 'v cpp \<Rightarrow> 'v cpp" where
  "set_client x obj st = st\<lparr>cx_clients := (cx_clients st)(x := obj)\<rparr>"

definition set_handle :: "nat \<Rightarrow> nat option \<Rightarrow> 'v cpp \<Rightarrow> 'v cpp" where
  "set_handle x obj st = st\<lparr>cx_handles := (cx_handles st)(x := obj)\<rparr>"

section \<open>The class client\<close>

definition client_default :: "nat \<Rightarrow> 'v cpp \<Rightarrow> 'v cpp" where
  "client_default x = set_client x (Some \<lparr>m_client = BAKE_CLIENT_NULL, m_owns_client = True\<rparr>)"

definition client_construct :: "'v client_site \<Rightarrow> nat \<Rightarrow> 'v cpp \<Rightarrow> ending \<times> 'v cpp" where
  "client_construct C x st =
    (let ((ret, c), (hp, v)) = bake_client_init C (cx_heap st, cx_world st);
         st = st\<lparr>cx_heap := hp, cx_world := v\<rparr>
     in case c of
          Some c \<Rightarrow> (CHECK_RET ret (), set_client x (Some \<lparr>m_client = c, m_owns_client = True\<rparr>) st)
        | None \<Rightarrow> (CHECK_RET ret (), st))"

definition client_wrap :: "nat \<Rightarrow> nat \<Rightarrow> bool \<Rightarrow> 'v cpp \<Rightarrow> 'v cpp" where
  "client_wrap x c transfer_ownership = set_client x (Some \<lparr>m_client = c, m_owns_client = transfer_ownership\<rparr>)"

definition client_move :: "nat \<Rightarrow> nat \<Rightarrow> 'v cpp \<Rightarrow> 'v cpp option" where
  "client_move x y st =
    map_option (\<lambda>c. set_client y (Some \<lparr>m_client = BAKE_CLIENT_NULL, m_owns_client = False\<rparr>) (set_client x (Some c) st))
      (cx_clients st y)"

text \<open>The part of the assignment and of the destructor that gives up what the object owns.\<close>

definition client_drop :: "client_obj \<Rightarrow> 'v cpp \<Rightarrow> (int \<times> 'v cpp) option" where
  "client_drop c st =
    (if m_client c \<noteq> BAKE_CLIENT_NULL \<and> m_owns_client c
     then map_option (\<lambda>(ret, hp). (ret, st\<lparr>cx_heap := hp\<rparr>)) (bake_client_finalize (m_client c) (cx_heap st))
     else Some (BAKE_SUCCESS, st))"

definition client_move_assign :: "nat \<Rightarrow> nat \<Rightarrow> 'v cpp \<Rightarrow> (ending \<times> 'v cpp) option" where
  "client_move_assign x y st =
    (if y = x then Some (Inr (), st)
     else
      (case (cx_clients st x, cx_clients st y) of
         (Some this, Some c) \<Rightarrow>
           (case client_drop this st of
              None \<Rightarrow> None
            | Some (ret, st) \<Rightarrow>
                if ret \<noteq> BAKE_SUCCESS then Some (CHECK_RET ret (), st)
                else Some (Inr (), set_client y (Some \<lparr>m_client = BAKE_CLIENT_NULL, m_owns_client = False\<rparr>)
                                     (set_client x (Some c) st)))
       | _ \<Rightarrow> None))"

definition client_destroy :: "nat \<Rightarrow> 'v cpp \<Rightarrow> 'v cpp option" where
  "client_destroy x st =
    (case cx_clients st x of
       None \<Rightarrow> None
     | Some c \<Rightarrow> map_option (\<lambda>(ret, st). set_client x None st) (client_drop c st))"

definition client_bool :: "client_obj \<Rightarrow> bool" where "client_bool c \<longleftrightarrow> m_client c \<noteq> BAKE_CLIENT_NULL"

definition client_shutdown :: "'v client_site \<Rightarrow> hg_addr \<Rightarrow> 'v \<Rightarrow> ending \<times> 'v" where
  "client_shutdown C addr v = (let (ret, v) = bake_shutdown_service C addr v in (CHECK_RET ret (), v))"

section \<open>The class provider\_handle\<close>

definition handle_default :: "nat \<Rightarrow> 'v cpp \<Rightarrow> 'v cpp" where
  "handle_default x = set_handle x (Some BAKE_PROVIDER_HANDLE_NULL)"

text \<open>An object whose constructor throws does not come to life.\<close>

definition handle_construct ::
  "'v client_site \<Rightarrow> nat \<Rightarrow> client_obj \<Rightarrow> hg_addr \<Rightarrow> u16 \<Rightarrow> 'v cpp \<Rightarrow> (ending \<times> 'v cpp) option" where
  "handle_construct C x clt addr provider_id st =
    (case bake_provider_handle_create C (m_client clt) addr provider_id (cx_heap st, cx_world st) of
       None \<Rightarrow> None
     | Some ((ret, h), (hp, v)) \<Rightarrow>
        (let st = st\<lparr>cx_heap := hp, cx_world := v\<rparr>
         in Some (CHECK_RET ret (), case h of None \<Rightarrow> st | Some h \<Rightarrow> set_handle x (Some h) st)))"

definition handle_copy :: "nat \<Rightarrow> nat \<Rightarrow> 'v cpp \<Rightarrow> (ending \<times> 'v cpp) option" where
  "handle_copy x y st =
    (case cx_handles st y of
       None \<Rightarrow> None
     | Some h \<Rightarrow>
         if h \<noteq> BAKE_PROVIDER_HANDLE_NULL
         then
          (case bake_provider_handle_ref_incr h (cx_heap st) of
             None \<Rightarrow> None
           | Some (ret, hp) \<Rightarrow>
              (let st = st\<lparr>cx_heap := hp\<rparr>
               in if ret \<noteq> BAKE_SUCCESS then Some (CHECK_RET ret (), st)
                  else Some (Inr (), set_handle x (Some h) st)))
         else Some (Inr (), set_handle x (Some h) st))"

definition handle_move :: "nat \<Rightarrow> nat \<Rightarrow> 'v cpp \<Rightarrow> 'v cpp option" where
  "handle_move x y st =
    map_option (\<lambda>h. set_handle y (Some BAKE_PROVIDER_HANDLE_NULL) (set_handle x (Some h) st)) (cx_handles st y)"

definition handle_drop :: "'v client_site \<Rightarrow> nat \<Rightarrow> 'v cpp \<Rightarrow> (int \<times> 'v cpp) option" where
  "handle_drop C h st =
    (if h \<noteq> BAKE_PROVIDER_HANDLE_NULL
     then map_option (\<lambda>(ret, (hp, v)). (ret, st\<lparr>cx_heap := hp, cx_world := v\<rparr>))
            (bake_provider_handle_release C h (cx_heap st, cx_world st))
     else Some (BAKE_SUCCESS, st))"

definition handle_copy_assign :: "'v client_site \<Rightarrow> nat \<Rightarrow> nat \<Rightarrow> 'v cpp \<Rightarrow> (ending \<times> 'v cpp) option" where
  "handle_copy_assign C x y st =
    (if y = x then Some (Inr (), st)
     else
      (case (cx_handles st x, cx_handles st y) of
         (Some this, Some other) \<Rightarrow>
           (case handle_drop C this st of
              None \<Rightarrow> None
            | Some (ret, st) \<Rightarrow>
                if ret \<noteq> BAKE_SUCCESS then Some (CHECK_RET ret (), st)
                else
                 (let st = set_handle x (Some other) st
                  in case bake_provider_handle_ref_incr other (cx_heap st) of
                       None \<Rightarrow> None
                     | Some (ret, hp) \<Rightarrow> Some (CHECK_RET ret (), st\<lparr>cx_heap := hp\<rparr>)))
       | _ \<Rightarrow> None))"

text \<open>
  The operator that is documented as move assignment takes a reference that is not constant,
  \<open>provider_handle&\<close>, and no rvalue reference.
\<close>

definition handle_move_assign :: "'v client_site \<Rightarrow> nat \<Rightarrow> nat \<Rightarrow> 'v cpp \<Rightarrow> (ending \<times> 'v cpp) option" where
  "handle_move_assign C x y st =
    (if y = x then Some (Inr (), st)
     else
      (case (cx_handles st x, cx_handles st y) of
         (Some this, Some other) \<Rightarrow>
           (case handle_drop C this st of
              None \<Rightarrow> None
            | Some (ret, st) \<Rightarrow>
                if ret \<noteq> BAKE_SUCCESS then Some (CHECK_RET ret (), st)
                else Some (Inr (), set_handle y (Some BAKE_PROVIDER_HANDLE_NULL) (set_handle x (Some other) st)))
       | _ \<Rightarrow> None))"

text \<open>The operator that C++ selects for \<open>x = e\<close>, by the kind of the expression \<open>e\<close>.\<close>

datatype value_category = Variable | Const_variable | Temporary

definition handle_assign :: "'v client_site \<Rightarrow> value_category \<Rightarrow> nat \<Rightarrow> nat \<Rightarrow> 'v cpp \<Rightarrow> (ending \<times> 'v cpp) option" where
  "handle_assign C k = (case k of Variable \<Rightarrow> handle_move_assign C | _ \<Rightarrow> handle_copy_assign C)"

definition handle_destroy :: "'v client_site \<Rightarrow> nat \<Rightarrow> 'v cpp \<Rightarrow> 'v cpp option" where
  "handle_destroy C x st =
    (case cx_handles st x of
       None \<Rightarrow> None
     | Some h \<Rightarrow> map_option (\<lambda>(ret, st). set_handle x None st) (handle_drop C h st))"

definition handle_provider_id :: "'v client_site \<Rightarrow> nat \<Rightarrow> 'v cpp \<Rightarrow> ((bake_exception + u16 option) \<times> 'v cpp) option" where
  "handle_provider_id C h st =
    map_option (\<lambda>((ret, _, _, pid), (hp, v)). (CHECK_RET ret pid, st\<lparr>cx_heap := hp, cx_world := v\<rparr>))
      (bake_provider_handle_get_info C h False False True (cx_heap st, cx_world st))"

definition handle_address :: "'v client_site \<Rightarrow> nat \<Rightarrow> 'v cpp \<Rightarrow> ((bake_exception + hg_addr option) \<times> 'v cpp) option" where
  "handle_address C h st =
    map_option (\<lambda>((ret, _, addr, _), (hp, v)). (CHECK_RET ret addr, st\<lparr>cx_heap := hp, cx_world := v\<rparr>))
      (bake_provider_handle_get_info C h False True False (cx_heap st, cx_world st))"

definition handle_get_eager_limit :: "nat \<Rightarrow> 'v cpp \<Rightarrow> (bake_exception + u64 option) option" where
  "handle_get_eager_limit h st =
    map_option (\<lambda>(ret, limit). CHECK_RET ret limit) (bake_provider_handle_get_eager_limit h (cx_heap st))"

definition handle_set_eager_limit :: "nat \<Rightarrow> u64 \<Rightarrow> 'v cpp \<Rightarrow> (ending \<times> 'v cpp) option" where
  "handle_set_eager_limit h limit st =
    map_option (\<lambda>(ret, hp). (CHECK_RET ret (), st\<lparr>cx_heap := hp\<rparr>))
      (bake_provider_handle_set_eager_limit h limit (cx_heap st))"

section \<open>Remote operations\<close>

text \<open>
  A method passes \<open>m_ph\<close> on; the C functions follow the pointer to the handle and to its client. An
  out parameter that was not assigned is indeterminate, but then the method throws.
\<close>

definition on_handle :: "client_heap \<Rightarrow> nat \<Rightarrow> (bake_client \<Rightarrow> bake_provider_handle \<Rightarrow> 'a) \<Rightarrow> 'a option" where
  "on_handle hp h f =
    (case hp_handles hp h of
       None \<Rightarrow> None
     | Some ph \<Rightarrow> map_option (\<lambda>c. f c ph) (hp_clients hp (ph_client ph)))"

definition ends_with :: "int \<times> 'v \<Rightarrow> ending \<times> 'v" where
  "ends_with = (\<lambda>(ret, v). (CHECK_RET ret (), v))"

definition yields :: "(int \<times> 'a option) \<times> 'v \<Rightarrow> (bake_exception + 'a option) \<times> 'v" where
  "yields = (\<lambda>((ret, x), v). (CHECK_RET ret x, v))"

definition client_create where
  "client_create C hp h tgt region_size v = on_handle hp h (\<lambda>c ph. yields (bake_create C c ph tgt region_size v))"

definition client_write where
  "client_write C hp h tid rid region_offset buf buf_size v =
    on_handle hp h (\<lambda>c ph. ends_with (bake_write C c ph tid rid region_offset buf buf_size v))"

definition client_write_proxy where
  "client_write_proxy C hp h tid rid region_offset remote_bulk remote_offset remote_addr sz v =
    on_handle hp h (\<lambda>c ph. ends_with (bake_proxy_write C c ph tid rid region_offset remote_bulk remote_offset (Some remote_addr) sz v))"

definition client_persist where
  "client_persist C hp h tid rid offs sz v = on_handle hp h (\<lambda>c ph. ends_with (bake_persist C c ph tid rid offs sz v))"

definition client_create_write_persist where
  "client_create_write_persist C hp h tid buf buf_size v =
    on_handle hp h (\<lambda>c ph. yields (bake_create_write_persist C c ph tid buf buf_size v))"

definition client_create_write_persist_proxy where
  "client_create_write_persist_proxy C hp h tid remote_bulk remote_offset remote_addr sz v =
    on_handle hp h (\<lambda>c ph. yields (bake_create_write_persist_proxy C c ph tid remote_bulk remote_offset (Some remote_addr) sz v))"

definition client_get_size where
  "client_get_size C hp h tid rid v = on_handle hp h (\<lambda>c ph. yields (bake_get_size C c ph tid rid v))"

definition client_get_data where
  "client_get_data C hp h tid rid v = on_handle hp h (\<lambda>c ph. yields (bake_get_data C c ph tid rid v))"

definition client_read where
  "client_read C hp h tid rid region_offset buf buf_size v =
    on_handle hp h (\<lambda>c ph. yields (bake_read C c ph tid rid region_offset buf buf_size v))"

definition client_read_proxy where
  "client_read_proxy C hp h tid rid region_offset remote_bulk remote_offset remote_addr sz v =
    on_handle hp h (\<lambda>c ph. yields (bake_proxy_read C c ph tid rid region_offset remote_bulk remote_offset (Some remote_addr) sz v))"

definition client_migrate_region where
  "client_migrate_region C hp h source_tid source_rid region_size remove_source dest_addr dest_provider_id dest_tid v =
    on_handle hp h (\<lambda>c ph. yields (bake_migrate_region C c ph source_tid source_rid region_size (if remove_source then 1 else 0)
      (Some dest_addr) dest_provider_id dest_tid v))"

definition client_migrate_target where
  "client_migrate_target C hp h tid remove_source dest_addr dest_provider_id dest_root v =
    on_handle hp h (\<lambda>c ph. ends_with (bake_migrate_target C c ph tid (if remove_source then 1 else 0)
      (Some dest_addr) dest_provider_id (Some dest_root) v))"

definition client_remove where
  "client_remove C hp h tid rid v = on_handle hp h (\<lambda>c ph. ends_with (bake_remove C c ph tid rid v))"

section \<open>Probing\<close>

text \<open>A vector of target ids of a given size is filled with zeros; the ids of the answer overwrite its front.\<close>

definition tid_vector :: "nat \<Rightarrow> bake_target_id list \<Rightarrow> bake_target_id list" where
  "tid_vector n tids = take n (tids @ drop (length tids) (replicate n (replicate 16 0)))"

text \<open>
  Without a maximum the method asks for 1, 2, 4, ... targets until it gets fewer than it asked for.
  The maximum is a 64 bit number, so doubling may wrap around to 0; a loop that does not end has
  the value \<open>None\<close>.
\<close>

partial_function (option) probe_loop ::
  "'v client_site \<Rightarrow> bake_client \<Rightarrow> bake_provider_handle \<Rightarrow> u64 \<Rightarrow> 'v \<Rightarrow>
     ((bake_exception + u64 \<times> bake_target_id list) \<times> 'v) option" where
  "probe_loop C c ph max_targets v =
    (let ((ret, num_tgts, tids), v) = bake_probe C c ph max_targets False v
     in if ret \<noteq> BAKE_SUCCESS then Some (Inl (exception ret), v)
        else
         (case num_tgts of
            None \<Rightarrow> None
          | Some n \<Rightarrow>
             if n < max_targets then Some (Inr (n, tid_vector (unat max_targets) tids), v)
             else probe_loop C c ph (max_targets * 2) v))"

text \<open>The final loop counts in 32 bits, so it does not end for 2^32 targets or more.\<close>

definition client_probe ::
  "'v client_site \<Rightarrow> client_heap \<Rightarrow> nat \<Rightarrow> u64 \<Rightarrow> 'v \<Rightarrow> ((bake_exception + bake_target_id list) \<times> 'v) option" where
  "client_probe C hp h max_targets v =
    (case on_handle hp h (\<lambda>c ph.
        if max_targets \<noteq> 0
        then (let ((ret, num_tgts, tids), v) = bake_probe C c ph max_targets False v
              in if ret \<noteq> BAKE_SUCCESS then Some (Inl (exception ret), v)
                 else map_option (\<lambda>n. (Inr (n, tid_vector (unat n) (tid_vector (unat max_targets) tids)), v)) num_tgts)
        else probe_loop C c ph 1 v) of
       Some (Some (Inl e, v)) \<Rightarrow> Some (Inl e, v)
     | Some (Some (Inr (n, tids), v)) \<Rightarrow> if unat n < 2 ^ 32 then Some (Inr (take (unat n) tids), v) else None
     | _ \<Rightarrow> None)"

end
