(* ===== verification/Cpp_Handles.thy ===== *)
theory Cpp_Handles
  imports Cpp_Client Client_Handles
begin

text \<open>
  The class \<open>provider_handle\<close> as a counted reference: in every program that constructs, copies,
  moves, assigns and destroys objects of the class, the count of a handle is the number of living
  objects that hold it. The proof rests on the operations of \<open>Client_Handles\<close>.
\<close>

section \<open>Objects and the handles they hold\<close>

definition holders :: "(nat \<Rightarrow> nat option) \<Rightarrow> nat \<Rightarrow> nat" where
  "holders objs h = (if h = BAKE_PROVIDER_HANDLE_NULL then 0 else card {x. objs x = Some h})"

text \<open>An object that is dead or empty holds nothing.\<close>

definition holds_nothing :: "nat option \<Rightarrow> bool" where
  "holds_nothing r \<longleftrightarrow> r = None \<or> r = Some BAKE_PROVIDER_HANDLE_NULL"

lemma holds_nothing_simps [simp]: "holds_nothing None" "holds_nothing (Some BAKE_PROVIDER_HANDLE_NULL)"
  by (simp_all add: holds_nothing_def)

lemma finite_holding: "finite (dom objs) \<Longrightarrow> finite {x. objs x = Some h}"
  by (rule finite_subset [of _ "dom objs"]) auto

lemma holders_empty: "holders (\<lambda>_. None) = (\<lambda>_. 0)"
  by (rule ext) (simp add: holders_def)

lemma holders_le: "finite (dom objs) \<Longrightarrow> holders objs h \<le> card (dom objs)"
  by (auto simp: holders_def intro!: card_mono)

lemma holders_pos: "finite (dom objs) \<Longrightarrow> 0 < holders objs h \<longleftrightarrow> h \<noteq> BAKE_PROVIDER_HANDLE_NULL \<and> (\<exists>x. objs x = Some h)"
  by (auto simp: holders_def card_gt_0_iff finite_holding)

lemma holders_gain:
  assumes "finite (dom objs)" and "holds_nothing (objs x)" and "h \<noteq> BAKE_PROVIDER_HANDLE_NULL"
  shows "holders (objs(x := Some h)) = (holders objs)(h := holders objs h + 1)"
proof
  fix k
  have "{y. (objs(x := Some h)) y = Some h} = insert x {y. objs y = Some h}" by auto
  moreover have "x \<notin> {y. objs y = Some h}" using assms by (auto simp: holds_nothing_def)
  moreover have "{y. (objs(x := Some h)) y = Some k} = {y. objs y = Some k}" if "k \<noteq> h" "k \<noteq> BAKE_PROVIDER_HANDLE_NULL"
    using assms(2) that by (auto simp: holds_nothing_def)
  ultimately show "holders (objs(x := Some h)) k = ((holders objs)(h := holders objs h + 1)) k"
    using assms(3) finite_holding [OF assms(1), of h] by (auto simp: holders_def)
qed

lemma holders_lose:
  assumes "finite (dom objs)" and "objs x = Some h" and "h \<noteq> BAKE_PROVIDER_HANDLE_NULL" and "holds_nothing r"
  shows "holders (objs(x := r)) = (holders objs)(h := holders objs h - 1)"
proof
  fix k
  have "{y. (objs(x := r)) y = Some h} = {y. objs y = Some h} - {x}" using assms(3,4) by (auto simp: holds_nothing_def)
  moreover have "{y. (objs(x := r)) y = Some k} = {y. objs y = Some k}" if "k \<noteq> h" "k \<noteq> BAKE_PROVIDER_HANDLE_NULL"
    using assms(2,4) that by (auto simp: holds_nothing_def)
  ultimately show "holders (objs(x := r)) k = ((holders objs)(h := holders objs h - 1)) k"
    using assms(2,3) finite_holding [OF assms(1), of h] by (auto simp: holders_def)
qed

lemma holders_idle:
  assumes "holds_nothing (objs x)" and "holds_nothing r"
  shows "holders (objs(x := r)) = holders objs"
proof
  fix k
  have "{y. (objs(x := r)) y = Some k} = {y. objs y = Some k}" if "k \<noteq> BAKE_PROVIDER_HANDLE_NULL"
    using assms that by (auto simp: holds_nothing_def)
  then show "holders (objs(x := r)) k = holders objs k" by (simp add: holders_def)
qed

lemma holders_transfer:
  assumes "finite (dom objs)" and "holds_nothing (objs x)" and "objs y = Some h" and "x \<noteq> y"
  shows "holders (objs(x := Some h, y := Some BAKE_PROVIDER_HANDLE_NULL)) = holders objs"
proof (cases "h = BAKE_PROVIDER_HANDLE_NULL")
  case True
  have "holders (objs(x := Some h)) = holders objs" by (rule holders_idle) (use assms True in simp_all)
  moreover have "(objs(x := Some h)) y = Some BAKE_PROVIDER_HANDLE_NULL" using assms True by simp
  ultimately show ?thesis by (simp add: holders_idle)
next
  case False
  have "holders (objs(x := Some h, y := Some BAKE_PROVIDER_HANDLE_NULL)) =
      (holders (objs(x := Some h)))(h := holders (objs(x := Some h)) h - 1)"
    by (rule holders_lose) (use assms False in simp_all)
  then show ?thesis using holders_gain [OF assms(1,2) False] by simp
qed

section \<open>The operations\<close>

definition cpp_ok :: "nat \<Rightarrow> 'v cpp \<Rightarrow> bool" where
  "cpp_ok client st \<longleftrightarrow> finite (dom (cx_handles st)) \<and> handles_ok client (cx_heap st) (holders (cx_handles st))"

lemma cpp_okD:
  assumes "cpp_ok client st"
  shows "finite (dom (cx_handles st))" and "handles_ok client (cx_heap st) (holders (cx_handles st))"
  using assms by (simp_all add: cpp_ok_def)

lemma held_pos:
  assumes "cpp_ok client st" and "cx_handles st x = Some h" and "h \<noteq> BAKE_PROVIDER_HANDLE_NULL"
  shows "0 < holders (cx_handles st) h"
  using assms holders_pos [of "cx_handles st" h] by (auto simp: cpp_ok_def)

lemma cx_set_simps [simp]:
  "cx_heap (set_handle x r st) = cx_heap st" "cx_handles (set_handle x r st) = (cx_handles st)(x := r)"
  by (simp_all add: set_handle_def)

lemma ref_incr_ok:
  assumes "cpp_ok client st" and "cx_handles st y = Some h" and "h \<noteq> BAKE_PROVIDER_HANDLE_NULL"
    and "card (dom (cx_handles st)) < 2 ^ 64 - 1"
  shows "\<exists>hp. bake_provider_handle_ref_incr h (cx_heap st) = Some (BAKE_SUCCESS, hp) \<and>
    handles_ok client hp ((holders (cx_handles st))(h := holders (cx_handles st) h + 1))"
proof -
  have "holders (cx_handles st) h < 2 ^ 64 - 1" using holders_le [OF cpp_okD(1) [OF assms(1)], of h] assms(4) by simp
  from retain_handle_ok [OF cpp_okD(2) [OF assms(1)] held_pos [OF assms(1-3)] this, of "()"]
  show ?thesis using assms(3)
    by (auto simp: retain_handle_def bake_provider_handle_ref_incr_def update_handle_def)
qed

lemma release_code: "bake_provider_handle_release C h s = Some (r, s') \<Longrightarrow> h \<noteq> BAKE_PROVIDER_HANDLE_NULL \<Longrightarrow> r = BAKE_SUCCESS"
  by (auto simp: bake_provider_handle_release_def Let_def split: prod.splits option.splits if_splits)

text \<open>Giving up what an object holds: afterwards the counts are right for an object that holds nothing.\<close>

lemma handle_drop_ok:
  assumes "cpp_ok client st" and "cx_handles st x = Some h" and "holds_nothing r"
  shows "\<exists>st'. handle_drop C h st = Some (BAKE_SUCCESS, st') \<and> cx_handles st' = cx_handles st \<and> cpp_ok client (set_handle x r st')"
proof (cases "h = BAKE_PROVIDER_HANDLE_NULL")
  case True
  then show ?thesis using assms by (auto simp: handle_drop_def cpp_ok_def holders_idle dom_fun_upd)
next
  case False
  note d = cpp_okD [OF assms(1)]
  obtain hp v where "release_handle C h (cx_heap st, cx_world st) = Some (hp, v)"
    "handles_ok client hp ((holders (cx_handles st))(h := holders (cx_handles st) h - 1))"
    using release_handle_ok [OF d(2) held_pos [OF assms(1,2) False], of C "cx_world st"] by blast
  moreover from this obtain c where "bake_provider_handle_release C h (cx_heap st, cx_world st) = Some (c, (hp, v))"
    by (auto simp: release_handle_def)
  ultimately show ?thesis
    using release_code [of C h] False holders_lose [OF d(1) assms(2) False assms(3)] d(1)
    by (auto simp: handle_drop_def cpp_ok_def dom_fun_upd)
qed

lemma cpp_ok_empty:
  assumes "cpp_ok client st" and "holds_nothing (cx_handles st x)" and "holds_nothing r"
  shows "cpp_ok client (set_handle x r st)"
  using assms by (auto simp: cpp_ok_def holders_idle dom_fun_upd)

lemma handle_construct_ok:
  assumes "cpp_ok client st" and "m_client clt = client" and "cx_handles st x = None"
  shows "\<exists>e st'. handle_construct C x clt addr pid st = Some (e, st') \<and> cpp_ok client st' \<and>
    dom (cx_handles st') \<subseteq> insert x (dom (cx_handles st))"
proof -
  note d = cpp_okD [OF assms(1)]
  obtain h hp v where r: "create_handle C client (addr, pid) (cx_heap st, cx_world st) = Some (h, (hp, v))"
    "case h of None \<Rightarrow> hp = cx_heap st \<and> handles_ok client hp (holders (cx_handles st))
     | Some h \<Rightarrow> holders (cx_handles st) h = 0 \<and> handles_ok client hp ((holders (cx_handles st))(h := holders (cx_handles st) h + 1))"
    using create_handle_ok [OF d(2), of C "(addr, pid)" "cx_world st"] by blast
  then obtain ret where c: "bake_provider_handle_create C client addr pid (cx_heap st, cx_world st) = Some ((ret, h), (hp, v))"
    by (auto simp: create_handle_def)
  show ?thesis
  proof (cases h)
    case None
    then show ?thesis using r c d(1) assms(2) by (auto simp: handle_construct_def cpp_ok_def Let_def)
  next
    case (Some k)
    have ne: "k \<noteq> BAKE_PROVIDER_HANDLE_NULL"
      using r(2) Some handles_okD(5) [of client hp "(holders (cx_handles st))(k := holders (cx_handles st) k + 1)" k] by auto
    show ?thesis using r c d(1) assms(2,3) Some holders_gain [OF d(1) _ ne, of x]
      by (auto simp: handle_construct_def cpp_ok_def Let_def dom_fun_upd)
  qed
qed

lemma handle_copy_ok:
  assumes "cpp_ok client st" and "cx_handles st x = None" and "cx_handles st y = Some h" and "card (dom (cx_handles st)) < 2 ^ 64 - 1"
  shows "\<exists>e st'. handle_copy x y st = Some (e, st') \<and> cpp_ok client st' \<and> dom (cx_handles st') \<subseteq> insert x (dom (cx_handles st))"
proof (cases "h = BAKE_PROVIDER_HANDLE_NULL")
  case True
  then show ?thesis using cpp_ok_empty [OF assms(1), of x] assms by (auto simp: handle_copy_def)
next
  case False
  obtain hp where "bake_provider_handle_ref_incr h (cx_heap st) = Some (BAKE_SUCCESS, hp)"
    "handles_ok client hp ((holders (cx_handles st))(h := holders (cx_handles st) h + 1))"
    using ref_incr_ok [OF assms(1,3) False assms(4)] by blast
  then show ?thesis
    using False assms holders_gain [OF cpp_okD(1) [OF assms(1)] _ False, of x] cpp_okD(1) [OF assms(1)]
    by (auto simp: handle_copy_def cpp_ok_def Let_def dom_fun_upd)
qed

lemma handle_transfer_ok:
  assumes "cpp_ok client st" and "holds_nothing (cx_handles st x)" and "cx_handles st y = Some h" and "x \<noteq> y"
  shows "cpp_ok client (set_handle y (Some BAKE_PROVIDER_HANDLE_NULL) (set_handle x (Some h) st))"
  using holders_transfer [OF cpp_okD(1) [OF assms(1)] assms(2-4)] cpp_okD [OF assms(1)] by (simp add: cpp_ok_def dom_fun_upd)

lemma handle_move_assign_ok:
  assumes "cpp_ok client st" and "cx_handles st x = Some g" and "cx_handles st y = Some h"
  shows "\<exists>e st'. handle_move_assign C x y st = Some (e, st') \<and> cpp_ok client st' \<and> dom (cx_handles st') = dom (cx_handles st)"
proof (cases "y = x")
  case False
  let ?null = "Some BAKE_PROVIDER_HANDLE_NULL"
  obtain st1 where s: "handle_drop C g st = Some (BAKE_SUCCESS, st1)" "cx_handles st1 = cx_handles st"
    "cpp_ok client (set_handle x ?null st1)" using handle_drop_ok [OF assms(1,2), of ?null C] by auto
  have "cpp_ok client (set_handle y ?null (set_handle x (Some h) (set_handle x ?null st1)))"
    by (rule handle_transfer_ok [OF s(3)]) (use s(2) assms(3) False in simp_all)
  then have "cpp_ok client (set_handle y ?null (set_handle x (Some h) st1))" by (simp add: set_handle_def)
  then show ?thesis using s assms False by (auto simp: handle_move_assign_def)
qed (use assms in \<open>auto simp: handle_move_assign_def\<close>)

lemma handle_copy_assign_ok:
  assumes "cpp_ok client st" and "cx_handles st x = Some g" and "cx_handles st y = Some h" and "card (dom (cx_handles st)) < 2 ^ 64 - 1"
  shows "\<exists>e st'. handle_copy_assign C x y st = Some (e, st') \<and> cpp_ok client st' \<and> dom (cx_handles st') = dom (cx_handles st)"
proof (cases "y = x")
  case False
  let ?null = "Some BAKE_PROVIDER_HANDLE_NULL"
  obtain st1 where s: "handle_drop C g st = Some (BAKE_SUCCESS, st1)" "cx_handles st1 = cx_handles st"
    "cpp_ok client (set_handle x ?null st1)" using handle_drop_ok [OF assms(1,2), of ?null C] by auto
  let ?st2 = "set_handle x ?null st1"
  show ?thesis
  proof (cases "h = BAKE_PROVIDER_HANDLE_NULL")
    case True
    then show ?thesis using s assms False
      by (auto simp: handle_copy_assign_def Let_def bake_provider_handle_ref_incr_def update_handle_def)
  next
    case h: False
    have dm: "dom (cx_handles ?st2) = dom (cx_handles st)" using s(2) assms(2) by auto
    have y: "cx_handles ?st2 y = Some h" using s(2) assms(3) False by simp
    obtain hp where r: "bake_provider_handle_ref_incr h (cx_heap st1) = Some (BAKE_SUCCESS, hp)"
      "handles_ok client hp ((holders (cx_handles ?st2))(h := holders (cx_handles ?st2) h + 1))"
      using ref_incr_ok [OF s(3) y h] assms(4) dm by auto
    have "holders ((cx_handles ?st2)(x := Some h)) = (holders (cx_handles ?st2))(h := holders (cx_handles ?st2) h + 1)"
      by (rule holders_gain [OF cpp_okD(1) [OF s(3)] _ h]) simp
    then have "cpp_ok client ((set_handle x (Some h) st1)\<lparr>cx_heap := hp\<rparr>)"
      using r(2) cpp_okD(1) [OF s(3)] by (simp add: cpp_ok_def dom_fun_upd)
    then show ?thesis using s r assms False by (auto simp: handle_copy_assign_def Let_def)
  qed
qed (use assms in \<open>auto simp: handle_copy_assign_def\<close>)

section \<open>Programs\<close>

datatype handle_stmt =
    Cx_default nat
  | Cx_construct nat hg_addr u16
  | Cx_copy nat nat
  | Cx_move nat nat
  | Cx_assign value_category nat nat
  | Cx_destroy nat

text \<open>The objects that come to life in a statement, and those that have to live before it.\<close>

fun stmt_new :: "handle_stmt \<Rightarrow> nat list" where
  "stmt_new (Cx_default x) = [x]"
| "stmt_new (Cx_construct x a pid) = [x]"
| "stmt_new (Cx_copy x y) = [x]"
| "stmt_new (Cx_move x y) = [x]"
| "stmt_new _ = []"

fun stmt_uses :: "handle_stmt \<Rightarrow> nat list" where
  "stmt_uses (Cx_copy x y) = [y]"
| "stmt_uses (Cx_move x y) = [y]"
| "stmt_uses (Cx_assign k x y) = [x, y]"
| "stmt_uses (Cx_destroy x) = [x]"
| "stmt_uses _ = []"

definition stmt_legal :: "handle_stmt \<Rightarrow> 'v cpp \<Rightarrow> bool" where
  "stmt_legal p st \<longleftrightarrow> list_all (\<lambda>x. cx_handles st x = None) (stmt_new p) \<and> list_all (\<lambda>x. cx_handles st x \<noteq> None) (stmt_uses p)"

fun exec_stmt :: "'v client_site \<Rightarrow> client_obj \<Rightarrow> handle_stmt \<Rightarrow> 'v cpp \<Rightarrow> 'v cpp option" where
  "exec_stmt C clt (Cx_default x) st = Some (handle_default x st)"
| "exec_stmt C clt (Cx_construct x a pid) st = map_option snd (handle_construct C x clt a pid st)"
| "exec_stmt C clt (Cx_copy x y) st = map_option snd (handle_copy x y st)"
| "exec_stmt C clt (Cx_move x y) st = handle_move x y st"
| "exec_stmt C clt (Cx_assign k x y) st = map_option snd (handle_assign C k x y st)"
| "exec_stmt C clt (Cx_destroy x) st = handle_destroy C x st"

text \<open>
  A program goes on after an exception, which is caught. It ends in a state, or because it is not a
  program of C++ (it uses a dead object or constructs an object where one lives), or with undefined
  behaviour.
\<close>

datatype 's program_end = Runs 's | Not_legal | Undefined

fun exec_program :: "'v client_site \<Rightarrow> client_obj \<Rightarrow> handle_stmt list \<Rightarrow> 'v cpp \<Rightarrow> 'v cpp program_end" where
  "exec_program C clt [] st = Runs st"
| "exec_program C clt (p # ps) st =
    (if \<not> stmt_legal p st then Not_legal
     else case exec_stmt C clt p st of None \<Rightarrow> Undefined | Some st \<Rightarrow> exec_program C clt ps st)"

lemma exec_stmt_ok:
  assumes "cpp_ok client st" and "m_client clt = client" and "stmt_legal p st" and "card (dom (cx_handles st)) < 2 ^ 64 - 1"
  shows "\<exists>st'. exec_stmt C clt p st = Some st' \<and> cpp_ok client st' \<and> card (dom (cx_handles st')) \<le> Suc (card (dom (cx_handles st)))"
proof -
  note fin = cpp_okD(1) [OF assms(1)]
  have grow: "card (dom (cx_handles st')) \<le> Suc (card (dom (cx_handles st)))"
    if "dom (cx_handles st') \<subseteq> insert x (dom (cx_handles st))" for st' :: "'a cpp" and x
  proof -
    have "card (dom (cx_handles st')) \<le> card (insert x (dom (cx_handles st)))" by (rule card_mono) (use fin that in simp_all)
    also have "\<dots> \<le> Suc (card (dom (cx_handles st)))" by (rule card_insert_le_m1) simp_all
    finally show ?thesis .
  qed
  have grow': "card (dom (cx_handles st')) \<le> Suc (card (dom (cx_handles st)))"
    if "dom (cx_handles st') = dom (cx_handles st)" for st' :: "'a cpp" using that by simp
  show ?thesis
  proof (cases p)
    case (Cx_default x)
    have "cpp_ok client (handle_default x st)"
      using cpp_ok_empty [OF assms(1), of x "Some BAKE_PROVIDER_HANDLE_NULL"] assms(3) Cx_default
      by (simp add: handle_default_def stmt_legal_def)
    then show ?thesis using grow [of "handle_default x st" x] Cx_default by (auto simp: handle_default_def)
  next
    case (Cx_construct x a pid)
    then obtain e st' where "handle_construct C x clt a pid st = Some (e, st')" "cpp_ok client st'"
      "dom (cx_handles st') \<subseteq> insert x (dom (cx_handles st))"
      using handle_construct_ok [OF assms(1,2), of x C a pid] assms(3) by (auto simp: stmt_legal_def)
    then show ?thesis using grow Cx_construct by simp
  next
    case (Cx_copy x y)
    then obtain h where "cx_handles st x = None" "cx_handles st y = Some h" using assms(3) by (auto simp: stmt_legal_def)
    then obtain e st' where "handle_copy x y st = Some (e, st')" "cpp_ok client st'"
      "dom (cx_handles st') \<subseteq> insert x (dom (cx_handles st))"
      using handle_copy_ok [OF assms(1) _ _ assms(4), of x y] by auto
    then show ?thesis using grow Cx_copy by simp
  next
    case (Cx_move x y)
    then have "cx_handles st x = None" "cx_handles st y \<noteq> None" using assms(3) by (simp_all add: stmt_legal_def)
    then obtain h where h: "cx_handles st x = None" "cx_handles st y = Some h" "x \<noteq> y" by fastforce
    let ?st = "set_handle y (Some BAKE_PROVIDER_HANDLE_NULL) (set_handle x (Some h) st)"
    have "dom (cx_handles ?st) \<subseteq> insert x (dom (cx_handles st))" using h by auto
    then show ?thesis using handle_transfer_ok [OF assms(1) _ h(2,3)] h Cx_move grow [of ?st x] by (simp add: handle_move_def)
  next
    case (Cx_assign k x y)
    then obtain g h where h: "cx_handles st x = Some g" "cx_handles st y = Some h" using assms(3) by (auto simp: stmt_legal_def)
    have "\<exists>e st'. handle_assign C k x y st = Some (e, st') \<and> cpp_ok client st' \<and> dom (cx_handles st') = dom (cx_handles st)"
      using handle_move_assign_ok [OF assms(1) h] handle_copy_assign_ok [OF assms(1) h assms(4)]
      by (cases k) (simp_all add: handle_assign_def)
    then show ?thesis using Cx_assign grow' by auto
  next
    case (Cx_destroy x)
    then obtain h where h: "cx_handles st x = Some h" using assms(3) by (auto simp: stmt_legal_def)
    obtain st1 where "handle_drop C h st = Some (BAKE_SUCCESS, st1)" "cx_handles st1 = cx_handles st" "cpp_ok client (set_handle x None st1)"
      using handle_drop_ok [OF assms(1) h, of None C] by auto
    moreover have "card (dom (cx_handles st) - {x}) \<le> Suc (card (dom (cx_handles st)))"
      using card_Diff1_le [of "dom (cx_handles st)" x] by simp
    ultimately show ?thesis using Cx_destroy h by (simp add: handle_destroy_def dom_fun_upd)
  qed
qed

lemma exec_program_ok:
  assumes "cpp_ok client st" and "m_client clt = client" and "card (dom (cx_handles st)) + length ps < 2 ^ 64 - 1"
  shows "case exec_program C clt ps st of Runs st' \<Rightarrow> cpp_ok client st' | Not_legal \<Rightarrow> True | Undefined \<Rightarrow> False"
  using assms
proof (induction ps arbitrary: st)
  case (Cons p ps)
  show ?case
  proof (cases "stmt_legal p st")
    case True
    obtain st' where "exec_stmt C clt p st = Some st'" "cpp_ok client st'" "card (dom (cx_handles st')) \<le> Suc (card (dom (cx_handles st)))"
      using exec_stmt_ok [OF Cons.prems(1,2) True, of C] Cons.prems(3) by auto
    then show ?thesis using Cons.IH [of st'] Cons.prems True by simp
  qed simp
qed simp

text \<open>C151: Counted references in C++. A program that constructs, copies, moves, assigns and destroys objects
  of the class \<open>provider_handle\<close>, exceptions included, has no undefined behaviour, and at every point a
  handle is allocated exactly while an object holds it, its count is the number of objects that hold it,
  and the counter of the client is the number of handles held. In particular nothing is left when all
  objects have been destroyed.\<close>
theorem cpp_handles_counted:
  assumes "bake_client_init C (hp, v) = ((BAKE_SUCCESS, Some client), (hp', v'))"
    and "hp_handles hp = (\<lambda>_. None)" and "0 < hp_brk hp"
    and "m_client clt = client" and "length ps < 2 ^ 64 - 1"
  shows "case exec_program C clt ps \<lparr>cx_heap = hp', cx_world = v', cx_clients = objs, cx_handles = (\<lambda>_. None)\<rparr> of
      Runs st \<Rightarrow>
        (\<forall>h. hp_handles (cx_heap st) h \<noteq> None \<longleftrightarrow> h \<noteq> BAKE_PROVIDER_HANDLE_NULL \<and> (\<exists>x. cx_handles st x = Some h)) \<and>
        (\<forall>h p. hp_handles (cx_heap st) h = Some p \<longrightarrow> ph_refcount p = of_nat (card {x. cx_handles st x = Some h})) \<and>
        (\<exists>c. hp_clients (cx_heap st) client = Some c \<and>
           cl_num_provider_handles c = of_nat (card {h. h \<noteq> BAKE_PROVIDER_HANDLE_NULL \<and> (\<exists>x. cx_handles st x = Some h)}))
    | Not_legal \<Rightarrow> True
    | Undefined \<Rightarrow> False"
proof -
  let ?st = "\<lparr>cx_heap = hp', cx_world = v', cx_clients = objs, cx_handles = (\<lambda>_. None)\<rparr> :: 'a cpp"
  have "cpp_ok client ?st" using client_init_ok [OF assms(1-3)] by (simp add: cpp_ok_def holders_empty)
  note run = exec_program_ok [OF this assms(4), of ps C] assms(5)
  have facts: "(\<forall>h. hp_handles (cx_heap st) h \<noteq> None \<longleftrightarrow> h \<noteq> BAKE_PROVIDER_HANDLE_NULL \<and> (\<exists>x. cx_handles st x = Some h)) \<and>
        (\<forall>h p. hp_handles (cx_heap st) h = Some p \<longrightarrow> ph_refcount p = of_nat (card {x. cx_handles st x = Some h})) \<and>
        (\<exists>c. hp_clients (cx_heap st) client = Some c \<and>
           cl_num_provider_handles c = of_nat (card {h. h \<noteq> BAKE_PROVIDER_HANDLE_NULL \<and> (\<exists>x. cx_handles st x = Some h)}))"
    if "cpp_ok client st" for st :: "'a cpp"
  proof -
    note d = cpp_okD [OF that]
    have pos: "0 < holders (cx_handles st) h \<longleftrightarrow> h \<noteq> BAKE_PROVIDER_HANDLE_NULL \<and> (\<exists>x. cx_handles st x = Some h)" for h
      by (rule holders_pos [OF d(1)])
    have h: "hp_handles (cx_heap st) h \<noteq> None \<longleftrightarrow> 0 < holders (cx_handles st) h"
      "hp_handles (cx_heap st) h = Some p \<Longrightarrow> ph_refcount p = of_nat (holders (cx_handles st) h) \<and> h \<noteq> BAKE_PROVIDER_HANDLE_NULL" for h p
      using handles_okD(6) [OF d(2), of h] by (auto simp: handle_agrees_def BAKE_PROVIDER_HANDLE_NULL_def split: option.splits)
    show ?thesis
    proof (intro conjI allI impI)
      show "hp_handles (cx_heap st) h \<noteq> None \<longleftrightarrow> h \<noteq> BAKE_PROVIDER_HANDLE_NULL \<and> (\<exists>x. cx_handles st x = Some h)" for h
        by (simp only: h(1) pos)
      show "ph_refcount p = of_nat (card {x. cx_handles st x = Some h})" if "hp_handles (cx_heap st) h = Some p" for h p
        using h(2) [OF that] by (simp add: holders_def)
    qed (use handles_okD(8) [OF d(2)] in \<open>simp only: pos\<close>)
  qed
  show ?thesis using run facts by (auto split: program_end.splits)
qed

text \<open>
  The assignment \<open>x = y\<close> of two variables selects the operator that empties its operand: the handle
  moves from \<open>y\<close> to \<open>x\<close>, where the documentation promises a copy.
\<close>

lemma assign_variable_moves:
  assumes "handle_assign C Variable x y st = Some (Inr (), st')" and "x \<noteq> y" and "cx_handles st y = Some h"
  shows "cx_handles st' x = Some h \<and> cx_handles st' y = Some BAKE_PROVIDER_HANDLE_NULL"
  using assms by (auto simp: handle_assign_def handle_move_assign_def CHECK_RET_def split: option.splits if_splits)

text \<open>Assigning an empty constant handle reports an error after the old handle has been given up.\<close>

lemma assign_empty_throws:
  assumes "cpp_ok client st" and "cx_handles st x = Some g" and "cx_handles st y = Some BAKE_PROVIDER_HANDLE_NULL" and "x \<noteq> y"
  shows "\<exists>st'. handle_assign C Const_variable x y st = Some (Inl (exception BAKE_ERR_INVALID_ARG), st') \<and>
    cx_handles st' x = Some BAKE_PROVIDER_HANDLE_NULL"
proof -
  obtain st1 where "handle_drop C g st = Some (BAKE_SUCCESS, st1)"
    using handle_drop_ok [OF assms(1,2), of None C] by auto
  then show ?thesis using assms
    by (auto simp: handle_assign_def handle_copy_assign_def Let_def bake_provider_handle_ref_incr_def update_handle_def
        CHECK_RET_def bake_err_defs)
qed

end
