(* ===== verification/Cpp_Probe.thy ===== *)
theory Cpp_Probe
  imports Cpp_Client Client_Store
begin

text \<open>
  \<open>client::probe\<close> without a maximum: the loop that doubles the number of targets it asks for, through
  the RPC and the handler of the server down to the table of targets.
\<close>

section \<open>The loop\<close>

lemma probe_loop_complete:
  assumes net: "net_ok M H S host resp" and C: "cs_margo C = M" and small: "k < 2 ^ 32"
    and h: "host v = (Some p, s)" "counts_targets k ids p" and n: "0 < n" "n \<le> 2 ^ 33"
  shows "\<exists>r v'. probe_loop C c ph (of_nat n) v = Some (r, v') \<and>
    (r = Inl (exception BAKE_ERR_MERCURY) \<or>
     (\<exists>m ts. k < m \<and> length ts = k \<and> take (length ids) ts = ids \<and> r = Inr (of_nat k, tid_vector m ts)))"
  using h n
proof (induction "Suc k - n" arbitrary: n v p rule: less_induct)
  case less
  have un: "unat (of_nat n :: u64) = n" "unat (of_nat k :: u64) = k"
    using less.prems(4) small by (simp_all add: unat_of_nat take_bit_nat_eq_self)
  obtain ret num tids v1 where run: "bake_probe C c ph (of_nat n) False v = ((ret, num, tids), v1)" by (metis surj_pair)
  have "(of_nat n :: u64) \<noteq> 0" using un(1) less.prems(3) by (metis neq0_conv unat_0)
  from client_probe_counts [OF net C less.prems(1,2) run this]
  consider "ret = BAKE_ERR_MERCURY" | p' ts where "ret = BAKE_SUCCESS" "num = Some (if n < k then of_nat n else of_nat k)"
    "tids = take n ts" "host v1 = (Some p', s)" "counts_targets k ids p'" "length ts = k" "take (length ids) ts = ids"
    by (auto simp: un)
  then show ?case
  proof cases
    case 1
    then show ?thesis using run by (simp add: probe_loop.simps [of C c ph] bake_err_defs)
  next
    case (2 p' ts)
    show ?thesis
    proof (cases "k < n")
      case True
      then have "probe_loop C c ph (of_nat n) v = Some (Inr (of_nat k, tid_vector n ts), v1)"
        using run 2 by (simp add: probe_loop.simps [of C c ph] word_less_nat_alt un)
      then show ?thesis using True 2(6,7) by blast
    next
      case False
      then have "probe_loop C c ph (of_nat n) v = probe_loop C c ph (of_nat (2 * n)) v1"
        using run 2 by (subst probe_loop.simps) (auto simp: word_less_nat_alt un mult.commute)
      moreover have "\<exists>r v'. probe_loop C c ph (of_nat (2 * n)) v1 = Some (r, v') \<and>
          (r = Inl (exception BAKE_ERR_MERCURY) \<or>
           (\<exists>m ts. k < m \<and> length ts = k \<and> take (length ids) ts = ids \<and> r = Inr (of_nat k, tid_vector m ts)))"
        by (rule less.hyps [OF _ 2(4,5)]) (use False less.prems(3) small in auto)
      ultimately show ?thesis by simp
    qed
  qed
qed

lemma tid_vector_full: "length ids \<le> m \<Longrightarrow> take (length ids) (tid_vector m ids) = ids"
  by (simp add: tid_vector_def)

text \<open>C152: \<open>client::probe\<close> without a maximum terminates for every provider whose counter of targets is below
  2^32 and not smaller than the number of its targets. It returns as many ids as the counter says,
  and the first of them are the targets attached to the provider in the order of their attachment:
  all of them if the counter is exact, while after a detach, which does not decrement the counter,
  indeterminate ids follow. The only other outcome is the exception for a failure of the network.\<close>
theorem cpp_probe_complete:
  assumes "net_ok M H S host resp" and "cs_margo C = M" and "host v = (Some p, s)"
    and "length (target_ids p) \<le> unat (pv_num_targets p)" and "\<forall>t \<in> set (target_ids p). tid_ok t"
    and "unat (pv_num_targets p) < 2 ^ 32"
    and "hp_handles hp h = Some ph" and "hp_clients hp (ph_client ph) = Some c"
  shows "\<exists>r v'. client_probe C hp h 0 v = Some (r, v') \<and>
    ((\<exists>ts. r = Inr ts \<and> length ts = unat (pv_num_targets p) \<and> take (length (target_ids p)) ts = target_ids p \<and>
        (unat (pv_num_targets p) = length (target_ids p) \<longrightarrow> ts = target_ids p)) \<or>
     r = Inl (exception BAKE_ERR_MERCURY))"
proof -
  let ?k = "unat (pv_num_targets p)" and ?ids = "target_ids p"
  have l: "counts_targets ?k ?ids p" using assms(4-6) by (simp add: counts_targets_def)
  obtain r v' where r: "probe_loop C c ph 1 v = Some (r, v')"
    "r = Inl (exception BAKE_ERR_MERCURY) \<or>
     (\<exists>m ts. ?k < m \<and> length ts = ?k \<and> take (length ?ids) ts = ?ids \<and> r = Inr (of_nat ?k, tid_vector m ts))"
    using probe_loop_complete [OF assms(1,2,6,3) l, of 1 c ph] by auto
  from r(2) show ?thesis
  proof (elim disjE exE conjE)
    assume "r = Inl (exception BAKE_ERR_MERCURY)"
    then show ?thesis using r(1) assms(7,8) by (simp add: client_probe_def on_handle_def)
  next
    fix m ts assume t: "?k < m" "length ts = ?k" "take (length ?ids) ts = ?ids" "r = Inr (of_nat ?k, tid_vector m ts)"
    have "take ?k (tid_vector m ts) = ts" using tid_vector_full [of ts m] t(1,2) by simp
    moreover have "?k = length ?ids \<longrightarrow> ts = ?ids" using t(2,3) by auto
    ultimately show ?thesis using r(1) t assms(6-8) by (auto simp: client_probe_def on_handle_def)
  qed
qed

end
