(* ===== verification/Benchmark.thy ===== *)
theory Benchmark
  imports Cpp_Client Cpp_Server Tools_Base
begin

text \<open>
  The benchmarks of \<^verbatim>\<open>src/bake-benchmark.cc\<close>: the five classes with their constructors, \<open>setup\<close>,
  \<open>execute\<close> and \<open>teardown\<close>, the factory, the loop that runs and times them on one client, the report and \<open>main\<close>. A computation has
  the value \<open>None\<close> for undefined behaviour; an exception ends the program, as nothing catches it. The
  entries of the JSON configuration are the fields of a record. The vectors for sizes and ids are
  lists; the vector for the data has an address, because the client library gets a pointer to it.
\<close>

section \<open>Configuration\<close>

datatype size_spec = Size_integral u64 | Size_pair u64 u64 | Size_other

record bench_config =
  bc_type :: string
  bc_num_entries :: "int option"
  bc_region_sizes :: size_spec
  bc_erase_on_teardown :: "bool option"
  bc_eager_limit :: "int option"
  bc_reuse_buffer :: "bool option"
  bc_reuse_region :: "bool option"
  bc_preregister_bulk :: "bool option"
  bc_repetitions :: u32

text \<open>The value of an entry and the entry afterwards: a missing one is set to the default.\<close>

definition getConfigInt :: "int option \<Rightarrow> int \<Rightarrow> int \<times> int option" where
  "getConfigInt entry def = (case entry of Some x \<Rightarrow> (x, entry) | None \<Rightarrow> (def, Some def))"

definition getConfigBool :: "bool option \<Rightarrow> bool \<Rightarrow> bool \<times> bool option" where
  "getConfigBool entry def = (case entry of Some x \<Rightarrow> (x, entry) | None \<Rightarrow> (def, Some def))"

section \<open>Computations\<close>

datatype failure = Bake_error bake_exception | Range_error string | Length_error | Bad_alloc | Invalid_argument string

type_synonym ('v, 'a) comp = "'v cpp \<Rightarrow> ((failure + 'a) \<times> 'v cpp) option"

definition done_with :: "'a \<Rightarrow> ('v, 'a) comp" where
  "done_with x st = Some (Inr x, st)"

definition throw :: "failure \<Rightarrow> ('v, 'a) comp" where
  "throw e st = Some (Inl e, st)"

definition and_then :: "('v, 'a) comp \<Rightarrow> ('a \<Rightarrow> ('v, 'b) comp) \<Rightarrow> ('v, 'b) comp" where
  "and_then m f st =
    (case m st of None \<Rightarrow> None | Some (Inl e, st) \<Rightarrow> Some (Inl e, st) | Some (Inr x, st) \<Rightarrow> f x st)"

definition on_cx_world :: "('v \<Rightarrow> 'a \<times> 'v) \<Rightarrow> ('v, 'a) comp" where
  "on_cx_world f st = (let (x, v) = f (cx_world st) in Some (Inr x, st\<lparr>cx_world := v\<rparr>))"

text \<open>A call of a method of \<open>bake::client\<close> with the provider handle object \<open>x\<close>.\<close>

definition call ::
  "nat \<Rightarrow> (client_heap \<Rightarrow> nat \<Rightarrow> 'v \<Rightarrow> ((bake_exception + 'a) \<times> 'v) option) \<Rightarrow> ('v, 'a) comp" where
  "call x f st =
    (case cx_handles st x of
       None \<Rightarrow> None
     | Some h \<Rightarrow> map_option (\<lambda>(r, v). (map_sum Bake_error id r, st\<lparr>cx_world := v\<rparr>)) (f (cx_heap st) h (cx_world st)))"

text \<open>A region that a method returns; an indeterminate one is undefined behaviour.\<close>

definition call_region ::
  "nat \<Rightarrow> (client_heap \<Rightarrow> nat \<Rightarrow> 'v \<Rightarrow> ((bake_exception + bake_region_id option) \<times> 'v) option) \<Rightarrow> ('v, bake_region_id) comp" where
  "call_region x f = and_then (call x f) (\<lambda>r st. map_option (\<lambda>rid. (Inr rid, st)) r)"

fun for_each :: "('a \<Rightarrow> ('v, 'b) comp) \<Rightarrow> 'a list \<Rightarrow> ('v, 'b list) comp" where
  "for_each f [] = done_with []"
| "for_each f (x # xs) = and_then (f x) (\<lambda>y. and_then (for_each f xs) (\<lambda>ys. done_with (y # ys)))"

text \<open>
  \<^item> \<open>bench_rand\<close>, \<open>bench_srand\<close>: the random numbers of the C library.
  \<^item> \<open>bench_new\<close>, \<open>bench_delete\<close>: the storage of a vector of bytes; \<open>None\<close> if there is none.
  \<^item> \<open>bench_checked\<close>: whether the library checks the index of a vector against its size.
\<close>

record 'v bench_env =
  bench_rand :: "'v \<Rightarrow> nat \<times> 'v"
  bench_srand :: "u32 \<Rightarrow> 'v \<Rightarrow> 'v"
  bench_new :: "u64 \<Rightarrow> 'v \<Rightarrow> u64 option \<times> 'v"
  bench_delete :: "u64 \<Rightarrow> 'v \<Rightarrow> 'v"
  bench_barrier :: "'v \<Rightarrow> 'v"
  bench_checked :: bool

section \<open>Objects\<close>

datatype bench_class = Create_benchmark | Create_write_persist_benchmark | Write_benchmark | Read_benchmark | Persist_benchmark

record bench =
  b_class :: bench_class
  b_ph :: nat \<comment> \<open>the address of the member \<open>m_bake_ph\<close>\<close>
  b_target :: bake_target_id
  m_num_entries :: u64
  m_region_size_range :: "u64 \<times> u64"
  m_erase_on_teardown :: bool
  m_reuse_buffer :: bool
  m_reuse_region :: bool
  m_preregister_bulk :: bool
  m_sizes :: "u64 list" \<comment> \<open>\<open>m_region_sizes\<close> or \<open>m_access_sizes\<close>\<close>
  m_region_ids :: "bake_region_id list"
  m_data :: u64 \<comment> \<open>the address of the elements of \<open>m_data\<close> or \<open>m_read_data\<close>\<close>
  m_bulk :: hg_bulk

fun uses_buffer :: "bench_class \<Rightarrow> bool" where
  "uses_buffer Create_write_persist_benchmark = True"
| "uses_buffer Write_benchmark = True"
| "uses_buffer Read_benchmark = True"
| "uses_buffer _ = False"

fun uses_region :: "bench_class \<Rightarrow> bool" where
  "uses_region Write_benchmark = True"
| "uses_region Read_benchmark = True"
| "uses_region _ = False"

definition size_range :: "size_spec \<Rightarrow> failure + u64 \<times> u64" where
  "size_range spec =
    (case spec of
       Size_integral x \<Rightarrow> Inr (x, x + 1)
     | Size_pair x y \<Rightarrow> if y < x then Inl (Range_error ''invalid key-sizes range'') else Inr (x, y)
     | Size_other \<Rightarrow> Inl (Range_error ''invalid region-sizes range or value''))"

text \<open>
  The constructors: the handle is copied, so the copy refers to the same C handle, whose eager limit is
  then set. The result is the object and the completed configuration.
\<close>

definition bench_construct ::
  "bench_class \<Rightarrow> nat \<Rightarrow> nat \<Rightarrow> bake_target_id \<Rightarrow> hg_bulk \<Rightarrow> bench_config \<Rightarrow> ('v, bench \<times> bench_config) comp" where
  "bench_construct cls x ph tgt junk_bulk config =
    (let lift = (\<lambda>m st. map_option (apfst (map_sum Bake_error id)) (m st))
     in and_then (lift (handle_copy x ph)) (\<lambda>_.
     let (num_entries, e1) = getConfigInt (bc_num_entries config) 1;
         config = config\<lparr>bc_num_entries := e1\<rparr>
     in case size_range (bc_region_sizes config) of
          Inl e \<Rightarrow> throw e
        | Inr rng \<Rightarrow>
           (let (erase, e2) = getConfigBool (bc_erase_on_teardown config) True;
                (eager_size, e3) = getConfigInt (bc_eager_limit config) 2048;
                config = config\<lparr>bc_erase_on_teardown := e2, bc_eager_limit := e3\<rparr>
            in and_then (\<lambda>st. case cx_handles st x of None \<Rightarrow> None | Some h \<Rightarrow> lift (handle_set_eager_limit h (of_int eager_size)) st) (\<lambda>_.
              let (reuse_buffer, e4) = (if uses_buffer cls then getConfigBool (bc_reuse_buffer config) False else (False, bc_reuse_buffer config));
                  (reuse_region, e5) = (if uses_region cls then getConfigBool (bc_reuse_region config) False else (False, bc_reuse_region config));
                  (prereg, e6) = (if uses_buffer cls then getConfigBool (bc_preregister_bulk config) False else (False, bc_preregister_bulk config))
              in done_with
                  (\<lparr>b_class = cls, b_ph = x, b_target = tgt, m_num_entries = of_int num_entries, m_region_size_range = rng,
                    m_erase_on_teardown = erase, m_reuse_buffer = reuse_buffer, m_reuse_region = reuse_region,
                    m_preregister_bulk = prereg, m_sizes = [], m_region_ids = [], m_data = 0, m_bulk = junk_bulk\<rparr>,
                   config\<lparr>bc_reuse_buffer := e4, bc_reuse_region := e5, bc_preregister_bulk := e6\<rparr>)))))"

text \<open>The table of the factories.\<close>

definition bench_factories :: "(string \<times> bench_class) list" where
  "bench_factories = [(''create'', Create_benchmark), (''create-write-persist'', Create_write_persist_benchmark),
     (''write'', Write_benchmark), (''read'', Read_benchmark), (''persist'', Persist_benchmark)]"

definition bench_create :: "nat \<Rightarrow> nat \<Rightarrow> bake_target_id \<Rightarrow> hg_bulk \<Rightarrow> bench_config \<Rightarrow> ('v, bench \<times> bench_config) comp" where
  "bench_create x ph tgt junk_bulk config =
    (case map_of bench_factories (bc_type config) of
       None \<Rightarrow> throw (Invalid_argument (bc_type config @ '' benchmark type unknown''))
     | Some cls \<Rightarrow> bench_construct cls x ph tgt junk_bulk config)"

section \<open>Sizes and buffers\<close>

text \<open>
  A random size: the remainder by an empty range is undefined. \<open>resize\<close> throws for a number of elements
  that no vector can have; that is the case exactly for a negative number of entries in the configuration.
\<close>

definition draw_size :: "'v bench_env \<Rightarrow> u64 \<times> u64 \<Rightarrow> ('v, u64) comp" where
  "draw_size B rng = (\<lambda>st.
    if fst rng = snd rng then None
    else on_cx_world (\<lambda>v. let (r, v) = bench_rand B v in (fst rng + of_nat r mod (snd rng - fst rng), v)) st)"

definition draw_sizes :: "'v bench_env \<Rightarrow> bench \<Rightarrow> ('v, u64 list) comp" where
  "draw_sizes B b =
    (if 2 ^ 60 \<le> unat (m_num_entries b) then throw Length_error
     else for_each (\<lambda>_. draw_size B (m_region_size_range b)) [0..<unat (m_num_entries b)])"

text \<open>The bytes that accesses of these sizes need, one after the other or all at the same place.\<close>

definition space_for :: "bool \<Rightarrow> u64 list \<Rightarrow> u64" where
  "space_for reuse sizes = foldl (\<lambda>acc sz. if reuse then max sz acc else acc + sz) 0 sizes"

definition fill_pattern :: "nat \<Rightarrow> byte list" where
  "fill_pattern n = map (\<lambda>i. 97 + of_nat (i mod 26)) [0..<n]"

text \<open>
  A new vector of bytes. The loop that fills it counts in 32 bits, so it does not end for 2^32 bytes or
  more; \<open>None\<close> covers that too.
\<close>

definition new_data :: "'v bench_env \<Rightarrow> 'v client_site \<Rightarrow> bool \<Rightarrow> u64 \<Rightarrow> ('v, u64) comp" where
  "new_data B C fill sz =
    and_then (on_cx_world (bench_new B sz)) (\<lambda>ptr.
      case ptr of
        None \<Rightarrow> throw Bad_alloc
      | Some ptr \<Rightarrow>
          if fill \<and> 2 ^ 32 \<le> unat sz then (\<lambda>st. None)
          else on_cx_world (\<lambda>v. (ptr, if fill then client_store (cs_margo C) ptr (fill_pattern (unat sz)) v
                                     else client_store (cs_margo C) ptr (replicate (unat sz) 0) v)))"

text \<open>The result of \<open>margo_bulk_create\<close> is ignored.\<close>

definition preregister :: "'v client_site \<Rightarrow> bench \<Rightarrow> u64 \<Rightarrow> ('v, bench) comp" where
  "preregister C b sz =
    (if m_preregister_bulk b
     then on_cx_world (\<lambda>v. let ((_, h), v) = bulk_create (cs_env C) (m_data b) sz v in (b\<lparr>m_bulk := h\<rparr>, v))
     else done_with b)"

section \<open>setup\<close>

definition setup_create :: "'v bench_env \<Rightarrow> bench \<Rightarrow> ('v, bench) comp" where
  "setup_create B b = and_then (draw_sizes B b) (\<lambda>sizes. done_with (b\<lparr>m_sizes := sizes\<rparr>))"

definition setup_create_write_persist :: "'v bench_env \<Rightarrow> 'v client_site \<Rightarrow> bench \<Rightarrow> ('v, bench) comp" where
  "setup_create_write_persist B C b =
    and_then (draw_sizes B b) (\<lambda>sizes.
    let data_size = space_for (m_reuse_buffer b) sizes
    in and_then (new_data B C True data_size) (\<lambda>data.
       preregister C (b\<lparr>m_sizes := sizes, m_data := data\<rparr>) data_size))"

definition setup_write :: "'v bench_env \<Rightarrow> 'v client_site \<Rightarrow> bench \<Rightarrow> ('v, bench) comp" where
  "setup_write B C b =
    and_then (draw_sizes B b) (\<lambda>sizes.
    let region_size = space_for (m_reuse_region b) sizes; data_size = space_for (m_reuse_buffer b) sizes
    in and_then (new_data B C True data_size) (\<lambda>data.
       and_then (call_region (b_ph b) (\<lambda>hp h. client_create C hp h (b_target b) region_size)) (\<lambda>rid.
       preregister C (b\<lparr>m_sizes := sizes, m_data := data, m_region_ids := [rid]\<rparr>) data_size)))"

text \<open>
  \<open>m_access_sizes\<close> is only reserved, so its size stays 0 and every \<open>m_access_sizes[i]\<close> lies behind its
  end: a library that checks indices aborts, others use the reserved storage.
\<close>

definition setup_read :: "'v bench_env \<Rightarrow> 'v client_site \<Rightarrow> bench \<Rightarrow> ('v, bench) comp" where
  "setup_read B C b =
    and_then (draw_sizes B b) (\<lambda>sizes.
    if bench_checked B \<and> sizes \<noteq> [] then (\<lambda>st. None)
    else
     (let read_data_size = space_for (m_reuse_buffer b) sizes; region_size = space_for (m_reuse_region b) sizes
      in and_then (new_data B C True region_size) (\<lambda>write_data.
         and_then (call_region (b_ph b) (\<lambda>hp h. client_create_write_persist C hp h (b_target b) write_data region_size)) (\<lambda>rid.
         and_then (new_data B C False read_data_size) (\<lambda>data.
         and_then (preregister C (b\<lparr>m_sizes := sizes, m_data := data, m_region_ids := [rid]\<rparr>) read_data_size) (\<lambda>b.
         on_cx_world (\<lambda>v. (b, bench_delete B write_data v))))))))"

text \<open>One buffer as large as the largest access; its bytes are freed at the end of the method.\<close>

definition setup_persist :: "'v bench_env \<Rightarrow> 'v client_site \<Rightarrow> bench \<Rightarrow> ('v, bench) comp" where
  "setup_persist B C b =
    and_then (draw_sizes B b) (\<lambda>sizes.
    and_then (new_data B C True (space_for True sizes)) (\<lambda>write_data.
    and_then (for_each (\<lambda>sz. and_then (call_region (b_ph b) (\<lambda>hp h. client_create C hp h (b_target b) sz)) (\<lambda>rid.
                and_then (call (b_ph b) (\<lambda>hp h. client_write C hp h (b_target b) rid 0 write_data sz)) (\<lambda>_. done_with rid))) sizes) (\<lambda>rids.
    on_cx_world (\<lambda>v. (b\<lparr>m_sizes := sizes, m_region_ids := rids\<rparr>, bench_delete B write_data v)))))"

definition bench_setup :: "'v bench_env \<Rightarrow> 'v client_site \<Rightarrow> bench \<Rightarrow> ('v, bench) comp" where
  "bench_setup B C b =
    (case b_class b of
       Create_benchmark \<Rightarrow> setup_create B b
     | Create_write_persist_benchmark \<Rightarrow> setup_create_write_persist B C b
     | Write_benchmark \<Rightarrow> setup_write B C b
     | Read_benchmark \<Rightarrow> setup_read B C b
     | Persist_benchmark \<Rightarrow> setup_persist B C b)"

section \<open>execute\<close>

text \<open>The accesses of a benchmark: offset in the region, offset in the buffer, size.\<close>

fun accesses :: "bool \<Rightarrow> bool \<Rightarrow> u64 \<Rightarrow> u64 \<Rightarrow> u64 list \<Rightarrow> (u64 \<times> u64 \<times> u64) list" where
  "accesses reuse_region reuse_buffer region_offset data_offset [] = []"
| "accesses reuse_region reuse_buffer region_offset data_offset (sz # sizes) =
    (region_offset, data_offset, sz) #
    accesses reuse_region reuse_buffer (if reuse_region then region_offset else region_offset + sz)
      (if reuse_buffer then data_offset else data_offset + sz) sizes"

definition execute_create :: "'v client_site \<Rightarrow> bench \<Rightarrow> ('v, bench) comp" where
  "execute_create C b =
    and_then (for_each (\<lambda>sz. call_region (b_ph b) (\<lambda>hp h. client_create C hp h (b_target b) sz)) (m_sizes b)) (\<lambda>rids.
    done_with (b\<lparr>m_region_ids := rids\<rparr>))"

definition execute_create_write_persist :: "'v client_site \<Rightarrow> bench \<Rightarrow> ('v, bench) comp" where
  "execute_create_write_persist C b =
    and_then (for_each (\<lambda>(_, offset, sz). call_region (b_ph b) (\<lambda>hp h.
        if m_preregister_bulk b then client_create_write_persist_proxy C hp h (b_target b) (m_bulk b) offset [] sz
        else client_create_write_persist C hp h (b_target b) (m_data b + offset) sz))
      (accesses True (m_reuse_buffer b) 0 0 (m_sizes b))) (\<lambda>rids.
    done_with (b\<lparr>m_region_ids := rids\<rparr>))"

definition execute_write :: "'v client_site \<Rightarrow> bench \<Rightarrow> ('v, bench) comp" where
  "execute_write C b =
    and_then (for_each (\<lambda>(region_offset, data_offset, sz). call (b_ph b) (\<lambda>hp h.
        if m_preregister_bulk b then client_write_proxy C hp h (b_target b) (hd (m_region_ids b)) region_offset (m_bulk b) data_offset [] sz
        else client_write C hp h (b_target b) (hd (m_region_ids b)) region_offset (m_data b + data_offset) sz))
      (accesses (m_reuse_region b) (m_reuse_buffer b) 0 0 (m_sizes b))) (\<lambda>_.
    done_with b)"

definition execute_read :: "'v client_site \<Rightarrow> bench \<Rightarrow> ('v, bench) comp" where
  "execute_read C b =
    and_then (for_each (\<lambda>(region_offset, data_offset, sz). call (b_ph b) (\<lambda>hp h.
        if m_preregister_bulk b then client_read_proxy C hp h (b_target b) (hd (m_region_ids b)) region_offset (m_bulk b) data_offset [] sz
        else client_read C hp h (b_target b) (hd (m_region_ids b)) region_offset (m_data b + data_offset) sz))
      (accesses (m_reuse_region b) (m_reuse_buffer b) 0 0 (m_sizes b))) (\<lambda>_.
    done_with b)"

definition execute_persist :: "'v client_site \<Rightarrow> bench \<Rightarrow> ('v, bench) comp" where
  "execute_persist C b =
    and_then (for_each (\<lambda>(rid, sz). call (b_ph b) (\<lambda>hp h. client_persist C hp h (b_target b) rid 0 sz))
      (zip (m_region_ids b) (m_sizes b))) (\<lambda>_.
    done_with b)"

definition bench_execute :: "'v client_site \<Rightarrow> bench \<Rightarrow> ('v, bench) comp" where
  "bench_execute C b =
    (case b_class b of
       Create_benchmark \<Rightarrow> execute_create C b
     | Create_write_persist_benchmark \<Rightarrow> execute_create_write_persist C b
     | Write_benchmark \<Rightarrow> execute_write C b
     | Read_benchmark \<Rightarrow> execute_read C b
     | Persist_benchmark \<Rightarrow> execute_persist C b)"

section \<open>teardown\<close>

definition erase_regions :: "'v client_site \<Rightarrow> bench \<Rightarrow> ('v, unit list) comp" where
  "erase_regions C b =
    (if m_erase_on_teardown b
     then for_each (\<lambda>rid. call (b_ph b) (\<lambda>hp h. client_remove C hp h (b_target b) rid)) (m_region_ids b)
     else done_with [])"

definition free_bulk :: "'v client_site \<Rightarrow> bench \<Rightarrow> 'v \<Rightarrow> 'v" where
  "free_bulk C b v = (if m_preregister_bulk b then bulk_free (cs_env C) (m_bulk b) v else v)"

definition emptied :: "bench \<Rightarrow> bench" where
  "emptied b = b\<lparr>m_sizes := [], m_region_ids := [], m_data := 0\<rparr>"

definition teardown_create :: "'v client_site \<Rightarrow> bench \<Rightarrow> ('v, bench) comp" where
  "teardown_create C b = and_then (erase_regions C b) (\<lambda>_. done_with (emptied b))"

definition teardown_create_write_persist :: "'v bench_env \<Rightarrow> 'v client_site \<Rightarrow> bench \<Rightarrow> ('v, bench) comp" where
  "teardown_create_write_persist B C b =
    and_then (erase_regions C b) (\<lambda>_. on_cx_world (\<lambda>v. (emptied b, bench_delete B (m_data b) (free_bulk C b v))))"

text \<open>These two free the memory before the bulk handle that refers to it.\<close>

definition teardown_write :: "'v bench_env \<Rightarrow> 'v client_site \<Rightarrow> bench \<Rightarrow> ('v, bench) comp" where
  "teardown_write B C b =
    and_then (erase_regions C b) (\<lambda>_. on_cx_world (\<lambda>v. (emptied b, free_bulk C b (bench_delete B (m_data b) v))))"

definition teardown_read :: "'v bench_env \<Rightarrow> 'v client_site \<Rightarrow> bench \<Rightarrow> ('v, bench) comp" where
  "teardown_read B C b =
    and_then (erase_regions C b) (\<lambda>_. on_cx_world (\<lambda>v. (emptied b, free_bulk C b (bench_delete B (m_data b) v))))"

definition teardown_persist :: "'v client_site \<Rightarrow> bench \<Rightarrow> ('v, bench) comp" where
  "teardown_persist C b = and_then (erase_regions C b) (\<lambda>_. done_with (emptied b))"

definition bench_teardown :: "'v bench_env \<Rightarrow> 'v client_site \<Rightarrow> bench \<Rightarrow> ('v, bench) comp" where
  "bench_teardown B C b =
    (case b_class b of
       Create_benchmark \<Rightarrow> teardown_create C b
     | Create_write_persist_benchmark \<Rightarrow> teardown_create_write_persist B C b
     | Write_benchmark \<Rightarrow> teardown_write B C b
     | Read_benchmark \<Rightarrow> teardown_read B C b
     | Persist_benchmark \<Rightarrow> teardown_persist C b)"

section \<open>Times and the report\<close>

text \<open>
  The clock, the exchange of times between the clients, and the arithmetic of \<^verbatim>\<open>double\<close>, whose rounding is
  left open. \<open>bench_gather\<close> yields what the client with rank 0 receives.
\<close>

record ('v, 'd) bench_clock =
  bench_wtime :: "'v \<Rightarrow> 'd \<times> 'v"
  bench_gather :: "'d list \<Rightarrow> 'v \<Rightarrow> 'd list \<times> 'v"
  d_zero :: 'd
  d_plus :: "'d \<Rightarrow> 'd \<Rightarrow> 'd"
  d_minus :: "'d \<Rightarrow> 'd \<Rightarrow> 'd"
  d_square :: "'d \<Rightarrow> 'd"
  d_sqrt :: "'d \<Rightarrow> 'd"
  d_div :: "'d \<Rightarrow> nat \<Rightarrow> 'd"

record 'd bench_report =
  br_samples :: nat
  br_average :: 'd
  br_variance :: 'd
  br_stddev :: 'd
  br_min :: 'd
  br_q1 :: 'd
  br_median :: 'd
  br_q3 :: 'd
  br_max :: 'd

text \<open>The figures of one report; the first and last element of an empty vector are undefined.\<close>

definition report :: "('v, 'd :: linorder) bench_clock \<Rightarrow> 'd list \<Rightarrow> 'd bench_report option" where
  "report T global_timings =
    (if global_timings = [] then None
     else
      (let n = length global_timings;
           average = d_div T (foldl (d_plus T) (d_zero T) global_timings) n;
           variance = d_div T (foldl (\<lambda>acc x. d_plus T acc (d_square T (d_minus T x average))) (d_zero T) global_timings) n;
           sorted_timings = sort global_timings
       in Some \<lparr>br_samples = n, br_average = average, br_variance = variance, br_stddev = d_sqrt T variance,
            br_min = sorted_timings ! 0, br_q1 = sorted_timings ! (n div 4),
            br_median = (if odd n then sorted_timings ! (n div 2)
                         else d_div T (d_plus T (sorted_timings ! (n div 2)) (sorted_timings ! (n div 2 - 1))) 2),
            br_q3 = sorted_timings ! (3 * n div 4), br_max = sorted_timings ! (n - 1)\<rparr>))"

text \<open>
  The times of all clients: the size of the vector is computed with 32 bits, so that the exchange may
  write behind its end, which happens on the client that receives.
\<close>

definition exchange_timings ::
  "('v, 'd) bench_clock \<Rightarrow> u32 \<Rightarrow> u32 \<Rightarrow> u32 \<Rightarrow> 'd list \<Rightarrow> ('v, 'd list) comp" where
  "exchange_timings T rank num_clients rep local_timings =
    (let n = unat (rep * num_clients)
     in if num_clients = 1 then done_with local_timings
        else if rank = 0 \<and> n < length local_timings * unat num_clients then (\<lambda>st. None)
        else on_cx_world (\<lambda>v. let (received, v) = bench_gather T local_timings v
                              in (if rank = 0 then received else replicate n (d_zero T), v)))"

section \<open>The main loop\<close>

text \<open>One repetition and the time of its execution.\<close>

definition bench_once ::
  "'v bench_env \<Rightarrow> ('v, 'd) bench_clock \<Rightarrow> 'v client_site \<Rightarrow> bench \<Rightarrow> ('v, bench \<times> 'd) comp" where
  "bench_once B T C b =
    (let barrier = on_cx_world (\<lambda>v. ((), bench_barrier B v))
     in and_then barrier (\<lambda>_. and_then (bench_setup B C b) (\<lambda>b. and_then barrier (\<lambda>_.
        and_then (on_cx_world (bench_wtime T)) (\<lambda>t_start. and_then (bench_execute C b) (\<lambda>b.
        and_then (on_cx_world (bench_wtime T)) (\<lambda>t_end. and_then barrier (\<lambda>_.
        and_then (bench_teardown B C b) (\<lambda>b. done_with (b, d_minus T t_end t_start))))))))))"

fun bench_repeat ::
  "'v bench_env \<Rightarrow> ('v, 'd) bench_clock \<Rightarrow> 'v client_site \<Rightarrow> nat \<Rightarrow> bench \<Rightarrow> ('v, bench \<times> 'd list) comp" where
  "bench_repeat B T C 0 b = done_with (b, [])"
| "bench_repeat B T C (Suc n) b =
    and_then (bench_once B T C b) (\<lambda>(b, t). and_then (bench_repeat B T C n b) (\<lambda>(b, ts). done_with (b, t # ts)))"

text \<open>All objects are created before the first one runs; \<open>x\<close>, \<open>x + 1\<close>, ... are the addresses of their handles.\<close>

fun bench_create_all ::
  "nat \<Rightarrow> nat \<Rightarrow> bake_target_id \<Rightarrow> hg_bulk \<Rightarrow> bench_config list \<Rightarrow> ('v, (bench \<times> bench_config) list) comp" where
  "bench_create_all x ph tgt junk_bulk [] = done_with []"
| "bench_create_all x ph tgt junk_bulk (config # configs) =
    and_then (bench_create x ph tgt junk_bulk config) (\<lambda>b.
    and_then (bench_create_all (x + 1) ph tgt junk_bulk configs) (\<lambda>bs. done_with (b # bs)))"

text \<open>The reports are what the client with rank 0 prints.\<close>

definition bench_run_all ::
  "'v bench_env \<Rightarrow> ('v, 'd :: linorder) bench_clock \<Rightarrow> 'v client_site \<Rightarrow> u32 \<Rightarrow> u32 \<Rightarrow> u32 \<Rightarrow> (bench \<times> bench_config) list \<Rightarrow>
     ('v, 'd bench_report option list) comp" where
  "bench_run_all B T C seed rank num_clients =
    for_each (\<lambda>(b, config). and_then (on_cx_world (\<lambda>v. ((), bench_srand B (seed + rank * 1789) v))) (\<lambda>_.
      and_then (bench_repeat B T C (unat (bc_repetitions config)) b) (\<lambda>(b, local_timings).
      and_then (exchange_timings T rank num_clients (bc_repetitions config) local_timings) (\<lambda>global_timings.
      if rank = 0 then (case report T global_timings of None \<Rightarrow> (\<lambda>st. None) | Some r \<Rightarrow> done_with (Some r))
      else done_with None))))"

section \<open>Client and server\<close>

definition lift_ending :: "('v cpp \<Rightarrow> (ending \<times> 'v cpp) option) \<Rightarrow> ('v, unit) comp" where
  "lift_ending m st = map_option (apfst (map_sum Bake_error id)) (m st)"

definition on_world_only :: "('v \<Rightarrow> 'v) \<Rightarrow> ('v, unit) comp" where
  "on_world_only f = on_cx_world (\<lambda>v. ((), f v))"

text \<open>
  The body of \<open>run_client\<close> for a client that has received the address of the server; the results of
  starting margo and of the lookup are not checked. The client is the object 1, the handle \<open>ph\<close> the object 1
  of its class, and the handles of the benchmarks are the objects from 2 on. The destructors run in the
  reverse order of the declarations. Without targets \<open>targets[0]\<close> is undefined.
\<close>

definition run_client ::
  "'v bench_env \<Rightarrow> ('v, 'd :: linorder) bench_clock \<Rightarrow> 'v client_site \<Rightarrow> 'v os \<Rightarrow> cstring \<Rightarrow> cstring \<Rightarrow> u32 \<Rightarrow> u32 \<Rightarrow> u32 \<Rightarrow>
     hg_bulk \<Rightarrow> bench_config list \<Rightarrow> ('v, 'd bench_report option list) comp" where
  "run_client B T C L protocol server_addr_str seed rank num_clients junk_bulk configs =
    and_then (on_world_only (\<lambda>v. snd (margo_init L (Some protocol) True v))) (\<lambda>_.
    and_then (on_cx_world (\<lambda>v. let ((_, a), v) = addr_lookup (cs_margo C) (Some server_addr_str) v in (a, v))) (\<lambda>server_addr.
    and_then (on_world_only (bench_barrier B)) (\<lambda>_.
    and_then (lift_ending (\<lambda>st. Some (client_construct C 1 st))) (\<lambda>_.
    and_then (lift_ending (\<lambda>st. case cx_clients st 1 of None \<Rightarrow> None | Some clt \<Rightarrow> handle_construct C 1 clt server_addr 0 st)) (\<lambda>_.
    and_then (call 1 (\<lambda>hp h. client_probe C hp h 0)) (\<lambda>targets.
    case targets of
      [] \<Rightarrow> (\<lambda>st. None)
    | target # _ \<Rightarrow>
       and_then (bench_create_all 2 1 target junk_bulk configs) (\<lambda>bs.
       and_then (bench_run_all B T C seed rank num_clients bs) (\<lambda>reports.
       and_then (on_world_only (bench_barrier B)) (\<lambda>_.
       and_then (on_world_only (\<lambda>v. if rank = 0 then snd (margo_shutdown_remote_instance (cs_margo C) server_addr v) else v)) (\<lambda>_.
       and_then (for_each (\<lambda>(b, _). lift_ending (\<lambda>st. map_option (Pair (Inr ())) (handle_destroy C (b_ph b) st))) bs) (\<lambda>_.
       and_then (lift_ending (\<lambda>st. map_option (Pair (Inr ())) (handle_destroy C 1 st))) (\<lambda>_.
       and_then (lift_ending (\<lambda>st. map_option (Pair (Inr ())) (client_destroy 1 st))) (\<lambda>_.
       and_then (on_world_only (\<lambda>v. margo_finalize L (addr_free (cs_margo C) server_addr v))) (\<lambda>_.
       done_with reports))))))))))))))"

text \<open>
  The server: its address is sent to the clients, a provider with the empty configuration is created and
  a target is created and attached. \<open>bench_bcast\<close> stands for the two calls of \<open>MPI_Bcast\<close>.
\<close>

definition run_server ::
  "('w, 'j) site \<Rightarrow> 'w os \<Rightarrow> (cstring \<Rightarrow> 'w \<Rightarrow> 'w) \<Rightarrow> ('w \<Rightarrow> 'w) \<Rightarrow> cstring \<Rightarrow> cstring \<Rightarrow> cstring \<Rightarrow> u64 \<Rightarrow> 'w pm \<Rightarrow>
     (bake_exception + 'j bake_provider) outcome \<times> 'w pm" where
  "run_server S L bench_bcast barrier version protocol tgt_path tgt_size s =
    (let (m, w) = s; M = st_margo S;
         w = margo_enable_remote_shutdown L (snd (margo_init L (Some protocol) True w));
         ((_, server_addr), w) = addr_self M w;
         (_, server_addr_str, _) = addr_to_string M server_addr 256 w;
         w = bench_bcast server_addr_str (addr_free M server_addr w)
     in case provider_create_from S version 0 (str ''{}'') 0 False False (m, w) of
          (Returns (Inr p), s) \<Rightarrow>
            (case create_target S tgt_path tgt_size (p, s) of
               (Aborts, (p, s)) \<Rightarrow> (Aborts, s)
             | (Returns (Inl e), (p, s)) \<Rightarrow> (Returns (Inl e), s)
             | (Returns (Inr _), (p, (m, w))) \<Rightarrow> (Returns (Inr p), (m, margo_wait_for_finalize L (barrier w))))
        | r \<Rightarrow> r)"

section \<open>The program\<close>

text \<open>The configuration file: the entries that the two sides read.\<close>

record bench_file =
  bf_protocol :: cstring
  bf_seed :: u32
  bf_target_path :: cstring
  bf_target_size :: u64
  bf_benchmarks :: "bench_config list"

datatype ('a, 'b) bench_end = Mpi_abort | Main_undefined | Server_side 'a | Client_side 'b

text \<open>
  \<open>read_config\<close> tells whether the stream of the file is good and what the parser makes of it. The usage and the
  stream are checked by the process with rank 0 only; another process without argument opens the file
  named by the null pointer at the end of \<open>argv\<close>. Rank 0 is the server, and the others are the clients, with ranks
  of their own that start from 0.
\<close>

definition bench_main ::
  "(cstring \<Rightarrow> bool \<times> bench_file option) \<Rightarrow> nat \<Rightarrow> nat \<Rightarrow> cstring list \<Rightarrow>
     ('w, 'j) site \<Rightarrow> 'w os \<Rightarrow> (cstring \<Rightarrow> 'w \<Rightarrow> 'w) \<Rightarrow> ('w \<Rightarrow> 'w) \<Rightarrow> cstring \<Rightarrow> 'w pm \<Rightarrow>
     'v bench_env \<Rightarrow> ('v, 'd :: linorder) bench_clock \<Rightarrow> 'v client_site \<Rightarrow> 'v os \<Rightarrow> cstring \<Rightarrow> hg_bulk \<Rightarrow> 'v cpp \<Rightarrow>
     ((bake_exception + 'j bake_provider) outcome \<times> 'w pm, ((failure + 'd bench_report option list) \<times> 'v cpp) option) bench_end" where
  "bench_main read_config rank world_size argv S L bcast barrier version s B T C L' server_addr_str junk_bulk st =
    (if length argv \<noteq> 2 \<and> rank = 0 then Mpi_abort
     else if length argv < 2 then Main_undefined
     else
      (let (good, parsed) = read_config (argv ! 1)
       in if \<not> good \<and> rank = 0 then Mpi_abort
          else
           (case parsed of
              None \<Rightarrow> Mpi_abort
            | Some config \<Rightarrow>
               if rank = 0
               then Server_side (run_server S L bcast barrier version (bf_protocol config) (bf_target_path config)
                      (bf_target_size config) s)
               else Client_side (run_client B T C L' (bf_protocol config) server_addr_str (bf_seed config)
                      (of_nat (rank - 1)) (of_nat (world_size - 1)) junk_bulk (bf_benchmarks config) st))))"

end
