(* ===== verification/Benchmark_Props.thy ===== *)
theory Benchmark_Props
  imports Benchmark
begin

text \<open>
  The benchmarks access only memory and regions that they have set up, and they share one eager limit.
\<close>

section \<open>Computations\<close>

lemma and_then_Inr:
  "and_then m f st = Some (Inr y, st') \<longleftrightarrow> (\<exists>x st1. m st = Some (Inr x, st1) \<and> f x st1 = Some (Inr y, st'))"
  by (auto simp: and_then_def split: option.splits sum.splits)

lemma done_with_Inr [simp]: "done_with x st = Some (Inr y, st') \<longleftrightarrow> y = x \<and> st' = st"
  by (auto simp: done_with_def)

lemma throw_Inr [simp]: "throw e st \<noteq> Some (Inr y, st')"
  by (simp add: throw_def)

lemma for_each_length: "for_each f xs st = Some (Inr ys, st') \<Longrightarrow> length ys = length xs"
  by (induction xs arbitrary: st ys) (auto simp: and_then_Inr)

lemma for_each_all:
  assumes "for_each f xs st = Some (Inr ys, st')" and "\<And>x st y st'. f x st = Some (Inr y, st') \<Longrightarrow> P y"
  shows "\<forall>y \<in> set ys. P y"
  using assms(1) by (induction xs arbitrary: st ys) (use assms(2) in \<open>auto simp: and_then_Inr\<close>)

section \<open>Sizes\<close>

lemma draw_size_range:
  assumes "draw_size B rng st = Some (Inr sz, st')" and "fst rng < snd rng"
  shows "fst rng \<le> sz" and "sz < snd rng"
proof -
  obtain r where sz: "sz = fst rng + of_nat r mod (snd rng - fst rng)"
    using assms(1) by (auto simp: draw_size_def on_cx_world_def Let_def split: if_splits prod.splits)
  let ?d = "unat (snd rng) - unat (fst rng)"
  have d: "unat (snd rng - fst rng) = ?d" "0 < ?d"
    using assms(2) unat_sub [of "fst rng" "snd rng"] by (simp_all add: word_less_nat_alt word_le_nat_alt)
  have "unat (of_nat r mod (snd rng - fst rng) :: u64) < ?d" using d by (simp add: unat_mod)
  then have "unat sz = unat (fst rng) + unat (of_nat r mod (snd rng - fst rng) :: u64)" "unat sz < unat (snd rng)"
    using sz unsigned_less [of "snd rng", where ?'a = nat] by (simp_all add: unat_word_ariths)
  then show "fst rng \<le> sz" "sz < snd rng" by (simp_all add: word_le_nat_alt word_less_nat_alt)
qed

lemma draw_sizes_facts:
  assumes "draw_sizes B b st = Some (Inr sizes, st')" and "fst (m_region_size_range b) < snd (m_region_size_range b)"
  shows "length sizes = unat (m_num_entries b)"
    and "\<forall>sz \<in> set sizes. fst (m_region_size_range b) \<le> sz \<and> sz < snd (m_region_size_range b)"
proof -
  have f: "for_each (\<lambda>_. draw_size B (m_region_size_range b)) [0..<unat (m_num_entries b)] st = Some (Inr sizes, st')"
    using assms(1) by (simp add: draw_sizes_def split: if_splits)
  show "length sizes = unat (m_num_entries b)" using for_each_length [OF f] by simp
  show "\<forall>sz \<in> set sizes. fst (m_region_size_range b) \<le> sz \<and> sz < snd (m_region_size_range b)"
    by (rule for_each_all [OF f]) (use draw_size_range [OF _ assms(2)] in blast)
qed

section \<open>Accesses\<close>

lemma space_sum:
  fixes acc :: u64 and sizes :: "u64 list"
  assumes "unat acc + sum_list (map unat sizes) < 2 ^ 64"
  shows "unat (foldl (\<lambda>acc sz. acc + sz) acc sizes) = unat acc + sum_list (map unat sizes)"
  using assms
proof (induction sizes arbitrary: acc)
  case (Cons sz sizes)
  then have "unat (acc + sz) = unat acc + unat sz" by (simp add: unat_word_ariths)
  then show ?case using Cons by simp
qed simp

lemma space_max: "sz \<in> set sizes \<or> sz \<le> acc \<Longrightarrow> sz \<le> foldl (\<lambda>acc sz. max sz acc) (acc :: u64) sizes"
proof (induction sizes arbitrary: acc)
  case (Cons s sizes)
  have "sz \<in> set sizes \<or> sz \<le> max s acc" using Cons.prems by (auto simp: le_max_iff_disj)
  from Cons.IH [OF this] show ?case by simp
qed simp

text \<open>One of the two offsets of an access: \<open>reuse\<close> says whether it stays at its start.\<close>

lemma access_region:
  assumes "(p, q, sz) \<in> set (accesses rr rb r0 b0 sizes)" and "unat r0 + sum_list (map unat sizes) < 2 ^ 64"
  shows "sz \<in> set sizes \<and> (rr \<longrightarrow> p = r0) \<and> (\<not> rr \<longrightarrow> unat p + unat sz \<le> unat r0 + sum_list (map unat sizes))"
  using assms
proof (induction sizes arbitrary: r0 b0)
  case (Cons s sizes)
  have "unat (r0 + s) = unat r0 + unat s" using Cons.prems(2) by (simp add: unat_word_ariths)
  then show ?case
    using Cons.prems Cons.IH [of "if rr then r0 else r0 + s" "if rb then b0 else b0 + s"] by (auto split: if_splits)
qed simp

lemma accesses_swap: "(p, q, sz) \<in> set (accesses rr rb r0 b0 sizes) \<longleftrightarrow> (q, p, sz) \<in> set (accesses rb rr b0 r0 sizes)"
  by (induction sizes arbitrary: r0 b0) auto

lemma access_in_space:
  assumes "(p, q, sz) \<in> set (accesses rr rb 0 0 sizes)" and "sum_list (map unat sizes) < 2 ^ 64"
  shows "unat p + unat sz \<le> unat (space_for rr sizes)" and "unat q + unat sz \<le> unat (space_for rb sizes)"
proof -
  have one: "unat p + unat sz \<le> unat (space_for rr sizes)"
    if "(p, q, sz) \<in> set (accesses rr rb 0 0 sizes)" for p q rr rb
    using access_region [OF that] assms(2) space_sum [of 0 sizes] space_max [of sz sizes 0]
    by (cases rr) (simp_all add: space_for_def word_le_nat_alt)
  show "unat p + unat sz \<le> unat (space_for rr sizes)" by (rule one [OF assms(1)])
  show "unat q + unat sz \<le> unat (space_for rb sizes)"
    by (rule one [OF iffD1 [OF accesses_swap assms(1)]])
qed

text \<open>
  The writes that a benchmark is meant to do, with every access checked against a region of \<open>R\<close> bytes
  and a buffer of \<open>D\<close> bytes; an access outside of them is undefined. The offsets are numbers that do
  not wrap: each is advanced by the size of the access unless the region or the buffer is reused.
\<close>

fun checked_writes ::
  "'v client_site \<Rightarrow> bench \<Rightarrow> bake_region_id \<Rightarrow> nat \<Rightarrow> nat \<Rightarrow> nat \<Rightarrow> nat \<Rightarrow> u64 list \<Rightarrow> ('v, unit) comp" where
  "checked_writes C b rid R D region_offset data_offset [] = done_with ()"
| "checked_writes C b rid R D region_offset data_offset (sz # sizes) =
    (if region_offset + unat sz \<le> R \<and> data_offset + unat sz \<le> D
     then and_then
       (call (b_ph b) (\<lambda>hp h.
          if m_preregister_bulk b
          then client_write_proxy C hp h (b_target b) rid (of_nat region_offset) (m_bulk b) (of_nat data_offset) [] sz
          else client_write C hp h (b_target b) rid (of_nat region_offset) (m_data b + of_nat data_offset) sz))
       (\<lambda>_. checked_writes C b rid R D (if m_reuse_region b then region_offset else region_offset + unat sz)
               (if m_reuse_buffer b then data_offset else data_offset + unat sz) sizes)
     else (\<lambda>st. None))"

lemma and_then_assoc: "and_then (and_then m f) g = and_then m (\<lambda>x. and_then (f x) g)"
  by (auto simp: and_then_def fun_eq_iff split: option.split sum.split)

lemma and_then_done [simp]: "and_then (done_with x) f = f x"
  by (rule ext) (simp add: and_then_def done_with_def)

lemma execute_write_checked:
  assumes "\<forall>(p, q, sz) \<in> set (accesses (m_reuse_region b) (m_reuse_buffer b) r0 d0 sizes).
      unat p + unat sz \<le> R \<and> unat q + unat sz \<le> D" and "R < 2 ^ 64" and "D < 2 ^ 64"
  shows "and_then (for_each (\<lambda>(region_offset, data_offset, sz). call (b_ph b) (\<lambda>hp h.
        if m_preregister_bulk b then client_write_proxy C hp h (b_target b) rid region_offset (m_bulk b) data_offset [] sz
        else client_write C hp h (b_target b) rid region_offset (m_data b + data_offset) sz))
      (accesses (m_reuse_region b) (m_reuse_buffer b) r0 d0 sizes)) (\<lambda>_. done_with x) =
    and_then (checked_writes C b rid R D (unat r0) (unat d0) sizes) (\<lambda>_. done_with x)"
  using assms(1)
proof (induction sizes arbitrary: r0 d0)
  case (Cons sz sizes)
  let ?r = "if m_reuse_region b then r0 else r0 + sz" and ?d = "if m_reuse_buffer b then d0 else d0 + sz"
  have in1: "unat r0 + unat sz \<le> R" "unat d0 + unat sz \<le> D" using Cons.prems by simp_all
  have "unat (r0 + sz) = unat r0 + unat sz" "unat (d0 + sz) = unat d0 + unat sz"
    using in1 assms(2,3) by (simp_all add: unat_word_ariths)
  then have next1: "unat ?r = (if m_reuse_region b then unat r0 else unat r0 + unat sz)"
    "unat ?d = (if m_reuse_buffer b then unat d0 else unat d0 + unat sz)" by simp_all
  have w: "(of_nat (unat r0) :: u64) = r0" "(of_nat (unat d0) :: u64) = d0" by simp_all
  have "\<forall>(p, q, sz) \<in> set (accesses (m_reuse_region b) (m_reuse_buffer b) ?r ?d sizes).
      unat p + unat sz \<le> R \<and> unat q + unat sz \<le> D" using Cons.prems by (simp only: accesses.simps list.set) blast
  note IH = Cons.IH [OF this, unfolded next1]
  show ?case
    by (simp only: accesses.simps for_each.simps checked_writes.simps and_then_assoc and_then_done w prod.case in1
        simp_thms if_True IH)
qed simp

text \<open>C170: The write benchmark stays inside what it has set up. If \<open>setup\<close> succeeds and the sizes add up to less
  than 2^64 bytes, then there is one size for each entry, inside the configured range, the buffer was
  allocated and the region created with some sizes, and \<open>execute\<close>, from every state, does exactly the
  writes of \<open>checked_writes\<close> for these sizes: each entry is written at the running offset of the region from the running offset
  of the buffer, and no access lies outside the region or the buffer, whether they are reused or not.\<close>
theorem write_benchmark_in_bounds:
  assumes "setup_write B C b st = Some (Inr b', st')" and "fst (m_region_size_range b) < snd (m_region_size_range b)"
    and "sum_list (map unat (m_sizes b')) < 2 ^ 64"
  shows "length (m_sizes b') = unat (m_num_entries b) \<and>
    (\<forall>sz \<in> set (m_sizes b'). fst (m_region_size_range b) \<le> sz \<and> sz < snd (m_region_size_range b)) \<and>
    (\<exists>region_size data_size rid st1 st2 st3 st4. m_region_ids b' = [rid] \<and>
      new_data B C True data_size st1 = Some (Inr (m_data b'), st2) \<and>
      call_region (b_ph b) (\<lambda>hp h. client_create C hp h (b_target b) region_size) st3 = Some (Inr rid, st4) \<and>
      execute_write C b' =
        and_then (checked_writes C b' rid (unat region_size) (unat data_size) 0 0 (m_sizes b')) (\<lambda>_. done_with b') \<and>
      (\<forall>(region_offset, data_offset, sz) \<in> set (accesses (m_reuse_region b') (m_reuse_buffer b') 0 0 (m_sizes b')).
        unat region_offset + unat sz \<le> unat region_size \<and> unat data_offset + unat sz \<le> unat data_size))"
proof -
  let ?rs = "\<lambda>sizes. space_for (m_reuse_region b) sizes" and ?ds = "\<lambda>sizes. space_for (m_reuse_buffer b) sizes"
  obtain sizes st1 data st2 rid st3 where s: "draw_sizes B b st = Some (Inr sizes, st1)"
    "new_data B C True (?ds sizes) st1 = Some (Inr data, st2)"
    "call_region (b_ph b) (\<lambda>hp h. client_create C hp h (b_target b) (?rs sizes)) st2 = Some (Inr rid, st3)"
    "preregister C (b\<lparr>m_sizes := sizes, m_data := data, m_region_ids := [rid]\<rparr>) (?ds sizes) st3 = Some (Inr b', st')"
    using assms(1) unfolding setup_write_def Let_def and_then_Inr by blast
  have b': "m_sizes b' = sizes" "m_data b' = data" "m_region_ids b' = [rid]" "m_reuse_region b' = m_reuse_region b"
    "m_reuse_buffer b' = m_reuse_buffer b"
    using s(4) by (auto simp: preregister_def on_cx_world_def split: if_splits prod.splits)
  have bounds: "\<forall>(p, q, sz) \<in> set (accesses (m_reuse_region b') (m_reuse_buffer b') 0 0 (m_sizes b')).
      unat p + unat sz \<le> unat (?rs sizes) \<and> unat q + unat sz \<le> unat (?ds sizes)"
    using access_in_space assms(3) by (auto simp: b')
  have "execute_write C b' = and_then (checked_writes C b' rid (unat (?rs sizes)) (unat (?ds sizes)) 0 0 (m_sizes b'))
      (\<lambda>_. done_with b')"
    using execute_write_checked [OF bounds, of C rid b'] unsigned_less [of "?rs sizes", where ?'a = nat]
      unsigned_less [of "?ds sizes", where ?'a = nat]
    unfolding execute_write_def b'(3) list.sel by simp
  then show ?thesis using draw_sizes_facts [OF s(1) assms(2)] s(2,3) b'(1-3) bounds by blast
qed

section \<open>The eager limit\<close>

text \<open>
  The handles of all benchmarks are copies of one handle and share its eager limit: the benchmarks are
  created before the first one runs, so all of them run with the limit of the last one.
\<close>

definition eager_limit_of :: "bench_config \<Rightarrow> u64" where
  "eager_limit_of config = of_int (case bc_eager_limit config of None \<Rightarrow> 2048 | Some n \<Rightarrow> n)"

lemma bench_create_handle:
  assumes "bench_create x ph tgt jb config st = Some (Inr (b, config'), st')" and "cx_handles st ph = Some h"
    and "h \<noteq> BAKE_PROVIDER_HANDLE_NULL" and "x \<noteq> ph"
  shows "b_ph b = x" and "cx_handles st' = (cx_handles st)(x \<mapsto> h)"
    and "\<exists>p. hp_handles (cx_heap st') h = Some p \<and> ph_eager_limit p = eager_limit_of config"
  using assms
  by (auto simp: bench_create_def bench_construct_def and_then_Inr Let_def handle_copy_def set_handle_def handle_set_eager_limit_def
      bake_provider_handle_set_eager_limit_def bake_provider_handle_ref_incr_def update_handle_def getConfigInt_def eager_limit_of_def
      split: option.splits if_splits prod.splits sum.splits)

lemma bench_create_all_handles:
  assumes "bench_create_all x ph tgt jb configs st = Some (Inr bs, st')" and "cx_handles st ph = Some h"
    and "h \<noteq> BAKE_PROVIDER_HANDLE_NULL" and "ph < x"
  shows "(\<forall>y < x. cx_handles st' y = cx_handles st y) \<and> (\<forall>b \<in> set bs. cx_handles st' (b_ph (fst b)) = Some h) \<and>
    (configs \<noteq> [] \<longrightarrow> (\<exists>p. hp_handles (cx_heap st') h = Some p \<and> ph_eager_limit p = eager_limit_of (last configs)))"
  using assms
proof (induction configs arbitrary: x st bs)
  case (Cons config configs)
  obtain b config' st1 bs' where c: "bench_create x ph tgt jb config st = Some (Inr (b, config'), st1)"
    "bench_create_all (x + 1) ph tgt jb configs st1 = Some (Inr bs', st')" "bs = (b, config') # bs'"
    using Cons.prems(1) by (auto simp: and_then_Inr)
  note h = bench_create_handle [OF c(1) Cons.prems(2,3)]
  have ne: "x \<noteq> ph" using Cons.prems(4) by simp
  have "cx_handles st1 ph = Some h" using h(2) [OF ne] Cons.prems(2) ne by simp
  note IH = Cons.IH [OF c(2) this Cons.prems(3)]
  have "configs = [] \<longrightarrow> st' = st1" using c(2) by auto
  then show ?case using IH h(1) [OF ne] h(2) [OF ne] h(3) [OF ne] c(3) Cons.prems(4) by (auto simp: less_Suc_eq)
qed simp

lemmas benchmarks_share_limit = bench_create_all_handles [THEN conjunct2]

section \<open>The report\<close>

lemma sorted_index:
  assumes "xs \<noteq> []"
  shows "length xs div 4 < length xs" and "length xs div 2 < length xs" and "3 * length xs div 4 < length xs"
    and "length xs div 4 \<le> length xs div 2" and "length xs div 2 \<le> 3 * length xs div 4"
  using assms by (simp_all add: neq_Nil_conv) (auto simp: neq_Nil_conv)

text \<open>
  A report exists for every measurement with at least one repetition. Its minimum, quartiles and maximum are measured
  times in ascending order that enclose all measured times, whatever the rounding of the averages.
\<close>

lemma report_defined: "report T xs \<noteq> None \<longleftrightarrow> xs \<noteq> []"
  by (simp add: report_def Let_def)

lemma report_ordered:
  assumes "report T xs = Some r"
  shows "br_samples r = length xs" and "{br_min r, br_q1 r, br_q3 r, br_max r} \<subseteq> set xs"
    and "br_min r \<le> br_q1 r \<and> br_q1 r \<le> br_q3 r \<and> br_q3 r \<le> br_max r"
    and "\<forall>x \<in> set xs. br_min r \<le> x \<and> x \<le> br_max r"
    and "odd (length xs) \<Longrightarrow> br_median r \<in> set xs \<and> br_q1 r \<le> br_median r \<and> br_median r \<le> br_q3 r"
proof -
  let ?n = "length xs" and ?s = "sort xs"
  have ne: "xs \<noteq> []" using assms by (auto simp: report_def)
  note i = sorted_index [OF ne]
  have r: "br_samples r = ?n" "br_min r = ?s ! 0" "br_q1 r = ?s ! (?n div 4)" "br_q3 r = ?s ! (3 * ?n div 4)" "br_max r = ?s ! (?n - 1)"
    "odd ?n \<Longrightarrow> br_median r = ?s ! (?n div 2)"
    using assms ne by (auto simp: report_def Let_def)
  have le: "?s ! a \<le> ?s ! b" if "a \<le> b" "b < ?n" for a b
    using that by (simp add: sorted_nth_mono)
  have mem: "?s ! a \<in> set xs" if "a < ?n" for a
    using that nth_mem [of a ?s] by simp
  show "br_samples r = length xs" by (rule r(1))
  show "{br_min r, br_q1 r, br_q3 r, br_max r} \<subseteq> set xs" using i ne by (simp add: r mem)
  show "br_min r \<le> br_q1 r \<and> br_q1 r \<le> br_q3 r \<and> br_q3 r \<le> br_max r" using i by (simp add: r le)
  show "\<forall>x \<in> set xs. br_min r \<le> x \<and> x \<le> br_max r"
  proof
    fix x assume "x \<in> set xs"
    then obtain k where "k < ?n" "x = ?s ! k" by (metis in_set_conv_nth length_sort set_sort)
    then show "br_min r \<le> x \<and> x \<le> br_max r" by (simp add: r le)
  qed
  show "br_median r \<in> set xs \<and> br_q1 r \<le> br_median r \<and> br_median r \<le> br_q3 r" if "odd ?n"
    using i that by (simp add: r mem le)
qed

lemma bench_repeat_times:
  "bench_repeat B T C n b st = Some (Inr (b', ts), st') \<Longrightarrow> length ts = n"
  by (induction n arbitrary: b st ts) (auto simp: and_then_Inr)

text \<open>
  The clients other than the first print nothing and are not affected by a number of repetitions of zero; the first one is.
\<close>

lemma no_repetitions_undefined:
  assumes "bc_repetitions config = 0"
  shows "bench_run_all B T C seed 0 1 [(b, config)] st = None"
  using assms by (simp add: bench_run_all_def and_then_def on_cx_world_def done_with_def exchange_timings_def report_def)

text \<open>A missing argument is reported by the process with rank 0 and undefined in the others.\<close>

lemma bench_main_no_argument:
  assumes "length argv < 2"
  shows "bench_main rc rank n argv S L bcast barrier version s B T C L' a j st = (if rank = 0 then Mpi_abort else Main_undefined)"
  using assms by (simp add: bench_main_def)

end
