(* ===== verification/Store_Sim.thy ===== *)
theory Store_Sim
  imports Client_Sim Copy_Props Cpp_Handles Cpp_Probe Benchmark_Props
begin

text \<open>
  Concrete instances, in the network of \<open>Client_Sim\<close>: a client that stores three bytes, the program
  \<^verbatim>\<open>bake-copy-to\<close>, and the C++ interface.
\<close>

section \<open>The operations of a client\<close>

text \<open>The server is in state \<open>s\<close>, with a persistent memory target; \<open>mem\<close> is the memory of the client.\<close>

definition loop_mem0 :: memory where "loop_mem0 = overlay 512 [1, 2, 3] (\<lambda>_. 0)"

definition loop_serves :: "memory \<Rightarrow> bake_pmem_entry \<Rightarrow> sim pm \<Rightarrow> loop \<Rightarrow> bool" where
  "loop_serves mem e s v \<longleftrightarrow> lp_mem v = mem \<and>
     (\<exists>p. lp_host v = (Some p, s) \<and> pv_ok p \<and> target_context p = [sim_tid \<mapsto> PmemContext e])"

lemma loop_bytes: "loop_serves loop_mem0 e s v \<Longrightarrow> client_load loop_margo 512 3 v = [1, 2, 3]"
  using extent_overlay_prefix [of 3 "[1, 2, 3]" 512 "\<lambda>_. 0"] by (simp add: loop_serves_def loop_margo_simps loop_mem0_def)

lemma loop_step:
  assumes v: "loop_serves mem e s v" and f: "in_fits old (inp (loop_log (Created 1) v))"
    and s: "\<And>p. pv_ok p \<Longrightarrow> target_context p = [sim_tid \<mapsto> PmemContext e] \<Longrightarrow>
      \<exists>p'. serve sim_site 1 [] (\<lambda>_. replicate 16 0) (inp (loop_log (Created 1) v)) (Some p, s) =
        (Some [Respond out, Free_input, Destroy], (Some p', s')) \<and> pv_ok p' \<and> target_context p' = target_context p"
    and o: "out_fits (con blank) out" "sel out = Some x" and rd: "\<And>y. inp (loop_log (Created 1) v) \<noteq> In_read y"
  shows "\<exists>v'. rpc_call loop_margo rpc provider inp con sel blank v = ((Answered x, 1), v') \<and>
    loop_serves mem e s' (rpc_finish loop_margo 1 v')"
proof -
  obtain p where p: "lp_host v = (Some p, s)" "pv_ok p" "target_context p = [sim_tid \<mapsto> PmemContext e]"
    using v by (auto simp: loop_serves_def)
  obtain p' where p': "serve sim_site 1 [] (\<lambda>_. replicate 16 0) (inp (loop_log (Created 1) v)) (lp_host (loop_log (Created 1) v)) =
        (Some [Respond out, Free_input, Destroy], (Some p', s'))" "pv_ok p'" "target_context p' = target_context p"
    using s [OF p(2,3)] p(1) by auto
  obtain v' where "rpc_call loop_margo rpc provider inp con sel blank v = ((Answered x, 1), v')" "lp_host v' = (Some p', s')"
    "lp_mem v' = lp_mem v"
    using loop_call [where outs = "[]" and inp = inp and con = con and sel = sel and blank = blank and v = v
        and rpc = rpc and provider = provider, OF f p'(1) _ o] rd by auto
  then show ?thesis
    using v p' p(3) by (auto simp: rpc_finish_def loop_margo_simps loop_serves_def)
qed

lemma loop_create:
  assumes "loop_serves mem e s v" and "bake_pmem_create sim_env True e n zero_rid s = ((BAKE_SUCCESS, rid), s')" and "wf_rid rid"
  shows "\<exists>v'. bake_create loop_client c ph sim_tid n v = ((BAKE_SUCCESS, Some rid), v') \<and> loop_serves mem e s' v'"
proof -
  let ?x = "\<lparr>cri_bti = sim_tid, cri_region_size = n\<rparr>" and ?o = "rid_out BAKE_SUCCESS rid"
  have s: "\<exists>p'. serve sim_site 1 [] (\<lambda>_. replicate 16 0) (In_create ?x) (Some p, s) =
        (Some [Respond (Out_create ?o), Free_input, Destroy], (Some p', s')) \<and> pv_ok p' \<and> target_context p' = target_context p"
    if "pv_ok p" "target_context p = [sim_tid \<mapsto> PmemContext e]" for p
    using serve_create_pmem [of p ?x e sim_site s BAKE_SUCCESS rid s'] that assms(2) by (simp add: sim_site_def)
  have "\<exists>v'. rpc_call loop_margo (cl_id c bake_create_id) ph (\<lambda>_. In_create ?x) Out_create sel_create (junk_rid loop_client) v =
      ((Answered ?o, 1), v') \<and> loop_serves mem e s' (rpc_finish loop_margo 1 v')"
    by (rule loop_step [where old = "In_create ?x" and inp = "(\<lambda>_. In_create ?x)", OF assms(1) _ s])
      (use demo_ids assms(3) in \<open>simp_all add: in_fits.simps out_fits.simps rid_out_fits_def rid_out_def junk_rid_def
        loop_client_def bake_err_defs zero_rid_def wf_rid_def BAKE_REGION_ID_DATA_SIZE_def\<close>)
  then show ?thesis by (auto simp: bake_create_def loop_client_def answer_rid_def rid_out_def rpc_roundtrip_def)
qed

lemma loop_eager_write:
  assumes "loop_serves loop_mem0 e s v" and "bake_pmem_write_raw sim_env True rid 0 3 [1, 2, 3] s = (BAKE_SUCCESS, s')"
    and "wf_rid rid" and "3 \<le> ph_eager_limit ph"
  shows "\<exists>v'. bake_write loop_client c ph sim_tid rid 0 512 3 v = (BAKE_SUCCESS, v') \<and> loop_serves loop_mem0 e s' v'"
proof -
  let ?x = "\<lparr>ewi_bti = sim_tid, ewi_rid = rid, ewi_region_offset = 0, ewi_size = 3, ewi_buffer = [1, 2, 3]\<rparr>"
  let ?inp = "\<lambda>v. In_eager_write \<lparr>ewi_bti = sim_tid, ewi_rid = rid, ewi_region_offset = 0, ewi_size = 3,
      ewi_buffer = client_load loop_margo 512 (unat (3 :: u64)) v\<rparr>"
  have i: "?inp (loop_log (Created 1) v) = In_eager_write ?x" using loop_bytes [OF assms(1)] by (simp add: loop_margo_simps)
  have s: "\<exists>p'. serve sim_site 1 [] (\<lambda>_. replicate 16 0) (?inp (loop_log (Created 1) v)) (Some p, s) =
        (Some [Respond (Out_eager_write (ret_out BAKE_SUCCESS)), Free_input, Destroy], (Some p', s')) \<and> pv_ok p' \<and>
        target_context p' = target_context p"
    if "pv_ok p" "target_context p = [sim_tid \<mapsto> PmemContext e]" for p
    unfolding i using serve_eager_write [of p ?x "PmemContext e" sim_site s BAKE_SUCCESS s'] that assms(2)
    by (simp add: sim_site_def)
  have f: "in_fits (loop_blank (In_eager_write ?x)) (?inp (loop_log (Created 1) v))"
    unfolding i using demo_ids assms(3) by (simp add: in_fits.simps)
  have "\<exists>v'. rpc_call loop_margo (cl_id c bake_eager_write_id) ph ?inp Out_eager_write sel_eager_write (junk_ret loop_client) v =
      ((Answered (ret_out BAKE_SUCCESS), 1), v') \<and> loop_serves loop_mem0 e s' (rpc_finish loop_margo 1 v')"
    by (rule loop_step [where inp = ?inp, OF assms(1) f s]) (simp_all add: out_fits.simps ret_out_def bake_err_defs)
  then show ?thesis
    using assms(4) by (auto simp: bake_write_def bake_eager_write_def loop_client_def ret_out_def)
qed

lemma loop_persist:
  assumes "loop_serves mem e s v" and "bake_pmem_persist sim_env True rid 0 n s = (BAKE_SUCCESS, s')" and "wf_rid rid"
  shows "\<exists>v'. bake_persist loop_client c ph sim_tid rid 0 n v = (BAKE_SUCCESS, v') \<and> loop_serves mem e s' v'"
proof -
  let ?x = "\<lparr>xi_bti = sim_tid, xi_rid = rid, xi_offset = 0, xi_size = n\<rparr>"
  have s: "\<exists>p'. serve sim_site 1 [] (\<lambda>_. replicate 16 0) (In_persist ?x) (Some p, s) =
        (Some [Respond (Out_persist (ret_out BAKE_SUCCESS)), Free_input, Destroy], (Some p', s')) \<and> pv_ok p' \<and>
        target_context p' = target_context p"
    if "pv_ok p" "target_context p = [sim_tid \<mapsto> PmemContext e]" for p
    using serve_persist_pmem [of p ?x e sim_site s BAKE_SUCCESS s'] that assms(2) by (simp add: sim_site_def)
  have "\<exists>v'. rpc_call loop_margo (cl_id c bake_persist_id) ph (\<lambda>_. In_persist ?x) Out_persist sel_persist (junk_ret loop_client) v =
      ((Answered (ret_out BAKE_SUCCESS), 1), v') \<and> loop_serves mem e s' (rpc_finish loop_margo 1 v')"
    by (rule loop_step [where old = "In_persist ?x" and inp = "(\<lambda>_. In_persist ?x)", OF assms(1) _ s]) (use demo_ids assms(3) in \<open>simp_all add: in_fits.simps out_fits.simps ret_out_def bake_err_defs\<close>)
  then show ?thesis by (auto simp: bake_persist_def loop_client_def answer_code_def ret_out_def rpc_roundtrip_def)
qed

lemma loop_get_size:
  assumes "loop_serves mem e s v" and "bake_pmem_get_region_size sim_env True rid s = (BAKE_SUCCESS, Some n)" and "wf_rid rid"
  shows "\<exists>v'. bake_get_size loop_client c ph sim_tid rid v = ((BAKE_SUCCESS, Some n), v') \<and> loop_serves mem e s v'"
proof -
  let ?x = "\<lparr>ri_bti = sim_tid, ri_rid = rid\<rparr>" and ?o = "word_out BAKE_SUCCESS (Some n)"
  have s: "\<exists>p'. serve sim_site 1 [] (\<lambda>_. replicate 16 0) (In_get_size ?x) (Some p, s) =
        (Some [Respond (Out_get_size ?o), Free_input, Destroy], (Some p', s)) \<and> pv_ok p' \<and> target_context p' = target_context p"
    if "pv_ok p" "target_context p = [sim_tid \<mapsto> PmemContext e]" for p
    using serve_get_size_pmem [of p ?x e sim_site s BAKE_SUCCESS "Some n"] that assms(2) by (simp add: sim_site_def)
  have "\<exists>v'. rpc_call loop_margo (cl_id c bake_get_size_id) ph (\<lambda>_. In_get_size ?x) Out_get_size sel_get_size (junk_word loop_client) v =
      ((Answered ?o, 1), v') \<and> loop_serves mem e s (rpc_finish loop_margo 1 v')"
    by (rule loop_step [where old = "In_get_size ?x" and inp = "(\<lambda>_. In_get_size ?x)", OF assms(1) _ s]) (use demo_ids assms(3) in \<open>simp_all add: in_fits.simps out_fits.simps word_out_def bake_err_defs\<close>)
  then show ?thesis by (auto simp: bake_get_size_def loop_client_def answer_code_def word_out_def rpc_roundtrip_def)
qed

section \<open>Storing three bytes\<close>

definition loop_rid :: bake_region_id where
  "loop_rid = zero_rid\<lparr>rid_data := le_bytes 8 (1 :: u64) @ le_bytes 8 (4096 :: u64)\<rparr>"

lemma loop_rid_facts: "wf_rid loop_rid" "pmemobj_direct sim_env (prid_oid loop_rid) w = 4096"
  by (simp_all add: loop_rid_def wf_rid_def BAKE_REGION_ID_DATA_SIZE_def prid_oid_def sim_env_def)

lemma sim_alloc_ok: "alloc_ok sim_env"
proof -
  have "unat (of_nat k :: u64) = k" "(of_nat k :: u64) \<noteq> 0" if "0 < k" "k + n < 2 ^ 63" for k n
  proof -
    show "unat (of_nat k :: u64) = k" using that by (simp add: unat_of_nat take_bit_nat_eq_self)
    then show "(of_nat k :: u64) \<noteq> 0" using that by (metis neq0_conv unat_0)
  qed
  then show ?thesis by (auto simp: alloc_ok_def sim_env_def)
qed

lemma sim_store:
  "\<exists>m1 w1 m2 w2. bake_pmem_create sim_env True e 3 zero_rid (m, sim0) = ((BAKE_SUCCESS, loop_rid), (m1, w1)) \<and>
    bake_pmem_write_raw sim_env True loop_rid 0 3 [1, 2, 3] (m1, w1) = (BAKE_SUCCESS, (m2, w1)) \<and>
    bake_pmem_persist sim_env True loop_rid 0 3 (m2, w1) = (BAKE_SUCCESS, (m2, w2)) \<and>
    bake_pmem_get_region_size sim_env True loop_rid (m2, w2) = (BAKE_SUCCESS, Some 3)"
proof -
  let ?m1 = "set_region_size 4096 3 m"
  let ?m2 = "overlay 4104 [1, 2, 3] ?m1"
  have rs: "region_size 4096 ?m1 = 3" "region_size 4096 ?m2 = 3"
    using region_size_overlay [of 4096 4104 "[1, 2, 3]" ?m1] by (simp_all add: region_size_set)
  have "\<exists>w1. bake_pmem_create sim_env True e 3 zero_rid (m, sim0) = ((BAKE_SUCCESS, loop_rid), (?m1, w1))"
    using loop_rid_facts(2)
    by (simp add: bake_pmem_create_def loop_rid_def Let_def) (simp add: sim_env_def sim0_def prid_oid_def Let_def)
  then obtain w1 where w1: "bake_pmem_create sim_env True e 3 zero_rid (m, sim0) = ((BAKE_SUCCESS, loop_rid), (?m1, w1))" by blast
  have d: "unat (region_data True 4096) = 4104" using unat_data_ptr [of 4096 0 True] by (simp add: data_at_def)
  have "bake_pmem_write_raw sim_env True loop_rid 0 3 [1, 2, 3] (?m1, w1) = (BAKE_SUCCESS, (?m2, w1))"
    using rs(1) d by (simp add: bake_pmem_write_raw_def loop_rid_facts Let_def)
  moreover have "\<exists>w2. bake_pmem_persist sim_env True loop_rid 0 3 (?m2, w1) = (BAKE_SUCCESS, (?m2, w2))"
    by (simp add: bake_pmem_persist_def loop_rid_facts Let_def)
  moreover have "bake_pmem_get_region_size sim_env True loop_rid (?m2, w) = (BAKE_SUCCESS, Some 3)" for w
    using rs(2) by (simp add: bake_pmem_get_region_size_def loop_rid_facts Let_def)
  ultimately show ?thesis using w1 by blast
qed

lemma loop_start_serves:
  assumes "pv_ok p" and "target_context p = [sim_tid \<mapsto> PmemContext e]"
  shows "loop_serves loop_mem0 e (demo_memory, sim0) (loop_start p)"
  using assms by (simp add: loop_serves_def loop_start_def loop_mem0_def)

lemma sim_poolset: "0 < unat (poolset_get_max (st_env sim_site) w) \<and> unat (3 :: u64) + unat (poolset_get_max (st_env sim_site) w) < 2 ^ 64"
  by (simp add: sim_site_def sim_env_def)

lemma loop_laws:
  "cs_margo loop_client = loop_margo" "wf_rid (cs_junk_rid loop_client)" "alloc_ok (st_env sim_site)"
  "persist_ok (st_env sim_site) sim_durable"
  using sim_alloc_ok sim_persist_ok
  by (simp_all add: loop_client_def sim_site_def zero_rid_def wf_rid_def BAKE_REGION_ID_DATA_SIZE_def)

theorem client_store_durable_witness:
  "\<exists>p v1 v2 v3 p' m' w' d. bake_create loop_client loop_ids loop_handle sim_tid 3 (loop_start p) = ((BAKE_SUCCESS, Some loop_rid), v1) \<and>
    bake_write loop_client loop_ids loop_handle sim_tid loop_rid 0 512 3 v1 = (BAKE_SUCCESS, v2) \<and>
    bake_persist loop_client loop_ids loop_handle sim_tid loop_rid 0 3 v2 = (BAKE_SUCCESS, v3) \<and>
    lp_host v3 = (Some p', (m', w')) \<and> bake_pmem_get_region_data sim_env True loop_rid (m', w') = (BAKE_SUCCESS, Some d) \<and>
    extent (unat d) 3 (sim_durable w') = [1, 2, 3]"
proof -
  obtain p :: "jv bake_provider" and e where p: "pv_ok p" "target_context p = [sim_tid \<mapsto> PmemContext e]" using sim_attach by blast
  obtain m1 w1 m2 w2 where s: "bake_pmem_create sim_env True e 3 zero_rid (demo_memory, sim0) = ((BAKE_SUCCESS, loop_rid), (m1, w1))"
    "bake_pmem_write_raw sim_env True loop_rid 0 3 [1, 2, 3] (m1, w1) = (BAKE_SUCCESS, (m2, w1))"
    "bake_pmem_persist sim_env True loop_rid 0 3 (m2, w1) = (BAKE_SUCCESS, (m2, w2))"
    using sim_store by metis
  have lim: "3 \<le> ph_eager_limit loop_handle" by (simp add: loop_handle_def BAKE_DEFAULT_EAGER_LIMIT_def word_le_nat_alt)
  obtain v1 where v1: "bake_create loop_client loop_ids loop_handle sim_tid 3 (loop_start p) = ((BAKE_SUCCESS, Some loop_rid), v1)"
    "loop_serves loop_mem0 e (m1, w1) v1" using loop_create [OF loop_start_serves [OF p] s(1) loop_rid_facts(1)] by blast
  obtain v2 where v2: "bake_write loop_client loop_ids loop_handle sim_tid loop_rid 0 512 3 v1 = (BAKE_SUCCESS, v2)"
    "loop_serves loop_mem0 e (m2, w1) v2" using loop_eager_write [OF v1(2) s(2) loop_rid_facts(1) lim] by blast
  obtain v3 where v3: "bake_persist loop_client loop_ids loop_handle sim_tid loop_rid 0 3 v2 = (BAKE_SUCCESS, v3)"
    using loop_persist [OF v2(2) s(3) loop_rid_facts(1)] by blast
  have h: "lp_host (loop_start p) = (Some p, (demo_memory, sim0))" "target_context p sim_tid = Some (PmemContext e)"
    using p(2) by (simp_all add: loop_start_def)
  have n: "(0 :: u64) < 3" "unat (3 :: u64) + 8 < 2 ^ 64" by simp_all
  note r = client_store_durable [OF loop_net_ok loop_laws(1,2) loop_bulk_exposes sim_hg_codes loop_laws(3,4) h(1) p(1) h(2)
      demo_ids(1) n sim_poolset v1(1) v2(1) v3]
  then obtain p' m' w' d where "lp_host v3 = (Some p', (m', w'))"
    "bake_pmem_get_region_data sim_env True loop_rid (m', w') = (BAKE_SUCCESS, Some d)" "extent (unat d) 3 (sim_durable w') = [1, 2, 3]"
    using loop_bytes [OF v1(2)] by (auto simp: sim_site_def)
  then show ?thesis using v1(1) v2(1) v3 by blast
qed

section \<open>bake-copy-to\<close>

definition loop_os :: "loop os" where
  "loop_os =
    \<lparr>margo_init = (\<lambda>a srv v. (True, v)), margo_finalize = (\<lambda>v. v), margo_enable_remote_shutdown = (\<lambda>v. v),
     margo_wait_for_finalize = (\<lambda>v. v), file_read = (\<lambda>n v. (None, v)), file_write = (\<lambda>n d v. (True, v)),
     os_open = (\<lambda>n v. (3, v)), os_create = (\<lambda>n v. (4, v)), os_close = (\<lambda>fd v. v), os_ftruncate = (\<lambda>fd n v. (0, v)),
     os_mmap = (\<lambda>fd n v. (Some (if fd = 4 then 1024 else 512), v)), os_munmap = (\<lambda>p n v. v),
     os_read = (\<lambda>fd n v. (if n = 16 then (16, sim_tid) else (20, rid_image loop_rid), v)),
     os_write = (\<lambda>fd d v. (int (length d), v)), os_mkstemp = (\<lambda>n v. ((5, n), v))\<rparr>"

definition loop_argv :: "cstring list" where
  "loop_argv = [str ''bake-copy-to'', str ''/f'', str ''na+sm://1'', str ''1'', str ''1'']"

lemma loop_local: "memory_kept loop_margo" "os_local loop_os lp_host" "margo_local loop_os loop_margo lp_host"
proof -
  have "lp_mem v' = lp_mem v" if "loop_forward pid h x v = (r, v')" "\<not> carries_bulk x" for pid h x v r v'
  proof -
    have "loop_write_back x v0 = v0" for v0 using that(2) by (intro loop_write_back_other) auto
    then show ?thesis using that(1) by (auto simp: loop_forward_def Let_def split: prod.splits if_splits option.splits list.splits)
  qed
  moreover have "lp_mem v' = lp_mem v" if "loop_get_output h old v = (r, v')" for h old v r v'
    using that by (auto simp: loop_get_output_def split: prod.splits option.splits)
  ultimately show "memory_kept loop_margo" unfolding memory_kept_def loop_margo_simps by metis
qed (simp_all add: os_local_def loop_os_def margo_local_def loop_margo_def)

lemma loop_probe:
  assumes "loop_serves mem e s v" and "lp_host v = (Some p, s)" and "lists_targets [sim_tid] p"
  shows "\<exists>v'. bake_probe loop_client c ph 1 False v = ((BAKE_SUCCESS, Some 1, [sim_tid]), v') \<and> loop_serves mem e s v'"
proof -
  let ?o = "\<lparr>po_ret = BAKE_SUCCESS, po_num_targets = pv_num_targets p, po_targets = [sim_tid]\<rparr>"
  let ?blank = "\<lparr>po_ret = cs_junk_ret loop_client, po_num_targets = cs_junk_word loop_client, po_targets = []\<rparr>"
  let ?inp = "\<lambda>_ :: loop. In_probe \<lparr>pri_max_targets = 1\<rparr>"
  obtain p' where p': "serve sim_site 1 [] (\<lambda>_. replicate 16 0) (?inp (loop_log (Created 1) v)) (lp_host (loop_log (Created 1) v)) =
      (Some [Respond (Out_probe ?o), Destroy], (Some p', s))" "pv_ok p' = pv_ok p" "target_context p' = target_context p"
    using serve_probe [OF assms(3), of sim_site 1 "[]" "\<lambda>_. replicate 16 0" "\<lparr>pri_max_targets = 1\<rparr>" s] assms(2) by auto
  have f: "in_fits (In_probe \<lparr>pri_max_targets = 1\<rparr>) (?inp (loop_log (Created 1) v))" by (simp add: in_fits.simps)
  have f2: "out_fits (Out_probe ?blank) (Out_probe ?o)"
    using assms(3) by (simp add: out_fits.simps lists_targets_def targets_ok_def bake_err_defs)
  obtain v' where "rpc_call loop_margo (cl_id c bake_probe_id) ph ?inp Out_probe sel_probe ?blank v = ((Answered ?o, 1), v')"
    "lp_host v' = (Some p', s)" "lp_mem v' = lp_mem v"
    using loop_call [where outs = "[]" and inp = ?inp and con = Out_probe and sel = sel_probe and blank = ?blank and v = v and x = ?o
        and rpc = "cl_id c bake_probe_id" and provider = ph, OF f p'(1) _ f2]
    by auto
  moreover have "unat (pv_num_targets p) = 1" using assms(3) by (simp add: lists_targets_def)
  then have "pv_num_targets p = 1" by (metis unat_1 word_unat_eq_iff)
  ultimately show ?thesis
    using assms(1,2) p'(2,3)
    by (auto simp: bake_probe_def loop_client_def Let_def HG_SUCCESS_def BAKE_SUCCESS_def rpc_finish_def loop_margo_simps loop_serves_def)
qed

text \<open>The heap of the client after connecting, with the client at address 1 and the handle at address 2.\<close>

definition loop_heap0 :: client_heap where
  "loop_heap0 = \<lparr>hp_clients = (\<lambda>_. None), hp_handles = (\<lambda>_. None), hp_brk = 1\<rparr>"

lemma loop_client_init:
  "\<exists>c. bake_client_init loop_client (loop_heap0, v) =
      ((BAKE_SUCCESS, Some 1), (loop_heap0\<lparr>hp_clients := (\<lambda>_. None)(1 := Some c), hp_brk := 2\<rparr>, v))"
  by (auto simp: bake_client_init_def loop_client_def bake_client_register_def loop_margo_def loop_heap0_def case_prod_unfold Let_def
      client_rpcs_def)

lemma loop_connect:
  "\<exists>hp c ph. connect loop_os loop_client a pid (loop_heap0, v) = Some (Some (2, 1, 5), (hp, v)) \<and>
    hp_handles hp 2 = Some ph \<and> ph_client ph = 1 \<and> hp_clients hp 1 = Some c \<and> ph_refcount ph = 1 \<and> 3 \<le> ph_eager_limit ph"
proof -
  obtain c where "bake_client_init loop_client (loop_heap0, v) =
      ((BAKE_SUCCESS, Some 1), (loop_heap0\<lparr>hp_clients := (\<lambda>_. None)(1 := Some c), hp_brk := 2\<rparr>, v))"
    using loop_client_init by blast
  then show ?thesis
    by (simp add: connect_def loop_os_def Let_def bake_provider_handle_create_def loop_client_def loop_margo_def loop_heap0_def
        HG_SUCCESS_def BAKE_CLIENT_NULL_def BAKE_DEFAULT_EAGER_LIMIT_def word_le_nat_alt)
qed

lemma loop_hang_up:
  assumes "hp_handles hp 2 = Some ph" and "ph_client ph = 1" and "hp_clients hp 1 = Some c" and "ph_refcount ph = 1"
  shows "\<exists>hp'. hang_up loop_os loop_client 2 1 5 (hp, v) = Some (hp', v)"
  using assms by (simp add: hang_up_def close_session_def finalize_client_def bake_provider_handle_release_def
      bake_client_finalize_def BAKE_PROVIDER_HANDLE_NULL_def Let_def on_world2_def)
    (simp add: loop_os_def loop_client_def loop_margo_def)

lemma loop_copy_to_store:
  assumes v: "loop_serves loop_mem0 e (m, sim0) v" "lp_host v = (Some p, (m, sim0))" "lists_targets [sim_tid] p"
    and hp: "hp_handles hp 2 = Some ph" "ph_client ph = 1" "hp_clients hp 1 = Some c" "ph_refcount ph = 1" "3 \<le> ph_eager_limit ph"
  shows "\<exists>st m2 w2. copy_to_store loop_os loop_client True 2 1 5 1 512 3 3 (hp, v) = Some (Inr (sim_tid, loop_rid), st) \<and>
    loop_serves loop_mem0 e (m2, w2) (snd st) \<and> bake_pmem_get_region_size sim_env True loop_rid (m2, w2) = (BAKE_SUCCESS, Some 3)"
proof -
  obtain m1 w1 m2 w2 where s: "bake_pmem_create sim_env True e 3 zero_rid (m, sim0) = ((BAKE_SUCCESS, loop_rid), (m1, w1))"
    "bake_pmem_write_raw sim_env True loop_rid 0 3 [1, 2, 3] (m1, w1) = (BAKE_SUCCESS, (m2, w1))"
    "bake_pmem_persist sim_env True loop_rid 0 3 (m2, w1) = (BAKE_SUCCESS, (m2, w2))"
    "bake_pmem_get_region_size sim_env True loop_rid (m2, w2) = (BAKE_SUCCESS, Some 3)"
    using sim_store by metis
  note rid = loop_rid_facts(1)
  obtain v0 where v0: "bake_probe loop_client c ph 1 False v = ((0, Some 1, [sim_tid]), v0)" "loop_serves loop_mem0 e (m, sim0) v0"
    using loop_probe [OF v] unfolding BAKE_SUCCESS_def by blast
  obtain v1 where v1: "bake_create loop_client c ph sim_tid 3 v0 = ((0, Some loop_rid), v1)" "loop_serves loop_mem0 e (m1, w1) v1"
    using loop_create [OF v0(2) s(1) rid] unfolding BAKE_SUCCESS_def by blast
  obtain v2 where v2: "bake_write loop_client c ph sim_tid loop_rid 0 512 3 v1 = (0, v2)" "loop_serves loop_mem0 e (m2, w1) v2"
    using loop_eager_write [OF v1(2) s(2) rid hp(5)] unfolding BAKE_SUCCESS_def by blast
  obtain v3 where v3: "bake_persist loop_client c ph sim_tid loop_rid 0 3 v2 = (0, v3)" "loop_serves loop_mem0 e (m2, w2) v3"
    using loop_persist [OF v2(2) s(3) rid] unfolding BAKE_SUCCESS_def by blast
  obtain v4 where v4: "bake_get_size loop_client c ph sim_tid loop_rid v3 = ((0, Some 3), v4)" "loop_serves loop_mem0 e (m2, w2) v4"
    using loop_get_size [OF v3(2) s(4) rid] unfolding BAKE_SUCCESS_def by blast
  have "\<exists>hp'. hang_up loop_os loop_client 2 1 5 (hp, v4) = Some (hp', v4)" using loop_hang_up [OF hp(1-4)] .
  moreover have "os_close loop_os fd v = v" "os_munmap loop_os q n v = v" for fd v q n by (simp_all add: loop_os_def)
  ultimately show ?thesis
    using v0(1) v1(1) v2(1) v3(1) v4 s(4) hp by (auto simp: copy_to_store_def handle_objects_def unmap_file_def on_world2_def Let_def)
qed

theorem copy_to_stores_file_witness:
  "\<exists>p st rid p' m' w' d. copy_to loop_os loop_client True loop_argv (loop_heap0, loop_start p) = Some (0, st) \<and>
    lp_host (snd st) = (Some p', (m', w')) \<and> bake_pmem_get_region_data sim_env True rid (m', w') = (BAKE_SUCCESS, Some d) \<and>
    extent (unat d) 3 (sim_durable w') = [1, 2, 3]"
proof -
  obtain p :: "jv bake_provider" and e where p: "pv_ok p" "target_context p = [sim_tid \<mapsto> PmemContext e]"
    "target_ids p = [sim_tid]" "pv_num_targets p = 1" using sim_attach by blast
  have l: "lists_targets [sim_tid] p" using p(3,4) demo_ids(1) by (simp add: lists_targets_def)
  note v = loop_start_serves [OF p(1,2)]
  have h: "lp_host (loop_start p) = (Some p, (demo_memory, sim0))" by (simp add: loop_start_def)
  obtain hp c ph where cn: "connect loop_os loop_client (str ''na+sm://1'') (str ''1'') (loop_heap0, loop_start p) =
      Some (Some (2, 1, 5), (hp, loop_start p))"
    "hp_handles hp 2 = Some ph" "ph_client ph = 1" "hp_clients hp 1 = Some c" "ph_refcount ph = 1" "3 \<le> ph_eager_limit ph"
    using loop_connect by blast
  obtain hp4 v4 where st: "copy_to_store loop_os loop_client True 2 1 5 1 512 3 3 (hp, loop_start p) = Some (Inr (sim_tid, loop_rid), (hp4, v4))"
    using loop_copy_to_store [OF v h l cn(2-6)] by (metis surj_pair)
  have one: "of_int (c_atoi (str ''1'')) = (1 :: u32)" by (simp add: bytes_of_string_def) code_simp
  have os: "os_open loop_os n v = (3, v)" "os_mmap loop_os 3 k v = (Some 512, v)" "fstat_size loop_margo fd v = (0, 3)" for n v fd k
    by (simp_all add: loop_os_def loop_margo_def)
  have run: "copy_to loop_os loop_client True loop_argv (loop_heap0, loop_start p) =
      Some (0, (hp4, copy_to_save loop_os sim_tid loop_rid v4))"
    using cn(1) st by (simp add: copy_to_def loop_argv_def one os Let_def loop_laws(1) on_world2_def)
  have n: "(0 :: u64) < 3" "unat (3 :: u64) + 8 < 2 ^ 64" by simp_all
  have t: "lists_targets (target_ids p) p" "\<And>t. t \<in> set (target_ids p) \<Longrightarrow> \<exists>e. target_context p t = Some (PmemContext e)"
    using l p(2,3) by simp_all
  from copy_to_stores_file [OF loop_net_ok loop_laws(1,2) loop_bulk_exposes sim_hg_codes loop_laws(3,4) loop_local h p(1) t n sim_poolset
      os(1) os(3) os(2) run]
  obtain rid p' m' w' d where "lp_host (copy_to_save loop_os sim_tid loop_rid v4) = (Some p', (m', w'))"
    "bake_pmem_get_region_data sim_env True rid (m', w') = (BAKE_SUCCESS, Some d)" "extent (unat d) 3 (sim_durable w') = [1, 2, 3]"
    using loop_bytes [OF v] by (auto simp: sim_site_def)
  then show ?thesis using run by (metis snd_conv)
qed

section \<open>The C++ interface\<close>

definition cpp_start :: "loop cpp" where
  "cpp_start = (let (_, (hp, v)) = bake_client_init loop_client (loop_heap0, loop_start sim_provider)
     in \<lparr>cx_heap = hp, cx_world = v, cx_clients = (\<lambda>_. None), cx_handles = (\<lambda>_. None)\<rparr>)"

definition cpp_demo :: "handle_stmt list" where
  "cpp_demo = [Cx_construct 1 5 1, Cx_copy 2 1, Cx_default 3, Cx_assign Temporary 3 2, Cx_destroy 1]"

theorem cpp_handles_counted_witness:
  "case exec_program loop_client \<lparr>m_client = 1, m_owns_client = True\<rparr> cpp_demo cpp_start of
     Runs st \<Rightarrow> \<forall>h p. hp_handles (cx_heap st) h = Some p \<longrightarrow> ph_refcount p = of_nat (card {x. cx_handles st x = Some h})
   | Not_legal \<Rightarrow> False
   | Undefined \<Rightarrow> False"
proof -
  let ?v = "loop_start sim_provider"
  obtain hp c where i: "bake_client_init loop_client (loop_heap0, ?v) = ((BAKE_SUCCESS, Some 1), (hp, ?v))"
    and hp: "hp = loop_heap0\<lparr>hp_clients := (\<lambda>_. None)(1 := Some c), hp_brk := 2\<rparr>"
    using loop_client_init by blast
  have st: "cpp_start = \<lparr>cx_heap = hp, cx_world = ?v, cx_clients = (\<lambda>_. None), cx_handles = (\<lambda>_. None)\<rparr>"
    by (simp add: cpp_start_def i)
  have "length cpp_demo < 2 ^ 64 - 1" "hp_handles loop_heap0 = (\<lambda>_. None)" "0 < hp_brk loop_heap0"
    by (simp_all add: cpp_demo_def loop_heap0_def)
  note r = cpp_handles_counted [OF i this(2,3), of "\<lparr>m_client = 1, m_owns_client = True\<rparr>" cpp_demo "\<lambda>_. None", OF _ this(1), folded st]
  have "exec_program loop_client \<lparr>m_client = 1, m_owns_client = True\<rparr> cpp_demo cpp_start \<noteq> Not_legal"
    by (simp add: cpp_demo_def st stmt_legal_def handle_construct_def bake_provider_handle_create_def hp BAKE_CLIENT_NULL_def Let_def
        handle_copy_def handle_default_def handle_assign_def handle_copy_assign_def set_handle_def CHECK_RET_def
        bake_provider_handle_ref_incr_def bake_provider_handle_release_def update_handle_def handle_drop_def handle_destroy_def
        BAKE_PROVIDER_HANDLE_NULL_def
        loop_client_def loop_margo_def HG_SUCCESS_def)
  then show ?thesis using r by (auto split: program_end.splits)
qed

theorem cpp_probe_complete_witness:
  "\<exists>p hp r v'. target_ids p = [sim_tid] \<and> client_probe loop_client hp 2 0 (loop_start p) = Some (r, v') \<and>
    (r = Inr [sim_tid] \<or> r = Inl (exception BAKE_ERR_MERCURY))"
proof -
  obtain p :: "jv bake_provider" where p: "target_ids p = [sim_tid]" "pv_num_targets p = 1" using sim_attach by blast
  let ?hp = "loop_heap0\<lparr>hp_clients := [1 \<mapsto> loop_ids], hp_handles := [2 \<mapsto> loop_handle]\<rparr>"
  have h: "lp_host (loop_start p) = (Some p, (demo_memory, sim0))" by (simp add: loop_start_def)
  have c: "length (target_ids p) \<le> unat (pv_num_targets p)" "\<forall>t \<in> set (target_ids p). tid_ok t" "unat (pv_num_targets p) < 2 ^ 32"
    "hp_handles ?hp 2 = Some loop_handle" "hp_clients ?hp (ph_client loop_handle) = Some loop_ids"
    using p demo_ids(1) by (simp_all add: loop_handle_def)
  have "unat (pv_num_targets p) = length (target_ids p)" using p by simp
  with cpp_probe_complete [OF loop_net_ok loop_laws(1) h c] show ?thesis using p(1) by metis
qed

section \<open>A benchmark\<close>

text \<open>Two writes of three bytes each; the buffer of the benchmark is at address 2048.\<close>

definition loop_bench_env :: "loop bench_env" where
  "loop_bench_env = \<lparr>bench_rand = (\<lambda>v. (4, v)), bench_srand = (\<lambda>s v. v), bench_new = (\<lambda>n v. (Some 2048, v)),
     bench_delete = (\<lambda>p v. v), bench_barrier = (\<lambda>v. v), bench_checked = True\<rparr>"

definition loop_bench :: bench where
  "loop_bench = \<lparr>b_class = Write_benchmark, b_ph = 1, b_target = sim_tid, m_num_entries = 2, m_region_size_range = (3, 4),
     m_erase_on_teardown = True, m_reuse_buffer = False, m_reuse_region = True, m_preregister_bulk = False, m_sizes = [],
     m_region_ids = [], m_data = 0, m_bulk = 0\<rparr>"

theorem write_benchmark_in_bounds_witness:
  "\<exists>st b' st'. setup_write loop_bench_env loop_client loop_bench st = Some (Inr b', st') \<and> m_sizes b' = [3, 3] \<and>
    (\<exists>R D. execute_write loop_client b' =
      and_then (checked_writes loop_client b' loop_rid R D 0 0 [3, 3]) (\<lambda>_. done_with b'))"
proof -
  obtain p :: "jv bake_provider" and e where p: "pv_ok p" "target_context p = [sim_tid \<mapsto> PmemContext e]" using sim_attach by blast
  let ?hp = "loop_heap0\<lparr>hp_clients := [1 \<mapsto> loop_ids], hp_handles := [2 \<mapsto> loop_handle]\<rparr>"
  let ?st = "\<lambda>v. \<lparr>cx_heap = ?hp, cx_world = v, cx_clients = (\<lambda>_. None), cx_handles = [1 \<mapsto> 2]\<rparr>"
  let ?v = "loop_start p" and ?b = "loop_bench\<lparr>m_sizes := [3, 3], m_data := 2048, m_region_ids := [loop_rid]\<rparr>"
  have d: "draw_sizes loop_bench_env loop_bench (?st ?v) = Some (Inr [3, 3], ?st ?v)"
    by (simp add: draw_sizes_def loop_bench_def draw_size_def loop_bench_env_def on_cx_world_def and_then_def done_with_def upt_rec)
  have sp: "space_for False [3, 3] = 6" "space_for True [3, 3] = 3" by (simp_all add: space_for_def)
  let ?v1 = "client_store loop_margo 2048 (fill_pattern 6) ?v"
  have n: "new_data loop_bench_env loop_client True 6 (?st ?v) = Some (Inr 2048, ?st ?v1)"
    by (simp add: new_data_def loop_bench_env_def on_cx_world_def and_then_def loop_client_def)
  obtain s' where s': "bake_pmem_create sim_env True e 3 zero_rid (demo_memory, sim0) = ((BAKE_SUCCESS, loop_rid), s')"
    using sim_store by (metis surj_pair)
  have "loop_serves (overlay 2048 (fill_pattern 6) loop_mem0) e (demo_memory, sim0) ?v1"
    using loop_start_serves [OF p] by (simp add: loop_serves_def loop_margo_simps)
  from loop_create [OF this s' loop_rid_facts(1)] obtain v2 where
    "bake_create loop_client loop_ids loop_handle sim_tid 3 ?v1 = ((BAKE_SUCCESS, Some loop_rid), v2)" by blast
  then have c: "call_region 1 (\<lambda>hp h. client_create loop_client hp h sim_tid 3) (?st ?v1) = Some (Inr loop_rid, ?st v2)"
    by (simp add: call_region_def call_def client_create_def on_handle_def yields_def and_then_def loop_handle_def)
  have run: "setup_write loop_bench_env loop_client loop_bench (?st ?v) = Some (Inr ?b, ?st v2)"
    using d n c by (simp add: setup_write_def and_then_def sp loop_bench_def preregister_def done_with_def)
  obtain b' where b': "b' = ?b" by blast
  have m: "m_sizes b' = [3, 3]" "m_region_ids b' = [loop_rid]" by (simp_all add: b')
  have "fst (m_region_size_range loop_bench) < snd (m_region_size_range loop_bench)" "sum_list (map unat (m_sizes b')) < 2 ^ 64"
    by (simp_all add: loop_bench_def m(1))
  note r = write_benchmark_in_bounds [OF run [folded b'] this, THEN conjunct2, THEN conjunct2]
  obtain R D rid where x: "[loop_rid] = [rid]"
    "execute_write loop_client b' = and_then (checked_writes loop_client b' rid R D 0 0 [3, 3]) (\<lambda>_. done_with b')"
    using r unfolding m by blast
  then show ?thesis using run [folded b'] m(1) by blast
qed

end
