(* ===== verification/Client_Load.thy ===== *)
theory Client_Load
  imports Client_Store
begin

text \<open>
  Reading data back: what a successful \<open>bake_read\<close> leaves in the buffer of the client, eager or through
  a bulk handle into which the server pushes.
\<close>

section \<open>Memory that is shared through a bulk handle\<close>

text \<open>
  \<open>shared b ptr n v\<close>: in the state \<open>v\<close> the bulk handle \<open>b\<close> gives access to the \<open>n\<close> bytes at \<open>ptr\<close>. A handle
  that has just been created does, and it goes on to do so during a read request that names it. What
  the server sees through the handle are then the bytes in the memory of the client. Freeing the handle
  leaves the memory alone.
\<close>

definition bulk_shares ::
  "'v client_site \<Rightarrow> ('w, 'j) site \<Rightarrow> ('v \<Rightarrow> ('w, 'j) host) \<Rightarrow> (hg_bulk \<Rightarrow> 'w \<Rightarrow> nat \<Rightarrow> byte) \<Rightarrow>
     (hg_bulk \<Rightarrow> u64 \<Rightarrow> u64 \<Rightarrow> 'v \<Rightarrow> bool) \<Rightarrow> bool" where
  "bulk_shares C S host rb shared \<longleftrightarrow>
    (\<forall>ptr n v b v'. bulk_create (cs_env C) ptr n v = ((HG_SUCCESS, b), v') \<longrightarrow> shared b ptr n v') \<and>
    (\<forall>b ptr n v rpc a r v'. shared b ptr n v \<and> margo_create (cs_margo C) rpc a v = (r, v') \<longrightarrow> shared b ptr n v') \<and>
    (\<forall>b ptr n v pid h x v'. shared b ptr n v \<and> bi_bulk_handle x = b \<and>
       margo_provider_forward (cs_margo C) pid h (In_read x) v = (HG_SUCCESS, v') \<longrightarrow> shared b ptr n v') \<and>
    (\<forall>b ptr n v h old r v'. shared b ptr n v \<and> margo_get_output (cs_margo C) h old v = (r, v') \<longrightarrow> shared b ptr n v') \<and>
    (\<forall>b ptr n v h. shared b ptr n v \<longrightarrow> shared b ptr n (margo_free_output (cs_margo C) h v)) \<and>
    (\<forall>b ptr n v po m w. shared b ptr n v \<and> host v = (po, (m, w)) \<longrightarrow>
       client_load (cs_margo C) ptr (unat n) v = extent 0 (unat n) (rb b w)) \<and>
    (\<forall>b v p n. client_load (cs_margo C) p n (bulk_free (cs_env C) b v) = client_load (cs_margo C) p n v) \<and>
    (\<forall>source b. push_remote_ok (st_env S) source b (rb b)) \<and>
    (\<forall>a b w. rb b (addr_free (st_margo S) a w) = rb b w) \<and>
    (\<forall>a b off d w r w'. bulk_push (st_env S) a b off d w = (r, w') \<longrightarrow> same_objects (st_env S) w w')"

lemma bulk_sharesD:
  assumes "bulk_shares C S host rb shared"
  shows "bulk_create (cs_env C) ptr n v = ((HG_SUCCESS, b), v') \<Longrightarrow> shared b ptr n v'"
    and "shared b ptr n v \<Longrightarrow> margo_create (cs_margo C) rpc a v = (r, v') \<Longrightarrow> shared b ptr n v'"
    and "shared (bi_bulk_handle x) ptr n v \<Longrightarrow> margo_provider_forward (cs_margo C) pid h (In_read x) v = (HG_SUCCESS, v') \<Longrightarrow>
      shared (bi_bulk_handle x) ptr n v'"
    and "shared b ptr n v \<Longrightarrow> margo_get_output (cs_margo C) h old v = (r', v') \<Longrightarrow> shared b ptr n v'"
    and "shared b ptr n v \<Longrightarrow> shared b ptr n (margo_free_output (cs_margo C) h v)"
    and "shared b ptr n v \<Longrightarrow> host v = (po, (m, w)) \<Longrightarrow> client_load (cs_margo C) ptr (unat n) v = extent 0 (unat n) (rb b w)"
    and "client_load (cs_margo C) p k (bulk_free (cs_env C) b v) = client_load (cs_margo C) p k v"
    and "push_remote_ok (st_env S) source b (rb b)"
    and "rb b (addr_free (st_margo S) a' w) = rb b w"
    and "bulk_push (st_env S) a' b off d w = (r'', w') \<Longrightarrow> same_objects (st_env S) w w'"
proof -
  show "bulk_create (cs_env C) ptr n v = ((HG_SUCCESS, b), v') \<Longrightarrow> shared b ptr n v'"
    using assms [unfolded bulk_shares_def, THEN conjunct1, rule_format] by blast
  show "shared b ptr n v \<Longrightarrow> margo_create (cs_margo C) rpc a v = (r, v') \<Longrightarrow> shared b ptr n v'"
    using assms [unfolded bulk_shares_def, THEN conjunct2, THEN conjunct1, rule_format] by blast
  show "shared (bi_bulk_handle x) ptr n v \<Longrightarrow> margo_provider_forward (cs_margo C) pid h (In_read x) v = (HG_SUCCESS, v') \<Longrightarrow>
      shared (bi_bulk_handle x) ptr n v'"
    using assms [unfolded bulk_shares_def, THEN conjunct2, THEN conjunct2, THEN conjunct1, rule_format] by blast
  show "shared b ptr n v \<Longrightarrow> margo_get_output (cs_margo C) h old v = (r', v') \<Longrightarrow> shared b ptr n v'"
    using assms [unfolded bulk_shares_def, THEN conjunct2, THEN conjunct2, THEN conjunct2, THEN conjunct1, rule_format] by blast
  show "shared b ptr n v \<Longrightarrow> shared b ptr n (margo_free_output (cs_margo C) h v)"
    using assms [unfolded bulk_shares_def, THEN conjunct2, THEN conjunct2, THEN conjunct2, THEN conjunct2, THEN conjunct1, rule_format] by blast
  show "shared b ptr n v \<Longrightarrow> host v = (po, (m, w)) \<Longrightarrow> client_load (cs_margo C) ptr (unat n) v = extent 0 (unat n) (rb b w)"
    using assms [unfolded bulk_shares_def, THEN conjunct2, THEN conjunct2, THEN conjunct2, THEN conjunct2, THEN conjunct2, THEN conjunct1, rule_format] by blast
  show "client_load (cs_margo C) p k (bulk_free (cs_env C) b v) = client_load (cs_margo C) p k v"
    using assms [unfolded bulk_shares_def, THEN conjunct2, THEN conjunct2, THEN conjunct2, THEN conjunct2, THEN conjunct2, THEN conjunct2, THEN conjunct1, rule_format] by blast
  show "push_remote_ok (st_env S) source b (rb b)"
    using assms [unfolded bulk_shares_def, THEN conjunct2, THEN conjunct2, THEN conjunct2, THEN conjunct2, THEN conjunct2, THEN conjunct2, THEN conjunct2, THEN conjunct1, rule_format] by blast
  show "rb b (addr_free (st_margo S) a' w) = rb b w"
    using assms [unfolded bulk_shares_def, THEN conjunct2, THEN conjunct2, THEN conjunct2, THEN conjunct2, THEN conjunct2, THEN conjunct2, THEN conjunct2, THEN conjunct2, THEN conjunct1, rule_format] by blast
  show "bulk_push (st_env S) a' b off d w = (r'', w') \<Longrightarrow> same_objects (st_env S) w w'"
    using assms [unfolded bulk_shares_def, THEN conjunct2, THEN conjunct2, THEN conjunct2, THEN conjunct2, THEN conjunct2, THEN conjunct2, THEN conjunct2, THEN conjunct2, THEN conjunct2, rule_format] by blast
qed

lemma rpc_call_shared:
  assumes sh: "bulk_shares C S host rb shared" and v: "shared b ptr n v" "bi_bulk_handle x = b"
    and call: "rpc_call (cs_margo C) rpc provider (\<lambda>_. In_read x) con sel blank v = ((Answered out, h), v')"
  shows "shared b ptr n v'"
proof -
  note d = bulk_sharesD [OF sh]
  obtain r1 h1 v1 where c: "margo_create (cs_margo C) rpc (ph_addr provider) v = ((r1, h1), v1)" by (metis surj_pair)
  obtain r2 v2 where f: "margo_provider_forward (cs_margo C) (ph_provider_id provider) h1 (In_read x) v1 = (r2, v2)" by (metis surj_pair)
  obtain r3 o1 v3 where g: "margo_get_output (cs_margo C) h1 (con blank) v2 = ((r3, o1), v3)" by (metis surj_pair)
  have "r2 = HG_SUCCESS" "v' = v3" using call c f g by (auto simp: rpc_call_def split: if_splits option.splits)
  then show ?thesis using d(4) [OF d(3) [OF d(2) [OF v(1) c, folded v(2)]] g] f v(2) by simp
qed

section \<open>The handler of the read request\<close>

lemma pmem_read_bulk_pushes:
  assumes sh: "bulk_shares C S host rb shared" and ex: "bulk_exposes C S host rb"
    and req: "pmem_req (st_env S) sc (prid_oid rid) off n boff (m, w)"
    and run: "bake_pmem_read_bulk (st_env S) sc rid off n b source boff (m, w) = ((ret, k), s')"
    and d: "d = data_at sc (pmemobj_direct (st_env S) (prid_oid rid) w) + unat off"
  shows "\<exists>w'. s' = (m, w') \<and> same_objects (st_env S) w w' \<and>
    (ret = BAKE_SUCCESS \<and> k = n \<and> rb b w' = overlay (unat boff) (extent d (unat n) m) (rb b w) \<or> ret = BAKE_ERR_MERCURY \<and> k = 0)"
proof -
  let ?r = "pmemobj_direct (st_env S) (prid_oid rid) w"
  note o = objects_stayD [OF bulk_exposesD(6) [OF ex]] and l = local_bulk_okD [OF bulk_exposesD(4) [OF ex]]
  have r: "?r \<noteq> 0" "unat ?r + 8 + unat off + unat n < 2 ^ 64" "sc \<longrightarrow> unat off + unat n \<le> unat (region_size ?r m)"
    using req by (simp_all add: pmem_req_def)
  have sum: "unat (off + n) = unat off + unat n" using r(2) by (subst unat_add_lem [THEN iffD1]) simp_all
  have sz: "\<not> (sc \<and> off > region_size ?r m)" "\<not> (sc \<and> off + n > region_size ?r m)"
    using r(3) sum by (auto simp: word_less_nat_alt)
  let ?buf = "region_data sc ?r + off"
  have p: "unat ?buf = d" using r(2) unfolding d by (intro unat_data_ptr) simp
  obtain r1 h w1 where c: "bulk_create (st_env S) ?buf n w = ((r1, h), w1)" by (metis surj_pair)
  obtain r2 w2 where u: "bulk_push (st_env S) source b boff (extent d (unat n) m) w1 = (r2, w2)" by (metis surj_pair)
  note t1 = o(5) [OF c] and t2 = same_objects_trans [OF o(5) [OF c] bulk_sharesD(10) [OF sh u]]
  note ob = same_objects_trans [OF t1 o(6)] same_objects_trans [OF t2 o(6)]
  have "rb b (bulk_free (st_env S) h w2) = overlay (unat boff) (extent d (unat n) m) (rb b w)" if "r2 = HG_SUCCESS"
    using push_remote_okD(2) [OF bulk_sharesD(8) [OF sh] u] that by (simp add: l(4) [OF c] l(5) HG_SUCCESS_def)
  then show ?thesis
    using run sz c u r(1) ob by (auto simp: bake_pmem_read_bulk_def p split: if_splits)
qed

lemma serve_read_eq:
  assumes "target_context p (bi_bti x) = Some ctx" and "bi_remote_addr_str x = None"
    and "addr_dup (st_margo S) sender w = ((hret, a), w1)"
    and "backend_read_bulk S ctx (bi_rid x) (bi_region_offset x) (bi_bulk_size x) (bi_bulk_handle x) a (bi_bulk_offset x) sched (m, w1) =
      (r, s2)"
  defines "q \<equiv> lock_op ABT_rwlock_unlock (lock_op ABT_rwlock_rdlock p)"
  shows "serve S sender sched junk (In_read x) (Some p, (m, w)) =
      (if hret \<noteq> HG_SUCCESS
       then (Some [Addr_free (Some a), Respond (Out_read (read_out BAKE_ERR_MERCURY 0)), Free_input, Destroy],
             (Some q, (m, addr_free (st_margo S) a w1)))
       else case r of None \<Rightarrow> (None, (Some (lock_op ABT_rwlock_rdlock p), s2))
         | Some (ret, k) \<Rightarrow> (Some [Addr_free (Some a), Respond (Out_read (read_out ret k)), Free_input, Destroy],
             (Some q, (fst s2, addr_free (st_margo S) a (snd s2)))))"
proof -
  obtain en where en: "find_target_entry p (bi_bti x) = Some en" "pv_contexts p (el_val en) = Some ctx"
    using assms(1) by (auto simp: target_context_def split: option.splits)
  show ?thesis
    using en assms(2-4) by (cases r; cases s2)
      (auto simp: q_def serve_def bake_read_ult_def run_handler_def addr_free_and_respond_def resolve_source_def Let_def)
qed

lemma serve_read_pmem:
  assumes sh: "bulk_shares C S host rb shared" and ex: "bulk_exposes C S host rb"
    and p: "pv_ok p" "target_context p (bi_bti x) = Some (PmemContext e)" and x: "bi_remote_addr_str x = None"
    and req: "pmem_req (st_env S) (st_sizecheck S) (prid_oid (bi_rid x)) (bi_region_offset x) (bi_bulk_size x) (bi_bulk_offset x) (m, w)"
    and run: "serve S sender sched junk (In_read x) (Some p, (m, w)) = (Some cs, hst)" "Respond out \<in> set cs"
    and d: "d = data_at (st_sizecheck S) (pmemobj_direct (st_env S) (prid_oid (bi_rid x)) w) + unat (bi_region_offset x)"
  shows "\<exists>p' w' ret k. hst = (Some p', (m, w')) \<and> same_objects (st_env S) w w' \<and> pv_ok p' \<and> target_context p' = target_context p \<and>
    out = Out_read (read_out ret k) \<and> (ret = BAKE_ERR_MERCURY \<or> ret = BAKE_SUCCESS \<and> k = bi_bulk_size x \<and>
      rb (bi_bulk_handle x) w' = overlay (unat (bi_bulk_offset x)) (extent d (unat (bi_bulk_size x)) m) (rb (bi_bulk_handle x) w))"
proof -
  let ?q = "lock_op ABT_rwlock_unlock (lock_op ABT_rwlock_rdlock p)" and ?b = "bi_bulk_handle x"
  obtain hret a w1 where ad: "addr_dup (st_margo S) sender w = ((hret, a), w1)" by (metis surj_pair)
  obtain ret k s2 where b: "bake_pmem_read_bulk (st_env S) (st_sizecheck S) (bi_rid x) (bi_region_offset x) (bi_bulk_size x)
      ?b a (bi_bulk_offset x) (m, w1) = ((ret, k), s2)" by (metis surj_pair)
  then have eq: "serve S sender sched junk (In_read x) (Some p, (m, w)) =
      (if hret \<noteq> HG_SUCCESS
       then (Some [Addr_free (Some a), Respond (Out_read (read_out BAKE_ERR_MERCURY 0)), Free_input, Destroy],
             (Some ?q, (m, addr_free (st_margo S) a w1)))
       else (Some [Addr_free (Some a), Respond (Out_read (read_out ret k)), Free_input, Destroy],
             (Some ?q, (fst s2, addr_free (st_margo S) a (snd s2)))))"
    using serve_read_eq [OF p(2) x ad, of sched m "Some (ret, k)" s2 junk] by simp
  have ob: "rb ?b w1 = rb ?b w" "same_objects (st_env S) w w1" using bulk_exposesD(5) [OF ex ad] by simp_all
  have d1: "d = data_at (st_sizecheck S) (pmemobj_direct (st_env S) (prid_oid (bi_rid x)) w1) + unat (bi_region_offset x)"
    using d ob(2) by (simp add: same_objects_def)
  obtain w2 where w2: "s2 = (m, w2)" "same_objects (st_env S) w1 w2" "ret = BAKE_SUCCESS \<and> k = bi_bulk_size x \<and>
      rb ?b w2 = overlay (unat (bi_bulk_offset x)) (extent d (unat (bi_bulk_size x)) m) (rb ?b w1) \<or> ret = BAKE_ERR_MERCURY \<and> k = 0"
    using pmem_read_bulk_pushes [OF sh ex pmem_req_same [OF req ob(2)] b d1] by blast
  have free: "rb ?b (addr_free (st_margo S) a w2) = rb ?b w2" by (rule bulk_sharesD(9) [OF sh])
  have st: "same_objects (st_env S) w (addr_free (st_margo S) a w1)" "same_objects (st_env S) w (addr_free (st_margo S) a w2)"
    by (rule same_objects_trans [OF ob(2) objects_stayD(2) [OF bulk_exposesD(6) [OF ex]]])
      (rule same_objects_trans [OF same_objects_trans [OF ob(2) w2(2)] objects_stayD(2) [OF bulk_exposesD(6) [OF ex]]])
  show ?thesis
  proof (cases "hret = HG_SUCCESS")
    case True
    then have "hst = (Some ?q, (m, addr_free (st_margo S) a w2))" "out = Out_read (read_out ret k)" using run eq w2(1) by auto
    then show ?thesis using w2(3) free ob(1) st(2) p(1)
      by (intro exI [of _ ?q] exI [of _ "addr_free (st_margo S) a w2"] exI [of _ ret] exI [of _ k]) auto
  next
    case False
    then have "hst = (Some ?q, (m, addr_free (st_margo S) a w1))" "out = Out_read (read_out BAKE_ERR_MERCURY 0)" using run eq by auto
    then show ?thesis using st(1) p(1) by auto
  qed
qed

section \<open>The client\<close>

lemma client_bulk_read:
  assumes net: "net_ok M H S host resp" and C: "cs_margo C = M" and ex: "bulk_exposes C S host rb"
    and sh: "bulk_shares C S host rb shared"
    and h: "host v = (Some p, (m, w))" "pv_ok p" "target_context p tid = Some (PmemContext e)"
    and ids: "tid_ok tid" "wf_rid rid"
    and req: "pmem_req (st_env S) (st_sizecheck S) (prid_oid rid) off n 0 (m, w)"
    and big: "\<not> n \<le> ph_eager_limit provider" and run: "bake_read C c provider tid rid off buf n v = ((ret, cnt), v1)"
    and d: "d = data_at (st_sizecheck S) (pmemobj_direct (st_env S) (prid_oid rid) w) + unat off"
  shows "ret = BAKE_ERR_MERCURY \<or> ret = BAKE_SUCCESS \<and> cnt = Some n \<and> client_load M buf (unat n) v1 = extent d (unat n) m \<and>
    (\<exists>p' w'. host v1 = (Some p', (m, w')) \<and> same_objects (st_env S) w w' \<and> pv_ok p' \<and> target_context p' = target_context p)"
proof (cases "ret = BAKE_ERR_MERCURY")
  case False
  note dd = net_okD [OF net] and de = bulk_exposesD [OF ex] and ds = bulk_sharesD [OF sh, unfolded C]
  let ?x = "\<lambda>b. \<lparr>bi_bti = tid, bi_rid = rid, bi_region_offset = off, bi_bulk_handle = b, bi_bulk_offset = 0, bi_bulk_size = n,
      bi_remote_addr_str = None\<rparr>"
  obtain hret b v2 where bc: "bulk_create (cs_env C) buf n v = ((hret, b), v2)" by (metis surj_pair)
  obtain r hd v3 where call: "rpc_call M (cl_id c bake_read_id) provider (\<lambda>_. In_read (?x b)) Out_read sel_read (junk_read C) v2 =
      ((r, hd), v3)" by (metis surj_pair)
  let ?v4 = "margo_free_output M hd v3"
  have "\<exists>out. hret = HG_SUCCESS \<and> r = Answered out \<and> ret = rdo_ret out \<and> cnt = Some (rdo_size out) \<and>
      v1 = margo_destroy M hd (bulk_free (cs_env C) b ?v4)"
    using run big bc call C False
    by (cases r) (auto simp: bake_read_def bulk_roundtrip_def answer_code_def Let_def split: if_splits)
  then obtain out where o: "hret = HG_SUCCESS" "r = Answered out" "ret = rdo_ret out" "cnt = Some (rdo_size out)"
      "v1 = margo_destroy M hd (bulk_free (cs_env C) b ?v4)" by blast
  have fits: "in_fits (In_read (?x b)) ((\<lambda>_. In_read (?x b)) v)" for v using ids by (simp add: in_fits.simps)
  obtain w2 where ho: "host v2 = (Some p, (m, w2))" "same_objects (st_env S) w w2"
    using de(1) [OF bc [unfolded o(1)] h(1)] by blast
  have df: "defined_request S ((\<lambda>_. In_read (?x b)) u) (host v2)" for u
    unfolding ho(1) by (rule defined_requestI [OF h(2)]) (simp add: h(3))
  obtain sender sched junk cs o1 where s: "serve S sender sched junk (In_read (?x b)) (host v2) = (Some cs, host v3)"
    "Respond o1 \<in> set cs" "out_fits (Out_read (junk_read C)) o1 \<longrightarrow> sel_read o1 = Some out"
    using rpc_call_served [OF net fits df call [unfolded o(2)]] by blast
  have d2: "d = data_at (st_sizecheck S) (pmemobj_direct (st_env S) (prid_oid rid) w2) + unat off"
    using d ho(2) by (simp add: same_objects_def)
  have "\<exists>p' w' ret k. host v3 = (Some p', (m, w')) \<and> same_objects (st_env S) w2 w' \<and> pv_ok p' \<and> target_context p' = target_context p \<and>
      o1 = Out_read (read_out ret k) \<and> (ret = BAKE_ERR_MERCURY \<or> ret = BAKE_SUCCESS \<and> k = bi_bulk_size (?x b) \<and>
      rb (bi_bulk_handle (?x b)) w' =
        overlay (unat (bi_bulk_offset (?x b))) (extent d (unat (bi_bulk_size (?x b))) m) (rb (bi_bulk_handle (?x b)) w2))"
    by (rule serve_read_pmem [OF sh ex h(2) _ _ _ s(1) [unfolded ho(1)] s(2)])
      (use h(3) pmem_req_same [OF req ho(2)] d2 in simp_all)
  then obtain p' w3 ret0 k where h3: "host v3 = (Some p', (m, w3))" "same_objects (st_env S) w2 w3" "pv_ok p'"
    "target_context p' = target_context p" "o1 = Out_read (read_out ret0 k)"
    "ret0 = BAKE_ERR_MERCURY \<or> ret0 = BAKE_SUCCESS \<and> k = n \<and> rb b w3 = overlay 0 (extent d (unat n) m) (rb b w2)"
    by auto
  have out: "out = read_out ret0 k" using s(3) h3(5,6) by (auto simp: out_fits.simps read_out_def bake_err_defs)
  have ok: "ret0 = BAKE_SUCCESS" "k = n" "rb b w3 = overlay 0 (extent d (unat n) m) (rb b w2)"
    using h3(6) False o(3) out by (auto simp: read_out_def)
  have sh4: "shared b buf n ?v4"
    using ds(5) [OF rpc_call_shared [OF sh ds(1) [OF bc [unfolded o(1)]], of "?x b" "cl_id c bake_read_id" provider Out_read sel_read
        "junk_read C" out hd v3]] call o(2) C by simp
  have h4: "host ?v4 = host v3" using dd(6,8) by (metis rpc_finish_def)
  have "client_load M buf (unat n) v1 = client_load M buf (unat n) (bulk_free (cs_env C) b ?v4)" by (simp add: o(5) dd(9))
  also have "\<dots> = extent 0 (unat n) (rb b w3)" using ds(6,7) sh4 h4 h3(1) by simp
  also have "\<dots> = extent d (unat n) m" using extent_overlay_prefix [of "unat n" "extent d (unat n) m" 0] by (simp add: ok(3))
  finally have "client_load M buf (unat n) v1 = extent d (unat n) m" .
  moreover obtain w4 where "host (bulk_free (cs_env C) b ?v4) = (Some p', (m, w4))" "same_objects (st_env S) w3 w4"
    using de(2) h3(1) h4 by metis
  ultimately show ?thesis
    using o(3-5) out ok(1,2) dd(8) h3(3,4) same_objects_trans [OF same_objects_trans [OF ho(2) h3(2)]] by (simp add: read_out_def)
qed simp

lemma client_read_bytes:
  assumes "net_ok M H S host resp" and "cs_margo C = M" and "bulk_exposes C S host rb" and "bulk_shares C S host rb shared"
    and "host v = (Some p, (m, w))" and "pv_ok p" and "target_context p tid = Some (PmemContext e)"
    and "tid_ok tid" and "wf_rid rid"
    and "pmem_req (st_env S) (st_sizecheck S) (prid_oid rid) off n 0 (m, w)"
    and "n \<le> ph_eager_limit provider \<longrightarrow> unat n < 2 ^ 32"
    and "bake_read C c provider tid rid off buf n v = ((ret, cnt), v1)"
    and "d = data_at (st_sizecheck S) (pmemobj_direct (st_env S) (prid_oid rid) w) + unat off"
  shows "ret = BAKE_ERR_MERCURY \<or> ret = BAKE_SUCCESS \<and> cnt = Some n \<and> client_load M buf (unat n) v1 = extent d (unat n) m \<and>
    (\<exists>p' w'. host v1 = (Some p', (m, w')) \<and> same_objects (st_env S) w w' \<and> pv_ok p' \<and> target_context p' = target_context p)"
proof (cases "n \<le> ph_eager_limit provider \<and> ret \<noteq> BAKE_ERR_MERCURY")
  case False
  then show ?thesis using client_bulk_read [OF assms(1-10) _ assms(12,13)] by blast
next
  case True
  let ?r = "pmemobj_direct (st_env S) (prid_oid rid) w" and ?sc = "st_sizecheck S" and ?ctx = "PmemContext e"
  have r: "?r \<noteq> 0" "unat ?r + 8 + unat off + unat n < 2 ^ 64" "?sc \<longrightarrow> unat off + unat n \<le> unat (region_size ?r m)"
    using assms(10) by (simp_all add: pmem_req_def)
  have sum: "unat (off + n) = unat off + unat n" using r(2) by (subst unat_add_lem [THEN iffD1]) simp_all
  have sz: "\<not> (?sc \<and> off > region_size ?r m)" "\<not> (?sc \<and> off + n > region_size ?r m)"
    using r(3) sum by (auto simp: word_less_nat_alt)
  let ?ptr = "region_data ?sc ?r + off"
  have p: "unat ?ptr = d" using r(2) unfolding assms(13) by (intro unat_data_ptr) simp
  let ?d = "\<lparr>rd_base = ?ptr, rd_ptr = ?ptr, rd_size = n, rd_bytes = extent (unat ?ptr) (unat n) m\<rparr>"
  have rd: "backend_read_raw S ?ctx rid off n (m, w) = ((BAKE_SUCCESS, Some ?d, free_fn_NULL), (m, w))"
    using r(1) sz by (auto simp: bake_pmem_read_raw_def Let_def)
  have "bake_eager_read C c provider tid rid off buf n v = ((ret, cnt), v1)" using True assms(12) by (simp add: bake_read_def)
  moreover have "int32 BAKE_SUCCESS" "length (rd_bytes ?d) = unat (rd_size ?d)" "unat (rd_size ?d) < 2 ^ 32"
    using True assms(11) by (simp_all add: bake_err_defs)
  ultimately have "ret = BAKE_SUCCESS \<and> cnt = Some (rd_size ?d) \<and> (BAKE_SUCCESS = 0 \<longrightarrow> client_load M buf (unat (rd_size ?d)) v1 = rd_bytes ?d) \<and>
      (\<exists>p'. host v1 = (Some p', (m, w)) \<and> pv_ok p' \<and> target_context p' = target_context p)"
    using client_eager_read [OF assms(1,2,5-9) rd] True by blast
  then show ?thesis using same_objects_refl by (auto simp: bake_err_defs p)
qed

text \<open>C8: What a client stores on a persistent memory target is what it gets back, for requests of at least one byte
  inside the region; a read that is small enough to be eager must be of less than 2^32 bytes (the size in
  its answer is truncated to 32 bits). After a write of a buffer to an extent of a region has returned success, eager or with the server pulling from a
  bulk handle, a read of the extent, with the same handle or with another one, eager or with the server
  pushing into a bulk handle, either reports a failure of the transport, or returns success, the number
  of bytes written, and leaves exactly the written bytes in the buffer for the read.\<close>
theorem client_write_then_read:
  assumes "net_ok M H S host resp" and "cs_margo C = M" and "bulk_exposes C S host rb" and "bulk_shares C S host rb shared"
    and "hg_codes_ok (st_env S)"
    and "host v = (Some p, (m, w))" and "pv_ok p" and "target_context p tid = Some (PmemContext e)"
    and "tid_ok tid" and "wf_rid rid"
    and "pmem_req (st_env S) (st_sizecheck S) (prid_oid rid) off n 0 (m, w)"
    and "n \<le> ph_eager_limit reader \<longrightarrow> unat n < 2 ^ 32"
    and "bake_write C c writer tid rid off buf n v = (BAKE_SUCCESS, v1)"
    and "bake_read C c' reader tid rid off buf2 n v1 = ((ret, cnt), v2)"
  shows "ret = BAKE_ERR_MERCURY \<or>
    ret = BAKE_SUCCESS \<and> cnt = Some n \<and> client_load M buf2 (unat n) v2 = client_load M buf (unat n) v"
proof -
  let ?r = "pmemobj_direct (st_env S) (prid_oid rid) w" and ?data = "client_load M buf (unat n) v"
  let ?d = "data_at (st_sizecheck S) ?r + unat off"
  have len: "length ?data = unat n" by (rule net_okD(10) [OF assms(1)])
  obtain p1 w1 where w1: "host v1 = (Some p1, (overlay ?d ?data m, w1))" "same_objects (st_env S) w w1" "pv_ok p1"
    "target_context p1 = target_context p"
    using client_write_overlay [OF assms(1-3,5-11,13) refl] by blast
  have dir: "pmemobj_direct (st_env S) (prid_oid rid) w1 = ?r" using w1(2) by (simp add: same_objects_def)
  have "region_size ?r (overlay ?d ?data m) = region_size ?r m" if "st_sizecheck S"
    using that by (simp add: region_size_overlay data_at_def)
  then have req: "pmem_req (st_env S) (st_sizecheck S) (prid_oid rid) off n 0 (overlay ?d ?data m, w1)"
    using pmem_req_same [OF assms(11) w1(2)] by (auto simp: pmem_req_def dir)
  have "ret = BAKE_ERR_MERCURY \<or> ret = BAKE_SUCCESS \<and> cnt = Some n \<and>
      client_load M buf2 (unat n) v2 = extent ?d (unat n) (overlay ?d ?data m) \<and>
      (\<exists>p' w'. host v2 = (Some p', (overlay ?d ?data m, w')) \<and> same_objects (st_env S) w1 w' \<and> pv_ok p' \<and>
        target_context p' = target_context p1)"
    by (rule client_read_bytes [OF assms(1-4) w1(1,3) _ assms(9,10) req assms(12,14)]) (use w1(4) assms(8) dir in simp_all)
  then show ?thesis using len by (auto simp: extent_overlay_prefix)
qed

end
