(* ===== verification/Copy_Roundtrip.thy ===== *)
theory Copy_Roundtrip
  imports Copy_Props Client_Load
begin

text \<open>
  \<^verbatim>\<open>bake-copy-from\<close> after \<^verbatim>\<open>bake-copy-to\<close>: the file that holds the identifiers of the region,
  and the bytes of the region.
\<close>

section \<open>The file of the identifiers\<close>

text \<open>
  \<open>file name bs v\<close>: in the state \<open>v\<close> the file \<open>name\<close> holds the bytes \<open>bs\<close>. \<open>opened fd name p v\<close>: the file
  descriptor \<open>fd\<close> is open on the file, at the position \<open>p\<close>. A new temporary file is empty; a write at the
  end of a file may store a part of the data only; a read returns what is at the position.
\<close>

definition file_calls_ok ::
  "'v os \<Rightarrow> (cstring \<Rightarrow> byte list \<Rightarrow> 'v \<Rightarrow> bool) \<Rightarrow> (int \<Rightarrow> cstring \<Rightarrow> nat \<Rightarrow> 'v \<Rightarrow> bool) \<Rightarrow> bool" where
  "file_calls_ok L file opened \<longleftrightarrow>
    (\<forall>t v fd name v'. os_mkstemp L t v = ((fd, name), v') \<and> 0 \<le> fd \<longrightarrow> file name [] v' \<and> opened fd name 0 v') \<and>
    (\<forall>fd name bs v d r v'. opened fd name (length bs) v \<and> file name bs v \<and> os_write L fd d v = (r, v') \<longrightarrow>
       nat r \<le> length d \<and> file name (bs @ take (nat r) d) v' \<and> opened fd name (length bs + nat r) v') \<and>
    (\<forall>fd name bs v. file name bs v \<longrightarrow> file name bs (os_close L fd v)) \<and>
    (\<forall>fd name bs v v'. os_open L name v = (fd, v') \<and> 0 \<le> fd \<and> file name bs v \<longrightarrow> file name bs v' \<and> opened fd name 0 v') \<and>
    (\<forall>fd name p bs v n r d v'. opened fd name p v \<and> file name bs v \<and> os_read L fd n v = ((r, d), v') \<and> 0 \<le> r \<longrightarrow>
       length d = nat r \<and> d = take (nat r) (drop p bs) \<and> file name bs v' \<and> opened fd name (p + nat r) v')"

lemma file_calls_okD:
  assumes "file_calls_ok L file opened"
  shows "os_mkstemp L t v = ((fd, name), v') \<Longrightarrow> 0 \<le> fd \<Longrightarrow> file name [] v' \<and> opened fd name 0 v'"
    and "opened fd name (length bs) v \<Longrightarrow> file name bs v \<Longrightarrow> os_write L fd d v = (r, v') \<Longrightarrow>
      nat r \<le> length d \<and> file name (bs @ take (nat r) d) v' \<and> opened fd name (length bs + nat r) v'"
    and "file name bs v \<Longrightarrow> file name bs (os_close L fd v)"
    and "os_open L name v = (fd, v') \<Longrightarrow> 0 \<le> fd \<Longrightarrow> file name bs v \<Longrightarrow> file name bs v' \<and> opened fd name 0 v'"
    and "opened fd name p v \<Longrightarrow> file name bs v \<Longrightarrow> os_read L fd n v = ((r, d), v') \<Longrightarrow> 0 \<le> r \<Longrightarrow>
      length d = nat r \<and> d = take (nat r) (drop p bs) \<and> file name bs v' \<and> opened fd name (p + nat r) v'"
proof -
  show "os_mkstemp L t v = ((fd, name), v') \<Longrightarrow> 0 \<le> fd \<Longrightarrow> file name [] v' \<and> opened fd name 0 v'"
    using assms [unfolded file_calls_ok_def, THEN conjunct1, rule_format] by blast
  show "opened fd name (length bs) v \<Longrightarrow> file name bs v \<Longrightarrow> os_write L fd d v = (r, v') \<Longrightarrow>
      nat r \<le> length d \<and> file name (bs @ take (nat r) d) v' \<and> opened fd name (length bs + nat r) v'"
    using assms [unfolded file_calls_ok_def, THEN conjunct2, THEN conjunct1, rule_format] by blast
  show "file name bs v \<Longrightarrow> file name bs (os_close L fd v)"
    using assms [unfolded file_calls_ok_def, THEN conjunct2, THEN conjunct2, THEN conjunct1, rule_format] by blast
  show "os_open L name v = (fd, v') \<Longrightarrow> 0 \<le> fd \<Longrightarrow> file name bs v \<Longrightarrow> file name bs v' \<and> opened fd name 0 v'"
    using assms [unfolded file_calls_ok_def, THEN conjunct2, THEN conjunct2, THEN conjunct2, THEN conjunct1, rule_format] by blast
  show "opened fd name p v \<Longrightarrow> file name bs v \<Longrightarrow> os_read L fd n v = ((r, d), v') \<Longrightarrow> 0 \<le> r \<Longrightarrow>
      length d = nat r \<and> d = take (nat r) (drop p bs) \<and> file name bs v' \<and> opened fd name (p + nat r) v'"
    using assms [unfolded file_calls_ok_def, THEN conjunct2, THEN conjunct2, THEN conjunct2, THEN conjunct2, rule_format] by blast
qed

text \<open>A write that fails or is cut short leaves a beginning of what was to be written.\<close>

lemma copy_to_save_file:
  assumes ok: "file_calls_ok L file opened"
    and mk: "os_mkstemp L (str ''/tmp/bb-copy-rid.XXXXXX'') v = ((fd, name), v1)" "0 \<le> fd"
  shows "\<exists>k1 k2. file name (take k1 tid @ take k2 (rid_image rid)) (copy_to_save L tid rid v)"
proof -
  note d = file_calls_okD [OF ok]
  note m = d(1) [OF mk]
  obtain r2 v2 where w1: "os_write L fd tid v1 = (r2, v2)" by (metis surj_pair)
  obtain r3 v3 where w2: "os_write L fd (rid_image rid) v2 = (r3, v3)" by (metis surj_pair)
  have s1: "file name (take (nat r2) tid) v2" "opened fd name (length (take (nat r2) tid)) v2"
    using d(2) [of fd name "[]" v1, OF _ _ w1] m by simp_all
  then have s2: "file name (take (nat r2) tid @ take (nat r3) (rid_image rid)) v3" using d(2) [OF s1(2,1) w2] by simp
  have "copy_to_save L tid rid v = (if r2 < 0 then v2 else if r3 < 0 then v3 else os_close L fd v3)"
    using mk w1 w2 by (simp add: copy_to_save_def)
  moreover have "\<exists>k1 k2. file name (take k1 tid @ take k2 (rid_image rid)) v2"
    by (rule exI [of _ "nat r2"], rule exI [of _ 0]) (use s1(1) in simp)
  ultimately show ?thesis using s2 d(3) [OF s2] by auto
qed

lemma copy_from_ids_file:
  assumes ok: "file_calls_ok L file opened" and f: "file name bs v" and run: "copy_from_ids L name v = (Some (tid, rid), v')"
  shows "36 \<le> length bs \<and> tid = take 16 bs \<and> rid = rid_of_image (take 20 (drop 16 bs))"
proof -
  note d = file_calls_okD [OF ok]
  obtain fd v1 where o: "os_open L name v = (fd, v1)" by (metis surj_pair)
  obtain r2 b2 v2 where r2: "os_read L fd 16 v1 = ((r2, b2), v2)" by (metis surj_pair)
  obtain r3 b3 v3 where r3: "os_read L fd 20 v2 = ((r3, b3), v3)" by (metis surj_pair)
  have c: "0 \<le> fd" "r2 = 16" "r3 = 20" "tid = b2" "rid = rid_of_image b3"
    using run o r2 r3 by (auto simp: copy_from_ids_def Let_def split: if_splits)
  have s1: "file name bs v1" "opened fd name 0 v1" using d(4) [OF o c(1) f] by simp_all
  have s2: "16 = length b2 \<and> b2 = take 16 bs \<and> file name bs v2 \<and> opened fd name 16 v2"
    using d(5) [OF s1(2,1) r2, unfolded c(2)] by (metis add_0 drop_0 nat_numeral zero_le_numeral)
  then have "20 = length b3 \<and> b3 = take 20 (drop 16 bs)" using d(5) [of fd name 16 v2 bs, OF _ _ r3, unfolded c(3)]
    by (metis nat_numeral zero_le_numeral)
  then have b3: "length (take 20 (drop 16 bs)) = 20" "rid = rid_of_image (take 20 (drop 16 bs))" using c(5) by metis+
  have "36 \<le> length bs" using b3(1) by simp
  then show ?thesis using s2 b3(2) c(4) by blast
qed

text \<open>C170: The identifiers survive the way through the file: if \<^verbatim>\<open>bake-copy-from\<close> accepts the file that
  \<^verbatim>\<open>bake-copy-to\<close> left behind, it works on the target and the region that the file was written to, even
  if a write of \<^verbatim>\<open>bake-copy-to\<close> failed or stored a part of the data only, which the program does not notice.\<close>
theorem copy_ids_roundtrip:
  assumes "file_calls_ok L file opened" and "tid_ok tid" and "wf_rid rid"
    and "os_mkstemp L (str ''/tmp/bb-copy-rid.XXXXXX'') v = ((fd, name), v1)" and "0 \<le> fd"
    and "\<And>bs. file name bs (copy_to_save L tid rid v) \<Longrightarrow> file name bs v2"
    and "copy_from_ids L name v2 = (Some (tid', rid'), v3)"
  shows "tid' = tid \<and> rid' = rid"
proof -
  obtain k1 k2 where f: "file name (take k1 tid @ take k2 (rid_image rid)) v2"
    using copy_to_save_file [OF assms(1,4,5)] assms(6) by blast
  have l: "length tid = 16" "length (rid_image rid) = 20" using assms(2) length_rid_image [OF assms(3)] by simp_all
  note c = copy_from_ids_file [OF assms(1) f assms(7)]
  have "16 \<le> k1" "20 \<le> k2" using c l by auto
  then have "take k1 tid @ take k2 (rid_image rid) = tid @ rid_image rid" using l by simp
  then show ?thesis using c l rid_of_image_inverse [OF assms(3)] by simp
qed

section \<open>bake-copy-from\<close>

lemma copy_from_load_success:
  assumes "copy_from_load L C sc bph bcl a idf outf sz (hp, v) = Some (0, st)"
  obtains c ph tid rid v1 v2 fd region v3 cnt v4 where
    "handle_objects bph hp = Some (c, ph)" "copy_from_ids L idf v = (Some (tid, rid), v1)"
    "(sc \<and> bake_get_size C c ph tid rid v1 = ((BAKE_SUCCESS, Some sz), v2)) \<or> (\<not> sc \<and> v2 = v1)"
    "copy_from_output L outf sz v2 = (Some (fd, region), v3)"
    "bake_read C c ph tid rid 0 region sz v3 = ((BAKE_SUCCESS, cnt), v4)"
    "hang_up L C bph bcl a (hp, os_close L fd (os_munmap L region sz v4)) = Some st"
proof -
  note def = copy_from_load_def Let_def unmap_file_def on_world2_def
  obtain c ph where h: "handle_objects bph hp = Some (c, ph)" using assms by (auto simp: def bind_eq_Some_conv)
  obtain tids v1 where i: "copy_from_ids L idf v = (tids, v1)" by (metis surj_pair)
  obtain tid rid where ids: "tids = Some (tid, rid)"
    using assms h i by (cases tids) (auto simp: def bind_eq_Some_conv)
  obtain r2 size v2 where g: "(if sc then bake_get_size C c ph tid rid v1 else ((0, Some sz), v1)) = ((r2, size), v2)" by (metis surj_pair)
  have ok: "r2 = 0" "size = Some sz"
    using assms h i ids g by (auto simp: def bind_eq_Some_conv split: if_splits)
  obtain out v3 where o: "copy_from_output L outf sz v2 = (out, v3)" by (metis surj_pair)
  obtain fd region where out: "out = Some (fd, region)"
    using assms h i ids g ok o by (cases out) (auto simp: def bind_eq_Some_conv split: if_splits)
  obtain r4 cnt v4 where r: "bake_read C c ph tid rid 0 region sz v3 = ((r4, cnt), v4)" by (metis surj_pair)
  have "r4 = BAKE_SUCCESS \<and> hang_up L C bph bcl a (hp, os_close L fd (os_munmap L region sz v4)) = Some st"
    using assms h i ids g ok o out r by (auto simp: def bind_eq_Some_conv BAKE_SUCCESS_def split: if_splits)
  moreover have "(sc \<and> bake_get_size C c ph tid rid v1 = ((BAKE_SUCCESS, Some sz), v2)) \<or> (\<not> sc \<and> v2 = v1)"
    using g ok by (auto simp: BAKE_SUCCESS_def split: if_splits)
  ultimately show thesis using that h i ids o out r by blast
qed

lemma copy_from_ids_host: "os_local L host \<Longrightarrow> copy_from_ids L name v = (r, v') \<Longrightarrow> host v' = host v"
  by (auto simp: copy_from_ids_def os_local_def Let_def case_prod_unfold split: if_splits)

lemma copy_from_output_host:
  assumes "os_local L host" and "copy_from_output L name n v = (r, v')"
  shows "host v' = host v"
proof -
  obtain fd v1 where c: "os_create L name v = (fd, v1)" by (metis surj_pair)
  obtain r2 v2 where t: "os_ftruncate L fd n v1 = (r2, v2)" by (metis surj_pair)
  obtain q v3 where q: "os_mmap L fd n v2 = (q, v3)" by (metis surj_pair)
  have "host v1 = host v" "host v2 = host v1" "host v3 = host v2" "\<And>fd v. host (os_close L fd v) = host v"
    using assms(1) unfolding os_local_def by (metis c t q snd_conv)+
  then show ?thesis using assms(2) c t q by (auto simp: copy_from_output_def split: if_splits option.splits)
qed

lemma copy_from_load_bytes:
  assumes net: "net_ok M H S host resp" and C: "cs_margo C = M" and ex: "bulk_exposes C S host rb"
    and sh: "bulk_shares C S host rb shared" and l: "os_local L host" "margo_local L M host"
    and h: "host v = (Some p, (m, w))" "pv_ok p" "target_context p tid = Some (PmemContext e)" and ids: "tid_ok tid" "wf_rid rid"
    and req: "pmem_req (st_env S) (st_sizecheck S) (prid_oid rid) 0 n 0 (m, w)"
    and eager: "\<forall>c ph. handle_objects bph hp = Some (c, ph) \<and> n \<le> ph_eager_limit ph \<longrightarrow> unat n < 2 ^ 32"
    and i: "fst (copy_from_ids L idf v) = Some (tid, rid)"
    and run: "copy_from_load L C sc bph bcl a idf outf n (hp, v) = Some (0, st)"
    and d: "d = data_at (st_sizecheck S) (pmemobj_direct (st_env S) (prid_oid rid) w)"
  shows "\<exists>c ph v2 fd region v3 v4.
    handle_objects bph hp = Some (c, ph) \<and>
    (if sc then bake_get_size C c ph tid rid (snd (copy_from_ids L idf v)) = ((BAKE_SUCCESS, Some n), v2)
     else v2 = snd (copy_from_ids L idf v)) \<and>
    copy_from_output L outf n v2 = (Some (fd, region), v3) \<and> bake_read C c ph tid rid 0 region n v3 = ((BAKE_SUCCESS, Some n), v4) \<and>
    client_load M region (unat n) v4 = extent d (unat n) m \<and>
    hang_up L C bph bcl a (hp, os_close L fd (os_munmap L region n v4)) = Some st \<and>
    (\<exists>p' w'. host (snd st) = (Some p', (m, w')))"
proof -
  obtain c ph t1 r1 v1 v2 fd region v3 cnt v4 where s: "handle_objects bph hp = Some (c, ph)" "copy_from_ids L idf v = (Some (t1, r1), v1)"
    "(sc \<and> bake_get_size C c ph t1 r1 v1 = ((BAKE_SUCCESS, Some n), v2)) \<or> (\<not> sc \<and> v2 = v1)"
    "copy_from_output L outf n v2 = (Some (fd, region), v3)"
    "bake_read C c ph t1 r1 0 region n v3 = ((BAKE_SUCCESS, cnt), v4)"
    "hang_up L C bph bcl a (hp, os_close L fd (os_munmap L region n v4)) = Some st"
    using copy_from_load_success [OF run] by metis
  have t: "t1 = tid" "r1 = rid" using i s(2) by simp_all
  have h1: "host v1 = (Some p, (m, w))" using copy_from_ids_host [OF l(1) s(2)] h(1) by simp
  obtain p2 where h2: "host v2 = (Some p2, (m, w))" "pv_ok p2" "target_context p2 = target_context p"
    using s(3) client_get_size_host [OF net C h1 h(2,3) ids] h1 h(2) t by blast
  have h3: "host v3 = (Some p2, (m, w))" using copy_from_output_host [OF l(1) s(4)] h2(1) by simp
  have e3: "n \<le> ph_eager_limit ph \<longrightarrow> unat n < 2 ^ 32" using eager s(1) by blast
  have ctx: "target_context p2 tid = Some (PmemContext e)" using h2(3) h(3) by simp
  have "cnt = Some n \<and> client_load M region (unat n) v4 = extent d (unat n) m \<and> (\<exists>p' w'. host v4 = (Some p', (m, w')))"
    using client_read_bytes [OF net C ex sh h3 h2(2) ctx ids req e3 s(5) [unfolded t], of d] d by (auto simp: bake_err_defs)
  moreover have "host (snd st) = host v4"
    using hang_up_host [OF _ s(6), of host] l C by (simp add: os_local_def)
  moreover have "if sc then bake_get_size C c ph tid rid (snd (copy_from_ids L idf v)) = ((BAKE_SUCCESS, Some n), v2)
      else v2 = snd (copy_from_ids L idf v)" using s(2,3) t by auto
  ultimately show ?thesis using s(1,4,5,6) t by metis
qed

text \<open>C171: A file comes back as it was stored: when \<^verbatim>\<open>bake-copy-to\<close> has stored a mapped file, no other
  request has been served in between, and \<^verbatim>\<open>bake-copy-from\<close>, given the identifiers and the size, exits with
  code 0, then its calls have been the read of the identifiers, the check of the size if sizes are checked, the creation and mapping
  of the output file, and a read that fetched all of the bytes; what is in the mapping when the output file is
  unmapped and closed are the bytes of the file that was stored, whatever their number.\<close>
theorem copy_round_trip:
  assumes "net_ok M H S host resp" and "cs_margo C = M" and "wf_rid (cs_junk_rid C)" and "bulk_exposes C S host rb"
    and "hg_codes_ok (st_env S)" and "alloc_ok (st_env S)" and "persist_ok (st_env S) durable"
    and "memory_kept M" and "os_local L host" and "margo_local L M host"
    and "host v = (Some p, (m, w))" and "pv_ok p" and "lists_targets ids p"
    and "\<And>t. t \<in> set ids \<Longrightarrow> \<exists>e. target_context p t = Some (PmemContext e)"
    and "0 < n" and "unat n + 8 < 2 ^ 64"
    and "\<And>w. 0 < unat (poolset_get_max (st_env S) w) \<and> unat n + unat (poolset_get_max (st_env S) w) < 2 ^ 64"
    and "t \<noteq> 0" and "copy_to_store L C sc bph bcl a t region n fd (hp, v) = Some (Inr (tid, rid), st)"
    and "bulk_shares C S host rb shared" and "host v1 = host (snd st)"
    and "\<forall>c ph. handle_objects bph1 hp1 = Some (c, ph) \<and> n \<le> ph_eager_limit ph \<longrightarrow> unat n < 2 ^ 32"
    and "fst (copy_from_ids L id_file v1) = Some (tid, rid)"
    and "copy_from_load L C sc bph1 bcl1 a1 id_file out_file n (hp1, v1) = Some (0, st1)"
  shows "\<exists>c ph v2 fd1 region1 v3 v4.
    handle_objects bph1 hp1 = Some (c, ph) \<and>
    (if sc then bake_get_size C c ph tid rid (snd (copy_from_ids L id_file v1)) = ((BAKE_SUCCESS, Some n), v2)
     else v2 = snd (copy_from_ids L id_file v1)) \<and>
    copy_from_output L out_file n v2 = (Some (fd1, region1), v3) \<and> bake_read C c ph tid rid 0 region1 n v3 = ((BAKE_SUCCESS, Some n), v4) \<and>
    client_load M region1 (unat n) v4 = client_load M region (unat n) v \<and>
    hang_up L C bph1 bcl1 a1 (hp1, os_close L fd1 (os_munmap L region1 n v4)) = Some st1"
proof -
  obtain p1 m1 w1 d where s: "unat t \<le> length ids" "tid = ids ! (unat t - 1)" "tid_ok tid" "wf_rid rid"
    "host (snd st) = (Some p1, (m1, w1))" "pv_ok p1" "target_context p1 = target_context p"
    "pmem_req (st_env S) (st_sizecheck S) (prid_oid rid) 0 n 0 (m1, w1)"
    "bake_pmem_get_region_data (st_env S) (st_sizecheck S) rid (m1, w1) = (BAKE_SUCCESS, Some d)"
    "extent (unat d) (unat n) m1 = client_load M region (unat n) v"
    using copy_to_store_facts [OF assms(1-19)] by blast
  let ?r = "pmemobj_direct (st_env S) (prid_oid rid) w1"
  have "0 < unat t" using assms(18) by (simp add: unat_gt_0)
  then obtain e where e: "target_context p1 tid = Some (PmemContext e)"
    using assms(14) [of tid] s(1,2,7) by auto
  have "unat ?r + 8 + unat (0 :: u64) < 2 ^ 64" using s(8) by (simp add: pmem_req_def)
  from unat_data_ptr [OF this, of "st_sizecheck S"] have "unat d = data_at (st_sizecheck S) ?r"
    using s(9) by (auto simp: bake_pmem_get_region_data_def Let_def split: if_splits)
  moreover have "\<exists>c ph v2 fd1 region1 v3 v4.
      handle_objects bph1 hp1 = Some (c, ph) \<and>
      (if sc then bake_get_size C c ph tid rid (snd (copy_from_ids L id_file v1)) = ((BAKE_SUCCESS, Some n), v2)
       else v2 = snd (copy_from_ids L id_file v1)) \<and>
      copy_from_output L out_file n v2 = (Some (fd1, region1), v3) \<and> bake_read C c ph tid rid 0 region1 n v3 = ((BAKE_SUCCESS, Some n), v4) \<and>
      client_load M region1 (unat n) v4 = extent (data_at (st_sizecheck S) ?r) (unat n) m1 \<and>
      hang_up L C bph1 bcl1 a1 (hp1, os_close L fd1 (os_munmap L region1 n v4)) = Some st1 \<and>
      (\<exists>p' w'. host (snd st1) = (Some p', (m1, w')))"
    by (rule copy_from_load_bytes [OF assms(1,2,4,20,9,10) assms(21) [unfolded s(5)] s(6) e s(3,4,8) assms(22) assms(23,24) refl])
  ultimately show ?thesis using s(10) by metis
qed

end
