(* ===== verification/Copy_Sim.thy ===== *)
theory Copy_Sim
  imports Store_Sim Copy_Roundtrip
begin

text \<open>
  Concrete instances of the theorems about reading: three bytes that go to the server and come back
  through bulk handles, the two programs that copy files, and a small file system for the file of the
  identifiers.
\<close>

section \<open>Reading in the network of one world\<close>

definition loop_shared :: "hg_bulk \<Rightarrow> u64 \<Rightarrow> u64 \<Rightarrow> loop \<Rightarrow> bool" where
  "loop_shared b ptr n v \<longleftrightarrow> b = 7 \<and> lp_shared v = Some (ptr, n) \<and>
     extent (unat ptr) (unat n) (lp_mem v) = extent 0 (unat n) (sim_remote (snd (snd (lp_host v))) 7)"

lemma loop_read_back:
  assumes "loop_forward pid h (In_read x) v = (HG_SUCCESS, v')" and "lp_shared v = Some (ptr, n)"
  shows "loop_shared 7 ptr n v'"
proof -
  have "extent (unat ptr) (unat n) (overlay (unat ptr) (extent 0 (unat n) f) g) = extent 0 (unat n) f" for f g
    using extent_overlay_prefix [of "unat n" "extent 0 (unat n) f"] by simp
  then show ?thesis
    using assms
    by (auto simp: loop_forward_def Let_def HG_SUCCESS_def loop_shared_def loop_write_back_def split: prod.splits if_splits option.splits list.splits)
qed

lemma loop_bulk_shares: "bulk_shares loop_client sim_site lp_host (\<lambda>b w. sim_remote w b) loop_shared"
  unfolding bulk_shares_def
proof (intro conjI allI impI; (elim conjE)?)
  show "loop_shared b ptr n v'" if "bulk_create (cs_env loop_client) ptr n v = ((HG_SUCCESS, b), v')" for ptr n v b v'
    using that by (auto simp: loop_client_def loop_env_def loop_expose_def loop_shared_def extent_def split: prod.splits)
  show "loop_shared b ptr n v'" if "loop_shared b ptr n v" "margo_create (cs_margo loop_client) rpc a v = (r, v')" for b ptr n v rpc a r v'
    using that by (auto simp: loop_client_def loop_margo_simps loop_shared_def)
  show "loop_shared b ptr n v'" if "loop_shared b ptr n v"
    "margo_provider_forward (cs_margo loop_client) pid h (In_read x) v = (HG_SUCCESS, v')" for b ptr n v pid h x v'
    using that loop_read_back [of pid h x v v' ptr n] by (simp add: loop_client_def loop_margo_simps loop_shared_def)
  show "loop_shared b ptr n v'" if "loop_shared b ptr n v" "margo_get_output (cs_margo loop_client) h old v = (r, v')" for b ptr n v h old r v'
    using that by (auto simp: loop_client_def loop_margo_simps loop_get_output_def split: prod.splits option.splits)
  show "push_remote_ok (st_env sim_site) source b (\<lambda>w. sim_remote w b)" for source b by (simp add: sim_site_def sim_remote_ok)
qed (auto simp: loop_client_def loop_margo_simps loop_env_def loop_shared_def sim_site_def sim_margo_def sim_env_def same_objects_def)

lemma sim_read_bulk:
  assumes "pmem_req (st_env sim_site) (st_sizecheck sim_site) (prid_oid rid) off n 0 (m, w)"
  shows "\<exists>s2. bake_pmem_read_bulk (st_env sim_site) (st_sizecheck sim_site) rid off n 7 1 0 (m, w) = ((BAKE_SUCCESS, n), s2)"
proof -
  obtain ret k s2 where b: "bake_pmem_read_bulk (st_env sim_site) (st_sizecheck sim_site) rid off n 7 1 0 (m, w) = ((ret, k), s2)"
    by (metis surj_pair)
  have "ret \<noteq> BAKE_ERR_MERCURY"
    using b by (auto simp: bake_pmem_read_bulk_def sim_site_def sim_env_def HG_SUCCESS_def bake_err_defs Let_def split: if_splits)
  then show ?thesis using pmem_read_bulk_pushes [OF loop_bulk_shares loop_bulk_exposes assms b refl] b by blast
qed

lemma loop_bulk_read:
  assumes "lp_host v = (Some p, (m, w))" and "target_context p sim_tid = Some (PmemContext e)" and "wf_rid rid"
    and "\<And>w. pmem_req (st_env sim_site) (st_sizecheck sim_site) (prid_oid rid) off n 0 (m, w)" and "\<not> n \<le> ph_eager_limit ph"
  shows "fst (fst (bake_read loop_client c ph sim_tid rid off buf n v)) = BAKE_SUCCESS"
proof -
  let ?x = "\<lparr>bi_bti = sim_tid, bi_rid = rid, bi_region_offset = off, bi_bulk_handle = 7, bi_bulk_offset = 0, bi_bulk_size = n,
      bi_remote_addr_str = None\<rparr>"
  let ?inp = "\<lambda>_ :: loop. In_read ?x" and ?v = "loop_log (Bulk_created 7) (loop_expose buf n v)"
  obtain w1 where h: "lp_host (loop_expose buf n v) = (Some p, (m, w1))" using assms(1) by (simp add: loop_expose_def)
  obtain s2 where b: "backend_read_bulk sim_site (PmemContext e) rid off n 7 1 0 [] (m, w1) = (Some (BAKE_SUCCESS, n), s2)"
    using sim_read_bulk [OF assms(4), of w1] by auto
  have ad: "addr_dup (st_margo sim_site) 1 w1 = ((0, 1), w1)" by (simp add: sim_site_def sim_margo_def)
  have s: "serve sim_site 1 [] (\<lambda>_. replicate 16 0) (?inp (loop_log (Created 1) ?v)) (lp_host (loop_log (Created 1) ?v)) =
      (Some [Addr_free (Some 1), Respond (Out_read (read_out BAKE_SUCCESS n)), Free_input, Destroy],
       (Some (lock_op ABT_rwlock_unlock (lock_op ABT_rwlock_rdlock p)), (fst s2, addr_free (st_margo sim_site) 1 (snd s2))))"
    using serve_read_eq [of p ?x "PmemContext e" sim_site 1 w1 0 1 w1 "[]" m "Some (BAKE_SUCCESS, n)" s2 "\<lambda>_. replicate 16 0"]
      assms(2) ad b by (simp add: h HG_SUCCESS_def)
  have f: "in_fits (In_read ?x) (?inp (loop_log (Created 1) ?v))" using demo_ids assms(3) by (simp add: in_fits.simps)
  have f2: "out_fits (Out_read (junk_read loop_client)) (Out_read (read_out BAKE_SUCCESS n))"
    by (simp add: out_fits.simps read_out_def bake_err_defs)
  obtain v1 where "rpc_call loop_margo (cl_id c bake_read_id) ph ?inp Out_read sel_read (junk_read loop_client) ?v =
      ((Answered (read_out BAKE_SUCCESS n), 1), v1)"
    using loop_call [where con = Out_read and sel = sel_read and x = "read_out BAKE_SUCCESS n" and blank = "junk_read loop_client"
        and outs = "[]" and rpc = "cl_id c bake_read_id" and provider = ph and inp = ?inp and v = ?v, OF f s _ f2] by auto
  moreover have "bulk_create loop_env buf n v = ((HG_SUCCESS, 7), ?v)" by (simp add: loop_env_def HG_SUCCESS_def)
  ultimately show ?thesis
    using assms(5) by (simp add: bake_read_def loop_client_def bulk_roundtrip_def answer_code_def read_out_def Let_def)
qed

theorem client_write_then_read_witness:
  "\<exists>p v1 cnt v2. bake_write loop_client loop_ids bulk_handle_only sim_tid demo_prid 100 512 3 (loop_start p) = (BAKE_SUCCESS, v1) \<and>
    bake_read loop_client loop_ids bulk_handle_only sim_tid demo_prid 100 900 3 v1 = ((BAKE_SUCCESS, cnt), v2) \<and>
    cnt = Some 3 \<and> client_load loop_margo 900 3 v2 = [1, 2, 3]"
proof -
  obtain p0 :: "jv bake_provider" and e where p0: "pv_ok p0" "target_context p0 = [sim_tid \<mapsto> PmemContext e]" using sim_attach by blast
  define p where "p = p0\<lparr>pv_json_cfg := JV json_type_object 0 [] [] []\<rparr>"
  note c = pv_ok_cong [of p p0, unfolded p_def, simplified, folded p_def]
  have p: "pv_ok p" "target_context p sim_tid = Some (PmemContext e)" "\<not> pipeline_enable sim_json (pv_json_cfg p)"
    using p0 by (simp_all add: c) (simp add: p_def pipeline_enable_def sim_json_def jv_bool_def)
  obtain v1 where w: "bake_write loop_client loop_ids bulk_handle_only sim_tid demo_prid 100 512 3 (loop_start p) = (BAKE_SUCCESS, v1)"
    using loop_bulk_write [OF p] by blast
  have ld: "client_load loop_margo 512 (unat (3 :: u64)) (loop_start p) = [1, 2, 3]"
    using extent_overlay_prefix [of 3 "[1, 2, 3]" 512 "\<lambda>_. 0"] by (simp add: loop_margo_simps loop_start_def)
  have h: "lp_host (loop_start p) = (Some p, (demo_memory, sim0))" by (simp add: loop_start_def)
  have d: "(8300 :: nat) = data_at (st_sizecheck sim_site) (pmemobj_direct (st_env sim_site) (prid_oid demo_prid) sim0) + unat (100 :: u64)"
    by (simp add: sim_site_def demo_direct data_at_def)
  obtain p1 w1 where h1: "lp_host v1 = (Some p1, (overlay 8300 [1, 2, 3] demo_memory, w1))" "target_context p1 = target_context p"
    using client_write_overlay [OF loop_net_ok loop_laws(1) loop_bulk_exposes sim_hg_codes h p(1,2) demo_ids demo_write_req w d] ld by auto
  have req: "pmem_req (st_env sim_site) (st_sizecheck sim_site) (prid_oid demo_prid) 100 3 0 (overlay 8300 [1, 2, 3] demo_memory, w)" for w
    using region_size_overlay [of 8192 8300 "[1, 2, 3]" demo_memory]
    by (simp add: pmem_req_def sim_site_def demo_direct) (simp add: sim_env_def demo_memory_def region_size_set)
  have "\<not> 3 \<le> ph_eager_limit bulk_handle_only" by (simp add: bulk_handle_only_def)
  then have "fst (fst (bake_read loop_client loop_ids bulk_handle_only sim_tid demo_prid 100 900 3 v1)) = BAKE_SUCCESS"
    using loop_bulk_read [OF h1(1) _ demo_ids(2) req] h1(2) p(2) by simp
  then obtain cnt v2 where r: "bake_read loop_client loop_ids bulk_handle_only sim_tid demo_prid 100 900 3 v1 = ((BAKE_SUCCESS, cnt), v2)"
    by (metis fst_conv surj_pair)
  have "(3 :: u64) \<le> ph_eager_limit bulk_handle_only \<longrightarrow> unat (3 :: u64) < 2 ^ 32" by simp
  from client_write_then_read [OF loop_net_ok loop_laws(1) loop_bulk_exposes loop_bulk_shares sim_hg_codes h p(1,2) demo_ids
      demo_write_req this w r] ld
  have "cnt = Some 3 \<and> client_load loop_margo 900 3 v2 = [1, 2, 3]" by (simp add: bake_err_defs)
  then show ?thesis using w r by blast
qed

section \<open>The two programs\<close>

lemma loop_eager_read:
  assumes "loop_serves mem e (m, w) v" and "bake_pmem_read_raw sim_env True rid 0 3 (m, w) = (BAKE_SUCCESS, ptr, 3)"
    and "wf_rid rid" and "3 \<le> ph_eager_limit ph"
  shows "\<exists>cnt v'. bake_read loop_client c ph sim_tid rid 0 buf 3 v = ((BAKE_SUCCESS, cnt), v')"
proof -
  let ?x = "\<lparr>xi_bti = sim_tid, xi_rid = rid, xi_offset = 0, xi_size = 3\<rparr>"
  let ?d = "\<lparr>rd_base = ptr, rd_ptr = ptr, rd_size = 3, rd_bytes = extent (unat ptr) 3 m\<rparr>"
  let ?out = "eager_read_out BAKE_SUCCESS (Some ?d)"
  let ?blank = "\<lparr>ero_ret = cs_junk_ret loop_client, ero_size = 0, ero_buffer = []\<rparr>"
  let ?inp = "\<lambda>_ :: loop. In_eager_read ?x"
  obtain p where p: "lp_host v = (Some p, (m, w))" "pv_ok p" "target_context p sim_tid = Some (PmemContext e)"
    using assms(1) by (auto simp: loop_serves_def)
  have b: "backend_read_raw sim_site (PmemContext e) rid 0 3 (m, w) = ((BAKE_SUCCESS, Some ?d, free_fn_NULL), (m, w))"
    using assms(2) by (simp add: sim_site_def)
  from serve_eager_read [of p ?x "PmemContext e" sim_site "(m, w)" BAKE_SUCCESS "Some ?d" free_fn_NULL "(m, w)" 1 "[]"
      "\<lambda>_. replicate 16 0"]
  obtain cs p1 where s: "serve sim_site 1 [] (\<lambda>_. replicate 16 0) (?inp (loop_log (Created 1) v)) (lp_host (loop_log (Created 1) v)) =
      (Some ([Respond (Out_eager_read ?out), Free_input, Destroy] @ cs), (Some p1, (m, w)))"
    using p b by auto
  have f: "in_fits (In_eager_read ?x) (?inp (loop_log (Created 1) v))" using demo_ids assms(3) by (simp add: in_fits.simps)
  have f2: "out_fits (Out_eager_read ?blank) (Out_eager_read ?out)"
    by (simp add: out_fits.simps eager_read_out_def bake_err_defs)
  obtain outs where "responses ([Respond (Out_eager_read ?out), Free_input, Destroy] @ cs) = Out_eager_read ?out # outs" by simp
  then obtain v1 where "rpc_call loop_margo (cl_id c bake_eager_read_id) ph ?inp Out_eager_read sel_eager_read ?blank v =
      ((Answered ?out, 1), v1)"
    using loop_call [where con = Out_eager_read and sel = sel_eager_read and x = ?out and blank = ?blank
        and rpc = "cl_id c bake_eager_read_id" and provider = ph and inp = ?inp and v = v, OF f s _ f2] by fastforce
  then show ?thesis
    using assms(4) by (simp add: bake_read_def bake_eager_read_def loop_client_def eager_read_out_def Let_def)
qed

lemma loop_ids_read: "copy_from_ids loop_os name v = (Some (sim_tid, loop_rid), v)"
  using rid_of_image_inverse [OF loop_rid_facts(1)] by (simp add: copy_from_ids_def loop_os_def)

lemma loop_copy_from_load:
  assumes v: "loop_serves mem e (m, w) v" "bake_pmem_get_region_size sim_env True loop_rid (m, w) = (BAKE_SUCCESS, Some 3)"
    and hp: "hp_handles hp 2 = Some ph" "ph_client ph = 1" "hp_clients hp 1 = Some c" "ph_refcount ph = 1" "3 \<le> ph_eager_limit ph"
  shows "\<exists>st. copy_from_load loop_os loop_client True 2 1 5 id_file out_file 3 (hp, v) = Some (0, st)"
proof -
  obtain v1 where v1: "bake_get_size loop_client c ph sim_tid loop_rid v = ((0, Some 3), v1)" "loop_serves mem e (m, w) v1"
    using loop_get_size [OF v loop_rid_facts(1)] unfolding BAKE_SUCCESS_def by blast
  have "region_size 4096 m = 3" using v(2) by (simp add: bake_pmem_get_region_size_def loop_rid_facts Let_def split: if_splits)
  then have "\<exists>ptr. bake_pmem_read_raw sim_env True loop_rid 0 3 (m, w) = (BAKE_SUCCESS, ptr, 3)"
    by (simp add: bake_pmem_read_raw_def loop_rid_facts Let_def)
  then obtain cnt v2 where v2: "bake_read loop_client c ph sim_tid loop_rid 0 1024 3 v1 = ((0, cnt), v2)"
    using loop_eager_read [OF v1(2) _ loop_rid_facts(1) hp(5)] unfolding BAKE_SUCCESS_def by blast
  have o: "copy_from_output loop_os out_file 3 v1 = (Some (4, 1024), v1)" by (simp add: copy_from_output_def loop_os_def)
  have u: "os_close loop_os fd v = v" "os_munmap loop_os q n v = v" for fd v q n by (simp_all add: loop_os_def)
  obtain hp' where hu: "hang_up loop_os loop_client 2 1 5 (hp, v2) = Some (hp', v2)" using loop_hang_up [OF hp(1-4)] by blast
  show ?thesis using v1(1) v2 o hu hp
    by (simp add: copy_from_load_def handle_objects_def loop_ids_read unmap_file_def on_world2_def Let_def u)
qed

theorem copy_round_trip_witness:
  "\<exists>p hp st st1 region1 v4. copy_to_store loop_os loop_client True 2 1 5 1 512 3 3 (hp, loop_start p) = Some (Inr (sim_tid, loop_rid), st) \<and>
    copy_from_load loop_os loop_client True 2 1 5 (str ''/ids'') (str ''/out'') 3 (hp, snd st) = Some (0, st1) \<and>
    client_load loop_margo region1 3 v4 = [1, 2, 3] \<and> hang_up loop_os loop_client 2 1 5 (hp, v4) = Some st1"
proof -
  obtain p :: "jv bake_provider" and e where p: "pv_ok p" "target_context p = [sim_tid \<mapsto> PmemContext e]"
    "target_ids p = [sim_tid]" "pv_num_targets p = 1" using sim_attach by blast
  have l: "lists_targets [sim_tid] p" using p(3,4) demo_ids(1) by (simp add: lists_targets_def)
  note v = loop_start_serves [OF p(1,2)]
  have h: "lp_host (loop_start p) = (Some p, (demo_memory, sim0))" by (simp add: loop_start_def)
  obtain hp :: client_heap and c ph where hp: "hp_handles hp 2 = Some ph" "ph_client ph = 1" "hp_clients hp 1 = Some c" "ph_refcount ph = 1"
    "3 \<le> ph_eager_limit ph" using loop_connect [of "[]" "[]" "loop_start p"] by blast
  obtain st m2 w2 where st: "copy_to_store loop_os loop_client True 2 1 5 1 512 3 3 (hp, loop_start p) = Some (Inr (sim_tid, loop_rid), st)"
    "loop_serves loop_mem0 e (m2, w2) (snd st)" "bake_pmem_get_region_size sim_env True loop_rid (m2, w2) = (BAKE_SUCCESS, Some 3)"
    using loop_copy_to_store [OF v h l hp] by blast
  obtain st1 where st1: "copy_from_load loop_os loop_client True 2 1 5 (str ''/ids'') (str ''/out'') 3 (hp, snd st) = Some (0, st1)"
    using loop_copy_from_load [OF st(2,3) hp] by blast
  have n: "(0 :: u64) < 3" "unat (3 :: u64) + 8 < 2 ^ 64" "(1 :: u32) \<noteq> 0" by simp_all
  have t: "\<And>t. t \<in> set [sim_tid] \<Longrightarrow> \<exists>e. target_context p t = Some (PmemContext e)" using p(2) by simp
  have i: "fst (copy_from_ids loop_os (str ''/ids'') (snd st)) = Some (sim_tid, loop_rid)" by (simp add: loop_ids_read)
  have lim: "\<forall>c ph. handle_objects 2 hp = Some (c, ph) \<and> 3 \<le> ph_eager_limit ph \<longrightarrow> unat (3 :: u64) < 2 ^ 32" by simp
  from copy_round_trip [OF loop_net_ok loop_laws(1,2) loop_bulk_exposes sim_hg_codes loop_laws(3,4) loop_local h p(1) l t n(1,2) sim_poolset
      n(3) st(1) loop_bulk_shares refl lim i st1]
  obtain fd1 region1 v4 where "client_load loop_margo region1 3 v4 = [1, 2, 3]"
    "hang_up loop_os loop_client 2 1 5 (hp, os_close loop_os fd1 (os_munmap loop_os region1 3 v4)) = Some st1"
    using loop_bytes [OF v] by auto
  moreover have "os_close loop_os fd v = v" "os_munmap loop_os q k v = v" for fd v q k by (simp_all add: loop_os_def)
  ultimately have "client_load loop_margo region1 3 v4 = [1, 2, 3] \<and> hang_up loop_os loop_client 2 1 5 (hp, v4) = Some st1" by simp
  then show ?thesis using st(1) st1 by blast
qed

section \<open>A file system\<close>

text \<open>One temporary file, and the position of the one descriptor.\<close>

record fs =
  fs_data :: "byte list"
  fs_pos :: nat

definition fs_os :: "fs os" where
  "fs_os =
    \<lparr>margo_init = (\<lambda>a srv v. (True, v)), margo_finalize = (\<lambda>v. v), margo_enable_remote_shutdown = (\<lambda>v. v),
     margo_wait_for_finalize = (\<lambda>v. v), file_read = (\<lambda>n v. (None, v)), file_write = (\<lambda>n d v. (True, v)),
     os_open = (\<lambda>n v. (3, v\<lparr>fs_pos := 0\<rparr>)), os_create = (\<lambda>n v. (-1, v)), os_close = (\<lambda>fd v. v),
     os_ftruncate = (\<lambda>fd n v. (-1, v)), os_mmap = (\<lambda>fd n v. (None, v)), os_munmap = (\<lambda>p n v. v),
     os_read = (\<lambda>fd n v. let d = take n (drop (fs_pos v) (fs_data v))
                         in ((int (length d), d), v\<lparr>fs_pos := fs_pos v + length d\<rparr>)),
     os_write = (\<lambda>fd d v. (int (length d), v\<lparr>fs_data := take (fs_pos v) (fs_data v) @ d, fs_pos := fs_pos v + length d\<rparr>)),
     os_mkstemp = (\<lambda>n v. ((3, n), \<lparr>fs_data = [], fs_pos = 0\<rparr>))\<rparr>"

lemma fs_file_calls: "file_calls_ok fs_os (\<lambda>_ bs v. fs_data v = bs) (\<lambda>_ _ p v. fs_pos v = p)"
proof -
  have "take n xs = take (min (length xs) n) xs" for n and xs :: "byte list" by (cases "n \<le> length xs") simp_all
  from this [of _ "drop i xs" for i xs] show ?thesis by (auto simp: file_calls_ok_def fs_os_def Let_def)
qed

theorem copy_ids_roundtrip_witness:
  "\<exists>v3. copy_from_ids fs_os (str ''/tmp/bb-copy-rid.XXXXXX'') (copy_to_save fs_os sim_tid demo_prid \<lparr>fs_data = [], fs_pos = 0\<rparr>) =
     (Some (sim_tid, demo_prid), v3)"
proof -
  let ?name = "str ''/tmp/bb-copy-rid.XXXXXX''" and ?v = "\<lparr>fs_data = [], fs_pos = 0\<rparr>"
  have mk: "os_mkstemp fs_os ?name ?v = ((3, ?name), ?v)" "(0 :: int) \<le> 3" by (simp_all add: fs_os_def)
  obtain tid rid v3 where r: "copy_from_ids fs_os ?name (copy_to_save fs_os sim_tid demo_prid ?v) = (Some (tid, rid), v3)"
    using demo_ids length_rid_image [OF demo_ids(2)] by (simp add: copy_from_ids_def copy_to_save_def fs_os_def Let_def)
  from copy_ids_roundtrip [OF fs_file_calls demo_ids mk _ r] r show ?thesis by simp
qed

end
