(* ===== verification/Spec2Isabelle.thy ===== *)
theory Spec2Isabelle
  imports Bake_Util Align File_Sched File_Ops Pmem_Props Client_Sim Cpp_Server Bedrock_Module Tool_Server Copy_Sim
begin

text \<open>
  Verification of Bake, the service of the Mochi project that stores bulk data in regions of remote
  storage targets.

  \<^bold>\<open>The program.\<close> A provider (\<^verbatim>\<open>src/bake-server.c\<close>) runs in a server process and owns a table of targets.
  A target is a pool of persistent memory (\<^verbatim>\<open>src/bake-pmem-backend.c\<close>) or a log file
  (\<^verbatim>\<open>src/bake-file-backend.c\<close>); a region is an extent of a target, named by an opaque region id. The client
  library (\<^verbatim>\<open>src/bake-client.c\<close>) sends RPCs (\<^verbatim>\<open>src/bake-rpc.h\<close>) that create, write, read, persist, measure,
  remove and migrate regions and list targets. Small data travels inside the message (eager), large data
  by bulk transfers that the server starts, cut into chunks that user level threads move. Around this there
  are the C++ interface (\<^verbatim>\<open>include/*.hpp\<close>), a Bedrock module and command line programs.

  \<^bold>\<open>Conventions.\<close> Machine integers are words of their width, return codes are integers, bytes are 8 bit
  words, memory is a function from addresses to bytes (\<open>extent\<close> reads a range of it, \<open>overlay\<close> writes one).
  A struct is a record, an out parameter that the code leaves unassigned is \<open>None\<close>, and a result \<open>None\<close> or
  the value of a fault type marks what C leaves undefined. The libraries that are not part of the repository
  (margo, mercury, argobots, abt-io, libpmemobj, json-c, jsoncpp, uuid, REMI, the operating system) are
  fields of records of functions over an opaque world: \<open>env\<close> in \<open>Bake_Env\<close>, \<open>margo\<close> and \<open>json\<close> in \<open>Bake_Margo\<close>,
  \<open>hg_proc\<close> in \<open>Bake_Rpc\<close>, \<open>os\<close> in \<open>Tools_Base\<close>, \<open>bench_env\<close> in \<open>Benchmark\<close>. What a theorem needs of them is a
  named hypothesis (\<open>pwrite_ok\<close>, \<open>bulk_ok\<close>, \<open>persist_ok\<close>, \<open>alloc_ok\<close>, \<open>proc_ok\<close>, \<open>net_ok\<close>, \<open>bulk_exposes\<close>, \<open>bulk_shares\<close>, ...), and
  the theories \<open>Bake_Sim\<close>, \<open>Site_Sim\<close>, \<open>Client_Sim\<close>, \<open>Store_Sim\<close> and \<open>Copy_Sim\<close> give concrete instances that satisfy all of
  them and in which the theorems are applied to concrete inputs.

  \<^bold>\<open>Theories and sources.\<close>
  \<^item> \<open>Bake_Prelude\<close>: types, the return codes of \<^verbatim>\<open>include/bake.h\<close>, lemmas on lists, bytes and memory, and the
    locale \<open>byte_codec\<close>.
  \<^item> \<open>Base64\<close>, \<open>Bake_Util\<close>: \<^verbatim>\<open>src/base64/*.c\<close> and \<^verbatim>\<open>src/util.c\<close>. Round trips of the codec and of region ids as
    text; which buffers are too small; which codes have no message.
  \<^item> \<open>Uthash\<close>: the macros of \<^verbatim>\<open>src/uthash.h\<close> that the server uses, with the Jenkins hash, bucket chains and the
    expansion of the table. The locale \<open>keyed_table\<close> is the contract of a table that remembers the order of
    insertion; adding and deleting refine updates of a map.
  \<^item> \<open>Align\<close>, \<open>File_Backend\<close>: the log of the file backend. Regions are fresh, block aligned and disjoint; when
    eager writes report a failure. A creation of size 0 overwrites the last block of the log, and
    \<open>create_steps\<close> interleaves the two parts of \<open>bake_file_create\<close>, of which only the first holds the mutex: the
    extents stay disjoint, but a late second part can overwrite data of a newer region.
  \<^item> \<open>Worker_Pool\<close>: threads that take work from a shared record under a mutex, run by a schedule, which is the
    list of the threads that take the next step. The locales \<open>worker_pool\<close> and \<open>relay_pool\<close> hold the argument that
    the last thread signals once and that every fair schedule ends.
  \<^item> \<open>File_Transfer\<close>, \<open>File_Sched\<close>: \<open>transfer_data\<close> and \<open>xfer_ult\<close> of the file backend as an instance. For requests
    inside their region with something to transfer (\<open>bulk_req\<close>): under every schedule a bulk write or read that
    returns 0 has moved the requested size minus the offset in the client's memory, which are all bytes when that
    offset is 0, and every fair schedule returns. An access of no bytes at a block boundary never does.
  \<^item> \<open>File_Ops\<close>: sequences of all operations of a file target, bulk transfers included. What an eager write stores
    stays readable across operations that leave its region alone.
  \<^item> \<open>Pmem_Backend\<close>, \<open>Pmem_Transfer\<close>, \<open>Pmem_Props\<close>: the persistent memory backend with and without size headers
    and pipelining. Pipelined and direct transfers leave the same memory; raw accesses round trip; what
    create-write-persist makes durable, and when its bulk form reports a success without having stored anything.
  \<^item> \<open>Bake_Rpc\<close>, \<open>Rpc_Props\<close>: the messages and their proc functions; the locale \<open>stream_codec\<close> composes field codecs
    into the round trips of all requests and responses.
  \<^item> \<open>Backend_Init\<close>, \<open>Bake_Backend\<close>: attaching and releasing targets in both backends, migration, and the operation
    tables of \<^verbatim>\<open>src/bake-backend.h\<close> as a sum of contexts with one dispatching function for each operation.
  \<^item> \<open>Provider\<close>, \<open>Provider_Register\<close>, \<open>Provider_Props\<close>: the provider of \<^verbatim>\<open>src/bake-server.c\<close> with its configuration
    (\<^verbatim>\<open>src/bake-macros.h\<close>), targets, buffer pools, locks and registration. Attaching and detaching refine updates
    of a map from target ids to contexts; the configuration is completed and typed; known defects are proved.
  \<^item> \<open>Server\<close>, \<open>Server_Props\<close>: the fifteen RPC handlers. The locale \<open>rpc_service\<close> is the contract of a handler: it keeps
    the provider invariant, releases its locks, answers and destroys the handle once. A call with an argument that
    the code has not set is undefined in C: the list of the calls of a handler ends with it, the handler counts as not
    having answered, and a session of requests stops in front of it. Unknown targets and providers.
  \<^item> \<open>Client\<close>, \<open>Client_Rpc\<close>, \<open>Client_Props\<close>, \<open>Client_Handles\<close>: the client library. No operation leaks an RPC or bulk
    handle; the locale \<open>ref_counting\<close> shows that counted references never dangle.
  \<^item> \<open>Transport\<close>, \<open>End_To_End\<close>, \<open>Client_Store\<close>, \<open>Client_Load\<close>: client and server connected by \<open>net_ok\<close>, which says that a forwarded
    request whose handler has no undefined call is decoded, handled and its response returned. The handler is the
    one that takes the struct of the request: that its RPC id leads there is part of \<open>net_ok\<close>, and
    \<open>client_rpcs_served\<close> shows that client and server register the same names. A write of the client changes exactly the
    requested bytes of a persistent memory target, a read returns them, eager below 2^32 bytes or pushed through a bulk handle, and
    create, write and persist make them durable.
  \<^item> \<open>Cpp_Types\<close>, \<open>Cpp_Client\<close>, \<open>Cpp_Handles\<close>, \<open>Cpp_Probe\<close>, \<open>Cpp_Server\<close>: the C++ interface. Objects are addresses into a store
    of members; programs over \<open>provider_handle\<close> keep exact reference counts; \<open>client::probe\<close> ends with
    all targets, followed by indeterminate ids when the counter of the provider exceeds their number.
  \<^item> \<open>Bedrock_Module\<close>: \<^verbatim>\<open>src/bake-bedrock-module.c\<close>; a failure of the library is reported to Bedrock.
  \<^item> \<open>Tools_Base\<close>, \<open>Tool_Server\<close>, \<open>Tool_Copy\<close>, \<open>Copy_Props\<close>, \<open>Copy_Roundtrip\<close>: \<^verbatim>\<open>bake-mkpool\<close>, \<^verbatim>\<open>bake-server-daemon\<close>, \<^verbatim>\<open>bake-copy-to\<close>,
    \<^verbatim>\<open>bake-copy-from\<close> and \<^verbatim>\<open>bake-shutdown\<close>. Sizes with suffixes modulo 2^64, the options of the daemon, and that
    an exit code 0 of \<^verbatim>\<open>bake-copy-to\<close> means a durable copy of the file, which \<^verbatim>\<open>bake-copy-from\<close> brings back with the
    identifiers from the file that the first program leaves behind.
  \<^item> \<open>Benchmark\<close>, \<open>Benchmark_Props\<close>: the program \<^verbatim>\<open>src/bake-benchmark.cc\<close> from its classes to \<open>main\<close>, with the
    arithmetic of times as parameters; accesses stay inside what was set up, and the quartiles of a report are ordered.

  \<^bold>\<open>Termination.\<close> Loops of the code are structural recursions or functions with a measure, so they end by
  definition. Two kinds may not: the waiting for transfer threads, where a run takes a schedule and \<open>None\<close> means
  that the schedule ended before the caller was signalled, and the loop of \<open>client::probe\<close>, a partial function. For
  the first kind \<open>file_write_bulk_completes\<close>, \<open>file_read_bulk_completes\<close> and \<open>pmem_pipeline_equiv\<close> give the number of
  turns of each thread after which every schedule is long enough: no interleaving is excluded. For the
  second \<open>cpp_probe_complete\<close> shows the result. No other bound or fuel occurs.

  \<^bold>\<open>Not modelled.\<close> Messages to the user and log output; \<^verbatim>\<open>src/bake-timing.h\<close>, whose timers only print; the
  macros of \<^verbatim>\<open>src/uthash.h\<close> that the server does not use (other hash functions, sorting, selection, bloom
  filters, consistency checks); the declarations without code in the C headers; the test programs. The
  interleaving of different RPC handlers is modelled as a sequence of handlers, each of which runs under
  the lock of the provider that the code takes; the interleaving inside one bulk transfer is modelled step by step,
  and that of concurrent creations of file regions by the two steps of each.
\<close>

end
